(* ===== verification/Prelude.thy ===== *)
theory Prelude
  imports Complex_Main
begin

text \<open>
  What the components share: the closed set of error codes and the error families of
  \<^verbatim>\<open>core/errors/app-error.ts\<close>, results as sums, database tables as lists of rows with the
  queries the services use (\<open>findUnique\<close>, \<open>updateMany\<close>, \<open>count\<close>, paged \<open>findMany\<close>),
  the width of a PostgreSQL \<open>INTEGER\<close> column, and the interfaces (locales) that several
  components implement: a guarded operation system with an invariant, a running total over an
  append-only history, and a marker that is written at most once.
\<close>

named_theorems table_simps "lookups and updates of table rows"
named_theorems inv_intros "preservation of component invariants"

type_synonym id = nat
type_synonym millis = int

section \<open>Error codes and error values\<close>

text \<open>The stable codes of \<^verbatim>\<open>packages/contracts/src/errors.ts\<close>, in the file's order.\<close>

datatype (plugins only: code size) error_code =
    VALIDATION_FAILED | NOT_FOUND | UNAUTHENTICATED | FORBIDDEN | RATE_LIMITED
  | INTERNAL_ERROR | SERVICE_UNAVAILABLE
  | AUTH_INVALID_CREDENTIALS | AUTH_EMAIL_TAKEN | AUTH_WEAK_PASSWORD | AUTH_TOKEN_INVALID
  | AUTH_REFRESH_INVALID | AUTH_ACCOUNT_INACTIVE
  | USER_NOT_FOUND | USER_INVALID_STATUS_TRANSITION | ADMIN_SELF_ACTION_FORBIDDEN
  | USER_ROLE_UNCHANGED | ADMIN_LAST_ADMIN_PROTECTED
  | PROVIDER_NOT_FOUND | PROVIDER_SLUG_TAKEN | PROVIDER_UNKNOWN_SLUG | PROVIDER_DISABLED
  | PROVIDER_INVALID_CONFIGURATION | PROVIDER_CAPABILITY_UNSUPPORTED | PROVIDER_UNAVAILABLE_CODE
  | PROVIDER_RATE_LIMITED | PROVIDER_AUTH_FAILED | PROVIDER_RESPONSE_INVALID
  | OFFER_NOT_FOUND | OFFER_INVALID_STATE_TRANSITION | CATALOG_SYNC_FAILED
  | CLICK_NOT_FOUND | CLICK_OFFER_UNAVAILABLE | CLICK_RATE_LIMIT_EXCEEDED
  | CLICK_SUB_ID_INVALID | CLICK_ATTRIBUTION_EXPIRED
  | POSTBACK_SIGNATURE_INVALID | POSTBACK_SOURCE_NOT_ALLOWED | POSTBACK_PAYLOAD_INVALID
  | POSTBACK_NOT_FOUND
  | CONVERSION_NOT_FOUND | CONVERSION_PROCESSING_FAILED
  | REWARD_INSUFFICIENT_BALANCE | REWARD_TRANSACTION_NOT_FOUND | REWARD_INVALID_OPERATION
  | PAYOUT_NOT_FOUND | PAYOUT_INVALID_TRANSITION | PAYOUT_AMOUNT_OUT_OF_RANGE
  | PAYOUT_METHOD_UNSUPPORTED | PAYOUT_DESTINATION_INVALID | PAYOUT_DAILY_LIMIT_REACHED
  | FRAUD_EVALUATION_NOT_FOUND | FRAUD_CONVERSION_NOT_HELD
  | CONFIG_UNKNOWN_KEY | CONFIG_INVALID_VALUE | CONFIG_INVALID_SCOPE | CONFIG_STALE_WRITE

text \<open>
  What an operation can throw. The first three are the families of \<^verbatim>\<open>app-error.ts\<close>
  (a \<open>ValidationError\<close> names the offending fields; the others carry their HTTP status);
  the last three are what the database raises and no service catches: a unique constraint
  (\<open>P2002\<close>), an \<open>INTEGER\<close> column out of range, and an update of a row that is not there
  (\<open>P2025\<close>).
\<close>

datatype app_error =
    ValidationError "string list"
  | DomainError error_code nat
  | InfrastructureError error_code nat bool
  | UniqueViolation
  | OutOfRange
  | RecordMissing

type_synonym 'a result = "app_error + 'a"

section \<open>PostgreSQL INTEGER columns\<close>

text \<open>Every \<open>Int\<close> field of \<^verbatim>\<open>prisma/schema.prisma\<close> is a 32-bit signed column.\<close>

definition int4 :: "int \<Rightarrow> bool" where
  "int4 n \<longleftrightarrow> - (2 ^ 31) \<le> n \<and> n < 2 ^ 31"

lemma int4_0 [simp]: "int4 0"
  by (simp add: int4_def)

section \<open>JavaScript strings and JSON\<close>

text \<open>
  A string is a list of characters standing for Latin-1 code units. \<open>trim\<close> strips the
  whitespace of that range (U+0009..U+000D, U+0020, U+00A0) and \<open>toLowerCase\<close> maps
  \<open>A..Z\<close> and the accented capitals U+00C0..U+00DE without the multiplication sign.
\<close>

definition code_unit :: "char \<Rightarrow> nat" where
  "code_unit c = of_char c"

definition js_space :: "char \<Rightarrow> bool" where
  "js_space c = (let n = code_unit c in (9 \<le> n \<and> n \<le> 13) \<or> n = 32 \<or> n = 160)"

definition js_trim :: "string \<Rightarrow> string" where
  "js_trim s = rev (dropWhile js_space (rev (dropWhile js_space s)))"

definition js_upper :: "nat \<Rightarrow> bool" where
  "js_upper n \<longleftrightarrow> (65 \<le> n \<and> n \<le> 90) \<or> (192 \<le> n \<and> n \<le> 222 \<and> n \<noteq> 215)"

definition js_lower_char :: "char \<Rightarrow> char" where
  "js_lower_char c = (let n = code_unit c in if js_upper n then char_of (n + 32) else c)"

definition js_lower :: "string \<Rightarrow> string" where
  "js_lower s = map js_lower_char s"

text \<open>\<open>toUpperCase\<close> on the same range, without the three characters (U+00B5, U+00DF, U+00FF)
  whose upper case lies outside it.\<close>

definition js_upper_char :: "char \<Rightarrow> char" where
  "js_upper_char c = (let n = code_unit c in
     if (97 \<le> n \<and> n \<le> 122) \<or> (224 \<le> n \<and> n \<le> 254 \<and> n \<noteq> 247) then char_of (n - 32) else c)"

definition js_to_upper :: "string \<Rightarrow> string" where
  "js_to_upper s = map js_upper_char s"

lemma js_lower_char_code:
  "code_unit (js_lower_char c) = (let n = code_unit c in if js_upper n then n + 32 else n)"
  by (auto simp: js_lower_char_def code_unit_def Let_def of_char_of js_upper_def)

lemma js_lower_char_idem [simp]: "js_lower_char (js_lower_char c) = js_lower_char c"
proof -
  have "\<not> js_upper (code_unit (js_lower_char c))"
    by (auto simp: js_lower_char_code Let_def js_upper_def)
  then show ?thesis by (simp add: js_lower_char_def [of "js_lower_char c"])
qed

lemma js_lower_idem [simp]: "js_lower (js_lower s) = js_lower s"
  by (simp add: js_lower_def)

lemma js_space_lower [simp]: "js_space (js_lower_char c) = js_space c"
  using js_lower_char_code [of c] by (auto simp: js_space_def Let_def js_upper_def split: if_splits)

lemma dropWhile_idem_head: "dropWhile p xs = [] \<or> \<not> p (hd (dropWhile p xs))"
  by (induction xs) auto

lemma js_trim_edges:
  "js_trim s = [] \<or> (\<not> js_space (hd (js_trim s)) \<and> \<not> js_space (last (js_trim s)))"
proof -
  define a where "a = dropWhile js_space s"
  define b where "b = dropWhile js_space (rev a)"
  have t: "js_trim s = rev b" by (simp add: js_trim_def a_def b_def)
  have b: "b = [] \<or> \<not> js_space (hd b)" unfolding b_def by (rule dropWhile_idem_head)
  have a: "a = [] \<or> \<not> js_space (hd a)" unfolding a_def by (rule dropWhile_idem_head)
  obtain c where c: "rev a = c @ b" unfolding b_def by (metis takeWhile_dropWhile_id)
  have "last b = hd a" if "b \<noteq> []"
    using that c by (metis last_appendR last_rev rev_is_Nil_conv append_is_Nil_conv rev_rev_ident hd_rev)
  moreover have "a \<noteq> []" if "b \<noteq> []"
    using that c by auto
  ultimately show ?thesis
    using a b by (cases "b = []") (auto simp: t hd_rev last_rev)
qed

lemma js_trim_id: "s = [] \<or> (\<not> js_space (hd s) \<and> \<not> js_space (last s)) \<Longrightarrow> js_trim s = s"
proof (cases "s = []")
  case False
  assume "s = [] \<or> (\<not> js_space (hd s) \<and> \<not> js_space (last s))"
  with False have h: "\<not> js_space (hd s)" "\<not> js_space (last s)" by auto
  have "dropWhile js_space s = s" using h(1) False by (cases s) auto
  moreover have "dropWhile js_space (rev s) = rev s"
    using h(2) False by (cases "rev s") (auto simp: last_rev hd_rev)
  ultimately show ?thesis by (simp add: js_trim_def)
qed (simp add: js_trim_def)

lemma js_trim_idem [simp]: "js_trim (js_trim s) = js_trim s"
  by (rule js_trim_id) (rule js_trim_edges)

lemma js_trim_subset: "set (js_trim s) \<subseteq> set s"
  by (auto simp: js_trim_def dest!: set_dropWhileD)

datatype (plugins only: code size) json =
    JNull | JBool bool | JNum rat | JStr string | JArr "json list" | JObj "(string \<times> json) list"

section \<open>Tables as lists of rows\<close>

text \<open>\<open>findUnique\<close> and \<open>findFirst\<close> are \<^const>\<open>List.find\<close>; \<open>update\<close> and
  \<open>updateMany\<close> rewrite the rows a predicate selects; \<open>count\<close> counts them.\<close>

definition update_where :: "('r \<Rightarrow> bool) \<Rightarrow> ('r \<Rightarrow> 'r) \<Rightarrow> 'r list \<Rightarrow> 'r list" where
  "update_where p f = map (\<lambda>r. if p r then f r else r)"

definition count_where :: "('r \<Rightarrow> bool) \<Rightarrow> 'r list \<Rightarrow> nat" where
  "count_where p rows = length (filter p rows)"

lemma find_append [table_simps]:
  "List.find p (xs @ ys) = (case List.find p xs of None \<Rightarrow> List.find p ys | Some x \<Rightarrow> Some x)"
  by (induction xs) auto

lemma find_SomeD: "List.find p xs = Some x \<Longrightarrow> x \<in> set xs \<and> p x"
  by (induction xs) (auto split: if_splits)

lemma find_NoneD: "List.find p xs = None \<Longrightarrow> x \<in> set xs \<Longrightarrow> \<not> p x"
  by (induction xs) (auto split: if_splits)

lemma find_None_filter: "List.find p xs = None \<longleftrightarrow> filter p xs = []"
  by (induction xs) auto

lemma find_update_where:
  assumes "\<And>r. p r \<Longrightarrow> q (f r) = q r"
  shows "List.find q (update_where p f xs)
    = map_option (\<lambda>r. if p r then f r else r) (List.find q xs)"
  using assms by (induction xs) (auto simp: update_where_def)

lemma map_update_where [table_simps]:
  "(\<And>r. g (f r) = g r) \<Longrightarrow> map g (update_where p f xs) = map g xs"
  by (induction xs) (auto simp: update_where_def)

lemma length_update_where [simp]: "length (update_where p f xs) = length xs"
  by (simp add: update_where_def)

lemma set_update_where: "set (update_where p f xs) = (\<lambda>r. if p r then f r else r) ` set xs"
  by (simp add: update_where_def)

lemma update_where_Nil [simp]: "update_where p f [] = []"
  by (simp add: update_where_def)

lemma update_where_Cons [simp]:
  "update_where p f (x # xs) = (if p x then f x else x) # update_where p f xs"
  by (simp add: update_where_def)

lemma update_where_append [simp]:
  "update_where p f (xs @ ys) = update_where p f xs @ update_where p f ys"
  by (simp add: update_where_def)

lemma distinct_key_unique:
  "distinct (map key rows) \<Longrightarrow> x \<in> set rows \<Longrightarrow> y \<in> set rows \<Longrightarrow> key x = key y \<Longrightarrow> x = y"
  by (simp add: distinct_map inj_on_def)

lemma find_key_eq:
  assumes "distinct (map key rows)" and "r \<in> set rows"
  shows "List.find (\<lambda>x. key x = key r) rows = Some r"
  using assms by (induction rows) (force split: if_splits)+

lemma count_where_append [simp]:
  "count_where p (xs @ ys) = count_where p xs + count_where p ys"
  by (simp add: count_where_def)

lemma count_where_Nil [simp]: "count_where p [] = 0"
  by (simp add: count_where_def)

lemma count_where_Cons [simp]:
  "count_where p (x # xs) = (if p x then Suc (count_where p xs) else count_where p xs)"
  by (simp add: count_where_def)

lemma count_where_0_iff: "count_where p xs = 0 \<longleftrightarrow> (\<forall>x\<in>set xs. \<not> p x)"
  by (simp add: count_where_def filter_empty_conv)

section \<open>Paging\<close>

text \<open>Every list endpoint clamps its limit to \<open>1 .. max\<close> and its offset to \<open>0 ..\<close>,
  and reads one page of the filtered, ordered rows beside the count of all of them.\<close>

definition clampLimit :: "int \<Rightarrow> int \<Rightarrow> int option \<Rightarrow> int" where
  "clampLimit dflt mx requested =
     (case requested of None \<Rightarrow> dflt | Some n \<Rightarrow> min (max 1 n) mx)"

definition clampOffset :: "int option \<Rightarrow> int" where
  "clampOffset offset = max 0 (case offset of None \<Rightarrow> 0 | Some n \<Rightarrow> n)"

record 'r paginated =
  items :: "'r list"
  total :: nat
  page_limit :: int
  page_offset :: int

definition page :: "int \<Rightarrow> int \<Rightarrow> 'r list \<Rightarrow> 'r paginated" where
  "page limit offset rows = \<lparr>items = take (nat limit) (drop (nat offset) rows),
     total = length rows, page_limit = limit, page_offset = offset\<rparr>"

lemma clampLimit_bounds:
  "1 \<le> dflt \<Longrightarrow> dflt \<le> mx \<Longrightarrow> 1 \<le> clampLimit dflt mx n \<and> clampLimit dflt mx n \<le> mx"
  by (auto simp: clampLimit_def split: option.splits)

lemma page_items_length: "length (items (page limit offset rows)) \<le> nat limit"
  by (simp add: page_def)

lemma page_items_subset: "set (items (page limit offset rows)) \<subseteq> set rows"
  by (auto simp: page_def dest: in_set_takeD in_set_dropD)

section \<open>Sums over a history\<close>

definition sum_for :: "('r \<Rightarrow> id) \<Rightarrow> ('r \<Rightarrow> int) \<Rightarrow> id \<Rightarrow> 'r list \<Rightarrow> int" where
  "sum_for owner delta u rows = sum_list (map delta (filter (\<lambda>r. owner r = u) rows))"

lemma sum_for_Nil [simp]: "sum_for owner delta u [] = 0"
  by (simp add: sum_for_def)

lemma sum_for_snoc [simp]:
  "sum_for owner delta u (rows @ [r])
     = sum_for owner delta u rows + (if owner r = u then delta r else 0)"
  by (simp add: sum_for_def)

lemma sum_for_absent: "(\<And>r. r \<in> set rows \<Longrightarrow> owner r \<noteq> u) \<Longrightarrow> sum_for owner delta u rows = 0"
  by (induction rows) (auto simp: sum_for_def)

section \<open>Interfaces shared by the components\<close>

text \<open>
  A component's operations as guarded transitions: an operation either refuses with an error
  and changes nothing, or moves to a new state. What is checked once here is that an invariant
  every accepted operation keeps holds after every run, however the operations are ordered and
  whichever of them are refused.
\<close>

fun run_ops :: "('s \<Rightarrow> 'op \<Rightarrow> 'e + 's) \<Rightarrow> 's \<Rightarrow> 'op list \<Rightarrow> 's" where
  "run_ops exec s [] = s"
| "run_ops exec s (x # xs) =
     (case exec s x of Inl _ \<Rightarrow> run_ops exec s xs | Inr s' \<Rightarrow> run_ops exec s' xs)"

lemma run_ops_keeps:
  assumes "\<And>s s' x. exec s x = Inr s' \<Longrightarrow> P s \<Longrightarrow> P s'" and "P s"
  shows "P (run_ops exec s xs)"
  using assms(2)
proof (induction xs arbitrary: s)
  case (Cons x xs)
  then show ?case using assms(1) [of s x] by (cases "exec s x") simp_all
qed simp

locale guarded_system =
  fixes exec :: "'s \<Rightarrow> 'op \<Rightarrow> 'e + 's"
    and init :: 's
    and inv :: "'s \<Rightarrow> bool"
  assumes inv_init: "inv init"
    and inv_exec: "inv s \<Longrightarrow> exec s x = Inr s' \<Longrightarrow> inv s'"
begin

lemma inv_run_from: "inv s \<Longrightarrow> inv (run_ops exec s xs)"
  by (induction xs arbitrary: s) (auto split: sum.splits intro: inv_exec)

lemma inv_run: "inv (run_ops exec init xs)"
  by (rule inv_run_from [OF inv_init])

end

text \<open>
  A column that is kept beside an append-only history: every write appends one row and moves
  its owner's column by that row's delta. Such a column is the sum of the history.
\<close>

locale running_total =
  fixes rows :: "'s \<Rightarrow> 'r list"
    and owner :: "'r \<Rightarrow> id"
    and delta :: "'r \<Rightarrow> int"
    and column :: "'s \<Rightarrow> id \<Rightarrow> int option"
    and post :: "'s \<Rightarrow> 'r \<Rightarrow> 's \<Rightarrow> bool"
  assumes post_rows: "post s r s' \<Longrightarrow> rows s' = rows s @ [r]"
    and post_column: "post s r s' \<Longrightarrow>
      column s' u = (if owner r = u then map_option (\<lambda>x. x + delta r) (column s u) else column s u)"
begin

lemma explained_post:
  assumes "\<And>u x. column s u = Some x \<Longrightarrow> x = sum_for owner delta u (rows s)"
    and "post s r s'" and "column s' u = Some x"
  shows "x = sum_for owner delta u (rows s')"
  using assms(1) [of u] assms(3)
  by (auto simp: post_rows [OF assms(2)] post_column [OF assms(2)] split: if_splits)

end

text \<open>
  A row that acts upon an earlier row (a chargeback on a credit, a settlement on a lock) and may
  be written only when no such row exists yet.
\<close>

definition acts_on :: "('r \<Rightarrow> bool) \<Rightarrow> ('r \<Rightarrow> id option) \<Rightarrow> id \<Rightarrow> 'r list \<Rightarrow> nat" where
  "acts_on kind src i rows = count_where (\<lambda>r. kind r \<and> src r = Some i) rows"

locale acts_once =
  fixes rows :: "'s \<Rightarrow> 'r list"
    and kind :: "'r \<Rightarrow> bool"
    and src :: "'r \<Rightarrow> id option"
    and post :: "'s \<Rightarrow> 'r \<Rightarrow> 's \<Rightarrow> bool"
  assumes post_appends: "post s r s' \<Longrightarrow> rows s' = rows s @ [r]"
    and post_guarded: "post s r s' \<Longrightarrow> kind r \<Longrightarrow> src r = Some i \<Longrightarrow> acts_on kind src i (rows s) = 0"
begin

lemma once_post:
  assumes "\<And>i. acts_on kind src i (rows s) \<le> 1" and "post s r s'"
  shows "acts_on kind src i (rows s') \<le> 1"
  using assms(1) [of i] post_guarded [OF assms(2), of i]
  by (auto simp: post_appends [OF assms(2)] acts_on_def)

end

end
