(* ===== verification/Rewards.thy ===== *)
theory Rewards
  imports Prelude
begin

text \<open>
  The reward ledger: \<^verbatim>\<open>packages/contracts/src/rewards.ts\<close> and
  \<^verbatim>\<open>apps/api/src/modules/rewards/reward-accounting.service.ts\<close>. The state is the two tables
  the service owns, \<open>user_balances\<close> (a mutable row of three buckets per user) and
  \<open>reward_transactions\<close> (append-only). An operation runs in one database transaction, so it
  is a function from the tables to an error or to the row it wrote and the new tables. Fresh ids
  (\<open>uuidv7()\<close>), the clock and the configured hold period are arguments.
\<close>

section \<open>Data: the contract's closed sets and the two tables\<close>

datatype reward_transaction_type =
    CONVERSION_CREDIT | CHARGEBACK_DEBIT | REWARD_MATURATION | PAYOUT_LOCK | PAYOUT_SETTLE
  | PAYOUT_REFUND | MANUAL_ADJUSTMENT | BONUS

datatype reward_actor_type = ACTOR_USER | ACTOR_SYSTEM | ACTOR_ADMIN

datatype reward_source_type = SOURCE_CONVERSION | SOURCE_PAYOUT | SOURCE_ADMIN | SOURCE_SYSTEM

record reward_actor =
  actorType :: reward_actor_type
  actorId :: "id option"

record reward_source =
  sourceType :: reward_source_type
  sourceId :: "id option"
  sourceLabel :: "string option"

record reward_transaction =
  txId :: id
  txUserId :: id
  txType :: reward_transaction_type
  txAmountPoints :: int
  txPendingDelta :: int
  txAvailableDelta :: int
  txLockedDelta :: int
  txSourceType :: reward_source_type
  txSourceId :: "id option"
  txSourceLabel :: "string option"
  txSourceTransactionId :: "id option"
  txActorType :: reward_actor_type
  txActorId :: "id option"
  txReason :: "string option"
  txMaturesAt :: "millis option"
  txHoldPeriodDays :: "int option"
  txCreatedAt :: millis

record user_balance =
  balId :: id
  balUserId :: id
  pendingPoints :: int
  availablePoints :: int
  lockedPoints :: int
  lifetimeEarnedPoints :: int
  lifetimeWithdrawnPoints :: int
  lifetimeReversedPoints :: int
  balVersion :: int

record ledger =
  balances :: "user_balance list"
  transactions :: "reward_transaction list"

definition empty_ledger :: ledger where
  "empty_ledger = \<lparr>balances = [], transactions = []\<rparr>"

text \<open>The service's internal \<open>Movement\<close>; the three \<open>lifetime\<close> fields are optional.\<close>

record movement =
  mvUserId :: id
  mvType :: reward_transaction_type
  mvAmountPoints :: int
  mvPendingDelta :: int
  mvAvailableDelta :: int
  mvLockedDelta :: int
  mvSource :: reward_source
  mvSourceTransactionId :: "id option"
  mvActor :: reward_actor
  mvReason :: "string option"
  mvMaturesAt :: "millis option"
  mvHoldPeriodDays :: "int option"
  mvEarned :: "int option"
  mvWithdrawn :: "int option"
  mvReversed :: "int option"
  mvAt :: millis

section \<open>Internals: argument check, row lock, and the paired write\<close>

definition requirePositive :: "rat \<Rightarrow> int result" where
  "requirePositive amountPoints =
     (if of_int \<lfloor>amountPoints\<rfloor> \<noteq> amountPoints \<or> amountPoints \<le> 0
      then Inl (ValidationError [''amountPoints'']) else Inr \<lfloor>amountPoints\<rfloor>)"

definition or_zero :: "int option \<Rightarrow> int" where
  "or_zero n = (case n of None \<Rightarrow> 0 | Some k \<Rightarrow> k)"

definition findBalance :: "ledger \<Rightarrow> id \<Rightarrow> user_balance option" where
  "findBalance l u = List.find (\<lambda>b. balUserId b = u) (balances l)"

definition findTransaction :: "ledger \<Rightarrow> id \<Rightarrow> reward_transaction option" where
  "findTransaction l t = List.find (\<lambda>r. txId r = t) (transactions l)"

text \<open>\<open>SELECT ... FOR UPDATE\<close> on the user's balance row; a missing row is refused.\<close>

definition lockBalance :: "ledger \<Rightarrow> id \<Rightarrow> user_balance result" where
  "lockBalance l u =
     (case findBalance l u of
        None \<Rightarrow> Inl (DomainError USER_NOT_FOUND 404)
      | Some b \<Rightarrow> Inr b)"

definition created_row :: "id \<Rightarrow> movement \<Rightarrow> reward_transaction" where
  "created_row i m = \<lparr>txId = i, txUserId = mvUserId m, txType = mvType m,
     txAmountPoints = mvAmountPoints m, txPendingDelta = mvPendingDelta m,
     txAvailableDelta = mvAvailableDelta m, txLockedDelta = mvLockedDelta m,
     txSourceType = sourceType (mvSource m), txSourceId = sourceId (mvSource m),
     txSourceLabel = sourceLabel (mvSource m), txSourceTransactionId = mvSourceTransactionId m,
     txActorType = actorType (mvActor m), txActorId = actorId (mvActor m),
     txReason = mvReason m, txMaturesAt = mvMaturesAt m, txHoldPeriodDays = mvHoldPeriodDays m,
     txCreatedAt = mvAt m\<rparr>"

definition moved_balance :: "movement \<Rightarrow> user_balance \<Rightarrow> user_balance" where
  "moved_balance m b = b\<lparr>
     pendingPoints := pendingPoints b + mvPendingDelta m,
     availablePoints := availablePoints b + mvAvailableDelta m,
     lockedPoints := lockedPoints b + mvLockedDelta m,
     lifetimeEarnedPoints := lifetimeEarnedPoints b + or_zero (mvEarned m),
     lifetimeWithdrawnPoints := lifetimeWithdrawnPoints b + or_zero (mvWithdrawn m),
     lifetimeReversedPoints := lifetimeReversedPoints b + or_zero (mvReversed m),
     balVersion := balVersion b + 1\<rparr>"

definition row_in_range :: "reward_transaction \<Rightarrow> bool" where
  "row_in_range r \<longleftrightarrow> int4 (txAmountPoints r) \<and> int4 (txPendingDelta r)
     \<and> int4 (txAvailableDelta r) \<and> int4 (txLockedDelta r)"

definition balance_in_range :: "user_balance \<Rightarrow> bool" where
  "balance_in_range b \<longleftrightarrow> int4 (pendingPoints b) \<and> int4 (availablePoints b) \<and> int4 (lockedPoints b)
     \<and> int4 (lifetimeEarnedPoints b) \<and> int4 (lifetimeWithdrawnPoints b)
     \<and> int4 (lifetimeReversedPoints b) \<and> int4 (balVersion b)"

text \<open>
  The history row and the balance update, together. The primary key and the 32-bit columns are
  the database's own checks; when one fails the transaction rolls back.
\<close>

definition writeMovement :: "ledger \<Rightarrow> id \<Rightarrow> movement \<Rightarrow> user_balance \<Rightarrow> (reward_transaction \<times> ledger) result" where
  "writeMovement l i m b =
     (let row = created_row i m; bal = moved_balance m b in
      if i \<in> set (map txId (transactions l)) then Inl UniqueViolation
      else if \<not> row_in_range row \<or> \<not> balance_in_range bal then Inl OutOfRange
      else Inr (row, \<lparr>balances = update_where (\<lambda>x. balId x = balId b) (moved_balance m) (balances l),
                      transactions = transactions l @ [row]\<rparr>))"

definition mutate :: "ledger \<Rightarrow> id \<Rightarrow> movement \<Rightarrow> (reward_transaction \<times> ledger) result" where
  "mutate l i m =
     (case lockBalance l (mvUserId m) of
        Inl e \<Rightarrow> Inl e
      | Inr b \<Rightarrow> writeMovement l i (m\<lparr>mvSourceTransactionId := None\<rparr>) b)"

section \<open>Mutations\<close>

text \<open>\<open>createMany\<close> with \<open>skipDuplicates\<close>: an existing row is left alone.\<close>

definition openAccount :: "ledger \<Rightarrow> id \<Rightarrow> id \<Rightarrow> ledger" where
  "openAccount l i u =
     (if i \<in> set (map balId (balances l)) \<or> u \<in> set (map balUserId (balances l)) then l
      else l\<lparr>balances := balances l @ [\<lparr>balId = i, balUserId = u, pendingPoints = 0,
             availablePoints = 0, lockedPoints = 0, lifetimeEarnedPoints = 0,
             lifetimeWithdrawnPoints = 0, lifetimeReversedPoints = 0, balVersion = 0\<rparr>]\<rparr>)"

record credit_input =
  crUserId :: id
  crAmountPoints :: rat
  crSource :: reward_source
  crActor :: "reward_actor option"
  crReason :: "string option"
  crHoldScopeProviderId :: "id option"
  crHoldIndefinitely :: bool
  crBonus :: bool

definition system_actor :: reward_actor where
  "system_actor = \<lparr>actorType = ACTOR_SYSTEM, actorId = None\<rparr>"

definition admin_actor :: "id option \<Rightarrow> reward_actor" where
  "admin_actor a = \<lparr>actorType = ACTOR_ADMIN, actorId = a\<rparr>"

definition dayMs :: int where
  "dayMs = 24 * 60 * 60 * 1000"

text \<open>
  \<open>credit\<close>: the points land in \<open>pending\<close>. \<open>holdDays\<close> is the configured
  \<open>rewards.hold_period_days\<close> for the provider scope, read before the transaction opens; an
  indefinite hold has no maturity date at all.
\<close>

definition credit :: "(id option \<Rightarrow> int) \<Rightarrow> ledger \<Rightarrow> id \<Rightarrow> millis \<Rightarrow> credit_input
    \<Rightarrow> (reward_transaction \<times> ledger) result" where
  "credit holdDays l i now input =
     (case requirePositive (crAmountPoints input) of
        Inl e \<Rightarrow> Inl e
      | Inr amount \<Rightarrow>
          let holdPeriodDays = (if crHoldIndefinitely input then None
                                else Some (holdDays (crHoldScopeProviderId input)));
              maturesAt = map_option (\<lambda>d. now + d * dayMs) holdPeriodDays
          in mutate l i
            \<lparr>mvUserId = crUserId input,
             mvType = (if crBonus input then BONUS else CONVERSION_CREDIT),
             mvAmountPoints = amount, mvPendingDelta = amount, mvAvailableDelta = 0,
             mvLockedDelta = 0, mvSource = crSource input, mvSourceTransactionId = None,
             mvActor = (case crActor input of None \<Rightarrow> system_actor | Some a \<Rightarrow> a),
             mvReason = crReason input, mvMaturesAt = maturesAt,
             mvHoldPeriodDays = holdPeriodDays, mvEarned = Some amount, mvWithdrawn = None,
             mvReversed = None, mvAt = now\<rparr>)"

record debit_input =
  dbUserId :: id
  dbAmountPoints :: rat
  dbSource :: reward_source
  dbActor :: "reward_actor option"
  dbReason :: "string option"

definition debit :: "ledger \<Rightarrow> id \<Rightarrow> millis \<Rightarrow> debit_input
    \<Rightarrow> (reward_transaction \<times> ledger) result" where
  "debit l i now input =
     (case requirePositive (dbAmountPoints input) of
        Inl e \<Rightarrow> Inl e
      | Inr amount \<Rightarrow> mutate l i
            \<lparr>mvUserId = dbUserId input, mvType = MANUAL_ADJUSTMENT,
             mvAmountPoints = - amount, mvPendingDelta = 0, mvAvailableDelta = - amount,
             mvLockedDelta = 0, mvSource = dbSource input, mvSourceTransactionId = None,
             mvActor = (case dbActor input of None \<Rightarrow> admin_actor None | Some a \<Rightarrow> a),
             mvReason = dbReason input, mvMaturesAt = None, mvHoldPeriodDays = None,
             mvEarned = None, mvWithdrawn = None, mvReversed = None, mvAt = now\<rparr>)"

text \<open>
  \<open>reverse\<close>, a chargeback. The checks (the credit exists, it added points, nothing has
  reversed it) come first and the balance lock after them, so the operation is written as the
  code orders it: \<open>reverseCheck\<close>, then \<open>reverseCommit\<close> under the lock.
\<close>

definition acted :: "ledger \<Rightarrow> id \<Rightarrow> reward_transaction_type list \<Rightarrow> reward_transaction option" where
  "acted l t kinds =
     List.find (\<lambda>r. txSourceTransactionId r = Some t \<and> txType r \<in> set kinds) (transactions l)"

definition reverseCheck :: "ledger \<Rightarrow> id \<Rightarrow> reward_transaction result" where
  "reverseCheck l t =
     (case findTransaction l t of
        None \<Rightarrow> Inl (DomainError REWARD_TRANSACTION_NOT_FOUND 404)
      | Some original \<Rightarrow>
          if txAmountPoints original \<le> 0 then Inl (DomainError REWARD_INVALID_OPERATION 409)
          else if acted l (txId original) [CHARGEBACK_DEBIT] \<noteq> None
          then Inl (DomainError REWARD_INVALID_OPERATION 409)
          else Inr original)"

definition reverse_source :: "reward_source option \<Rightarrow> reward_transaction \<Rightarrow> reward_source" where
  "reverse_source source original =
     (let base = (case source of None \<Rightarrow> \<lparr>sourceType = SOURCE_SYSTEM, sourceId = None,
                                              sourceLabel = None\<rparr>
                  | Some s \<Rightarrow> s)
      in base\<lparr>sourceLabel := (case Option.bind source sourceLabel of
                                  None \<Rightarrow> txSourceLabel original | Some x \<Rightarrow> Some x)\<rparr>)"

definition reverseCommit :: "ledger \<Rightarrow> id \<Rightarrow> millis \<Rightarrow> reward_transaction \<Rightarrow> string
    \<Rightarrow> reward_actor option \<Rightarrow> reward_source option \<Rightarrow> (reward_transaction \<times> ledger) result" where
  "reverseCommit l i now original reason actor source =
     (case lockBalance l (txUserId original) of
        Inl e \<Rightarrow> Inl e
      | Inr b \<Rightarrow>
          let amount = txAmountPoints original;
              fromPending = min (pendingPoints b) amount;
              fromAvailable = amount - fromPending
          in writeMovement l i
            \<lparr>mvUserId = txUserId original, mvType = CHARGEBACK_DEBIT, mvAmountPoints = - amount,
             mvPendingDelta = - fromPending, mvAvailableDelta = - fromAvailable,
             mvLockedDelta = 0, mvSource = reverse_source source original,
             mvSourceTransactionId = Some (txId original),
             mvActor = (case actor of None \<Rightarrow> system_actor | Some a \<Rightarrow> a),
             mvReason = Some reason, mvMaturesAt = None, mvHoldPeriodDays = None,
             mvEarned = None, mvWithdrawn = None, mvReversed = Some amount, mvAt = now\<rparr> b)"

text \<open>The whole of it, when no other chargeback of the same credit commits between its check and its
  write. (The comment in the code has the check after the lock; two that overlap both pass it.)\<close>

definition reverseCredit :: "ledger \<Rightarrow> id \<Rightarrow> millis \<Rightarrow> id \<Rightarrow> string \<Rightarrow> reward_actor option
    \<Rightarrow> reward_source option \<Rightarrow> (reward_transaction \<times> ledger) result" where
  "reverseCredit l i now t reason actor source =
     (case reverseCheck l t of
        Inl e \<Rightarrow> Inl e
      | Inr original \<Rightarrow> reverseCommit l i now original reason actor source)"

text \<open>\<open>mature\<close> answers \<open>null\<close>, here \<^term>\<open>None\<close>, when there is nothing to do.\<close>

definition mature :: "ledger \<Rightarrow> id \<Rightarrow> millis \<Rightarrow> id
    \<Rightarrow> (reward_transaction option \<times> ledger) result" where
  "mature l i now t =
     (case findTransaction l t of
        None \<Rightarrow> Inr (None, l)
      | Some c \<Rightarrow>
          if acted l (txId c) [REWARD_MATURATION, CHARGEBACK_DEBIT] \<noteq> None then Inr (None, l)
          else (case lockBalance l (txUserId c) of
            Inl e \<Rightarrow> Inl e
          | Inr b \<Rightarrow> map_sum (\<lambda>e. e) (map_prod Some (\<lambda>x. x)) (writeMovement l i
              \<lparr>mvUserId = txUserId c, mvType = REWARD_MATURATION, mvAmountPoints = 0,
               mvPendingDelta = - txAmountPoints c, mvAvailableDelta = txAmountPoints c,
               mvLockedDelta = 0,
               mvSource = \<lparr>sourceType = SOURCE_SYSTEM, sourceId = None,
                           sourceLabel = txSourceLabel c\<rparr>,
               mvSourceTransactionId = Some (txId c), mvActor = system_actor,
               mvReason = Some ''hold period elapsed'', mvMaturesAt = None,
               mvHoldPeriodDays = None, mvEarned = None, mvWithdrawn = None,
               mvReversed = None, mvAt = now\<rparr> b)))"

text \<open>Only \<open>available\<close> can be reserved for a payout, and only as much as there is.\<close>

definition lockPoints :: "ledger \<Rightarrow> id \<Rightarrow> millis \<Rightarrow> id \<Rightarrow> rat \<Rightarrow> id \<Rightarrow> string option
    \<Rightarrow> (reward_transaction \<times> ledger) result" where
  "lockPoints l i now userId amountPoints payoutId label =
     (case requirePositive amountPoints of
        Inl e \<Rightarrow> Inl e
      | Inr amount \<Rightarrow>
          (case lockBalance l userId of
             Inl e \<Rightarrow> Inl e
           | Inr b \<Rightarrow>
               if availablePoints b < amount
               then Inl (DomainError REWARD_INSUFFICIENT_BALANCE 409)
               else writeMovement l i
                 \<lparr>mvUserId = userId, mvType = PAYOUT_LOCK, mvAmountPoints = 0,
                  mvPendingDelta = 0, mvAvailableDelta = - amount, mvLockedDelta = amount,
                  mvSource = \<lparr>sourceType = SOURCE_PAYOUT, sourceId = Some payoutId,
                              sourceLabel = label\<rparr>,
                  mvSourceTransactionId = None,
                  mvActor = \<lparr>actorType = ACTOR_USER, actorId = Some userId\<rparr>,
                  mvReason = Some ''withdrawal requested'', mvMaturesAt = None,
                  mvHoldPeriodDays = None, mvEarned = None, mvWithdrawn = None,
                  mvReversed = None, mvAt = now\<rparr> b))"

definition resolveLock :: "ledger \<Rightarrow> id \<Rightarrow> millis \<Rightarrow> id \<Rightarrow> bool \<Rightarrow> string \<Rightarrow> reward_actor option
    \<Rightarrow> (reward_transaction \<times> ledger) result" where
  "resolveLock l i now t settling reason actor =
     (case findTransaction l t of
        None \<Rightarrow> Inl (DomainError REWARD_TRANSACTION_NOT_FOUND 404)
      | Some lockRow \<Rightarrow>
          if txType lockRow \<noteq> PAYOUT_LOCK
          then Inl (DomainError REWARD_TRANSACTION_NOT_FOUND 404)
          else if acted l (txId lockRow) [PAYOUT_SETTLE, PAYOUT_REFUND] \<noteq> None
          then Inl (DomainError REWARD_INVALID_OPERATION 409)
          else (case lockBalance l (txUserId lockRow) of
            Inl e \<Rightarrow> Inl e
          | Inr b \<Rightarrow>
              let amount = txLockedDelta lockRow in writeMovement l i
                \<lparr>mvUserId = txUserId lockRow,
                 mvType = (if settling then PAYOUT_SETTLE else PAYOUT_REFUND),
                 mvAmountPoints = (if settling then - amount else 0),
                 mvPendingDelta = 0, mvAvailableDelta = (if settling then 0 else amount),
                 mvLockedDelta = - amount,
                 mvSource = \<lparr>sourceType = SOURCE_PAYOUT, sourceId = txSourceId lockRow,
                             sourceLabel = txSourceLabel lockRow\<rparr>,
                 mvSourceTransactionId = Some (txId lockRow),
                 mvActor = (case actor of None \<Rightarrow> system_actor | Some a \<Rightarrow> a),
                 mvReason = Some reason, mvMaturesAt = None, mvHoldPeriodDays = None,
                 mvEarned = None, mvWithdrawn = (if settling then Some amount else None),
                 mvReversed = None, mvAt = now\<rparr> b))"

definition releaseLock :: "ledger \<Rightarrow> id \<Rightarrow> millis \<Rightarrow> id \<Rightarrow> string \<Rightarrow> reward_actor option
    \<Rightarrow> (reward_transaction \<times> ledger) result" where
  "releaseLock l i now t reason actor = resolveLock l i now t False reason actor"

definition settleLock :: "ledger \<Rightarrow> id \<Rightarrow> millis \<Rightarrow> id \<Rightarrow> string \<Rightarrow> reward_actor option
    \<Rightarrow> (reward_transaction \<times> ledger) result" where
  "settleLock l i now t reason actor = resolveLock l i now t True reason actor"

section \<open>Reads\<close>

record balance =
  pending :: int
  available :: int
  locked :: int
  balTotal :: int
  lifetimeEarned :: int
  lifetimeWithdrawn :: int
  lifetimeReversed :: int

definition toBalance :: "user_balance option \<Rightarrow> balance" where
  "toBalance row = (let get = (\<lambda>f. case row of None \<Rightarrow> 0 | Some b \<Rightarrow> f b) in
     \<lparr>pending = get pendingPoints, available = get availablePoints, locked = get lockedPoints,
      balTotal = get pendingPoints + get availablePoints + get lockedPoints,
      lifetimeEarned = get lifetimeEarnedPoints, lifetimeWithdrawn = get lifetimeWithdrawnPoints,
      lifetimeReversed = get lifetimeReversedPoints\<rparr>)"

definition getBalance :: "ledger \<Rightarrow> id \<Rightarrow> balance" where
  "getBalance l u = toBalance (findBalance l u)"

text \<open>
  The derived status of a movement, in the contract as data: each status names the transaction
  types that can carry it and, for the two credit statuses, the sign of \<open>pendingDelta\<close>.
\<close>

datatype reward_status =
    STATUS_PENDING | STATUS_AVAILABLE | STATUS_CLEARED | STATUS_REVERSED | STATUS_IN_REVIEW
  | STATUS_PAID | STATUS_RETURNED | STATUS_ADJUSTED

datatype pending_rule = Positive | NonPositive

record reward_status_rule =
  ruleTypes :: "reward_transaction_type list"
  rulePendingDelta :: "pending_rule option"

definition CREDIT_TYPES :: "reward_transaction_type list" where
  "CREDIT_TYPES = [CONVERSION_CREDIT, BONUS]"

fun REWARD_STATUS_RULES :: "reward_status \<Rightarrow> reward_status_rule" where
  "REWARD_STATUS_RULES STATUS_PENDING = \<lparr>ruleTypes = CREDIT_TYPES, rulePendingDelta = Some Positive\<rparr>"
| "REWARD_STATUS_RULES STATUS_AVAILABLE = \<lparr>ruleTypes = CREDIT_TYPES, rulePendingDelta = Some NonPositive\<rparr>"
| "REWARD_STATUS_RULES STATUS_CLEARED = \<lparr>ruleTypes = [REWARD_MATURATION], rulePendingDelta = None\<rparr>"
| "REWARD_STATUS_RULES STATUS_REVERSED = \<lparr>ruleTypes = [CHARGEBACK_DEBIT], rulePendingDelta = None\<rparr>"
| "REWARD_STATUS_RULES STATUS_IN_REVIEW = \<lparr>ruleTypes = [PAYOUT_LOCK], rulePendingDelta = None\<rparr>"
| "REWARD_STATUS_RULES STATUS_PAID = \<lparr>ruleTypes = [PAYOUT_SETTLE], rulePendingDelta = None\<rparr>"
| "REWARD_STATUS_RULES STATUS_RETURNED = \<lparr>ruleTypes = [PAYOUT_REFUND], rulePendingDelta = None\<rparr>"
| "REWARD_STATUS_RULES STATUS_ADJUSTED = \<lparr>ruleTypes = [MANUAL_ADJUSTMENT], rulePendingDelta = None\<rparr>"

definition REWARD_STATUSES_IN_ORDER :: "reward_status list" where
  "REWARD_STATUSES_IN_ORDER = [STATUS_PENDING, STATUS_AVAILABLE, STATUS_CLEARED, STATUS_REVERSED,
     STATUS_IN_REVIEW, STATUS_PAID, STATUS_RETURNED, STATUS_ADJUSTED]"

text \<open>The loop of \<open>rewardStatusOf\<close>: each \<open>continue\<close> moves on to the next status.\<close>

fun status_loop :: "reward_status list \<Rightarrow> reward_transaction_type \<Rightarrow> int \<Rightarrow> reward_status option" where
  "status_loop [] ty d = None"
| "status_loop (s # ss) ty d =
     (let rule = REWARD_STATUS_RULES s in
      if ty \<notin> set (ruleTypes rule) then status_loop ss ty d
      else if rulePendingDelta rule = Some Positive \<and> \<not> d > 0 then status_loop ss ty d
      else if rulePendingDelta rule = Some NonPositive \<and> d > 0 then status_loop ss ty d
      else Some s)"

definition rewardStatusOf :: "reward_transaction_type \<Rightarrow> int \<Rightarrow> reward_status option" where
  "rewardStatusOf ty pendingDelta = status_loop REWARD_STATUSES_IN_ORDER ty pendingDelta"

text \<open>\<open>whereForStatus\<close> builds a filter; the database evaluates it with \<open>matches_status\<close>.\<close>

datatype delta_filter = Gt int | Lte int

record status_where =
  whTypes :: "reward_transaction_type list"
  whPendingDelta :: "delta_filter option"

definition whereForStatus :: "reward_status \<Rightarrow> status_where" where
  "whereForStatus s = (let rule = REWARD_STATUS_RULES s in
     \<lparr>whTypes = ruleTypes rule,
      whPendingDelta = (case rulePendingDelta rule of
          None \<Rightarrow> None | Some Positive \<Rightarrow> Some (Gt 0) | Some NonPositive \<Rightarrow> Some (Lte 0))\<rparr>)"

definition matches_status :: "status_where \<Rightarrow> reward_transaction_type \<Rightarrow> int \<Rightarrow> bool" where
  "matches_status w ty d \<longleftrightarrow> ty \<in> set (whTypes w) \<and>
     (case whPendingDelta w of None \<Rightarrow> True | Some (Gt n) \<Rightarrow> d > n | Some (Lte n) \<Rightarrow> d \<le> n)"

record reward_history_query =
  qUserId :: "id option"
  qType :: "reward_transaction_type option"
  qStatus :: "reward_status option"
  qSourceId :: "id option"
  qLimit :: "int option"
  qOffset :: "int option"

definition opt_eq :: "'a option \<Rightarrow> 'a \<Rightarrow> bool" where
  "opt_eq q x = (case q of None \<Rightarrow> True | Some y \<Rightarrow> x = y)"

definition matches_query :: "reward_history_query \<Rightarrow> reward_transaction \<Rightarrow> bool" where
  "matches_query q r \<longleftrightarrow> opt_eq (qUserId q) (txUserId r) \<and> opt_eq (qType q) (txType r)
     \<and> (case qSourceId q of None \<Rightarrow> True | Some s \<Rightarrow> txSourceId r = Some s)
     \<and> (case qStatus q of None \<Rightarrow> True
         | Some s \<Rightarrow> matches_status (whereForStatus s) (txType r) (txPendingDelta r))"

text \<open>Newest first; rows created in the same millisecond keep their insertion order here, where
  the database leaves it open.\<close>

definition findMany :: "ledger \<Rightarrow> reward_history_query \<Rightarrow> reward_transaction paginated" where
  "findMany l q = page (clampLimit 25 100 (qLimit q)) (clampOffset (qOffset q))
     (sort_key (\<lambda>r. - txCreatedAt r) (filter (matches_query q) (transactions l)))"

definition getHistory :: "ledger \<Rightarrow> id \<Rightarrow> reward_history_query \<Rightarrow> reward_transaction paginated" where
  "getHistory l u q = findMany l (q\<lparr>qUserId := Some u\<rparr>)"

definition findBySource :: "ledger \<Rightarrow> reward_source_type \<Rightarrow> id \<Rightarrow> reward_transaction_type option
    \<Rightarrow> reward_transaction option" where
  "findBySource l st s ty =
     List.find (\<lambda>r. txSourceType r = st \<and> txSourceId r = Some s \<and> opt_eq ty (txType r))
       (sort_key txCreatedAt (transactions l))"

definition maturable :: "ledger \<Rightarrow> millis \<Rightarrow> reward_transaction \<Rightarrow> bool" where
  "maturable l now r \<longleftrightarrow> txType r \<in> {CONVERSION_CREDIT, BONUS}
     \<and> (case txMaturesAt r of None \<Rightarrow> False | Some m \<Rightarrow> m \<le> now)
     \<and> acted l (txId r) [REWARD_MATURATION, CHARGEBACK_DEBIT] = None"

definition findMaturable :: "ledger \<Rightarrow> millis \<Rightarrow> nat \<Rightarrow> id list" where
  "findMaturable l now limit = map txId (take limit
     (sort_key (\<lambda>r. the (txMaturesAt r)) (filter (maturable l now) (transactions l))))"

definition findUsersToReconcile :: "ledger \<Rightarrow> id option \<Rightarrow> nat \<Rightarrow> id list" where
  "findUsersToReconcile l after limit = take limit (sort
     (filter (\<lambda>u. case after of None \<Rightarrow> True | Some a \<Rightarrow> a < u) (map balUserId (balances l))))"

record buckets =
  bPending :: int
  bAvailable :: int
  bLocked :: int

record reconciliation =
  balanced :: bool
  recorded :: buckets
  expected :: buckets
  drift :: buckets
  transactionCount :: nat

definition reconcile :: "ledger \<Rightarrow> id \<Rightarrow> reconciliation" where
  "reconcile l u =
     (let row = toBalance (findBalance l u);
          summed = (\<lambda>f. sum_for txUserId f u (transactions l));
          rd = \<lparr>bPending = pending row, bAvailable = available row, bLocked = locked row\<rparr>;
          ex = \<lparr>bPending = summed txPendingDelta, bAvailable = summed txAvailableDelta,
                 bLocked = summed txLockedDelta\<rparr>;
          dr = \<lparr>bPending = bPending rd - bPending ex,
                   bAvailable = bAvailable rd - bAvailable ex,
                   bLocked = bLocked rd - bLocked ex\<rparr>
      in \<lparr>balanced = (bPending dr = 0 \<and> bAvailable dr = 0 \<and> bLocked dr = 0),
          recorded = rd, expected = ex, drift = dr,
          transactionCount = count_where (\<lambda>r. txUserId r = u) (transactions l)\<rparr>)"

section \<open>The mutations as one guarded system\<close>

text \<open>One constructor per mutation of the service, with the arguments it takes; \<open>execReward\<close>
  runs it and keeps the tables it leaves.\<close>

datatype reward_op =
    OpOpen id id
  | OpCredit "id option \<Rightarrow> int" id millis credit_input
  | OpDebit id millis debit_input
  | OpReverse id millis id string "reward_actor option" "reward_source option"
  | OpMature id millis id
  | OpLock id millis id rat id "string option"
  | OpRelease id millis id string "reward_actor option"
  | OpSettle id millis id string "reward_actor option"

fun execReward :: "ledger \<Rightarrow> reward_op \<Rightarrow> ledger result" where
  "execReward l (OpOpen i u) = Inr (openAccount l i u)"
| "execReward l (OpCredit holdDays i now input) = map_sum (\<lambda>e. e) snd (credit holdDays l i now input)"
| "execReward l (OpDebit i now input) = map_sum (\<lambda>e. e) snd (debit l i now input)"
| "execReward l (OpReverse i now t reason actor source)
     = map_sum (\<lambda>e. e) snd (reverseCredit l i now t reason actor source)"
| "execReward l (OpMature i now t) = map_sum (\<lambda>e. e) snd (mature l i now t)"
| "execReward l (OpLock i now u amount payoutId label)
     = map_sum (\<lambda>e. e) snd (lockPoints l i now u amount payoutId label)"
| "execReward l (OpRelease i now t reason actor) = map_sum (\<lambda>e. e) snd (releaseLock l i now t reason actor)"
| "execReward l (OpSettle i now t reason actor) = map_sum (\<lambda>e. e) snd (settleLock l i now t reason actor)"

definition run_rewards :: "reward_op list \<Rightarrow> ledger" where
  "run_rewards ops = run_ops execReward empty_ledger ops"

end
