(* ===== verification/RewardHistory.thy ===== *)
theory RewardHistory
  imports Rewards
begin

text \<open>
  What every operation of the reward ledger guarantees, however operations are ordered. Each
  accepted operation posts one row; \<open>row_ok\<close> says what that row may look like given the
  history before it; the columns of a balance row are running totals of the history.
\<close>

section \<open>The posting relation and reachable ledgers\<close>

inductive posts :: "ledger \<Rightarrow> reward_transaction \<Rightarrow> ledger \<Rightarrow> bool" where
  credit: "credit holdDays l i now input = Inr (r, l') \<Longrightarrow> posts l r l'"
| debit: "debit l i now dinput = Inr (r, l') \<Longrightarrow> posts l r l'"
| reverse: "reverseCredit l i now t reason actor source = Inr (r, l') \<Longrightarrow> posts l r l'"
| mature: "mature l i now t = Inr (Some r, l') \<Longrightarrow> posts l r l'"
| lock: "lockPoints l i now u amount payoutId label = Inr (r, l') \<Longrightarrow> posts l r l'"
| resolve: "resolveLock l i now t settling reason actor = Inr (r, l') \<Longrightarrow> posts l r l'"

inductive ledger_reachable :: "ledger \<Rightarrow> bool" where
  empty: "ledger_reachable empty_ledger"
| opened: "ledger_reachable l \<Longrightarrow> ledger_reachable (openAccount l i u)"
| posted: "ledger_reachable l \<Longrightarrow> posts l r l' \<Longrightarrow> ledger_reachable l'"

definition earnedDelta :: "reward_transaction \<Rightarrow> int" where
  "earnedDelta r = (if txType r \<in> {CONVERSION_CREDIT, BONUS} then txAmountPoints r else 0)"

definition withdrawnDelta :: "reward_transaction \<Rightarrow> int" where
  "withdrawnDelta r = (if txType r = PAYOUT_SETTLE then - txAmountPoints r else 0)"

definition reversedDelta :: "reward_transaction \<Rightarrow> int" where
  "reversedDelta r = (if txType r = CHARGEBACK_DEBIT then - txAmountPoints r else 0)"

definition apply_row :: "reward_transaction \<Rightarrow> user_balance \<Rightarrow> user_balance" where
  "apply_row r b = b\<lparr>
     pendingPoints := pendingPoints b + txPendingDelta r,
     availablePoints := availablePoints b + txAvailableDelta r,
     lockedPoints := lockedPoints b + txLockedDelta r,
     lifetimeEarnedPoints := lifetimeEarnedPoints b + earnedDelta r,
     lifetimeWithdrawnPoints := lifetimeWithdrawnPoints b + withdrawnDelta r,
     lifetimeReversedPoints := lifetimeReversedPoints b + reversedDelta r,
     balVersion := balVersion b + 1\<rparr>"

definition ledger_keys :: "ledger \<Rightarrow> bool" where
  "ledger_keys l \<longleftrightarrow> distinct (map balId (balances l)) \<and> distinct (map balUserId (balances l))
     \<and> distinct (map txId (transactions l))"

text \<open>What a row may be, given the history it is appended to.\<close>

definition is_chargeback :: "reward_transaction \<Rightarrow> bool" where
  "is_chargeback r \<longleftrightarrow> txType r = CHARGEBACK_DEBIT"

definition is_resolution :: "reward_transaction \<Rightarrow> bool" where
  "is_resolution r \<longleftrightarrow> txType r \<in> {PAYOUT_SETTLE, PAYOUT_REFUND}"

definition is_maturation :: "reward_transaction \<Rightarrow> bool" where
  "is_maturation r \<longleftrightarrow> txType r = REWARD_MATURATION"

definition acting_on :: "reward_transaction list \<Rightarrow> reward_transaction \<Rightarrow> reward_transaction \<Rightarrow> bool" where
  "acting_on txs r c \<longleftrightarrow> c \<in> set txs \<and> txSourceTransactionId r = Some (txId c) \<and> txUserId r = txUserId c"

fun row_ok :: "reward_transaction list \<Rightarrow> reward_transaction \<Rightarrow> bool" where
  "row_ok txs r = (case txType r of
     CONVERSION_CREDIT \<Rightarrow> 0 < txAmountPoints r \<and> txPendingDelta r = txAmountPoints r
       \<and> txAvailableDelta r = 0 \<and> txLockedDelta r = 0 \<and> txSourceTransactionId r = None
   | BONUS \<Rightarrow> 0 < txAmountPoints r \<and> txPendingDelta r = txAmountPoints r
       \<and> txAvailableDelta r = 0 \<and> txLockedDelta r = 0 \<and> txSourceTransactionId r = None
   | MANUAL_ADJUSTMENT \<Rightarrow> txAmountPoints r < 0 \<and> txPendingDelta r = 0
       \<and> txAvailableDelta r = txAmountPoints r \<and> txLockedDelta r = 0 \<and> txSourceTransactionId r = None
   | CHARGEBACK_DEBIT \<Rightarrow> (\<exists>c. acting_on txs r c \<and> 0 < txAmountPoints c
       \<and> txAmountPoints r = - txAmountPoints c
       \<and> txPendingDelta r + txAvailableDelta r = txAmountPoints r \<and> txLockedDelta r = 0
       \<and> acts_on is_chargeback txSourceTransactionId (txId c) txs = 0)
   | REWARD_MATURATION \<Rightarrow> (\<exists>c. acting_on txs r c \<and> txAmountPoints r = 0
       \<and> txPendingDelta r = - txAmountPoints c \<and> txAvailableDelta r = txAmountPoints c
       \<and> txLockedDelta r = 0 \<and> acts_on is_chargeback txSourceTransactionId (txId c) txs = 0
       \<and> acts_on is_maturation txSourceTransactionId (txId c) txs = 0)
   | PAYOUT_LOCK \<Rightarrow> txAmountPoints r = 0 \<and> txPendingDelta r = 0 \<and> 0 < txLockedDelta r
       \<and> txAvailableDelta r = - txLockedDelta r \<and> txSourceTransactionId r = None
   | PAYOUT_SETTLE \<Rightarrow> (\<exists>k. acting_on txs r k \<and> txType k = PAYOUT_LOCK
       \<and> txAmountPoints r = - txLockedDelta k \<and> txPendingDelta r = 0 \<and> txAvailableDelta r = 0
       \<and> txLockedDelta r = - txLockedDelta k
       \<and> acts_on is_resolution txSourceTransactionId (txId k) txs = 0)
   | PAYOUT_REFUND \<Rightarrow> (\<exists>k. acting_on txs r k \<and> txType k = PAYOUT_LOCK
       \<and> txAmountPoints r = 0 \<and> txPendingDelta r = 0 \<and> txAvailableDelta r = txLockedDelta k
       \<and> txLockedDelta r = - txLockedDelta k
       \<and> acts_on is_resolution txSourceTransactionId (txId k) txs = 0))"

declare row_ok.simps [simp del]

section \<open>Every operation posts one well-formed row\<close>

lemma writeMovement_InrD:
  assumes "writeMovement l i m b = Inr (r, l')"
  shows "r = created_row i m" and "i \<notin> set (map txId (transactions l))"
    and "row_in_range r" and "balance_in_range (moved_balance m b)"
    and "l' = \<lparr>balances = update_where (\<lambda>x. balId x = balId b) (moved_balance m) (balances l),
               transactions = transactions l @ [r]\<rparr>"
  using assms by (auto simp: writeMovement_def Let_def split: if_splits)

lemma requirePositive_InrD: "requirePositive a = Inr n \<Longrightarrow> 0 < n \<and> of_int n = a"
  by (auto simp: requirePositive_def split: if_splits)

lemma lockBalance_InrD:
  "lockBalance l u = Inr b \<Longrightarrow> findBalance l u = Some b \<and> b \<in> set (balances l) \<and> balUserId b = u"
  by (auto simp: lockBalance_def findBalance_def split: option.splits dest: find_SomeD)

lemma findTransaction_SomeD: "findTransaction l t = Some c \<Longrightarrow> c \<in> set (transactions l) \<and> txId c = t"
  by (auto simp: findTransaction_def dest: find_SomeD)

lemma acted_None_iff:
  "acted l t kinds = None \<longleftrightarrow>
     acts_on (\<lambda>r. txType r \<in> set kinds) txSourceTransactionId t (transactions l) = 0"
  by (auto simp: acted_def acts_on_def count_where_0_iff find_None_filter filter_empty_conv)

lemma acts_on_0_mono:
  "acts_on p src t rows = 0 \<Longrightarrow> (\<And>r. q r \<Longrightarrow> p r) \<Longrightarrow> acts_on q src t rows = 0"
  by (auto simp: acts_on_def count_where_0_iff)

definition movement_fits :: "movement \<Rightarrow> bool" where
  "movement_fits m \<longleftrightarrow>
     or_zero (mvEarned m) = (if mvType m \<in> {CONVERSION_CREDIT, BONUS} then mvAmountPoints m else 0)
     \<and> or_zero (mvWithdrawn m) = (if mvType m = PAYOUT_SETTLE then - mvAmountPoints m else 0)
     \<and> or_zero (mvReversed m) = (if mvType m = CHARGEBACK_DEBIT then - mvAmountPoints m else 0)"

lemma moved_balance_apply_row:
  "movement_fits m \<Longrightarrow> moved_balance m = apply_row (created_row i m)"
  by (auto simp: fun_eq_iff movement_fits_def moved_balance_def apply_row_def created_row_def
      earnedDelta_def withdrawnDelta_def reversedDelta_def)

text \<open>The form every posting takes: a movement under the balance lock of its user.\<close>

definition posting :: "ledger \<Rightarrow> id \<Rightarrow> movement \<Rightarrow> user_balance \<Rightarrow> bool" where
  "posting l i m b \<longleftrightarrow> lockBalance l (mvUserId m) = Inr b \<and> movement_fits m
     \<and> row_ok (transactions l) (created_row i m)"

lemmas op_results = option.splits sum.splits if_splits prod.splits

lemma postingI:
  "writeMovement l i m b = Inr (r, l') \<Longrightarrow> lockBalance l (mvUserId m) = Inr b \<Longrightarrow> movement_fits m
    \<Longrightarrow> row_ok (transactions l) (created_row i m)
    \<Longrightarrow> \<exists>i m b. posting l i m b \<and> writeMovement l i m b = Inr (r, l')"
  by (auto simp: posting_def)

lemmas posting_simps = Let_def movement_fits_def or_zero_def row_ok.simps created_row_def
  acting_on_def acted_None_iff is_chargeback_def is_maturation_def is_resolution_def

lemma posts_posting:
  assumes "posts l r l'"
  shows "\<exists>i m b. posting l i m b \<and> writeMovement l i m b = Inr (r, l')"
  using assms
proof cases
  case (credit holdDays i now input)
  then show ?thesis
    by (auto simp: credit_def mutate_def posting_simps split: op_results
        dest!: requirePositive_InrD elim!: postingI)
next
  case (debit i now dinput)
  then show ?thesis
    by (auto simp: debit_def mutate_def posting_simps split: op_results
        dest!: requirePositive_InrD elim!: postingI)
next
  case (reverse i now t reason actor source)
  then obtain c where c: "findTransaction l t = Some c" "0 < txAmountPoints c"
      "acted l (txId c) [CHARGEBACK_DEBIT] = None"
      "reverseCommit l i now c reason actor source = Inr (r, l')"
    by (auto simp: reverseCredit_def reverseCheck_def split: op_results)
  from c(4) show ?thesis unfolding reverseCommit_def Let_def
    using c(2,3) findTransaction_SomeD [OF c(1)]
    by (auto simp: posting_simps split: op_results elim!: postingI acts_on_0_mono intro!: exI [of _ c])
next
  case (mature i now t)
  then obtain c where c: "findTransaction l t = Some c"
      "acted l (txId c) [REWARD_MATURATION, CHARGEBACK_DEBIT] = None"
    by (auto simp: mature_def split: op_results)
  from mature c(1) show ?thesis unfolding mature_def
    using c(2) findTransaction_SomeD [OF c(1)]
    by (auto simp: posting_simps map_sum_def split: op_results elim!: postingI acts_on_0_mono
        intro!: exI [of _ c])
next
  case (lock i now u amount payoutId label)
  then show ?thesis
    by (auto simp: lockPoints_def posting_simps split: op_results
        dest!: requirePositive_InrD elim!: postingI)
next
  case (resolve i now t settling reason actor)
  then obtain k where k: "findTransaction l t = Some k" "txType k = PAYOUT_LOCK"
      "acted l (txId k) [PAYOUT_SETTLE, PAYOUT_REFUND] = None"
    by (auto simp: resolveLock_def split: op_results)
  from resolve k(1) show ?thesis unfolding resolveLock_def
    using k(2,3) findTransaction_SomeD [OF k(1)]
    by (auto simp: posting_simps split: op_results elim!: postingI acts_on_0_mono
        intro!: exI [of _ k])
qed

lemma created_row_fields [simp]:
  "txId (created_row i m) = i" "txUserId (created_row i m) = mvUserId m"
  by (simp_all add: created_row_def)

lemma apply_row_keys [simp]: "balId (apply_row r b) = balId b" "balUserId (apply_row r b) = balUserId b"
  by (simp_all add: apply_row_def)

text \<open>The two tables after a posting, keyed by the row's user.\<close>

lemma posts_tables:
  assumes "ledger_keys l" and "posts l r l'"
  shows "transactions l' = transactions l @ [r]"
    and "balances l' = update_where (\<lambda>b. balUserId b = txUserId r) (apply_row r) (balances l)"
    and "row_ok (transactions l) r" and "txId r \<notin> set (map txId (transactions l))"
    and "txUserId r \<in> set (map balUserId (balances l))"
proof -
  from posts_posting [OF assms(2)] obtain i m b
    where p: "posting l i m b" and w: "writeMovement l i m b = Inr (r, l')" by blast
  note w' = writeMovement_InrD [OF w]
  from p have b: "b \<in> set (balances l)" "balUserId b = mvUserId m"
    by (auto simp: posting_def dest: lockBalance_InrD)
  have "balId x = balId b \<longleftrightarrow> balUserId x = mvUserId m" if "x \<in> set (balances l)" for x
    using that b assms(1) distinct_key_unique [of balId "balances l" x b]
      distinct_key_unique [of balUserId "balances l" x b] by (auto simp: ledger_keys_def)
  then show "balances l' = update_where (\<lambda>b. balUserId b = txUserId r) (apply_row r) (balances l)"
    using p w'(1) w'(5) by (auto simp: posting_def update_where_def moved_balance_apply_row [of m i])
  show "transactions l' = transactions l @ [r]" and "txId r \<notin> set (map txId (transactions l))"
    and "row_ok (transactions l) r" and "txUserId r \<in> set (map balUserId (balances l))"
    using w' p b by (auto simp: posting_def image_iff intro: bexI [of _ b])
qed

lemma ledger_keys_empty: "ledger_keys empty_ledger"
  by (simp add: ledger_keys_def empty_ledger_def)

lemma ledger_keys_open: "ledger_keys l \<Longrightarrow> ledger_keys (openAccount l i u)"
  by (simp add: ledger_keys_def openAccount_def)

lemma ledger_keys_posts: "ledger_keys l \<Longrightarrow> posts l r l' \<Longrightarrow> ledger_keys l'"
  using posts_tables [of l r l'] by (auto simp: ledger_keys_def map_update_where)

lemma reachable_keys: "ledger_reachable l \<Longrightarrow> ledger_keys l"
  by (induction rule: ledger_reachable.induct)
    (auto intro: ledger_keys_empty ledger_keys_open ledger_keys_posts)

section \<open>The columns of a balance row are running totals of the history\<close>

definition posts_from :: "ledger \<Rightarrow> reward_transaction \<Rightarrow> ledger \<Rightarrow> bool" where
  "posts_from l r l' \<longleftrightarrow> ledger_keys l \<and> posts l r l'"

definition balance_column :: "(user_balance \<Rightarrow> int) \<Rightarrow> ledger \<Rightarrow> id \<Rightarrow> int option" where
  "balance_column f l u = map_option f (findBalance l u)"

lemma findBalance_posts:
  assumes "posts_from l r l'"
  shows "findBalance l' u
    = (if txUserId r = u then map_option (apply_row r) (findBalance l u) else findBalance l u)"
  using posts_tables(2) [of l r l'] assms
    find_update_where [of "\<lambda>b. balUserId b = txUserId r" "\<lambda>b. balUserId b = u" "apply_row r" "balances l"]
  by (auto simp: posts_from_def findBalance_def map_option_case dest: find_SomeD split: option.splits)

lemma balance_column_posts:
  assumes "\<And>r b. f (apply_row r b) = f b + d r" and "posts_from l r l'"
  shows "balance_column f l' u
    = (if txUserId r = u then map_option (\<lambda>x. x + d r) (balance_column f l u) else balance_column f l u)"
  by (simp add: balance_column_def findBalance_posts [OF assms(2)] assms(1) option.map_comp comp_def)

lemma posts_from_rows: "posts_from l r l' \<Longrightarrow> transactions l' = transactions l @ [r]"
  by (simp add: posts_from_def posts_tables)

lemma column_running_total:
  "(\<And>r b. f (apply_row r b) = f b + d r)
    \<Longrightarrow> running_total transactions txUserId d (balance_column f) posts_from"
  by unfold_locales (auto simp: posts_from_rows balance_column_posts)

interpretation pending: running_total transactions txUserId txPendingDelta
    "balance_column pendingPoints" posts_from
  by (rule column_running_total) (simp add: apply_row_def)

interpretation available: running_total transactions txUserId txAvailableDelta
    "balance_column availablePoints" posts_from
  by (rule column_running_total) (simp add: apply_row_def)

interpretation locked: running_total transactions txUserId txLockedDelta
    "balance_column lockedPoints" posts_from
  by (rule column_running_total) (simp add: apply_row_def)

interpretation earned: running_total transactions txUserId earnedDelta
    "balance_column lifetimeEarnedPoints" posts_from
  by (rule column_running_total) (simp add: apply_row_def)

interpretation withdrawn: running_total transactions txUserId withdrawnDelta
    "balance_column lifetimeWithdrawnPoints" posts_from
  by (rule column_running_total) (simp add: apply_row_def)

interpretation reversed: running_total transactions txUserId reversedDelta
    "balance_column lifetimeReversedPoints" posts_from
  by (rule column_running_total) (simp add: apply_row_def)

interpretation version: running_total transactions txUserId "\<lambda>_. 1"
    "balance_column balVersion" posts_from
  by (rule column_running_total) (simp add: apply_row_def)

text \<open>The balance a replay of the history gives a user.\<close>

definition replayed :: "reward_transaction list \<Rightarrow> user_balance \<Rightarrow> user_balance" where
  "replayed txs b = (let s = (\<lambda>d. sum_for txUserId d (balUserId b) txs) in
     \<lparr>balId = balId b, balUserId = balUserId b, pendingPoints = s txPendingDelta,
      availablePoints = s txAvailableDelta, lockedPoints = s txLockedDelta,
      lifetimeEarnedPoints = s earnedDelta, lifetimeWithdrawnPoints = s withdrawnDelta,
      lifetimeReversedPoints = s reversedDelta, balVersion = s (\<lambda>_. 1)\<rparr>)"

definition explained :: "ledger \<Rightarrow> bool" where
  "explained l \<longleftrightarrow> (\<forall>u b. findBalance l u = Some b \<longrightarrow> b = replayed (transactions l) b)
     \<and> (\<forall>r\<in>set (transactions l). txUserId r \<in> set (map balUserId (balances l)))"

lemma findBalance_userId: "findBalance l u = Some b \<Longrightarrow> balUserId b = u"
  by (auto simp: findBalance_def dest: find_SomeD)

lemma explained_columns:
  assumes "findBalance l u = Some b"
  shows "b = replayed (transactions l) b \<longleftrightarrow>
    pendingPoints b = sum_for txUserId txPendingDelta u (transactions l)
    \<and> availablePoints b = sum_for txUserId txAvailableDelta u (transactions l)
    \<and> lockedPoints b = sum_for txUserId txLockedDelta u (transactions l)
    \<and> lifetimeEarnedPoints b = sum_for txUserId earnedDelta u (transactions l)
    \<and> lifetimeWithdrawnPoints b = sum_for txUserId withdrawnDelta u (transactions l)
    \<and> lifetimeReversedPoints b = sum_for txUserId reversedDelta u (transactions l)
    \<and> balVersion b = sum_for txUserId (\<lambda>_. 1) u (transactions l)"
  using findBalance_userId [OF assms] by (cases b) (auto simp: replayed_def Let_def)


lemma explained_empty: "explained empty_ledger"
  by (simp add: explained_def empty_ledger_def findBalance_def)

lemma explained_open:
  assumes "explained l"
  shows "explained (openAccount l i u)"
proof -
  have "\<forall>r\<in>set (transactions l). txUserId r \<noteq> u" if "u \<notin> set (map balUserId (balances l))"
    using assms that by (auto simp: explained_def)
  then show ?thesis using assms
    by (auto simp: explained_def openAccount_def findBalance_def replayed_def table_simps
        sum_for_absent split: option.splits if_splits)
qed

lemma explained_posts:
  assumes "explained l" and "posts_from l r l'"
  shows "explained l'"
proof -
  have "b = replayed (transactions l') b" if b: "findBalance l' u = Some b" for u b
  proof -
    obtain a where a: "findBalance l u = Some a" "b = (if txUserId r = u then apply_row r a else a)"
      using b findBalance_posts [OF assms(2), of u] by (auto split: if_splits)
    have "a = replayed (transactions l) a"
      using assms(1) a(1) by (auto simp: explained_def)
    note cols = iffD1 [OF explained_columns [OF a(1)] this]
    show ?thesis
      by (rule iffD2 [OF explained_columns [OF b]])
        (use cols in \<open>auto simp: a(2) apply_row_def posts_from_rows [OF assms(2)]\<close>)
  qed
  moreover have "map balUserId (balances l') = map balUserId (balances l)"
    using assms(2) posts_tables(2) [of l r l'] by (simp add: posts_from_def map_update_where)
  moreover have "txUserId r \<in> set (map balUserId (balances l))"
    using assms(2) posts_tables(5) [of l r l'] by (simp add: posts_from_def)
  ultimately show ?thesis
    using assms(1) by (auto simp: explained_def posts_from_rows [OF assms(2)] simp del: set_map)
qed

lemma reachable_explained: "ledger_reachable l \<Longrightarrow> explained l"
proof (induction rule: ledger_reachable.induct)
  case (posted l r l')
  then show ?case by (auto intro: explained_posts simp: posts_from_def reachable_keys)
qed (auto intro: explained_empty explained_open)

section \<open>The history of a reachable ledger\<close>

inductive history_ok :: "reward_transaction list \<Rightarrow> bool" where
  Nil: "history_ok []"
| snoc: "history_ok txs \<Longrightarrow> row_ok txs r \<Longrightarrow> txId r \<notin> set (map txId txs) \<Longrightarrow> history_ok (txs @ [r])"

lemma reachable_history: "ledger_reachable l \<Longrightarrow> history_ok (transactions l)"
proof (induction rule: ledger_reachable.induct)
  case (posted l r l')
  then show ?case
    using posts_tables [OF reachable_keys posted(2)] by (auto intro: history_ok.snoc)
qed (auto simp: empty_ledger_def openAccount_def intro: history_ok.Nil)

lemma history_distinct: "history_ok txs \<Longrightarrow> distinct (map txId txs)"
  by (induction rule: history_ok.induct) auto

lemma row_ok_source:
  "row_ok txs r \<Longrightarrow> txSourceTransactionId r = Some t \<Longrightarrow> t \<in> set (map txId txs)"
  by (auto simp: row_ok.simps acting_on_def split: reward_transaction_type.splits)

lemma history_sources:
  "history_ok txs \<Longrightarrow> r \<in> set txs \<Longrightarrow> txSourceTransactionId r = Some t \<Longrightarrow> t \<in> set (map txId txs)"
  by (induction rule: history_ok.induct) (auto dest: row_ok_source)

lemma fresh_not_acted:
  "history_ok txs \<Longrightarrow> t \<notin> set (map txId txs) \<Longrightarrow> acts_on kind txSourceTransactionId t txs = 0"
  by (auto simp: acts_on_def count_where_0_iff dest: history_sources)

subsection \<open>Nothing is acted upon twice\<close>

lemma posts_from_row_ok: "posts_from l r l' \<Longrightarrow> row_ok (transactions l) r"
  by (auto simp: posts_from_def intro: posts_tables(3))

interpretation chargeback: acts_once transactions is_chargeback txSourceTransactionId posts_from
  by unfold_locales
    (auto simp: posts_from_rows is_chargeback_def row_ok.simps acting_on_def dest!: posts_from_row_ok)

interpretation maturation: acts_once transactions is_maturation txSourceTransactionId posts_from
  by unfold_locales
    (auto simp: posts_from_rows is_maturation_def row_ok.simps acting_on_def dest!: posts_from_row_ok)

interpretation resolution: acts_once transactions is_resolution txSourceTransactionId posts_from
  by unfold_locales
    (auto simp: posts_from_rows is_resolution_def row_ok.simps acting_on_def dest!: posts_from_row_ok)

lemma acts_on_empty [simp]: "acts_on kind src i [] = 0"
  by (simp add: acts_on_def)

lemma acted_at_most_once:
  assumes "ledger_reachable l"
  shows "acts_on is_chargeback txSourceTransactionId t (transactions l) \<le> 1
    \<and> acts_on is_maturation txSourceTransactionId t (transactions l) \<le> 1
    \<and> acts_on is_resolution txSourceTransactionId t (transactions l) \<le> 1"
  using assms
proof (induction arbitrary: t rule: ledger_reachable.induct)
  case (posted l r l')
  then have "posts_from l r l'" by (simp add: posts_from_def reachable_keys)
  with posted.IH show ?case
    using chargeback.once_post maturation.once_post resolution.once_post by blast
qed (auto simp: empty_ledger_def openAccount_def)

subsection \<open>What is locked is what the unresolved locks reserve\<close>

definition open_lock :: "reward_transaction list \<Rightarrow> reward_transaction \<Rightarrow> bool" where
  "open_lock txs r \<longleftrightarrow> txType r = PAYOUT_LOCK
     \<and> acts_on is_resolution txSourceTransactionId (txId r) txs = 0"

definition openLocked :: "id \<Rightarrow> reward_transaction list \<Rightarrow> int" where
  "openLocked u txs = sum_for txUserId txLockedDelta u (filter (open_lock txs) txs)"

lemma sum_for_remove:
  assumes "distinct (map key rows)" and "k \<in> set rows" and "p k"
  shows "sum_for owner delta u (filter (\<lambda>x. p x \<and> key x \<noteq> key k) rows)
    = sum_for owner delta u (filter p rows) - (if owner k = u then delta k else 0)"
  using assms
proof (induction rows)
  case (Cons x rows)
  show ?case
  proof (cases "x = k")
    case True
    then have "filter (\<lambda>x. p x \<and> key x \<noteq> key k) rows = filter p rows"
      using Cons.prems(1) by (auto simp: image_iff intro!: filter_cong)
    then show ?thesis using True Cons.prems by (simp add: sum_for_def)
  next
    case False
    then have "key x \<noteq> key k" using Cons.prems by (auto simp: image_iff)
    then show ?thesis using False Cons by (simp add: sum_for_def)
  qed
qed simp

lemma filter_open_lock_snoc:
  assumes "\<not> is_resolution r"
  shows "filter (open_lock (txs @ [r])) txs = filter (open_lock txs) txs"
  using assms by (auto simp: open_lock_def acts_on_def intro!: filter_cong)

lemma filter_open_lock_resolve:
  assumes "is_resolution r" and "txSourceTransactionId r = Some (txId k)"
  shows "filter (open_lock (txs @ [r])) txs
    = filter (\<lambda>x. open_lock txs x \<and> txId x \<noteq> txId k) txs"
  using assms by (auto simp: open_lock_def acts_on_def intro!: filter_cong)

lemma openLocked_snoc_plain:
  assumes "history_ok txs" and "row_ok txs r" and "txId r \<notin> set (map txId txs)"
    and "\<not> is_resolution r"
  shows "openLocked u (txs @ [r])
    = openLocked u txs + (if txUserId r = u then txLockedDelta r else 0)"
proof -
  have "open_lock (txs @ [r]) r \<longleftrightarrow> txType r = PAYOUT_LOCK"
    using fresh_not_acted [OF assms(1,3), of is_resolution] assms(4)
    by (auto simp: open_lock_def acts_on_def)
  moreover have "txLockedDelta r = 0" if "txType r \<noteq> PAYOUT_LOCK"
    using assms(2,4) that
    by (auto simp: row_ok.simps is_resolution_def split: reward_transaction_type.splits)
  ultimately show ?thesis
    using filter_open_lock_snoc [OF assms(4)] by (auto simp: openLocked_def)
qed

lemma openLocked_snoc_resolution:
  assumes "history_ok txs" and "row_ok txs r" and "is_resolution r"
  shows "openLocked u (txs @ [r])
    = openLocked u txs + (if txUserId r = u then txLockedDelta r else 0)"
proof -
  obtain k where k: "acting_on txs r k" "txType k = PAYOUT_LOCK"
      "txLockedDelta r = - txLockedDelta k" "open_lock txs k"
    using assms(2,3) by (auto simp: row_ok.simps is_resolution_def open_lock_def)
  then have "openLocked u (txs @ [r])
      = sum_for txUserId txLockedDelta u (filter (\<lambda>x. open_lock txs x \<and> txId x \<noteq> txId k) txs)"
    using filter_open_lock_resolve [OF assms(3), of k txs] assms(3)
    by (auto simp: openLocked_def acting_on_def open_lock_def is_resolution_def)
  then show ?thesis
    using sum_for_remove [OF history_distinct [OF assms(1)], of k "open_lock txs"] k
    by (auto simp: openLocked_def acting_on_def)
qed

lemma history_openLocked:
  "history_ok txs \<Longrightarrow> sum_for txUserId txLockedDelta u txs = openLocked u txs"
proof (induction rule: history_ok.induct)
  case (snoc txs r)
  then show ?case
    using openLocked_snoc_plain [of txs r u] openLocked_snoc_resolution [of txs r u]
    by (cases "is_resolution r") auto
qed (simp add: openLocked_def)

lemma history_lock_positive:
  "history_ok txs \<Longrightarrow> r \<in> set txs \<Longrightarrow> txType r = PAYOUT_LOCK \<Longrightarrow> 0 < txLockedDelta r"
  by (induction rule: history_ok.induct) (auto simp: row_ok.simps)

lemma openLocked_nonneg: "history_ok txs \<Longrightarrow> 0 \<le> openLocked u txs"
  unfolding openLocked_def sum_for_def
  by (rule sum_list_nonneg) (auto simp: open_lock_def dest: history_lock_positive)

subsection \<open>Conservation of points\<close>

definition adjustedDelta :: "reward_transaction \<Rightarrow> int" where
  "adjustedDelta r = (if txType r = MANUAL_ADJUSTMENT then txAmountPoints r else 0)"

lemma row_ok_conserves:
  "row_ok txs r \<Longrightarrow> txPendingDelta r + txAvailableDelta r + txLockedDelta r
    = earnedDelta r - withdrawnDelta r - reversedDelta r + adjustedDelta r"
  by (auto simp: row_ok.simps earnedDelta_def withdrawnDelta_def reversedDelta_def adjustedDelta_def
      split: reward_transaction_type.splits)

lemma history_conserves:
  "history_ok txs \<Longrightarrow>
     sum_for txUserId txPendingDelta u txs + sum_for txUserId txAvailableDelta u txs
       + sum_for txUserId txLockedDelta u txs
     = sum_for txUserId earnedDelta u txs - sum_for txUserId withdrawnDelta u txs
       - sum_for txUserId reversedDelta u txs + sum_for txUserId adjustedDelta u txs"
proof (induction rule: history_ok.induct)
  case (snoc txs r)
  then show ?case using row_ok_conserves [of txs r] by auto
qed simp

end
