(* ===== verification/RewardProps.thy ===== *)
theory RewardProps
  imports RewardHistory
begin

text \<open>
  The properties of the reward ledger, stated over runs of its operations. A run is any list of
  operations, refused ones included.
\<close>

section \<open>Every run stays reachable and in range\<close>

lemma mature_none: "mature l i now t = Inr (None, l') \<Longrightarrow> l' = l"
  by (auto simp: mature_def map_sum_def split: op_results)

lemmas posted_steps = posts.intros [THEN ledger_reachable.posted [rotated]]

lemma execReward_reachable:
  assumes "ledger_reachable l" and "execReward l x = Inr l'"
  shows "ledger_reachable l'"
proof (cases x)
  case (OpOpen i u)
  then show ?thesis using assms by (auto intro: ledger_reachable.opened)
next
  case (OpMature i now t)
  then obtain r where "mature l i now t = Inr (r, l')"
    using assms(2) by (auto simp: map_sum_def split: sum.splits)
  then show ?thesis
    using assms(1) by (cases r) (auto intro: ledger_reachable.posted posts.mature dest: mature_none)
qed (use assms in \<open>auto simp: map_sum_def releaseLock_def settleLock_def split: sum.splits
      intro: posted_steps\<close>)

interpretation rewards: guarded_system execReward empty_ledger ledger_reachable
  by unfold_locales (auto intro: ledger_reachable.empty execReward_reachable)

lemma run_rewards_reachable: "ledger_reachable (run_rewards ops)"
  unfolding run_rewards_def by (rule rewards.inv_run)

definition in_range :: "ledger \<Rightarrow> bool" where
  "in_range l \<longleftrightarrow> (\<forall>b\<in>set (balances l). balance_in_range b)
     \<and> (\<forall>r\<in>set (transactions l). row_in_range r)"

lemma reachable_in_range: "ledger_reachable l \<Longrightarrow> in_range l"
proof (induction rule: ledger_reachable.induct)
  case (posted l r l')
  obtain i m b where "writeMovement l i m b = Inr (r, l')" "lockBalance l (mvUserId m) = Inr b"
    using posts_posting [OF posted(2)] by (auto simp: posting_def)
  note w = writeMovement_InrD [OF this(1)] and b = lockBalance_InrD [OF this(2)]
  have "x = b" if "x \<in> set (balances l)" "balId x = balId b" for x
    using that b reachable_keys [OF posted(1)] distinct_key_unique [of balId "balances l" x b]
    by (auto simp: ledger_keys_def)
  then show ?case using w posted.IH b by (auto simp: in_range_def set_update_where)
qed (auto simp: in_range_def empty_ledger_def openAccount_def balance_in_range_def)

section \<open>Balances and history\<close>

lemma toBalance_simps [simp]:
  "toBalance (Some b) = \<lparr>pending = pendingPoints b, available = availablePoints b,
     locked = lockedPoints b, balTotal = pendingPoints b + availablePoints b + lockedPoints b,
     lifetimeEarned = lifetimeEarnedPoints b, lifetimeWithdrawn = lifetimeWithdrawnPoints b,
     lifetimeReversed = lifetimeReversedPoints b\<rparr>"
  by (simp add: toBalance_def)

definition history_balance :: "id \<Rightarrow> reward_transaction list \<Rightarrow> balance" where
  "history_balance u txs = (let s = (\<lambda>d. sum_for txUserId d u txs) in
     \<lparr>pending = s txPendingDelta, available = s txAvailableDelta, locked = s txLockedDelta,
      balTotal = s txPendingDelta + s txAvailableDelta + s txLockedDelta,
      lifetimeEarned = s earnedDelta, lifetimeWithdrawn = s withdrawnDelta,
      lifetimeReversed = s reversedDelta\<rparr>)"

lemma reachable_getBalance:
  assumes "ledger_reachable l"
  shows "getBalance l u = history_balance u (transactions l)"
proof (cases "findBalance l u")
  case None
  have "txUserId r \<noteq> u" if "r \<in> set (transactions l)" for r
    using reachable_explained [OF assms] that None
    by (fastforce simp: explained_def findBalance_def dest: find_NoneD)
  then show ?thesis
    using None by (simp add: getBalance_def toBalance_def history_balance_def sum_for_absent)
next
  case (Some b)
  then have "b = replayed (transactions l) b"
    using reachable_explained [OF assms] by (auto simp: explained_def)
  then show ?thesis
    using iffD1 [OF explained_columns [OF Some]] Some
    by (simp add: getBalance_def history_balance_def Let_def)
qed

lemma reachable_balanced:
  assumes "ledger_reachable l"
  shows "balanced (reconcile l u) \<and> drift (reconcile l u) = \<lparr>bPending = 0, bAvailable = 0, bLocked = 0\<rparr>"
  using reachable_getBalance [OF assms, of u]
  by (simp add: reconcile_def getBalance_def history_balance_def Let_def)

text \<open>Reconciliation never finds drift: after any run of ledger operations, for every user,
  the recomputed sums of the history equal the stored balance row in all three buckets.\<close>

theorem reconcile_always_balanced:
  "balanced (reconcile (run_rewards ops) u)
   \<and> drift (reconcile (run_rewards ops) u) = \<lparr>bPending = 0, bAvailable = 0, bLocked = 0\<rparr>"
  by (rule reachable_balanced [OF run_rewards_reachable])

text \<open>C2. The balance table is a projection of the append-only history: rebuilding every
  balance row (all six point columns and the version counter) by replaying the history gives
  back the stored table, whatever operations ran and in whatever order.\<close>

theorem balances_are_replayed_history:
  "map (replayed (transactions (run_rewards ops))) (balances (run_rewards ops))
    = balances (run_rewards ops)"
proof (rule map_idI)
  fix b assume b: "b \<in> set (balances (run_rewards ops))"
  have "distinct (map balUserId (balances (run_rewards ops)))"
    using reachable_keys [OF run_rewards_reachable] by (simp add: ledger_keys_def)
  from find_key_eq [OF this b] have "findBalance (run_rewards ops) (balUserId b) = Some b"
    by (simp add: findBalance_def)
  then show "replayed (transactions (run_rewards ops)) b = b"
    using reachable_explained [OF run_rewards_reachable, of ops] by (auto simp: explained_def)
qed

text \<open>The locked bucket is exactly the sum of the payout locks that have been neither
  settled nor released, and it is never negative.\<close>

theorem locked_is_open_locks:
  "locked (getBalance (run_rewards ops) u) = openLocked u (transactions (run_rewards ops))
   \<and> 0 \<le> locked (getBalance (run_rewards ops) u)"
  using history_openLocked [OF reachable_history [OF run_rewards_reachable]]
    openLocked_nonneg [OF reachable_history [OF run_rewards_reachable]]
  by (simp add: reachable_getBalance [OF run_rewards_reachable] history_balance_def Let_def)

text \<open>Points are conserved: a user's total is what they earned, less what they withdrew and
  what was charged back, plus the manual adjustments; no operation creates or loses a point.\<close>

theorem points_conserved:
  "balTotal (getBalance (run_rewards ops) u)
    = lifetimeEarned (getBalance (run_rewards ops) u)
      - lifetimeWithdrawn (getBalance (run_rewards ops) u)
      - lifetimeReversed (getBalance (run_rewards ops) u)
      + sum_for txUserId adjustedDelta u (transactions (run_rewards ops))"
  using history_conserves [OF reachable_history [OF run_rewards_reachable]]
  by (simp add: reachable_getBalance [OF run_rewards_reachable] history_balance_def Let_def)

text \<open>C6. No credit is charged back twice, matured twice, and no lock is resolved twice, in any
  run of operations that do not overlap; and all stored amounts fit their 32-bit columns.\<close>

theorem acted_upon_once:
  "acts_on is_chargeback txSourceTransactionId t (transactions (run_rewards ops)) \<le> 1
   \<and> acts_on is_maturation txSourceTransactionId t (transactions (run_rewards ops)) \<le> 1
   \<and> acts_on is_resolution txSourceTransactionId t (transactions (run_rewards ops)) \<le> 1
   \<and> in_range (run_rewards ops)"
  using acted_at_most_once [OF run_rewards_reachable] reachable_in_range [OF run_rewards_reachable]
  by blast

section \<open>What each operation does to a balance\<close>

definition moved_by :: "reward_transaction \<Rightarrow> balance \<Rightarrow> balance" where
  "moved_by r b = \<lparr>pending = pending b + txPendingDelta r, available = available b + txAvailableDelta r,
     locked = locked b + txLockedDelta r,
     balTotal = balTotal b + (txPendingDelta r + txAvailableDelta r + txLockedDelta r),
     lifetimeEarned = lifetimeEarned b + earnedDelta r,
     lifetimeWithdrawn = lifetimeWithdrawn b + withdrawnDelta r,
     lifetimeReversed = lifetimeReversed b + reversedDelta r\<rparr>"

lemma posts_getBalance:
  assumes "ledger_reachable l" and "posts l r l'"
  shows "getBalance l' u = (if txUserId r = u then moved_by r (getBalance l u) else getBalance l u)"
    and "transactions l' = transactions l @ [r]" and "ledger_reachable l'"
proof -
  show t: "transactions l' = transactions l @ [r]"
    using assms by (simp add: posts_tables(1) reachable_keys)
  show l': "ledger_reachable l'" using assms by (rule ledger_reachable.posted)
  show "getBalance l' u = (if txUserId r = u then moved_by r (getBalance l u) else getBalance l u)"
    by (simp add: reachable_getBalance [OF assms(1)] reachable_getBalance [OF l'] t
        history_balance_def moved_by_def Let_def)
qed

lemma locked_getBalance:
  "lockBalance l u = Inr b \<Longrightarrow> pendingPoints b = pending (getBalance l u)
    \<and> availablePoints b = available (getBalance l u)"
  by (auto simp: getBalance_def dest: lockBalance_InrD)

lemma findTransaction_append:
  "findTransaction l t = Some c \<Longrightarrow> transactions l' = transactions l @ [r] \<Longrightarrow> findTransaction l' t = Some c"
  by (simp add: findTransaction_def find_append)

lemma acted_append:
  "transactions l' = transactions l @ [r] \<Longrightarrow> txSourceTransactionId r = Some t \<Longrightarrow> txType r \<in> set kinds
    \<Longrightarrow> acted l' t kinds \<noteq> None"
  by (auto simp: acted_def find_append split: option.splits)

lemma reverseCredit_InrD:
  assumes "reverseCredit l i now t reason actor source = Inr (r, l')"
  shows "\<exists>c b. findTransaction l t = Some c \<and> 0 < txAmountPoints c
    \<and> lockBalance l (txUserId c) = Inr b \<and> txUserId r = txUserId c \<and> txType r = CHARGEBACK_DEBIT
    \<and> txAmountPoints r = - txAmountPoints c \<and> txLockedDelta r = 0
    \<and> txPendingDelta r = - min (pendingPoints b) (txAmountPoints c)
    \<and> txAvailableDelta r = - (txAmountPoints c - min (pendingPoints b) (txAmountPoints c))
    \<and> txSourceTransactionId r = Some t"
  using assms findTransaction_SomeD [of l t]
  by (auto simp: reverseCredit_def reverseCheck_def reverseCommit_def Let_def created_row_def
      split: op_results dest!: writeMovement_InrD(1))

lemma resolveLock_InrD:
  assumes "resolveLock l i now t settling reason actor = Inr (r, l')"
  shows "\<exists>k. findTransaction l t = Some k \<and> txType k = PAYOUT_LOCK \<and> txUserId r = txUserId k
    \<and> txType r = (if settling then PAYOUT_SETTLE else PAYOUT_REFUND)
    \<and> txAmountPoints r = (if settling then - txLockedDelta k else 0) \<and> txPendingDelta r = 0
    \<and> txAvailableDelta r = (if settling then 0 else txLockedDelta k)
    \<and> txLockedDelta r = - txLockedDelta k \<and> txSourceTransactionId r = Some t"
  using assms findTransaction_SomeD [of l t]
  by (auto simp: resolveLock_def Let_def created_row_def split: op_results
      dest!: writeMovement_InrD(1))

lemma mature_InrD:
  assumes "mature l i now t = Inr (Some r, l')"
  shows "\<exists>c. findTransaction l t = Some c \<and> txUserId r = txUserId c \<and> txType r = REWARD_MATURATION
    \<and> txAmountPoints r = 0 \<and> txPendingDelta r = - txAmountPoints c
    \<and> txAvailableDelta r = txAmountPoints c \<and> txLockedDelta r = 0
    \<and> txSourceTransactionId r = Some t"
  using assms findTransaction_SomeD [of l t]
  by (auto simp: mature_def map_sum_def created_row_def split: op_results
      dest!: writeMovement_InrD(1))

text \<open>C8. A chargeback takes back exactly the credit's points: what is still pending first, the
  rest from available, never from locked points, and nothing from anyone else; the points counted
  as reversed grow by the amount, and a second chargeback of the same credit is refused.\<close>

theorem reverse_takes_exactly_the_credit:
  assumes "reverseCredit (run_rewards ops) i now t reason actor source = Inr (r, l')"
  shows "\<exists>c. findTransaction (run_rewards ops) t = Some c
    \<and> (let b = getBalance (run_rewards ops) (txUserId c); n = txAmountPoints c;
           p = min (pending b) n
       in getBalance l' (txUserId c) = b\<lparr>pending := pending b - p,
            available := available b - (n - p), balTotal := balTotal b - n,
            lifetimeReversed := lifetimeReversed b + n\<rparr>)
    \<and> (\<forall>v. v \<noteq> txUserId c \<longrightarrow> getBalance l' v = getBalance (run_rewards ops) v)
    \<and> reverseCredit l' j now' t reason' actor' source' = Inl (DomainError REWARD_INVALID_OPERATION 409)"
proof -
  note post = posts_getBalance [OF run_rewards_reachable posts.reverse [OF assms]]
  obtain c b where c: "findTransaction (run_rewards ops) t = Some c" "0 < txAmountPoints c"
      "lockBalance (run_rewards ops) (txUserId c) = Inr b" "txUserId r = txUserId c"
      "txType r = CHARGEBACK_DEBIT" "txAmountPoints r = - txAmountPoints c" "txLockedDelta r = 0"
      "txPendingDelta r = - min (pendingPoints b) (txAmountPoints c)"
      "txAvailableDelta r = - (txAmountPoints c - min (pendingPoints b) (txAmountPoints c))"
      "txSourceTransactionId r = Some t"
    using reverseCredit_InrD [OF assms] by blast
  have "acted l' (txId c) [CHARGEBACK_DEBIT] \<noteq> None"
    using acted_append [OF post(2)] c(5,10) findTransaction_SomeD [OF c(1)] by auto
  then have "reverseCredit l' j now' t reason' actor' source'
      = Inl (DomainError REWARD_INVALID_OPERATION 409)"
    using findTransaction_append [OF c(1) post(2)] c(2)
    by (auto simp: reverseCredit_def reverseCheck_def)
  then show ?thesis
    using c locked_getBalance [OF c(3)]
    by (simp add: post(1) moved_by_def Let_def earnedDelta_def withdrawnDelta_def reversedDelta_def)
qed

text \<open>Resolving a lock: releasing it puts the balance back to what it was before the lock,
  point for point; settling it removes exactly the locked points and counts them as withdrawn.
  Either way a second resolution, of either kind, is refused.\<close>

theorem lock_then_resolve:
  assumes "lockPoints (run_rewards ops) i now u amount payoutId label = Inr (k, l1)"
    and "resolveLock l1 j now' (txId k) settling reason actor = Inr (r, l2)"
  shows "getBalance l2 u = (let b = getBalance (run_rewards ops) u; n = txLockedDelta k in
      if settling then b\<lparr>available := available b - n, balTotal := balTotal b - n,
                         lifetimeWithdrawn := lifetimeWithdrawn b + n\<rparr>
      else b)
    \<and> of_int (txLockedDelta k) = amount
    \<and> resolveLock l2 j' now'' (txId k) settling' reason' actor'
        = Inl (DomainError REWARD_INVALID_OPERATION 409)"
proof -
  have k: "txUserId k = u" "txType k = PAYOUT_LOCK" "of_int (txLockedDelta k) = amount"
      "txPendingDelta k = 0" "txAvailableDelta k = - txLockedDelta k" "txAmountPoints k = 0"
    using assms(1) by (auto simp: lockPoints_def created_row_def split: op_results
        dest!: writeMovement_InrD(1) requirePositive_InrD)
  note post1 = posts_getBalance [OF run_rewards_reachable posts.lock [OF assms(1)]]
  note post2 = posts_getBalance [OF post1(3) posts.resolve [OF assms(2)]]
  obtain k' where r: "findTransaction l1 (txId k) = Some k'" "txUserId r = txUserId k'"
      "txType r = (if settling then PAYOUT_SETTLE else PAYOUT_REFUND)" "txType k' = PAYOUT_LOCK"
      "txAmountPoints r = (if settling then - txLockedDelta k' else 0)" "txPendingDelta r = 0"
      "txAvailableDelta r = (if settling then 0 else txLockedDelta k')"
      "txLockedDelta r = - txLockedDelta k'" "txSourceTransactionId r = Some (txId k)"
    using resolveLock_InrD [OF assms(2)] by blast
  have "k' = k"
    using findTransaction_SomeD [OF r(1)] post1(2)
      distinct_key_unique [OF history_distinct [OF reachable_history [OF post1(3)]], of k' k] by simp
  moreover have "acted l2 (txId k) [PAYOUT_SETTLE, PAYOUT_REFUND] \<noteq> None"
    using acted_append [OF post2(2) r(9)] r(3) by auto
  ultimately show ?thesis
    using k r findTransaction_append [OF r(1) post2(2)]
    by (simp add: post1(1) post2(1) moved_by_def earnedDelta_def withdrawnDelta_def
        reversedDelta_def resolveLock_def Let_def)
qed

text \<open>A lock succeeds only against available points: asking for more than is available is
  refused as insufficient and nothing changes, and a lock that is granted leaves available
  non-negative and the total untouched.\<close>

theorem lock_needs_available:
  "case lockPoints (run_rewards ops) i now u amount payoutId label of
     Inr (k, l') \<Rightarrow>
       0 < amount \<and> amount \<le> of_int (available (getBalance (run_rewards ops) u))
       \<and> 0 \<le> available (getBalance l' u)
       \<and> balTotal (getBalance l' u) = balTotal (getBalance (run_rewards ops) u)
       \<and> of_int (locked (getBalance l' u)) = of_int (locked (getBalance (run_rewards ops) u)) + amount
   | Inl e \<Rightarrow>
       requirePositive amount = Inl e
       \<or> e = DomainError USER_NOT_FOUND 404 \<and> findBalance (run_rewards ops) u = None
       \<or> e = DomainError REWARD_INSUFFICIENT_BALANCE 409
         \<and> of_int (available (getBalance (run_rewards ops) u)) < amount
       \<or> e = UniqueViolation \<and> i \<in> txId ` set (transactions (run_rewards ops))
       \<or> e = OutOfRange"
proof (cases "lockPoints (run_rewards ops) i now u amount payoutId label")
  case (Inl e)
  then show ?thesis
    by (auto simp: lockPoints_def Let_def writeMovement_def requirePositive_def lockBalance_def
        getBalance_def findTransaction_def find_None_filter filter_empty_conv
        split: op_results)
next
  case (Inr a)
  then obtain k l' where a: "a = (k, l')" by (cases a)
  note post = posts_getBalance [OF run_rewards_reachable posts.lock [OF Inr [unfolded a]]]
  from Inr a obtain n b where n: "of_int n = amount" "0 < n" "n \<le> availablePoints b"
      "lockBalance (run_rewards ops) u = Inr b" "txUserId k = u" "txType k = PAYOUT_LOCK"
      "txPendingDelta k = 0" "txAvailableDelta k = - n" "txLockedDelta k = n"
    by (auto simp: lockPoints_def created_row_def not_less split: op_results
        dest!: writeMovement_InrD(1) requirePositive_InrD)
  show ?thesis
    unfolding Inr a sum.case prod.case
    using n(2-) locked_getBalance [OF n(4)]
    by (simp add: n(1) [symmetric] post(1) moved_by_def)
qed

text \<open>A maturation moves exactly the credit's points from pending to available and leaves
  the total alone, and maturing the same credit again does nothing.\<close>

theorem mature_once:
  assumes "mature (run_rewards ops) i now t = Inr (Some r, l')"
  shows "\<exists>c. findTransaction (run_rewards ops) t = Some c
    \<and> (let b = getBalance (run_rewards ops) (txUserId c); n = txAmountPoints c
       in getBalance l' (txUserId c) = b\<lparr>pending := pending b - n, available := available b + n\<rparr>)
    \<and> mature l' j now' t = Inr (None, l')"
proof -
  note post = posts_getBalance [OF run_rewards_reachable posts.mature [OF assms]]
  obtain c where c: "findTransaction (run_rewards ops) t = Some c" "txUserId r = txUserId c"
      "txType r = REWARD_MATURATION" "txPendingDelta r = - txAmountPoints c"
      "txAvailableDelta r = txAmountPoints c" "txLockedDelta r = 0"
      "txSourceTransactionId r = Some t"
    using mature_InrD [OF assms] by blast
  have "acted l' (txId c) [REWARD_MATURATION, CHARGEBACK_DEBIT] \<noteq> None"
    using acted_append [OF post(2)] c(3,7) findTransaction_SomeD [OF c(1)] by auto
  then show ?thesis
    using c findTransaction_append [OF c(1) post(2)]
    by (auto simp: post(1) moved_by_def Let_def earnedDelta_def withdrawnDelta_def
        reversedDelta_def mature_def)
qed

section \<open>Derived status\<close>

text \<open>Every movement has a derived status, and the status filter of the history query
  selects exactly the movements whose derived status is the one asked for.\<close>

theorem status_filter_agrees:
  "rewardStatusOf ty d \<noteq> None
   \<and> (rewardStatusOf ty d = Some s \<longleftrightarrow> matches_status (whereForStatus s) ty d)"
  by (cases ty; cases s; cases "d > 0")
    (simp_all add: rewardStatusOf_def REWARD_STATUSES_IN_ORDER_def matches_status_def
      whereForStatus_def CREDIT_TYPES_def)

section \<open>Concrete runs\<close>

definition demo_credit :: "id \<Rightarrow> credit_input" where
  "demo_credit u = \<lparr>crUserId = u, crAmountPoints = 100,
     crSource = \<lparr>sourceType = SOURCE_CONVERSION, sourceId = Some 5, sourceLabel = None\<rparr>,
     crActor = None, crReason = None, crHoldScopeProviderId = None, crHoldIndefinitely = False,
     crBonus = False\<rparr>"

text \<open>Two credits, the second of them matured.\<close>

definition demo_ops :: "reward_op list" where
  "demo_ops = [OpOpen 1 7, OpCredit (\<lambda>_. 0) 10 0 (demo_credit 7),
     OpCredit (\<lambda>_. 0) 11 0 (demo_credit 7), OpMature 12 1 11]"

lemmas reward_eval = run_rewards_def demo_ops_def demo_credit_def credit_def debit_def mature_def
  reverseCredit_def reverseCheck_def reverseCommit_def reverse_source_def lockPoints_def
  resolveLock_def releaseLock_def settleLock_def mutate_def writeMovement_def lockBalance_def
  findBalance_def findTransaction_def acted_def openAccount_def empty_ledger_def
  requirePositive_def created_row_def moved_balance_def or_zero_def row_in_range_def
  balance_in_range_def int4_def system_actor_def dayMs_def getBalance_def
  Let_def

lemma reverse_takes_exactly_the_credit_witness:
  "\<exists>r l'. reverseCredit (run_rewards demo_ops) 13 2 11 ''x'' None None = Inr (r, l')
    \<and> available (getBalance l' 7) = 100 \<and> pending (getBalance l' 7) = 0"
proof -
  obtain r l' where r: "reverseCredit (run_rewards demo_ops) 13 2 11 ''x'' None None = Inr (r, l')"
    by (simp add: reward_eval)
  moreover have "findTransaction (run_rewards demo_ops) 11 \<noteq> None"
    by (simp add: reward_eval)
  ultimately show ?thesis
    using reverse_takes_exactly_the_credit [OF r, of 14 3 "''y''" None None]
    by (auto simp: reward_eval)
qed

lemma lock_then_resolve_witness:
  "\<exists>k l1 r l2. lockPoints (run_rewards demo_ops) 13 2 7 60 9 None = Inr (k, l1)
    \<and> resolveLock l1 14 3 (txId k) False ''x'' None = Inr (r, l2)
    \<and> getBalance l2 7 = getBalance (run_rewards demo_ops) 7"
proof -
  obtain k l1 where k: "lockPoints (run_rewards demo_ops) 13 2 7 60 9 None = Inr (k, l1)"
    by (simp add: reward_eval)
  then obtain r l2 where r: "resolveLock l1 14 3 (txId k) False ''x'' None = Inr (r, l2)"
    by (auto simp: reward_eval)
  show ?thesis
    using k r lock_then_resolve [OF k r] by auto
qed

lemma mature_once_witness:
  "\<exists>r l'. mature (run_rewards demo_ops) 13 2 10 = Inr (Some r, l')
    \<and> mature l' 14 3 10 = Inr (None, l')"
proof -
  obtain r l' where r: "mature (run_rewards demo_ops) 13 2 10 = Inr (Some r, l')"
    by (simp add: reward_eval)
  then show ?thesis using mature_once [OF r, of 14 3] by blast
qed

section \<open>What the operations do not guarantee\<close>

text \<open>A chargeback of a credit that has already matured takes pending points first, and those belong
  to another credit. When that credit matures in its turn, pending falls below zero and more
  points become available than the user has in total.
\<close>

lemma matured_reversal_takes_other_credits_pending:
  "let b = getBalance (run_rewards (demo_ops @ [OpReverse 13 2 11 ''fraud'' None None, OpMature 14 3 10])) 7
   in pending b = - 100 \<and> available b = 200 \<and> balTotal b = 100"
  by (simp add: reward_eval)

text \<open>The chargeback check runs before the balance row is locked. Two chargebacks of one credit that
  both pass the check before either commits are both written: the second commit does not look
  again, and no constraint of the table stops it.
\<close>

lemma concurrent_reversals_both_commit:
  "\<exists>c r1 l1 r2 l2. reverseCheck (run_rewards demo_ops) 10 = Inr c
    \<and> reverseCommit (run_rewards demo_ops) 20 2 c ''a'' None None = Inr (r1, l1)
    \<and> reverseCommit l1 21 2 c ''b'' None None = Inr (r2, l2)
    \<and> acts_on is_chargeback txSourceTransactionId 10 (transactions l2) = 2
    \<and> balTotal (getBalance l2 7) = 0"
  by (simp add: reward_eval acts_on_def is_chargeback_def count_where_def)

end
