(* ===== verification/Payouts.thy ===== *)
theory Payouts
  imports RewardProps
begin

text \<open>
  Withdrawals: \<^verbatim>\<open>apps/api/src/modules/payouts\<close> (the state machine, the destination
  rules, \<open>PayoutsService\<close>, the manual provider). The state is the \<open>payout_requests\<close>
  table beside the reward ledger that every request locks its points in. Configuration values,
  the clock and fresh ids are arguments; the payout provider is the contract's interface, of
  which the manual provider is the implementation the module binds.
\<close>

section \<open>The state machine\<close>

datatype payout_status = PENDING_REVIEW | APPROVED | PAID | REJECTED | FAILED

fun PAYOUT_TRANSITIONS :: "payout_status \<Rightarrow> payout_status list" where
  "PAYOUT_TRANSITIONS PENDING_REVIEW = [APPROVED, REJECTED]"
| "PAYOUT_TRANSITIONS APPROVED = [PAID, FAILED]"
| "PAYOUT_TRANSITIONS PAID = []"
| "PAYOUT_TRANSITIONS REJECTED = []"
| "PAYOUT_TRANSITIONS FAILED = []"

datatype lock_effect = EffectNone | EffectSettle | EffectRelease

definition lockEffectOf :: "payout_status \<Rightarrow> payout_status \<Rightarrow> lock_effect" where
  "lockEffectOf from to =
     (if from = PENDING_REVIEW \<and> to = APPROVED then EffectNone
      else if to = PAID then EffectSettle
      else if to = REJECTED \<or> to = FAILED then EffectRelease
      else EffectNone)"

definition canTransition :: "payout_status \<Rightarrow> payout_status \<Rightarrow> bool" where
  "canTransition from to \<longleftrightarrow> to \<in> set (PAYOUT_TRANSITIONS from)"

definition isTerminal :: "payout_status \<Rightarrow> bool" where
  "isTerminal status \<longleftrightarrow> length (PAYOUT_TRANSITIONS status) = 0"

definition assertTransition :: "payout_status \<Rightarrow> payout_status \<Rightarrow> unit result" where
  "assertTransition from to =
     (if canTransition from to then Inr () else Inl (DomainError PAYOUT_INVALID_TRANSITION 409))"

section \<open>Destinations\<close>

text \<open>\<open>[\p{Cc}\p{Cf}]\<close> restricted to Latin-1: the two control ranges and the soft hyphen.\<close>

definition control_character :: "char \<Rightarrow> bool" where
  "control_character c = (let n = code_unit c in n \<le> 31 \<or> (127 \<le> n \<and> n \<le> 159) \<or> n = 173)"

definition normalizeDestination :: "string \<Rightarrow> string result" where
  "normalizeDestination raw =
     (let destination = js_trim raw in
      if length destination < 4 \<or> length destination > 200
      then Inl (DomainError PAYOUT_DESTINATION_INVALID 422)
      else if list_ex control_character destination
      then Inl (DomainError PAYOUT_DESTINATION_INVALID 422)
      else Inr destination)"

text \<open>A masked character (the bullet U+2022) is \<^term>\<open>None\<close>.\<close>

definition maskDestination :: "string \<Rightarrow> char option list" where
  "maskDestination destination =
     (let visible = 4; n = length destination in
      if n \<le> visible then replicate n None
      else replicate (min (n - visible) 12) None @ map Some (drop (n - visible) destination))"

section \<open>The payout provider\<close>

record payout_execution_request =
  exPayoutId :: id
  exUserId :: id
  exAmountMinor :: int
  exCurrency :: string
  exMethod :: string
  exDestination :: string
  exExternalReference :: "string option"

datatype payout_execution_result = Settled string | NotSettled string

record payout_provider =
  supports :: "string \<Rightarrow> bool"
  execute_request :: "payout_execution_request \<Rightarrow> payout_execution_result"

definition manual_execute :: "payout_execution_request \<Rightarrow> payout_execution_result" where
  "manual_execute request =
     (let externalReference = js_trim (case exExternalReference request of None \<Rightarrow> [] | Some r \<Rightarrow> r)
      in if length externalReference = 0
         then NotSettled ''no external payment reference was recorded''
         else Settled externalReference)"

definition ManualPayoutProvider :: payout_provider where
  "ManualPayoutProvider = \<lparr>supports = (\<lambda>_. True), execute_request = manual_execute\<rparr>"

section \<open>Requests and configuration\<close>

record payout_request =
  poId :: id
  poUserId :: id
  poStatus :: payout_status
  poAmountPoints :: int
  poCashAmountMinor :: int
  poCashCurrency :: string
  poPointsPerCurrencyUnit :: int
  poMethod :: string
  poDestination :: string
  poLockTransactionId :: id
  poReviewedByAdminId :: "id option"
  poReviewedAt :: "millis option"
  poReviewReason :: "string option"
  poExternalReference :: "string option"
  poSettledAt :: "millis option"
  poCreatedAt :: millis

record payouts_state =
  poLedger :: ledger
  payoutRequests :: "payout_request list"

definition empty_payouts :: payouts_state where
  "empty_payouts = \<lparr>poLedger = empty_ledger, payoutRequests = []\<rparr>"

text \<open>The values of the six keys of \<^verbatim>\<open>payouts.config.ts\<close>; their schemas are in \<open>ConfigKeys\<close>.\<close>

record payouts_config =
  minimum_points :: int
  maximum_points :: int
  max_requests_per_day :: int
  enabled_methods :: "string list"
  points_per_currency_unit :: int
  payout_currency :: string

definition default_payouts_config :: payouts_config where
  "default_payouts_config = \<lparr>minimum_points = 1000, maximum_points = 500000,
     max_requests_per_day = 3, enabled_methods = [''paypal''],
     points_per_currency_unit = 1000, payout_currency = ''USD''\<rparr>"

record payout_options =
  optMethods :: "string list"
  optMinimumPoints :: int
  optMaximumPoints :: int
  optPointsPerCurrencyUnit :: int
  optCurrency :: string

definition options :: "payout_provider \<Rightarrow> payouts_config \<Rightarrow> payout_options" where
  "options provider c = \<lparr>optMethods = filter (supports provider) (enabled_methods c),
     optMinimumPoints = minimum_points c, optMaximumPoints = maximum_points c,
     optPointsPerCurrencyUnit = points_per_currency_unit c, optCurrency = payout_currency c\<rparr>"

section \<open>Submitting\<close>

text \<open>
  \<open>Math.floor((points * 100) / rate)\<close>. Both operands are integers below \<open>2^53\<close>, where
  the rounded quotient of two doubles never reaches the next integer, so the floor is the integer
  division.
\<close>

definition toCashMinor :: "int \<Rightarrow> int \<Rightarrow> int" where
  "toCashMinor amountPoints pointsPerCurrencyUnit = (amountPoints * 100) div pointsPerCurrencyUnit"

definition assertWithinDailyCap :: "payouts_state \<Rightarrow> millis \<Rightarrow> id \<Rightarrow> int \<Rightarrow> unit result" where
  "assertWithinDailyCap s nowMs u cap =
     (let since = nowMs - dayMs;
          recent = count_where (\<lambda>p. poUserId p = u \<and> since \<le> poCreatedAt p) (payoutRequests s)
      in if cap \<le> int recent then Inl (DomainError PAYOUT_DAILY_LIMIT_REACHED 429) else Inr ())"

record submit_input =
  sbUserId :: id
  sbAmountPoints :: rat
  sbMethod :: string
  sbDestination :: string

definition submit_checks :: "payout_provider \<Rightarrow> payouts_config \<Rightarrow> payouts_state \<Rightarrow> millis
    \<Rightarrow> submit_input \<Rightarrow> (string \<times> string) result" where
  "submit_checks provider c s now input =
     (let m = js_lower (js_trim (sbMethod input)) in
      if m \<notin> set (enabled_methods c) then Inl (DomainError PAYOUT_METHOD_UNSUPPORTED 422)
      else if \<not> supports provider m then Inl (DomainError PAYOUT_METHOD_UNSUPPORTED 422)
      else if of_int \<lfloor>sbAmountPoints input\<rfloor> \<noteq> sbAmountPoints input
              \<or> sbAmountPoints input < of_int (minimum_points c)
              \<or> sbAmountPoints input > of_int (maximum_points c)
      then Inl (DomainError PAYOUT_AMOUNT_OUT_OF_RANGE 422)
      else (case normalizeDestination (sbDestination input) of
          Inl e \<Rightarrow> Inl e
        | Inr destination \<Rightarrow>
            (case assertWithinDailyCap s now (sbUserId input) (max_requests_per_day c) of
               Inl e \<Rightarrow> Inl e
             | Inr _ \<Rightarrow> Inr (m, destination))))"

text \<open>The transaction: the lock first, then the row that names it. The row's primary key and its
  32-bit columns are checked by the database.\<close>

definition payout_in_range :: "payout_request \<Rightarrow> bool" where
  "payout_in_range p \<longleftrightarrow> int4 (poAmountPoints p) \<and> int4 (poCashAmountMinor p)
     \<and> int4 (poPointsPerCurrencyUnit p)"

definition submit :: "payout_provider \<Rightarrow> payouts_config \<Rightarrow> payouts_state \<Rightarrow> id \<Rightarrow> id \<Rightarrow> millis
    \<Rightarrow> submit_input \<Rightarrow> (payout_request \<times> payouts_state) result" where
  "submit provider c s payoutId lockTxId now input =
     (case submit_checks provider c s now input of
        Inl e \<Rightarrow> Inl e
      | Inr (m, destination) \<Rightarrow>
          (case lockPoints (poLedger s) lockTxId now (sbUserId input) (sbAmountPoints input)
                  payoutId (Some m) of
             Inl e \<Rightarrow> Inl e
           | Inr (lockRow, l') \<Rightarrow>
               let row = \<lparr>poId = payoutId, poUserId = sbUserId input, poStatus = PENDING_REVIEW,
                     poAmountPoints = \<lfloor>sbAmountPoints input\<rfloor>,
                     poCashAmountMinor =
                       toCashMinor \<lfloor>sbAmountPoints input\<rfloor> (points_per_currency_unit c),
                     poCashCurrency = payout_currency c,
                     poPointsPerCurrencyUnit = points_per_currency_unit c, poMethod = m,
                     poDestination = destination, poLockTransactionId = txId lockRow,
                     poReviewedByAdminId = None, poReviewedAt = None, poReviewReason = None,
                     poExternalReference = None, poSettledAt = None, poCreatedAt = now\<rparr>
               in if payoutId \<in> set (map poId (payoutRequests s)) then Inl UniqueViolation
                  else if \<not> payout_in_range row then Inl OutOfRange
                  else Inr (row, \<lparr>poLedger = l', payoutRequests = payoutRequests s @ [row]\<rparr>)))"

section \<open>Reviewing\<close>

record review_input =
  rvAdminId :: id
  rvReason :: "string option"
  rvExternalReference :: "string option"

definition REASON_REQUIRED_FOR :: "payout_status list" where
  "REASON_REQUIRED_FOR = [REJECTED, FAILED]"

fun status_lower :: "payout_status \<Rightarrow> string" where
  "status_lower PENDING_REVIEW = ''pending_review''"
| "status_lower APPROVED = ''approved''"
| "status_lower PAID = ''paid''"
| "status_lower REJECTED = ''rejected''"
| "status_lower FAILED = ''failed''"

definition or_else :: "string \<Rightarrow> string \<Rightarrow> string" where
  "or_else reason fallback = (if reason = [] then fallback else reason)"

definition findPayout :: "payouts_state \<Rightarrow> id \<Rightarrow> payout_request option" where
  "findPayout s i = List.find (\<lambda>p. poId p = i) (payoutRequests s)"

definition requireById :: "payouts_state \<Rightarrow> id \<Rightarrow> payout_request result" where
  "requireById s i = (case findPayout s i of
     None \<Rightarrow> Inl (DomainError PAYOUT_NOT_FOUND 404) | Some p \<Rightarrow> Inr p)"

definition resolve_effect :: "ledger \<Rightarrow> id \<Rightarrow> millis \<Rightarrow> payout_request \<Rightarrow> payout_status \<Rightarrow> string
    \<Rightarrow> id \<Rightarrow> ledger result" where
  "resolve_effect l txI now p to reason adminId =
     (case lockEffectOf (poStatus p) to of
        EffectSettle \<Rightarrow> map_sum (\<lambda>e. e) snd (settleLock l txI now (poLockTransactionId p)
          (or_else reason ''withdrawal paid'') (Some (admin_actor (Some adminId))))
      | EffectRelease \<Rightarrow> map_sum (\<lambda>e. e) snd (releaseLock l txI now (poLockTransactionId p)
          (or_else reason (''withdrawal '' @ status_lower to)) (Some (admin_actor (Some adminId))))
      | EffectNone \<Rightarrow> Inr l)"

definition reviewed_row :: "payout_status \<Rightarrow> review_input \<Rightarrow> string \<Rightarrow> millis \<Rightarrow> payout_request
    \<Rightarrow> payout_request" where
  "reviewed_row to review reason now p = p\<lparr>poStatus := to,
     poReviewedByAdminId := Some (rvAdminId review), poReviewedAt := Some now,
     poReviewReason := (if 0 < length reason then Some reason else poReviewReason p),
     poSettledAt := (if to = PAID then Some now else poSettledAt p),
     poExternalReference := (if to = PAID then rvExternalReference review
                             else poExternalReference p)\<rparr>"

definition applyTransition :: "payouts_state \<Rightarrow> id \<Rightarrow> millis \<Rightarrow> id \<Rightarrow> payout_status \<Rightarrow> review_input
    \<Rightarrow> (payout_request \<times> payouts_state) result" where
  "applyTransition s txI now payoutId to review =
     (let reason = (case rvReason review of None \<Rightarrow> [] | Some r \<Rightarrow> js_trim r) in
      if to \<in> set REASON_REQUIRED_FOR \<and> length reason = 0 then Inl (ValidationError [''reason''])
      else (case findPayout s payoutId of
          None \<Rightarrow> Inl (DomainError PAYOUT_NOT_FOUND 404)
        | Some p \<Rightarrow>
            (case assertTransition (poStatus p) to of
               Inl e \<Rightarrow> Inl e
             | Inr _ \<Rightarrow>
                 (case resolve_effect (poLedger s) txI now p to reason (rvAdminId review) of
                    Inl e \<Rightarrow> Inl e
                  | Inr l' \<Rightarrow> Inr (reviewed_row to review reason now p,
                      \<lparr>poLedger = l', payoutRequests =
                         update_where (\<lambda>q. poId q = payoutId) (reviewed_row to review reason now)
                           (payoutRequests s)\<rparr>)))))"

text \<open>\<open>execute\<close> runs before the transition, outside its transaction.\<close>

definition execute :: "payout_provider \<Rightarrow> payouts_state \<Rightarrow> id \<Rightarrow> string \<Rightarrow> string result" where
  "execute provider s payoutId externalReference =
     (case requireById s payoutId of
        Inl e \<Rightarrow> Inl e
      | Inr p \<Rightarrow>
          (case assertTransition (poStatus p) PAID of
             Inl e \<Rightarrow> Inl e
           | Inr _ \<Rightarrow>
               (case execute_request provider
                   \<lparr>exPayoutId = poId p, exUserId = poUserId p,
                    exAmountMinor = poCashAmountMinor p, exCurrency = poCashCurrency p,
                    exMethod = poMethod p, exDestination = poDestination p,
                    exExternalReference = Some externalReference\<rparr> of
                  NotSettled _ \<Rightarrow> Inl (DomainError PAYOUT_INVALID_TRANSITION 409)
                | Settled reference \<Rightarrow> Inr reference)))"

section \<open>Reads\<close>

record payouts_query =
  pqUserId :: "id option"
  pqStatus :: "payout_status option"
  pqMethod :: "string option"
  pqLimit :: "int option"
  pqOffset :: "int option"

definition matches_payout :: "payouts_query \<Rightarrow> payout_request \<Rightarrow> bool" where
  "matches_payout q p \<longleftrightarrow> opt_eq (pqUserId q) (poUserId p) \<and> opt_eq (pqStatus q) (poStatus p)
     \<and> (case pqMethod q of None \<Rightarrow> True | Some m \<Rightarrow> m = [] \<or> poMethod p = m)"

text \<open>The review queue is oldest first, every other listing newest first.\<close>

definition findManyPayouts :: "payouts_state \<Rightarrow> payouts_query \<Rightarrow> payout_request paginated" where
  "findManyPayouts s q = page (clampLimit 25 100 (pqLimit q)) (clampOffset (pqOffset q))
     (sort_key (\<lambda>p. if pqStatus q = Some PENDING_REVIEW then poCreatedAt p else - poCreatedAt p)
       (filter (matches_payout q) (payoutRequests s)))"

definition findManyForUser :: "payouts_state \<Rightarrow> id \<Rightarrow> payouts_query \<Rightarrow> payout_request paginated" where
  "findManyForUser s u q = findManyPayouts s (q\<lparr>pqUserId := Some u\<rparr>)"

definition requireOwnedBy :: "payouts_state \<Rightarrow> id \<Rightarrow> id \<Rightarrow> payout_request result" where
  "requireOwnedBy s i u =
     (case requireById s i of
        Inl e \<Rightarrow> Inl e
      | Inr p \<Rightarrow> if poUserId p \<noteq> u then Inl (DomainError PAYOUT_NOT_FOUND 404) else Inr p)"

definition countPaidFor :: "payouts_state \<Rightarrow> id \<Rightarrow> nat" where
  "countPaidFor s u = count_where (\<lambda>p. poUserId p = u \<and> poStatus p = PAID) (payoutRequests s)"

record payout_summary =
  smId :: id
  smStatus :: payout_status
  smAmountPoints :: int
  smCashAmountMinor :: int
  smCashCurrency :: string
  smMethod :: string
  smDestinationMasked :: "char option list"
  smReviewReason :: "string option"
  smCreatedAt :: millis
  smReviewedAt :: "millis option"
  smSettledAt :: "millis option"

definition toSummary :: "payout_request \<Rightarrow> payout_summary" where
  "toSummary p = \<lparr>smId = poId p, smStatus = poStatus p, smAmountPoints = poAmountPoints p,
     smCashAmountMinor = poCashAmountMinor p, smCashCurrency = poCashCurrency p,
     smMethod = poMethod p, smDestinationMasked = maskDestination (poDestination p),
     smReviewReason = poReviewReason p, smCreatedAt = poCreatedAt p,
     smReviewedAt = poReviewedAt p, smSettledAt = poSettledAt p\<rparr>"

record admin_payout_summary =
  asId :: id
  asUserId :: id
  asStatus :: payout_status
  asAmountPoints :: int
  asCashAmountMinor :: int
  asCashCurrency :: string
  asPointsPerCurrencyUnit :: int
  asMethod :: string
  asReviewedByAdminId :: "id option"
  asReviewedAt :: "millis option"
  asReviewReason :: "string option"
  asExternalReference :: "string option"
  asSettledAt :: "millis option"
  asCreatedAt :: millis

definition toAdminSummary :: "payout_request \<Rightarrow> admin_payout_summary" where
  "toAdminSummary p = \<lparr>asId = poId p, asUserId = poUserId p, asStatus = poStatus p,
     asAmountPoints = poAmountPoints p, asCashAmountMinor = poCashAmountMinor p,
     asCashCurrency = poCashCurrency p, asPointsPerCurrencyUnit = poPointsPerCurrencyUnit p,
     asMethod = poMethod p, asReviewedByAdminId = poReviewedByAdminId p,
     asReviewedAt = poReviewedAt p, asReviewReason = poReviewReason p,
     asExternalReference = poExternalReference p, asSettledAt = poSettledAt p,
     asCreatedAt = poCreatedAt p\<rparr>"

section \<open>Payouts and the rest of the ledger as one guarded system\<close>

text \<open>The ledger operations of the other modules; only the payout service locks points.\<close>

datatype other_op =
    OtherOpen id id
  | OtherCredit "id option \<Rightarrow> int" id millis credit_input
  | OtherDebit id millis debit_input
  | OtherReverse id millis id string "reward_actor option" "reward_source option"
  | OtherMature id millis id

fun as_reward_op :: "other_op \<Rightarrow> reward_op" where
  "as_reward_op (OtherOpen i u) = OpOpen i u"
| "as_reward_op (OtherCredit h i now input) = OpCredit h i now input"
| "as_reward_op (OtherDebit i now input) = OpDebit i now input"
| "as_reward_op (OtherReverse i now t reason actor source) = OpReverse i now t reason actor source"
| "as_reward_op (OtherMature i now t) = OpMature i now t"

datatype payout_op =
    OpSubmit payouts_config id id millis submit_input
  | OpReview id millis id payout_status review_input
  | OpOther other_op

fun execPayout :: "payout_provider \<Rightarrow> payouts_state \<Rightarrow> payout_op \<Rightarrow> payouts_state result" where
  "execPayout provider s (OpSubmit c i t now input) = map_sum (\<lambda>e. e) snd (submit provider c s i t now input)"
| "execPayout provider s (OpReview t now i to review) = map_sum (\<lambda>e. e) snd (applyTransition s t now i to review)"
| "execPayout provider s (OpOther x)
     = map_sum (\<lambda>e. e) (\<lambda>l. s\<lparr>poLedger := l\<rparr>) (execReward (poLedger s) (as_reward_op x))"

definition run_payouts :: "payout_provider \<Rightarrow> payout_op list \<Rightarrow> payouts_state" where
  "run_payouts provider ops = run_ops (execPayout provider) empty_payouts ops"

end
