(* ===== verification/PayoutProps.thy ===== *)
theory PayoutProps
  imports Payouts
begin

text \<open>
  The payout service as a client of the point store. The locale \<open>lock_store\<close> is the
  contract \<open>PayoutsService\<close> relies on (\<open>lock\<close>, \<open>settleLock\<close>,
  \<open>releaseLock\<close> of the reward module); what the requests table guarantees beside it is
  proved from the contract alone, and the ledger is then shown to provide it.
\<close>

section \<open>The contract and what the requests table keeps beside it\<close>

definition open_request :: "payout_request \<Rightarrow> bool" where
  "open_request p \<longleftrightarrow> poStatus p \<in> {PENDING_REVIEW, APPROVED}"

definition points_in :: "(payout_request \<Rightarrow> bool) \<Rightarrow> id \<Rightarrow> payout_request list \<Rightarrow> int" where
  "points_in sel u rows = sum_for poUserId (\<lambda>p. if sel p then poAmountPoints p else 0) u rows"

lemma points_in_snoc [simp]:
  "points_in sel u (rows @ [p])
    = points_in sel u rows + (if poUserId p = u \<and> sel p then poAmountPoints p else 0)"
  by (simp add: points_in_def)

lemma sum_for_update:
  assumes "distinct (map key rows)" and "p \<in> set rows" and "\<And>x. owner (f x) = owner x"
  shows "sum_for owner d u (update_where (\<lambda>x. key x = key p) f rows)
    = sum_for owner d u rows + (if owner p = u then d (f p) - d p else 0)"
  using assms(1,2)
proof (induction rows)
  case (Cons x rows)
  show ?case
  proof (cases "x = p")
    case True
    then have "update_where (\<lambda>x. key x = key p) f rows = rows"
      using Cons.prems(1) by (auto simp: update_where_def image_iff intro!: map_idI)
    then show ?thesis using True by (simp add: sum_for_def assms(3))
  next
    case False
    then have "key x \<noteq> key p" using Cons.prems by (auto simp: image_iff)
    then show ?thesis using False Cons by (simp add: sum_for_def)
  qed
qed simp

lemma points_in_update:
  assumes "distinct (map poId rows)" and "p \<in> set rows"
    and "\<And>x. poUserId (f x) = poUserId x" and "\<And>x. poAmountPoints (f x) = poAmountPoints x"
  shows "points_in sel u (update_where (\<lambda>x. poId x = poId p) f rows)
    = points_in sel u rows + (if poUserId p = u
        then (if sel (f p) then poAmountPoints p else 0) - (if sel p then poAmountPoints p else 0)
        else 0)"
  unfolding points_in_def by (subst sum_for_update [OF assms(1,2)]) (auto simp: assms(3,4))

locale lock_store =
  fixes ok :: "'l \<Rightarrow> bool"
    and known :: "'l \<Rightarrow> id \<Rightarrow> bool"
    and opened :: "'l \<Rightarrow> id \<Rightarrow> (id \<times> int) option"
    and reserved :: "'l \<Rightarrow> id \<Rightarrow> int"
    and withdrawn :: "'l \<Rightarrow> id \<Rightarrow> int"
    and reserve :: "'l \<Rightarrow> id \<Rightarrow> id \<Rightarrow> int \<Rightarrow> 'l \<Rightarrow> bool"
    and resolve :: "'l \<Rightarrow> id \<Rightarrow> bool \<Rightarrow> 'l \<Rightarrow> bool"
    and unrelated :: "'l \<Rightarrow> 'l \<Rightarrow> bool"
  assumes reserve_law: "ok l \<Longrightarrow> reserve l t u n l' \<Longrightarrow>
      ok l' \<and> \<not> known l t \<and> known l' t \<and> (\<forall>x. known l x \<longrightarrow> known l' x)
      \<and> opened l' = (opened l)(t := Some (u, n))
      \<and> reserved l' = (reserved l)(u := reserved l u + n) \<and> withdrawn l' = withdrawn l"
    and resolve_law: "ok l \<Longrightarrow> resolve l t settling l' \<Longrightarrow>
      \<exists>u n. opened l t = Some (u, n) \<and> ok l' \<and> (\<forall>x. known l x \<longrightarrow> known l' x)
      \<and> opened l' = (opened l)(t := None) \<and> reserved l' = (reserved l)(u := reserved l u - n)
      \<and> withdrawn l' = (withdrawn l)(u := withdrawn l u + (if settling then n else 0))"
    and unrelated_law: "ok l \<Longrightarrow> unrelated l l' \<Longrightarrow>
      ok l' \<and> (\<forall>x. known l x \<longrightarrow> known l' x) \<and> opened l' = opened l
      \<and> reserved l' = reserved l \<and> withdrawn l' = withdrawn l"
begin

text \<open>Every request is backed by its own lock, open exactly while the request is, and the
  store's totals are the totals of the requests.\<close>

definition backed :: "'l \<Rightarrow> payout_request list \<Rightarrow> bool" where
  "backed l rows \<longleftrightarrow> ok l \<and> distinct (map poId rows) \<and> distinct (map poLockTransactionId rows)
     \<and> (\<forall>p\<in>set rows. known l (poLockTransactionId p) \<and> opened l (poLockTransactionId p)
          = (if open_request p then Some (poUserId p, poAmountPoints p) else None))
     \<and> (\<forall>u. reserved l u = points_in open_request u rows)
     \<and> (\<forall>u. withdrawn l u = points_in (\<lambda>p. poStatus p = PAID) u rows)"

lemma backed_unrelated: "backed l rows \<Longrightarrow> unrelated l l' \<Longrightarrow> backed l' rows"
  using unrelated_law [of l l'] by (simp add: backed_def)

lemma backed_submit:
  assumes "backed l rows" and "reserve l t (poUserId p) (poAmountPoints p) l'"
    and "poLockTransactionId p = t" and "poStatus p = PENDING_REVIEW" and "poId p \<notin> poId ` set rows"
  shows "backed l' (rows @ [p])"
proof -
  have "ok l" using assms(1) by (simp add: backed_def)
  note law = reserve_law [OF this assms(2)]
  have fresh: "poLockTransactionId q \<noteq> t" if "q \<in> set rows" for q
    using that law assms(1) by (auto simp: backed_def)
  show ?thesis
    using law assms fresh by (auto simp: backed_def open_request_def)
qed

lemma backed_same_effect:
  assumes "backed l rows" and "p \<in> set rows" and "open_request p" and "open_request (f p)"
    and "\<And>x. poUserId (f x) = poUserId x \<and> poAmountPoints (f x) = poAmountPoints x
      \<and> poId (f x) = poId x \<and> poLockTransactionId (f x) = poLockTransactionId x"
  shows "backed l (update_where (\<lambda>x. poId x = poId p) f rows)"
proof -
  have one: "x = p" if "x \<in> set rows" "poId x = poId p" for x
    using assms(1,2) that by (auto simp: backed_def intro: distinct_key_unique)
  have "poStatus p \<noteq> PAID" "poStatus (f p) \<noteq> PAID"
    using assms(3,4) by (auto simp: open_request_def)
  moreover have "open_request x" if "x \<in> set rows" "poId x = poId p" for x
    using one [OF that] assms(3) by simp
  ultimately show ?thesis
    using assms one by (auto simp: backed_def set_update_where map_update_where points_in_update)
qed

lemma backed_resolve:
  assumes "backed l rows" and "p \<in> set rows" and "resolve l (poLockTransactionId p) settling l'"
    and "poStatus (f p) = (if settling then PAID else s)" and "s \<in> {REJECTED, FAILED}"
    and "\<And>x. poUserId (f x) = poUserId x \<and> poAmountPoints (f x) = poAmountPoints x
      \<and> poId (f x) = poId x \<and> poLockTransactionId (f x) = poLockTransactionId x"
  shows "backed l' (update_where (\<lambda>x. poId x = poId p) f rows) \<and> open_request p"
proof -
  have ok: "ok l" using assms(1) by (simp add: backed_def)
  obtain u n where o: "opened l (poLockTransactionId p) = Some (u, n)" "ok l'"
      "\<And>x. known l x \<Longrightarrow> known l' x" "opened l' = (opened l)(poLockTransactionId p := None)"
      "reserved l' = (reserved l)(u := reserved l u - n)"
      "withdrawn l' = (withdrawn l)(u := withdrawn l u + (if settling then n else 0))"
    using resolve_law [OF ok assms(3)] by blast
  have p: "open_request p" "u = poUserId p" "n = poAmountPoints p"
    using assms(1,2) o(1) by (auto simp: backed_def split: if_splits)
  have closed: "\<not> open_request (f p)" "poStatus p \<noteq> PAID" "poStatus (f p) = PAID \<longleftrightarrow> settling"
    using assms(4,5) p(1) by (auto simp: open_request_def)
  have one: "x = p" if "x \<in> set rows" "poId x = poId p \<or> poLockTransactionId x = poLockTransactionId p" for x
    using assms(1,2) that by (auto simp: backed_def intro: distinct_key_unique)
  have rows: "known l' (poLockTransactionId q) \<and> opened l' (poLockTransactionId q)
      = (if open_request q then Some (poUserId q, poAmountPoints q) else None)"
    if q: "q \<in> set (update_where (\<lambda>x. poId x = poId p) f rows)" for q
  proof -
    obtain x where x: "x \<in> set rows" "q = (if poId x = poId p then f x else x)"
      using q by (auto simp: set_update_where)
    show ?thesis
      using x one [of x] closed(1) assms(1,6) o(3,4) by (auto simp: backed_def)
  qed
  have "reserved l' v = points_in open_request v (update_where (\<lambda>x. poId x = poId p) f rows)"
    "withdrawn l' v = points_in (\<lambda>p. poStatus p = PAID) v (update_where (\<lambda>x. poId x = poId p) f rows)" for v
    using assms(1,2,6) p closed by (auto simp: backed_def o(5,6) points_in_update)
  then show ?thesis
    using assms(1,6) o(2) rows p(1) by (simp add: backed_def map_update_where)
qed

end

section \<open>The ledger provides the contract\<close>

definition known_tx :: "ledger \<Rightarrow> id \<Rightarrow> bool" where
  "known_tx l t \<longleftrightarrow> findTransaction l t \<noteq> None"

definition opened_lock :: "ledger \<Rightarrow> id \<Rightarrow> (id \<times> int) option" where
  "opened_lock l t = (case findTransaction l t of None \<Rightarrow> None
     | Some k \<Rightarrow> if open_lock (transactions l) k then Some (txUserId k, txLockedDelta k) else None)"

definition reserved_points :: "ledger \<Rightarrow> id \<Rightarrow> int" where
  "reserved_points l u = locked (getBalance l u)"

definition withdrawn_points :: "ledger \<Rightarrow> id \<Rightarrow> int" where
  "withdrawn_points l u = lifetimeWithdrawn (getBalance l u)"

definition ledger_reserve :: "ledger \<Rightarrow> id \<Rightarrow> id \<Rightarrow> int \<Rightarrow> ledger \<Rightarrow> bool" where
  "ledger_reserve l t u n l' \<longleftrightarrow> (\<exists>now amount payoutId label r.
     lockPoints l t now u amount payoutId label = Inr (r, l') \<and> of_int n = amount)"

definition ledger_resolve :: "ledger \<Rightarrow> id \<Rightarrow> bool \<Rightarrow> ledger \<Rightarrow> bool" where
  "ledger_resolve l t settling l' \<longleftrightarrow> (\<exists>i now reason actor r.
     resolveLock l i now t settling reason actor = Inr (r, l'))"

definition ledger_unrelated :: "ledger \<Rightarrow> ledger \<Rightarrow> bool" where
  "ledger_unrelated l l' \<longleftrightarrow> (\<exists>x. execReward l (as_reward_op x) = Inr l')"

lemma findTransaction_posted:
  assumes "ledger_reachable l" and "posts l r l'"
  shows "findTransaction l' t
    = (if txId r = t then Some r else findTransaction l t)" and "findTransaction l (txId r) = None"
proof -
  have r: "transactions l' = transactions l @ [r]" "txId r \<notin> set (map txId (transactions l))"
    using posts_tables [OF reachable_keys [OF assms(1)] assms(2)] by auto
  show *: "findTransaction l (txId r) = None"
  proof (cases "findTransaction l (txId r)")
    case (Some c)
    then have "txId r \<in> txId ` set (transactions l)"
      using findTransaction_SomeD [OF Some] by (metis image_eqI)
    then show ?thesis using r(2) by simp
  qed
  show "findTransaction l' t = (if txId r = t then Some r else findTransaction l t)"
    using * by (auto simp: findTransaction_def r(1) find_append split: option.splits)
qed

lemma open_lock_snoc:
  "open_lock (txs @ [r]) k \<longleftrightarrow> open_lock txs k
    \<and> \<not> (is_resolution r \<and> txSourceTransactionId r = Some (txId k))"
  by (auto simp: open_lock_def acts_on_def)

lemma opened_lock_posted:
  assumes "ledger_reachable l" and "posts l r l'"
  shows "opened_lock l' t =
    (if txId r = t then (if txType r = PAYOUT_LOCK then Some (txUserId r, txLockedDelta r) else None)
     else if is_resolution r \<and> txSourceTransactionId r = Some t then None else opened_lock l t)"
proof -
  note post = posts_getBalance [OF assms] and f = findTransaction_posted [OF assms]
  have keys: "txId r \<notin> set (map txId (transactions l))" and ok: "row_ok (transactions l) r"
    using posts_tables [OF reachable_keys [OF assms(1)] assms(2)] by auto
  have "txSourceTransactionId r \<noteq> Some (txId r)"
    using row_ok_source [OF ok] keys by auto
  moreover have "acts_on is_resolution txSourceTransactionId (txId r) (transactions l) = 0"
    by (rule fresh_not_acted [OF reachable_history [OF assms(1)] keys])
  ultimately have "open_lock (transactions l @ [r]) r \<longleftrightarrow> txType r = PAYOUT_LOCK"
    by (auto simp: open_lock_def acts_on_def)
  then show ?thesis
    using f(2) by (auto simp: opened_lock_def f(1) post(2) open_lock_snoc
        split: option.splits dest: findTransaction_SomeD)
qed

lemma posted_no_lock:
  assumes "ledger_reachable l" and "posts l r l'" and "txType r \<notin> {PAYOUT_LOCK, PAYOUT_SETTLE, PAYOUT_REFUND}"
  shows "ledger_reachable l' \<and> (\<forall>x. known_tx l x \<longrightarrow> known_tx l' x) \<and> opened_lock l' = opened_lock l
      \<and> reserved_points l' = reserved_points l \<and> withdrawn_points l' = withdrawn_points l"
proof -
  have "txLockedDelta r = 0"
    using posts_tables(3) [OF reachable_keys [OF assms(1)] assms(2)] assms(3)
    by (auto simp: row_ok.simps split: reward_transaction_type.splits)
  moreover have "opened_lock l (txId r) = None"
    using findTransaction_posted(2) [OF assms(1,2)] by (simp add: opened_lock_def)
  ultimately show ?thesis
    using assms(3) posts_getBalance [OF assms(1,2)] opened_lock_posted [OF assms(1,2)]
      findTransaction_posted [OF assms(1,2)]
    by (auto simp: fun_eq_iff known_tx_def is_resolution_def reserved_points_def
        withdrawn_points_def moved_by_def withdrawnDelta_def)
qed

text \<open>An open lock can be resolved: only a reused id or a full column stands in the way.\<close>

lemma open_lock_resolvable:
  assumes "ledger_reachable l" and "opened_lock l t = Some (u, n)"
    and "resolveLock l i now t settling reason actor = Inl e"
  shows "e = UniqueViolation \<and> i \<in> txId ` set (transactions l) \<or> e = OutOfRange"
proof -
  obtain k where k: "findTransaction l t = Some k" "open_lock (transactions l) k"
    using assms(2) by (auto simp: opened_lock_def split: option.splits if_splits)
  then have "txType k = PAYOUT_LOCK" "acted l (txId k) [PAYOUT_SETTLE, PAYOUT_REFUND] = None"
    by (auto simp: open_lock_def acted_None_iff is_resolution_def elim!: acts_on_0_mono)
  moreover obtain b where "lockBalance l (txUserId k) = Inr b"
    using reachable_explained [OF assms(1)] findTransaction_SomeD [OF k(1)]
    by (cases "findBalance l (txUserId k)")
      (fastforce simp: explained_def lockBalance_def findBalance_def dest: find_NoneD)+
  ultimately show ?thesis
    using assms(3) k(1) by (auto simp: resolveLock_def writeMovement_def Let_def split: if_splits)
qed

lemma other_op_cases:
  assumes "execReward l (as_reward_op x) = Inr l'"
  shows "(\<exists>i u. l' = openAccount l i u) \<or> l' = l
    \<or> (\<exists>r. posts l r l' \<and> txType r \<notin> {PAYOUT_LOCK, PAYOUT_SETTLE, PAYOUT_REFUND})"
proof (cases x)
  case (OtherCredit h i now input)
  then obtain r where r: "credit h l i now input = Inr (r, l')"
    using assms by (auto simp: map_sum_def split: sum.splits)
  then have "txType r \<in> {BONUS, CONVERSION_CREDIT}"
    by (auto simp: credit_def mutate_def Let_def created_row_def split: op_results
        dest!: writeMovement_InrD(1))
  then show ?thesis using posts.credit [OF r] by auto
next
  case (OtherDebit i now input)
  then obtain r where r: "debit l i now input = Inr (r, l')"
    using assms by (auto simp: map_sum_def split: sum.splits)
  then have "txType r = MANUAL_ADJUSTMENT"
    by (auto simp: debit_def mutate_def Let_def created_row_def split: op_results
        dest!: writeMovement_InrD(1))
  then show ?thesis using posts.debit [OF r] by auto
next
  case (OtherReverse i now t reason actor source)
  then obtain r where r: "reverseCredit l i now t reason actor source = Inr (r, l')"
    using assms by (auto simp: map_sum_def split: sum.splits)
  then show ?thesis using posts.reverse [OF r] reverseCredit_InrD [OF r] by auto
next
  case (OtherMature i now t)
  then obtain ro where r: "mature l i now t = Inr (ro, l')"
    using assms by (auto simp: map_sum_def split: sum.splits)
  then show ?thesis
  proof (cases ro)
    case (Some r')
    then show ?thesis using r posts.mature [of l i now t r' l'] mature_InrD [of l i now t r' l'] by auto
  qed (auto dest: mature_none)
qed (use assms in auto)

lemma opened_lock_reserve:
  assumes "ledger_reachable l" and "ledger_reserve l t u n l'"
  shows "ledger_reachable l' \<and> \<not> known_tx l t \<and> known_tx l' t \<and> (\<forall>x. known_tx l x \<longrightarrow> known_tx l' x)
      \<and> opened_lock l' = (opened_lock l)(t := Some (u, n))
      \<and> reserved_points l' = (reserved_points l)(u := reserved_points l u + n)
      \<and> withdrawn_points l' = withdrawn_points l"
proof -
  obtain now amount payoutId label r where
    "lockPoints l t now u amount payoutId label = Inr (r, l')" "of_int n = amount"
    using assms(2) by (auto simp: ledger_reserve_def)
  moreover from this have "txId r = t" "txUserId r = u" "txType r = PAYOUT_LOCK" "txLockedDelta r = n"
    "txSourceTransactionId r = None"
    by (auto simp: lockPoints_def created_row_def split: op_results
        dest!: writeMovement_InrD(1) requirePositive_InrD)
  ultimately show ?thesis
    using posts_getBalance [OF assms(1) posts.lock] opened_lock_posted [OF assms(1) posts.lock]
      findTransaction_posted [OF assms(1) posts.lock]
    by (auto simp: fun_eq_iff known_tx_def is_resolution_def reserved_points_def
        withdrawn_points_def moved_by_def withdrawnDelta_def)
qed

lemma opened_lock_resolve:
  assumes "ledger_reachable l" and "ledger_resolve l t settling l'"
  shows "\<exists>u n. opened_lock l t = Some (u, n) \<and> ledger_reachable l' \<and> (\<forall>x. known_tx l x \<longrightarrow> known_tx l' x)
      \<and> opened_lock l' = (opened_lock l)(t := None)
      \<and> reserved_points l' = (reserved_points l)(u := reserved_points l u - n)
      \<and> withdrawn_points l' = (withdrawn_points l)(u := withdrawn_points l u + (if settling then n else 0))"
proof -
  obtain i now reason actor r where res: "resolveLock l i now t settling reason actor = Inr (r, l')"
    using assms(2) by (auto simp: ledger_resolve_def)
  obtain k where k: "findTransaction l t = Some k" "txType k = PAYOUT_LOCK" "txUserId r = txUserId k"
      "txType r = (if settling then PAYOUT_SETTLE else PAYOUT_REFUND)"
      "txAmountPoints r = (if settling then - txLockedDelta k else 0)"
      "txLockedDelta r = - txLockedDelta k" "txSourceTransactionId r = Some t"
    using resolveLock_InrD [OF res] by blast
  have "acted l (txId k) [PAYOUT_SETTLE, PAYOUT_REFUND] = None"
    using res k(1) by (auto simp: resolveLock_def split: op_results)
  then have "open_lock (transactions l) k"
    using k(2) by (auto simp: open_lock_def acted_None_iff is_resolution_def
        elim!: acts_on_0_mono)
  then have "opened_lock l t = Some (txUserId k, txLockedDelta k)"
    using k(1) by (simp add: opened_lock_def)
  moreover have "txId r \<noteq> t" "opened_lock l (txId r) = None"
    using findTransaction_posted(2) [OF assms(1) posts.resolve [OF res]] k(1)
    by (auto simp: opened_lock_def)
  ultimately show ?thesis
    using k posts_getBalance [OF assms(1) posts.resolve [OF res]]
      opened_lock_posted [OF assms(1) posts.resolve [OF res]]
      findTransaction_posted [OF assms(1) posts.resolve [OF res]]
    by (auto simp: fun_eq_iff known_tx_def is_resolution_def reserved_points_def
        withdrawn_points_def moved_by_def withdrawnDelta_def)
qed

lemma opened_lock_unrelated:
  assumes "ledger_reachable l" and "ledger_unrelated l l'"
  shows "ledger_reachable l' \<and> (\<forall>x. known_tx l x \<longrightarrow> known_tx l' x) \<and> opened_lock l' = opened_lock l
      \<and> reserved_points l' = reserved_points l \<and> withdrawn_points l' = withdrawn_points l"
proof -
  obtain x where x: "execReward l (as_reward_op x) = Inr l'"
    using assms(2) by (auto simp: ledger_unrelated_def)
  have l': "ledger_reachable l'" by (rule execReward_reachable [OF assms(1) x])
  from other_op_cases [OF x] show ?thesis
  proof (elim disjE exE conjE)
    fix i u assume o: "l' = openAccount l i u"
    have t: "transactions l' = transactions l" by (simp add: o openAccount_def)
    then show ?thesis
      using l' by (auto simp: fun_eq_iff known_tx_def opened_lock_def findTransaction_def t
          reserved_points_def withdrawn_points_def reachable_getBalance [OF assms(1)]
          reachable_getBalance [OF l'] split: option.splits)
  qed (use assms(1) posted_no_lock in blast)+
qed

interpretation ledger_locks: lock_store ledger_reachable known_tx opened_lock reserved_points
    withdrawn_points ledger_reserve ledger_resolve ledger_unrelated
  by unfold_locales (fact opened_lock_reserve opened_lock_resolve opened_lock_unrelated)+

section \<open>Runs of the payout service\<close>

lemma submit_checks_InrD:
  assumes "submit_checks provider c s now input = Inr (m, d)"
  shows "m \<in> set (enabled_methods c)" and "supports provider m"
    and "of_int \<lfloor>sbAmountPoints input\<rfloor> = sbAmountPoints input"
    and "minimum_points c \<le> \<lfloor>sbAmountPoints input\<rfloor>" and "\<lfloor>sbAmountPoints input\<rfloor> \<le> maximum_points c"
    and "normalizeDestination (sbDestination input) = Inr d"
    and "assertWithinDailyCap s now (sbUserId input) (max_requests_per_day c) = Inr ()"
  using assms by (auto simp: submit_checks_def Let_def le_floor_iff floor_le_iff split: op_results)

lemma submit_InrD:
  assumes "submit provider c s i t now input = Inr (p, s')"
  shows "\<exists>m d k l'. submit_checks provider c s now input = Inr (m, d)
    \<and> lockPoints (poLedger s) t now (sbUserId input) (sbAmountPoints input) i (Some m) = Inr (k, l')
    \<and> poLedger s' = l' \<and> payoutRequests s' = payoutRequests s @ [p]
    \<and> poId p = i \<and> i \<notin> poId ` set (payoutRequests s) \<and> poUserId p = sbUserId input
    \<and> poStatus p = PENDING_REVIEW \<and> of_int (poAmountPoints p) = sbAmountPoints input
    \<and> poLockTransactionId p = t \<and> poMethod p = m \<and> poDestination p = d
    \<and> poCashAmountMinor p = toCashMinor (poAmountPoints p) (points_per_currency_unit c)
    \<and> poCreatedAt p = now \<and> payout_in_range p"
proof -
  obtain m d where c: "submit_checks provider c s now input = Inr (m, d)"
    using assms by (auto simp: submit_def split: op_results)
  obtain k l' where l: "lockPoints (poLedger s) t now (sbUserId input) (sbAmountPoints input) i (Some m)
      = Inr (k, l')"
    using assms c by (auto simp: submit_def split: op_results)
  have "txId k = t"
    using l by (auto simp: lockPoints_def split: op_results dest!: writeMovement_InrD(1))
  then show ?thesis
    using assms c l submit_checks_InrD(3) [OF c] by (auto simp: submit_def Let_def split: if_splits)
qed

lemma applyTransition_InrD:
  assumes "applyTransition s t now i to review = Inr (q, s')"
  shows "\<exists>p reason l'. findPayout s i = Some p \<and> canTransition (poStatus p) to
    \<and> resolve_effect (poLedger s) t now p to reason (rvAdminId review) = Inr l'
    \<and> q = reviewed_row to review reason now p
    \<and> s' = \<lparr>poLedger = l', payoutRequests =
          update_where (\<lambda>x. poId x = i) (reviewed_row to review reason now) (payoutRequests s)\<rparr>"
  using assms by (auto simp: applyTransition_def assertTransition_def Let_def split: op_results)

lemma findPayout_SomeD: "findPayout s i = Some p \<Longrightarrow> p \<in> set (payoutRequests s) \<and> poId p = i"
  by (auto simp: findPayout_def dest: find_SomeD)

lemma reviewed_row_fields [simp]:
  "poUserId (reviewed_row to review reason now p) = poUserId p"
  "poAmountPoints (reviewed_row to review reason now p) = poAmountPoints p"
  "poId (reviewed_row to review reason now p) = poId p"
  "poLockTransactionId (reviewed_row to review reason now p) = poLockTransactionId p"
  "poStatus (reviewed_row to review reason now p) = to"
  by (simp_all add: reviewed_row_def)

lemma canTransition_cases:
  "canTransition from to \<Longrightarrow> (from = PENDING_REVIEW \<and> to \<in> {APPROVED, REJECTED})
    \<or> (from = APPROVED \<and> to \<in> {PAID, FAILED})"
  by (cases "from") (auto simp: canTransition_def)

lemma resolve_effect_InrD:
  assumes "resolve_effect l t now p to reason adminId = Inr l'" and "canTransition (poStatus p) to"
  shows "if to = APPROVED then l' = l \<and> poStatus p = PENDING_REVIEW
    else to \<in> {PAID, REJECTED, FAILED} \<and> ledger_resolve l (poLockTransactionId p) (to = PAID) l'"
  using canTransition_cases [OF assms(2)] assms(1)
  by (auto simp: resolve_effect_def lockEffectOf_def settleLock_def releaseLock_def map_sum_def
      ledger_resolve_def split: sum.splits) metis+

abbreviation payouts_backed :: "payouts_state \<Rightarrow> bool" where
  "payouts_backed s \<equiv> ledger_locks.backed (poLedger s) (payoutRequests s)"

lemma payouts_backed_empty: "payouts_backed empty_payouts"
  using ledger_reachable.empty
  by (auto simp: ledger_locks.backed_def empty_payouts_def points_in_def
      reserved_points_def withdrawn_points_def getBalance_def findBalance_def empty_ledger_def
      toBalance_def)

lemma payouts_backed_exec:
  assumes "payouts_backed s" and "execPayout provider s x = Inr s'"
  shows "payouts_backed s'"
proof (cases x)
  case (OpSubmit c i t now input)
  then obtain p where "submit provider c s i t now input = Inr (p, s')"
    using assms(2) by (auto simp: map_sum_def split: sum.splits)
  from submit_InrD [OF this] show ?thesis
    using ledger_locks.backed_submit [OF assms(1), of t p "poLedger s'"]
    by (auto simp: ledger_reserve_def)
next
  case (OpReview t now i to review)
  then obtain q where "applyTransition s t now i to review = Inr (q, s')"
    using assms(2) by (auto simp: map_sum_def split: sum.splits)
  from applyTransition_InrD [OF this] obtain p reason l' where p: "findPayout s i = Some p"
      "canTransition (poStatus p) to"
      "resolve_effect (poLedger s) t now p to reason (rvAdminId review) = Inr l'"
      "s' = \<lparr>poLedger = l', payoutRequests =
          update_where (\<lambda>x. poId x = i) (reviewed_row to review reason now) (payoutRequests s)\<rparr>"
    by blast
  note mem = findPayout_SomeD [OF p(1)]
  note eff = resolve_effect_InrD [OF p(3,2)]
  show ?thesis
  proof (cases "to = APPROVED")
    case True
    then show ?thesis
      using eff mem ledger_locks.backed_same_effect [OF assms(1), of p "reviewed_row to review reason now"]
      by (auto simp: p(4) open_request_def)
  next
    case False
    then have r: "ledger_resolve (poLedger s) (poLockTransactionId p) (to = PAID) l'"
        "to \<in> {PAID, REJECTED, FAILED}" using eff by auto
    then show ?thesis
      using mem ledger_locks.backed_resolve [OF assms(1) _ r(1), of "reviewed_row to review reason now"
          "if to = PAID then REJECTED else to"]
      by (auto simp: p(4) split: if_splits)
  qed
next
  case (OpOther y)
  then obtain l' where "execReward (poLedger s) (as_reward_op y) = Inr l'" "s' = s\<lparr>poLedger := l'\<rparr>"
    using assms(2) by (auto simp: map_sum_def split: sum.splits)
  then show ?thesis
    using ledger_locks.backed_unrelated [OF assms(1)] by (auto simp: ledger_unrelated_def)
qed

interpretation payouts: guarded_system "execPayout provider" empty_payouts payouts_backed
  by unfold_locales (auto intro: payouts_backed_empty payouts_backed_exec)

lemma run_payouts_backed: "payouts_backed (run_payouts provider ops)"
  unfolding run_payouts_def by (rule payouts.inv_run)

text \<open>C5. A user's locked points are exactly the points of their withdrawals still under review
  or approved, and their lifetime withdrawn points exactly those of their paid ones, after any
  run of submissions, reviews and other ledger operations.\<close>

theorem locked_points_are_open_payouts:
  "locked (getBalance (poLedger (run_payouts provider ops)) u)
     = points_in open_request u (payoutRequests (run_payouts provider ops))
   \<and> lifetimeWithdrawn (getBalance (poLedger (run_payouts provider ops)) u)
     = points_in (\<lambda>p. poStatus p = PAID) u (payoutRequests (run_payouts provider ops))"
  using run_payouts_backed [of provider ops]
  by (simp add: ledger_locks.backed_def reserved_points_def withdrawn_points_def)

text \<open>Every request is backed by its own lock in the ledger: the lock has the request's user
  and amount, is unresolved exactly while the request is pending or approved, and no two requests
  share one.\<close>

theorem each_payout_has_its_lock:
  "distinct (map poLockTransactionId (payoutRequests (run_payouts provider ops)))
   \<and> list_all (\<lambda>p. opened_lock (poLedger (run_payouts provider ops)) (poLockTransactionId p)
        = (if open_request p then Some (poUserId p, poAmountPoints p) else None))
      (payoutRequests (run_payouts provider ops))"
  using run_payouts_backed [of provider ops] by (simp add: ledger_locks.backed_def list_all_iff)

section \<open>Reviews\<close>

text \<open>C15. A review that the state machine permits is never refused by the ledger: for a request
  that may move to the new status, with a reason where one is required, the only failures left are
  a reused row id and a full 32-bit column, and success leaves the request in the new status.\<close>

theorem permitted_review_succeeds:
  assumes "findPayout (run_payouts provider ops) i = Some p" and "canTransition (poStatus p) to"
    and "to \<in> set REASON_REQUIRED_FOR \<longrightarrow> js_trim (case rvReason review of None \<Rightarrow> [] | Some r \<Rightarrow> r) \<noteq> []"
  shows "case applyTransition (run_payouts provider ops) t now i to review of
      Inr (q, s') \<Rightarrow> poStatus q = to \<and> findPayout s' i = Some q
    | Inl e \<Rightarrow> e = UniqueViolation \<and> t \<in> txId ` set (transactions (poLedger (run_payouts provider ops)))
        \<or> e = OutOfRange"
proof -
  let ?s = "run_payouts provider ops"
  note mem = findPayout_SomeD [OF assms(1)]
  define reason where "reason = (case rvReason review of None \<Rightarrow> [] | Some r \<Rightarrow> js_trim r)"
  have app: "applyTransition ?s t now i to review
    = (case resolve_effect (poLedger ?s) t now p to reason (rvAdminId review) of Inl e \<Rightarrow> Inl e
      | Inr l' \<Rightarrow> Inr (reviewed_row to review reason now p, \<lparr>poLedger = l', payoutRequests =
          update_where (\<lambda>x. poId x = i) (reviewed_row to review reason now) (payoutRequests ?s)\<rparr>))"
  proof -
    have "reason = js_trim (case rvReason review of None \<Rightarrow> [] | Some r \<Rightarrow> r)"
      by (simp add: reason_def js_trim_def split: option.splits)
    then have "\<not> (to \<in> set REASON_REQUIRED_FOR \<and> length reason = 0)" using assms(3) by simp
    then show ?thesis
      using assms(1,2) unfolding applyTransition_def reason_def [symmetric] Let_def
      by (simp only: if_False option.case assertTransition_def if_True sum.case)
  qed
  have "open_request p" using canTransition_cases [OF assms(2)] by (auto simp: open_request_def)
  then have o: "opened_lock (poLedger ?s) (poLockTransactionId p) = Some (poUserId p, poAmountPoints p)"
    using run_payouts_backed [of provider ops] mem by (simp add: ledger_locks.backed_def)
  have err: "e = UniqueViolation \<and> t \<in> txId ` set (transactions (poLedger ?s)) \<or> e = OutOfRange"
    if e: "resolve_effect (poLedger ?s) t now p to reason (rvAdminId review) = Inl e" for e
    using e open_lock_resolvable [OF _ o] run_payouts_backed [of provider ops]
    by (auto simp: ledger_locks.backed_def resolve_effect_def settleLock_def releaseLock_def
        map_sum_def split: sum.splits lock_effect.splits)
  have "findPayout \<lparr>poLedger = l', payoutRequests =
      update_where (\<lambda>x. poId x = i) (reviewed_row to review reason now) (payoutRequests ?s)\<rparr> i
    = Some (reviewed_row to review reason now p)" for l'
    using assms(1) mem by (simp add: findPayout_def find_update_where)
  then show ?thesis
    using err by (auto simp: app split: sum.splits)
qed

lemma findPayout_exec:
  assumes "execPayout provider s x = Inr s'" and "findPayout s i = Some p"
  shows "\<exists>q. findPayout s' i = Some q \<and> (q = p \<or> canTransition (poStatus p) (poStatus q))"
proof (cases x)
  case (OpSubmit c j t now input)
  then obtain q where "submit provider c s j t now input = Inr (q, s')"
    using assms(1) by (auto simp: map_sum_def split: sum.splits)
  from submit_InrD [OF this] show ?thesis
    using assms(2) by (auto simp: findPayout_def find_append)
next
  case (OpReview t now j to review)
  then obtain q where "applyTransition s t now j to review = Inr (q, s')"
    using assms(1) by (auto simp: map_sum_def split: sum.splits)
  from applyTransition_InrD [OF this] obtain p' reason l' where p': "findPayout s j = Some p'"
      "canTransition (poStatus p') to"
      "s' = \<lparr>poLedger = l', payoutRequests =
          update_where (\<lambda>x. poId x = j) (reviewed_row to review reason now) (payoutRequests s)\<rparr>"
    by blast
  have "findPayout s' i = Some (if poId p = j then reviewed_row to review reason now p else p)"
    using assms(2) by (simp add: p'(3) findPayout_def find_update_where)
  moreover have "p' = p" if "poId p = j"
    using that p'(1) assms(2) findPayout_SomeD [OF assms(2)] by simp
  ultimately show ?thesis using p'(2) by auto
next
  case (OpOther y)
  then show ?thesis using assms by (auto simp: map_sum_def findPayout_def split: sum.splits)
qed

lemma canTransition_terminal: "isTerminal from \<Longrightarrow> \<not> canTransition from to"
  by (cases "from") (auto simp: isTerminal_def canTransition_def)

lemma findPayout_run_terminal:
  "findPayout s i = Some p \<Longrightarrow> isTerminal (poStatus p)
    \<Longrightarrow> findPayout (run_ops (execPayout provider) s ops) i = Some p"
proof (induction ops arbitrary: s)
  case (Cons x ops)
  then show ?case
    using findPayout_exec [of provider s x _ i p] canTransition_terminal
    by (fastforce split: sum.splits)
qed simp

lemma run_ops_append: "run_ops exec s (xs @ ys) = run_ops exec (run_ops exec s xs) ys"
  by (induction xs arbitrary: s) (auto split: sum.splits)

text \<open>A paid, rejected or failed request is final: whatever operations follow, its row keeps
  every field it had.\<close>

theorem terminal_payout_frozen:
  assumes "findPayout (run_payouts provider ops) i = Some p" and "isTerminal (poStatus p)"
  shows "findPayout (run_payouts provider (ops @ later)) i = Some p"
  using findPayout_run_terminal [OF assms] by (simp add: run_payouts_def run_ops_append)

section \<open>Submissions\<close>

lemma div_mod_bounds:
  assumes "0 < (r :: int)"
  shows "(n div r) * r \<le> n" and "n < (n div r + 1) * r"
  using pos_mod_bound [OF assms, of n] pos_mod_sign [OF assms, of n] div_mult_mod_eq [of n r]
  unfolding distrib_right mult_1 by linarith+

lemma normalizeDestination_InrD:
  assumes "normalizeDestination raw = Inr d"
  shows "d = js_trim raw \<and> 4 \<le> length d \<and> length d \<le> 200
    \<and> list_all (\<lambda>c. \<not> control_character c) d \<and> normalizeDestination d = Inr d"
  using assms by (auto simp: normalizeDestination_def Let_def list_ex_iff list_all_iff split: if_splits)

text \<open>An accepted withdrawal obeyed every rule: an enabled and supported method, whole points
  within the configured range and within the available balance, a trimmed destination of 4 to 200
  characters without control characters, fewer requests than the daily cap in the last 24 hours;
  it locks exactly its points and its cash value is rounded down.\<close>

theorem submit_obeys_rules:
  assumes "submit provider c (run_payouts provider ops) i t now input = Inr (p, s')"
    and "0 < points_per_currency_unit c"
  shows "poMethod p \<in> set (enabled_methods c) \<and> supports provider (poMethod p)
    \<and> minimum_points c \<le> poAmountPoints p \<and> poAmountPoints p \<le> maximum_points c
    \<and> normalizeDestination (poDestination p) = Inr (poDestination p)
    \<and> int (count_where (\<lambda>q. poUserId q = sbUserId input \<and> now - dayMs \<le> poCreatedAt q)
          (payoutRequests (run_payouts provider ops))) < max_requests_per_day c
    \<and> (let b = getBalance (poLedger (run_payouts provider ops)) (sbUserId input)
       in poAmountPoints p \<le> available b \<and> getBalance (poLedger s') (sbUserId input)
          = b\<lparr>available := available b - poAmountPoints p, locked := locked b + poAmountPoints p\<rparr>)
    \<and> poCashAmountMinor p * points_per_currency_unit c \<le> poAmountPoints p * 100
    \<and> poAmountPoints p * 100 < (poCashAmountMinor p + 1) * points_per_currency_unit c"
proof -
  let ?s = "run_payouts provider ops"
  obtain m d k l' where p: "submit_checks provider c ?s now input = Inr (m, d)"
      "lockPoints (poLedger ?s) t now (sbUserId input) (sbAmountPoints input) i (Some m) = Inr (k, l')"
      "poLedger s' = l'" "of_int (poAmountPoints p) = sbAmountPoints input" "poMethod p = m"
      "poDestination p = d"
      "poCashAmountMinor p = toCashMinor (poAmountPoints p) (points_per_currency_unit c)"
    using submit_InrD [OF assms(1)] by blast
  have floor: "\<lfloor>sbAmountPoints input\<rfloor> = poAmountPoints p" using p(4) [symmetric] by simp
  note chk = submit_checks_InrD [OF p(1), unfolded floor]
  have reach: "ledger_reachable (poLedger ?s)"
    using run_payouts_backed [of provider ops] by (simp add: ledger_locks.backed_def)
  have k: "txUserId k = sbUserId input" "txType k = PAYOUT_LOCK" "txPendingDelta k = 0"
      "txLockedDelta k = poAmountPoints p" "txAvailableDelta k = - poAmountPoints p"
      "\<exists>b. lockBalance (poLedger ?s) (sbUserId input) = Inr b \<and> poAmountPoints p \<le> availablePoints b"
    using p(2) p(4) [symmetric] by (auto simp: lockPoints_def created_row_def split: op_results
        dest!: writeMovement_InrD(1) requirePositive_InrD)
  have "poCashAmountMinor p * points_per_currency_unit c \<le> poAmountPoints p * 100"
    "poAmountPoints p * 100 < (poCashAmountMinor p + 1) * points_per_currency_unit c"
    using div_mod_bounds [OF assms(2), of "poAmountPoints p * 100"] by (simp_all add: p(7) toCashMinor_def)
  then show ?thesis
    using chk normalizeDestination_InrD [OF chk(6)] k locked_getBalance
      posts_getBalance(1) [OF reach posts.lock [OF p(2)]]
    by (auto simp: p(3,5,6) moved_by_def earnedDelta_def withdrawnDelta_def reversedDelta_def
        assertWithinDailyCap_def Let_def split: if_splits)
qed

text \<open>Masking shows at most the last four characters: a shorter destination is hidden
  whole, and at most twelve mask characters stand for the rest.\<close>

theorem mask_shows_last_four:
  "maskDestination d = replicate (if length d \<le> 4 then length d else min (length d - 4) 12) None
     @ map Some (if length d \<le> 4 then [] else drop (length d - 4) d)
   \<and> length (filter (\<lambda>c. c \<noteq> None) (maskDestination d)) \<le> 4
   \<and> length (maskDestination d) \<le> 16"
  by (auto simp: maskDestination_def Let_def filter_replicate)

section \<open>A concrete run\<close>

definition demo_withdrawal :: submit_input where
  "demo_withdrawal = \<lparr>sbUserId = 7, sbAmountPoints = 2000, sbMethod = '' PayPal'',
     sbDestination = ''a@b.example''\<rparr>"

definition demo_payout_ops :: "payout_op list" where
  "demo_payout_ops = [OpOther (OtherOpen 1 7),
     OpOther (OtherCredit (\<lambda>_. 0) 10 0 ((demo_credit 7)\<lparr>crAmountPoints := 5000\<rparr>)),
     OpOther (OtherMature 12 1 10)]"

definition demo_review :: review_input where
  "demo_review = \<lparr>rvAdminId = 3, rvReason = Some ''duplicate'', rvExternalReference = None\<rparr>"

lemma demo_strings:
  "js_lower (js_trim '' PayPal'') = ''paypal''"
  "normalizeDestination ''a@b.example'' = Inr ''a@b.example''"
  "js_trim ''duplicate'' = ''duplicate''"
  by code_simp+

lemmas payout_eval = run_payouts_def demo_payout_ops_def demo_withdrawal_def demo_review_def
  empty_payouts_def default_payouts_config_def ManualPayoutProvider_def
  submit_def submit_checks_def assertWithinDailyCap_def
  payout_in_range_def toCashMinor_def applyTransition_def assertTransition_def canTransition_def
  resolve_effect_def lockEffectOf_def findPayout_def reviewed_row_def REASON_REQUIRED_FOR_def
  or_else_def admin_actor_def demo_credit_def

lemma submit_obeys_rules_witness:
  "\<exists>p s'. submit ManualPayoutProvider default_payouts_config
      (run_payouts ManualPayoutProvider demo_payout_ops) 50 13 2 demo_withdrawal = Inr (p, s')
    \<and> poMethod p = ''paypal'' \<and> poCashAmountMinor p * 1000 \<le> poAmountPoints p * 100"
proof -
  obtain p s' where r: "submit ManualPayoutProvider default_payouts_config
      (run_payouts ManualPayoutProvider demo_payout_ops) 50 13 2 demo_withdrawal = Inr (p, s')"
    and m: "poMethod p = ''paypal''"
    by (simp add: payout_eval reward_eval demo_strings)
  show ?thesis
    using submit_obeys_rules [OF r] r m by (auto simp: default_payouts_config_def)
qed

lemma demo_payout_found:
  "\<exists>p. findPayout (run_payouts ManualPayoutProvider (demo_payout_ops
      @ [OpSubmit default_payouts_config 50 13 2 demo_withdrawal])) 50 = Some p
    \<and> poStatus p = PENDING_REVIEW"
  by (simp add: payout_eval reward_eval demo_strings)

lemma permitted_review_succeeds_witness:
  "\<exists>q s'. applyTransition (run_payouts ManualPayoutProvider (demo_payout_ops
        @ [OpSubmit default_payouts_config 50 13 2 demo_withdrawal])) 14 3 50 REJECTED demo_review = Inr (q, s')
    \<and> poStatus q = REJECTED \<and> findPayout s' 50 = Some q"
proof -
  let ?s = "run_payouts ManualPayoutProvider (demo_payout_ops @ [OpSubmit default_payouts_config 50 13 2 demo_withdrawal])"
  obtain q s' where r: "applyTransition ?s 14 3 50 REJECTED demo_review = Inr (q, s')"
    by (simp add: payout_eval reward_eval demo_strings)
  obtain p where p: "findPayout (run_payouts ManualPayoutProvider (demo_payout_ops
      @ [OpSubmit default_payouts_config 50 13 2 demo_withdrawal])) 50 = Some p"
    "poStatus p = PENDING_REVIEW" using demo_payout_found by blast
  have c: "canTransition (poStatus p) REJECTED" by (simp add: p(2) canTransition_def)
  show ?thesis
    using permitted_review_succeeds [OF p(1) c, of demo_review 14 3] r by (simp add: demo_review_def demo_strings)
qed

lemma terminal_payout_frozen_witness:
  "\<exists>p. findPayout (run_payouts ManualPayoutProvider ((demo_payout_ops
      @ [OpSubmit default_payouts_config 50 13 2 demo_withdrawal, OpReview 14 3 50 REJECTED demo_review])
      @ [OpReview 15 4 50 PAID demo_review])) 50 = Some p \<and> poStatus p = REJECTED"
proof -
  obtain p where p: "findPayout (run_payouts ManualPayoutProvider (demo_payout_ops
      @ [OpSubmit default_payouts_config 50 13 2 demo_withdrawal,
         OpReview 14 3 50 REJECTED demo_review])) 50 = Some p" "poStatus p = REJECTED"
    by (simp add: payout_eval reward_eval demo_strings)
  have t: "isTerminal (poStatus p)" by (simp add: p(2) isTerminal_def)
  show ?thesis
    using terminal_payout_frozen [OF p(1) t] p(2) by blast
qed

end
