(* ===== verification/Numbers.thy ===== *)
theory Numbers
  imports Prelude "HOL-Library.Log_Nat"
begin

text \<open>
  The arithmetic of JavaScript numbers: an exact rational result is rounded to a double. The lemmas
  bound the rounding error and show where the source's integer divisions are exact.
\<close>

section \<open>Rounding to a double\<close>

text \<open>
  The result of an arithmetic operation of the source is the exact result rounded to a double:
  53 significant bits, ties to even. Values here stay far from the subnormal and the overflow
  range, so the exponent is not bounded. \<open>Math.round\<close> rounds half up.
\<close>

definition round_half_even :: "rat \<Rightarrow> int" where
  "round_half_even x = (let f = \<lfloor>x\<rfloor>; d = x - of_int f in
     if d < 1 / 2 then f else if d > 1 / 2 then f + 1 else if even f then f else f + 1)"

definition double_exponent :: "rat \<Rightarrow> int" where
  "double_exponent q = (case quotient_of q of (a, b) \<Rightarrow>
     let e = int (nat (bitlen a)) - int (nat (bitlen b)) - 53
     in if q \<ge> 2 powi (e + 53) then e + 1 else e)"

definition double_of :: "rat \<Rightarrow> rat" where
  "double_of q = (if q = 0 then 0
     else let e = double_exponent \<bar>q\<bar>
          in sgn q * of_int (round_half_even (\<bar>q\<bar> / 2 powi e)) * 2 powi e)"

definition math_round :: "rat \<Rightarrow> int" where
  "math_round x = \<lfloor>x + 1 / 2\<rfloor>"

lemma round_half_even_of_int [simp]: "round_half_even (of_int n) = n"
  by (simp add: round_half_even_def)

lemma double_of_0 [simp]: "double_of 0 = 0"
  by (simp add: double_of_def)

section \<open>Rounding error\<close>

lemma bitlen_pos: "0 < a \<Longrightarrow> 0 < bitlen a"
  using bitlen_nonneg [of a] bitlen_eq_zero_iff [of a] by linarith

lemma double_exponent_bounds:
  assumes "0 < q"
  shows "2 powi (double_exponent q + 52) \<le> q" and "q < 2 powi (double_exponent q + 53)"
proof -
  obtain a b where q: "quotient_of q = (a, b)" by fastforce
  have b: "0 < b" "q = of_int a / of_int b"
    using quotient_of_denom_pos [OF q] quotient_of_div [OF q] by auto
  have a: "0 < a" using assms b by (simp add: zero_less_divide_iff)
  define la lb where "la = nat (bitlen a)" and "lb = nat (bitlen b)"
  have la: "2 ^ (la - 1) \<le> a" "a < 2 ^ la" "0 < la"
    using bitlen_bounds [of a] a bitlen_pos [OF a] by (auto simp: la_def nat_diff_distrib)
  have lb: "2 ^ (lb - 1) \<le> b" "b < 2 ^ lb" "0 < lb"
    using bitlen_bounds [of b] b bitlen_pos [OF b(1)] by (auto simp: lb_def nat_diff_distrib)
  have pw: "(2 :: rat) powi (int m - int n) = 2 ^ m / 2 ^ n" for m n
    by (simp add: power_int_diff power_int_of_nat)
  have A: "(2 :: rat) ^ (la - 1) \<le> of_int a" "of_int a < (2 :: rat) ^ la"
    using la by (metis of_int_le_iff of_int_numeral of_int_power, metis of_int_less_iff of_int_numeral of_int_power)
  have B: "(2 :: rat) ^ (lb - 1) \<le> of_int b" "of_int b < (2 :: rat) ^ lb"
    using lb by (metis of_int_le_iff of_int_numeral of_int_power, metis of_int_less_iff of_int_numeral of_int_power)
  define e where "e = int la - int lb - 53"
  have "q < 2 ^ la / 2 ^ (lb - 1)"
    unfolding b(2) using A B b(1) a by (intro frac_less) auto
  also have "\<dots> = 2 powi (int la - int (lb - 1))" by (simp only: pw)
  also have "int la - int (lb - 1) = e + 54" using lb(3) by (simp add: e_def of_nat_diff)
  finally have up: "q < 2 powi (e + 54)" .
  have "2 powi (e + 52) = (2 :: rat) powi (int (la - 1) - int lb)"
    using la(3) by (simp add: e_def of_nat_diff algebra_simps)
  also have "\<dots> = 2 ^ (la - 1) / 2 ^ lb" by (simp only: pw)
  also have "\<dots> \<le> q"
    unfolding b(2) using A B b(1) a by (intro frac_le) auto
  finally have lo: "2 powi (e + 52) \<le> q" .
  have d: "double_exponent q = (if q \<ge> 2 powi (e + 53) then e + 1 else e)"
    by (simp add: double_exponent_def q e_def la_def lb_def Let_def)
  show "2 powi (double_exponent q + 52) \<le> q" and "q < 2 powi (double_exponent q + 53)"
    using up lo by (auto simp: d add.assoc)
qed

lemma round_half_even_error: "\<bar>of_int (round_half_even x) - x\<bar> \<le> 1 / 2"
proof -
  have "of_int \<lfloor>x\<rfloor> \<le> x" "x < of_int \<lfloor>x\<rfloor> + 1" by linarith+
  then show ?thesis by (auto simp: round_half_even_def Let_def abs_le_iff)
qed

lemma round_half_even_ge: "of_int j \<le> x \<Longrightarrow> j \<le> round_half_even x"
proof -
  assume "of_int j \<le> x"
  then have "j \<le> \<lfloor>x\<rfloor>" by (simp only: le_floor_iff)
  then show ?thesis by (simp add: round_half_even_def Let_def)
qed

lemma double_of_pos: "0 < q \<Longrightarrow> double_of q
    = of_int (round_half_even (q / 2 powi double_exponent q)) * 2 powi double_exponent q"
  by (simp add: double_of_def Let_def)

lemma double_exponent_le_0:
  assumes "0 < q" and "q < 2 ^ 53"
  shows "double_exponent q \<le> 0"
proof (rule ccontr)
  assume "\<not> double_exponent q \<le> 0"
  then have "(2 :: rat) powi 53 \<le> 2 powi (double_exponent q + 52)"
    by (intro power_int_increasing) auto
  then show False using double_exponent_bounds(1) [OF assms(1)] assms(2)
    by (simp add: power_int_numeral)
qed

text \<open>Rounding does not cross an integer from above, and its relative error is at most \<open>2^-53\<close>.\<close>

lemma double_of_ge:
  assumes "0 < q" and "q < 2 ^ 53" and "of_int j \<le> q"
  shows "of_int j \<le> double_of q"
proof -
  let ?e = "double_exponent q"
  obtain n where n: "?e = - int n"
    using double_exponent_le_0 [OF assms(1,2)] by (metis int_zle_neg nonpos_int_cases)
  have p: "(2 :: rat) powi ?e = 1 / 2 ^ n" by (simp add: n power_int_minus power_int_of_nat field_simps)
  have "of_int (j * 2 ^ n) \<le> q / 2 powi ?e" using assms(3) by (simp add: p)
  then have "j * 2 ^ n \<le> round_half_even (q / 2 powi ?e)" by (rule round_half_even_ge)
  then have "(of_int (j * 2 ^ n) :: rat) \<le> of_int (round_half_even (q / 2 powi ?e))"
    by (simp only: of_int_le_iff)
  then show ?thesis by (simp add: double_of_pos [OF assms(1)] p field_simps)
qed

lemma double_of_error:
  assumes "0 < q"
  shows "\<bar>double_of q - q\<bar> \<le> q / 2 ^ 53"
proof -
  let ?e = "double_exponent q" and ?x = "q / 2 powi double_exponent q"
  have pos: "(0 :: rat) < 2 powi ?e" by (simp add: zero_less_power_int)
  have "double_of q - q = (of_int (round_half_even ?x) - ?x) * 2 powi ?e"
    using pos by (simp add: double_of_pos [OF assms] left_diff_distrib)
  then have "\<bar>double_of q - q\<bar> = \<bar>of_int (round_half_even ?x) - ?x\<bar> * 2 powi ?e"
    using pos by (simp add: abs_mult)
  also have "\<dots> \<le> 1 / 2 * 2 powi ?e"
    using round_half_even_error pos by (intro mult_right_mono) auto
  also have "\<dots> = 2 powi (?e + 52) / 2 ^ 53"
    by (simp add: power_int_add power_int_numeral)
  also have "\<dots> \<le> q / 2 ^ 53"
    using double_exponent_bounds(1) [OF assms] by (intro divide_right_mono) auto
  finally show ?thesis .
qed

lemma double_of_int:
  assumes "0 \<le> n" and "n < 2 ^ 53"
  shows "double_of (of_int n) = of_int n"
proof (cases "n = 0")
  case False
  let ?q = "of_int n :: rat" and ?e = "double_exponent (of_int n)"
  have q: "0 < ?q" "?q < 2 ^ 53"
    using assms False by (simp, metis of_int_less_iff of_int_numeral of_int_power)
  obtain m where m: "?e = - int m"
    using double_exponent_le_0 [OF q] by (metis int_zle_neg nonpos_int_cases)
  have p: "(2 :: rat) powi ?e = 1 / 2 ^ m" by (simp add: m power_int_minus power_int_of_nat field_simps)
  have "?q / 2 powi ?e = of_int (n * 2 ^ m)" by (simp add: p)
  then show ?thesis by (simp only: double_of_pos [OF q(1)] round_half_even_of_int) (simp add: p)
qed simp

text \<open>Dividing an integer by an integer in doubles and flooring is the integer division, as long as
  the dividend is below \<open>2^53\<close>.\<close>

theorem floor_double_div:
  assumes "0 \<le> n" and "n < 2 ^ 53" and "0 < (d :: int)"
  shows "\<lfloor>double_of (of_int n / of_int d)\<rfloor> = n div d"
proof (cases "n = 0")
  case False
  let ?q = "of_int n / of_int d :: rat"
  have n: "(0 :: rat) < of_int n" "(of_int n :: rat) < 2 ^ 53"
    using assms(1,2) False by (simp, metis of_int_less_iff of_int_numeral of_int_power)
  have d: "(1 :: rat) \<le> of_int d" using assms(3) by simp
  have "?q \<le> of_int n" using n d by (simp add: divide_le_eq mult_left_le)
  then have q: "0 < ?q" "?q < 2 ^ 53" using n d by (simp_all add: divide_pos_pos)
  have k: "of_int (n div d) \<le> ?q" "?q + 1 / of_int d \<le> of_int (n div d) + 1"
  proof -
    have "n div d * d \<le> n" "n + 1 \<le> (n div d + 1) * d"
      using pos_mod_bound [OF assms(3), of n] pos_mod_sign [OF assms(3), of n]
        div_mult_mod_eq [of n d] unfolding distrib_right mult_1 by linarith+
    then have "(of_int (n div d * d) :: rat) \<le> of_int n" "(of_int (n + 1) :: rat) \<le> of_int ((n div d + 1) * d)"
      by (simp_all only: of_int_le_iff)
    then show "of_int (n div d) \<le> ?q" "?q + 1 / of_int d \<le> of_int (n div d) + 1"
      using d by (simp_all add: field_simps)
  qed
  have "\<bar>double_of ?q - ?q\<bar> \<le> ?q / 2 ^ 53" by (rule double_of_error [OF q(1)])
  moreover have "?q / 2 ^ 53 < 1 / of_int d" using n(2) d by (simp add: field_simps)
  ultimately have "double_of ?q < of_int (n div d) + 1" using k(2) by linarith
  moreover have "of_int (n div d) \<le> double_of ?q" by (rule double_of_ge [OF q k(1)])
  ultimately show ?thesis by (simp add: floor_eq_iff)
qed simp

end
