(* ===== verification/Fraud.thy ===== *)
theory Fraud
  imports Numbers
begin

text \<open>
  Fraud scoring: \<^verbatim>\<open>packages/contracts/src/fraud.ts\<close> and
  \<^verbatim>\<open>apps/api/src/modules/fraud\<close>: the configured settings and their defaults, the
  rule engine (a pure function of a context and the settings), and \<open>FraudService\<close> over the
  append-only \<open>fraud_evaluations\<close> table. The sentences a rule puts in \<open>detail\<close> or
  \<open>reason\<close> are values naming the sentence and the numbers it is filled with.
\<close>

section \<open>Actions and rules\<close>

datatype fraud_action = ALLOW | HOLD | REVIEW | BLOCK

fun FRAUD_ACTION_SEVERITY :: "fraud_action \<Rightarrow> nat" where
  "FRAUD_ACTION_SEVERITY ALLOW = 0"
| "FRAUD_ACTION_SEVERITY HOLD = 1"
| "FRAUD_ACTION_SEVERITY REVIEW = 2"
| "FRAUD_ACTION_SEVERITY BLOCK = 3"

text \<open>Actions are ordered by severity.\<close>

lemma severity_inj: "FRAUD_ACTION_SEVERITY a = FRAUD_ACTION_SEVERITY b \<longleftrightarrow> a = b"
  by (cases a; cases b) simp_all

instantiation fraud_action :: linorder
begin

definition less_eq_fraud_action :: "fraud_action \<Rightarrow> fraud_action \<Rightarrow> bool" where
  "less_eq_fraud_action a b \<longleftrightarrow> FRAUD_ACTION_SEVERITY a \<le> FRAUD_ACTION_SEVERITY b"

definition less_fraud_action :: "fraud_action \<Rightarrow> fraud_action \<Rightarrow> bool" where
  "less_fraud_action a b \<longleftrightarrow> FRAUD_ACTION_SEVERITY a < FRAUD_ACTION_SEVERITY b"

instance
  by standard (auto simp: less_eq_fraud_action_def less_fraud_action_def severity_inj)

end

datatype fraud_rule = USER_CONVERSION_VELOCITY | IP_CONVERSION_VELOCITY | SHARED_IP_ACCOUNTS
  | SHARED_DEVICE_ACCOUNTS | IMPOSSIBLE_TIMING | CHARGEBACK_RATE | DISPOSABLE_EMAIL

text \<open>\<open>RULES\<close> and \<open>RULE_IDS\<close>, both in the contract's order.\<close>

definition RULE_IDS :: "fraud_rule list" where
  "RULE_IDS = [USER_CONVERSION_VELOCITY, IP_CONVERSION_VELOCITY, SHARED_IP_ACCOUNTS,
     SHARED_DEVICE_ACCOUNTS, IMPOSSIBLE_TIMING, CHARGEBACK_RATE, DISPOSABLE_EMAIL]"

text \<open>Rules sort by name; \<open>rule_rank\<close> is the position of the name in that order.\<close>

fun rule_rank :: "fraud_rule \<Rightarrow> nat" where
  "rule_rank CHARGEBACK_RATE = 0"
| "rule_rank DISPOSABLE_EMAIL = 1"
| "rule_rank IMPOSSIBLE_TIMING = 2"
| "rule_rank IP_CONVERSION_VELOCITY = 3"
| "rule_rank SHARED_DEVICE_ACCOUNTS = 4"
| "rule_rank SHARED_IP_ACCOUNTS = 5"
| "rule_rank USER_CONVERSION_VELOCITY = 6"

lemma rule_rank_inj: "rule_rank a = rule_rank b \<longleftrightarrow> a = b"
  by (cases a; cases b) simp_all

instantiation fraud_rule :: linorder
begin

definition less_eq_fraud_rule :: "fraud_rule \<Rightarrow> fraud_rule \<Rightarrow> bool" where
  "less_eq_fraud_rule a b \<longleftrightarrow> rule_rank a \<le> rule_rank b"

definition less_fraud_rule :: "fraud_rule \<Rightarrow> fraud_rule \<Rightarrow> bool" where
  "less_fraud_rule a b \<longleftrightarrow> rule_rank a < rule_rank b"

instance
  by standard (auto simp: less_eq_fraud_rule_def less_fraud_rule_def rule_rank_inj)

end

section \<open>Configuration\<close>

record fraud_rule_setting =
  ruleEnabled :: bool
  ruleThreshold :: rat
  ruleWeight :: int
  ruleAction :: fraud_action

definition valid_rule_setting :: "fraud_rule_setting \<Rightarrow> bool" where
  "valid_rule_setting s \<longleftrightarrow> 0 \<le> ruleThreshold s \<and> 0 \<le> ruleWeight s \<and> ruleWeight s \<le> 100"

fun default_rule_setting :: "fraud_rule \<Rightarrow> fraud_rule_setting" where
  "default_rule_setting USER_CONVERSION_VELOCITY
     = \<lparr>ruleEnabled = True, ruleThreshold = 10, ruleWeight = 25, ruleAction = HOLD\<rparr>"
| "default_rule_setting IP_CONVERSION_VELOCITY
     = \<lparr>ruleEnabled = True, ruleThreshold = 20, ruleWeight = 25, ruleAction = HOLD\<rparr>"
| "default_rule_setting SHARED_IP_ACCOUNTS
     = \<lparr>ruleEnabled = True, ruleThreshold = 8, ruleWeight = 15, ruleAction = HOLD\<rparr>"
| "default_rule_setting SHARED_DEVICE_ACCOUNTS
     = \<lparr>ruleEnabled = True, ruleThreshold = 3, ruleWeight = 30, ruleAction = REVIEW\<rparr>"
| "default_rule_setting IMPOSSIBLE_TIMING
     = \<lparr>ruleEnabled = True, ruleThreshold = 30, ruleWeight = 30, ruleAction = HOLD\<rparr>"
| "default_rule_setting CHARGEBACK_RATE
     = \<lparr>ruleEnabled = True, ruleThreshold = 40, ruleWeight = 35, ruleAction = REVIEW\<rparr>"
| "default_rule_setting DISPOSABLE_EMAIL
     = \<lparr>ruleEnabled = True, ruleThreshold = 1, ruleWeight = 20, ruleAction = HOLD\<rparr>"

text \<open>The stored configuration, resolved for one provider scope.\<close>

record fraud_config =
  fcEnabled :: bool
  fcVelocityWindowMinutes :: int
  fcSharedIdentityWindowDays :: int
  fcChargebackMinimumConversions :: int
  fcDisposableEmailDomains :: "string list"
  fcRules :: "fraud_rule \<Rightarrow> fraud_rule_setting"

definition default_fraud_config :: fraud_config where
  "default_fraud_config = \<lparr>fcEnabled = True, fcVelocityWindowMinutes = 60,
     fcSharedIdentityWindowDays = 30, fcChargebackMinimumConversions = 5,
     fcDisposableEmailDomains = [], fcRules = default_rule_setting\<rparr>"

record rule_settings =
  rsRules :: "fraud_rule \<Rightarrow> fraud_rule_setting"
  rsChargebackMinimumConversions :: int
  rsDisposableEmailDomains :: "string list"
  rsEnabled :: bool

definition resolveSettings :: "fraud_config \<Rightarrow> rule_settings" where
  "resolveSettings c = \<lparr>rsRules = fcRules c,
     rsChargebackMinimumConversions = fcChargebackMinimumConversions c,
     rsDisposableEmailDomains = map (\<lambda>d. js_lower (js_trim d)) (fcDisposableEmailDomains c),
     rsEnabled = fcEnabled c\<rparr>"

section \<open>The rule engine\<close>

record fraud_context =
  fxUserId :: id
  fxProviderId :: id
  fxEmailDomain :: "string option"
  fxAccountCreatedAt :: millis
  fxClickAt :: millis
  fxClickIp :: "string option"
  fxClickDeviceFingerprint :: "string option"
  fxConversionAt :: millis
  fxUserConversionsInWindow :: int
  fxIpConversionsInWindow :: "int option"
  fxAccountsSharingIp :: "int option"
  fxAccountsSharingDevice :: "int option"
  fxLifetimeConversions :: int
  fxLifetimeChargebacks :: int

datatype rule_detail =
    ConversionsInWindow int rat
  | ConversionsFromIp int rat
  | AccountsFromIp int rat
  | AccountsShareDevice int rat
  | ConvertedAfter int rat
  | ReversedRate int int rat
  | OnBlocklist string

datatype skip_reason =
    DisabledGlobally | RuleDisabled | NoIpAddress | NoFingerprint | BeforeItsClick
  | TooFewConversions int int | NoEmailDomain | BlocklistEmpty

datatype rule_outcome = Fired int rule_detail | Quiet int | Skipped skip_reason

definition above :: "int \<Rightarrow> fraud_rule_setting \<Rightarrow> (int \<Rightarrow> rat \<Rightarrow> rule_detail) \<Rightarrow> rule_outcome" where
  "above n setting detail = (if of_int n > ruleThreshold setting
     then Fired n (detail n (ruleThreshold setting)) else Quiet n)"

text \<open>The rate and the elapsed seconds are computed in doubles.\<close>

definition chargeback_rate :: "fraud_context \<Rightarrow> int" where
  "chargeback_rate c = math_round (double_of
     (double_of (of_int (fxLifetimeChargebacks c) / of_int (fxLifetimeConversions c)) * 100))"

fun evaluateRule :: "fraud_rule \<Rightarrow> fraud_context \<Rightarrow> fraud_rule_setting \<Rightarrow> rule_settings \<Rightarrow> rule_outcome" where
  "evaluateRule USER_CONVERSION_VELOCITY c setting settings =
     above (fxUserConversionsInWindow c) setting ConversionsInWindow"
| "evaluateRule IP_CONVERSION_VELOCITY c setting settings =
     (case fxIpConversionsInWindow c of None \<Rightarrow> Skipped NoIpAddress
      | Some n \<Rightarrow> above n setting ConversionsFromIp)"
| "evaluateRule SHARED_IP_ACCOUNTS c setting settings =
     (case fxAccountsSharingIp c of None \<Rightarrow> Skipped NoIpAddress
      | Some n \<Rightarrow> above n setting AccountsFromIp)"
| "evaluateRule SHARED_DEVICE_ACCOUNTS c setting settings =
     (case fxAccountsSharingDevice c of None \<Rightarrow> Skipped NoFingerprint
      | Some n \<Rightarrow> above n setting AccountsShareDevice)"
| "evaluateRule IMPOSSIBLE_TIMING c setting settings =
     (let elapsedSeconds = double_of (of_int (fxConversionAt c - fxClickAt c) / 1000) in
      if elapsedSeconds < 0 then Skipped BeforeItsClick
      else if elapsedSeconds < ruleThreshold setting
      then Fired \<lfloor>elapsedSeconds\<rfloor> (ConvertedAfter \<lfloor>elapsedSeconds\<rfloor> (ruleThreshold setting))
      else Quiet \<lfloor>elapsedSeconds\<rfloor>)"
| "evaluateRule CHARGEBACK_RATE c setting settings =
     (if fxLifetimeConversions c < rsChargebackMinimumConversions settings
      then Skipped (TooFewConversions (fxLifetimeConversions c) (rsChargebackMinimumConversions settings))
      else let rate = chargeback_rate c in
        if of_int rate > ruleThreshold setting
        then Fired rate (ReversedRate rate (fxLifetimeConversions c) (ruleThreshold setting))
        else Quiet rate)"
| "evaluateRule DISPOSABLE_EMAIL c setting settings =
     (case fxEmailDomain c of None \<Rightarrow> Skipped NoEmailDomain
      | Some d \<Rightarrow>
          if length (rsDisposableEmailDomains settings) = 0 then Skipped BlocklistEmpty
          else if d \<in> set (rsDisposableEmailDomains settings) then Fired 1 (OnBlocklist d)
          else Quiet 0)"

record triggered_rule =
  trRule :: fraud_rule
  trObserved :: int
  trThreshold :: rat
  trWeight :: int
  trAction :: fraud_action
  trDetail :: rule_detail

record fraud_rule_snapshot =
  snRule :: fraud_rule
  snEnabled :: bool
  snThreshold :: rat
  snWeight :: int
  snAction :: fraud_action

record fraud_evaluation_result =
  evScore :: int
  evAction :: fraud_action
  evTriggered :: "triggered_rule list"
  evSnapshot :: "fraud_rule_snapshot list"
  evSkipped :: "(fraud_rule \<times> skip_reason) list"

definition combineActions :: "triggered_rule list \<Rightarrow> fraud_action" where
  "combineActions triggered = foldl (\<lambda>worst rule.
     if FRAUD_ACTION_SEVERITY (trAction rule) > FRAUD_ACTION_SEVERITY worst
     then trAction rule else worst) ALLOW triggered"

text \<open>One turn of the engine's loop: the two lists it pushes to.\<close>

definition engine_step :: "fraud_context \<Rightarrow> rule_settings
    \<Rightarrow> triggered_rule list \<times> (fraud_rule \<times> skip_reason) list \<Rightarrow> fraud_rule
    \<Rightarrow> triggered_rule list \<times> (fraud_rule \<times> skip_reason) list" where
  "engine_step c settings acc rule =
     (case acc of (triggered, skipped) \<Rightarrow> let setting = rsRules settings rule in
      if \<not> rsEnabled settings then (triggered, skipped @ [(rule, DisabledGlobally)])
      else if \<not> ruleEnabled setting then (triggered, skipped @ [(rule, RuleDisabled)])
      else (case evaluateRule rule c setting settings of
          Skipped reason \<Rightarrow> (triggered, skipped @ [(rule, reason)])
        | Fired observed detail \<Rightarrow> (triggered @ [\<lparr>trRule = rule, trObserved = observed,
              trThreshold = ruleThreshold setting, trWeight = ruleWeight setting,
              trAction = ruleAction setting, trDetail = detail\<rparr>], skipped)
        | Quiet _ \<Rightarrow> (triggered, skipped)))"

definition snapshot_of :: "rule_settings \<Rightarrow> fraud_rule \<Rightarrow> fraud_rule_snapshot" where
  "snapshot_of settings rule = (let setting = rsRules settings rule in
     \<lparr>snRule = rule, snEnabled = ruleEnabled setting \<and> rsEnabled settings,
      snThreshold = ruleThreshold setting, snWeight = ruleWeight setting,
      snAction = ruleAction setting\<rparr>)"

definition evaluateRules :: "fraud_context \<Rightarrow> rule_settings \<Rightarrow> fraud_evaluation_result" where
  "evaluateRules c settings =
     (case foldl (engine_step c settings) ([], []) RULE_IDS of (triggered, skipped) \<Rightarrow>
      \<lparr>evScore = foldl (\<lambda>total rule. total + trWeight rule) 0 triggered,
       evAction = combineActions triggered, evTriggered = triggered,
       evSnapshot = map (snapshot_of settings) RULE_IDS, evSkipped = skipped\<rparr>)"

section \<open>The service\<close>

record fraud_evaluation =
  feId :: id
  feUserId :: id
  feScore :: int
  feAction :: fraud_action
  feAppliedAction :: fraud_action
  feTriggered :: "triggered_rule list"
  feSnapshot :: "fraud_rule_snapshot list"
  feSkipped :: "(fraud_rule \<times> skip_reason) list"
  feEvaluatedAt :: millis

definition evaluate_fraud :: "(id \<Rightarrow> fraud_config) \<Rightarrow> fraud_context \<Rightarrow> fraud_evaluation_result" where
  "evaluate_fraud config c = evaluateRules c (resolveSettings (config (fxProviderId c)))"

definition windowsFor :: "(id \<Rightarrow> fraud_config) \<Rightarrow> id \<Rightarrow> int \<times> int" where
  "windowsFor config providerId = (fcVelocityWindowMinutes (config providerId),
     fcSharedIdentityWindowDays (config providerId))"

definition recordEvaluation :: "fraud_evaluation list \<Rightarrow> id \<Rightarrow> millis \<Rightarrow> id \<Rightarrow> fraud_evaluation_result
    \<Rightarrow> fraud_action \<Rightarrow> (fraud_evaluation \<times> fraud_evaluation list) result" where
  "recordEvaluation rows i now userId r appliedAction =
     (let row = \<lparr>feId = i, feUserId = userId, feScore = evScore r, feAction = evAction r,
         feAppliedAction = appliedAction, feTriggered = evTriggered r,
         feSnapshot = evSnapshot r, feSkipped = evSkipped r, feEvaluatedAt = now\<rparr>
      in if i \<in> set (map feId rows) then Inl UniqueViolation else Inr (row, rows @ [row]))"

definition findEvaluation :: "fraud_evaluation list \<Rightarrow> id \<Rightarrow> fraud_evaluation option" where
  "findEvaluation rows i = List.find (\<lambda>e. feId e = i) rows"

definition requireEvaluation :: "fraud_evaluation list \<Rightarrow> id \<Rightarrow> fraud_evaluation result" where
  "requireEvaluation rows i = (case findEvaluation rows i of
     None \<Rightarrow> Inl (DomainError FRAUD_EVALUATION_NOT_FOUND 404) | Some e \<Rightarrow> Inr e)"

record user_fraud_signals =
  peakScore :: int
  latestScore :: "int option"
  flaggedCount :: nat
  rulesEverTriggered :: "fraud_rule list"

definition SIGNALS_SCAN_LIMIT :: nat where
  "SIGNALS_SCAN_LIMIT = 200"

definition signalsFor :: "fraud_evaluation list \<Rightarrow> id \<Rightarrow> user_fraud_signals" where
  "signalsFor rows u =
     (let evaluations = take SIGNALS_SCAN_LIMIT
            (sort_key (\<lambda>e. - feEvaluatedAt e) (filter (\<lambda>e. feUserId e = u) rows))
      in \<lparr>peakScore = foldl (\<lambda>peak e. max peak (feScore e)) 0 evaluations,
          latestScore = (case evaluations of [] \<Rightarrow> None | e # _ \<Rightarrow> Some (feScore e)),
          flaggedCount = length (filter (\<lambda>e. feAction e \<noteq> ALLOW) evaluations),
          rulesEverTriggered =
            sort (remdups (concat (map (\<lambda>e. map trRule (feTriggered e)) evaluations)))\<rparr>)"

text \<open>This list endpoint answers the default limit for zero and negative requests, and does not
  clamp the offset.\<close>

definition clampFraudLimit :: "int option \<Rightarrow> int" where
  "clampFraudLimit requested = (case requested of None \<Rightarrow> 25
     | Some n \<Rightarrow> if n = 0 \<or> n < 1 then 25 else min n 100)"

definition findManyEvaluations :: "fraud_evaluation list \<Rightarrow> id option \<Rightarrow> fraud_action option \<Rightarrow> int option
    \<Rightarrow> nat \<Rightarrow> fraud_evaluation list \<times> nat" where
  "findManyEvaluations rows u a limit offset =
     (let matching = filter (\<lambda>e. (case u of None \<Rightarrow> True | Some x \<Rightarrow> feUserId e = x)
            \<and> (case a of None \<Rightarrow> True | Some x \<Rightarrow> feAction e = x)) rows
      in (take (nat (clampFraudLimit limit))
            (drop offset (sort_key (\<lambda>e. - feEvaluatedAt e) matching)), length matching))"

record fraud_evaluation_summary =
  fsId :: id
  fsConversionId :: "id option"
  fsUserId :: id
  fsScore :: int
  fsRecommendedAction :: fraud_action
  fsAppliedAction :: fraud_action
  fsTriggeredRules :: "fraud_rule list"
  fsEvaluatedAt :: millis

record fraud_evaluation_detail = fraud_evaluation_summary +
  fdTriggered :: "triggered_rule list"
  fdSnapshot :: "fraud_rule_snapshot list"
  fdSkipped :: "(fraud_rule \<times> skip_reason) list"

definition toFraudSummary :: "fraud_evaluation \<Rightarrow> id option \<Rightarrow> fraud_evaluation_summary" where
  "toFraudSummary e conversionId = \<lparr>fsId = feId e, fsConversionId = conversionId,
     fsUserId = feUserId e, fsScore = feScore e, fsRecommendedAction = feAction e,
     fsAppliedAction = feAppliedAction e, fsTriggeredRules = map trRule (feTriggered e),
     fsEvaluatedAt = feEvaluatedAt e\<rparr>"

definition toFraudDetail :: "fraud_evaluation \<Rightarrow> id option \<Rightarrow> fraud_evaluation_detail" where
  "toFraudDetail e conversionId = fraud_evaluation_summary.extend (toFraudSummary e conversionId)
     \<lparr>fdTriggered = feTriggered e, fdSnapshot = feSnapshot e, fdSkipped = feSkipped e\<rparr>"

section \<open>What the engine guarantees\<close>

lemma combineActions_fold:
  "foldl (\<lambda>worst rule. if FRAUD_ACTION_SEVERITY (trAction rule) > FRAUD_ACTION_SEVERITY worst
     then trAction rule else worst) a ts = Max (insert a (trAction ` set ts))"
proof (induction ts arbitrary: a)
  case (Cons t ts)
  have "(if FRAUD_ACTION_SEVERITY (trAction t) > FRAUD_ACTION_SEVERITY a then trAction t else a)
      = max (trAction t) a"
    by (auto simp: max_def less_eq_fraud_action_def severity_inj)
  moreover have "Max (insert (max (trAction t) a) (trAction ` set ts))
      = Max (insert a (insert (trAction t) (trAction ` set ts)))"
    by (cases "ts = []") (simp_all add: max.assoc max.commute max.left_commute)
  ultimately show ?case using Cons.IH by simp
qed simp

text \<open>C00. The recommended action is the most severe action among the rules that fired, and
  \<open>ALLOW\<close> when none did: the order of the rules and how many agree do not matter.\<close>

theorem combineActions_is_most_severe:
  "combineActions triggered = Max (insert ALLOW (trAction ` set triggered))"
  unfolding combineActions_def by (rule combineActions_fold)

text \<open>What the engine answers for one rule.\<close>

definition rule_verdict :: "fraud_context \<Rightarrow> rule_settings \<Rightarrow> fraud_rule \<Rightarrow> rule_outcome" where
  "rule_verdict c settings rule =
     (if \<not> rsEnabled settings then Skipped DisabledGlobally
      else if \<not> ruleEnabled (rsRules settings rule) then Skipped RuleDisabled
      else evaluateRule rule c (rsRules settings rule) settings)"

definition fired_rules :: "fraud_context \<Rightarrow> rule_settings \<Rightarrow> fraud_rule list \<Rightarrow> fraud_rule list" where
  "fired_rules c settings = filter (\<lambda>r. case rule_verdict c settings r of Fired _ _ \<Rightarrow> True | _ \<Rightarrow> False)"

definition skipped_rules :: "fraud_context \<Rightarrow> rule_settings \<Rightarrow> fraud_rule list \<Rightarrow> fraud_rule list" where
  "skipped_rules c settings = filter (\<lambda>r. case rule_verdict c settings r of Skipped _ \<Rightarrow> True | _ \<Rightarrow> False)"

lemma engine_fold:
  "foldl (engine_step c settings) (ts, ss) rules = (ts', ss')
   \<Longrightarrow> map trRule ts' = map trRule ts @ fired_rules c settings rules
     \<and> map fst ss' = map fst ss @ skipped_rules c settings rules
     \<and> (\<forall>t\<in>set ts' - set ts. trWeight t = ruleWeight (rsRules settings (trRule t))
         \<and> trAction t = ruleAction (rsRules settings (trRule t)))"
proof (induction rules arbitrary: ts ss)
  case (Cons r rules)
  obtain ts1 ss1 where s: "engine_step c settings (ts, ss) r = (ts1, ss1)" by fastforce
  have "foldl (engine_step c settings) (ts1, ss1) rules = (ts', ss')" using Cons.prems s by simp
  note IH = Cons.IH [OF this]
  have step: "map trRule ts1 = map trRule ts @ fired_rules c settings [r]
      \<and> map fst ss1 = map fst ss @ skipped_rules c settings [r]
      \<and> (\<forall>t\<in>set ts1 - set ts. trWeight t = ruleWeight (rsRules settings (trRule t))
         \<and> trAction t = ruleAction (rsRules settings (trRule t)))"
    using s by (auto simp: engine_step_def Let_def fired_rules_def skipped_rules_def
        rule_verdict_def split: if_splits rule_outcome.splits)
  have "fired_rules c settings (r # rules) = fired_rules c settings [r] @ fired_rules c settings rules"
    "skipped_rules c settings (r # rules) = skipped_rules c settings [r] @ skipped_rules c settings rules"
    by (simp_all add: fired_rules_def skipped_rules_def)
  then show ?case using IH step by auto
qed (simp add: fired_rules_def skipped_rules_def)

lemma score_sum: "foldl (\<lambda>total rule. total + trWeight rule) n ts = n + sum_list (map trWeight ts)"
  by (induction ts arbitrary: n) auto

lemma evaluateRules_lists:
  shows evaluateRules_triggered:
      "map trRule (evTriggered (evaluateRules c settings)) = fired_rules c settings RULE_IDS"
    and evaluateRules_skipped:
      "map fst (evSkipped (evaluateRules c settings)) = skipped_rules c settings RULE_IDS"
    and evaluateRules_weights: "t \<in> set (evTriggered (evaluateRules c settings))
      \<Longrightarrow> trWeight t = ruleWeight (rsRules settings (trRule t))"
proof -
  obtain ts ss where f: "foldl (engine_step c settings) ([], []) RULE_IDS = (ts, ss)" by fastforce
  from engine_fold [OF f]
  show "map trRule (evTriggered (evaluateRules c settings)) = fired_rules c settings RULE_IDS"
    and "map fst (evSkipped (evaluateRules c settings)) = skipped_rules c settings RULE_IDS"
    and "t \<in> set (evTriggered (evaluateRules c settings))
      \<Longrightarrow> trWeight t = ruleWeight (rsRules settings (trRule t))"
    by (simp_all add: evaluateRules_def f)
qed

lemma evaluateRules_score:
  "evScore (evaluateRules c settings)
    = sum_list (map (\<lambda>r. ruleWeight (rsRules settings r)) (fired_rules c settings RULE_IDS))"
proof -
  have "evScore (evaluateRules c settings) = sum_list (map trWeight (evTriggered (evaluateRules c settings)))"
    by (simp add: evaluateRules_def score_sum split: prod.splits)
  also have "map trWeight (evTriggered (evaluateRules c settings))
      = map ((\<lambda>r. ruleWeight (rsRules settings r)) \<circ> trRule) (evTriggered (evaluateRules c settings))"
    by (simp add: evaluateRules_weights)
  also have "\<dots> = map (\<lambda>r. ruleWeight (rsRules settings r)) (fired_rules c settings RULE_IDS)"
    by (simp only: map_map [symmetric] evaluateRules_triggered)
  finally show ?thesis .
qed

text \<open>Every rule is accounted for exactly once, in the contract's order: the snapshot lists
  all seven, those that fired are the triggered ones, those that could not be judged are the
  skipped ones, and the score is the sum of the configured weights of the triggered rules.\<close>

theorem every_rule_accounted_for:
  "map snRule (evSnapshot (evaluateRules c settings)) = RULE_IDS
   \<and> map trRule (evTriggered (evaluateRules c settings)) = fired_rules c settings RULE_IDS
   \<and> map fst (evSkipped (evaluateRules c settings)) = skipped_rules c settings RULE_IDS
   \<and> evScore (evaluateRules c settings)
      = sum_list (map (\<lambda>r. ruleWeight (rsRules settings r)) (fired_rules c settings RULE_IDS))"
  by (simp add: evaluateRules_score evaluateRules_triggered evaluateRules_skipped)
    (simp add: evaluateRules_def snapshot_of_def Let_def comp_def split: prod.splits)

text \<open>C00. With settings the schema accepts the score lies between 0 and 700; with scoring
  switched off every rule is recorded as skipped, nothing fires and the action is \<open>ALLOW\<close>.\<close>

theorem score_bounds_and_switch:
  assumes "\<And>r. valid_rule_setting (fcRules config r)"
  shows "0 \<le> evScore (evaluateRules c (resolveSettings config))
   \<and> evScore (evaluateRules c (resolveSettings config)) \<le> 700
   \<and> (fcEnabled config \<or>
       evaluateRules c (resolveSettings config) =
         \<lparr>evScore = 0, evAction = ALLOW, evTriggered = [],
          evSnapshot = map (snapshot_of (resolveSettings config)) RULE_IDS,
          evSkipped = map (\<lambda>r. (r, DisabledGlobally)) RULE_IDS\<rparr>)"
proof -
  let ?w = "\<lambda>r. ruleWeight (fcRules config r)"
  have w: "0 \<le> ?w r \<and> ?w r \<le> 100" for r
    using assms [of r] by (simp add: valid_rule_setting_def)
  have "0 \<le> sum_list (map ?w (filter p rs)) \<and> sum_list (map ?w (filter p rs)) \<le> 100 * int (length rs)"
    for p rs
    using w by (induction rs) (auto simp: add_mono)
  from this [of "\<lambda>r. case rule_verdict c (resolveSettings config) r of Fired _ _ \<Rightarrow> True | _ \<Rightarrow> False" RULE_IDS]
  have "0 \<le> evScore (evaluateRules c (resolveSettings config))
     \<and> evScore (evaluateRules c (resolveSettings config)) \<le> 700"
    by (simp add: evaluateRules_score fired_rules_def resolveSettings_def)
      (simp add: RULE_IDS_def)
  moreover have off: "evaluateRules c settings = \<lparr>evScore = 0, evAction = ALLOW, evTriggered = [],
      evSnapshot = map (snapshot_of settings) RULE_IDS,
      evSkipped = map (\<lambda>r. (r, DisabledGlobally)) RULE_IDS\<rparr>" if "\<not> rsEnabled settings" for settings
    using that by (simp add: evaluateRules_def RULE_IDS_def engine_step_def combineActions_def)
  moreover have "rsEnabled (resolveSettings config) = fcEnabled config"
    by (simp add: resolveSettings_def)
  ultimately show ?thesis using off [of "resolveSettings config"] by blast
qed

lemma score_bounds_and_switch_witness:
  "evScore (evaluateRules \<lparr>fxUserId = 1, fxProviderId = 2, fxEmailDomain = None,
      fxAccountCreatedAt = 0, fxClickAt = 0, fxClickIp = None, fxClickDeviceFingerprint = None,
      fxConversionAt = 5000, fxUserConversionsInWindow = 11, fxIpConversionsInWindow = None,
      fxAccountsSharingIp = None, fxAccountsSharingDevice = None, fxLifetimeConversions = 0,
      fxLifetimeChargebacks = 0\<rparr> (resolveSettings default_fraud_config)) \<le> 700"
proof -
  have "valid_rule_setting (fcRules default_fraud_config r)" for r
    by (cases r) (simp_all add: default_fraud_config_def valid_rule_setting_def)
  from score_bounds_and_switch [OF this] show ?thesis by blast
qed

text \<open>The signals shown for a user are over at most their 200 newest evaluations: the peak
  is at least the latest score and at least every score scanned, and a rule is listed exactly
  when one of those evaluations triggered it.\<close>

theorem signals_summarise_history:
  "let recent = take SIGNALS_SCAN_LIMIT
        (sort_key (\<lambda>e. - feEvaluatedAt e) (filter (\<lambda>e. feUserId e = u) rows));
       s = signalsFor rows u
   in (list_all (\<lambda>e. feScore e \<le> peakScore s) recent)
      \<and> set (rulesEverTriggered s) = (\<Union>e\<in>set recent. trRule ` set (feTriggered e))
      \<and> sorted (rulesEverTriggered s) \<and> distinct (rulesEverTriggered s)
      \<and> length recent \<le> 200
      \<and> latestScore s = map_option feScore (case recent of [] \<Rightarrow> None | e # _ \<Rightarrow> Some e)"
proof -
  have fold: "n \<le> foldl (\<lambda>peak e. max peak (feScore e)) n es
      \<and> (\<forall>e\<in>set es. feScore e \<le> foldl (\<lambda>peak e. max peak (feScore e)) n es)" for n es
    by (induction es arbitrary: n) (auto, (meson max.bounded_iff order_trans)+)
  have peak: "list_all (\<lambda>e. feScore e \<le> foldl (\<lambda>peak e. max peak (feScore e)) 0 es) es" for es
    unfolding list_all_iff using fold [of 0 es] by blast
  have head: "map_option feScore (case es of [] \<Rightarrow> None | e # _ \<Rightarrow> Some e)
      = (case es of [] \<Rightarrow> None | e # _ \<Rightarrow> Some (feScore e))" for es
    by (cases es) simp_all
  show ?thesis
    unfolding signalsFor_def Let_def by (simp add: peak head) (simp add: SIGNALS_SCAN_LIMIT_def)
qed

end
