(* ===== verification/IpRange.thy ===== *)
theory IpRange
  imports Prelude "HOL-Library.Word"
begin

unbundle bit_operations_syntax

text \<open>
  IP addresses and ranges: \<^verbatim>\<open>apps/api/src/modules/providers/internal/ip-range.ts\<close>. A
  postback's source address is compared with the provider's allowlist by these functions, byte by
  byte. \<open>isIP\<close> is Node's own address check, by the grammar its documentation and source
  give: four decimal octets without leading zeros, or RFC 4291 text with one elision, a dotted
  quad in the last place and an optional zone.
\<close>

section \<open>Text\<close>

fun split_on :: "char \<Rightarrow> string \<Rightarrow> string list" where
  "split_on c [] = [[]]"
| "split_on c (x # xs) = (if x = c then [] # split_on c xs
     else (case split_on c xs of [] \<Rightarrow> [[x]] | g # gs \<Rightarrow> (x # g) # gs))"

definition is_digit :: "char \<Rightarrow> bool" where
  "is_digit c = (let n = code_unit c in 48 \<le> n \<and> n \<le> 57)"

definition is_hex :: "char \<Rightarrow> bool" where
  "is_hex c = (let n = code_unit c in is_digit c \<or> (65 \<le> n \<and> n \<le> 70) \<or> (97 \<le> n \<and> n \<le> 102))"

definition hex_value :: "char \<Rightarrow> nat" where
  "hex_value c = (let n = code_unit c in if n \<le> 57 then n - 48 else if n \<le> 70 then n - 55 else n - 87)"

definition number_of :: "nat \<Rightarrow> string \<Rightarrow> nat" where
  "number_of base s = foldl (\<lambda>n c. n * base + hex_value c) 0 s"

section \<open>Parsing\<close>

type_synonym byte = "8 word"

definition IPV4_OCTET :: "string \<Rightarrow> bool" where
  "IPV4_OCTET s = (case s of [] \<Rightarrow> False | c # cs \<Rightarrow>
     s = ''0'' \<or> (is_digit c \<and> c \<noteq> CHR ''0'' \<and> list_all is_digit cs \<and> length cs \<le> 2))"

definition parse_octet :: "string \<Rightarrow> byte option" where
  "parse_octet part = (if \<not> IPV4_OCTET part then None
     else if number_of 10 part > 255 then None else Some (of_nat (number_of 10 part)))"

text \<open>A loop that stops at the first element without a value.\<close>

fun all_parsed :: "('a \<Rightarrow> 'b option) \<Rightarrow> 'a list \<Rightarrow> 'b list option" where
  "all_parsed f [] = Some []"
| "all_parsed f (x # xs) = (case f x of None \<Rightarrow> None
     | Some y \<Rightarrow> map_option (\<lambda>ys. y # ys) (all_parsed f xs))"

definition parseIpv4 :: "string \<Rightarrow> byte list option" where
  "parseIpv4 value = (let parts = split_on CHR ''.'' value in
     if length parts \<noteq> 4 then None else all_parsed parse_octet parts)"

definition splitGroups :: "string \<Rightarrow> string list" where
  "splitGroups segment = (if segment = [] then [] else split_on CHR '':'' segment)"

definition parseGroup :: "string \<Rightarrow> nat option" where
  "parseGroup value = (if 1 \<le> length value \<and> length value \<le> 4 \<and> list_all is_hex value
     then Some (number_of 16 value) else None)"

text \<open>The two bytes of a group, \<open>word >> 8\<close> and \<open>word & 0xff\<close>.\<close>

definition group_bytes :: "nat \<Rightarrow> byte list" where
  "group_bytes n = [of_nat (drop_bit 8 n), of_nat (take_bit 8 n)]"

text \<open>The text before and after the first \<open>::\<close>.\<close>

fun cut_elision :: "string \<Rightarrow> (string \<times> string) option" where
  "cut_elision (a # b # s) = (if a = CHR '':'' \<and> b = CHR '':'' then Some ([], s)
     else map_option (\<lambda>(h, t). (a # h, t)) (cut_elision (b # s)))"
| "cut_elision _ = None"

text \<open>The head and tail groups, \<open>None\<close> when a second elision makes them ambiguous.\<close>

definition ipv6_groups :: "string \<Rightarrow> (bool \<times> string list \<times> string list) option" where
  "ipv6_groups text = (case cut_elision text of
      None \<Rightarrow> Some (False, split_on CHR '':'' text, [])
    | Some (lhs, rhs) \<Rightarrow>
        if cut_elision (CHR '':'' # rhs) \<noteq> None then None
        else Some (True, splitGroups lhs, splitGroups rhs))"

definition parseIpv6 :: "string \<Rightarrow> byte list option" where
  "parseIpv6 value =
     (let text = takeWhile (\<lambda>c. c \<noteq> CHR ''%'') value in
      case ipv6_groups text of
        None \<Rightarrow> None
      | Some (elided, head0, tail0) \<Rightarrow>
          let lastGroup = (if tail0 \<noteq> [] then Some (last tail0)
                           else if head0 \<noteq> [] then Some (last head0) else None);
              dotted = (case lastGroup of None \<Rightarrow> False | Some g \<Rightarrow> CHR ''.'' \<in> set g);
              embedded = (if dotted then parseIpv4 (the lastGroup) else Some []);
              head' = (if dotted \<and> tail0 = [] then butlast head0 else head0);
              tail' = (if dotted \<and> tail0 \<noteq> [] then butlast tail0 else tail0);
              groups = length head' + length tail' + (if dotted then 2 else 0)
          in if embedded = None then None
             else if \<not> elided \<and> groups \<noteq> 8 then None
             else if elided \<and> groups > 7 then None
             else (case (all_parsed parseGroup head', all_parsed parseGroup tail') of
                (Some hs, Some ts) \<Rightarrow> Some (concat (map group_bytes hs)
                   @ replicate (16 - groups * 2) 0 @ concat (map group_bytes ts) @ the embedded)
              | _ \<Rightarrow> None))"

record parsed_address =
  ipVersion :: nat
  ipBytes :: "byte list"
  ipUnwrapped :: bool

definition isIpv4Mapped :: "byte list \<Rightarrow> bool" where
  "isIpv4Mapped bytes \<longleftrightarrow> take 10 bytes = replicate 10 0 \<and> bytes ! 10 = 255 \<and> bytes ! 11 = 255"

definition parseAddress :: "string \<Rightarrow> parsed_address option" where
  "parseAddress value =
     (if CHR '':'' \<in> set value then (case parseIpv6 value of
          None \<Rightarrow> None
        | Some bytes \<Rightarrow>
            if isIpv4Mapped bytes
            then Some \<lparr>ipVersion = 4, ipBytes = drop 12 bytes, ipUnwrapped = True\<rparr>
            else Some \<lparr>ipVersion = 6, ipBytes = bytes, ipUnwrapped = False\<rparr>)
      else map_option (\<lambda>bytes. \<lparr>ipVersion = 4, ipBytes = bytes, ipUnwrapped = False\<rparr>)
        (parseIpv4 value))"

section \<open>Matching\<close>

text \<open>Out of range a \<open>Uint8Array\<close> reads \<open>undefined\<close>, which \<open>?? 0\<close> makes zero.\<close>

definition byte_at :: "byte list \<Rightarrow> nat \<Rightarrow> byte" where
  "byte_at bytes i = (if i < length bytes then bytes ! i else 0)"

definition sharesPrefix :: "byte list \<Rightarrow> byte list \<Rightarrow> nat \<Rightarrow> bool" where
  "sharesPrefix left right bits =
     (let wholeBytes = bits div 8; remainder = bits mod 8;
          mask = (push_bit (8 - remainder) 255 :: byte) AND 255
      in list_all (\<lambda>i. byte_at left i = byte_at right i) [0..<wholeBytes]
         \<and> (remainder = 0 \<or>
             byte_at left wholeBytes AND mask = byte_at right wholeBytes AND mask))"

definition ipMatchesRange :: "string \<Rightarrow> string \<Rightarrow> bool" where
  "ipMatchesRange address rng =
     (case parseAddress (js_trim address) of
        None \<Rightarrow> False
      | Some target \<Rightarrow>
          let parts = split_on CHR ''/'' (js_trim rng); rawNetwork = parts ! 0 in
          if length parts > 2 then False
          else (case parseAddress rawNetwork of
             None \<Rightarrow> False
           | Some network \<Rightarrow>
               if ipVersion network \<noteq> ipVersion target then False
               else let writtenWidth = (if CHR '':'' \<in> set rawNetwork then 128 else 32 :: int);
                        prefixOk = (length parts = 1 \<or> (1 \<le> length (parts ! 1)
                           \<and> length (parts ! 1) \<le> 3 \<and> list_all is_digit (parts ! 1)
                           \<and> int (number_of 10 (parts ! 1)) \<le> writtenWidth));
                        bits0 = (if length parts = 1 then writtenWidth
                                 else int (number_of 10 (parts ! 1)));
                        bits = (if ipUnwrapped network then bits0 - 96 else bits0)
                    in prefixOk \<and> \<not> bits < 0
                       \<and> sharesPrefix (ipBytes target) (ipBytes network) (nat bits)))"

definition ipMatchesAnyRange :: "string \<Rightarrow> string list \<Rightarrow> bool" where
  "ipMatchesAnyRange address ranges = list_ex (ipMatchesRange address) ranges"

section \<open>Validation of configured ranges\<close>

definition zone_char :: "char \<Rightarrow> bool" where
  "zone_char c = (let n = code_unit c in is_digit c \<or> (65 \<le> n \<and> n \<le> 90) \<or> (97 \<le> n \<and> n \<le> 122)
     \<or> c = CHR ''-'' \<or> c = CHR ''.'' \<or> c = CHR '':'')"

definition is_h16 :: "string \<Rightarrow> bool" where
  "is_h16 g \<longleftrightarrow> 1 \<le> length g \<and> length g \<le> 4 \<and> list_all is_hex g"

text \<open>Groups of which the last may be a dotted quad, with the number of 16-bit words they fill.\<close>

definition ls_groups :: "string list \<Rightarrow> nat option" where
  "ls_groups gs = (if list_all is_h16 gs then Some (length gs)
     else if list_all is_h16 (butlast gs) \<and> parseIpv4 (last gs) \<noteq> None then Some (length gs + 1)
     else None)"

definition is_ipv6_text :: "string \<Rightarrow> bool" where
  "is_ipv6_text text = (case ipv6_groups text of
      None \<Rightarrow> False
    | Some (False, gs, _) \<Rightarrow> ls_groups gs = Some 8
    | Some (True, hs, ts) \<Rightarrow> list_all is_h16 hs \<and>
        (case ls_groups ts of None \<Rightarrow> False | Some n \<Rightarrow> length hs + n \<le> 7))"

definition isIP :: "string \<Rightarrow> nat" where
  "isIP value =
     (if parseIpv4 value \<noteq> None then 4
      else let text = takeWhile (\<lambda>c. c \<noteq> CHR ''%'') value;
               zone = dropWhile (\<lambda>c. c \<noteq> CHR ''%'') value
           in if is_ipv6_text text \<and> (zone = [] \<or> (2 \<le> length zone \<and> list_all zone_char (tl zone)))
              then 6 else 0)"

definition isValidIpRange :: "string \<Rightarrow> bool" where
  "isValidIpRange value =
     (if value \<noteq> js_trim value \<or> length value = 0 then False
      else let parts = split_on CHR ''/'' value; version = isIP (parts ! 0) in
        if length parts > 2 then False
        else if version = 0 then False
        else if length parts = 1 then True
        else 1 \<le> length (parts ! 1) \<and> length (parts ! 1) \<le> 3 \<and> list_all is_digit (parts ! 1)
          \<and> number_of 10 (parts ! 1) \<le> (if version = 4 then 32 else 128))"

text \<open>\<open>/^[a-z0-9]+(?:-[a-z0-9]+)*$/\<close>: hyphen-separated non-empty runs.\<close>

definition slug_char :: "char \<Rightarrow> bool" where
  "slug_char c = (let n = code_unit c in is_digit c \<or> (97 \<le> n \<and> n \<le> 122))"

definition SLUG_PATTERN :: "string \<Rightarrow> bool" where
  "SLUG_PATTERN s = list_all (\<lambda>run. run \<noteq> [] \<and> list_all slug_char run) (split_on CHR ''-'' s)"

definition isValidProviderSlug :: "string \<Rightarrow> bool" where
  "isValidProviderSlug value \<longleftrightarrow> 2 \<le> length value \<and> length value \<le> 32 \<and> SLUG_PATTERN value"

section \<open>Matching compares the leading bits\<close>

definition bits_of :: "byte \<Rightarrow> bool list" where
  "bits_of b = map (\<lambda>i. bit b (7 - i)) [0..<8]"

definition address_bits :: "byte list \<Rightarrow> bool list" where
  "address_bits bytes = concat (map bits_of bytes)"

lemma length_bits_of [simp]: "length (bits_of b) = 8"
  by (simp add: bits_of_def)

lemma length_address_bits: "length (address_bits bytes) = 8 * length bytes"
  by (induction bytes) (simp_all add: address_bits_def)

lemma bits_of_inject: "bits_of a = bits_of b \<longleftrightarrow> a = b"
proof
  assume "bits_of a = bits_of b"
  then have b7: "bit a (7 - i) = bit b (7 - i)" if "i < 8" for i
    using that by (auto simp: bits_of_def)
  have "bit a j = bit b j" if "j < 8" for j
    using b7 [of "7 - j"] that by simp
  then show "a = b" by (intro bit_word_eqI) simp
qed simp

lemma byte_at_Cons [simp]: "byte_at (a # l) (Suc i) = byte_at l i" "byte_at (a # l) 0 = a"
  by (simp_all add: byte_at_def)

lemma sharesPrefix_Cons:
  "sharesPrefix (a # l) (b # r) (8 + n) \<longleftrightarrow> a = b \<and> sharesPrefix l r n"
proof -
  have "[0..<Suc k] = 0 # map Suc [0..<k]" for k
    by (simp add: upt_conv_Cons map_Suc_upt del: upt_Suc)
  then show ?thesis
    by (simp add: sharesPrefix_def Let_def list.pred_map comp_def del: upt_Suc)
qed

lemma prefix_mask_bit:
  "bit ((push_bit (8 - m) 255 :: byte) AND 255) j \<longleftrightarrow> 8 - m \<le> j \<and> j < 8"
proof -
  have m: "(255 :: byte) = mask 8" by (simp add: mask_eq_exp_minus_1)
  show ?thesis unfolding m by (auto simp only: bit_and_iff bit_push_bit_iff bit_mask_iff) auto
qed

lemma sharesPrefix_within_byte:
  assumes "0 < m" and "m < 8"
  shows "sharesPrefix (a # l) (b # r) m \<longleftrightarrow> take m (bits_of a) = take m (bits_of b)"
proof -
  define mask where "mask = (push_bit (8 - m) 255 :: byte) AND 255"
  have "bit mask j \<longleftrightarrow> 8 - m \<le> j \<and> j < 8" for j
    unfolding mask_def by (rule prefix_mask_bit)
  then have "a AND mask = b AND mask \<longleftrightarrow> (\<forall>j. 8 - m \<le> j \<and> j < 8 \<longrightarrow> bit a j = bit b j)"
    by (auto simp: bit_eq_iff bit_and_iff)
  also have "\<dots> \<longleftrightarrow> (\<forall>i<m. bit a (7 - i) = bit b (7 - i))"
  proof (rule iffI; intro allI impI)
    fix i assume h: "\<forall>j. 8 - m \<le> j \<and> j < 8 \<longrightarrow> bit a j = bit b j" "i < m"
    have "8 - m \<le> 7 - i" "7 - i < 8" using h(2) assms by auto
    with h(1) show "bit a (7 - i) = bit b (7 - i)" by blast
  next
    fix j assume h: "\<forall>i<m. bit a (7 - i) = bit b (7 - i)" "8 - m \<le> j \<and> j < 8"
    have "7 - j < m" "7 - (7 - j) = j" using h(2) assms by auto
    then show "bit a j = bit b j" using h(1) by metis
  qed
  also have "\<dots> \<longleftrightarrow> take m (bits_of a) = take m (bits_of b)"
    using assms by (auto simp: bits_of_def take_map list_eq_iff_nth_eq)
  finally show ?thesis
    using assms by (simp add: sharesPrefix_def Let_def mask_def)
qed

lemma sharesPrefix_bits:
  assumes "length l = length r" and "n \<le> 8 * length l"
  shows "sharesPrefix l r n \<longleftrightarrow> take n (address_bits l) = take n (address_bits r)"
  using assms
proof (induction l r arbitrary: n rule: list_induct2)
  case Nil
  then show ?case by (simp add: sharesPrefix_def)
next
  case (Cons a l b r)
  show ?case
  proof (cases "8 \<le> n")
    case True
    then obtain k where k: "n = 8 + k" using le_Suc_ex by blast
    have "take n (address_bits (x # xs)) = bits_of x @ take k (address_bits xs)" for x xs
      by (simp add: k address_bits_def)
    then show ?thesis using Cons k by (simp add: sharesPrefix_Cons bits_of_inject)
  next
    case False
    then have "take n (address_bits (x # xs)) = take n (bits_of x)" for x xs
      by (simp add: address_bits_def)
    then show ?thesis
      using False by (cases "n = 0") (simp_all add: sharesPrefix_within_byte, simp add: sharesPrefix_def)
  qed
qed

section \<open>Addresses the validator accepts are addresses the matcher reads\<close>

lemma all_parsed_None_iff: "all_parsed f xs = None \<longleftrightarrow> (\<exists>x\<in>set xs. f x = None)"
  by (induction xs) (auto split: option.splits)

lemma all_parsed_length: "all_parsed f xs = Some ys \<Longrightarrow> length ys = length xs"
  by (induction xs arbitrary: ys) (auto split: option.splits)

lemma split_on_nonempty [simp]: "split_on c s \<noteq> []"
  by (induction s) (auto split: list.splits)

lemma split_on_chars: "x \<in> set s \<Longrightarrow> x = c \<or> (\<exists>g\<in>set (split_on c s). x \<in> set g)"
  by (induction s) (auto split: list.splits)

lemma split_on_single: "c \<notin> set s \<Longrightarrow> split_on c s = [s]"
  by (induction s) auto

lemma parseIpv4_chars:
  assumes "parseIpv4 s \<noteq> None" and "x \<in> set s"
  shows "x = CHR ''.'' \<or> is_digit x"
proof -
  have oct: "IPV4_OCTET g" if "g \<in> set (split_on CHR ''.'' s)" for g
  proof -
    have "all_parsed parse_octet (split_on CHR ''.'' s) \<noteq> None"
      using assms(1) by (auto simp: parseIpv4_def Let_def split: if_splits)
    then have "parse_octet g \<noteq> None"
      using that unfolding all_parsed_None_iff by (metis (no_types))
    then show ?thesis by (cases "IPV4_OCTET g") (simp_all add: parse_octet_def)
  qed
  have "is_digit CHR ''0''" by code_simp
  have "is_digit y" if m: "g \<in> set (split_on CHR ''.'' s)" "y \<in> set g" for g y
  proof -
    obtain c cs where g: "g = c # cs" "g = ''0'' \<or> (is_digit c \<and> list_all is_digit cs)"
      using oct [OF m(1)] by (cases g) (auto simp: IPV4_OCTET_def)
    then show ?thesis
      using m(2) \<open>is_digit CHR ''0''\<close> by (auto simp: list_all_iff)
  qed
  then show ?thesis using split_on_chars [OF assms(2), of "CHR ''.''"] by blast
qed

lemma special_chars: "\<not> is_digit CHR '':''" "\<not> is_hex CHR ''.''" "\<not> is_hex CHR '':''"
  by code_simp+

lemma parseIpv4_no_colon: "parseIpv4 s \<noteq> None \<Longrightarrow> CHR '':'' \<notin> set s"
  using parseIpv4_chars special_chars(1) by fastforce

lemma parseIpv4_dot: "parseIpv4 s \<noteq> None \<Longrightarrow> CHR ''.'' \<in> set s"
  by (rule ccontr) (simp add: parseIpv4_def split_on_single)

lemma h16_no_dot: "is_h16 g \<Longrightarrow> CHR ''.'' \<notin> set g"
  using special_chars(2) by (auto simp: is_h16_def list_all_iff)

lemma parseGroup_h16: "parseGroup g = None \<longleftrightarrow> \<not> is_h16 g"
  by (simp add: parseGroup_def is_h16_def)

lemma all_h16_parsed: "list_all is_h16 gs \<Longrightarrow> \<exists>ws. all_parsed parseGroup gs = Some ws"
  using all_parsed_None_iff [of parseGroup gs] parseGroup_h16
  by (cases "all_parsed parseGroup gs") (auto simp: list_all_iff)

lemma ipv6_text_parses:
  assumes "is_ipv6_text (takeWhile (\<lambda>c. c \<noteq> CHR ''%'') value)"
  shows "parseIpv6 value \<noteq> None"
proof -
  obtain el hs ts where g: "ipv6_groups (takeWhile (\<lambda>c. c \<noteq> CHR ''%'') value) = Some (el, hs, ts)"
    using assms by (auto simp: is_ipv6_text_def split: option.splits)
  show ?thesis
  proof (cases el)
    case True
    then obtain n where n: "list_all is_h16 hs" "ls_groups ts = Some n" "length hs + n \<le> 7"
      using assms g by (auto simp: is_ipv6_text_def split: option.splits)
    show ?thesis
    proof (cases "list_all is_h16 ts")
      case True
      then have "\<not> (ts \<noteq> [] \<and> CHR ''.'' \<in> set (last ts))" "\<not> (hs \<noteq> [] \<and> CHR ''.'' \<in> set (last hs))"
        using n(1) h16_no_dot by (auto simp: list_all_iff)
      then show ?thesis
        using True n g all_h16_parsed [OF True] all_h16_parsed [OF n(1)] \<open>el\<close>
        by (auto simp: parseIpv6_def Let_def ls_groups_def)
    next
      case False
      then have t: "ts \<noteq> []" "list_all is_h16 (butlast ts)" "parseIpv4 (last ts) \<noteq> None"
          "n = length ts + 1"
        using n(2) by (auto simp: ls_groups_def split: if_splits)
      have "length (butlast ts) + 2 = n" using t(1,4) by (cases ts) auto
      then show ?thesis
        using \<open>length (butlast ts) + 2 = n\<close> t(1,3) n(3) g all_h16_parsed [OF t(2)] all_h16_parsed [OF n(1)] parseIpv4_dot [OF t(3)] \<open>el\<close>
        by (auto simp: parseIpv6_def Let_def simp del: length_butlast)
    qed
  next
    case False
    have ts: "ts = []" using g False by (auto simp: ipv6_groups_def split: option.splits if_splits)
    have n: "ls_groups hs = Some 8" using assms g False by (simp add: is_ipv6_text_def)
    show ?thesis
    proof (cases "list_all is_h16 hs")
      case True
      then have "\<not> (hs \<noteq> [] \<and> CHR ''.'' \<in> set (last hs))"
        using h16_no_dot by (auto simp: list_all_iff)
      then show ?thesis
        using True n g all_h16_parsed [OF True] ts \<open>\<not> el\<close>
        by (auto simp: parseIpv6_def Let_def ls_groups_def)
    next
      case False
      then have t: "hs \<noteq> []" "list_all is_h16 (butlast hs)" "parseIpv4 (last hs) \<noteq> None"
          "length hs = 7"
        using n by (auto simp: ls_groups_def split: if_splits)
      then show ?thesis
        using g all_h16_parsed [OF t(2)] parseIpv4_dot [OF t(3)] ts \<open>\<not> el\<close>
        by (auto simp: parseIpv6_def Let_def)
    qed
  qed
qed

lemma cut_elision_colon: "cut_elision s = Some (a, b) \<Longrightarrow> CHR '':'' \<in> set s"
  by (induction s arbitrary: a rule: cut_elision.induct) (auto split: if_splits)

lemma ipv6_text_colon:
  assumes "is_ipv6_text text"
  shows "CHR '':'' \<in> set text"
proof (rule ccontr)
  assume no: "CHR '':'' \<notin> set text"
  then have "cut_elision text = None" using cut_elision_colon by (cases "cut_elision text") auto
  then have "ls_groups [text] = Some 8"
    using assms no by (simp add: is_ipv6_text_def ipv6_groups_def split_on_single)
  then show False by (auto simp: ls_groups_def split: if_splits)
qed

lemma isIP_parses:
  assumes "isIP a \<noteq> 0"
  shows "\<exists>p. parseAddress a = Some p"
proof (cases "parseIpv4 a")
  case (Some bytes)
  then have "CHR '':'' \<notin> set a" using parseIpv4_no_colon by auto
  then show ?thesis using Some by (simp add: parseAddress_def)
next
  case None
  then have t: "is_ipv6_text (takeWhile (\<lambda>c. c \<noteq> CHR ''%'') a)"
    using assms by (auto simp: isIP_def Let_def split: if_splits)
  then have "CHR '':'' \<in> set a" using ipv6_text_colon set_takeWhileD by fastforce
  then show ?thesis using ipv6_text_parses [OF t] by (auto simp: parseAddress_def)
qed

text \<open>C00. An address matches a range exactly when they agree on the leading bits: the byte-wise
  comparison with its masked last byte is the comparison of the first \<open>n\<close> bits of the two
  addresses, for every \<open>n\<close> up to their length.\<close>

theorem sharesPrefix_compares_leading_bits:
  assumes "length left = length right" and "n \<le> 8 * length left"
  shows "sharesPrefix left right n \<longleftrightarrow> take n (address_bits left) = take n (address_bits right)"
  by (rule sharesPrefix_bits [OF assms])

lemma sharesPrefix_compares_leading_bits_witness:
  "sharesPrefix [10, 1, 2, 3] [10, 0, 0, 0] 15 \<longleftrightarrow>
     take 15 (address_bits [10, 1, 2, 3]) = take 15 (address_bits [10, 0, 0, 0])"
  by (rule sharesPrefix_compares_leading_bits) simp_all

lemma parseIpv4_length: "parseIpv4 s = Some b \<Longrightarrow> length b = 4"
  by (auto simp: parseIpv4_def Let_def split: if_splits dest: all_parsed_length)

lemma sharesPrefix_refl: "sharesPrefix b b n"
  by (simp add: sharesPrefix_def list_all_iff)

text \<open>Whatever the validator accepts as a postback range, the matcher can read, and the range
  contains its own network address; the one exception is an IPv4-mapped range written with a
  prefix shorter than 96 bits, which the validator accepts and which matches nothing.\<close>

theorem valid_range_matches_its_network:
  assumes "isValidIpRange rng" and "split_on CHR ''/'' rng ! 0 = js_trim (split_on CHR ''/'' rng ! 0)"
  shows "\<exists>network. parseAddress (split_on CHR ''/'' rng ! 0) = Some network
    \<and> (ipMatchesRange (split_on CHR ''/'' rng ! 0) rng \<longleftrightarrow>
        \<not> (ipUnwrapped network \<and> length (split_on CHR ''/'' rng) = 2
             \<and> number_of 10 (split_on CHR ''/'' rng ! 1) < 96))"
proof -
  let ?parts = "split_on CHR ''/'' rng"
  have v: "js_trim rng = rng" "length ?parts \<le> 2" "isIP (?parts ! 0) \<noteq> 0"
    using assms(1) by (auto simp: isValidIpRange_def Let_def split: if_splits)
  obtain nw where nw: "parseAddress (?parts ! 0) = Some nw"
    using isIP_parses [OF v(3)] by blast
  have len: "length ?parts = 1 \<or> length ?parts = 2"
    using v(2) split_on_nonempty [of "CHR ''/''" rng] by (cases ?parts) (auto simp: le_Suc_eq)
  have colon: "CHR '':'' \<in> set (?parts ! 0) \<longleftrightarrow> isIP (?parts ! 0) \<noteq> 4"
  proof (cases "parseIpv4 (?parts ! 0)")
    case None
    then have "is_ipv6_text (takeWhile (\<lambda>c. c \<noteq> CHR ''%'') (?parts ! 0))"
      using v(3) by (auto simp: isIP_def Let_def split: if_splits)
    then have "CHR '':'' \<in> set (?parts ! 0)" using ipv6_text_colon set_takeWhileD by fastforce
    then show ?thesis using None by (simp add: isIP_def Let_def)
  next
    case (Some b)
    then show ?thesis using parseIpv4_no_colon [of "?parts ! 0"] by (simp add: isIP_def)
  qed
  have unw: "ipUnwrapped nw \<Longrightarrow> CHR '':'' \<in> set (?parts ! 0)"
    using nw by (auto simp: parseAddress_def split: if_splits)
  have pre: "list_all is_digit (?parts ! 1) \<and> 1 \<le> length (?parts ! 1) \<and> length (?parts ! 1) \<le> 3
      \<and> number_of 10 (?parts ! 1) \<le> (if CHR '':'' \<in> set (?parts ! 0) then 128 else 32)"
    if "length ?parts = 2"
    using assms(1) that colon by (auto simp: isValidIpRange_def Let_def split: if_splits)
  have "ipMatchesRange (?parts ! 0) rng \<longleftrightarrow>
      \<not> (ipUnwrapped nw \<and> length ?parts = 2 \<and> number_of 10 (?parts ! 1) < 96)"
    using len
  proof
    assume "length ?parts = 1"
    then show ?thesis
      using nw unw by (simp add: ipMatchesRange_def v(1) assms(2) [symmetric] Let_def sharesPrefix_refl)
  next
    assume "length ?parts = 2"
    then show ?thesis
      using nw unw pre
      by (auto simp: ipMatchesRange_def v(1) assms(2) [symmetric] Let_def sharesPrefix_refl
          split: if_splits)
  qed
  then show ?thesis using nw by blast
qed

lemma valid_range_matches_its_network_witness:
  "ipMatchesRange ''203.0.113.0'' ''203.0.113.0/24''"
proof -
  have v: "isValidIpRange ''203.0.113.0/24''" by code_simp
  have s: "split_on CHR ''/'' ''203.0.113.0/24'' = [''203.0.113.0'', ''24'']" by code_simp
  have t: "split_on CHR ''/'' ''203.0.113.0/24'' ! 0 = js_trim (split_on CHR ''/'' ''203.0.113.0/24'' ! 0)"
    by code_simp
  have p: "parseAddress ''203.0.113.0'' = Some \<lparr>ipVersion = 4, ipBytes = [203, 0, 113, 0], ipUnwrapped = False\<rparr>"
    by code_simp
  show ?thesis
    using valid_range_matches_its_network [OF v t] unfolding s by (auto simp: p)
qed

end
