(* ===== verification/Providers.thy ===== *)
theory Providers
  imports IpRange
begin

text \<open>
  Providers and their adapters: \<^verbatim>\<open>apps/api/src/modules/providers\<close>. An adapter is code the
  registry constructs from a definition; here it is a record of functions, each absent when the
  object lacks it. The registry keeps what loading the \<open>providers\<close> table produced, the
  service keeps the table, and health is a column of it. The environment the credentials come from
  and the configured thresholds are arguments.
\<close>

section \<open>The adapter contract\<close>

datatype capability =
    FETCH_OFFERS | BUILD_CLICK_URL | VERIFY_POSTBACK | PARSE_POSTBACK | REVERSALS | OFFER_TARGETING
  | UnknownCapability string

definition KNOWN_CAPABILITIES :: "capability list" where
  "KNOWN_CAPABILITIES = [FETCH_OFFERS, BUILD_CLICK_URL, VERIFY_POSTBACK, PARSE_POSTBACK, REVERSALS,
     OFFER_TARGETING]"

definition MANDATORY_CAPABILITIES :: "capability list" where
  "MANDATORY_CAPABILITIES = [FETCH_OFFERS, BUILD_CLICK_URL, VERIFY_POSTBACK, PARSE_POSTBACK]"

datatype signing_scheme = HMAC_SHA256 | SHARED_SECRET | IP_ALLOWLIST | UnknownScheme string

definition KNOWN_SIGNING_SCHEMES :: "signing_scheme list" where
  "KNOWN_SIGNING_SCHEMES = [HMAC_SHA256, SHARED_SECRET, IP_ALLOWLIST]"

datatype device_type = Desktop | Mobile | Tablet

record offer_query_context =
  ctxCountry :: "string option"
  ctxDevice :: "device_type option"
  ctxSegment :: "string option"

record normalized_offer =
  noExternalId :: "string option"
  noTitle :: "string option"
  noDescription :: "string option"
  noRequirements :: "string option"
  noPayoutAmountMinor :: rat
  noPayoutCurrency :: "string option"
  noProviderCategories :: "string list"
  noCountries :: "string list"
  noDevices :: "string list"
  noImageUrl :: "string option"
  noTrackingUrlTemplate :: "string option"
  noIsMultiStep :: bool

record click_url_context =
  cuTrackingUrlTemplate :: string
  cuExternalOfferId :: string
  cuUserReference :: string
  cuSubId :: string

text \<open>A query parameter is a string, or an array when it was repeated.\<close>

datatype query_value = Single string | Repeated "string list"

record raw_postback_request =
  rqQuery :: "(string \<times> query_value) list"
  rqBody :: json
  rqHeaders :: "(string \<times> query_value) list"
  rqSourceIp :: string
  rqRawBody :: "string option"

datatype postback_verification = Valid | Invalid string

datatype conversion_signal = Confirmed | PendingSignal | RejectedSignal

record normalized_conversion =
  ncSubId :: string
  ncExternalTransactionId :: string
  ncPayoutAmountMinor :: rat
  ncPayoutCurrency :: string
  ncStatus :: conversion_signal
  ncIsReversal :: bool
  ncExternalOfferId :: "string option"
  ncOccurredAt :: "millis option"

record adapter_metadata =
  amSlug :: string
  amDisplayName :: string
  amPostbackSigningScheme :: signing_scheme
  amPublishedIpRanges :: "string list"
  amCapabilities :: "capability list"
  amRequiredCredentials :: "string list"

record adapter =
  adMetadata :: adapter_metadata
  fetchOffers :: "(offer_query_context \<Rightarrow> normalized_offer list result) option"
  buildClickUrl :: "(click_url_context \<Rightarrow> string result) option"
  verifyPostback :: "(raw_postback_request \<Rightarrow> postback_verification) option"
  parsePostback :: "(raw_postback_request \<Rightarrow> normalized_conversion result) option"

type_synonym credentials = "(string \<times> string) list"

text \<open>\<open>create\<close> may throw: the message is the left value.\<close>

record adapter_definition =
  dfMetadata :: adapter_metadata
  dfCreate :: "string \<Rightarrow> credentials \<Rightarrow> string + adapter"

type_synonym adapter_map = "(string \<times> adapter_definition) list"

text \<open>The four errors an adapter raises.\<close>

definition ProviderUnavailableError :: app_error where
  "ProviderUnavailableError = InfrastructureError PROVIDER_UNAVAILABLE_CODE 503 True"

definition ProviderRateLimitedError :: app_error where
  "ProviderRateLimitedError = InfrastructureError PROVIDER_RATE_LIMITED 429 True"

definition ProviderAuthFailedError :: app_error where
  "ProviderAuthFailedError = InfrastructureError PROVIDER_AUTH_FAILED 502 False"

definition ProviderResponseInvalidError :: app_error where
  "ProviderResponseInvalidError = InfrastructureError PROVIDER_RESPONSE_INVALID 502 False"

section \<open>Adapter validation\<close>

datatype adapter_problem =
    SlugMismatch string string | BadSlug string | EmptyDisplayName | UnknownSigningScheme signing_scheme
  | UnknownCapabilityDeclared capability | DuplicateCapability capability
  | MandatoryMissing capability | BadPublishedRange string | AllowlistWithoutRanges
  | BadCredentialName string | NotImplemented capability

fun capability_loop :: "capability list \<Rightarrow> capability list \<Rightarrow> adapter_problem list" where
  "capability_loop declared [] = []"
| "capability_loop declared (c # cs) =
     (if c \<notin> set KNOWN_CAPABILITIES then [UnknownCapabilityDeclared c] else [])
     @ (if c \<in> set declared then [DuplicateCapability c] else [])
     @ capability_loop (c # declared) cs"

definition validateCapabilityDeclaration :: "capability list \<Rightarrow> adapter_problem list" where
  "validateCapabilityDeclaration capabilities = capability_loop [] capabilities
     @ map MandatoryMissing (filter (\<lambda>m. m \<notin> set capabilities) MANDATORY_CAPABILITIES)"

text \<open>\<open>/^[a-z][a-z0-9_]*$/\<close>\<close>

definition credential_name :: "string \<Rightarrow> bool" where
  "credential_name s = (case s of [] \<Rightarrow> False | c # cs \<Rightarrow>
     (97 \<le> code_unit c \<and> code_unit c \<le> 122) \<and> list_all (\<lambda>x. slug_char x \<or> x = CHR ''_'') cs)"

definition validateAdapterMetadata :: "string \<Rightarrow> adapter_metadata \<Rightarrow> adapter_problem list" where
  "validateAdapterMetadata registeredSlug m =
     (if amSlug m \<noteq> registeredSlug then [SlugMismatch (amSlug m) registeredSlug] else [])
     @ (if \<not> isValidProviderSlug (amSlug m) then [BadSlug (amSlug m)] else [])
     @ (if length (js_trim (amDisplayName m)) = 0 then [EmptyDisplayName] else [])
     @ (if amPostbackSigningScheme m \<notin> set KNOWN_SIGNING_SCHEMES
        then [UnknownSigningScheme (amPostbackSigningScheme m)] else [])
     @ validateCapabilityDeclaration (amCapabilities m)
     @ map BadPublishedRange (filter (\<lambda>r. \<not> isValidIpRange r) (amPublishedIpRanges m))
     @ (if amPostbackSigningScheme m = IP_ALLOWLIST \<and> length (amPublishedIpRanges m) = 0
        then [AllowlistWithoutRanges] else [])
     @ map BadCredentialName (filter (\<lambda>c. \<not> credential_name c) (amRequiredCredentials m))"

definition implements :: "adapter \<Rightarrow> capability \<Rightarrow> bool" where
  "implements a c = (case c of
      FETCH_OFFERS \<Rightarrow> fetchOffers a \<noteq> None
    | BUILD_CLICK_URL \<Rightarrow> buildClickUrl a \<noteq> None
    | VERIFY_POSTBACK \<Rightarrow> verifyPostback a \<noteq> None
    | PARSE_POSTBACK \<Rightarrow> parsePostback a \<noteq> None
    | _ \<Rightarrow> False)"

definition validateAdapterImplementation :: "adapter \<Rightarrow> adapter_problem list" where
  "validateAdapterImplementation a =
     map NotImplemented (filter (\<lambda>c. \<not> implements a c) MANDATORY_CAPABILITIES)"

section \<open>Credentials\<close>

definition toSegment :: "string \<Rightarrow> string" where
  "toSegment value = js_to_upper (map (\<lambda>c. if c = CHR ''-'' then CHR ''_'' else c) value)"

definition variableName :: "string \<Rightarrow> string \<Rightarrow> string" where
  "variableName slug credential = ''PROVIDER_'' @ toSegment slug @ ''_'' @ toSegment credential"

fun resolve_loop :: "(string \<Rightarrow> string option) \<Rightarrow> string \<Rightarrow> string list \<Rightarrow> credentials \<times> string list" where
  "resolve_loop env slug [] = ([], [])"
| "resolve_loop env slug (c # cs) =
     (case resolve_loop env slug cs of (found, missing) \<Rightarrow>
      let variable = variableName slug c in
      case env variable of
        None \<Rightarrow> (found, variable # missing)
      | Some v \<Rightarrow> if length (js_trim v) = 0 then (found, variable # missing)
                  else ((c, v) # found, missing))"

definition resolveCredentials :: "(string \<Rightarrow> string option) \<Rightarrow> string \<Rightarrow> string list
    \<Rightarrow> credentials \<times> string list" where
  "resolveCredentials env slug required = resolve_loop env slug required"

section \<open>The registry\<close>

record registration =
  rgId :: id
  rgSlug :: string
  rgDisplayName :: string
  rgIsEnabled :: bool

datatype registration_error =
    NoAdapterFor string
  | MetadataProblems "adapter_problem list"
  | MissingVariables "string list"
  | ConstructionFailed string
  | ImplementationProblems "adapter_problem list"

text \<open>\<open>build\<close>: the steps in the order the code takes them, each with its own error.\<close>

definition buildAdapter :: "adapter_map \<Rightarrow> (string \<Rightarrow> string option) \<Rightarrow> registration
    \<Rightarrow> registration_error + adapter" where
  "buildAdapter adapters env row =
     (case map_of adapters (rgSlug row) of
        None \<Rightarrow> Inl (NoAdapterFor (rgSlug row))
      | Some df \<Rightarrow>
          let problems = validateAdapterMetadata (rgSlug row) (dfMetadata df) in
          if problems \<noteq> [] then Inl (MetadataProblems problems)
          else (case resolveCredentials env (rgSlug row) (amRequiredCredentials (dfMetadata df)) of
            (found, missing) \<Rightarrow>
              if missing \<noteq> [] then Inl (MissingVariables missing)
              else (case dfCreate df (rgSlug row) found of
                 Inl message \<Rightarrow> Inl (ConstructionFailed message)
               | Inr a \<Rightarrow>
                   let gaps = validateAdapterImplementation a in
                   if gaps \<noteq> [] then Inl (ImplementationProblems gaps) else Inr a)))"

record registry =
  registered :: "(string \<times> (registration \<times> adapter)) list"
  failed :: "(string \<times> (registration \<times> registration_error)) list"
  loaded :: bool

definition empty_registry :: registry where
  "empty_registry = \<lparr>registered = [], failed = [], loaded = False\<rparr>"

text \<open>\<open>Map.set\<close>: an existing key keeps its place.\<close>

fun map_set :: "'k \<Rightarrow> 'v \<Rightarrow> ('k \<times> 'v) list \<Rightarrow> ('k \<times> 'v) list" where
  "map_set k v [] = [(k, v)]"
| "map_set k v ((k', v') # kvs) = (if k' = k then (k, v) # kvs else (k', v') # map_set k v kvs)"

definition load_step :: "adapter_map \<Rightarrow> (string \<Rightarrow> string option) \<Rightarrow> registry \<Rightarrow> registration \<Rightarrow> registry" where
  "load_step adapters env r row = (case buildAdapter adapters env row of
      Inl e \<Rightarrow> r\<lparr>failed := map_set (rgSlug row) (row, e) (failed r)\<rparr>
    | Inr a \<Rightarrow> r\<lparr>registered := map_set (rgSlug row) (row, a) (registered r)\<rparr>)"

text \<open>\<open>load\<close> builds two new maps and replaces the old ones at once.\<close>

definition load :: "adapter_map \<Rightarrow> (string \<Rightarrow> string option) \<Rightarrow> registration list \<Rightarrow> registry" where
  "load adapters env rows = (foldl (load_step adapters env) empty_registry rows)\<lparr>loaded := True\<rparr>"

definition all_registered :: "registry \<Rightarrow> (registration \<times> adapter) list" where
  "all_registered r = map snd (registered r)"

definition enabled_providers :: "registry \<Rightarrow> (registration \<times> adapter) list" where
  "enabled_providers r = filter (\<lambda>p. rgIsEnabled (fst p)) (all_registered r)"

definition failures :: "registry \<Rightarrow> (registration \<times> registration_error) list" where
  "failures r = map snd (failed r)"

definition find_registered :: "registry \<Rightarrow> string \<Rightarrow> (registration \<times> adapter) option" where
  "find_registered r slug = map_of (registered r) slug"

definition require_registered :: "registry \<Rightarrow> string \<Rightarrow> (registration \<times> adapter) result" where
  "require_registered r slug =
     (case map_of (registered r) slug of
        Some p \<Rightarrow> if \<not> rgIsEnabled (fst p) then Inl (DomainError PROVIDER_DISABLED 409) else Inr p
      | None \<Rightarrow> (case map_of (failed r) slug of
            Some _ \<Rightarrow> Inl (DomainError PROVIDER_UNKNOWN_SLUG 409)
          | None \<Rightarrow> Inl (DomainError PROVIDER_NOT_FOUND 404)))"

definition supports_capability :: "registry \<Rightarrow> string \<Rightarrow> capability \<Rightarrow> bool" where
  "supports_capability r slug c = (case map_of (registered r) slug of
     None \<Rightarrow> False | Some p \<Rightarrow> c \<in> set (amCapabilities (adMetadata (snd p))))"

definition requireCapability :: "registry \<Rightarrow> string \<Rightarrow> capability \<Rightarrow> (registration \<times> adapter) result" where
  "requireCapability r slug c =
     (case require_registered r slug of
        Inl e \<Rightarrow> Inl e
      | Inr p \<Rightarrow> if c \<notin> set (amCapabilities (adMetadata (snd p)))
                 then Inl (DomainError PROVIDER_CAPABILITY_UNSUPPORTED 409) else Inr p)"

record capability_report =
  cpSlug :: string
  cpDisplayName :: string
  cpCapabilities :: "capability list"
  cpPostbackSigningScheme :: signing_scheme
  cpPublishedIpRanges :: "string list"
  cpRequiredCredentialVariables :: "string list"
  cpRegistered :: bool
  cpRegistrationError :: "registration_error option"

definition describeAdapters :: "adapter_map \<Rightarrow> (string \<Rightarrow> string option) \<Rightarrow> registry
    \<Rightarrow> capability_report list" where
  "describeAdapters adapters env r = map (\<lambda>(slug, df).
     let m = dfMetadata df;
         missing = snd (resolveCredentials env slug (amRequiredCredentials m))
     in \<lparr>cpSlug = slug, cpDisplayName = amDisplayName m, cpCapabilities = amCapabilities m,
         cpPostbackSigningScheme = amPostbackSigningScheme m,
         cpPublishedIpRanges = amPublishedIpRanges m,
         cpRequiredCredentialVariables = map (variableName slug) (amRequiredCredentials m),
         cpRegistered = (map_of (registered r) slug \<noteq> None),
         cpRegistrationError = (case map_of (failed r) slug of
             Some (_, e) \<Rightarrow> Some e
           | None \<Rightarrow> if 0 < length missing then Some (MissingVariables missing) else None)\<rparr>) adapters"

definition knownSlugs :: "adapter_map \<Rightarrow> string list" where
  "knownSlugs adapters = map fst adapters"

definition hasAdapterFor :: "adapter_map \<Rightarrow> string \<Rightarrow> bool" where
  "hasAdapterFor adapters slug \<longleftrightarrow> slug \<in> set (map fst adapters)"

section \<open>The providers table\<close>

datatype health_state = HEALTHY | DEGRADED | DOWN

record provider =
  prId :: id
  prSlug :: string
  prDisplayName :: string
  prIsEnabled :: bool
  prPostbackIpRanges :: "string list"
  prSyncIntervalMinutes :: int
  prHealthState :: health_state
  prConsecutiveFailureCount :: int
  prLastSuccessfulSyncAt :: "millis option"
  prLastFailureReason :: "string option"
  prCreatedAt :: millis

definition findProvider :: "provider list \<Rightarrow> id \<Rightarrow> provider option" where
  "findProvider rows i = List.find (\<lambda>p. prId p = i) rows"

definition findProviderBySlug :: "provider list \<Rightarrow> string \<Rightarrow> provider option" where
  "findProviderBySlug rows slug = List.find (\<lambda>p. prSlug p = slug) rows"

definition requireProvider :: "provider list \<Rightarrow> id \<Rightarrow> provider result" where
  "requireProvider rows i = (case findProvider rows i of
     None \<Rightarrow> Inl (DomainError PROVIDER_NOT_FOUND 404) | Some p \<Rightarrow> Inr p)"

definition isPostbackSourceAllowed :: "provider \<Rightarrow> string option \<Rightarrow> bool" where
  "isPostbackSourceAllowed p sourceIp =
     (if length (prPostbackIpRanges p) = 0 then True
      else (case sourceIp of None \<Rightarrow> False | Some a \<Rightarrow> ipMatchesAnyRange a (prPostbackIpRanges p)))"

text \<open>\<open>rebuild\<close>: the registry is loaded from the rows in slug order.\<close>

definition registration_of :: "provider \<Rightarrow> registration" where
  "registration_of p = \<lparr>rgId = prId p, rgSlug = prSlug p, rgDisplayName = prDisplayName p,
     rgIsEnabled = prIsEnabled p\<rparr>"

fun string_le :: "string \<Rightarrow> string \<Rightarrow> bool" where
  "string_le [] _ = True"
| "string_le (a # as) [] = False"
| "string_le (a # as) (b # bs) = (code_unit a < code_unit b
     \<or> (code_unit a = code_unit b \<and> string_le as bs))"

fun insert_by :: "('a \<Rightarrow> 'a \<Rightarrow> bool) \<Rightarrow> 'a \<Rightarrow> 'a list \<Rightarrow> 'a list" where
  "insert_by le x [] = [x]"
| "insert_by le x (y # ys) = (if le x y then x # y # ys else y # insert_by le x ys)"

definition sort_by :: "('a \<Rightarrow> 'a \<Rightarrow> bool) \<Rightarrow> 'a list \<Rightarrow> 'a list" where
  "sort_by le xs = foldr (insert_by le) xs []"

definition by_slug :: "provider list \<Rightarrow> provider list" where
  "by_slug rows = sort_by (\<lambda>a b. string_le (prSlug a) (prSlug b)) rows"

definition rebuild :: "adapter_map \<Rightarrow> (string \<Rightarrow> string option) \<Rightarrow> provider list \<Rightarrow> registry" where
  "rebuild adapters env rows = load adapters env (map registration_of (by_slug rows))"

definition findAllProviders :: "provider list \<Rightarrow> bool option \<Rightarrow> health_state option \<Rightarrow> provider list" where
  "findAllProviders rows en h = by_slug (filter (\<lambda>p.
     (case en of None \<Rightarrow> True | Some b \<Rightarrow> prIsEnabled p = b)
     \<and> (case h of None \<Rightarrow> True | Some x \<Rightarrow> prHealthState p = x)) rows)"

section \<open>Writing providers\<close>

definition requireDisplayName :: "string \<Rightarrow> string result" where
  "requireDisplayName value = (let trimmed = js_trim value in
     if length trimmed = 0 \<or> length trimmed > 100 then Inl (ValidationError [''displayName''])
     else Inr trimmed)"

definition validateSyncInterval :: "rat option \<Rightarrow> int option result" where
  "validateSyncInterval value = (case value of
      None \<Rightarrow> Inr None
    | Some v \<Rightarrow> if of_int \<lfloor>v\<rfloor> \<noteq> v \<or> v < 5 \<or> v > 1440
                then Inl (ValidationError [''syncIntervalMinutes'']) else Inr (Some \<lfloor>v\<rfloor>))"

text \<open>A set in insertion order: the first occurrence of each range stays.\<close>

fun add_new :: "'a list \<Rightarrow> 'a list \<Rightarrow> 'a list" where
  "add_new seen [] = seen"
| "add_new seen (x # xs) = add_new (if x \<in> set seen then seen else seen @ [x]) xs"

definition normalizeIpRanges :: "string list option \<Rightarrow> string list result" where
  "normalizeIpRanges ranges = (case ranges of
      None \<Rightarrow> Inr []
    | Some rs \<Rightarrow>
        if length rs > 64 then Inl (ValidationError [''postbackIpRanges''])
        else if 0 < length (filter (\<lambda>r. \<not> isValidIpRange (js_trim r)) rs)
        then Inl (ValidationError [''postbackIpRanges''])
        else Inr (add_new [] (map js_trim (filter (\<lambda>r. isValidIpRange (js_trim r)) rs))))"

record create_provider_request =
  cqSlug :: string
  cqDisplayName :: string
  cqSyncIntervalMinutes :: "rat option"
  cqPostbackIpRanges :: "string list option"

definition createProvider :: "adapter_map \<Rightarrow> provider list \<Rightarrow> id \<Rightarrow> millis \<Rightarrow> create_provider_request
    \<Rightarrow> (provider \<times> provider list) result" where
  "createProvider adapters rows i now input =
     (let slug = js_lower (js_trim (cqSlug input)) in
      if \<not> isValidProviderSlug slug then Inl (ValidationError [''slug''])
      else if \<not> hasAdapterFor adapters slug then Inl (DomainError PROVIDER_UNKNOWN_SLUG 422)
      else (case normalizeIpRanges (cqPostbackIpRanges input) of
         Inl e \<Rightarrow> Inl e
       | Inr ranges \<Rightarrow>
           (case validateSyncInterval (cqSyncIntervalMinutes input) of
              Inl e \<Rightarrow> Inl e
            | Inr interval \<Rightarrow>
                (case requireDisplayName (cqDisplayName input) of
                   Inl e \<Rightarrow> Inl e
                 | Inr displayName \<Rightarrow>
                     if findProviderBySlug rows slug \<noteq> None
                     then Inl (DomainError PROVIDER_SLUG_TAKEN 409)
                     else if i \<in> set (map prId rows) then Inl UniqueViolation
                     else let row = \<lparr>prId = i, prSlug = slug, prDisplayName = displayName,
                            prIsEnabled = False, prPostbackIpRanges = ranges,
                            prSyncIntervalMinutes = (case interval of None \<Rightarrow> 60 | Some n \<Rightarrow> n),
                            prHealthState = HEALTHY, prConsecutiveFailureCount = 0,
                            prLastSuccessfulSyncAt = None, prLastFailureReason = None,
                            prCreatedAt = now\<rparr>
                          in Inr (row, rows @ [row])))))"

record update_provider_request =
  upDisplayName :: "string option"
  upSyncIntervalMinutes :: "rat option"
  upPostbackIpRanges :: "string list option"

definition updateProvider :: "provider list \<Rightarrow> id \<Rightarrow> update_provider_request
    \<Rightarrow> (provider \<times> provider list) result" where
  "updateProvider rows i changes =
     (case findProvider rows i of
        None \<Rightarrow> Inl (DomainError PROVIDER_NOT_FOUND 404)
      | Some current \<Rightarrow>
          (case (case upDisplayName changes of None \<Rightarrow> Inr None
                 | Some d \<Rightarrow> map_sum (\<lambda>e. e) Some (requireDisplayName d)) of
             Inl e \<Rightarrow> Inl e
           | Inr displayName \<Rightarrow>
               (case validateSyncInterval (upSyncIntervalMinutes changes) of
                  Inl e \<Rightarrow> Inl e
                | Inr interval \<Rightarrow>
                    (case (case upPostbackIpRanges changes of None \<Rightarrow> Inr None
                           | Some rs \<Rightarrow> map_sum (\<lambda>e. e) Some (normalizeIpRanges (Some rs))) of
                       Inl e \<Rightarrow> Inl e
                     | Inr ranges \<Rightarrow>
                         let f = (\<lambda>p. p\<lparr>
                               prDisplayName := (case displayName of None \<Rightarrow> prDisplayName p | Some d \<Rightarrow> d),
                               prSyncIntervalMinutes :=
                                 (case interval of None \<Rightarrow> prSyncIntervalMinutes p | Some n \<Rightarrow> n),
                               prPostbackIpRanges :=
                                 (case ranges of None \<Rightarrow> prPostbackIpRanges p | Some rs \<Rightarrow> rs)\<rparr>)
                         in if displayName = None \<and> interval = None \<and> ranges = None
                            then Inr (current, rows)
                            else Inr (f current, update_where (\<lambda>p. prId p = i) f rows)))))"

definition setProviderEnabled :: "registry \<Rightarrow> provider list \<Rightarrow> id \<Rightarrow> bool
    \<Rightarrow> (provider \<times> provider list) result" where
  "setProviderEnabled r rows i en =
     (case findProvider rows i of
        None \<Rightarrow> Inl (DomainError PROVIDER_NOT_FOUND 404)
      | Some p \<Rightarrow>
          if prIsEnabled p = en then Inl (DomainError PROVIDER_INVALID_CONFIGURATION 409)
          else if en \<and> List.find (\<lambda>f. rgSlug (fst f) = prSlug p) (failures r) \<noteq> None
          then Inl (DomainError PROVIDER_UNKNOWN_SLUG 409)
          else let f = (\<lambda>q. q\<lparr>prIsEnabled := en\<rparr>)
               in Inr (f p, update_where (\<lambda>q. prId q = i) f rows))"

record provider_summary =
  psId :: id
  psSlug :: string
  psDisplayName :: string
  psIsEnabled :: bool
  psHealthState :: health_state
  psConsecutiveFailureCount :: int
  psLastSuccessfulSyncAt :: "millis option"
  psSyncIntervalMinutes :: int
  psPostbackIpRanges :: "string list"
  psCreatedAt :: millis
  psAdapterRegistered :: bool
  psRegistrationError :: "registration_error option"
  psCapabilities :: "capability list"
  psPostbackSigningScheme :: "signing_scheme option"

definition toProviderSummary :: "registry \<Rightarrow> provider \<Rightarrow> provider_summary" where
  "toProviderSummary r p =
     (let reg = find_registered r (prSlug p);
          failure = List.find (\<lambda>f. rgSlug (fst f) = prSlug p) (failures r)
      in \<lparr>psId = prId p, psSlug = prSlug p, psDisplayName = prDisplayName p,
          psIsEnabled = prIsEnabled p, psHealthState = prHealthState p,
          psConsecutiveFailureCount = prConsecutiveFailureCount p,
          psLastSuccessfulSyncAt = prLastSuccessfulSyncAt p,
          psSyncIntervalMinutes = prSyncIntervalMinutes p,
          psPostbackIpRanges = prPostbackIpRanges p, psCreatedAt = prCreatedAt p,
          psAdapterRegistered = (reg \<noteq> None), psRegistrationError = map_option snd failure,
          psCapabilities = (case reg of None \<Rightarrow> [] | Some q \<Rightarrow> amCapabilities (adMetadata (snd q))),
          psPostbackSigningScheme =
            map_option (\<lambda>q. amPostbackSigningScheme (adMetadata (snd q))) reg\<rparr>)"

section \<open>Health\<close>

definition deriveHealthState :: "int \<Rightarrow> int \<Rightarrow> int \<Rightarrow> health_state" where
  "deriveHealthState consecutiveFailures degradedAfter downAfter =
     (if consecutiveFailures \<ge> downAfter then DOWN
      else if consecutiveFailures \<ge> degradedAfter then DEGRADED else HEALTHY)"

text \<open>The configured pair, read as one step apart when it is inverted.\<close>

definition thresholds :: "int \<times> int \<Rightarrow> int \<times> int" where
  "thresholds configured = (case configured of (degradedAfter, downAfter) \<Rightarrow>
     if downAfter \<le> degradedAfter then (degradedAfter, degradedAfter + 1)
     else (degradedAfter, downAfter))"

definition recordSuccess :: "provider list \<Rightarrow> millis \<Rightarrow> id \<Rightarrow> provider list result" where
  "recordSuccess rows now i =
     (if i \<notin> set (map prId rows) then Inl RecordMissing
      else Inr (update_where (\<lambda>p. prId p = i)
        (\<lambda>p. p\<lparr>prHealthState := HEALTHY, prConsecutiveFailureCount := 0,
              prLastFailureReason := None, prLastSuccessfulSyncAt := Some now\<rparr>) rows))"

definition failed_row :: "int \<times> int \<Rightarrow> string \<Rightarrow> provider \<Rightarrow> provider" where
  "failed_row configured reason p =
     (let incremented = p\<lparr>prConsecutiveFailureCount := prConsecutiveFailureCount p + 1,
                          prLastFailureReason := Some (take 500 reason)\<rparr>;
          state = (case thresholds configured of (degradedAfter, downAfter) \<Rightarrow>
            deriveHealthState (prConsecutiveFailureCount incremented) degradedAfter downAfter)
      in if state = prHealthState incremented then incremented
         else incremented\<lparr>prHealthState := state\<rparr>)"

definition recordFailure :: "int \<times> int \<Rightarrow> provider list \<Rightarrow> id \<Rightarrow> string \<Rightarrow> provider list result" where
  "recordFailure configured rows i reason =
     (if i \<notin> set (map prId rows) then Inl RecordMissing
      else Inr (update_where (\<lambda>p. prId p = i) (failed_row configured reason) rows))"

definition resetHealth :: "provider list \<Rightarrow> id \<Rightarrow> provider list result" where
  "resetHealth rows i =
     (if i \<notin> set (map prId rows) then Inl RecordMissing
      else Inr (update_where (\<lambda>p. prId p = i)
        (\<lambda>p. p\<lparr>prHealthState := HEALTHY, prConsecutiveFailureCount := 0,
              prLastFailureReason := None\<rparr>) rows))"

section \<open>The registry holds what loading the table produced\<close>

lemma map_of_map_set: "map_of (map_set k v kvs) = (map_of kvs)(k \<mapsto> v)"
  by (induction k v kvs rule: map_set.induct) (auto simp: fun_eq_iff)

definition loaded_row :: "adapter_map \<Rightarrow> (string \<Rightarrow> string option) \<Rightarrow> registration list \<Rightarrow> registry \<Rightarrow> bool" where
  "loaded_row adapters env rows r \<longleftrightarrow>
     (\<forall>row\<in>set rows. case buildAdapter adapters env row of
         Inl e \<Rightarrow> map_of (failed r) (rgSlug row) = Some (row, e) \<and> map_of (registered r) (rgSlug row) = None
       | Inr a \<Rightarrow> map_of (registered r) (rgSlug row) = Some (row, a) \<and> map_of (failed r) (rgSlug row) = None)
     \<and> (\<forall>slug. slug \<notin> rgSlug ` set rows \<longrightarrow> map_of (registered r) slug = None \<and> map_of (failed r) slug = None)"

lemma load_step_loaded:
  assumes "loaded_row adapters env rows r" and "rgSlug row \<notin> rgSlug ` set rows"
  shows "loaded_row adapters env (rows @ [row]) (load_step adapters env r row)"
  using assms unfolding loaded_row_def load_step_def
  by (cases "buildAdapter adapters env row") (auto simp: map_of_map_set image_iff split: sum.splits)

lemma load_fold_loaded:
  "distinct (map rgSlug rows) \<Longrightarrow> loaded_row adapters env rows (foldl (load_step adapters env) empty_registry rows)"
proof (induction rows rule: rev_induct)
  case (snoc row rows)
  then show ?case by (auto intro: load_step_loaded)
qed (simp add: loaded_row_def empty_registry_def)

lemma loaded_row_same:
  "loaded_row adapters env rows r \<Longrightarrow> registered r' = registered r \<Longrightarrow> failed r' = failed r
    \<Longrightarrow> loaded_row adapters env rows r'"
  by (simp only: loaded_row_def)

lemma load_loaded: "distinct (map rgSlug rows) \<Longrightarrow> loaded_row adapters env rows (load adapters env rows)"
  by (rule loaded_row_same [OF load_fold_loaded]) (simp_all add: load_def)

lemma loaded_row_at:
  "loaded_row adapters env rows r \<Longrightarrow> row \<in> set rows \<Longrightarrow> case buildAdapter adapters env row of
      Inl e \<Rightarrow> map_of (failed r) (rgSlug row) = Some (row, e) \<and> map_of (registered r) (rgSlug row) = None
    | Inr a \<Rightarrow> map_of (registered r) (rgSlug row) = Some (row, a) \<and> map_of (failed r) (rgSlug row) = None"
  by (simp only: loaded_row_def)

lemma buildAdapter_implements:
  "buildAdapter adapters env row = Inr a \<Longrightarrow> c \<in> set MANDATORY_CAPABILITIES \<Longrightarrow> implements a c"
  by (auto simp: buildAdapter_def validateAdapterImplementation_def Let_def filter_empty_conv
      split: option.splits if_splits sum.splits prod.splits)

text \<open>Loading the table decides what every slug is afterwards: a row whose adapter builds and
  is enabled is usable, and its adapter implements all four mandatory capabilities; a disabled
  one and one whose adapter does not build are refused, each with its own error; a slug without a
  row is unknown.\<close>

theorem registry_reflects_table:
  assumes "distinct (map rgSlug rows)"
  shows "require_registered (load adapters env rows) slug =
      (case List.find (\<lambda>row. rgSlug row = slug) rows of
         None \<Rightarrow> Inl (DomainError PROVIDER_NOT_FOUND 404)
       | Some row \<Rightarrow> (case buildAdapter adapters env row of
            Inl e \<Rightarrow> Inl (DomainError PROVIDER_UNKNOWN_SLUG 409)
          | Inr a \<Rightarrow> if rgIsEnabled row then Inr (row, a) else Inl (DomainError PROVIDER_DISABLED 409)))
    \<and> (\<forall>row a. require_registered (load adapters env rows) slug = Inr (row, a)
         \<longrightarrow> list_all (implements a) MANDATORY_CAPABILITIES)"
proof -
  have l: "loaded_row adapters env rows (load adapters env rows)" by (rule load_loaded [OF assms])
  have eq: "require_registered (load adapters env rows) slug =
      (case List.find (\<lambda>row. rgSlug row = slug) rows of
         None \<Rightarrow> Inl (DomainError PROVIDER_NOT_FOUND 404)
       | Some row \<Rightarrow> (case buildAdapter adapters env row of
            Inl e \<Rightarrow> Inl (DomainError PROVIDER_UNKNOWN_SLUG 409)
          | Inr a \<Rightarrow> if rgIsEnabled row then Inr (row, a) else Inl (DomainError PROVIDER_DISABLED 409)))"
  proof (cases "List.find (\<lambda>row. rgSlug row = slug) rows")
    case None
    then have "slug \<notin> rgSlug ` set rows" by (auto dest: find_NoneD)
    then show ?thesis using l None by (simp add: loaded_row_def require_registered_def)
  next
    case (Some row)
    then have row: "row \<in> set rows" "rgSlug row = slug" by (auto dest: find_SomeD)
    show ?thesis
      using loaded_row_at [OF l row(1)] Some row(2)
      by (cases "buildAdapter adapters env row") (simp_all add: require_registered_def)
  qed
  then show ?thesis
    using buildAdapter_implements [of adapters env]
    by (auto simp: list_all_iff split: option.splits sum.splits if_splits)
qed

section \<open>New providers and health\<close>

lemma add_new_set: "set (add_new seen xs) = set seen \<union> set xs"
  by (induction seen xs rule: add_new.induct) auto

lemma add_new_distinct: "distinct seen \<Longrightarrow> distinct (add_new seen xs)"
  by (induction seen xs rule: add_new.induct) auto

text \<open>A provider that is created is inert and well formed: disabled, under a valid slug that
  an adapter backs and no other provider has, with a sync interval between five minutes and a day
  and with distinct, valid postback ranges.\<close>

theorem created_provider_well_formed:
  assumes "createProvider adapters rows i now input = Inr (p, rows')"
    and "distinct (map prSlug rows)"
  shows "rows' = rows @ [p] \<and> \<not> prIsEnabled p \<and> distinct (map prSlug rows')
    \<and> isValidProviderSlug (prSlug p) \<and> hasAdapterFor adapters (prSlug p)
    \<and> 5 \<le> prSyncIntervalMinutes p \<and> prSyncIntervalMinutes p \<le> 1440
    \<and> list_all isValidIpRange (prPostbackIpRanges p) \<and> distinct (prPostbackIpRanges p)
    \<and> prDisplayName p \<noteq> [] \<and> length (prDisplayName p) \<le> 100"
proof -
  define slug where "slug = js_lower (js_trim (cqSlug input))"
  obtain ranges interval displayName where
    s: "isValidProviderSlug slug" "hasAdapterFor adapters slug" and
    r: "normalizeIpRanges (cqPostbackIpRanges input) = Inr ranges" and
    v: "validateSyncInterval (cqSyncIntervalMinutes input) = Inr interval" and
    d: "requireDisplayName (cqDisplayName input) = Inr displayName" and
    f: "findProviderBySlug rows slug = None" and
    p: "rows' = rows @ [p]" "prSlug p = slug" "\<not> prIsEnabled p" "prDisplayName p = displayName"
       "prPostbackIpRanges p = ranges"
       "prSyncIntervalMinutes p = (case interval of None \<Rightarrow> 60 | Some n \<Rightarrow> n)"
    using assms(1) unfolding createProvider_def slug_def Let_def
    by (auto split: if_splits sum.splits)
  have "5 \<le> prSyncIntervalMinutes p \<and> prSyncIntervalMinutes p \<le> 1440"
    using v by (auto simp: p(6) validateSyncInterval_def le_floor_iff floor_le_iff
        split: option.splits if_splits)
  moreover have "list_all isValidIpRange ranges \<and> distinct ranges"
    using r by (auto simp: normalizeIpRanges_def list_all_iff add_new_set add_new_distinct
        split: option.splits if_splits)
  moreover have "displayName \<noteq> [] \<and> length displayName \<le> 100"
    using d by (auto simp: requireDisplayName_def Let_def split: if_splits)
  moreover have "slug \<notin> set (map prSlug rows)"
    using f by (auto simp: findProviderBySlug_def dest: find_NoneD)
  ultimately show ?thesis using s p assms(2) by auto
qed

lemma failed_row_simps:
  "prConsecutiveFailureCount (failed_row configured reason p) = prConsecutiveFailureCount p + 1"
  "prHealthState (failed_row configured reason p) = (case thresholds configured of (degradedAfter, downAfter) \<Rightarrow>
     deriveHealthState (prConsecutiveFailureCount p + 1) degradedAfter downAfter)"
  by (auto simp: failed_row_def Let_def)

text \<open>C00. Health counts consecutive failures: after a success and \<open>n\<close> failures in a row the
  counter is \<open>n\<close> and the state is \<open>HEALTHY\<close> below the first threshold,
  \<open>DOWN\<close> from the second one on and \<open>DEGRADED\<close> between them; inverted thresholds
  never skip \<open>DEGRADED\<close>.\<close>

theorem health_counts_failures:
  assumes "prHealthState p = HEALTHY" and "prConsecutiveFailureCount p = 0" and "1 \<le> fst configured"
  shows "(let q = foldl (\<lambda>q reason. failed_row configured reason q) p reasons;
              n = int (length reasons); d = fst configured; w = max (snd configured) (d + 1) in
     prConsecutiveFailureCount q = n
     \<and> prHealthState q = (if n < d then HEALTHY else if n < w then DEGRADED else DOWN))"
  using assms
proof (induction reasons rule: rev_induct)
  case (snoc reason reasons)
  then show ?case
    by (cases configured) (simp add: Let_def failed_row_simps thresholds_def deriveHealthState_def)
qed (simp add: Let_def)

section \<open>Concrete providers\<close>

definition demo_metadata :: adapter_metadata where
  "demo_metadata = \<lparr>amSlug = ''mock'', amDisplayName = ''Mock'', amPostbackSigningScheme = HMAC_SHA256,
     amPublishedIpRanges = [], amCapabilities = MANDATORY_CAPABILITIES, amRequiredCredentials = []\<rparr>"

definition demo_adapter :: adapter where
  "demo_adapter = \<lparr>adMetadata = demo_metadata, fetchOffers = Some (\<lambda>_. Inr []),
     buildClickUrl = Some (\<lambda>c. Inr (cuSubId c)), verifyPostback = Some (\<lambda>_. Valid),
     parsePostback = Some (\<lambda>_. Inl ProviderResponseInvalidError)\<rparr>"

definition demo_adapters :: adapter_map where
  "demo_adapters = [(''mock'', \<lparr>dfMetadata = demo_metadata, dfCreate = (\<lambda>_ _. Inr demo_adapter)\<rparr>)]"

definition demo_registration :: registration where
  "demo_registration = \<lparr>rgId = 1, rgSlug = ''mock'', rgDisplayName = ''Mock'', rgIsEnabled = True\<rparr>"

lemma demo_metadata_valid: "validateAdapterMetadata ''mock'' demo_metadata = []"
  by code_simp

lemma demo_builds: "buildAdapter demo_adapters env demo_registration = Inr demo_adapter"
proof -
  have "validateAdapterImplementation demo_adapter = []" by code_simp
  then show ?thesis
    using demo_metadata_valid
    by (simp add: buildAdapter_def demo_adapters_def demo_registration_def resolveCredentials_def)
      (simp add: demo_metadata_def)
qed

lemma registry_reflects_table_witness:
  "require_registered (load demo_adapters (\<lambda>_. None) [demo_registration]) ''mock'' = Inr (demo_registration, demo_adapter)"
proof -
  have "distinct (map rgSlug [demo_registration])" by simp
  from registry_reflects_table [OF this, of demo_adapters "\<lambda>_. None" "''mock''"] show ?thesis
    by (simp add: demo_builds) (simp add: demo_registration_def)
qed

lemma created_provider_well_formed_witness:
  "\<exists>p rows'. createProvider demo_adapters [] 1 0 \<lparr>cqSlug = ''Mock '', cqDisplayName = ''Mock'',
      cqSyncIntervalMinutes = Some 30, cqPostbackIpRanges = None\<rparr> = Inr (p, rows')
    \<and> \<not> prIsEnabled p"
proof -
  have e: "js_lower (js_trim ''Mock '') = ''mock''" "isValidProviderSlug ''mock''"
    "requireDisplayName ''Mock'' = Inr ''Mock''"
    by code_simp+
  obtain p rows' where c: "createProvider demo_adapters [] 1 0 \<lparr>cqSlug = ''Mock '',
      cqDisplayName = ''Mock'', cqSyncIntervalMinutes = Some 30, cqPostbackIpRanges = None\<rparr> = Inr (p, rows')"
    by (simp add: createProvider_def e hasAdapterFor_def demo_adapters_def normalizeIpRanges_def
        validateSyncInterval_def findProviderBySlug_def Let_def)
  show ?thesis using created_provider_well_formed [OF c] c by auto
qed

lemma health_counts_failures_witness:
  "prHealthState (foldl (\<lambda>q reason. failed_row (3, 10) reason q)
     \<lparr>prId = 1, prSlug = [], prDisplayName = [], prIsEnabled = True, prPostbackIpRanges = [],
      prSyncIntervalMinutes = 60, prHealthState = HEALTHY, prConsecutiveFailureCount = 0,
      prLastSuccessfulSyncAt = None, prLastFailureReason = None, prCreatedAt = 0\<rparr>
     [''a'', ''b'', ''c'']) = DEGRADED"
  using health_counts_failures [of "\<lparr>prId = 1, prSlug = [], prDisplayName = [], prIsEnabled = True,
      prPostbackIpRanges = [], prSyncIntervalMinutes = 60, prHealthState = HEALTHY,
      prConsecutiveFailureCount = 0, prLastSuccessfulSyncAt = None, prLastFailureReason = None,
      prCreatedAt = 0\<rparr>" "(3, 10)" "[''a'', ''b'', ''c'']"]
  by (simp only: Let_def) simp

end
