(* ===== verification/MockAdapter.thy ===== *)
theory MockAdapter
  imports Providers Numbers UriText
begin

text \<open>
  The adapter the build ships, \<^verbatim>\<open>providers/adapters/mock/mock.adapter.ts\<close>: normalising the
  network's campaigns, building click URLs, and verifying and parsing its signed postbacks. The
  keyed hash (\<open>createHmac\<close>), the campaign fixture and the date parser of the runtime are
  arguments.
\<close>

section \<open>Strings\<close>

fun has_substring :: "string \<Rightarrow> string \<Rightarrow> bool" where
  "has_substring pat [] \<longleftrightarrow> pat = []"
| "has_substring pat (c # s) \<longleftrightarrow> starts_with (c # s) pat \<or> has_substring pat s"

text \<open>\<open>replaceAll\<close> with a non-empty pattern, left to right without overlaps.\<close>

function replaceAll :: "string \<Rightarrow> string \<Rightarrow> string \<Rightarrow> string" where
  "replaceAll pat rep [] = []"
| "replaceAll pat rep (c # s) =
     (if pat \<noteq> [] \<and> starts_with (c # s) pat then rep @ replaceAll pat rep (drop (length pat) (c # s))
      else c # replaceAll pat rep s)"
  by pat_completeness auto
termination
  by (relation "measure (\<lambda>(_, _, s). length s)") (auto simp: neq_Nil_conv)

definition join_amp :: "string list \<Rightarrow> string" where
  "join_amp parts = (case parts of [] \<Rightarrow> []
     | p # ps \<Rightarrow> foldl (\<lambda>acc q. acc @ ''&'' @ q) p ps)"

section \<open>Amounts, statuses and parameters\<close>

definition SUPPORTED_CURRENCIES :: "string list" where
  "SUPPORTED_CURRENCIES = [''USD'', ''EUR'']"

text \<open>\<open>/^-?\d+(\.\d{1,2})?$/\<close>, then whole and fraction read as numbers.\<close>

definition to_number :: "string \<Rightarrow> rat" where
  "to_number digits = double_of (of_nat (number_of 10 digits))"

definition toMinorUnits :: "string option \<Rightarrow> string \<Rightarrow> rat option" where
  "toMinorUnits amount currency =
     (case amount of
        None \<Rightarrow> None
      | Some a \<Rightarrow>
          let negative = starts_with a ''-'';
              unsigned = (if negative then tl a else a);
              parts = split_on CHR ''.'' unsigned
          in if a = [] \<or> currency \<notin> set SUPPORTED_CURRENCIES then None
             else if \<not> (length parts \<le> 2 \<and> parts ! 0 \<noteq> [] \<and> list_all is_digit (parts ! 0)
                 \<and> (length parts = 1 \<or> (1 \<le> length (parts ! 1) \<and> length (parts ! 1) \<le> 2
                       \<and> list_all is_digit (parts ! 1)))) then None
             else let fraction = (if length parts = 1 then [] else parts ! 1);
                      minor = double_of (double_of (to_number (parts ! 0) * 100)
                        + to_number (fraction @ replicate (2 - length fraction) CHR ''0''))
                  in Some (if negative then - minor else minor))"

definition toStatus :: "string option \<Rightarrow> conversion_signal" where
  "toStatus raw = (if raw = Some ''1'' then Confirmed
     else if raw = Some ''2'' then RejectedSignal else PendingSignal)"

definition single :: "query_value option \<Rightarrow> string option" where
  "single v = (case v of Some (Single s) \<Rightarrow> Some s | _ \<Rightarrow> None)"

definition param :: "(string \<times> query_value) list \<Rightarrow> string \<Rightarrow> string option" where
  "param query key = single (map_of query key)"

text \<open>An absent or empty parameter is falsy.\<close>

definition truthy :: "string option \<Rightarrow> string option" where
  "truthy v = (case v of Some (c # cs) \<Rightarrow> Some (c # cs) | _ \<Rightarrow> None)"

definition canonicalize :: "(string \<times> query_value) list \<Rightarrow> string" where
  "canonicalize query = join_amp (map
     (\<lambda>key. key @ ''='' @ (case param query key of None \<Rightarrow> [] | Some v \<Rightarrow> v))
     (sort_by string_le (filter (\<lambda>key. key \<noteq> ''sig'') (map fst query))))"

section \<open>Campaigns\<close>

record raw_campaign =
  rcCampaignId :: "string option"
  rcName :: "string option"
  rcShortDesc :: "string option"
  rcInstructions :: "string option"
  rcPayout :: "string option"
  rcPayoutCurrency :: "string option"
  rcCategories :: "string list option"
  rcGeo :: "string list option"
  rcPlatforms :: "string list option"
  rcThumbnail :: "string option"
  rcTrackingUrl :: "string option"
  rcMultiStep :: "bool option"

definition isDeviceType :: "string \<Rightarrow> bool" where
  "isDeviceType value \<longleftrightarrow> value \<in> {''desktop'', ''mobile'', ''tablet''}"

fun device_name :: "device_type \<Rightarrow> string" where
  "device_name Desktop = ''desktop''"
| "device_name Mobile = ''mobile''"
| "device_name Tablet = ''tablet''"

definition or_empty :: "'a list option \<Rightarrow> 'a list" where
  "or_empty v = (case v of None \<Rightarrow> [] | Some xs \<Rightarrow> xs)"

definition normalizeCampaign :: "raw_campaign \<Rightarrow> normalized_offer option" where
  "normalizeCampaign campaign =
     (case (truthy (map_option js_trim (rcCampaignId campaign)),
            truthy (map_option js_trim (rcName campaign)),
            truthy (map_option js_to_upper (rcPayoutCurrency campaign))) of
        (Some externalId, Some title, Some currency) \<Rightarrow>
          (case toMinorUnits (rcPayout campaign) currency of
             None \<Rightarrow> None
           | Some payout \<Rightarrow>
               if payout \<le> 0 then None
               else (case rcTrackingUrl campaign of
                   None \<Rightarrow> None
                 | Some url \<Rightarrow>
                     if \<not> has_substring ''{sub_id}'' url then None
                     else let devices = filter isDeviceType (or_empty (rcPlatforms campaign)) in
                       if length devices = 0 then None
                       else Some \<lparr>noExternalId = Some externalId, noTitle = Some title,
                         noDescription = truthy (map_option js_trim (rcShortDesc campaign)),
                         noRequirements = truthy (map_option js_trim (rcInstructions campaign)),
                         noPayoutAmountMinor = payout, noPayoutCurrency = Some currency,
                         noProviderCategories = or_empty (rcCategories campaign),
                         noCountries = map js_to_upper (or_empty (rcGeo campaign)),
                         noDevices = devices, noImageUrl = rcThumbnail campaign,
                         noTrackingUrlTemplate = Some url,
                         noIsMultiStep = (rcMultiStep campaign = Some True)\<rparr>))
      | _ \<Rightarrow> None)"

definition matchesTargeting :: "normalized_offer \<Rightarrow> offer_query_context \<Rightarrow> bool" where
  "matchesTargeting offer ctx \<longleftrightarrow>
     (case truthy (ctxCountry ctx) of None \<Rightarrow> True
      | Some country \<Rightarrow> length (noCountries offer) = 0 \<or> js_to_upper country \<in> set (noCountries offer))
     \<and> (case ctxDevice ctx of None \<Rightarrow> True | Some d \<Rightarrow> device_name d \<in> set (noDevices offer))"

fun fetch_loop :: "offer_query_context \<Rightarrow> raw_campaign list \<Rightarrow> normalized_offer list" where
  "fetch_loop ctx [] = []"
| "fetch_loop ctx (campaign # rest) =
     (case normalizeCampaign campaign of
        None \<Rightarrow> fetch_loop ctx rest
      | Some offer \<Rightarrow> if \<not> matchesTargeting offer ctx then fetch_loop ctx rest
                     else offer # fetch_loop ctx rest)"

section \<open>The adapter\<close>

definition MOCK_METADATA :: adapter_metadata where
  "MOCK_METADATA = \<lparr>amSlug = ''mock'', amDisplayName = ''Mock Offerwall'',
     amPostbackSigningScheme = HMAC_SHA256, amPublishedIpRanges = [''203.0.113.0/24''],
     amCapabilities = [FETCH_OFFERS, BUILD_CLICK_URL, VERIFY_POSTBACK, PARSE_POSTBACK, REVERSALS,
        OFFER_TARGETING],
     amRequiredCredentials = [''secret'', ''affiliate_id'']\<rparr>"

definition mock_buildClickUrl :: "string \<Rightarrow> click_url_context \<Rightarrow> string result" where
  "mock_buildClickUrl affiliateId c =
     (let url = replaceAll ''{sub_id}'' (encodeURIComponent (cuSubId c))
            (replaceAll ''{affiliate_id}'' (encodeURIComponent affiliateId)
              (replaceAll ''{campaign_id}'' (encodeURIComponent (cuExternalOfferId c))
                (cuTrackingUrlTemplate c)))
      in if CHR ''{'' \<in> set url then Inl ProviderResponseInvalidError else Inr url)"

definition mock_verifyPostback :: "(string \<Rightarrow> string \<Rightarrow> string) \<Rightarrow> string \<Rightarrow> raw_postback_request
    \<Rightarrow> postback_verification" where
  "mock_verifyPostback hmacHex secret request =
     (if length secret = 0 then Invalid ''signing secret is not configured''
      else (case truthy (param (rqQuery request) ''sig'') of
         None \<Rightarrow> Invalid ''missing sig parameter''
       | Some provided \<Rightarrow>
           let expected = hmacHex secret (canonicalize (rqQuery request)) in
           if length provided \<noteq> length expected then Invalid ''signature mismatch''
           else if provided \<noteq> expected then Invalid ''signature mismatch''
           else Valid))"

definition mock_parsePostback :: "(string \<Rightarrow> millis option) \<Rightarrow> raw_postback_request
    \<Rightarrow> normalized_conversion result" where
  "mock_parsePostback parseDate request =
     (let query = rqQuery request in
      case (truthy (param query ''sub_id''), truthy (param query ''transaction_id'')) of
        (Some subId, Some externalTransactionId) \<Rightarrow>
          let currency = js_to_upper (case param query ''currency'' of None \<Rightarrow> [] | Some c \<Rightarrow> c) in
          (case toMinorUnits (param query ''payout'') currency of
             None \<Rightarrow> Inl ProviderResponseInvalidError
           | Some payout \<Rightarrow> Inr \<lparr>ncSubId = subId, ncExternalTransactionId = externalTransactionId,
               ncPayoutAmountMinor = payout, ncPayoutCurrency = currency,
               ncStatus = toStatus (param query ''status''),
               ncIsReversal = (param query ''reversed'' = Some ''1''),
               ncExternalOfferId = param query ''campaign_id'',
               ncOccurredAt = Option.bind (truthy (param query ''event_time'')) parseDate\<rparr>)
      | _ \<Rightarrow> Inl ProviderResponseInvalidError)"

text \<open>The constructor reads the two credentials, absent ones as empty.\<close>

definition MockProviderAdapter :: "(string \<Rightarrow> string \<Rightarrow> string) \<Rightarrow> (string \<Rightarrow> millis option)
    \<Rightarrow> raw_campaign list \<Rightarrow> credentials \<Rightarrow> adapter" where
  "MockProviderAdapter hmacHex parseDate campaigns found =
     (let secret = or_empty (map_of found ''secret'');
          affiliateId = or_empty (map_of found ''affiliate_id'')
      in \<lparr>adMetadata = MOCK_METADATA,
          fetchOffers = Some (\<lambda>ctx. Inr (fetch_loop ctx campaigns)),
          buildClickUrl = Some (mock_buildClickUrl affiliateId),
          verifyPostback = Some (mock_verifyPostback hmacHex secret),
          parsePostback = Some (mock_parsePostback parseDate)\<rparr>)"

definition mockProviderDefinition :: "(string \<Rightarrow> string \<Rightarrow> string) \<Rightarrow> (string \<Rightarrow> millis option)
    \<Rightarrow> raw_campaign list \<Rightarrow> adapter_definition" where
  "mockProviderDefinition hmacHex parseDate campaigns = \<lparr>dfMetadata = MOCK_METADATA,
     dfCreate = (\<lambda>slug found. Inr (MockProviderAdapter hmacHex parseDate campaigns found))\<rparr>"

definition PROVIDER_ADAPTERS :: "(string \<Rightarrow> string \<Rightarrow> string) \<Rightarrow> (string \<Rightarrow> millis option)
    \<Rightarrow> raw_campaign list \<Rightarrow> adapter_map" where
  "PROVIDER_ADAPTERS hmacHex parseDate campaigns =
     [(''mock'', mockProviderDefinition hmacHex parseDate campaigns)]"

section \<open>Properties\<close>

lemma mock_metadata_valid: "validateAdapterMetadata ''mock'' MOCK_METADATA = []"
  by code_simp

lemma mock_implements: "validateAdapterImplementation (MockProviderAdapter h d cs found) = []"
  by (simp add: validateAdapterImplementation_def MANDATORY_CAPABILITIES_def implements_def
      MockProviderAdapter_def Let_def)

lemma mock_credentials:
  "amRequiredCredentials MOCK_METADATA = [''secret'', ''affiliate_id'']"
  by (simp add: MOCK_METADATA_def)

text \<open>The shipped adapter registers exactly when its two credentials are in the environment and
  not blank, and then verifies with the secret it was given.\<close>

theorem mock_adapter_registers:
  assumes "rgSlug row = ''mock''"
  shows "(\<exists>a. buildAdapter (PROVIDER_ADAPTERS hmacHex parseDate campaigns) env row = Inr a)
    \<longleftrightarrow> (\<exists>s. env ''PROVIDER_MOCK_SECRET'' = Some s \<and> js_trim s \<noteq> [])
      \<and> (\<exists>i. env ''PROVIDER_MOCK_AFFILIATE_ID'' = Some i \<and> js_trim i \<noteq> [])"
proof -
  have v: "variableName ''mock'' ''secret'' = ''PROVIDER_MOCK_SECRET''"
    "variableName ''mock'' ''affiliate_id'' = ''PROVIDER_MOCK_AFFILIATE_ID''"
    by code_simp+
  show ?thesis
    using mock_implements
    by (auto simp: buildAdapter_def PROVIDER_ADAPTERS_def mockProviderDefinition_def assms
        mock_metadata_valid mock_credentials resolveCredentials_def v Let_def
        split: option.splits if_splits)
qed

lemma mock_adapter_registers_witness:
  "\<exists>a. buildAdapter (PROVIDER_ADAPTERS (\<lambda>_ m. m) (\<lambda>_. None) []) (\<lambda>_. Some ''x'')
     \<lparr>rgId = 1, rgSlug = ''mock'', rgDisplayName = [], rgIsEnabled = True\<rparr> = Inr a"
proof -
  have "js_trim ''x'' \<noteq> []" by code_simp
  then show ?thesis
    using mock_adapter_registers [of "\<lparr>rgId = 1, rgSlug = ''mock'', rgDisplayName = [], rgIsEnabled = True\<rparr>"
        "\<lambda>_ m. m" "\<lambda>_. None" "[]" "\<lambda>_. Some ''x''"] by simp
qed

lemma canonicalize_sig:
  assumes "''sig'' \<notin> set (map fst q)"
  shows "canonicalize (q @ [(''sig'', v)]) = canonicalize q"
proof -
  have "filter (\<lambda>key. key \<noteq> ''sig'') (map fst q) = map fst q"
    by (rule filter_True) (use assms in blast)
  moreover have "param (q @ [(''sig'', v)]) key = param q key" if "key \<noteq> ''sig''" for key
    using that by (simp add: param_def map_of_append map_add_def split: option.splits)
  moreover have "set (sort_by string_le ks) = set ks" for ks
  proof -
    have "set (insert_by string_le x ys) = insert x (set ys)" for x ys
      by (induction ys) auto
    then show ?thesis by (induction ks) (simp_all add: sort_by_def)
  qed
  ultimately show ?thesis
    using assms unfolding canonicalize_def
    by (intro arg_cong [where f = join_amp] map_cong) (auto simp: image_iff)
qed

definition demo_query :: "(string \<times> query_value) list" where
  "demo_query = [(''sub_id'', Single ''s''), (''payout'', Single ''1''),
     (''currency'', Single ''USD''), (''transaction_id'', Single ''t''), (''zone'', Single ''1'')]"

definition demo_forged_query :: "(string \<times> query_value) list" where
  "demo_forged_query = [(''sub_id'', Single ''s''), (''payout'', Single ''1''),
     (''currency'', Single ''USD''), (''transaction_id'', Single ''t&zone=1'')]"

definition demo_request :: "string \<Rightarrow> (string \<times> query_value) list \<Rightarrow> raw_postback_request" where
  "demo_request signature q = \<lparr>rqQuery = q @ [(''sig'', Single signature)], rqBody = JNull,
     rqHeaders = [], rqSourceIp = [], rqRawBody = None\<rparr>"

lemma demo_same_canonical: "canonicalize demo_forged_query = canonicalize demo_query"
  by code_simp

lemma demo_parsed:
  "map_sum (\<lambda>e. e) ncExternalTransactionId (mock_parsePostback parseDate (demo_request g demo_query)) = Inr ''t''"
  "map_sum (\<lambda>e. e) ncExternalTransactionId (mock_parsePostback parseDate (demo_request g demo_forged_query))
     = Inr ''t&zone=1''"
proof -
  have u: "js_to_upper ''USD'' = ''USD''" "toMinorUnits (Some ''1'') ''USD'' = Some 100"
    by code_simp+
  show "map_sum (\<lambda>e. e) ncExternalTransactionId (mock_parsePostback parseDate (demo_request g demo_query)) = Inr ''t''"
    and "map_sum (\<lambda>e. e) ncExternalTransactionId (mock_parsePostback parseDate (demo_request g demo_forged_query))
     = Inr ''t&zone=1''"
    by (simp_all add: mock_parsePostback_def demo_request_def demo_query_def demo_forged_query_def
        param_def single_def truthy_def u Let_def)
qed

lemma mock_verify_sig:
  assumes "secret \<noteq> []" and "g \<noteq> []" and "''sig'' \<notin> set (map fst q)"
  shows "mock_verifyPostback hmacHex secret (demo_request g q) = Valid
    \<longleftrightarrow> g = hmacHex secret (canonicalize q)"
proof -
  have "map_of (q @ [(''sig'', Single g)]) ''sig'' = Some (Single g)"
    using assms(3) map_of_eq_None_iff [of q "''sig''"] by (simp add: map_of_append map_add_def)
  then have "truthy (param (q @ [(''sig'', Single g)]) ''sig'') = Some g"
    using assms(2) by (cases g) (simp_all add: param_def single_def truthy_def)
  then show ?thesis
    using assms(1) by (auto simp: mock_verifyPostback_def demo_request_def canonicalize_sig [OF assms(3)] Let_def)
qed

text \<open>The signed string does not separate its parameters unambiguously: a signature made for one
  query also verifies for a different query whose transaction id swallowed the parameter after
  it, whatever the keyed hash. Both are accepted, as two different transactions.\<close>

theorem postback_signature_malleable:
  assumes "secret \<noteq> []" and "hmacHex secret (canonicalize demo_query) \<noteq> []"
  shows "\<exists>g. mock_verifyPostback hmacHex secret (demo_request g demo_query) = Valid
      \<and> mock_verifyPostback hmacHex secret (demo_request g demo_forged_query) = Valid
      \<and> map_sum (\<lambda>e. e) ncExternalTransactionId
          (mock_parsePostback parseDate (demo_request g demo_query)) = Inr ''t''
      \<and> map_sum (\<lambda>e. e) ncExternalTransactionId
          (mock_parsePostback parseDate (demo_request g demo_forged_query)) = Inr ''t&zone=1''"
  using mock_verify_sig [OF assms, of demo_query] mock_verify_sig [OF assms, of demo_forged_query]
  by (intro exI [of _ "hmacHex secret (canonicalize demo_query)"])
    (simp add: demo_same_canonical demo_parsed, simp add: demo_query_def demo_forged_query_def)

lemma postback_signature_malleable_witness:
  "\<exists>g. mock_verifyPostback (\<lambda>s m. s @ m) ''k'' (demo_request g demo_forged_query) = Valid"
  using postback_signature_malleable [of "''k''" "\<lambda>s m. s @ m" "\<lambda>_. None"] by auto

end
