(* ===== verification/Offers.thy ===== *)
theory Offers
  imports MockAdapter
begin

text \<open>
  The offer catalog: \<^verbatim>\<open>apps/api/src/modules/offers\<close>. What a provider lists is mapped to
  the columns of an offer (\<^verbatim>\<open>internal/offer-normalizer.ts\<close>,
  \<^verbatim>\<open>internal/offer-category.ts\<close>), \<^verbatim>\<open>offers.service.ts\<close> keeps the
  table, and \<^verbatim>\<open>offer-wall.service.ts\<close> shows the users the active offers of the enabled
  providers. Fresh ids, the clock and the configured rates are arguments; the database's
  case-insensitive search is one too.
\<close>

section \<open>The contract\<close>

datatype offer_category = GAME | SURVEY | SIGNUP | TRIAL | SHOPPING | APP_INSTALL | VIDEO | OTHER

datatype deactivation_source = BySync | ByAdmin

datatype offer_rejection_reason =
    MISSING_REQUIRED_FIELD | INVALID_PAYOUT | CURRENCY_NOT_SUPPORTED | REWARD_TOO_SMALL
  | NO_TARGET_DEVICE | DUPLICATE_EXTERNAL_ID

datatype wall_offer_sort = REWARD_DESC | REWARD_ASC | NEWEST

section \<open>Configuration of the catalog\<close>

record catalog_rates =
  pointsPerMinorUnit :: int
  rewardSharePercent :: int
  accountingCurrency :: string

record offers_config =
  ocPointsPerMinorUnit :: int
  ocRewardSharePercent :: int
  ocAccountingCurrency :: string
  ocPruneSafetyThresholdPercent :: int
  ocFullSyncIntervalHours :: int

definition default_offers_config :: offers_config where
  "default_offers_config = \<lparr>ocPointsPerMinorUnit = 10, ocRewardSharePercent = 70,
     ocAccountingCurrency = ''USD'', ocPruneSafetyThresholdPercent = 50, ocFullSyncIntervalHours = 24\<rparr>"

text \<open>What the keys' schemas accept.\<close>

definition points_per_minor_unit_schema :: "int \<Rightarrow> bool" where
  "points_per_minor_unit_schema n \<longleftrightarrow> 1 \<le> n \<and> n \<le> 10000"

definition reward_share_percent_schema :: "int \<Rightarrow> bool" where
  "reward_share_percent_schema n \<longleftrightarrow> 1 \<le> n \<and> n \<le> 100"

definition accounting_currency_schema :: "string \<Rightarrow> bool" where
  "accounting_currency_schema s \<longleftrightarrow> length s = 3 \<and> list_all (\<lambda>c. 65 \<le> code_unit c \<and> code_unit c \<le> 90) s"

definition prune_safety_threshold_schema :: "int \<Rightarrow> bool" where
  "prune_safety_threshold_schema n \<longleftrightarrow> 0 \<le> n \<and> n \<le> 100"

definition full_sync_interval_schema :: "int \<Rightarrow> bool" where
  "full_sync_interval_schema n \<longleftrightarrow> 1 \<le> n \<and> n \<le> 720"

definition valid_rates :: "catalog_rates \<Rightarrow> bool" where
  "valid_rates r \<longleftrightarrow> points_per_minor_unit_schema (pointsPerMinorUnit r)
     \<and> reward_share_percent_schema (rewardSharePercent r) \<and> accounting_currency_schema (accountingCurrency r)"

text \<open>\<open>RatesService.resolve\<close>: the three values in force for a provider.\<close>

definition resolveRates :: "(id \<Rightarrow> offers_config) \<Rightarrow> id \<Rightarrow> catalog_rates" where
  "resolveRates config providerId = \<lparr>pointsPerMinorUnit = ocPointsPerMinorUnit (config providerId),
     rewardSharePercent = ocRewardSharePercent (config providerId),
     accountingCurrency = ocAccountingCurrency (config providerId)\<rparr>"

section \<open>Categories\<close>

definition KEYWORD_RULES :: "(string \<times> offer_category) list" where
  "KEYWORD_RULES =
    [(''app_install'', APP_INSTALL), (''appinstall'', APP_INSTALL), (''install'', APP_INSTALL),
     (''download'', APP_INSTALL),
     (''survey'', SURVEY), (''questionnaire'', SURVEY), (''poll'', SURVEY),
     (''free_trial'', TRIAL), (''trial'', TRIAL), (''subscription'', TRIAL),
     (''signup'', SIGNUP), (''sign_up'', SIGNUP), (''registration'', SIGNUP), (''register'', SIGNUP),
     (''lead'', SIGNUP),
     (''shopping'', SHOPPING), (''purchase'', SHOPPING), (''ecommerce'', SHOPPING), (''retail'', SHOPPING),
     (''video'', VIDEO), (''watch'', VIDEO), (''stream'', VIDEO),
     (''game'', GAME), (''gaming'', GAME), (''casino'', GAME), (''puzzle'', GAME), (''rpg'', GAME)]"

text \<open>\<open>replaceAll(/[\s-]+/g, '_')\<close>: every maximal run becomes one underscore.\<close>

fun collapse_separators :: "bool \<Rightarrow> string \<Rightarrow> string" where
  "collapse_separators _ [] = []"
| "collapse_separators inRun (c # cs) =
     (if js_space c \<or> c = CHR ''-''
      then (if inRun then collapse_separators True cs else CHR ''_'' # collapse_separators True cs)
      else c # collapse_separators False cs)"

fun category_loop :: "string list \<Rightarrow> (string \<times> offer_category) list \<Rightarrow> offer_category" where
  "category_loop normalized [] = OTHER"
| "category_loop normalized ((keyword, category) # rules) =
     (if list_ex (has_substring keyword) normalized then category else category_loop normalized rules)"

definition categorize :: "string list \<Rightarrow> offer_category" where
  "categorize providerCategories =
     (let normalized = filter (\<lambda>c. length c > 0)
        (map (\<lambda>c. collapse_separators False (js_lower (js_trim c))) providerCategories)
      in if length normalized = 0 then OTHER else category_loop normalized KEYWORD_RULES)"

section \<open>Mapping a provider's offer\<close>

record mapped_offer =
  moExternalId :: string
  moTitle :: string
  moDescription :: "string option"
  moRequirements :: "string option"
  moPayoutAmountMinor :: int
  moPayoutCurrency :: string
  moRewardPoints :: int
  moCategory :: offer_category
  moProviderCategories :: "string list"
  moCountries :: "string list"
  moDevices :: "string list"
  moImageUrl :: "string option"
  moTrackingUrlTemplate :: string
  moIsMultiStep :: bool

definition MAX_TITLE_LENGTH :: nat where
  "MAX_TITLE_LENGTH = 300"

definition MAX_TEXT_LENGTH :: nat where
  "MAX_TEXT_LENGTH = 4000"

definition trimmed :: "string option \<Rightarrow> string" where
  "trimmed v = (case v of None \<Rightarrow> [] | Some s \<Rightarrow> js_trim s)"

definition trimToNull :: "string option \<Rightarrow> string option" where
  "trimToNull v = (if length (trimmed v) = 0 then None else Some (take MAX_TEXT_LENGTH (trimmed v)))"

definition unique :: "string list \<Rightarrow> string list" where
  "unique values = add_new [] (filter (\<lambda>v. 0 < length (js_trim v)) values)"

text \<open>Two products, a quotient and a floor, each product and the quotient rounded to a double.\<close>

definition toRewardPoints :: "rat \<Rightarrow> catalog_rates \<Rightarrow> int" where
  "toRewardPoints payoutAmountMinor rates =
     (let numerator = double_of (double_of (payoutAmountMinor * of_int (pointsPerMinorUnit rates))
                                 * of_int (rewardSharePercent rates))
      in \<lfloor>double_of (numerator / 100)\<rfloor>)"

definition mapOffer :: "normalized_offer \<Rightarrow> catalog_rates \<Rightarrow> offer_rejection_reason + mapped_offer" where
  "mapOffer source rates =
     (let externalId = trimmed (noExternalId source);
          title = trimmed (noTitle source);
          trackingUrlTemplate = trimmed (noTrackingUrlTemplate source)
      in if length externalId = 0 \<or> length title = 0 \<or> length trackingUrlTemplate = 0
         then Inl MISSING_REQUIRED_FIELD
         else if of_int \<lfloor>noPayoutAmountMinor source\<rfloor> \<noteq> noPayoutAmountMinor source
                 \<or> noPayoutAmountMinor source \<le> 0
         then Inl INVALID_PAYOUT
         else
           let payoutCurrency = js_to_upper (trimmed (noPayoutCurrency source)) in
           if payoutCurrency \<noteq> accountingCurrency rates then Inl CURRENCY_NOT_SUPPORTED
           else
             let devices = unique (noDevices source) in
             if length devices = 0 then Inl NO_TARGET_DEVICE
             else
               let rewardPoints = toRewardPoints (noPayoutAmountMinor source) rates in
               if rewardPoints < 1 then Inl REWARD_TOO_SMALL
               else Inr \<lparr>moExternalId = externalId, moTitle = take MAX_TITLE_LENGTH title,
                 moDescription = trimToNull (noDescription source),
                 moRequirements = trimToNull (noRequirements source),
                 moPayoutAmountMinor = \<lfloor>noPayoutAmountMinor source\<rfloor>,
                 moPayoutCurrency = payoutCurrency,
                 moRewardPoints = rewardPoints,
                 moCategory = categorize (noProviderCategories source),
                 moProviderCategories = unique (noProviderCategories source),
                 moCountries = unique (map (\<lambda>code. js_to_upper (js_trim code)) (noCountries source)),
                 moDevices = devices, moImageUrl = trimToNull (noImageUrl source),
                 moTrackingUrlTemplate = trackingUrlTemplate,
                 moIsMultiStep = noIsMultiStep source\<rparr>)"

section \<open>The offers table\<close>

record offer = mapped_offer +
  ofId :: id
  ofProviderId :: id
  ofIsActive :: bool
  ofDeactivatedAt :: "millis option"
  ofDeactivationSource :: "deactivation_source option"
  ofLastSeenAt :: millis
  ofCreatedAt :: millis
  ofUpdatedAt :: millis

text \<open>\<open>toColumns\<close>: exactly the mapped fields of a row are written.\<close>

definition toColumns :: "mapped_offer \<Rightarrow> offer \<Rightarrow> offer" where
  "toColumns m x = x\<lparr>moExternalId := moExternalId m, moTitle := moTitle m,
     moDescription := moDescription m, moRequirements := moRequirements m,
     moPayoutAmountMinor := moPayoutAmountMinor m, moPayoutCurrency := moPayoutCurrency m,
     moRewardPoints := moRewardPoints m, moCategory := moCategory m,
     moProviderCategories := moProviderCategories m, moCountries := moCountries m,
     moDevices := moDevices m, moImageUrl := moImageUrl m,
     moTrackingUrlTemplate := moTrackingUrlTemplate m, moIsMultiStep := moIsMultiStep m\<rparr>"

definition at_key :: "id \<Rightarrow> string \<Rightarrow> offer \<Rightarrow> bool" where
  "at_key providerId externalId x \<longleftrightarrow> ofProviderId x = providerId \<and> moExternalId x = externalId"

definition findOffer :: "offer list \<Rightarrow> id \<Rightarrow> offer option" where
  "findOffer rows i = List.find (\<lambda>x. ofId x = i) rows"

definition requireOffer :: "offer list \<Rightarrow> id \<Rightarrow> offer result" where
  "requireOffer rows i = (case findOffer rows i of
     None \<Rightarrow> Inl (DomainError OFFER_NOT_FOUND 404) | Some x \<Rightarrow> Inr x)"

text \<open>
  \<open>upsertFromSync\<close> reads the row first: the read decides whether the update reactivates, and
  what is reported as created.
\<close>

definition admin_deactivated :: "offer \<Rightarrow> bool" where
  "admin_deactivated x \<longleftrightarrow> \<not> ofIsActive x \<and> ofDeactivationSource x = Some ByAdmin"

definition upsert_read :: "offer list \<Rightarrow> id \<Rightarrow> mapped_offer \<Rightarrow> bool \<times> bool" where
  "upsert_read rows providerId m =
     (let existing = List.find (at_key providerId (moExternalId m)) rows;
          adminDeactivated = (case existing of None \<Rightarrow> False | Some x \<Rightarrow> admin_deactivated x)
      in (adminDeactivated, existing = None))"

definition activation :: "bool \<Rightarrow> offer \<Rightarrow> offer" where
  "activation adminDeactivated x = (if adminDeactivated then x
     else x\<lparr>ofIsActive := True, ofDeactivatedAt := None, ofDeactivationSource := None\<rparr>)"

definition new_offer :: "id \<Rightarrow> millis \<Rightarrow> id \<Rightarrow> mapped_offer \<Rightarrow> millis \<Rightarrow> offer" where
  "new_offer i now providerId m seenAt = mapped_offer.extend m
     \<lparr>ofId = i, ofProviderId = providerId, ofIsActive = True, ofDeactivatedAt = None,
      ofDeactivationSource = None, ofLastSeenAt = seenAt, ofCreatedAt = now, ofUpdatedAt = now\<rparr>"

definition upsert_write :: "bool \<Rightarrow> offer list \<Rightarrow> id \<Rightarrow> millis \<Rightarrow> id \<Rightarrow> mapped_offer \<Rightarrow> millis
    \<Rightarrow> offer list result" where
  "upsert_write adminDeactivated rows i now providerId m seenAt =
     (if \<not> int4 (moPayoutAmountMinor m) \<or> \<not> int4 (moRewardPoints m) then Inl OutOfRange
      else if List.find (at_key providerId (moExternalId m)) rows = None then
        (if i \<in> set (map ofId rows) then Inl UniqueViolation
         else Inr (rows @ [new_offer i now providerId m seenAt]))
      else Inr (update_where (at_key providerId (moExternalId m))
        (\<lambda>x. (activation adminDeactivated (toColumns m x))\<lparr>ofLastSeenAt := seenAt, ofUpdatedAt := now\<rparr>)
        rows))"

definition upsertFromSync :: "offer list \<Rightarrow> id \<Rightarrow> millis \<Rightarrow> id \<Rightarrow> mapped_offer \<Rightarrow> millis
    \<Rightarrow> (bool \<times> offer list) result" where
  "upsertFromSync rows i now providerId m seenAt =
     (case upsert_read rows providerId m of (adminDeactivated, created) \<Rightarrow>
       (case upsert_write adminDeactivated rows i now providerId m seenAt of
          Inl e \<Rightarrow> Inl e | Inr rows' \<Rightarrow> Inr (created, rows')))"

definition unseen :: "id \<Rightarrow> millis \<Rightarrow> offer \<Rightarrow> bool" where
  "unseen providerId runStartedAt x \<longleftrightarrow>
     ofProviderId x = providerId \<and> ofIsActive x \<and> ofLastSeenAt x < runStartedAt"

definition deactivateUnseen :: "offer list \<Rightarrow> millis \<Rightarrow> id \<Rightarrow> millis \<Rightarrow> nat \<times> offer list" where
  "deactivateUnseen rows now providerId runStartedAt =
     (count_where (unseen providerId runStartedAt) rows,
      update_where (unseen providerId runStartedAt)
        (\<lambda>x. x\<lparr>ofIsActive := False, ofDeactivatedAt := Some now,
              ofDeactivationSource := Some BySync, ofUpdatedAt := now\<rparr>) rows)"

definition active_of :: "id \<Rightarrow> offer \<Rightarrow> bool" where
  "active_of providerId x \<longleftrightarrow> ofProviderId x = providerId \<and> ofIsActive x"

definition countActive :: "offer list \<Rightarrow> id \<Rightarrow> nat" where
  "countActive rows providerId = count_where (active_of providerId) rows"

definition setActive :: "offer list \<Rightarrow> millis \<Rightarrow> id \<Rightarrow> bool \<Rightarrow> (offer \<times> offer list) result" where
  "setActive rows now i active =
     (case findOffer rows i of
        None \<Rightarrow> Inl (DomainError OFFER_NOT_FOUND 404)
      | Some x \<Rightarrow>
          if ofIsActive x = active then Inl (DomainError OFFER_INVALID_STATE_TRANSITION 409)
          else let change = (\<lambda>x. if active
                   then x\<lparr>ofIsActive := True, ofDeactivatedAt := None, ofDeactivationSource := None,
                         ofUpdatedAt := now\<rparr>
                   else x\<lparr>ofIsActive := False, ofDeactivatedAt := Some now,
                         ofDeactivationSource := Some ByAdmin, ofUpdatedAt := now\<rparr>)
               in Inr (change x, update_where (\<lambda>x. ofId x = i) change rows))"

section \<open>Listing offers\<close>

definition clampOffersLimit :: "int option \<Rightarrow> int" where
  "clampOffersLimit requested = clampLimit 50 200 requested"

definition by_filter :: "'a option \<Rightarrow> ('a \<Rightarrow> bool) \<Rightarrow> bool" where
  "by_filter v p = (case v of None \<Rightarrow> True | Some x \<Rightarrow> p x)"

record list_offers_query =
  lqProviderId :: "id option"
  lqIsActive :: "bool option"
  lqCategory :: "offer_category option"
  lqCountry :: "string option"
  lqLimit :: "int option"
  lqOffset :: "int option"

text \<open>An offer that is ordered before another one: the first key decides, the id breaks ties.\<close>

definition reward_desc :: "offer \<Rightarrow> offer \<Rightarrow> bool" where
  "reward_desc a b \<longleftrightarrow> moRewardPoints a > moRewardPoints b
     \<or> (moRewardPoints a = moRewardPoints b \<and> ofId a \<le> ofId b)"

definition reward_asc :: "offer \<Rightarrow> offer \<Rightarrow> bool" where
  "reward_asc a b \<longleftrightarrow> moRewardPoints a < moRewardPoints b
     \<or> (moRewardPoints a = moRewardPoints b \<and> ofId a \<le> ofId b)"

definition newest :: "offer \<Rightarrow> offer \<Rightarrow> bool" where
  "newest a b \<longleftrightarrow> ofCreatedAt a > ofCreatedAt b \<or> (ofCreatedAt a = ofCreatedAt b \<and> ofId a \<le> ofId b)"

definition wallOrderBy :: "wall_offer_sort option \<Rightarrow> offer \<Rightarrow> offer \<Rightarrow> bool" where
  "wallOrderBy requested = (case requested of
      Some REWARD_ASC \<Rightarrow> reward_asc
    | Some NEWEST \<Rightarrow> newest
    | _ \<Rightarrow> reward_desc)"

definition findManyOffers :: "offer list \<Rightarrow> list_offers_query \<Rightarrow> offer paginated" where
  "findManyOffers rows q = page (clampOffersLimit (lqLimit q)) (clampOffset (lqOffset q))
     (sort_by reward_desc (filter (\<lambda>x.
        by_filter (lqProviderId q) (\<lambda>p. ofProviderId x = p)
        \<and> by_filter (lqIsActive q) (\<lambda>b. ofIsActive x = b)
        \<and> by_filter (lqCategory q) (\<lambda>c. moCategory x = c)
        \<and> by_filter (truthy (lqCountry q)) (\<lambda>c. js_to_upper c \<in> set (moCountries x))) rows))"

record list_wall_query =
  wqCategory :: "offer_category option"
  wqSearch :: "string option"
  wqMinRewardPoints :: "int option"
  wqMaxRewardPoints :: "int option"
  wqCountry :: "string option"
  wqDevice :: "string option"
  wqSort :: "wall_offer_sort option"
  wqLimit :: "int option"
  wqOffset :: "int option"

text \<open>The filter of the wall; \<open>contains\<close> is the database's case-insensitive match of the
  search text in a title.\<close>

definition wall_filter :: "(string \<Rightarrow> string \<Rightarrow> bool) \<Rightarrow> list_wall_query \<Rightarrow> id list \<Rightarrow> offer \<Rightarrow> bool" where
  "wall_filter contains q eligible x \<longleftrightarrow> ofProviderId x \<in> set eligible \<and> ofIsActive x
     \<and> by_filter (wqCategory q) (\<lambda>c. moCategory x = c)
     \<and> by_filter (truthy (wqSearch q)) (\<lambda>s. contains s (moTitle x))
     \<and> by_filter (truthy (wqCountry q)) (\<lambda>c. js_to_upper c \<in> set (moCountries x))
     \<and> by_filter (truthy (wqDevice q)) (\<lambda>d. js_lower d \<in> set (moDevices x))
     \<and> by_filter (wqMinRewardPoints q) (\<lambda>n. moRewardPoints x \<ge> n)
     \<and> by_filter (wqMaxRewardPoints q) (\<lambda>n. moRewardPoints x \<le> n)"

definition findForWall :: "(string \<Rightarrow> string \<Rightarrow> bool) \<Rightarrow> offer list \<Rightarrow> list_wall_query \<Rightarrow> id list
    \<Rightarrow> offer paginated" where
  "findForWall contains rows q eligible =
     (if length eligible = 0
      then \<lparr>items = [], total = 0, page_limit = clampOffersLimit (wqLimit q),
            page_offset = clampOffset (wqOffset q)\<rparr>
      else page (clampOffersLimit (wqLimit q)) (clampOffset (wqOffset q))
        (sort_by (wallOrderBy (wqSort q)) (filter (wall_filter contains q eligible) rows)))"

section \<open>What leaves the API\<close>

record offer_summary =
  osId :: id
  osProviderId :: id
  osProviderSlug :: string
  osExternalId :: string
  osTitle :: string
  osDescription :: "string option"
  osRequirements :: "string option"
  osPayoutAmountMinor :: int
  osPayoutCurrency :: string
  osRewardPoints :: int
  osCategory :: offer_category
  osProviderCategories :: "string list"
  osCountries :: "string list"
  osDevices :: "string list"
  osImageUrl :: "string option"
  osIsMultiStep :: bool
  osIsActive :: bool
  osDeactivatedAt :: "millis option"
  osDeactivationSource :: "deactivation_source option"
  osLastSeenAt :: millis
  osCreatedAt :: millis
  osUpdatedAt :: millis

text \<open>The summary leaves the tracking template out.\<close>

definition toOfferSummary :: "offer \<Rightarrow> string \<Rightarrow> offer_summary" where
  "toOfferSummary x providerSlug = \<lparr>osId = ofId x, osProviderId = ofProviderId x, osProviderSlug = providerSlug,
     osExternalId = moExternalId x, osTitle = moTitle x, osDescription = moDescription x,
     osRequirements = moRequirements x, osPayoutAmountMinor = moPayoutAmountMinor x, osPayoutCurrency = moPayoutCurrency x,
     osRewardPoints = moRewardPoints x, osCategory = moCategory x, osProviderCategories = moProviderCategories x,
     osCountries = moCountries x, osDevices = moDevices x, osImageUrl = moImageUrl x,
     osIsMultiStep = moIsMultiStep x, osIsActive = ofIsActive x, osDeactivatedAt = ofDeactivatedAt x,
     osDeactivationSource = ofDeactivationSource x, osLastSeenAt = ofLastSeenAt x, osCreatedAt = ofCreatedAt x,
     osUpdatedAt = ofUpdatedAt x\<rparr>"

record wall_provider =
  wpSlug :: string
  wpDisplayName :: string

record wall_offer =
  woId :: id
  woProviderSlug :: string
  woProviderName :: string
  woTitle :: string
  woDescription :: "string option"
  woRequirements :: "string option"
  woRewardPoints :: int
  woCategory :: offer_category
  woCountries :: "string list"
  woDevices :: "string list"
  woImageUrl :: "string option"
  woIsMultiStep :: bool

definition toWallOffer :: "offer \<Rightarrow> wall_provider \<Rightarrow> wall_offer" where
  "toWallOffer x p = \<lparr>woId = ofId x, woProviderSlug = wpSlug p, woProviderName = wpDisplayName p,
     woTitle = moTitle x, woDescription = moDescription x, woRequirements = moRequirements x,
     woRewardPoints = moRewardPoints x, woCategory = moCategory x, woCountries = moCountries x,
     woDevices = moDevices x, woImageUrl = moImageUrl x, woIsMultiStep = moIsMultiStep x\<rparr>"

definition UNKNOWN_PROVIDER :: wall_provider where
  "UNKNOWN_PROVIDER = \<lparr>wpSlug = ''unknown'', wpDisplayName = ''Unknown provider''\<rparr>"

text \<open>\<open>eligibleProviders\<close>: a map from the enabled providers' ids; the last entry of an id wins.\<close>

definition eligibleProviders :: "registry \<Rightarrow> (id \<times> wall_provider) list" where
  "eligibleProviders r = foldl (\<lambda>m p. map_set (rgId (fst p))
     \<lparr>wpSlug = rgSlug (fst p), wpDisplayName = rgDisplayName (fst p)\<rparr> m) [] (enabled_providers r)"

definition wallList :: "(string \<Rightarrow> string \<Rightarrow> bool) \<Rightarrow> offer list \<Rightarrow> registry \<Rightarrow> list_wall_query
    \<Rightarrow> wall_offer paginated" where
  "wallList contains rows r q =
     (let eligible = eligibleProviders r;
          p = findForWall contains rows q (map fst eligible)
      in \<lparr>items = map (\<lambda>x. toWallOffer x (case map_of eligible (ofProviderId x) of
                Some w \<Rightarrow> w | None \<Rightarrow> UNKNOWN_PROVIDER)) (items p),
          total = total p, page_limit = page_limit p, page_offset = page_offset p\<rparr>)"

definition wallDetail :: "offer list \<Rightarrow> registry \<Rightarrow> id \<Rightarrow> wall_offer result" where
  "wallDetail rows r i =
     (let found = findOffer rows i;
          provider = (case found of None \<Rightarrow> None | Some x \<Rightarrow> map_of (eligibleProviders r) (ofProviderId x))
      in case (found, provider) of
           (Some x, Some p) \<Rightarrow> if \<not> ofIsActive x then Inl (DomainError OFFER_NOT_FOUND 404)
                               else Inr (toWallOffer x p)
         | _ \<Rightarrow> Inl (DomainError OFFER_NOT_FOUND 404))"

end
