(* ===== verification/OfferProps.thy ===== *)
theory OfferProps
  imports Offers
begin

text \<open>
  What makes the catalog correct: the points an offer pays, what an accepted offer looks like, the
  invariant of the table under every write, and what the wall shows.
\<close>

section \<open>Points of a payout\<close>

text \<open>C39. For every payout that fits its column and every rate the configuration schemas accept,
  the points computed in doubles are exactly the integer quotient of payout times points per minor
  unit times share by one hundred; no rounding is ever in the user's favour.\<close>

theorem reward_points_exact:
  assumes "valid_rates rates" and "0 \<le> n" and "int4 n"
  shows "toRewardPoints (of_int n) rates = n * pointsPerMinorUnit rates * rewardSharePercent rates div 100"
proof -
  let ?p = "pointsPerMinorUnit rates" and ?s = "rewardSharePercent rates"
  have b: "1 \<le> ?p" "?p \<le> 10000" "1 \<le> ?s" "?s \<le> 100" "n < 2 ^ 31"
    using assms by (auto simp: valid_rates_def points_per_minor_unit_schema_def
        reward_share_percent_schema_def int4_def)
  have np: "n * ?p \<le> 2 ^ 31 * 10000"
    using b assms(2) by (intro mult_mono) auto
  have nps: "n * ?p * ?s \<le> 2 ^ 31 * 10000 * 100"
    using b assms(2) np by (intro mult_mono) auto
  have pos: "0 \<le> n * ?p" "0 \<le> n * ?p * ?s" using b assms(2) by auto
  have e1: "double_of (of_int (n * ?p)) = of_int (n * ?p)"
    using np by (intro double_of_int pos(1)) simp
  have e2: "double_of (of_int (n * ?p * ?s)) = of_int (n * ?p * ?s)"
    using nps by (intro double_of_int pos(2)) simp
  have "\<lfloor>double_of (of_int (n * ?p * ?s) / of_int 100)\<rfloor> = n * ?p * ?s div 100"
    using nps by (intro floor_double_div pos(2)) auto
  then show ?thesis using e1 e2 by (simp add: toRewardPoints_def Let_def)
qed

lemma reward_points_exact_witness:
  "toRewardPoints (of_int 199) \<lparr>pointsPerMinorUnit = 10, rewardSharePercent = 70, accountingCurrency = ''USD''\<rparr> = 1393"
proof -
  have "valid_rates \<lparr>pointsPerMinorUnit = 10, rewardSharePercent = 70, accountingCurrency = ''USD''\<rparr>"
    by code_simp
  moreover have "int4 199" by (simp add: int4_def)
  ultimately show ?thesis
    using reward_points_exact [of "\<lparr>pointsPerMinorUnit = 10, rewardSharePercent = 70,
      accountingCurrency = ''USD''\<rparr>" 199] by simp
qed

section \<open>Accepted offers\<close>

lemma unique_facts: "distinct (unique vs)" "set (unique vs) \<subseteq> set vs" "[] \<notin> set (unique vs)"
  by (auto simp: unique_def add_new_distinct add_new_set js_trim_def)

lemma trimToNull_facts: "trimToNull v = Some s \<Longrightarrow> s \<noteq> [] \<and> length s \<le> MAX_TEXT_LENGTH"
  by (auto simp: trimToNull_def MAX_TEXT_LENGTH_def split: if_splits)

definition well_mapped :: "catalog_rates \<Rightarrow> mapped_offer \<Rightarrow> bool" where
  "well_mapped rates m \<longleftrightarrow> moExternalId m \<noteq> [] \<and> js_trim (moExternalId m) = moExternalId m
     \<and> moTitle m \<noteq> [] \<and> length (moTitle m) \<le> MAX_TITLE_LENGTH \<and> moTrackingUrlTemplate m \<noteq> []
     \<and> 0 < moPayoutAmountMinor m \<and> moPayoutCurrency m = accountingCurrency rates
     \<and> moRewardPoints m = toRewardPoints (of_int (moPayoutAmountMinor m)) rates \<and> 1 \<le> moRewardPoints m
     \<and> moDevices m \<noteq> [] \<and> distinct (moDevices m) \<and> distinct (moCountries m)
     \<and> distinct (moProviderCategories m) \<and> [] \<notin> set (moDevices m) \<union> set (moCountries m)"

lemma mapOffer_Inr:
  assumes "mapOffer source rates = Inr m"
  shows "moExternalId m = trimmed (noExternalId source)" "moTitle m = take MAX_TITLE_LENGTH (trimmed (noTitle source))"
    "trimmed (noExternalId source) \<noteq> []" "trimmed (noTitle source) \<noteq> []"
    "moTrackingUrlTemplate m = trimmed (noTrackingUrlTemplate source)" "moTrackingUrlTemplate m \<noteq> []"
    "noPayoutAmountMinor source = of_int (moPayoutAmountMinor m)" "0 < moPayoutAmountMinor m"
    "moPayoutCurrency m = accountingCurrency rates" "moDevices m = unique (noDevices source)"
    "moDevices m \<noteq> []" "moRewardPoints m = toRewardPoints (noPayoutAmountMinor source) rates"
    "1 \<le> moRewardPoints m" "moProviderCategories m = unique (noProviderCategories source)"
    "moCountries m = unique (map (\<lambda>code. js_to_upper (js_trim code)) (noCountries source))"
    "moCategory m = categorize (noProviderCategories source)"
  using assms by (auto simp: mapOffer_def Let_def split: if_splits)

text \<open>What the normalizer accepts is fit to be stored: a trimmed external id, a title within
  its limit, a tracking template, a positive whole payout in the accounting currency, at least one
  point, computed from that payout, and non-empty lists of devices without repetitions.\<close>

theorem accepted_offer_well_mapped:
  assumes "mapOffer source rates = Inr m"
  shows "well_mapped rates m"
  using mapOffer_Inr [OF assms] unique_facts
  by (auto simp: well_mapped_def MAX_TITLE_LENGTH_def trimmed_def split: option.splits)

section \<open>The table under every write\<close>

definition offer_ok :: "offer \<Rightarrow> bool" where
  "offer_ok x \<longleftrightarrow> (ofIsActive x \<longleftrightarrow> ofDeactivatedAt x = None) \<and> (ofIsActive x \<longleftrightarrow> ofDeactivationSource x = None)
     \<and> 1 \<le> moRewardPoints x \<and> int4 (moRewardPoints x) \<and> 0 < moPayoutAmountMinor x
     \<and> int4 (moPayoutAmountMinor x)"

definition offers_wf :: "offer list \<Rightarrow> bool" where
  "offers_wf rows \<longleftrightarrow> distinct (map ofId rows)
     \<and> distinct (map (\<lambda>x. (ofProviderId x, moExternalId x)) rows) \<and> list_all offer_ok rows"

lemma new_offer_simps [simp]:
  "ofId (new_offer i now p m seenAt) = i" "ofProviderId (new_offer i now p m seenAt) = p"
  "ofIsActive (new_offer i now p m seenAt)" "ofDeactivatedAt (new_offer i now p m seenAt) = None"
  "ofDeactivationSource (new_offer i now p m seenAt) = None"
  "ofLastSeenAt (new_offer i now p m seenAt) = seenAt"
  "moExternalId (new_offer i now p m seenAt) = moExternalId m"
  "moRewardPoints (new_offer i now p m seenAt) = moRewardPoints m"
  "moPayoutAmountMinor (new_offer i now p m seenAt) = moPayoutAmountMinor m"
  by (simp_all add: new_offer_def mapped_offer.defs)

lemma toColumns_simps [simp]:
  "ofId (toColumns m x) = ofId x" "ofProviderId (toColumns m x) = ofProviderId x"
  "ofIsActive (toColumns m x) = ofIsActive x" "ofDeactivatedAt (toColumns m x) = ofDeactivatedAt x"
  "ofDeactivationSource (toColumns m x) = ofDeactivationSource x"
  "moExternalId (toColumns m x) = moExternalId m" "moRewardPoints (toColumns m x) = moRewardPoints m"
  "moPayoutAmountMinor (toColumns m x) = moPayoutAmountMinor m"
  by (simp_all add: toColumns_def)

lemma activation_simps [simp]:
  "ofId (activation a x) = ofId x" "ofProviderId (activation a x) = ofProviderId x"
  "moExternalId (activation a x) = moExternalId x" "moRewardPoints (activation a x) = moRewardPoints x"
  "moPayoutAmountMinor (activation a x) = moPayoutAmountMinor x"
  "ofIsActive (activation a x) = (if a then ofIsActive x else True)"
  "ofDeactivationSource (activation a x) = (if a then ofDeactivationSource x else None)"
  "ofDeactivatedAt (activation a x) = (if a then ofDeactivatedAt x else None)"
  by (simp_all add: activation_def)

lemma upsert_write_cases:
  assumes "upsert_write a rows i now p m seenAt = Inr rows'"
  obtains (created) "List.find (at_key p (moExternalId m)) rows = None" "i \<notin> set (map ofId rows)"
      "rows' = rows @ [new_offer i now p m seenAt]" "int4 (moPayoutAmountMinor m)" "int4 (moRewardPoints m)"
    | (updated) "List.find (at_key p (moExternalId m)) rows \<noteq> None"
      "rows' = update_where (at_key p (moExternalId m))
        (\<lambda>x. (activation a (toColumns m x))\<lparr>ofLastSeenAt := seenAt, ofUpdatedAt := now\<rparr>) rows"
      "int4 (moPayoutAmountMinor m)" "int4 (moRewardPoints m)"
  using assms by (auto simp: upsert_write_def split: if_splits)

lemma map_update_where_at:
  "(\<And>r. p r \<Longrightarrow> g (f r) = g r) \<Longrightarrow> map g (update_where p f xs) = map g xs"
  by (induction xs) auto

lemma list_all_update_where:
  "list_all q xs \<Longrightarrow> (\<And>r. q r \<Longrightarrow> p r \<Longrightarrow> q (f r)) \<Longrightarrow> list_all q (update_where p f xs)"
  by (induction xs) auto

lemma offers_wf_update:
  assumes "offers_wf rows" and "\<And>x. p x \<Longrightarrow> ofId (f x) = ofId x \<and> ofProviderId (f x) = ofProviderId x
      \<and> moExternalId (f x) = moExternalId x"
    and "\<And>x. offer_ok x \<Longrightarrow> p x \<Longrightarrow> offer_ok (f x)"
  shows "offers_wf (update_where p f rows)"
  using assms(1) list_all_update_where [of offer_ok rows p f] assms(3)
  by (simp add: offers_wf_def map_update_where_at assms(2))

lemma upsert_write_wf:
  assumes "offers_wf rows" and "upsert_write a rows i now p m seenAt = Inr rows'"
    and "0 < moPayoutAmountMinor m" and "1 \<le> moRewardPoints m"
  shows "offers_wf rows'"
  using assms(2)
proof (cases rule: upsert_write_cases)
  case created
  then have "(p, moExternalId m) \<notin> set (map (\<lambda>x. (ofProviderId x, moExternalId x)) rows)"
    by (auto simp: at_key_def dest: find_NoneD)
  then show ?thesis using assms created by (auto simp: offers_wf_def offer_ok_def)
next
  case updated
  show ?thesis unfolding updated(2)
    by (rule offers_wf_update [OF assms(1)])
      (use assms(3,4) updated in \<open>auto simp: at_key_def offer_ok_def\<close>)
qed

datatype offer_op =
    SyncOffer id millis id normalized_offer catalog_rates millis
  | DeactivateUnseen millis id millis
  | AdminSetActive millis id bool

fun execOffer :: "offer list \<Rightarrow> offer_op \<Rightarrow> app_error option + offer list" where
  "execOffer rows (SyncOffer i now p source rates seenAt) =
     (case mapOffer source rates of
        Inl _ \<Rightarrow> Inl None
      | Inr m \<Rightarrow> (case upsertFromSync rows i now p m seenAt of Inl e \<Rightarrow> Inl (Some e) | Inr (_, rows') \<Rightarrow> Inr rows'))"
| "execOffer rows (DeactivateUnseen now p startedAt) = Inr (snd (deactivateUnseen rows now p startedAt))"
| "execOffer rows (AdminSetActive now i active) =
     (case setActive rows now i active of Inl e \<Rightarrow> Inl (Some e) | Inr (_, rows') \<Rightarrow> Inr rows')"

lemma upsertFromSync_Inr:
  assumes "upsertFromSync rows i now p m seenAt = Inr (c, rows')"
  shows "upsert_write (fst (upsert_read rows p m)) rows i now p m seenAt = Inr rows'"
    and "c = snd (upsert_read rows p m)"
  using assms by (auto simp: upsertFromSync_def split: prod.splits sum.splits)

lemma deactivateUnseen_wf: "offers_wf rows \<Longrightarrow> offers_wf (snd (deactivateUnseen rows now p startedAt))"
  unfolding deactivateUnseen_def snd_conv
  by (rule offers_wf_update) (auto simp: offer_ok_def unseen_def)

lemma setActive_wf:
  assumes "offers_wf rows" and "setActive rows now i active = Inr (x, rows')"
  shows "offers_wf rows'"
proof -
  have "rows' = update_where (\<lambda>x. ofId x = i) (\<lambda>x. if active
      then x\<lparr>ofIsActive := True, ofDeactivatedAt := None, ofDeactivationSource := None, ofUpdatedAt := now\<rparr>
      else x\<lparr>ofIsActive := False, ofDeactivatedAt := Some now, ofDeactivationSource := Some ByAdmin,
             ofUpdatedAt := now\<rparr>) rows"
    using assms(2) by (auto simp: setActive_def Let_def split: option.splits if_splits)
  then show ?thesis
    by (simp only:) (rule offers_wf_update [OF assms(1)]; auto simp: offer_ok_def)
qed

lemma execOffer_wf: "offers_wf rows \<Longrightarrow> execOffer rows op = Inr rows' \<Longrightarrow> offers_wf rows'"
proof (cases op)
  case (SyncOffer i now p source rates seenAt)
  assume a: "offers_wf rows" "execOffer rows op = Inr rows'"
  then obtain m c where m: "mapOffer source rates = Inr m" "upsertFromSync rows i now p m seenAt = Inr (c, rows')"
    using SyncOffer by (auto split: sum.splits)
  show ?thesis
    by (rule upsert_write_wf [OF a(1) upsertFromSync_Inr(1) [OF m(2)]]) (use mapOffer_Inr [OF m(1)] in auto)
qed (auto intro: deactivateUnseen_wf setActive_wf split: sum.splits)

interpretation catalog: guarded_system execOffer "[]" offers_wf
  by unfold_locales (simp add: offers_wf_def, rule execOffer_wf)

definition run_offers :: "offer_op list \<Rightarrow> offer list" where
  "run_offers ops = run_ops execOffer [] ops"

text \<open>Whatever syncs, prunes and admin actions run in whatever order, the catalog stays
  consistent: no two rows of a provider share an external id, an offer is active exactly when it
  has neither a deactivation time nor a source, and its payout and points are positive and fit
  their columns.\<close>

theorem catalog_stays_consistent:
  "distinct (map (\<lambda>x. (ofProviderId x, moExternalId x)) (run_offers ops))
   \<and> list_all (\<lambda>x. ofIsActive x = (ofDeactivatedAt x = None) \<and> ofIsActive x = (ofDeactivationSource x = None)
       \<and> 1 \<le> moRewardPoints x \<and> int4 (moRewardPoints x) \<and> 0 < moPayoutAmountMinor x) (run_offers ops)"
  using catalog.inv_run [of ops]
  by (auto simp: run_offers_def offers_wf_def list_all_iff offer_ok_def)


section \<open>The wall\<close>

lemma insert_by_set: "set (insert_by le x xs) = insert x (set xs)"
  by (induction xs) auto

lemma sort_by_set [simp]: "set (sort_by le xs) = set xs"
  by (induction xs) (auto simp: sort_by_def insert_by_set)

lemma insert_by_length: "length (insert_by le x xs) = Suc (length xs)"
  by (induction xs) auto

lemma sort_by_length [simp]: "length (sort_by le xs) = length xs"
  by (induction xs) (auto simp: sort_by_def insert_by_length)

lemma insert_by_sorted:
  assumes "\<And>a b. le a b \<or> le b a" and "\<And>a b c. le a b \<Longrightarrow> le b c \<Longrightarrow> le a c"
  shows "sorted_wrt le xs \<Longrightarrow> sorted_wrt le (insert_by le x xs)"
  by (induction xs) (use assms in \<open>auto simp: insert_by_set\<close>)

lemma sort_by_sorted:
  assumes "\<And>a b. le a b \<or> le b a" and "\<And>a b c. le a b \<Longrightarrow> le b c \<Longrightarrow> le a c"
  shows "sorted_wrt le (sort_by le xs)"
  by (induction xs) (use insert_by_sorted [OF assms] in \<open>auto simp: sort_by_def\<close>)

lemma wallOrderBy_order:
  "wallOrderBy srt a b \<or> wallOrderBy srt b a"
  "wallOrderBy srt a b \<Longrightarrow> wallOrderBy srt b c \<Longrightarrow> wallOrderBy srt a c"
  by (auto simp: wallOrderBy_def reward_desc_def reward_asc_def newest_def
      split: option.splits wall_offer_sort.splits)

lemma sorted_wrt_page: "sorted_wrt le xs \<Longrightarrow> sorted_wrt le (items (page l off xs))"
  by (simp add: page_def sorted_wrt_drop sorted_wrt_take)

lemma findForWall_items:
  "x \<in> set (items (findForWall contains rows q eligible)) \<Longrightarrow> x \<in> set rows \<and> wall_filter contains q eligible x"
  using page_items_subset by (fastforce simp: findForWall_def split: if_splits)

lemma findForWall_sorted: "sorted_wrt (wallOrderBy (wqSort q)) (items (findForWall contains rows q eligible))"
  unfolding findForWall_def
  by (auto intro!: sorted_wrt_page sort_by_sorted wallOrderBy_order(1)
      intro: wallOrderBy_order(2))

lemma map_of_foldl_map_set:
  "map_of (foldl (\<lambda>m p. map_set (k p) (v p) m) m0 ps) key = Some w
     \<Longrightarrow> map_of m0 key = Some w \<or> (\<exists>p\<in>set ps. k p = key \<and> v p = w)"
proof (induction ps rule: rev_induct)
  case (snoc p ps)
  then show ?case by (auto simp: map_of_map_set split: if_splits)
qed simp

lemma eligible_enabled:
  assumes "map_of (eligibleProviders r) key = Some w"
  obtains p where "p \<in> set (enabled_providers r)" "rgId (fst p) = key"
    "w = \<lparr>wpSlug = rgSlug (fst p), wpDisplayName = rgDisplayName (fst p)\<rparr>"
  using map_of_foldl_map_set [OF assms [unfolded eligibleProviders_def]] by auto

lemma wall_item:
  assumes "w \<in> set (items (wallList contains rows r q))"
  obtains x p where "x \<in> set rows" "ofIsActive x" "map_of (eligibleProviders r) (ofProviderId x) = Some p"
    "w = toWallOffer x p"
proof -
  obtain x where x: "x \<in> set (items (findForWall contains rows q (map fst (eligibleProviders r))))"
    "w = toWallOffer x (case map_of (eligibleProviders r) (ofProviderId x) of Some w \<Rightarrow> w | None \<Rightarrow> UNKNOWN_PROVIDER)"
    using assms by (auto simp: wallList_def Let_def)
  have y: "x \<in> set rows" "ofIsActive x" "ofProviderId x \<in> set (map fst (eligibleProviders r))"
    using findForWall_items [OF x(1)] by (auto simp: wall_filter_def)
  obtain p where "map_of (eligibleProviders r) (ofProviderId x) = Some p"
    using y(3) map_of_eq_None_iff [of "eligibleProviders r" "ofProviderId x"] by fastforce
  with x(2) y that show ?thesis by simp
qed

text \<open>Every offer on a page of the wall is an active row of an enabled provider, shown under
  that provider's name; the detail page of the same offer shows the same card; and a page never
  has more than 200 cards.\<close>

theorem wall_shows_live_offers:
  assumes "distinct (map ofId rows)" and "w \<in> set (items (wallList contains rows r q))"
  shows "(\<exists>x\<in>set rows. \<exists>p\<in>set (enabled_providers r). ofIsActive x \<and> ofProviderId x = rgId (fst p)
        \<and> w = toWallOffer x \<lparr>wpSlug = rgSlug (fst p), wpDisplayName = rgDisplayName (fst p)\<rparr>)
    \<and> wallDetail rows r (woId w) = Inr w \<and> length (items (wallList contains rows r q)) \<le> 200"
proof (intro conjI)
  obtain x p where x: "x \<in> set rows" "ofIsActive x"
    "map_of (eligibleProviders r) (ofProviderId x) = Some p" "w = toWallOffer x p"
    by (rule wall_item [OF assms(2)])
  show "\<exists>x\<in>set rows. \<exists>p\<in>set (enabled_providers r). ofIsActive x \<and> ofProviderId x = rgId (fst p)
      \<and> w = toWallOffer x \<lparr>wpSlug = rgSlug (fst p), wpDisplayName = rgDisplayName (fst p)\<rparr>"
    using eligible_enabled [OF x(3)] x by metis
  have "findOffer rows (ofId x) = Some x"
    unfolding findOffer_def by (rule find_key_eq [OF assms(1) x(1)])
  moreover have "woId w = ofId x" by (simp add: x(4) toWallOffer_def)
  ultimately show "wallDetail rows r (woId w) = Inr w"
    by (simp add: wallDetail_def x)
  have "clampOffersLimit (wqLimit q) \<le> 200"
    using clampLimit_bounds [of 50 200] by (simp add: clampOffersLimit_def)
  then show "length (items (wallList contains rows r q)) \<le> 200"
    by (auto simp: wallList_def findForWall_def Let_def
        intro: order_trans [OF page_items_length])
qed

text \<open>The wall lists the offers its filter selects in the requested order: a page's rows are
  sorted by the sort key with ties broken by id, and the total counts every selected row.\<close>

theorem wall_is_sorted_and_counted:
  assumes "eligible \<noteq> []"
  shows "sorted_wrt (wallOrderBy (wqSort q)) (items (findForWall contains rows q eligible))
    \<and> total (findForWall contains rows q eligible) = count_where (wall_filter contains q eligible) rows"
  using assms by (simp add: findForWall_sorted) (simp add: findForWall_def page_def count_where_def)

section \<open>A concrete catalog\<close>

definition demo_source :: "string \<Rightarrow> rat \<Rightarrow> normalized_offer" where
  "demo_source externalId payout = \<lparr>noExternalId = Some externalId, noTitle = Some ''Install '',
     noDescription = None, noRequirements = Some '' '', noPayoutAmountMinor = payout,
     noPayoutCurrency = Some ''usd'', noProviderCategories = [''App Install''], noCountries = [''us'', ''US ''],
     noDevices = [''mobile'', ''mobile''], noImageUrl = None, noTrackingUrlTemplate = Some ''https://t'',
     noIsMultiStep = False\<rparr>"

definition demo_rates :: catalog_rates where
  "demo_rates = \<lparr>pointsPerMinorUnit = 10, rewardSharePercent = 70, accountingCurrency = ''USD''\<rparr>"

definition demo_mapped :: "string \<Rightarrow> int \<Rightarrow> int \<Rightarrow> mapped_offer" where
  "demo_mapped externalId payout points = \<lparr>moExternalId = externalId, moTitle = ''Install'',
     moDescription = None, moRequirements = None, moPayoutAmountMinor = payout,
     moPayoutCurrency = ''USD'', moRewardPoints = points, moCategory = APP_INSTALL,
     moProviderCategories = [''App Install''], moCountries = [''US''], moDevices = [''mobile''],
     moImageUrl = None, moTrackingUrlTemplate = ''https://t'', moIsMultiStep = False\<rparr>"

lemma demo_map: "mapOffer (demo_source ''a'' 200) demo_rates = Inr (demo_mapped ''a'' 200 1400)"
  by code_simp

definition demo_offer :: offer where
  "demo_offer = new_offer 7 0 1 (demo_mapped ''a'' 200 1400) 0"

definition demo_registry :: registry where
  "demo_registry = \<lparr>registered = [(''mock'', (demo_registration, demo_adapter))], failed = [], loaded = True\<rparr>"

definition demo_wall_query :: list_wall_query where
  "demo_wall_query = \<lparr>wqCategory = Some APP_INSTALL, wqSearch = None, wqMinRewardPoints = Some 1,
     wqMaxRewardPoints = None, wqCountry = Some ''us'', wqDevice = Some ''Mobile'', wqSort = None,
     wqLimit = None, wqOffset = None\<rparr>"

definition demo_card :: wall_offer where
  "demo_card = toWallOffer demo_offer \<lparr>wpSlug = ''mock'', wpDisplayName = ''Mock''\<rparr>"

lemma accepted_offer_well_mapped_witness: "well_mapped demo_rates (demo_mapped ''a'' 200 1400)"
  by (rule accepted_offer_well_mapped [OF demo_map])

lemma demo_wall: "demo_card \<in> set (items (wallList (\<lambda>_ _. True) [demo_offer] demo_registry demo_wall_query))"
  by code_simp

lemma wall_shows_live_offers_witness:
  "wallDetail [demo_offer] demo_registry 7 = Inr demo_card"
proof -
  have "woId demo_card = 7" by code_simp
  then show ?thesis using wall_shows_live_offers [OF _ demo_wall] by simp
qed

lemma wall_is_sorted_and_counted_witness:
  "total (findForWall (\<lambda>_ _. True) [demo_offer] demo_wall_query [1]) = 1"
proof -
  have "count_where (wall_filter (\<lambda>_ _. True) demo_wall_query [1]) [demo_offer] = 1" by code_simp
  then show ?thesis
    using wall_is_sorted_and_counted [of "[1]" demo_wall_query "\<lambda>_ _. True" "[demo_offer]"] by simp
qed

end
