(* ===== verification/CatalogSync.thy ===== *)
theory CatalogSync
  imports OfferProps
begin

text \<open>
  Synchronising the catalog: \<^verbatim>\<open>apps/api/src/modules/offers/catalog-sync.service.ts\<close>
  and \<^verbatim>\<open>sync-runs.service.ts\<close>. A run writes offer by offer, without a transaction
  around it: when a write fails, the offers before it stay written, and the run is recorded as
  failed with the counters reached. The adapters, the environment, the configuration, the fresh ids
  and the clock readings of a run are its environment.
\<close>

section \<open>Runs\<close>

datatype sync_mode = INCREMENTAL | FULL

datatype sync_outcome = RUNNING | SUCCESS | PARTIAL | SYNC_FAILED

text \<open>The one-line summary of a run: the sentence of a refused prune, or a rendered failure.\<close>

datatype error_summary = PruneSkipped int int int | SyncFailure string

record sync_run_result =
  rrOutcome :: sync_outcome
  rrFetched :: int
  rrAccepted :: int
  rrRejected :: int
  rrCreated :: int
  rrUpdated :: int
  rrDeactivated :: int
  rrRejections :: "(offer_rejection_reason \<times> int) list"
  rrErrorSummary :: "error_summary option"

record offer_sync_run =
  syId :: id
  syProviderId :: id
  syMode :: sync_mode
  syOutcome :: sync_outcome
  syStartedAt :: millis
  syFinishedAt :: "millis option"
  syFetched :: int
  syAccepted :: int
  syRejected :: int
  syCreated :: int
  syUpdated :: int
  syDeactivated :: int
  syRejections :: "(offer_rejection_reason \<times> int) list option"
  syErrorSummary :: "error_summary option"

definition startRun :: "offer_sync_run list \<Rightarrow> id \<Rightarrow> millis \<Rightarrow> id \<Rightarrow> sync_mode
    \<Rightarrow> (offer_sync_run \<times> offer_sync_run list) result" where
  "startRun rows i now providerId mode =
     (if i \<in> set (map syId rows) then Inl UniqueViolation
      else let run = \<lparr>syId = i, syProviderId = providerId, syMode = mode, syOutcome = RUNNING,
                 syStartedAt = now, syFinishedAt = None, syFetched = 0, syAccepted = 0, syRejected = 0,
                 syCreated = 0, syUpdated = 0, syDeactivated = 0, syRejections = None,
                 syErrorSummary = None\<rparr>
           in Inr (run, rows @ [run]))"

definition finished :: "millis \<Rightarrow> sync_run_result \<Rightarrow> offer_sync_run \<Rightarrow> offer_sync_run" where
  "finished now r run = run\<lparr>syOutcome := rrOutcome r, syFinishedAt := Some now,
     syFetched := rrFetched r, syAccepted := rrAccepted r, syRejected := rrRejected r,
     syCreated := rrCreated r, syUpdated := rrUpdated r, syDeactivated := rrDeactivated r,
     syRejections := (if length (rrRejections r) = 0 then None else Some (rrRejections r)),
     syErrorSummary := rrErrorSummary r\<rparr>"

definition finishRun :: "offer_sync_run list \<Rightarrow> millis \<Rightarrow> id \<Rightarrow> sync_run_result
    \<Rightarrow> (offer_sync_run \<times> offer_sync_run list) result" where
  "finishRun rows now i r = (case List.find (\<lambda>run. syId run = i) rows of
     None \<Rightarrow> Inl RecordMissing
   | Some run \<Rightarrow> Inr (finished now r run, update_where (\<lambda>run. syId run = i) (finished now r) rows))"

text \<open>The start of the latest full run that succeeded, in full or in part.\<close>

definition started_desc :: "offer_sync_run \<Rightarrow> offer_sync_run \<Rightarrow> bool" where
  "started_desc a b \<longleftrightarrow> syStartedAt a \<ge> syStartedAt b"

definition lastSuccessfulFullSyncAt :: "offer_sync_run list \<Rightarrow> id \<Rightarrow> millis option" where
  "lastSuccessfulFullSyncAt rows providerId =
     (case sort_by started_desc (filter (\<lambda>run. syProviderId run = providerId \<and> syMode run = FULL
         \<and> (syOutcome run = SUCCESS \<or> syOutcome run = PARTIAL)) rows) of
        [] \<Rightarrow> None | run # _ \<Rightarrow> Some (syStartedAt run))"

definition findManyRuns :: "offer_sync_run list \<Rightarrow> id option \<Rightarrow> sync_outcome option \<Rightarrow> int option
    \<Rightarrow> int option \<Rightarrow> offer_sync_run paginated" where
  "findManyRuns rows providerId outcome limit offset =
     page (clampLimit 25 100 limit) (clampOffset offset) (sort_by started_desc (filter (\<lambda>run.
       by_filter providerId (\<lambda>p. syProviderId run = p) \<and> by_filter outcome (\<lambda>x. syOutcome run = x)) rows))"

record sync_run_summary =
  ssId :: id
  ssProviderId :: id
  ssProviderSlug :: string
  ssMode :: sync_mode
  ssOutcome :: sync_outcome
  ssStartedAt :: millis
  ssFinishedAt :: "millis option"
  ssDurationMs :: "millis option"
  ssFetched :: int
  ssAccepted :: int
  ssRejected :: int
  ssCreated :: int
  ssUpdated :: int
  ssDeactivated :: int
  ssRejections :: "(offer_rejection_reason \<times> int) list"
  ssErrorSummary :: "error_summary option"

definition toRunSummary :: "offer_sync_run \<Rightarrow> string \<Rightarrow> sync_run_summary" where
  "toRunSummary run providerSlug = \<lparr>ssId = syId run, ssProviderId = syProviderId run,
     ssProviderSlug = providerSlug, ssMode = syMode run, ssOutcome = syOutcome run,
     ssStartedAt = syStartedAt run, ssFinishedAt = syFinishedAt run,
     ssDurationMs = map_option (\<lambda>f. f - syStartedAt run) (syFinishedAt run),
     ssFetched = syFetched run, ssAccepted = syAccepted run, ssRejected = syRejected run,
     ssCreated = syCreated run, ssUpdated = syUpdated run, ssDeactivated = syDeactivated run,
     ssRejections = or_empty (syRejections run), ssErrorSummary = syErrorSummary run\<rparr>"

section \<open>Writing what was fetched\<close>

text \<open>What can be thrown inside a run: an application error, or the runtime's \<open>TypeError\<close>
  for a method the adapter lacks. \<open>describeFailure\<close> cuts its rendering.\<close>

datatype sync_error = Thrown app_error | NotAFunction

record sync_env =
  seRunId :: id
  seStart :: millis
  seSeen :: millis
  sePrune :: millis
  seHealth :: millis
  seFinish :: millis
  seOfferId :: "nat \<Rightarrow> id"
  seWritten :: "nat \<Rightarrow> millis"
  seConfig :: "id \<Rightarrow> offers_config"
  seThresholds :: "int \<times> int"
  seAdapters :: adapter_map
  seVariables :: "string \<Rightarrow> string option"
  seRender :: "sync_error \<Rightarrow> string"

definition describeFailure :: "sync_env \<Rightarrow> sync_error \<Rightarrow> string" where
  "describeFailure env e = take 500 (seRender env e)"

text \<open>\<open>rejections[reason] = (rejections[reason] ?? 0) + 1\<close>\<close>

definition count_rejection :: "offer_rejection_reason \<Rightarrow> sync_run_result \<Rightarrow> sync_run_result" where
  "count_rejection reason c = c\<lparr>rrRejected := rrRejected c + 1,
     rrRejections := map_set reason ((case map_of (rrRejections c) reason of None \<Rightarrow> 0 | Some n \<Rightarrow> n) + 1)
       (rrRejections c)\<rparr>"

definition count_written :: "bool \<Rightarrow> sync_run_result \<Rightarrow> sync_run_result" where
  "count_written created c = (if created
     then c\<lparr>rrAccepted := rrAccepted c + 1, rrCreated := rrCreated c + 1\<rparr>
     else c\<lparr>rrAccepted := rrAccepted c + 1, rrUpdated := rrUpdated c + 1\<rparr>)"

fun writeOffers :: "sync_env \<Rightarrow> id \<Rightarrow> catalog_rates \<Rightarrow> string list \<Rightarrow> normalized_offer list
    \<Rightarrow> offer list \<Rightarrow> sync_run_result \<Rightarrow> offer list \<times> sync_run_result \<times> sync_error option" where
  "writeOffers env providerId rates seen [] rows c = (rows, c, None)"
| "writeOffers env providerId rates seen (source # rest) rows c =
     (case mapOffer source rates of
        Inl reason \<Rightarrow> writeOffers env providerId rates seen rest rows (count_rejection reason c)
      | Inr m \<Rightarrow>
          if moExternalId m \<in> set seen
          then writeOffers env providerId rates seen rest rows (count_rejection DUPLICATE_EXTERNAL_ID c)
          else (case upsertFromSync rows (seOfferId env (length seen)) (seWritten env (length seen))
                   providerId m (seSeen env) of
              Inl e \<Rightarrow> (rows, c, Some (Thrown e))
            | Inr (created, rows') \<Rightarrow>
                writeOffers env providerId rates (moExternalId m # seen) rest rows' (count_written created c)))"

section \<open>Pruning\<close>

record prune_result =
  pruned :: bool
  deactivated :: int
  prune_reason :: "error_summary option"

definition prune_unsafe :: "int \<Rightarrow> int \<Rightarrow> int \<Rightarrow> bool" where
  "prune_unsafe activeBefore threshold accepted \<longleftrightarrow>
     activeBefore > 0 \<and> accepted * 100 < activeBefore * threshold"

definition pruneIfSafe :: "sync_env \<Rightarrow> offer list \<Rightarrow> id \<Rightarrow> millis \<Rightarrow> int \<Rightarrow> prune_result \<times> offer list" where
  "pruneIfSafe env rows providerId startedAt accepted =
     (let activeBefore = int (countActive rows providerId);
          threshold = ocPruneSafetyThresholdPercent (seConfig env providerId)
      in if prune_unsafe activeBefore threshold accepted
         then (\<lparr>pruned = False, deactivated = 0,
                prune_reason = Some (PruneSkipped accepted activeBefore threshold)\<rparr>, rows)
         else (case deactivateUnseen rows (sePrune env) providerId startedAt of (n, rows') \<Rightarrow>
                (\<lparr>pruned = True, deactivated = int n, prune_reason = None\<rparr>, rows')))"

section \<open>A run\<close>

record sync_state =
  csOffers :: "offer list"
  csRuns :: "offer_sync_run list"
  csProviders :: "provider list"
  csRegistry :: registry

definition no_counts :: sync_run_result where
  "no_counts = \<lparr>rrOutcome = SUCCESS, rrFetched = 0, rrAccepted = 0, rrRejected = 0, rrCreated = 0,
     rrUpdated = 0, rrDeactivated = 0, rrRejections = [], rrErrorSummary = None\<rparr>"

definition fetch_all :: offer_query_context where
  "fetch_all = \<lparr>ctxCountry = None, ctxDevice = None, ctxSegment = None\<rparr>"

text \<open>The fetch: the registered adapter, and what it returns.\<close>

definition fetchCatalog :: "registry \<Rightarrow> string \<Rightarrow> sync_error + normalized_offer list" where
  "fetchCatalog r slug = (case require_registered r slug of
      Inl e \<Rightarrow> Inl (Thrown e)
    | Inr (_, a) \<Rightarrow> (case fetchOffers a of
        None \<Rightarrow> Inl NotAFunction
      | Some f \<Rightarrow> (case f fetch_all of Inl e \<Rightarrow> Inl (Thrown e) | Inr fetched \<Rightarrow> Inr fetched)))"

text \<open>The body of the \<open>try\<close> up to the prune: the offers written, the counters reached, and the
  error that ended it.\<close>

definition sync_body :: "sync_env \<Rightarrow> registry \<Rightarrow> provider \<Rightarrow> sync_mode \<Rightarrow> millis \<Rightarrow> offer list
    \<Rightarrow> offer list \<times> sync_run_result \<times> sync_error option" where
  "sync_body env r p mode startedAt rows =
     (case fetchCatalog r (prSlug p) of
        Inl e \<Rightarrow> (rows, no_counts, Some e)
      | Inr fetched \<Rightarrow>
          (case writeOffers env (prId p) (resolveRates (seConfig env) (prId p)) [] fetched rows
                  (no_counts\<lparr>rrFetched := int (length fetched)\<rparr>) of
             (rows', c, Some e) \<Rightarrow> (rows', c, Some e)
           | (rows', c, None) \<Rightarrow>
               if mode = FULL
               then (case pruneIfSafe env rows' (prId p) startedAt (rrAccepted c) of (pr, rows'') \<Rightarrow>
                  let c' = c\<lparr>rrDeactivated := deactivated pr\<rparr>
                  in (rows'', if pruned pr then c'
                        else c'\<lparr>rrOutcome := PARTIAL, rrErrorSummary := prune_reason pr\<rparr>, None))
               else (rows', c, None)))"

text \<open>The \<open>catch\<close>: the failure is recorded on the provider and on the run, with the counters
  reached before it.\<close>

definition sync_failed :: "sync_env \<Rightarrow> sync_state \<Rightarrow> offer_sync_run \<Rightarrow> sync_run_result \<Rightarrow> sync_error
    \<Rightarrow> sync_state \<times> offer_sync_run result" where
  "sync_failed env s run c e =
     (let summary = describeFailure env e in
      case recordFailure (seThresholds env) (csProviders s) (syProviderId run) summary of
        Inl e' \<Rightarrow> (s, Inl e')
      | Inr providers' \<Rightarrow>
          (case finishRun (csRuns s) (seFinish env) (syId run)
                  (c\<lparr>rrOutcome := SYNC_FAILED, rrErrorSummary := Some (SyncFailure summary)\<rparr>) of
             Inl e' \<Rightarrow> (s\<lparr>csProviders := providers'\<rparr>, Inl e')
           | Inr (run', runs') \<Rightarrow> (s\<lparr>csProviders := providers', csRuns := runs'\<rparr>, Inr run')))"

definition sync :: "sync_env \<Rightarrow> sync_state \<Rightarrow> id \<Rightarrow> sync_mode \<Rightarrow> sync_state \<times> offer_sync_run result" where
  "sync env s0 providerId mode =
     (let s = s0\<lparr>csRegistry := rebuild (seAdapters env) (seVariables env) (csProviders s0)\<rparr> in
      case requireProvider (csProviders s) providerId of
        Inl e \<Rightarrow> (s, Inl e)
      | Inr p \<Rightarrow> (case startRun (csRuns s) (seRunId env) (seStart env) providerId mode of
          Inl e \<Rightarrow> (s, Inl e)
        | Inr (run, runs) \<Rightarrow>
            (case sync_body env (csRegistry s) p mode (syStartedAt run) (csOffers s) of
               (rows, c, failure) \<Rightarrow>
                 let s1 = s\<lparr>csRuns := runs, csOffers := rows\<rparr> in
                 (case failure of
                    Some e \<Rightarrow> sync_failed env s1 run c e
                  | None \<Rightarrow>
                      (case recordSuccess (csProviders s1) (seHealth env) providerId of
                         Inl e \<Rightarrow> sync_failed env s1 run c (Thrown e)
                       | Inr providers' \<Rightarrow>
                           (case finishRun runs (seFinish env) (syId run) c of
                              Inl e \<Rightarrow> (s1\<lparr>csProviders := providers'\<rparr>, Inl e)
                            | Inr (run', runs') \<Rightarrow>
                                (s1\<lparr>csProviders := providers', csRuns := runs'\<rparr>, Inr run')))))))"

text \<open>\<open>return this.runs.finish(...)\<close> inside the \<open>try\<close> is not awaited there, so a failure of
  it is the caller's. \<open>syncAll\<close> runs the providers that were enabled when it began, one after the
  other, and stops at the first call that throws.\<close>

fun sync_each :: "(nat \<Rightarrow> sync_env) \<Rightarrow> sync_mode \<Rightarrow> id list \<Rightarrow> nat \<Rightarrow> sync_state \<Rightarrow> offer_sync_run list
    \<Rightarrow> sync_state \<times> offer_sync_run list result" where
  "sync_each env mode [] n s runs = (s, Inr runs)"
| "sync_each env mode (p # ps) n s runs = (case sync (env n) s p mode of
     (s', Inl e) \<Rightarrow> (s', Inl e)
   | (s', Inr run) \<Rightarrow> sync_each env mode ps (Suc n) s' (runs @ [run]))"

definition syncAll :: "(nat \<Rightarrow> sync_env) \<Rightarrow> sync_state \<Rightarrow> sync_mode \<Rightarrow> sync_state \<times> offer_sync_run list result" where
  "syncAll env s mode = sync_each env mode (map (\<lambda>p. rgId (fst p)) (enabled_providers (csRegistry s))) 0 s []"

section \<open>Which providers are due\<close>

definition isFullSyncDue :: "(id \<Rightarrow> offers_config) \<Rightarrow> offer_sync_run list \<Rightarrow> provider \<Rightarrow> millis \<Rightarrow> bool" where
  "isFullSyncDue config runs p now = (case lastSuccessfulFullSyncAt runs (prId p) of
      None \<Rightarrow> True
    | Some lastFull \<Rightarrow> now - lastFull \<ge> ocFullSyncIntervalHours (config (prId p)) * 60 * 60 * 1000)"

definition isIncrementalDue :: "provider \<Rightarrow> millis \<Rightarrow> bool" where
  "isIncrementalDue p now = (case prLastSuccessfulSyncAt p of
      None \<Rightarrow> True
    | Some t \<Rightarrow> now - t \<ge> prSyncIntervalMinutes p * 60 * 1000)"

definition due_of :: "(id \<Rightarrow> offers_config) \<Rightarrow> sync_state \<Rightarrow> millis \<Rightarrow> id \<Rightarrow> (id \<times> sync_mode) list" where
  "due_of config s now i = (case findProvider (csProviders s) i of
      None \<Rightarrow> []
    | Some p \<Rightarrow> if isFullSyncDue config (csRuns s) p now then [(prId p, FULL)]
                else if isIncrementalDue p now then [(prId p, INCREMENTAL)] else [])"

definition dueProviders :: "adapter_map \<Rightarrow> (string \<Rightarrow> string option) \<Rightarrow> (id \<Rightarrow> offers_config) \<Rightarrow> sync_state
    \<Rightarrow> millis \<Rightarrow> sync_state \<times> (id \<times> sync_mode) list" where
  "dueProviders adapters variables config s0 now =
     (let s = s0\<lparr>csRegistry := rebuild adapters variables (csProviders s0)\<rparr>
      in (s, concat (map (\<lambda>p. due_of config s now (rgId (fst p))) (enabled_providers (csRegistry s)))))"

end
