(* ===== verification/SyncProps.thy ===== *)
theory SyncProps
  imports CatalogSync
begin

text \<open>
  What a catalog run guarantees: its counters add up, an admin's deactivation survives it, offers
  go dark only on a full run that passed the prune guard, and what that guard compares.
\<close>

section \<open>Counters\<close>

definition rejection_total :: "(offer_rejection_reason \<times> int) list \<Rightarrow> int" where
  "rejection_total rs = sum_list (map snd rs)"

definition counted :: "sync_run_result \<Rightarrow> bool" where
  "counted c \<longleftrightarrow> rrAccepted c = rrCreated c + rrUpdated c \<and> rrRejected c = rejection_total (rrRejections c)
     \<and> distinct (map fst (rrRejections c)) \<and> 0 \<le> rrCreated c \<and> 0 \<le> rrUpdated c"

lemma map_set_keys: "set (map fst (map_set k v kvs)) = insert k (set (map fst kvs))"
  by (induction k v kvs rule: map_set.induct) auto

lemma map_set_distinct: "distinct (map fst kvs) \<Longrightarrow> distinct (map fst (map_set k v kvs))"
proof (induction k v kvs rule: map_set.induct)
  case (2 k v k' v' kvs)
  then show ?case using map_set_keys [of k v kvs] by auto
qed simp

lemma rejection_total_map_set:
  "distinct (map fst rs) \<Longrightarrow> rejection_total (map_set k v rs)
     = rejection_total rs - (case map_of rs k of None \<Rightarrow> 0 | Some n \<Rightarrow> n) + v"
proof (induction k v rs rule: map_set.induct)
  case (2 k v k' v' kvs)
  then show ?case by (auto simp: rejection_total_def)
qed (simp add: rejection_total_def)

lemma count_rejection_simps [simp]:
  "rrAccepted (count_rejection r c) = rrAccepted c" "rrCreated (count_rejection r c) = rrCreated c"
  "rrUpdated (count_rejection r c) = rrUpdated c" "rrRejected (count_rejection r c) = rrRejected c + 1"
  "rrFetched (count_rejection r c) = rrFetched c" "rrOutcome (count_rejection r c) = rrOutcome c"
  "rrDeactivated (count_rejection r c) = rrDeactivated c"
  by (simp_all add: count_rejection_def)

lemma count_written_simps [simp]:
  "rrAccepted (count_written b c) = rrAccepted c + 1"
  "rrCreated (count_written b c) = rrCreated c + (if b then 1 else 0)"
  "rrUpdated (count_written b c) = rrUpdated c + (if b then 0 else 1)"
  "rrRejected (count_written b c) = rrRejected c" "rrRejections (count_written b c) = rrRejections c"
  "rrFetched (count_written b c) = rrFetched c" "rrOutcome (count_written b c) = rrOutcome c"
  "rrDeactivated (count_written b c) = rrDeactivated c"
  by (simp_all add: count_written_def)

lemma counted_rejection: "counted c \<Longrightarrow> counted (count_rejection r c)"
  unfolding counted_def
  by (simp add: count_rejection_def rejection_total_map_set map_set_distinct)

lemma counted_written: "counted c \<Longrightarrow> counted (count_written b c)"
  by (simp add: counted_def)

text \<open>What the loop's two kinds of steps keep, the loop keeps.\<close>

lemma writeOffers_preserves:
  assumes "writeOffers env p rates seen fetched rows c = (rows', c', e)" and "Q rows c"
    and "\<And>rows c reason. Q rows c \<Longrightarrow> Q rows (count_rejection reason c)"
    and "\<And>rows c i now m source created rows'. mapOffer source rates = Inr m
      \<Longrightarrow> upsertFromSync rows i now p m (seSeen env) = Inr (created, rows') \<Longrightarrow> Q rows c
      \<Longrightarrow> Q rows' (count_written created c)"
  shows "Q rows' c'"
  using assms(1,2)
proof (induction fetched arbitrary: seen rows c)
  case (Cons source rest)
  show ?case
  proof (cases "mapOffer source rates")
    case (Inl reason)
    then show ?thesis using Cons assms(3) by simp
  next
    case m: (Inr m)
    show ?thesis
    proof (cases "moExternalId m \<in> set seen")
      case True
      then show ?thesis using Cons m assms(3) by simp
    next
      case False
      show ?thesis
      proof (cases "upsertFromSync rows (seOfferId env (length seen)) (seWritten env (length seen))
          p m (seSeen env)")
        case (Inl x)
        then show ?thesis using Cons.prems m False by simp
      next
        case (Inr x)
        obtain created rows1 where x: "x = (created, rows1)" by fastforce
        show ?thesis
          using Cons.IH [of "moExternalId m # seen" rows1 "count_written created c"] Cons.prems
            assms(4) [OF m Inr [unfolded x] Cons.prems(2)]
          by (simp add: m False Inr x)
      qed
    qed
  qed
qed simp

lemma writeOffers_counts:
  assumes "writeOffers env p rates seen fetched rows c = (rows', c', e)" and "counted c"
  shows "counted c' \<and> rrOutcome c' = rrOutcome c \<and> rrFetched c' = rrFetched c
    \<and> rrDeactivated c' = rrDeactivated c"
  by (rule writeOffers_preserves [OF assms(1), where Q = "\<lambda>_ d. counted d \<and> rrOutcome d = rrOutcome c
      \<and> rrFetched d = rrFetched c \<and> rrDeactivated d = rrDeactivated c"])
    (use assms(2) counted_rejection counted_written in auto)

lemma writeOffers_handled:
  "writeOffers env p rates seen fetched rows c = (rows', c', e)
     \<Longrightarrow> rrAccepted c' + rrRejected c' \<le> rrAccepted c + rrRejected c + int (length fetched)
       \<and> (e = None \<longrightarrow> rrAccepted c' + rrRejected c' = rrAccepted c + rrRejected c + int (length fetched))"
proof (induction fetched arbitrary: seen rows c)
  case (Cons source rest)
  then show ?case
    by (fastforce split: sum.splits if_splits prod.splits)
qed simp


section \<open>A run, taken apart\<close>

lemma startRun_Inr:
  assumes "startRun rows i now p mode = Inr (run, rows')"
  shows "rows' = rows @ [run]" "syId run = i" "i \<notin> set (map syId rows)" "syStartedAt run = now"
    "syProviderId run = p" "syMode run = mode"
  using assms by (auto simp: startRun_def Let_def split: if_splits)

lemma finishRun_started:
  assumes "startRun rows i now p mode = Inr (run, rows')" and "finishRun rows' f i c = Inr (run', rows'')"
  shows "run' = finished f c run"
proof -
  have "List.find (\<lambda>run. syId run = i) rows = None"
    using startRun_Inr(3) [OF assms(1)] by (metis (mono_tags, lifting) find_None_iff image_eqI set_map)
  then have "List.find (\<lambda>run. syId run = i) rows' = Some run"
    using startRun_Inr [OF assms(1)] by (simp add: find_append)
  then show ?thesis using assms(2) by (simp add: finishRun_def)
qed

lemma recordSuccess_known:
  "requireProvider rows p = Inr pr \<Longrightarrow> \<exists>rows'. recordSuccess rows now p = Inr rows'"
  by (auto simp: requireProvider_def findProvider_def recordSuccess_def dest!: find_SomeD split: option.splits)

lemma sync_Inr:
  assumes "sync env s p mode = (s', Inr run)"
  obtains pr c e run0 where
    "requireProvider (csProviders s) p = Inr pr" "prId pr = p"
    "sync_body env (rebuild (seAdapters env) (seVariables env) (csProviders s)) pr mode (seStart env)
       (csOffers s) = (csOffers s', c, e)"
    "(e = None \<and> run = finished (seFinish env) c run0) \<or>
     (\<exists>x. e = Some x \<and> run = finished (seFinish env) (c\<lparr>rrOutcome := SYNC_FAILED,
        rrErrorSummary := Some (SyncFailure (describeFailure env x))\<rparr>) run0)"
    "syProviderId run0 = p" "syMode run0 = mode"
proof -
  define r where "r = rebuild (seAdapters env) (seVariables env) (csProviders s)"
  obtain pr where pr: "requireProvider (csProviders s) p = Inr pr"
    using assms by (auto simp: sync_def Let_def split: sum.splits)
  then have prp: "prId pr = p"
    by (auto simp: requireProvider_def findProvider_def dest!: find_SomeD split: option.splits)
  obtain run0 runs where st: "startRun (csRuns s) (seRunId env) (seStart env) p mode = Inr (run0, runs)"
    using assms pr by (auto simp: sync_def Let_def split: sum.splits)
  obtain rows c e where bd: "sync_body env r pr mode (seStart env) (csOffers s) = (rows, c, e)"
    using prod_cases3 by blast
  have ri: "syId run0 = seRunId env" "syStartedAt run0 = seStart env" using startRun_Inr [OF st] by auto
  obtain providers' where ok: "recordSuccess (csProviders s) (seHealth env) p = Inr providers'"
    using recordSuccess_known [OF pr] by blast
  have fin: "run' = finished f d run0" if "finishRun runs f (seRunId env) d = Inr (run', runs')" for f d run' runs'
    by (rule finishRun_started [OF st that])
  show thesis
  proof (cases e)
    case None
    have "csOffers s' = rows \<and> run = finished (seFinish env) c run0"
      using assms pr st bd ok None fin ri unfolding sync_def Let_def r_def [symmetric]
      by (auto simp flip: r_def split: sum.splits)
    then show thesis using that [of pr c e run0] pr prp bd None startRun_Inr [OF st] by (simp add: r_def)
  next
    case (Some x)
    have "csOffers s' = rows \<and> run = finished (seFinish env) (c\<lparr>rrOutcome := SYNC_FAILED,
        rrErrorSummary := Some (SyncFailure (describeFailure env x))\<rparr>) run0"
      using assms pr st bd Some fin ri unfolding sync_def Let_def r_def [symmetric]
      by (auto simp: sync_failed_def Let_def simp flip: r_def split: sum.splits)
    then show thesis using that [of pr c e run0] pr prp bd Some startRun_Inr [OF st] by (simp add: r_def)
  qed
qed

lemma finished_simps [simp]:
  "syOutcome (finished f c run) = rrOutcome c" "syFinishedAt (finished f c run) = Some f"
  "syFetched (finished f c run) = rrFetched c" "syAccepted (finished f c run) = rrAccepted c"
  "syRejected (finished f c run) = rrRejected c" "syCreated (finished f c run) = rrCreated c"
  "syUpdated (finished f c run) = rrUpdated c" "syDeactivated (finished f c run) = rrDeactivated c"
  "syProviderId (finished f c run) = syProviderId run" "syMode (finished f c run) = syMode run"
  "rejection_total (or_empty (syRejections (finished f c run))) = rejection_total (rrRejections c)"
  by (simp_all add: finished_def or_empty_def rejection_total_def)

text \<open>The body's three endings: nothing fetched, a write that failed, or everything written and,
  on a full run, the prune decided.\<close>

lemma sync_body_cases:
  assumes "sync_body env r pr mode startedAt rows = (rows', c, e)"
  obtains (unfetched) x where "e = Some x" "rows' = rows" "c = no_counts"
    | (broken) fetched x where "fetchCatalog r (prSlug pr) = Inr fetched" "e = Some x"
        "writeOffers env (prId pr) (resolveRates (seConfig env) (prId pr)) [] fetched rows
           (no_counts\<lparr>rrFetched := int (length fetched)\<rparr>) = (rows', c, e)"
    | (incremental) fetched where "fetchCatalog r (prSlug pr) = Inr fetched" "e = None" "mode = INCREMENTAL"
        "writeOffers env (prId pr) (resolveRates (seConfig env) (prId pr)) [] fetched rows
           (no_counts\<lparr>rrFetched := int (length fetched)\<rparr>) = (rows', c, None)"
    | (kept) fetched c1 where "fetchCatalog r (prSlug pr) = Inr fetched" "e = None" "mode = FULL"
        "writeOffers env (prId pr) (resolveRates (seConfig env) (prId pr)) [] fetched rows
           (no_counts\<lparr>rrFetched := int (length fetched)\<rparr>) = (rows', c1, None)"
        "prune_unsafe (int (countActive rows' (prId pr)))
           (ocPruneSafetyThresholdPercent (seConfig env (prId pr))) (rrAccepted c1)"
        "c = c1\<lparr>rrDeactivated := 0, rrOutcome := PARTIAL, rrErrorSummary := Some (PruneSkipped (rrAccepted c1)
           (int (countActive rows' (prId pr))) (ocPruneSafetyThresholdPercent (seConfig env (prId pr))))\<rparr>"
    | (pruned) fetched rows1 c1 where "fetchCatalog r (prSlug pr) = Inr fetched" "e = None" "mode = FULL"
        "writeOffers env (prId pr) (resolveRates (seConfig env) (prId pr)) [] fetched rows
           (no_counts\<lparr>rrFetched := int (length fetched)\<rparr>) = (rows1, c1, None)"
        "\<not> prune_unsafe (int (countActive rows1 (prId pr)))
           (ocPruneSafetyThresholdPercent (seConfig env (prId pr))) (rrAccepted c1)"
        "rows' = snd (deactivateUnseen rows1 (sePrune env) (prId pr) startedAt)"
        "c = c1\<lparr>rrDeactivated := int (fst (deactivateUnseen rows1 (sePrune env) (prId pr) startedAt))\<rparr>"
proof (cases "fetchCatalog r (prSlug pr)")
  case (Inl x)
  then show thesis by (intro unfetched) (use assms in \<open>auto simp: sync_body_def\<close>)
next
  case f: (Inr fetched)
  obtain rows1 c1 e1 where w: "writeOffers env (prId pr) (resolveRates (seConfig env) (prId pr)) [] fetched rows
           (no_counts\<lparr>rrFetched := int (length fetched)\<rparr>) = (rows1, c1, e1)"
    using prod_cases3 by blast
  show thesis
  proof (cases e1)
    case (Some x)
    then show thesis by (intro broken) (use assms f w in \<open>auto simp: sync_body_def\<close>)
  next
    case None
    show thesis
    proof (cases mode)
      case INCREMENTAL
      then show thesis by (intro incremental) (use assms f w None in \<open>auto simp: sync_body_def\<close>)
    next
      case FULL
      show thesis
      proof (cases "prune_unsafe (int (countActive rows1 (prId pr)))
           (ocPruneSafetyThresholdPercent (seConfig env (prId pr))) (rrAccepted c1)")
        case True
        then show thesis
          by (intro kept) (use assms f w None FULL in \<open>auto simp: sync_body_def pruneIfSafe_def Let_def\<close>)
      next
        case False
        then show thesis
          by (intro pruned) (use assms f w None FULL in
            \<open>auto simp: sync_body_def pruneIfSafe_def Let_def split_beta\<close>)
      qed
    qed
  qed
qed


section \<open>The counters of a run\<close>

lemma no_counts_counted: "counted (no_counts\<lparr>rrFetched := n\<rparr>)" "counted no_counts"
  by (simp_all add: counted_def no_counts_def rejection_total_def)

lemma counted_same: "counted c \<Longrightarrow> rrAccepted d = rrAccepted c \<Longrightarrow> rrCreated d = rrCreated c
    \<Longrightarrow> rrUpdated d = rrUpdated c \<Longrightarrow> rrRejected d = rrRejected c \<Longrightarrow> rrRejections d = rrRejections c
    \<Longrightarrow> counted d"
  by (simp add: counted_def)

lemma sync_body_counts:
  assumes "sync_body env r pr mode startedAt rows = (rows', c, e)"
  shows "counted c" and "rrAccepted c + rrRejected c \<le> rrFetched c"
    and "e = None \<Longrightarrow> rrAccepted c + rrRejected c = rrFetched c"
    and "e = None \<Longrightarrow> rrOutcome c = SUCCESS \<or> rrOutcome c = PARTIAL"
proof -
  have "counted c \<and> rrAccepted c + rrRejected c \<le> rrFetched c \<and> (e = None \<longrightarrow>
     rrAccepted c + rrRejected c = rrFetched c \<and> (rrOutcome c = SUCCESS \<or> rrOutcome c = PARTIAL))"
    using assms
  proof (cases rule: sync_body_cases)
    case unfetched
    then show ?thesis by (simp add: no_counts_counted) (simp add: no_counts_def)
  next
    case broken
    then show ?thesis
      using writeOffers_counts [OF broken(3) no_counts_counted(1)] writeOffers_handled [OF broken(3)]
      by (simp add: no_counts_def)
  next
    case incremental
    then show ?thesis
      using writeOffers_counts [OF incremental(4) no_counts_counted(1)] writeOffers_handled [OF incremental(4)]
      by (simp add: no_counts_def)
  next
    case (kept fetched c1)
    then show ?thesis
      using writeOffers_counts [OF kept(4) no_counts_counted(1)] writeOffers_handled [OF kept(4)]
        counted_same [of c1 c] by (simp add: no_counts_def)
  next
    case (pruned fetched rows1 c1)
    then show ?thesis
      using writeOffers_counts [OF pruned(4) no_counts_counted(1)] writeOffers_handled [OF pruned(4)]
        counted_same [of c1 c] by (simp add: no_counts_def)
  qed
  then show "counted c" "rrAccepted c + rrRejected c \<le> rrFetched c"
    "e = None \<Longrightarrow> rrAccepted c + rrRejected c = rrFetched c"
    "e = None \<Longrightarrow> rrOutcome c = SUCCESS \<or> rrOutcome c = PARTIAL" by auto
qed

text \<open>A recorded run is over and its counters add up: what was accepted was created or
  updated, every rejection is under exactly one reason, and unless the run failed every offer
  fetched is either accepted or rejected.\<close>

theorem run_counters_add_up:
  assumes "sync env s p mode = (s', Inr run)"
  shows "syOutcome run \<noteq> RUNNING \<and> syFinishedAt run = Some (seFinish env)
    \<and> syAccepted run = syCreated run + syUpdated run
    \<and> syRejected run = rejection_total (or_empty (syRejections run))
    \<and> syAccepted run + syRejected run \<le> syFetched run
    \<and> (syOutcome run = SYNC_FAILED \<or> syFetched run = syAccepted run + syRejected run)"
  using assms
proof (cases rule: sync_Inr)
  case (1 pr c e run0)
  note b = sync_body_counts [OF 1(3)]
  show ?thesis using 1(4) b by (auto simp: counted_def)
qed

section \<open>What a run does to the rows\<close>

definition offer_step :: "id \<Rightarrow> offer \<Rightarrow> offer \<Rightarrow> bool" where
  "offer_step p x x' \<longleftrightarrow> ofId x' = ofId x \<and> ofProviderId x' = ofProviderId x
     \<and> (admin_deactivated x \<longrightarrow> admin_deactivated x') \<and> (ofIsActive x \<longrightarrow> ofIsActive x')
     \<and> (ofProviderId x = p \<or> x' = x)"

definition rows_step :: "id \<Rightarrow> offer list \<Rightarrow> offer list \<Rightarrow> bool" where
  "rows_step p rows rows' \<longleftrightarrow> (\<forall>x\<in>set rows. \<exists>x'\<in>set rows'. offer_step p x x')"

lemma rows_step_refl: "rows_step p rows rows"
  by (auto simp: rows_step_def offer_step_def)

lemma offer_step_trans: "offer_step p x y \<Longrightarrow> offer_step p y z \<Longrightarrow> offer_step p x z"
  by (auto simp: offer_step_def)

lemma rows_step_trans: "rows_step p a b \<Longrightarrow> rows_step p b c \<Longrightarrow> rows_step p a c"
  unfolding rows_step_def using offer_step_trans by meson

lemma upsert_step:
  assumes "offers_wf rows" and "upsertFromSync rows i now p m seenAt = Inr (created, rows')"
  shows "rows_step p rows rows'"
  using upsertFromSync_Inr(1) [OF assms(2)]
proof (cases rule: upsert_write_cases)
  case created
  then show ?thesis by (auto simp: rows_step_def offer_step_def)
next
  case updated
  have keyed: "List.find (at_key p (moExternalId m)) rows = Some x"
    if "x \<in> set rows" "at_key p (moExternalId m) x" for x
  proof -
    have "List.find (\<lambda>y. (ofProviderId y, moExternalId y) = (ofProviderId x, moExternalId x)) rows = Some x"
      using assms(1) that(1) by (intro find_key_eq) (auto simp: offers_wf_def)
    then show ?thesis using that(2) by (simp add: at_key_def [abs_def])
  qed
  show ?thesis
    unfolding rows_step_def
  proof
    fix x assume x: "x \<in> set rows"
    let ?x' = "if at_key p (moExternalId m) x then (activation (fst (upsert_read rows p m)) (toColumns m x))
        \<lparr>ofLastSeenAt := seenAt, ofUpdatedAt := now\<rparr> else x"
    have "?x' \<in> set rows'" unfolding updated(2) set_update_where using x by auto
    moreover have "offer_step p x ?x'"
      using keyed [OF x] by (auto simp: offer_step_def upsert_read_def admin_deactivated_def at_key_def)
    ultimately show "\<exists>x'\<in>set rows'. offer_step p x x'" by blast
  qed
qed

lemma writeOffers_rows:
  assumes "writeOffers env p rates seen fetched rows c = (rows', c', e)" and "offers_wf rows"
  shows "offers_wf rows' \<and> rows_step p rows rows'"
proof (rule writeOffers_preserves [OF assms(1), where Q = "\<lambda>r _. offers_wf r \<and> rows_step p rows r"])
  show "offers_wf rows \<and> rows_step p rows rows" using assms(2) by (simp add: rows_step_refl)
next
  fix r d i now m source created r'
  assume m: "mapOffer source rates = Inr m"
    and u: "upsertFromSync r i now p m (seSeen env) = Inr (created, r')"
    and q: "offers_wf r \<and> rows_step p rows r"
  have "offers_wf r'"
    by (rule upsert_write_wf [OF _ upsertFromSync_Inr(1) [OF u]]) (use q mapOffer_Inr [OF m] in auto)
  then show "offers_wf r' \<and> rows_step p rows r'"
    using rows_step_trans upsert_step [OF _ u] q by blast
qed

lemma rows_stepD: "rows_step p rows rows' \<Longrightarrow> x \<in> set rows \<Longrightarrow> \<exists>x'\<in>set rows'. ofId x' = ofId x
    \<and> (admin_deactivated x \<longrightarrow> admin_deactivated x') \<and> (ofProviderId x = p \<or> x' = x)
    \<and> (ofIsActive x \<longrightarrow> ofIsActive x')"
  unfolding rows_step_def offer_step_def by blast

lemma deactivateUnseen_row:
  assumes "x \<in> set rows"
  shows "\<exists>x'\<in>set (snd (deactivateUnseen rows now p startedAt)). ofId x' = ofId x
      \<and> ofProviderId x' = ofProviderId x \<and> (\<not> ofIsActive x \<longrightarrow> x' = x) \<and> (ofProviderId x \<noteq> p \<longrightarrow> x' = x)"
proof -
  let ?x' = "if unseen p startedAt x then x\<lparr>ofIsActive := False, ofDeactivatedAt := Some now,
      ofDeactivationSource := Some BySync, ofUpdatedAt := now\<rparr> else x"
  have "?x' \<in> set (snd (deactivateUnseen rows now p startedAt))"
    unfolding deactivateUnseen_def snd_conv set_update_where by (rule imageI [OF assms])
  moreover have "ofId ?x' = ofId x \<and> ofProviderId ?x' = ofProviderId x
      \<and> (\<not> ofIsActive x \<longrightarrow> ?x' = x) \<and> (ofProviderId x \<noteq> p \<longrightarrow> ?x' = x)"
    by (simp add: unseen_def)
  ultimately show ?thesis by blast
qed

text \<open>The body of a run, whatever its ending: no row disappears, other providers' rows are
  untouched, and an admin's deactivation stays.\<close>

lemma sync_body_rows:
  assumes "sync_body env r pr mode startedAt rows = (rows', c, e)" and "offers_wf rows"
    and "x \<in> set rows"
  shows "offers_wf rows'"
    and "\<exists>x'\<in>set rows'. ofId x' = ofId x \<and> (admin_deactivated x \<longrightarrow> admin_deactivated x')
      \<and> (ofProviderId x = prId pr \<or> x' = x)
      \<and> (ofIsActive x \<longrightarrow> ofIsActive x' \<or> (mode = FULL \<and> e = None \<and> rrOutcome c = SUCCESS))"
proof -
  have "offers_wf rows' \<and> (\<exists>x'\<in>set rows'. ofId x' = ofId x \<and> (admin_deactivated x \<longrightarrow> admin_deactivated x')
      \<and> (ofProviderId x = prId pr \<or> x' = x)
      \<and> (ofIsActive x \<longrightarrow> ofIsActive x' \<or> (mode = FULL \<and> e = None \<and> rrOutcome c = SUCCESS)))"
    using assms(1)
  proof (cases rule: sync_body_cases)
    case unfetched
    then show ?thesis using assms(2,3) by auto
  next
    case broken
    then show ?thesis using writeOffers_rows [OF broken(3) assms(2)] rows_stepD [OF _ assms(3)] by blast
  next
    case incremental
    then show ?thesis using writeOffers_rows [OF incremental(4) assms(2)] rows_stepD [OF _ assms(3)] by blast
  next
    case kept
    then show ?thesis using writeOffers_rows [OF kept(4) assms(2)] rows_stepD [OF _ assms(3)] by blast
  next
    case (pruned fetched rows1 c1)
    have w: "offers_wf rows1" "rows_step (prId pr) rows rows1"
      using writeOffers_rows [OF pruned(4) assms(2)] by auto
    obtain x1 where x1: "x1 \<in> set rows1" "offer_step (prId pr) x x1"
      using w(2) assms(3) by (auto simp: rows_step_def)
    obtain x2 where "x2 \<in> set rows'" "ofId x2 = ofId x1" "\<not> ofIsActive x1 \<longrightarrow> x2 = x1"
        "ofProviderId x1 \<noteq> prId pr \<longrightarrow> x2 = x1"
      using deactivateUnseen_row [OF x1(1)] unfolding pruned(6) by blast
    moreover have "rrOutcome c = SUCCESS"
      using writeOffers_counts [OF pruned(4) no_counts_counted(1)]
      by (simp add: pruned(7)) (simp add: no_counts_def)
    moreover have "offers_wf rows'" unfolding pruned(6) by (rule deactivateUnseen_wf [OF w(1)])
    ultimately show ?thesis
      using x1(2) pruned(2,3) by (auto simp: offer_step_def admin_deactivated_def)
  qed
  then show "offers_wf rows'"
    and "\<exists>x'\<in>set rows'. ofId x' = ofId x \<and> (admin_deactivated x \<longrightarrow> admin_deactivated x')
      \<and> (ofProviderId x = prId pr \<or> x' = x)
      \<and> (ofIsActive x \<longrightarrow> ofIsActive x' \<or> (mode = FULL \<and> e = None \<and> rrOutcome c = SUCCESS))"
    by auto
qed


lemma sync_offers:
  "csOffers (fst (sync env s p mode)) = csOffers s \<or>
   (\<exists>pr c e. prId pr = p \<and> sync_body env (rebuild (seAdapters env) (seVariables env) (csProviders s)) pr mode
      (seStart env) (csOffers s) = (csOffers (fst (sync env s p mode)), c, e))"
proof -
  have prp: "requireProvider (csProviders s) p = Inr pr \<Longrightarrow> prId pr = p" for pr
    by (auto simp: requireProvider_def findProvider_def dest!: find_SomeD split: option.splits)
  show ?thesis
  proof (cases "requireProvider (csProviders s) p")
    case (Inr pr)
    show ?thesis
    proof (cases "startRun (csRuns s) (seRunId env) (seStart env) p mode")
      case (Inr z)
      obtain run runs where z: "z = (run, runs)" by fastforce
      have "syStartedAt run = seStart env" using startRun_Inr [OF Inr [unfolded z]] by simp
      moreover obtain rows c e where "sync_body env (rebuild (seAdapters env) (seVariables env) (csProviders s))
          pr mode (seStart env) (csOffers s) = (rows, c, e)"
        using prod_cases3 by blast
      ultimately have "csOffers (fst (sync env s p mode)) = rows \<and> sync_body env
          (rebuild (seAdapters env) (seVariables env) (csProviders s)) pr mode (seStart env) (csOffers s) = (rows, c, e)"
        using \<open>requireProvider (csProviders s) p = Inr pr\<close> Inr z
        by (simp add: sync_def sync_failed_def Let_def split: option.splits sum.splits)
      then show ?thesis using prp \<open>requireProvider (csProviders s) p = Inr pr\<close> by blast
    qed (simp add: sync_def Let_def Inr)
  qed (simp add: sync_def Let_def)
qed

text \<open>An offer an admin removed stays removed: no run, of whatever mode and however it ends,
  reactivates it, deletes it or takes the admin's mark from it.\<close>

theorem admin_deactivation_survives_sync:
  assumes "offers_wf (csOffers s)" and "x \<in> set (csOffers s)" and "admin_deactivated x"
  shows "\<exists>x'\<in>set (csOffers (fst (sync env s p mode))). ofId x' = ofId x \<and> admin_deactivated x'"
  using sync_offers [of env s p mode] sync_body_rows(2) [OF _ assms(1,2)] assms by metis

lemma deactivateUnseen_count:
  "countActive (snd (deactivateUnseen rows now p startedAt)) p + fst (deactivateUnseen rows now p startedAt)
     = countActive rows p"
  by (induction rows) (auto simp: deactivateUnseen_def countActive_def active_of_def unseen_def)

lemma pruned_share:
  assumes "sync_body env r pr FULL startedAt rows = (rows', c, None)" and "rrOutcome c = SUCCESS"
  shows "(int (countActive rows' (prId pr)) + rrDeactivated c)
    * ocPruneSafetyThresholdPercent (seConfig env (prId pr)) \<le> rrAccepted c * 100"
  using assms(1)
proof (cases rule: sync_body_cases)
  case (pruned fetched rows1 c1)
  have "int (countActive rows1 (prId pr)) = int (countActive rows' (prId pr)) + rrDeactivated c"
    using deactivateUnseen_count [of rows1 "sePrune env" "prId pr" startedAt] pruned(6,7) by simp
  moreover have "rrAccepted c1 = rrAccepted c" "0 \<le> rrAccepted c1"
    using pruned(7) writeOffers_counts [OF pruned(4) no_counts_counted(1)] by (auto simp: counted_def)
  ultimately show ?thesis
    using pruned(5) by (cases "countActive rows1 (prId pr) = 0") (auto simp: prune_unsafe_def)
qed (use assms(2) in auto)

text \<open>An offer goes dark only on a full run of its own provider that succeeded and that
  accepted at least the configured share of the offers that were active when it pruned: a failed,
  partial or incremental run deactivates nothing, and other providers' offers stay up.\<close>

theorem offers_go_dark_only_on_success:
  assumes "offers_wf (csOffers s)" and "sync env s p mode = (s', Inr run)"
    and "x \<in> set (csOffers s)" and "ofIsActive x"
    and "filter (\<lambda>x'. ofId x' = ofId x \<and> ofIsActive x') (csOffers s') = []"
  shows "mode = FULL \<and> syOutcome run = SUCCESS \<and> ofProviderId x = p
    \<and> (int (countActive (csOffers s') p) + syDeactivated run)
        * ocPruneSafetyThresholdPercent (seConfig env p) \<le> syAccepted run * 100"
  using assms(2)
proof (cases rule: sync_Inr)
  case (1 pr c e run0)
  have dark: "x' \<in> set (csOffers s') \<Longrightarrow> ofId x' = ofId x \<Longrightarrow> \<not> ofIsActive x'" for x'
    using assms(5) by (auto simp: filter_empty_conv)
  have f: "mode = FULL" "e = None" "rrOutcome c = SUCCESS" "ofProviderId x = p"
    using sync_body_rows(2) [OF 1(3) assms(1,3)] 1(2) assms(4) dark by blast+
  show ?thesis using pruned_share [of env _ pr _ _ _ c] 1(2,3,4) f by fastforce
qed

section \<open>What the prune guard compares\<close>

lemma count_update_le: "count_where q (update_where p f xs) \<le> count_where q xs + count_where p xs"
  by (induction xs) auto

lemma count_update_ge:
  "(\<And>x. q x \<Longrightarrow> p x \<Longrightarrow> q (f x)) \<Longrightarrow> count_where q xs \<le> count_where q (update_where p f xs)"
  by (induction xs) auto

lemma at_key_once:
  "distinct (map (\<lambda>x. (ofProviderId x, moExternalId x)) rows) \<Longrightarrow> count_where (at_key p i) rows \<le> 1"
proof (induction rows)
  case (Cons x rows)
  have "count_where (at_key p i) rows = 0" if "at_key p i x"
    using Cons.prems that by (auto simp: count_where_0_iff at_key_def image_iff)
  then show ?case using Cons by (cases "at_key p i x") auto
qed simp

lemma upsert_active:
  assumes "offers_wf rows" and "upsertFromSync rows i now p m seenAt = Inr (created, rows')"
  shows "countActive rows p + (if created then 1 else 0) \<le> countActive rows' p
    \<and> countActive rows' p \<le> countActive rows p + 1"
proof -
  have c: "created \<longleftrightarrow> List.find (at_key p (moExternalId m)) rows = None"
    using upsertFromSync_Inr(2) [OF assms(2)] by (simp add: upsert_read_def Let_def)
  show ?thesis
    using upsertFromSync_Inr(1) [OF assms(2)]
  proof (cases rule: upsert_write_cases)
    case created
    then show ?thesis using c by (simp add: countActive_def active_of_def)
  next
    case updated
    have "count_where (at_key p (moExternalId m)) rows \<le> 1"
      using assms(1) by (intro at_key_once) (simp add: offers_wf_def)
    moreover have "count_where (active_of p) rows \<le> count_where (active_of p) rows'"
      unfolding updated(2) by (rule count_update_ge) (auto simp: active_of_def)
    moreover have "count_where (active_of p) rows'
        \<le> count_where (active_of p) rows + count_where (at_key p (moExternalId m)) rows"
      unfolding updated(2) by (rule count_update_le)
    moreover have "\<not> created" using c updated(1) by simp
    ultimately show ?thesis by (simp add: countActive_def)
  qed
qed

lemma writeOffers_active:
  assumes "writeOffers env p rates seen fetched rows c = (rows', c', e)" and "offers_wf rows"
  shows "int (countActive rows p) + rrCreated c' - rrCreated c \<le> int (countActive rows' p)
    \<and> int (countActive rows' p)
       \<le> int (countActive rows p) + (rrCreated c' - rrCreated c) + (rrUpdated c' - rrUpdated c)"
proof -
  have "offers_wf rows' \<and> int (countActive rows p) + rrCreated c' - rrCreated c \<le> int (countActive rows' p)
    \<and> int (countActive rows' p)
       \<le> int (countActive rows p) + (rrCreated c' - rrCreated c) + (rrUpdated c' - rrUpdated c)"
  proof (rule writeOffers_preserves [OF assms(1), where Q = "\<lambda>r d. offers_wf r \<and>
      int (countActive rows p) + rrCreated d - rrCreated c \<le> int (countActive r p)
      \<and> int (countActive r p) \<le> int (countActive rows p) + (rrCreated d - rrCreated c) + (rrUpdated d - rrUpdated c)"])
    fix r i now m source created r' and d :: sync_run_result
    assume m: "mapOffer source rates = Inr m"
      and u: "upsertFromSync r i now p m (seSeen env) = Inr (created, r')"
      and q: "offers_wf r \<and> int (countActive rows p) + rrCreated d - rrCreated c \<le> int (countActive r p)
      \<and> int (countActive r p) \<le> int (countActive rows p) + (rrCreated d - rrCreated c) + (rrUpdated d - rrUpdated c)"
    have "offers_wf r'"
      by (rule upsert_write_wf [OF _ upsertFromSync_Inr(1) [OF u]]) (use q mapOffer_Inr [OF m] in auto)
    then show "offers_wf r' \<and>
      int (countActive rows p) + rrCreated (count_written created d) - rrCreated c \<le> int (countActive r' p)
      \<and> int (countActive r' p) \<le> int (countActive rows p) + (rrCreated (count_written created d) - rrCreated c)
          + (rrUpdated (count_written created d) - rrUpdated c)"
      using upsert_active [OF _ u] q by (auto split: if_splits)
  qed (use assms(2) in auto)
  then show ?thesis by blast
qed

text \<open>The guard counts the active offers after the run has written its own: when every offer
  a full run accepted is new, it refuses to prune exactly when the accepted ones fall below the
  threshold of the active ones before the run plus themselves.\<close>

theorem prune_guard_counts_new_offers:
  assumes "offers_wf (csOffers s)" and "sync env s p FULL = (s', Inr run)"
    and "syOutcome run \<noteq> SYNC_FAILED" and "syUpdated run = 0"
  shows "syOutcome run = PARTIAL \<longleftrightarrow> syAccepted run * 100
    < (int (countActive (csOffers s) p) + syAccepted run) * ocPruneSafetyThresholdPercent (seConfig env p)"
  using assms(2)
proof (cases rule: sync_Inr)
  case (1 pr c e run0)
  have fin: "e = None" "run = finished (seFinish env) c run0" using 1(4) assms(3) by auto
  have acc: "rrAccepted c = rrCreated c" "0 \<le> rrCreated c"
    using sync_body_counts(1) [OF 1(3)] assms(4) fin(2) by (auto simp: counted_def)
  have guard: "prune_unsafe (int (countActive rows1 p)) t (rrAccepted c) \<longleftrightarrow>
      rrAccepted c * 100 < (int (countActive (csOffers s) p) + rrAccepted c) * t"
    if w: "writeOffers env p rates [] fetched (csOffers s) (no_counts\<lparr>rrFetched := n\<rparr>) = (rows1, c1, None)"
      and c1: "rrCreated c1 = rrCreated c" "rrUpdated c1 = rrUpdated c" for rates fetched n rows1 c1 t
  proof -
    have a: "int (countActive rows1 p) = int (countActive (csOffers s) p) + rrAccepted c"
      using writeOffers_active [OF w assms(1)] acc c1 assms(4) fin(2) by (simp add: no_counts_def)
    show ?thesis
    proof (cases "int (countActive rows1 p) = 0")
      case True
      then show ?thesis using a acc by (simp add: prune_unsafe_def)
    next
      case False
      then show ?thesis using a by (simp add: prune_unsafe_def)
    qed
  qed
  show ?thesis
    using 1(3)
  proof (cases rule: sync_body_cases)
    case (kept fetched c1)
    then show ?thesis using guard [of _ fetched _ _ c1] 1(2) fin(2) by auto
  next
    case (pruned fetched rows1 c1)
    moreover have "rrOutcome c = SUCCESS"
      using writeOffers_counts [OF pruned(4) no_counts_counted(1)]
      by (simp add: pruned(7)) (simp add: no_counts_def)
    ultimately show ?thesis using guard [of _ fetched _ rows1 c1] 1(2) fin(2) by auto
  qed (use fin(1) in auto)
qed


section \<open>Interleaving with an admin\<close>

text \<open>The upsert reads before it writes: when an admin deactivates an offer between the two, the
  write still reactivates it, and the admin's removal is lost.\<close>

theorem concurrent_admin_deactivation_is_lost:
  assumes "offers_wf rows" and "x \<in> set rows" and "ofIsActive x" and "at_key p (moExternalId m) x"
    and "int4 (moPayoutAmountMinor m)" and "int4 (moRewardPoints m)"
    and "setActive rows t (ofId x) False = Inr (y, rows1)"
  shows "\<not> ofIsActive y \<and> (\<exists>rows2 x'. upsert_write (fst (upsert_read rows p m)) rows1 i now p m seenAt = Inr rows2
    \<and> findOffer rows2 (ofId x) = Some x' \<and> ofIsActive x')"
proof -
  let ?change = "\<lambda>x. x\<lparr>ofIsActive := False, ofDeactivatedAt := Some t,
      ofDeactivationSource := Some ByAdmin, ofUpdatedAt := t\<rparr>"
  let ?written = "\<lambda>x. (activation False (toColumns m x))\<lparr>ofLastSeenAt := seenAt, ofUpdatedAt := now\<rparr>"
  have fx: "findOffer rows (ofId x) = Some x"
    unfolding findOffer_def using assms(1,2) by (intro find_key_eq) (simp_all add: offers_wf_def)
  have r1: "rows1 = update_where (\<lambda>z. ofId z = ofId x) ?change rows" "y = ?change x"
    using assms(3,7) fx by (simp_all add: setActive_def Let_def)
  have "List.find (\<lambda>y. (ofProviderId y, moExternalId y) = (ofProviderId x, moExternalId x)) rows = Some x"
    using assms(1,2) by (intro find_key_eq) (simp_all add: offers_wf_def)
  then have "fst (upsert_read rows p m) = False"
    using assms(3,4) by (simp add: upsert_read_def Let_def at_key_def [abs_def] admin_deactivated_def)
  moreover have mem: "?change x \<in> set rows1" unfolding r1 set_update_where using assms(2) by force
  have "at_key p (moExternalId m) (?change x)" using assms(4) by (simp add: at_key_def)
  then have "List.find (at_key p (moExternalId m)) rows1 \<noteq> None" using find_NoneD mem by metis
  ultimately have w: "upsert_write (fst (upsert_read rows p m)) rows1 i now p m seenAt
      = Inr (update_where (at_key p (moExternalId m)) ?written rows1)"
    using assms(5,6) by (simp only: upsert_write_def) simp
  have "findOffer rows1 (ofId x) = Some (?change x)"
    using fx unfolding findOffer_def r1 by (subst find_update_where) auto
  then have "findOffer (update_where (at_key p (moExternalId m)) ?written rows1) (ofId x) = Some (?written (?change x))"
    using assms(4) unfolding findOffer_def by (subst find_update_where) (auto simp: at_key_def)
  then show ?thesis using w r1(2) by simp
qed

section \<open>A concrete run\<close>

definition demo_sync_adapter :: "normalized_offer list \<Rightarrow> adapter" where
  "demo_sync_adapter fetched = demo_adapter\<lparr>fetchOffers := Some (\<lambda>_. Inr fetched)\<rparr>"

definition demo_env :: "normalized_offer list \<Rightarrow> sync_env" where
  "demo_env fetched = \<lparr>seRunId = 1, seStart = 100, seSeen = 101, sePrune = 102, seHealth = 103, seFinish = 104,
     seOfferId = (\<lambda>n. 20 + n), seWritten = (\<lambda>_. 101), seConfig = (\<lambda>_. default_offers_config),
     seThresholds = (3, 10),
     seAdapters = [(''mock'', \<lparr>dfMetadata = demo_metadata, dfCreate = (\<lambda>_ _. Inr (demo_sync_adapter fetched))\<rparr>)],
     seVariables = (\<lambda>_. None), seRender = (\<lambda>_. ''failure'')\<rparr>"

definition demo_removed :: offer where
  "demo_removed = (new_offer 8 0 1 (demo_mapped ''b'' 200 1400) 0)\<lparr>ofIsActive := False,
     ofDeactivatedAt := Some 50, ofDeactivationSource := Some ByAdmin\<rparr>"

definition demo_second :: offer where
  "demo_second = new_offer 9 0 1 (demo_mapped ''d'' 200 1400) 0"

definition demo_provider :: provider where
  "demo_provider = \<lparr>prId = 1, prSlug = ''mock'', prDisplayName = ''Mock'', prIsEnabled = True,
     prPostbackIpRanges = [], prSyncIntervalMinutes = 60, prHealthState = HEALTHY,
     prConsecutiveFailureCount = 0, prLastSuccessfulSyncAt = None, prLastFailureReason = None, prCreatedAt = 0\<rparr>"

definition demo_sync_state :: "offer list \<Rightarrow> sync_state" where
  "demo_sync_state rows = \<lparr>csOffers = rows, csRuns = [], csProviders = [demo_provider],
     csRegistry = empty_registry\<rparr>"

definition demo_full_run :: "sync_state \<times> offer_sync_run result" where
  "demo_full_run = sync (demo_env [demo_source ''b'' 200, demo_source ''c'' 200])
     (demo_sync_state [demo_offer, demo_removed]) 1 FULL"

definition demo_full_record :: offer_sync_run where
  "demo_full_record = \<lparr>syId = 1, syProviderId = 1, syMode = FULL, syOutcome = SUCCESS, syStartedAt = 100,
     syFinishedAt = Some 104, syFetched = 2, syAccepted = 2, syRejected = 0, syCreated = 1, syUpdated = 1,
     syDeactivated = 1, syRejections = None, syErrorSummary = None\<rparr>"

lemma demo_full: "snd demo_full_run = Inr demo_full_record"
  by code_simp

lemma demo_full_dark: "filter (\<lambda>x'. ofId x' = ofId demo_offer \<and> ofIsActive x') (csOffers (fst demo_full_run)) = []"
  by code_simp

lemma demo_partial: "map_sum id (\<lambda>r. (syOutcome r, syUpdated r, syAccepted r)) (snd (sync (demo_env [demo_source ''c'' 200])
     (demo_sync_state [demo_offer, demo_second]) 1 FULL)) = Inr (PARTIAL, 0, 1)"
  by code_simp


lemma demo_run_eq: "snd r = Inr run \<Longrightarrow> r = (fst r, Inr run)"
  by (cases r) simp

lemma run_counters_add_up_witness:
  "syAccepted demo_full_record = syCreated demo_full_record + syUpdated demo_full_record"
  using run_counters_add_up [OF demo_run_eq [OF demo_full [unfolded demo_full_run_def]]] by blast

lemma demo_rows_wf: "offers_wf (csOffers (demo_sync_state [demo_offer, demo_removed]))"
  by code_simp

lemma admin_deactivation_survives_sync_witness:
  "\<exists>x'\<in>set (csOffers (fst demo_full_run)). ofId x' = 8 \<and> admin_deactivated x'"
proof -
  have "demo_removed \<in> set (csOffers (demo_sync_state [demo_offer, demo_removed]))"
    by (simp add: demo_sync_state_def)
  moreover have "admin_deactivated demo_removed" "ofId demo_removed = 8" by code_simp+
  ultimately show ?thesis
    using admin_deactivation_survives_sync [OF demo_rows_wf] unfolding demo_full_run_def by metis
qed

lemma offers_go_dark_only_on_success_witness:
  "syDeactivated demo_full_record * 50 \<le> syAccepted demo_full_record * 100"
proof -
  have "demo_offer \<in> set (csOffers (demo_sync_state [demo_offer, demo_removed]))"
    by (simp add: demo_sync_state_def)
  moreover have "ofIsActive demo_offer" by (simp add: demo_offer_def)
  ultimately have "(int (countActive (csOffers (fst demo_full_run)) 1) + syDeactivated demo_full_record)
      * ocPruneSafetyThresholdPercent default_offers_config \<le> syAccepted demo_full_record * 100"
    using offers_go_dark_only_on_success [OF demo_rows_wf
        demo_run_eq [OF demo_full [unfolded demo_full_run_def]] _ _ demo_full_dark [unfolded demo_full_run_def]]
    unfolding demo_full_run_def by (simp add: demo_env_def)
  moreover have "ocPruneSafetyThresholdPercent default_offers_config = 50" by code_simp
  ultimately show ?thesis by simp
qed

lemma prune_guard_counts_new_offers_witness:
  "\<exists>run. snd (sync (demo_env [demo_source ''c'' 200]) (demo_sync_state [demo_offer, demo_second]) 1 FULL) = Inr run
    \<and> syOutcome run = PARTIAL \<and> (1 :: int) * 100 < (2 + 1) * 50"
proof -
  let ?s = "demo_sync_state [demo_offer, demo_second]" and ?e = "demo_env [demo_source ''c'' 200]"
  obtain run where run: "snd (sync ?e ?s 1 FULL) = Inr run" "syOutcome run = PARTIAL" "syUpdated run = 0" "syAccepted run = 1"
    using demo_partial by (cases "snd (sync ?e ?s 1 FULL)") auto
  have "offers_wf (csOffers ?s)" "countActive (csOffers ?s) 1 = 2" by code_simp+
  moreover have "ocPruneSafetyThresholdPercent (seConfig ?e 1) = 50" by code_simp
  ultimately have "syOutcome run = PARTIAL \<longleftrightarrow> (1 :: int) * 100 < (2 + 1) * 50"
    using prune_guard_counts_new_offers [OF _ demo_run_eq [OF run(1)]] run by simp
  then show ?thesis using run by blast
qed

lemma concurrent_admin_deactivation_is_lost_witness:
  "\<exists>y rows1 rows2 x'. setActive [demo_offer] 5 7 False = Inr (y, rows1) \<and> \<not> ofIsActive y
    \<and> upsert_write (fst (upsert_read [demo_offer] 1 (demo_mapped ''a'' 200 1400))) rows1 20 6 1
        (demo_mapped ''a'' 200 1400) 6 = Inr rows2
    \<and> findOffer rows2 7 = Some x' \<and> ofIsActive x'"
proof -
  have f: "offers_wf [demo_offer]" "ofIsActive demo_offer" "ofId demo_offer = 7"
    "at_key 1 (moExternalId (demo_mapped ''a'' 200 1400)) demo_offer"
    "int4 (moPayoutAmountMinor (demo_mapped ''a'' 200 1400))" "int4 (moRewardPoints (demo_mapped ''a'' 200 1400))"
    by code_simp+
  obtain y rows1 where a: "setActive [demo_offer] 5 7 False = Inr (y, rows1)"
    using f(2,3) by (simp add: setActive_def findOffer_def Let_def)
  show ?thesis
    using concurrent_admin_deactivation_is_lost [OF f(1) _ f(2,4,5,6), of 5 y rows1 20 6 6] a f(3) by auto
qed

end
