(* ===== verification/Clicks.thy ===== *)
theory Clicks
  imports SyncProps
begin

text \<open>
  Clicks: \<^verbatim>\<open>apps/api/src/modules/clicks\<close>. A click is the promise made to a user, and
  its signed \<open>sub_id\<close> is what a provider's postback later names it by. The keyed hash is an
  argument that returns the digest's bytes; the random bytes, the clock and the ids are arguments of
  the call that draws them.
\<close>

section \<open>Signed identifiers\<close>

text \<open>\<open>toString('base64url')\<close>: six bits per character, no padding.\<close>

definition b64_char :: "nat \<Rightarrow> char" where
  "b64_char n = (if n < 26 then char_of (65 + n) else if n < 52 then char_of (71 + n)
     else if n < 62 then char_of (n - 4) else if n = 62 then CHR ''-'' else CHR ''_'')"

definition b64_digit :: "nat \<Rightarrow> nat \<Rightarrow> char" where
  "b64_digit n shift = b64_char (n div 2 ^ shift mod 64)"

fun base64url :: "byte list \<Rightarrow> string" where
  "base64url [] = []"
| "base64url [a] = (let n = unat a * 2 ^ 16 in [b64_digit n 18, b64_digit n 12])"
| "base64url [a, b] = (let n = unat a * 2 ^ 16 + unat b * 2 ^ 8 in
     [b64_digit n 18, b64_digit n 12, b64_digit n 6])"
| "base64url (a # b # c # bytes) = (let n = unat a * 2 ^ 16 + unat b * 2 ^ 8 + unat c in
     [b64_digit n 18, b64_digit n 12, b64_digit n 6, b64_digit n 0] @ base64url bytes)"

definition TOKEN_BYTES :: nat where
  "TOKEN_BYTES = 16"

definition SIGNATURE_BYTES :: nat where
  "SIGNATURE_BYTES = 16"

definition sub_id_char :: "char \<Rightarrow> bool" where
  "sub_id_char c \<longleftrightarrow> (let n = code_unit c in (65 \<le> n \<and> n \<le> 90) \<or> (97 \<le> n \<and> n \<le> 122)
     \<or> (48 \<le> n \<and> n \<le> 57) \<or> n = 95 \<or> n = 45)"

definition sub_id_part :: "string \<Rightarrow> bool" where
  "sub_id_part s \<longleftrightarrow> 1 \<le> length s \<and> length s \<le> 64 \<and> list_all sub_id_char s"

text \<open>The text before the first dot, and the text after it when there is one.\<close>

definition before_dot :: "string \<Rightarrow> string" where
  "before_dot s = takeWhile (\<lambda>c. c \<noteq> CHR ''.'') s"

definition after_dot :: "string \<Rightarrow> string" where
  "after_dot s = drop (Suc (length (before_dot s))) s"

definition SUB_ID_PATTERN :: "string \<Rightarrow> bool" where
  "SUB_ID_PATTERN s \<longleftrightarrow> CHR ''.'' \<in> set s \<and> sub_id_part (before_dot s) \<and> sub_id_part (after_dot s)"

type_synonym hmac_sha256 = "string \<Rightarrow> string \<Rightarrow> byte list"

definition signToken :: "hmac_sha256 \<Rightarrow> string \<Rightarrow> string \<Rightarrow> string" where
  "signToken hmac secret token = base64url (take SIGNATURE_BYTES (hmac secret token))"

text \<open>The constructor refuses a short secret.\<close>

definition SubIdSigner :: "string \<Rightarrow> string option" where
  "SubIdSigner secret = (if length secret < 32 then None else Some secret)"

definition issueSubId :: "hmac_sha256 \<Rightarrow> string \<Rightarrow> byte list \<Rightarrow> string" where
  "issueSubId hmac secret random =
     (let token = base64url (take TOKEN_BYTES random) in token @ ''.'' @ signToken hmac secret token)"

definition verifySubId :: "hmac_sha256 \<Rightarrow> string \<Rightarrow> string \<Rightarrow> bool" where
  "verifySubId hmac secret subId =
     (if \<not> SUB_ID_PATTERN subId then False
      else let token = before_dot subId; provided = after_dot subId; expected = signToken hmac secret token
           in if length expected \<noteq> length provided then False else expected = provided)"

definition userReference :: "hmac_sha256 \<Rightarrow> string \<Rightarrow> string \<Rightarrow> string" where
  "userReference hmac secret userId = take 22 (base64url (hmac secret (''user:'' @ userId)))"

section \<open>The clicks table\<close>

record click =
  ckId :: id
  ckUserId :: id
  ckOfferId :: id
  ckProviderId :: id
  ckSubId :: string
  ckOfferTitleSnapshot :: string
  ckRewardPointsSnapshot :: int
  ckIpAddress :: "string option"
  ckUserAgent :: "string option"
  ckDeviceFingerprint :: "string option"
  ckReferrer :: "string option"
  ckAttributionExpiresAt :: millis
  ckCreatedAt :: millis

record clicks_config =
  ccAttributionWindowDays :: "id \<Rightarrow> int"
  ccMaxPerUserPerHour :: int
  ccMaxPerIpPerHour :: int

definition default_clicks_config :: clicks_config where
  "default_clicks_config = \<lparr>ccAttributionWindowDays = (\<lambda>_. 30), ccMaxPerUserPerHour = 60,
     ccMaxPerIpPerHour = 300\<rparr>"

definition valid_clicks_config :: "clicks_config \<Rightarrow> id \<Rightarrow> bool" where
  "valid_clicks_config c p \<longleftrightarrow> 1 \<le> ccAttributionWindowDays c p \<and> ccAttributionWindowDays c p \<le> 365
     \<and> 1 \<le> ccMaxPerUserPerHour c \<and> ccMaxPerUserPerHour c \<le> 10000
     \<and> 1 \<le> ccMaxPerIpPerHour c \<and> ccMaxPerIpPerHour c \<le> 100000"

record create_click_input =
  ciUserId :: id
  ciOfferId :: id
  ciIpAddress :: "string option"
  ciUserAgent :: "string option"
  ciDeviceFingerprint :: "string option"
  ciReferrer :: "string option"

record click_response =
  crId :: id
  crSubId :: string
  crRedirectUrl :: string
  crOfferId :: id
  crProviderSlug :: string
  crOfferTitle :: string
  crRewardPoints :: int
  crAttributionExpiresAt :: millis
  crCreatedAt :: millis

definition RATE_WINDOW_MS :: int where
  "RATE_WINDOW_MS = 60 * 60 * 1000"

definition truncate_text :: "string option \<Rightarrow> string option" where
  "truncate_text v = (if length (trimmed v) = 0 then None else Some (take 512 (trimmed v)))"

definition clicks_of_user :: "click list \<Rightarrow> id \<Rightarrow> millis \<Rightarrow> nat" where
  "clicks_of_user rows u since = count_where (\<lambda>c. ckUserId c = u \<and> since \<le> ckCreatedAt c) rows"

definition clicks_of_ip :: "click list \<Rightarrow> string \<Rightarrow> millis \<Rightarrow> nat" where
  "clicks_of_ip rows ip since = count_where (\<lambda>c. ckIpAddress c = Some ip \<and> since \<le> ckCreatedAt c) rows"

definition assertWithinRateLimits :: "clicks_config \<Rightarrow> click list \<Rightarrow> millis \<Rightarrow> id \<Rightarrow> string option
    \<Rightarrow> unit result" where
  "assertWithinRateLimits config rows nowMs u ip =
     (let since = nowMs - RATE_WINDOW_MS in
      if int (clicks_of_user rows u since) \<ge> ccMaxPerUserPerHour config
      then Inl (DomainError CLICK_RATE_LIMIT_EXCEEDED 429)
      else (case ip of
          None \<Rightarrow> Inr ()
        | Some a \<Rightarrow> if int (clicks_of_ip rows a since) \<ge> ccMaxPerIpPerHour config
                    then Inl (DomainError CLICK_RATE_LIMIT_EXCEEDED 429) else Inr ()))"

text \<open>What a call to \<open>create\<close> finds around it: the catalog, the registry, the signer, the
  configuration, the fresh values and the two readings of the clock.\<close>

record click_env =
  ceOffers :: "offer list"
  ceProviders :: "provider list"
  ceRegistry :: registry
  ceConfig :: clicks_config
  ceHmac :: hmac_sha256
  ceSecret :: string
  ceUserName :: "id \<Rightarrow> string"
  ceRandom :: "byte list"
  ceClickId :: id
  ceCheckedAt :: millis
  ceNow :: millis

definition new_click :: "click_env \<Rightarrow> create_click_input \<Rightarrow> offer \<Rightarrow> string \<Rightarrow> click" where
  "new_click env input x subId = \<lparr>ckId = ceClickId env, ckUserId = ciUserId input, ckOfferId = ofId x,
     ckProviderId = ofProviderId x, ckSubId = subId, ckOfferTitleSnapshot = moTitle x,
     ckRewardPointsSnapshot = moRewardPoints x, ckIpAddress = ciIpAddress input,
     ckUserAgent = truncate_text (ciUserAgent input),
     ckDeviceFingerprint = truncate_text (ciDeviceFingerprint input),
     ckReferrer = truncate_text (ciReferrer input),
     ckAttributionExpiresAt = ceNow env
       + ccAttributionWindowDays (ceConfig env) (ofProviderId x) * 24 * 60 * 60 * 1000,
     ckCreatedAt = ceNow env\<rparr>"

text \<open>An adapter without \<open>buildClickUrl\<close> cannot be registered; calling it on one is the runtime's
  \<open>TypeError\<close>, an internal error.\<close>

definition build_url :: "adapter \<Rightarrow> click_url_context \<Rightarrow> string result" where
  "build_url a c = (case buildClickUrl a of
     None \<Rightarrow> Inl (InfrastructureError INTERNAL_ERROR 500 False) | Some f \<Rightarrow> f c)"

definition createClick :: "click_env \<Rightarrow> click list \<Rightarrow> create_click_input \<Rightarrow> (click_response \<times> click list) result" where
  "createClick env rows input =
     (case requireOffer (ceOffers env) (ciOfferId input) of
        Inl e \<Rightarrow> Inl e
      | Inr x \<Rightarrow>
        if \<not> ofIsActive x then Inl (DomainError CLICK_OFFER_UNAVAILABLE 409)
        else (case requireProvider (ceProviders env) (ofProviderId x) of
          Inl e \<Rightarrow> Inl e
        | Inr p \<Rightarrow> (case require_registered (ceRegistry env) (prSlug p) of
            Inl e \<Rightarrow> Inl e
          | Inr (_, a) \<Rightarrow> (case assertWithinRateLimits (ceConfig env) rows (ceCheckedAt env)
                                (ciUserId input) (ciIpAddress input) of
              Inl e \<Rightarrow> Inl e
            | Inr _ \<Rightarrow>
                let subId = issueSubId (ceHmac env) (ceSecret env) (ceRandom env) in
                (case build_url a \<lparr>cuTrackingUrlTemplate = moTrackingUrlTemplate x,
                        cuExternalOfferId = moExternalId x,
                        cuUserReference = userReference (ceHmac env) (ceSecret env)
                          (ceUserName env (ciUserId input)),
                        cuSubId = subId\<rparr> of
                   Inl e \<Rightarrow> Inl e
                 | Inr redirectUrl \<Rightarrow>
                     let c = new_click env input x subId in
                     if ckId c \<in> set (map ckId rows) \<or> subId \<in> set (map ckSubId rows) then Inl UniqueViolation
                     else Inr (\<lparr>crId = ckId c, crSubId = ckSubId c, crRedirectUrl = redirectUrl,
                                crOfferId = ckOfferId c, crProviderSlug = prSlug p,
                                crOfferTitle = ckOfferTitleSnapshot c,
                                crRewardPoints = ckRewardPointsSnapshot c,
                                crAttributionExpiresAt = ckAttributionExpiresAt c,
                                crCreatedAt = ckCreatedAt c\<rparr>, rows @ [c]))))))"

section \<open>Resolving a click\<close>

definition isClickExpired :: "click \<Rightarrow> millis \<Rightarrow> bool" where
  "isClickExpired c t = (ckAttributionExpiresAt c \<le> t)"

definition findBySubId :: "click list \<Rightarrow> string \<Rightarrow> click option" where
  "findBySubId rows subId = List.find (\<lambda>c. ckSubId c = subId) rows"

definition resolveSubId :: "hmac_sha256 \<Rightarrow> string \<Rightarrow> click list \<Rightarrow> millis \<Rightarrow> string \<Rightarrow> click result" where
  "resolveSubId hmac secret rows now subId =
     (if \<not> verifySubId hmac secret subId then Inl (DomainError CLICK_SUB_ID_INVALID 400)
      else (case findBySubId rows subId of
          None \<Rightarrow> Inl (DomainError CLICK_NOT_FOUND 404)
        | Some c \<Rightarrow> if isClickExpired c now then Inl (DomainError CLICK_ATTRIBUTION_EXPIRED 409) else Inr c))"

definition requireClick :: "click list \<Rightarrow> id \<Rightarrow> click result" where
  "requireClick rows i = (case List.find (\<lambda>c. ckId c = i) rows of
     None \<Rightarrow> Inl (DomainError CLICK_NOT_FOUND 404) | Some c \<Rightarrow> Inr c)"

section \<open>Listing clicks\<close>

record list_clicks_query =
  lcUserId :: "id option"
  lcOfferId :: "id option"
  lcProviderId :: "id option"
  lcSubId :: "string option"
  lcIpAddress :: "string option"
  lcLimit :: "int option"
  lcOffset :: "int option"

definition clampClicksLimit :: "int option \<Rightarrow> int" where
  "clampClicksLimit requested = clampLimit 25 100 requested"

definition click_newest :: "click \<Rightarrow> click \<Rightarrow> bool" where
  "click_newest a b \<longleftrightarrow> ckCreatedAt a \<ge> ckCreatedAt b"

definition findManyClicks :: "click list \<Rightarrow> list_clicks_query \<Rightarrow> click paginated" where
  "findManyClicks rows q = page (clampClicksLimit (lcLimit q)) (clampOffset (lcOffset q))
     (sort_by click_newest (filter (\<lambda>c.
        by_filter (lcUserId q) (\<lambda>u. ckUserId c = u)
        \<and> by_filter (lcOfferId q) (\<lambda>i. ckOfferId c = i)
        \<and> by_filter (lcProviderId q) (\<lambda>i. ckProviderId c = i)
        \<and> by_filter (truthy (lcSubId q)) (\<lambda>s. ckSubId c = s)
        \<and> by_filter (truthy (lcIpAddress q)) (\<lambda>a. ckIpAddress c = Some a)) rows))"

definition findManyClicksForUser :: "click list \<Rightarrow> id \<Rightarrow> list_clicks_query \<Rightarrow> click paginated" where
  "findManyClicksForUser rows u q = findManyClicks rows (q\<lparr>lcUserId := Some u, lcSubId := None, lcIpAddress := None\<rparr>)"

section \<open>Sharing\<close>

definition SHARED_IDENTITY_SCAN_LIMIT :: nat where
  "SHARED_IDENTITY_SCAN_LIMIT = 200"

definition IP_VELOCITY_SCAN_LIMIT :: nat where
  "IP_VELOCITY_SCAN_LIMIT = 1000"

definition countOtherAccountsSharingIp :: "click list \<Rightarrow> string \<Rightarrow> id \<Rightarrow> millis \<Rightarrow> nat" where
  "countOtherAccountsSharingIp rows ip excludeUserId since =
     length (take SHARED_IDENTITY_SCAN_LIMIT (add_new [] (map ckUserId (filter (\<lambda>c.
       ckIpAddress c = Some ip \<and> ckCreatedAt c \<ge> since \<and> ckUserId c \<noteq> excludeUserId) rows))))"

definition countOtherAccountsSharingDevice :: "click list \<Rightarrow> string \<Rightarrow> id \<Rightarrow> millis \<Rightarrow> nat" where
  "countOtherAccountsSharingDevice rows device excludeUserId since =
     length (take SHARED_IDENTITY_SCAN_LIMIT (add_new [] (map ckUserId (filter (\<lambda>c.
       ckDeviceFingerprint c = Some device \<and> ckCreatedAt c \<ge> since \<and> ckUserId c \<noteq> excludeUserId) rows))))"

definition findIdsByIpSince :: "click list \<Rightarrow> string \<Rightarrow> millis \<Rightarrow> id list" where
  "findIdsByIpSince rows ip since = map ckId (take IP_VELOCITY_SCAN_LIMIT
     (filter (\<lambda>c. ckIpAddress c = Some ip \<and> ckCreatedAt c \<ge> since) rows))"

section \<open>What leaves the API\<close>

record click_summary =
  clId :: id
  clSubId :: string
  clOfferId :: id
  clProviderSlug :: string
  clOfferTitle :: string
  clRewardPoints :: int
  clAttributionExpiresAt :: millis
  clIsExpired :: bool
  clCreatedAt :: millis

record admin_click_summary = click_summary +
  clUserId :: id
  clProviderId :: id
  clIpAddress :: "string option"
  clUserAgent :: "string option"
  clDeviceFingerprint :: "string option"
  clReferrer :: "string option"

definition toClickSummary :: "click \<Rightarrow> string \<Rightarrow> millis \<Rightarrow> click_summary" where
  "toClickSummary c providerSlug now = \<lparr>clId = ckId c, clSubId = ckSubId c, clOfferId = ckOfferId c,
     clProviderSlug = providerSlug, clOfferTitle = ckOfferTitleSnapshot c,
     clRewardPoints = ckRewardPointsSnapshot c, clAttributionExpiresAt = ckAttributionExpiresAt c,
     clIsExpired = isClickExpired c now, clCreatedAt = ckCreatedAt c\<rparr>"

definition toAdminClickSummary :: "click \<Rightarrow> string \<Rightarrow> millis \<Rightarrow> admin_click_summary" where
  "toAdminClickSummary c providerSlug now = click_summary.extend (toClickSummary c providerSlug now)
     \<lparr>clUserId = ckUserId c, clProviderId = ckProviderId c, clIpAddress = ckIpAddress c,
      clUserAgent = ckUserAgent c, clDeviceFingerprint = ckDeviceFingerprint c, clReferrer = ckReferrer c\<rparr>"

end
