(* ===== verification/ClickProps.thy ===== *)
theory ClickProps
  imports Clicks
begin

text \<open>
  What clicks guarantee: exactly the identifiers the signer issued verify, a click resolves to what
  was promised until its window closes, and nobody clicks more often than the rolling hour allows.
\<close>

section \<open>Base64url\<close>

lemma b64_char_ok [simp]: "n < 64 \<Longrightarrow> sub_id_char (b64_char n)"
  by (auto simp: b64_char_def sub_id_char_def code_unit_def Let_def of_char_of)

lemma base64url_chars: "list_all sub_id_char (base64url bytes)"
  by (induction bytes rule: base64url.induct) (auto simp: Let_def b64_digit_def)

lemma base64url_length: "length (base64url bytes) = (4 * length bytes + 2) div 3"
  by (induction bytes rule: base64url.induct) (auto simp: Let_def)

lemma signToken_part:
  assumes "length (hmac secret token) = 32"
  shows "sub_id_part (signToken hmac secret token)"
  using base64url_chars base64url_length [of "take SIGNATURE_BYTES (hmac secret token)"] assms
  by (auto simp: sub_id_part_def signToken_def SIGNATURE_BYTES_def)

lemma sub_id_char_no_dot: "sub_id_char c \<Longrightarrow> c \<noteq> CHR ''.'' \<and> c \<noteq> CHR '':''"
  by (auto simp: sub_id_char_def code_unit_def Let_def)

lemma split_at_dot:
  assumes "list_all sub_id_char token"
  shows "before_dot (token @ ''.'' @ s) = token" and "after_dot (token @ ''.'' @ s) = s"
proof -
  have "\<forall>c\<in>set token. c \<noteq> CHR ''.''" using assms sub_id_char_no_dot by (auto simp: list_all_iff)
  then show "before_dot (token @ ''.'' @ s) = token" by (simp add: before_dot_def takeWhile_append2)
  then show "after_dot (token @ ''.'' @ s) = s" by (simp add: after_dot_def)
qed

lemma join_at_dot: "CHR ''.'' \<in> set s \<Longrightarrow> s = before_dot s @ ''.'' @ after_dot s"
proof (induction s)
  case (Cons c s)
  then show ?case by (cases "c = CHR ''.''") (auto simp: before_dot_def after_dot_def)
qed simp

section \<open>Verification\<close>

text \<open>For a keyed hash of 32 bytes, an identifier verifies exactly when it is a well-formed token
  followed by a dot and that token's signature; no such token is of the form the user references
  are hashed from.\<close>

theorem verifies_iff_signed:
  assumes "\<And>message. length (hmac secret message) = 32"
  shows "verifySubId hmac secret s =
    (sub_id_part (before_dot s) \<and> s = before_dot s @ ''.'' @ signToken hmac secret (before_dot s)
     \<and> take 5 (before_dot s) \<noteq> ''user:'')"
proof (cases "sub_id_part (before_dot s)")
  case True
  let ?t = "before_dot s"
  have chars: "list_all sub_id_char ?t" using True by (simp add: sub_id_part_def)
  have "take 5 ?t \<noteq> ''user:''"
  proof
    assume "take 5 ?t = ''user:''"
    then have "CHR '':'' \<in> set (take 5 ?t)" by simp
    then have "CHR '':'' \<in> set ?t" by (rule in_set_takeD)
    then show False using chars sub_id_char_no_dot by (auto simp: list_all_iff)
  qed
  moreover have "verifySubId hmac secret s \<longleftrightarrow> s = ?t @ ''.'' @ signToken hmac secret ?t"
  proof
    assume "verifySubId hmac secret s"
    then have "CHR ''.'' \<in> set s" "after_dot s = signToken hmac secret ?t"
      by (auto simp: verifySubId_def SUB_ID_PATTERN_def Let_def split: if_splits)
    then show "s = ?t @ ''.'' @ signToken hmac secret ?t" using join_at_dot by metis
  next
    assume eq: "s = ?t @ ''.'' @ signToken hmac secret ?t"
    have "after_dot s = signToken hmac secret ?t"
      using split_at_dot(2) [OF chars, of "signToken hmac secret ?t"] eq by simp
    moreover have "CHR ''.'' \<in> set s" by (subst eq) simp
    ultimately show "verifySubId hmac secret s"
      using True signToken_part [of hmac secret ?t, OF assms]
      by (simp add: verifySubId_def SUB_ID_PATTERN_def Let_def)
  qed
  ultimately show ?thesis using True by blast
next
  case False
  then show ?thesis by (simp add: verifySubId_def SUB_ID_PATTERN_def)
qed

lemma issued_verifies:
  assumes "\<And>message. length (hmac secret message) = 32" and "length random = TOKEN_BYTES"
  shows "verifySubId hmac secret (issueSubId hmac secret random)"
proof -
  let ?t = "base64url (take TOKEN_BYTES random)"
  have t: "sub_id_part ?t"
    using base64url_chars base64url_length [of "take TOKEN_BYTES random"] assms(2)
    by (auto simp: sub_id_part_def TOKEN_BYTES_def)
  have b: "before_dot (issueSubId hmac secret random) = ?t"
    "after_dot (issueSubId hmac secret random) = signToken hmac secret ?t"
    using split_at_dot [of ?t "signToken hmac secret ?t"] t
    by (simp_all add: issueSubId_def Let_def sub_id_part_def)
  have "CHR ''.'' \<in> set (issueSubId hmac secret random)" by (simp add: issueSubId_def Let_def)
  then show ?thesis
    using signToken_part [of hmac secret ?t, OF assms(1)] t b
    by (simp add: verifySubId_def SUB_ID_PATTERN_def Let_def)
qed

section \<open>Creating and resolving\<close>

lemma createClick_Inr:
  assumes "createClick env rows input = Inr (resp, rows')"
  obtains x where "requireOffer (ceOffers env) (ciOfferId input) = Inr x" "ofIsActive x"
    "assertWithinRateLimits (ceConfig env) rows (ceCheckedAt env) (ciUserId input) (ciIpAddress input) = Inr ()"
    "rows' = rows @ [new_click env input x (issueSubId (ceHmac env) (ceSecret env) (ceRandom env))]"
    "crSubId resp = issueSubId (ceHmac env) (ceSecret env) (ceRandom env)"
    "crRewardPoints resp = moRewardPoints x"
    "crSubId resp \<notin> set (map ckSubId rows)"
proof -
  have "\<exists>x. requireOffer (ceOffers env) (ciOfferId input) = Inr x \<and> ofIsActive x
    \<and> assertWithinRateLimits (ceConfig env) rows (ceCheckedAt env) (ciUserId input) (ciIpAddress input) = Inr ()
    \<and> rows' = rows @ [new_click env input x (issueSubId (ceHmac env) (ceSecret env) (ceRandom env))]
    \<and> crSubId resp = issueSubId (ceHmac env) (ceSecret env) (ceRandom env)
    \<and> crRewardPoints resp = moRewardPoints x \<and> crSubId resp \<notin> set (map ckSubId rows)"
    using assms
    by (auto simp: createClick_def Let_def new_click_def split: sum.splits if_splits prod.splits)
  then show thesis using that by blast
qed

text \<open>C36. The promise of a click: whatever clicks come later and however the offer and the
  configuration change, the identifier handed out resolves to the same user, offer title and points
  until the window stored with the click closes, and is refused as expired from then on.\<close>

theorem issued_click_resolves:
  assumes "\<And>message. length (ceHmac env (ceSecret env) message) = 32"
    and "length (ceRandom env) = TOKEN_BYTES"
    and "createClick env rows input = Inr (resp, rows')"
    and "crSubId resp \<notin> set (map ckSubId later)"
  shows "\<exists>x c. findOffer (ceOffers env) (ciOfferId input) = Some x
    \<and> ckUserId c = ciUserId input \<and> ckRewardPointsSnapshot c = moRewardPoints x
    \<and> ckOfferTitleSnapshot c = moTitle x \<and> crRewardPoints resp = moRewardPoints x
    \<and> ckAttributionExpiresAt c = ceNow env
        + ccAttributionWindowDays (ceConfig env) (ofProviderId x) * 24 * 60 * 60 * 1000
    \<and> (\<forall>t. resolveSubId (ceHmac env) (ceSecret env) (rows' @ later) t (crSubId resp) =
         (if t < ckAttributionExpiresAt c then Inr c else Inl (DomainError CLICK_ATTRIBUTION_EXPIRED 409)))"
  using assms(3)
proof (cases rule: createClick_Inr)
  case (1 x)
  let ?s = "issueSubId (ceHmac env) (ceSecret env) (ceRandom env)"
  let ?c = "new_click env input x ?s"
  have "List.find (\<lambda>c. ckSubId c = ?s) rows = None"
    using 1(5,7) by (metis (mono_tags, lifting) find_None_iff image_eqI set_map)
  then have "findBySubId (rows' @ later) ?s = Some ?c"
    by (simp add: findBySubId_def 1(4) find_append) (simp add: new_click_def)
  then have "resolveSubId (ceHmac env) (ceSecret env) (rows' @ later) t (crSubId resp) =
      (if t < ckAttributionExpiresAt ?c then Inr ?c else Inl (DomainError CLICK_ATTRIBUTION_EXPIRED 409))" for t
    using issued_verifies [of "ceHmac env" "ceSecret env", OF assms(1,2)] 1(5)
    by (simp add: resolveSubId_def isClickExpired_def)
  moreover have "findOffer (ceOffers env) (ciOfferId input) = Some x"
    using 1(1) by (simp add: requireOffer_def split: option.splits)
  moreover have "ckUserId ?c = ciUserId input \<and> ckRewardPointsSnapshot ?c = moRewardPoints x
    \<and> ckOfferTitleSnapshot ?c = moTitle x \<and> ckAttributionExpiresAt ?c = ceNow env
        + ccAttributionWindowDays (ceConfig env) (ofProviderId x) * 24 * 60 * 60 * 1000"
    by (simp add: new_click_def)
  ultimately show ?thesis using 1(6) by blast
qed


section \<open>The rolling hour\<close>

text \<open>Clicks made one after the other; a refused one leaves the table as it is.\<close>

fun run_clicks :: "click list \<Rightarrow> (click_env \<times> create_click_input) list \<Rightarrow> click list" where
  "run_clicks rows [] = rows"
| "run_clicks rows ((env, input) # calls) = (case createClick env rows input of
     Inl _ \<Rightarrow> run_clicks rows calls | Inr (_, rows') \<Rightarrow> run_clicks rows' calls)"

text \<open>The clock does not run backwards within a call or between calls.\<close>

fun clock_forward :: "millis \<Rightarrow> (click_env \<times> create_click_input) list \<Rightarrow> bool" where
  "clock_forward t [] \<longleftrightarrow> True"
| "clock_forward t ((env, input) # calls) \<longleftrightarrow>
     t \<le> ceCheckedAt env \<and> ceCheckedAt env \<le> ceNow env \<and> clock_forward (ceNow env) calls"

definition in_hour :: "(click \<Rightarrow> bool) \<Rightarrow> millis \<Rightarrow> click list \<Rightarrow> int" where
  "in_hour p t rows = int (count_where
     (\<lambda>c. p c \<and> t \<le> ckCreatedAt c \<and> ckCreatedAt c \<le> t + RATE_WINDOW_MS) rows)"

lemma count_where_mono: "(\<And>x. p x \<Longrightarrow> q x) \<Longrightarrow> count_where p xs \<le> count_where q xs"
  by (induction xs) auto

lemma in_hour_snoc:
  assumes "in_hour p t rows \<le> l" and "checked \<le> ckCreatedAt c"
    and "p c \<Longrightarrow> int (count_where (\<lambda>c. p c \<and> checked - RATE_WINDOW_MS \<le> ckCreatedAt c) rows) < l"
  shows "in_hour p t (rows @ [c]) \<le> l"
proof (cases "p c \<and> t \<le> ckCreatedAt c \<and> ckCreatedAt c \<le> t + RATE_WINDOW_MS")
  case True
  have "count_where (\<lambda>c. p c \<and> t \<le> ckCreatedAt c \<and> ckCreatedAt c \<le> t + RATE_WINDOW_MS) rows
      \<le> count_where (\<lambda>c. p c \<and> checked - RATE_WINDOW_MS \<le> ckCreatedAt c) rows"
    by (rule count_where_mono) (use True assms(2) in linarith)
  then show ?thesis using True assms(3) by (simp add: in_hour_def)
next
  case False
  show ?thesis using assms(1)
    by (simp only: in_hour_def count_where_append count_where_Cons count_where_Nil if_not_P [OF False] add_0_right)
qed

lemma rate_limits_passed:
  assumes "assertWithinRateLimits config rows now u ip = Inr ()"
  shows "int (clicks_of_user rows u (now - RATE_WINDOW_MS)) < ccMaxPerUserPerHour config"
    and "ip = Some a \<Longrightarrow> int (clicks_of_ip rows a (now - RATE_WINDOW_MS)) < ccMaxPerIpPerHour config"
  using assms by (auto simp: assertWithinRateLimits_def Let_def split: if_splits option.splits)

lemma run_clicks_in_hour:
  assumes "clock_forward t0 calls" and "in_hour p t rows \<le> l"
    and "\<And>env rows input resp c. (env, input) \<in> set calls \<Longrightarrow> createClick env rows input = Inr (resp, rows @ [c])
      \<Longrightarrow> p c
      \<Longrightarrow> int (count_where (\<lambda>c. p c \<and> ceCheckedAt env - RATE_WINDOW_MS \<le> ckCreatedAt c) rows) < l"
  shows "in_hour p t (run_clicks rows calls) \<le> l"
  using assms
proof (induction calls arbitrary: t0 rows)
  case (Cons call calls)
  obtain env input where call: "call = (env, input)" by fastforce
  have below: "int (count_where (\<lambda>c. p c \<and> ceCheckedAt e - RATE_WINDOW_MS \<le> ckCreatedAt c) rs) < l"
    if "(e, i) \<in> set calls" "createClick e rs i = Inr (resp, rs @ [c])" "p c" for e i rs resp c
    by (rule Cons.prems(3) [OF list.set_intros(2) [OF that(1)] that(2,3)])
  show ?case
  proof (cases "createClick env rows input")
    case (Inl e)
    have "in_hour p t (run_clicks rows calls) \<le> l"
      by (rule Cons.IH [of "ceNow env"]) (use Cons.prems(1,2) call below in auto)
    then show ?thesis by (simp add: call Inl)
  next
    case (Inr z)
    obtain resp rows' where z: "z = (resp, rows')" by fastforce
    from Inr z obtain x where x: "rows' = rows @ [new_click env input x
        (issueSubId (ceHmac env) (ceSecret env) (ceRandom env))]"
      by (auto elim: createClick_Inr)
    have "ceCheckedAt env \<le> ckCreatedAt (new_click env input x s)" for s
      using Cons.prems(1) call by (simp add: new_click_def)
    then have "in_hour p t rows' \<le> l"
      unfolding x using Cons.prems(3) [of env input rows resp] Inr z call x
      by (intro in_hour_snoc [OF Cons.prems(2)]) auto
    then have "in_hour p t (run_clicks rows' calls) \<le> l"
      by (intro Cons.IH [of "ceNow env"]) (use Cons.prems(1) call below in auto)
    then show ?thesis by (simp add: call Inr z)
  qed
qed simp

text \<open>C37. The rate limits hold over every rolling hour, not only over the hour before a call: of the
  clicks recorded one after the other under given limits, no sixty minutes contain more of one user,
  or from one address, than the limit.\<close>

theorem rolling_hour_limits:
  assumes "clock_forward t0 calls" and "0 \<le> userLimit" and "0 \<le> ipLimit"
    and "list_all (\<lambda>(env, _). ccMaxPerUserPerHour (ceConfig env) = userLimit
          \<and> ccMaxPerIpPerHour (ceConfig env) = ipLimit) calls"
  shows "in_hour (\<lambda>c. ckUserId c = u) t (run_clicks [] calls) \<le> userLimit
    \<and> in_hour (\<lambda>c. ckIpAddress c = Some ip) t (run_clicks [] calls) \<le> ipLimit"
proof
  show "in_hour (\<lambda>c. ckUserId c = u) t (run_clicks [] calls) \<le> userLimit"
  proof (rule run_clicks_in_hour [OF assms(1)])
    fix env rows input resp c
    assume a: "(env, input) \<in> set calls" "createClick env rows input = Inr (resp, rows @ [c])" "ckUserId c = u"
    show "int (count_where (\<lambda>c. ckUserId c = u \<and> ceCheckedAt env - RATE_WINDOW_MS \<le> ckCreatedAt c) rows) < userLimit"
      using a(2)
    proof (cases rule: createClick_Inr)
      case (1 x)
      then have "u = ciUserId input" using a(3) by (auto simp: new_click_def)
      then show ?thesis
        using rate_limits_passed(1) [OF 1(3)] a(1) assms(4) by (auto simp: list_all_iff clicks_of_user_def)
    qed
  qed (use assms(2) in \<open>simp add: in_hour_def\<close>)
  show "in_hour (\<lambda>c. ckIpAddress c = Some ip) t (run_clicks [] calls) \<le> ipLimit"
  proof (rule run_clicks_in_hour [OF assms(1)])
    fix env rows input resp c
    assume a: "(env, input) \<in> set calls" "createClick env rows input = Inr (resp, rows @ [c])" "ckIpAddress c = Some ip"
    show "int (count_where (\<lambda>c. ckIpAddress c = Some ip \<and> ceCheckedAt env - RATE_WINDOW_MS \<le> ckCreatedAt c) rows) < ipLimit"
      using a(2)
    proof (cases rule: createClick_Inr)
      case (1 x)
      then have "ciIpAddress input = Some ip" using a(3) by (auto simp: new_click_def)
      then show ?thesis
        using rate_limits_passed(2) [OF 1(3)] a(1) assms(4) by (auto simp: list_all_iff clicks_of_ip_def)
    qed
  qed (use assms(3) in \<open>simp add: in_hour_def\<close>)
qed

section \<open>Concrete clicks\<close>

definition demo_hmac :: hmac_sha256 where
  "demo_hmac secret message = replicate 32 (of_nat (length message))"

definition demo_click_env :: "id \<Rightarrow> byte \<Rightarrow> click_env" where
  "demo_click_env i b = \<lparr>ceOffers = [demo_offer], ceProviders = [demo_provider], ceRegistry = demo_registry,
     ceConfig = default_clicks_config\<lparr>ccMaxPerUserPerHour := 1\<rparr>, ceHmac = demo_hmac, ceSecret = ''secret'',
     ceUserName = (\<lambda>_. ''u''), ceRandom = replicate 16 b, ceClickId = i, ceCheckedAt = 10, ceNow = 10\<rparr>"

definition demo_click_input :: create_click_input where
  "demo_click_input = \<lparr>ciUserId = 3, ciOfferId = 7, ciIpAddress = Some ''1.2.3.4'', ciUserAgent = None,
     ciDeviceFingerprint = Some '' '', ciReferrer = None\<rparr>"

lemma verifies_iff_signed_witness:
  "verifySubId demo_hmac [] (''abc'' @ ''.'' @ signToken demo_hmac [] ''abc'')"
proof -
  have "list_all sub_id_char ''abc''" "sub_id_part ''abc''" by code_simp+
  then show ?thesis
    using verifies_iff_signed [of demo_hmac "[]" "''abc'' @ ''.'' @ signToken demo_hmac [] ''abc''"]
      split_at_dot(1) [of "''abc''" "signToken demo_hmac [] ''abc''"] by (simp add: demo_hmac_def)
qed

lemma createClick_ok:
  assumes "requireOffer (ceOffers env) (ciOfferId input) = Inr x" and "ofIsActive x"
    and "requireProvider (ceProviders env) (ofProviderId x) = Inr p"
    and "require_registered (ceRegistry env) (prSlug p) = Inr (g, a)" and "buildClickUrl a = Some f"
    and "\<And>c. f c = Inr (url c)"
    and "assertWithinRateLimits (ceConfig env) [] (ceCheckedAt env) (ciUserId input) (ciIpAddress input) = Inr ()"
  shows "\<exists>resp. createClick env [] input = Inr (resp,
    [new_click env input x (issueSubId (ceHmac env) (ceSecret env) (ceRandom env))])"
  using assms by (simp add: createClick_def build_url_def Let_def)

lemma demo_click: "\<exists>resp. createClick (demo_click_env 11 b) [] demo_click_input = Inr (resp,
    [new_click (demo_click_env 11 b) demo_click_input demo_offer (issueSubId demo_hmac ''secret'' (replicate 16 b))])"
proof -
  have r: "requireOffer [demo_offer] 7 = Inr demo_offer" "ofIsActive demo_offer" "ofProviderId demo_offer = 1"
    "requireProvider [demo_provider] 1 = Inr demo_provider" "prSlug demo_provider = ''mock''"
    by code_simp+
  have "require_registered demo_registry ''mock'' = Inr (demo_registration, demo_adapter)"
    by (simp add: require_registered_def demo_registry_def demo_registration_def)
  then show ?thesis
    using createClick_ok [of "demo_click_env 11 b" demo_click_input demo_offer demo_provider
        demo_registration demo_adapter "\<lambda>c. Inr (cuSubId c)" cuSubId] r
    by (simp add: demo_click_env_def demo_click_input_def demo_adapter_def default_clicks_config_def
        assertWithinRateLimits_def clicks_of_user_def clicks_of_ip_def)
qed

lemma issued_click_resolves_witness:
  "\<exists>resp rows' c. createClick (demo_click_env 11 5) [] demo_click_input = Inr (resp, rows')
    \<and> resolveSubId demo_hmac ''secret'' rows' 11 (crSubId resp) = Inr c \<and> ckUserId c = 3"
proof -
  obtain resp rows' where r: "createClick (demo_click_env 11 5) [] demo_click_input = Inr (resp, rows')"
    using demo_click by blast
  have h: "length (ceHmac (demo_click_env 11 5) (ceSecret (demo_click_env 11 5)) m) = 32" for m
    by (simp add: demo_click_env_def demo_hmac_def)
  have n: "length (ceRandom (demo_click_env 11 5)) = TOKEN_BYTES"
    by (simp add: demo_click_env_def TOKEN_BYTES_def)
  have e: "ceHmac (demo_click_env 11 5) = demo_hmac" "ceSecret (demo_click_env 11 5) = ''secret''"
    "ceNow (demo_click_env 11 5) = 10" "ccAttributionWindowDays (ceConfig (demo_click_env 11 5)) p = 30" for p
    by (simp_all add: demo_click_env_def default_clicks_config_def)
  obtain c where c: "ckUserId c = 3" "ckAttributionExpiresAt c = 10 + 30 * 24 * 60 * 60 * 1000"
    "resolveSubId demo_hmac ''secret'' rows' 11 (crSubId resp) =
       (if 11 < ckAttributionExpiresAt c then Inr c else Inl (DomainError CLICK_ATTRIBUTION_EXPIRED 409))"
    using issued_click_resolves [OF h n r, of "[]"] by (auto simp: e demo_click_input_def)
  show ?thesis using r c by (simp add: c(2))
qed

definition demo_calls :: "(click_env \<times> create_click_input) list" where
  "demo_calls = [(demo_click_env 11 5, demo_click_input), (demo_click_env 12 6, demo_click_input)]"

lemma rolling_hour_limits_witness:
  "in_hour (\<lambda>c. ckUserId c = 3) 10 (run_clicks [] demo_calls) \<le> 1 \<and> length (run_clicks [] demo_calls) = 1"
proof -
  have refused: "createClick (demo_click_env 12 6) [c] demo_click_input = Inl (DomainError CLICK_RATE_LIMIT_EXCEEDED 429)"
    if "ckUserId c = 3" "ckCreatedAt c = 10" for c
  proof -
    have "requireOffer [demo_offer] 7 = Inr demo_offer" "ofIsActive demo_offer" "ofProviderId demo_offer = 1"
      "requireProvider [demo_provider] 1 = Inr demo_provider" "prSlug demo_provider = ''mock''"
      by code_simp+
    moreover have "require_registered demo_registry ''mock'' = Inr (demo_registration, demo_adapter)"
      by (simp add: require_registered_def demo_registry_def demo_registration_def)
    ultimately show ?thesis
      by (simp add: createClick_def demo_click_env_def demo_click_input_def assertWithinRateLimits_def
          clicks_of_user_def that default_clicks_config_def RATE_WINDOW_MS_def)
  qed
  let ?c = "new_click (demo_click_env 11 5) demo_click_input demo_offer (issueSubId demo_hmac ''secret'' (replicate 16 5))"
  obtain resp where "createClick (demo_click_env 11 5) [] demo_click_input = Inr (resp, [?c])"
    using demo_click by blast
  moreover have "ckUserId ?c = 3" "ckCreatedAt ?c = 10"
    by (simp_all add: new_click_def demo_click_env_def demo_click_input_def)
  ultimately have "length (run_clicks [] demo_calls) = 1"
    by (simp add: demo_calls_def refused)
  moreover have "clock_forward 0 demo_calls" by (simp add: demo_calls_def demo_click_env_def)
  moreover have "list_all (\<lambda>(env, _). ccMaxPerUserPerHour (ceConfig env) = 1
      \<and> ccMaxPerIpPerHour (ceConfig env) = 300) demo_calls"
    by (simp add: demo_calls_def demo_click_env_def default_clicks_config_def)
  ultimately show ?thesis using rolling_hour_limits [of 0 demo_calls 1 300 3 10] by simp
qed

end
