(* ===== verification/Users.thy ===== *)
theory Users
  imports RewardProps MockAdapter
begin

text \<open>
  Accounts: \<^verbatim>\<open>apps/api/src/modules/users/users.service.ts\<close>. Creating a user opens
  the balance in the same transaction. A status or role change runs inside the caller's
  transaction, after locking the active administrators' rows, so two such changes happen one after
  the other; the check that an administrator remains sees the change it follows.
\<close>

section \<open>Users\<close>

datatype user_role = ROLE_USER | ROLE_ADMIN

datatype user_status = ACTIVE | SUSPENDED | BANNED | CLOSED

record user =
  usId :: id
  usEmail :: string
  usPasswordHash :: string
  usRole :: user_role
  usStatus :: user_status
  usEmailVerifiedAt :: "millis option"
  usRegistrationIp :: "string option"
  usRegistrationCountry :: "string option"
  usLocale :: string
  usCreatedAt :: millis
  usUpdatedAt :: millis

record users_state =
  usUsers :: "user list"
  usLedger :: ledger

definition no_users :: users_state where
  "no_users = \<lparr>usUsers = [], usLedger = empty_ledger\<rparr>"

definition normalizeEmail :: "string \<Rightarrow> string" where
  "normalizeEmail email = js_lower (js_trim email)"

record create_user_input =
  cxEmail :: string
  cxPasswordHash :: string
  cxRegistrationIp :: "string option"
  cxRegistrationCountry :: "string option"
  cxLocale :: "string option"

definition new_user :: "id \<Rightarrow> millis \<Rightarrow> create_user_input \<Rightarrow> user" where
  "new_user i now input = \<lparr>usId = i, usEmail = normalizeEmail (cxEmail input),
     usPasswordHash = cxPasswordHash input, usRole = ROLE_USER, usStatus = ACTIVE,
     usEmailVerifiedAt = None, usRegistrationIp = cxRegistrationIp input,
     usRegistrationCountry = cxRegistrationCountry input,
     usLocale = (case truthy (cxLocale input) of None \<Rightarrow> ''en'' | Some l \<Rightarrow> l),
     usCreatedAt = now, usUpdatedAt = now\<rparr>"

definition createUser :: "users_state \<Rightarrow> id \<Rightarrow> id \<Rightarrow> millis \<Rightarrow> create_user_input
    \<Rightarrow> (user \<times> users_state) result" where
  "createUser s i balanceId now input =
     (let u = new_user i now input in
      if usEmail u \<in> set (map usEmail (usUsers s)) then Inl (DomainError AUTH_EMAIL_TAKEN 409)
      else if i \<in> set (map usId (usUsers s)) then Inl UniqueViolation
      else Inr (u, s\<lparr>usUsers := usUsers s @ [u], usLedger := openAccount (usLedger s) balanceId i\<rparr>))"

definition findUserByEmail :: "user list \<Rightarrow> string \<Rightarrow> user option" where
  "findUserByEmail rows email = List.find (\<lambda>u. usEmail u = normalizeEmail email) rows"

definition findUser :: "user list \<Rightarrow> id \<Rightarrow> user option" where
  "findUser rows i = List.find (\<lambda>u. usId u = i) rows"

definition requireUser :: "user list \<Rightarrow> id \<Rightarrow> user result" where
  "requireUser rows i = (case findUser rows i of
     None \<Rightarrow> Inl (DomainError USER_NOT_FOUND 404) | Some u \<Rightarrow> Inr u)"

definition isActiveUser :: "user \<Rightarrow> bool" where
  "isActiveUser u \<longleftrightarrow> usStatus u = ACTIVE"

text \<open>\<open>update\<close> of one row by id; the row that is not there is the database's error.\<close>

definition update_user :: "user list \<Rightarrow> id \<Rightarrow> (user \<Rightarrow> user) \<Rightarrow> (user \<times> user list) result" where
  "update_user rows i f = (case findUser rows i of
      None \<Rightarrow> Inl RecordMissing
    | Some u \<Rightarrow> Inr (f u, update_where (\<lambda>x. usId x = i) f rows))"

definition updateProfile :: "user list \<Rightarrow> millis \<Rightarrow> id \<Rightarrow> string option \<Rightarrow> (user \<times> user list) result" where
  "updateProfile rows now i loc = (case loc of
      None \<Rightarrow> map_sum (\<lambda>e. e) (\<lambda>u. (u, rows)) (requireUser rows i)
    | Some l \<Rightarrow> update_user rows i (\<lambda>u. u\<lparr>usLocale := l, usUpdatedAt := now\<rparr>))"

definition updatePasswordHash :: "user list \<Rightarrow> millis \<Rightarrow> id \<Rightarrow> string \<Rightarrow> (user \<times> user list) result" where
  "updatePasswordHash rows now i h = update_user rows i (\<lambda>u. u\<lparr>usPasswordHash := h, usUpdatedAt := now\<rparr>)"

section \<open>Status and role\<close>

definition active_admin :: "user \<Rightarrow> bool" where
  "active_admin u \<longleftrightarrow> usRole u = ROLE_ADMIN \<and> usStatus u = ACTIVE"

definition assertAnAdminRemains :: "user list \<Rightarrow> unit result" where
  "assertAnAdminRemains rows = (if count_where active_admin rows > 0 then Inr ()
     else Inl (DomainError ADMIN_LAST_ADMIN_PROTECTED 409))"

definition canTransitionStatus :: "user_status \<Rightarrow> user_status \<Rightarrow> bool" where
  "canTransitionStatus old new = (if old = CLOSED then False else new \<noteq> old)"

definition updateStatus :: "user list \<Rightarrow> millis \<Rightarrow> id \<Rightarrow> user_status \<Rightarrow> (user \<times> user list) result" where
  "updateStatus rows now i status =
     (case requireUser rows i of
        Inl e \<Rightarrow> Inl e
      | Inr u \<Rightarrow>
          if usStatus u = status then Inl (DomainError USER_INVALID_STATUS_TRANSITION 409)
          else if \<not> canTransitionStatus (usStatus u) status then Inl (DomainError USER_INVALID_STATUS_TRANSITION 409)
          else (case update_user rows i (\<lambda>u. u\<lparr>usStatus := status, usUpdatedAt := now\<rparr>) of
              Inl e \<Rightarrow> Inl e
            | Inr (u', rows') \<Rightarrow> (case assertAnAdminRemains rows' of
                Inl e \<Rightarrow> Inl e | Inr _ \<Rightarrow> Inr (u', rows'))))"

definition updateRole :: "user list \<Rightarrow> millis \<Rightarrow> id \<Rightarrow> user_role \<Rightarrow> (user \<times> user list) result" where
  "updateRole rows now i role =
     (case requireUser rows i of
        Inl e \<Rightarrow> Inl e
      | Inr u \<Rightarrow>
          if usRole u = role then Inl (DomainError USER_ROLE_UNCHANGED 409)
          else (case update_user rows i (\<lambda>u. u\<lparr>usRole := role, usUpdatedAt := now\<rparr>) of
              Inl e \<Rightarrow> Inl e
            | Inr (u', rows') \<Rightarrow> (case assertAnAdminRemains rows' of
                Inl e \<Rightarrow> Inl e | Inr _ \<Rightarrow> Inr (u', rows'))))"

section \<open>Listing and views\<close>

record list_users_query =
  luStatus :: "user_status option"
  luRole :: "user_role option"
  luEmail :: "string option"
  luLimit :: "int option"
  luOffset :: "int option"

definition clampUsersLimit :: "int option \<Rightarrow> int" where
  "clampUsersLimit requested = clampLimit 25 100 requested"

definition findManyUsers :: "user list \<Rightarrow> list_users_query \<Rightarrow> user paginated" where
  "findManyUsers rows q = page (clampUsersLimit (luLimit q)) (clampOffset (luOffset q))
     (sort_by (\<lambda>a b. usCreatedAt a \<ge> usCreatedAt b) (filter (\<lambda>u.
        (case luStatus q of None \<Rightarrow> True | Some s \<Rightarrow> usStatus u = s)
        \<and> (case luRole q of None \<Rightarrow> True | Some r \<Rightarrow> usRole u = r)
        \<and> (case truthy (luEmail q) of None \<Rightarrow> True
            | Some e \<Rightarrow> has_substring (normalizeEmail e) (usEmail u))) rows))"

record user_profile =
  upId :: id
  upEmail :: string
  upRole :: user_role
  upStatus :: user_status
  upLocale :: string
  upCreatedAt :: millis

record admin_user_summary = user_profile +
  auEmailVerifiedAt :: "millis option"
  auRegistrationCountry :: "string option"
  auUpdatedAt :: millis
  auActiveSessionCount :: nat

definition toProfile :: "user \<Rightarrow> user_profile" where
  "toProfile u = \<lparr>upId = usId u, upEmail = usEmail u, upRole = usRole u, upStatus = usStatus u,
     upLocale = usLocale u, upCreatedAt = usCreatedAt u\<rparr>"

definition toAdminUserSummary :: "user \<Rightarrow> nat \<Rightarrow> admin_user_summary" where
  "toAdminUserSummary u activeSessionCount = user_profile.extend (toProfile u)
     \<lparr>auEmailVerifiedAt = usEmailVerifiedAt u, auRegistrationCountry = usRegistrationCountry u,
      auUpdatedAt = usUpdatedAt u, auActiveSessionCount = activeSessionCount\<rparr>"

section \<open>What every run of account operations keeps\<close>

datatype user_op =
    CreateUser id id millis create_user_input
  | UpdateProfile millis id "string option"
  | UpdatePasswordHash millis id string
  | UpdateStatus millis id user_status
  | UpdateRole millis id user_role

definition with_users :: "users_state \<Rightarrow> (user \<times> user list) result \<Rightarrow> app_error + users_state" where
  "with_users s r = map_sum (\<lambda>e. e) (\<lambda>(_, rows). s\<lparr>usUsers := rows\<rparr>) r"

fun execUser :: "users_state \<Rightarrow> user_op \<Rightarrow> app_error + users_state" where
  "execUser s (CreateUser i b now input) = map_sum (\<lambda>e. e) snd (createUser s i b now input)"
| "execUser s (UpdateProfile now i loc) = with_users s (updateProfile (usUsers s) now i loc)"
| "execUser s (UpdatePasswordHash now i h) = with_users s (updatePasswordHash (usUsers s) now i h)"
| "execUser s (UpdateStatus now i status) = with_users s (updateStatus (usUsers s) now i status)"
| "execUser s (UpdateRole now i role) = with_users s (updateRole (usUsers s) now i role)"

text \<open>Every operation but the creation rewrites one row and keeps its id, email and registration.\<close>

definition keeps_keys :: "(user \<Rightarrow> user) \<Rightarrow> bool" where
  "keeps_keys f \<longleftrightarrow> (\<forall>u. usId (f u) = usId u \<and> usEmail (f u) = usEmail u)"

lemma update_user_Inr:
  "update_user rows i f = Inr (u, rows') \<Longrightarrow> rows' = update_where (\<lambda>x. usId x = i) f rows \<and> i \<in> set (map usId rows)"
  by (auto simp: update_user_def findUser_def dest!: find_SomeD split: option.splits)

lemma assertAnAdminRemains_Inr: "assertAnAdminRemains rows = Inr x \<Longrightarrow> \<exists>u\<in>set rows. active_admin u"
  using count_where_0_iff [of active_admin rows] by (auto simp: assertAnAdminRemains_def split: if_splits)

lemma execUser_cases:
  assumes "execUser s op = Inr s'"
  obtains (created) i b now input u where "op = CreateUser i b now input"
      "createUser s i b now input = Inr (u, s')"
    | (unchanged) "s' = s"
    | (personal) i f where "s' = s\<lparr>usUsers := update_where (\<lambda>x. usId x = i) f (usUsers s)\<rparr>" "keeps_keys f"
      "\<And>u. usStatus (f u) = usStatus u \<and> usRole (f u) = usRole u"
    | (status) i now st u where "op = UpdateStatus now i st" "requireUser (usUsers s) i = Inr u"
      "usStatus u \<noteq> CLOSED"
      "s' = s\<lparr>usUsers := update_where (\<lambda>x. usId x = i) (\<lambda>u. u\<lparr>usStatus := st, usUpdatedAt := now\<rparr>) (usUsers s)\<rparr>"
      "\<exists>a\<in>set (usUsers s'). active_admin a"
    | (role) i now r where "op = UpdateRole now i r"
      "s' = s\<lparr>usUsers := update_where (\<lambda>x. usId x = i) (\<lambda>u. u\<lparr>usRole := r, usUpdatedAt := now\<rparr>) (usUsers s)\<rparr>"
      "\<exists>a\<in>set (usUsers s'). active_admin a"
proof (cases op)
  case (CreateUser i b now input)
  then show thesis using assms created by (auto simp: map_sum_def split: sum.splits)
next
  case (UpdateProfile now i loc)
  show thesis
  proof (cases loc)
    case None
    then show thesis using assms unchanged UpdateProfile
      by (auto simp: with_users_def updateProfile_def map_sum_def split: sum.splits)
  next
    case (Some l)
    obtain u rows where "update_user (usUsers s) i (\<lambda>u. u\<lparr>usLocale := l, usUpdatedAt := now\<rparr>) = Inr (u, rows)"
        "s' = s\<lparr>usUsers := rows\<rparr>"
      using assms UpdateProfile Some by (auto simp: with_users_def updateProfile_def map_sum_def split: sum.splits)
    then show thesis
      by (intro personal [of i "\<lambda>u. u\<lparr>usLocale := l, usUpdatedAt := now\<rparr>"])
        (auto simp: keeps_keys_def dest: update_user_Inr)
  qed
next
  case (UpdatePasswordHash now i h)
  obtain u rows where "update_user (usUsers s) i (\<lambda>u. u\<lparr>usPasswordHash := h, usUpdatedAt := now\<rparr>) = Inr (u, rows)"
      "s' = s\<lparr>usUsers := rows\<rparr>"
    using assms UpdatePasswordHash by (auto simp: with_users_def updatePasswordHash_def map_sum_def split: sum.splits)
  then show thesis
    by (intro personal [of i "\<lambda>u. u\<lparr>usPasswordHash := h, usUpdatedAt := now\<rparr>"])
      (auto simp: keeps_keys_def dest: update_user_Inr)
next
  case (UpdateStatus now i st)
  obtain u u' rows where r: "requireUser (usUsers s) i = Inr u" "usStatus u \<noteq> CLOSED"
      "update_user (usUsers s) i (\<lambda>u. u\<lparr>usStatus := st, usUpdatedAt := now\<rparr>) = Inr (u', rows)"
      "assertAnAdminRemains rows = Inr ()" "s' = s\<lparr>usUsers := rows\<rparr>"
    using assms UpdateStatus
    by (auto simp: with_users_def updateStatus_def map_sum_def canTransitionStatus_def split: sum.splits if_splits)
  then show thesis
    using status [OF UpdateStatus r(1,2)] update_user_Inr [OF r(3)] assertAnAdminRemains_Inr [OF r(4)] by simp
next
  case (UpdateRole now i r)
  obtain u' rows where r: "update_user (usUsers s) i (\<lambda>u. u\<lparr>usRole := r, usUpdatedAt := now\<rparr>) = Inr (u', rows)"
      "assertAnAdminRemains rows = Inr ()" "s' = s\<lparr>usUsers := rows\<rparr>"
    using assms UpdateRole
    by (auto simp: with_users_def updateRole_def map_sum_def split: sum.splits if_splits)
  then show thesis
    using role [OF UpdateRole] update_user_Inr [OF r(1)] assertAnAdminRemains_Inr [OF r(2)] by simp
qed

text \<open>The invariant: ids and normalised emails are unique.\<close>

definition users_ok :: "users_state \<Rightarrow> bool" where
  "users_ok s \<longleftrightarrow> distinct (map usId (usUsers s)) \<and> distinct (map usEmail (usUsers s))
     \<and> list_all (\<lambda>u. usEmail u = normalizeEmail (usEmail u)) (usUsers s)"


lemma normalizeEmail_idem: "normalizeEmail (normalizeEmail e) = normalizeEmail e"
proof -
  have "js_trim (js_lower s) = js_lower (js_trim s)" for s
    by (simp add: js_trim_def js_lower_def dropWhile_map rev_map o_def)
  then show ?thesis by (simp add: normalizeEmail_def)
qed

lemma users_ok_update:
  assumes "users_ok s" and "keeps_keys f"
  shows "users_ok (s\<lparr>usUsers := update_where p f (usUsers s)\<rparr>)"
proof -
  have k: "usId (f u) = usId u" "usEmail (f u) = usEmail u" for u
    using assms(2) by (simp_all add: keeps_keys_def)
  have m: "map usId (update_where p f rows) = map usId rows"
    "map usEmail (update_where p f rows) = map usEmail rows" for rows
    by (simp_all add: map_update_where k)
  have l: "list_all (\<lambda>u. usEmail u = normalizeEmail (usEmail u)) (update_where p f rows)"
    if "list_all (\<lambda>u. usEmail u = normalizeEmail (usEmail u)) rows" for rows
    using that by (induction rows) (auto simp: k)
  show ?thesis using assms(1) l by (simp add: users_ok_def m)
qed

lemma users_ok_create:
  assumes "users_ok s" and "createUser s i b now input = Inr (u, s')"
  shows "users_ok s'"
  using assms by (auto simp: users_ok_def createUser_def Let_def new_user_def normalizeEmail_idem
      split: if_splits)

lemma users_ok_exec: "users_ok s \<Longrightarrow> execUser s op = Inr s' \<Longrightarrow> users_ok s'"
proof (erule execUser_cases)
  fix i f assume "users_ok s" "s' = s\<lparr>usUsers := update_where (\<lambda>x. usId x = i) f (usUsers s)\<rparr>" "keeps_keys f"
  then show "users_ok s'" using users_ok_update by simp
next
  fix i now st u assume "users_ok s" "s' = s\<lparr>usUsers := update_where (\<lambda>x. usId x = i)
      (\<lambda>u. u\<lparr>usStatus := st, usUpdatedAt := now\<rparr>) (usUsers s)\<rparr>"
  then show "users_ok s'" using users_ok_update [of s "\<lambda>u. u\<lparr>usStatus := st, usUpdatedAt := now\<rparr>"]
    by (simp add: keeps_keys_def)
next
  fix i now r assume "users_ok s" "s' = s\<lparr>usUsers := update_where (\<lambda>x. usId x = i)
      (\<lambda>u. u\<lparr>usRole := r, usUpdatedAt := now\<rparr>) (usUsers s)\<rparr>"
  then show "users_ok s'" using users_ok_update [of s "\<lambda>u. u\<lparr>usRole := r, usUpdatedAt := now\<rparr>"]
    by (simp add: keeps_keys_def)
qed (auto intro: users_ok_create)

interpretation accounts: guarded_system execUser no_users users_ok
  by unfold_locales (simp add: users_ok_def no_users_def, rule users_ok_exec)

lemma active_admin_kept: "(\<And>u. usStatus (f u) = usStatus u \<and> usRole (f u) = usRole u)
    \<Longrightarrow> \<exists>a\<in>set rows. active_admin a \<Longrightarrow> \<exists>a\<in>set (update_where p f rows). active_admin a"
  by (induction rows) (auto simp: active_admin_def)

lemma admin_exec:
  assumes "execUser s op = Inr s'" and "\<exists>a\<in>set (usUsers s). active_admin a"
  shows "\<exists>a\<in>set (usUsers s'). active_admin a"
  using assms(1)
proof (cases rule: execUser_cases)
  case (created i b now input u)
  then show ?thesis using assms(2) by (auto simp: createUser_def Let_def split: if_splits)
next
  case (personal i f)
  then show ?thesis using active_admin_kept [of f "usUsers s"] assms(2) by simp
qed (use assms(2) in auto)

lemma closed_exec:
  assumes "execUser s op = Inr s'" and "findUser (usUsers s) i = Some u" and "usStatus u = CLOSED"
  shows "\<exists>u'. findUser (usUsers s') i = Some u' \<and> usStatus u' = CLOSED"
  using assms(1)
proof (cases rule: execUser_cases)
  case (created j b now input w)
  then show ?thesis using assms(2,3)
    by (auto simp: createUser_def Let_def findUser_def find_append split: if_splits)
next
  case (personal j f)
  then show ?thesis using assms(2,3) by (auto simp: findUser_def find_update_where keeps_keys_def)
next
  case (status j now st w)
  have "findUser (usUsers s) j = Some w" using status(2) by (simp add: requireUser_def split: option.splits)
  then have "j \<noteq> i" using assms(2,3) status(3) by auto
  moreover have "usId u = i" using assms(2) by (auto simp: findUser_def dest: find_SomeD)
  ultimately show ?thesis using assms(2,3) status(4) by (simp add: findUser_def find_update_where)
next
  case (role j now r)
  then show ?thesis using assms(2,3) by (auto simp: findUser_def find_update_where)
qed (use assms(2,3) in auto)

text \<open>C38. However accounts are created, edited, promoted, demoted, suspended and closed, three things
  last, each by itself: a platform with an administrator who can sign in keeps one; a closed account
  stays closed; and where the emails are stored in their normalised form and without repetition, as
  on an empty platform, they stay so.\<close>

theorem accounts_stay_governed:
  fixes s ops
  defines "s' \<equiv> run_ops execUser s ops"
  shows "((\<exists>a\<in>set (usUsers s). active_admin a) \<longrightarrow> (\<exists>a\<in>set (usUsers s'). active_admin a))
    \<and> (\<forall>i u. findUser (usUsers s) i = Some u \<and> usStatus u = CLOSED
        \<longrightarrow> (\<exists>u'. findUser (usUsers s') i = Some u' \<and> usStatus u' = CLOSED))
    \<and> (users_ok s \<longrightarrow> users_ok s' \<and> distinct (map (\<lambda>u. normalizeEmail (usEmail u)) (usUsers s')))"
proof (intro conjI allI impI)
  assume "\<exists>a\<in>set (usUsers s). active_admin a"
  then show "\<exists>a\<in>set (usUsers s'). active_admin a"
    unfolding s'_def by (rule run_ops_keeps [rotated]) (rule admin_exec)
next
  fix i u
  assume "findUser (usUsers s) i = Some u \<and> usStatus u = CLOSED"
  then have "\<exists>u. findUser (usUsers s) i = Some u \<and> usStatus u = CLOSED" by blast
  then show "\<exists>u'. findUser (usUsers s') i = Some u' \<and> usStatus u' = CLOSED"
    unfolding s'_def by (rule run_ops_keeps [rotated]) (use closed_exec in blast)
next
  assume "users_ok s"
  then show ok: "users_ok s'" unfolding s'_def by (rule accounts.inv_run_from)
  have "map (\<lambda>u. normalizeEmail (usEmail u)) rows = map usEmail rows"
    if "list_all (\<lambda>u. usEmail u = normalizeEmail (usEmail u)) rows" for rows
    using that by (induction rows) auto
  then show "distinct (map (\<lambda>u. normalizeEmail (usEmail u)) (usUsers s'))"
    using ok unfolding users_ok_def by metis
qed

definition demo_user :: "id \<Rightarrow> string \<Rightarrow> user_role \<Rightarrow> user_status \<Rightarrow> user" where
  "demo_user i email r st = (new_user i 0 \<lparr>cxEmail = email, cxPasswordHash = [], cxRegistrationIp = None,
     cxRegistrationCountry = None, cxLocale = None\<rparr>)\<lparr>usRole := r, usStatus := st\<rparr>"

definition demo_users :: users_state where
  "demo_users = \<lparr>usUsers = [demo_user 1 ''a@x'' ROLE_ADMIN ACTIVE, demo_user 2 ''b@x'' ROLE_USER CLOSED],
     usLedger = empty_ledger\<rparr>"

lemma accounts_stay_governed_witness:
  "(\<exists>a\<in>set (usUsers (run_ops execUser demo_users [UpdateStatus 5 1 SUSPENDED, UpdateStatus 6 2 ACTIVE])). active_admin a)
    \<and> users_ok (run_ops execUser demo_users [UpdateStatus 5 1 SUSPENDED, UpdateStatus 6 2 ACTIVE])
    \<and> (\<exists>u. findUser (usUsers (run_ops execUser demo_users [UpdateStatus 5 1 SUSPENDED, UpdateStatus 6 2 ACTIVE])) 2 = Some u
        \<and> usStatus u = CLOSED)"
proof -
  have "users_ok demo_users" "active_admin (demo_user 1 ''a@x'' ROLE_ADMIN ACTIVE)" by code_simp+
  moreover have "findUser (usUsers demo_users) 2 = Some (demo_user 2 ''b@x'' ROLE_USER CLOSED)" by code_simp
  moreover have "usStatus (demo_user 2 ''b@x'' ROLE_USER CLOSED) = CLOSED" by (simp add: demo_user_def)
  moreover have "demo_user 1 ''a@x'' ROLE_ADMIN ACTIVE \<in> set (usUsers demo_users)" by (simp add: demo_users_def)
  ultimately show ?thesis
    using accounts_stay_governed [of demo_users "[UpdateStatus 5 1 SUSPENDED, UpdateStatus 6 2 ACTIVE]"] by blast
qed

end
