(* ===== verification/Postbacks.thy ===== *)
theory Postbacks
  imports Offers
begin

text \<open>
  Receiving postbacks: \<^verbatim>\<open>apps/api/src/modules/conversions/postback-intake.service.ts\<close>
  with \<^verbatim>\<open>internal/request-capture.ts\<close> and \<^verbatim>\<open>internal/postback-replay.ts\<close>.
  A request is authenticated, archived before anything is done with it, and its processing is queued;
  the processor later reads the request back from the archive. Fresh ids, the clock, whether the
  queue is reachable and the rendering of a thrown error are arguments.
\<close>

section \<open>Capturing a request\<close>

definition MAX_VALUE :: nat where
  "MAX_VALUE = 2048"

definition MAX_KEYS :: nat where
  "MAX_KEYS = 128"

definition CAPTURED_HEADERS :: "string list" where
  "CAPTURED_HEADERS = [''content-type'', ''user-agent'', ''host'', ''referer'', ''x-forwarded-for'',
     ''x-real-ip'', ''x-request-id'', ''date'']"

fun join_comma :: "string list \<Rightarrow> string" where
  "join_comma [] = []"
| "join_comma [s] = s"
| "join_comma (s # t # ss) = s @ '', '' @ join_comma (t # ss)"

definition header_text :: "query_value option \<Rightarrow> string" where
  "header_text v = (case v of None \<Rightarrow> [] | Some (Single s) \<Rightarrow> s | Some (Repeated ss) \<Rightarrow> join_comma ss)"

definition captureHeaders :: "(string \<times> query_value) list \<Rightarrow> (string \<times> string) list" where
  "captureHeaders headers = concat (map (\<lambda>name. let text = header_text (map_of headers name) in
     if 0 < length text then [(name, take MAX_VALUE text)] else []) CAPTURED_HEADERS)"

definition capture_value :: "query_value \<Rightarrow> query_value" where
  "capture_value v = (case v of Single s \<Rightarrow> Single (take MAX_VALUE s)
     | Repeated ss \<Rightarrow> Repeated (map (take MAX_VALUE) (take MAX_KEYS ss)))"

definition captureQuery :: "(string \<times> query_value) list \<Rightarrow> (string \<times> query_value) list" where
  "captureQuery query = foldl (\<lambda>captured (key, v). map_set (take MAX_VALUE key) (capture_value v) captured)
     [] (take MAX_KEYS query)"

text \<open>The argument is the number of levels still captured, four less the source's \<open>depth\<close>.\<close>

fun capture_nested :: "nat \<Rightarrow> json \<Rightarrow> json" where
  "capture_nested n JNull = JNull"
| "capture_nested n (JStr s) = JStr (take MAX_VALUE s)"
| "capture_nested n (JNum x) = JNum x"
| "capture_nested n (JBool b) = JBool b"
| "capture_nested 0 (JArr xs) = JStr ''[truncated]''"
| "capture_nested 0 (JObj kvs) = JStr ''[truncated]''"
| "capture_nested (Suc n) (JArr xs) = JArr (map (capture_nested n) (take MAX_KEYS xs))"
| "capture_nested (Suc n) (JObj kvs) = JObj (foldl
     (\<lambda>captured (key, v). map_set (take MAX_VALUE key) (capture_nested n v) captured) [] (take MAX_KEYS kvs))"

definition captureBody :: "json \<Rightarrow> json" where
  "captureBody body = capture_nested 4 body"

record captured_payload =
  cpMethod :: string
  cpQuery :: "(string \<times> query_value) list"
  cpBody :: json

definition capturePayload :: "string \<Rightarrow> (string \<times> query_value) list \<Rightarrow> json \<Rightarrow> captured_payload" where
  "capturePayload m query body = \<lparr>cpMethod = take 16 (js_to_upper m), cpQuery = captureQuery query,
     cpBody = captureBody body\<rparr>"

text \<open>What is stored in the JSON columns.\<close>

definition value_json :: "query_value \<Rightarrow> json" where
  "value_json v = (case v of Single s \<Rightarrow> JStr s | Repeated ss \<Rightarrow> JArr (map JStr ss))"

definition payload_json :: "captured_payload \<Rightarrow> json" where
  "payload_json p = JObj [(''method'', JStr (cpMethod p)),
     (''query'', JObj (map (\<lambda>(k, v). (k, value_json v)) (cpQuery p))), (''body'', cpBody p)]"

definition headers_json :: "(string \<times> string) list \<Rightarrow> json" where
  "headers_json hs = JObj (map (\<lambda>(k, v). (k, JStr v)) hs)"

section \<open>Replaying it\<close>

definition asRecord :: "json \<Rightarrow> (string \<times> json) list" where
  "asRecord j = (case j of JObj kvs \<Rightarrow> kvs | _ \<Rightarrow> [])"

definition string_of :: "json \<Rightarrow> string option" where
  "string_of j = (case j of JStr s \<Rightarrow> Some s | _ \<Rightarrow> None)"

definition query_entry :: "string \<times> json \<Rightarrow> (string \<times> query_value) list" where
  "query_entry e = (case snd e of
      JStr s \<Rightarrow> [(fst e, Single s)]
    | JArr xs \<Rightarrow> [(fst e, Repeated (concat (map (\<lambda>x. case string_of x of None \<Rightarrow> [] | Some s \<Rightarrow> [s]) xs)))]
    | _ \<Rightarrow> [])"

definition asQuery :: "json option \<Rightarrow> (string \<times> query_value) list" where
  "asQuery v = (case v of None \<Rightarrow> [] | Some j \<Rightarrow> concat (map query_entry (asRecord j)))"

definition asHeaders :: "json \<Rightarrow> (string \<times> query_value) list" where
  "asHeaders j = concat (map (\<lambda>(k, x). case string_of x of None \<Rightarrow> [] | Some s \<Rightarrow> [(k, Single s)]) (asRecord j))"

definition toRawRequest :: "json \<Rightarrow> json \<Rightarrow> string option \<Rightarrow> raw_postback_request" where
  "toRawRequest payload headers sourceIp =
     \<lparr>rqQuery = asQuery (map_of (asRecord payload) ''query''),
      rqBody = (case map_of (asRecord payload) ''body'' of None \<Rightarrow> JNull | Some b \<Rightarrow> b),
      rqHeaders = asHeaders headers,
      rqSourceIp = (case sourceIp of None \<Rightarrow> [] | Some a \<Rightarrow> a), rqRawBody = None\<rparr>"

definition archivedMethod :: "json \<Rightarrow> string" where
  "archivedMethod payload = (case Option.bind (map_of (asRecord payload) ''method'') string_of of
     None \<Rightarrow> ''UNKNOWN'' | Some m \<Rightarrow> m)"

section \<open>The postbacks table\<close>

datatype postback_state = PB_RECEIVED | PB_PROCESSED | PB_QUARANTINED | PB_REJECTED | PB_FAILED

datatype quarantine_reason =
    Q_SUB_ID_INVALID | Q_CLICK_NOT_FOUND | Q_ATTRIBUTION_EXPIRED | Q_PROVIDER_MISMATCH
  | Q_CURRENCY_MISMATCH | Q_REVERSAL_ORIGINAL_NOT_FOUND | Q_REVERSAL_AMBIGUOUS
  | Q_PAYLOAD_UNREADABLE | Q_PROVIDER_UNAVAILABLE

text \<open>\<open>error_detail\<close>: a quarantine reason, or a rendered error.\<close>

datatype error_detail = Reason quarantine_reason | Detail string

record provider_postback =
  pbId :: id
  pbProviderId :: id
  pbExternalTransactionId :: "string option"
  pbPayload :: json
  pbHeaders :: json
  pbSourceIp :: "string option"
  pbState :: postback_state
  pbProcessingAttempts :: int
  pbErrorDetail :: "error_detail option"
  pbDuplicateCount :: int
  pbLastDuplicateAt :: "millis option"
  pbReceivedAt :: millis

definition requirePostback :: "provider_postback list \<Rightarrow> id \<Rightarrow> provider_postback result" where
  "requirePostback rows i = (case List.find (\<lambda>p. pbId p = i) rows of
     None \<Rightarrow> Inl (DomainError POSTBACK_NOT_FOUND 404) | Some p \<Rightarrow> Inr p)"

definition same_event :: "id \<Rightarrow> string \<Rightarrow> provider_postback \<Rightarrow> bool" where
  "same_event providerId t p \<longleftrightarrow> pbProviderId p = providerId \<and> pbExternalTransactionId p = Some t"

text \<open>\<open>create\<close>: the primary key, and the pair of provider and transaction id unless the latter is
  null.\<close>

definition createPostback :: "provider_postback list \<Rightarrow> provider_postback \<Rightarrow> provider_postback list result" where
  "createPostback rows p =
     (if pbId p \<in> set (map pbId rows)
         \<or> (case pbExternalTransactionId p of None \<Rightarrow> False
            | Some t \<Rightarrow> list_ex (same_event (pbProviderId p) t) rows)
      then Inl UniqueViolation else Inr (rows @ [p]))"

definition update_postback :: "provider_postback list \<Rightarrow> id \<Rightarrow> (provider_postback \<Rightarrow> provider_postback)
    \<Rightarrow> provider_postback list result" where
  "update_postback rows i f = (if i \<in> set (map pbId rows) then Inr (update_where (\<lambda>p. pbId p = i) f rows)
     else Inl RecordMissing)"

definition markDuplicate :: "provider_postback list \<Rightarrow> id \<Rightarrow> string \<Rightarrow> millis \<Rightarrow> provider_postback list result" where
  "markDuplicate rows providerId t now =
     (if list_ex (same_event providerId t) rows
      then Inr (update_where (same_event providerId t)
        (\<lambda>p. p\<lparr>pbDuplicateCount := pbDuplicateCount p + 1, pbLastDuplicateAt := Some now\<rparr>) rows)
      else Inl RecordMissing)"

definition markProcessed :: "provider_postback list \<Rightarrow> id \<Rightarrow> provider_postback list result" where
  "markProcessed rows i = update_postback rows i (\<lambda>p. p\<lparr>pbState := PB_PROCESSED,
     pbProcessingAttempts := pbProcessingAttempts p + 1, pbErrorDetail := None\<rparr>)"

definition markQuarantined :: "provider_postback list \<Rightarrow> id \<Rightarrow> quarantine_reason
    \<Rightarrow> provider_postback list result" where
  "markQuarantined rows i reason = update_postback rows i (\<lambda>p. p\<lparr>pbState := PB_QUARANTINED,
     pbProcessingAttempts := pbProcessingAttempts p + 1, pbErrorDetail := Some (Reason reason)\<rparr>)"

definition markFailed :: "provider_postback list \<Rightarrow> id \<Rightarrow> string \<Rightarrow> provider_postback list result" where
  "markFailed rows i detail = update_postback rows i (\<lambda>p. p\<lparr>pbState := PB_FAILED,
     pbProcessingAttempts := pbProcessingAttempts p + 1, pbErrorDetail := Some (Detail (take 500 detail))\<rparr>)"

section \<open>Intake\<close>

record postback_envelope =
  evProviderSlug :: string
  evMethod :: string
  evQuery :: "(string \<times> query_value) list"
  evBody :: json
  evRawBody :: "string option"
  evHeaders :: "(string \<times> query_value) list"
  evSourceIp :: "string option"

datatype acknowledgement = Accepted | Duplicate

record intake_state =
  inPostbacks :: "provider_postback list"
  inQueue :: "id list"

record intake_env =
  ieProviders :: "provider list"
  ieRegistry :: registry
  ieId :: id
  ieNow :: millis
  ieQueueUp :: bool
  ieSummary :: "app_error \<Rightarrow> string"

definition raw_of :: "postback_envelope \<Rightarrow> raw_postback_request" where
  "raw_of e = \<lparr>rqQuery = evQuery e, rqBody = evBody e, rqHeaders = evHeaders e,
     rqSourceIp = (case evSourceIp e of None \<Rightarrow> [] | Some a \<Rightarrow> a), rqRawBody = evRawBody e\<rparr>"

definition archived_row :: "intake_env \<Rightarrow> id \<Rightarrow> postback_envelope \<Rightarrow> string option \<Rightarrow> provider_postback" where
  "archived_row env providerId e t = \<lparr>pbId = ieId env, pbProviderId = providerId,
     pbExternalTransactionId = t,
     pbPayload = payload_json (capturePayload (evMethod e) (evQuery e) (evBody e)),
     pbHeaders = headers_json (captureHeaders (evHeaders e)), pbSourceIp = evSourceIp e,
     pbState = PB_RECEIVED, pbProcessingAttempts = 0, pbErrorDetail = None, pbDuplicateCount = 0,
     pbLastDuplicateAt = None, pbReceivedAt = ieNow env\<rparr>"

text \<open>Queueing is by job id, so queueing a postback again adds nothing; a queue that cannot be
  reached is logged and the archived row stays.\<close>

definition enqueueProcessing :: "intake_env \<Rightarrow> intake_state \<Rightarrow> id \<Rightarrow> intake_state" where
  "enqueueProcessing env s i = (if ieQueueUp env \<and> i \<notin> set (inQueue s) then s\<lparr>inQueue := inQueue s @ [i]\<rparr> else s)"

definition archive :: "intake_env \<Rightarrow> intake_state \<Rightarrow> id \<Rightarrow> postback_envelope \<Rightarrow> string
    \<Rightarrow> intake_state \<times> acknowledgement result" where
  "archive env s providerId e t =
     (case createPostback (inPostbacks s) (archived_row env providerId e (Some t)) of
        Inr rows \<Rightarrow> (enqueueProcessing env (s\<lparr>inPostbacks := rows\<rparr>) (ieId env), Inr Accepted)
      | Inl UniqueViolation \<Rightarrow> (case markDuplicate (inPostbacks s) providerId t (ieNow env) of
            Inl err \<Rightarrow> (s, Inl err)
          | Inr rows \<Rightarrow> (s\<lparr>inPostbacks := rows\<rparr>, Inr Duplicate))
      | Inl err \<Rightarrow> (s, Inl err))"

definition archiveUnparseable :: "intake_env \<Rightarrow> intake_state \<Rightarrow> id \<Rightarrow> postback_envelope \<Rightarrow> app_error
    \<Rightarrow> intake_state \<times> acknowledgement result" where
  "archiveUnparseable env s providerId e err =
     (let detail = take 500 (ieSummary env err) in
      case createPostback (inPostbacks s) ((archived_row env providerId e None)
          \<lparr>pbState := PB_REJECTED, pbErrorDetail := Some (Detail detail)\<rparr>) of
        Inl err' \<Rightarrow> (s, Inl err')
      | Inr rows \<Rightarrow> (s\<lparr>inPostbacks := rows\<rparr>, Inl (DomainError POSTBACK_PAYLOAD_INVALID 400)))"

text \<open>An adapter without one of its methods cannot be registered; calling it is the runtime's
  \<open>TypeError\<close>.\<close>

definition missing_method :: app_error where
  "missing_method = InfrastructureError INTERNAL_ERROR 500 False"

definition receive :: "intake_env \<Rightarrow> intake_state \<Rightarrow> postback_envelope \<Rightarrow> intake_state \<times> acknowledgement result" where
  "receive env s e =
     (case findProviderBySlug (ieProviders env) (evProviderSlug e) of
        None \<Rightarrow> (s, Inl (DomainError PROVIDER_NOT_FOUND 404))
      | Some p \<Rightarrow> (case require_registered (ieRegistry env) (prSlug p) of
          Inl err \<Rightarrow> (s, Inl err)
        | Inr (_, a) \<Rightarrow>
            if \<not> isPostbackSourceAllowed p (evSourceIp e) then (s, Inl (DomainError POSTBACK_SOURCE_NOT_ALLOWED 403))
            else (case verifyPostback a of
                None \<Rightarrow> (s, Inl missing_method)
              | Some v \<Rightarrow> (case v (raw_of e) of
                  Invalid _ \<Rightarrow> (s, Inl (DomainError POSTBACK_SIGNATURE_INVALID 401))
                | Valid \<Rightarrow> (case parsePostback a of
                    None \<Rightarrow> archiveUnparseable env s (prId p) e missing_method
                  | Some parse \<Rightarrow> (case parse (raw_of e) of
                      Inl err \<Rightarrow> archiveUnparseable env s (prId p) e err
                    | Inr c \<Rightarrow> archive env s (prId p) e (ncExternalTransactionId c)))))))"

section \<open>Listing\<close>

record list_postbacks_query =
  lbProviderId :: "id option"
  lbState :: "postback_state option"
  lbExternalTransactionId :: "string option"
  lbSourceIp :: "string option"
  lbLimit :: "int option"
  lbOffset :: "int option"

definition clampPostbacksLimit :: "int option \<Rightarrow> int" where
  "clampPostbacksLimit requested = clampLimit 25 100 requested"

definition findManyPostbacks :: "provider_postback list \<Rightarrow> list_postbacks_query \<Rightarrow> provider_postback paginated" where
  "findManyPostbacks rows q = page (clampPostbacksLimit (lbLimit q)) (clampOffset (lbOffset q))
     (sort_by (\<lambda>a b. pbReceivedAt a \<ge> pbReceivedAt b) (filter (\<lambda>p.
        by_filter (lbProviderId q) (\<lambda>i. pbProviderId p = i)
        \<and> by_filter (lbState q) (\<lambda>x. pbState p = x)
        \<and> by_filter (truthy (lbExternalTransactionId q)) (\<lambda>t. pbExternalTransactionId p = Some t)
        \<and> by_filter (truthy (lbSourceIp q)) (\<lambda>a. pbSourceIp p = Some a)) rows))"

record postback_summary =
  pmId :: id
  pmProviderId :: id
  pmProviderSlug :: string
  pmExternalTransactionId :: "string option"
  pmState :: postback_state
  pmSourceIp :: "string option"
  pmDuplicateCount :: int
  pmLastDuplicateAt :: "millis option"
  pmProcessingAttempts :: int
  pmErrorDetail :: "error_detail option"
  pmReceivedAt :: millis

record postback_detail = postback_summary +
  pmPayload :: json
  pmHeaders :: json

definition toPostbackSummary :: "provider_postback \<Rightarrow> string \<Rightarrow> postback_summary" where
  "toPostbackSummary p providerSlug = \<lparr>pmId = pbId p, pmProviderId = pbProviderId p,
     pmProviderSlug = providerSlug, pmExternalTransactionId = pbExternalTransactionId p,
     pmState = pbState p, pmSourceIp = pbSourceIp p, pmDuplicateCount = pbDuplicateCount p,
     pmLastDuplicateAt = pbLastDuplicateAt p, pmProcessingAttempts = pbProcessingAttempts p,
     pmErrorDetail = pbErrorDetail p, pmReceivedAt = pbReceivedAt p\<rparr>"

definition toPostbackDetail :: "provider_postback \<Rightarrow> string \<Rightarrow> postback_detail" where
  "toPostbackDetail p providerSlug = postback_summary.extend (toPostbackSummary p providerSlug)
     \<lparr>pmPayload = pbPayload p, pmHeaders = pbHeaders p\<rparr>"

end
