(* ===== verification/PostbackProps.thy ===== *)
theory PostbackProps
  imports Postbacks
begin

text \<open>
  What intake guarantees: only authenticated requests leave a trace, an event is archived and queued
  once however often it is delivered, and what the archive replays is what arrived.
\<close>

section \<open>Replay\<close>

definition short :: "string \<Rightarrow> bool" where
  "short s \<longleftrightarrow> length s \<le> MAX_VALUE"

definition short_value :: "query_value \<Rightarrow> bool" where
  "short_value v = (case v of Single s \<Rightarrow> short s | Repeated ss \<Rightarrow> length ss \<le> MAX_KEYS \<and> list_all short ss)"

lemma capture_value_short: "short_value v \<Longrightarrow> capture_value v = v"
  by (cases v) (auto simp: capture_value_def short_value_def short_def list_all_iff intro: map_idI)

lemma map_set_fresh: "k \<notin> set (map fst kvs) \<Longrightarrow> map_set k v kvs = kvs @ [(k, v)]"
  by (induction k v kvs rule: map_set.induct) auto

lemma foldl_map_set_distinct:
  assumes "distinct (map fst (acc @ q))"
    and "\<And>k v. (k, v) \<in> set q \<Longrightarrow> f k = k \<and> g v = v"
  shows "foldl (\<lambda>captured (k, v). map_set (f k) (g v) captured) acc q = acc @ q"
  using assms
proof (induction q arbitrary: acc)
  case (Cons e q)
  obtain k v where e: "e = (k, v)" by fastforce
  have "f k = k" "g v = v" using Cons.prems(2) [of k v] e by simp_all
  moreover have "map_set k v acc = acc @ [(k, v)]"
    using Cons.prems(1) e by (intro map_set_fresh) auto
  moreover have "foldl (\<lambda>captured (k, v). map_set (f k) (g v) captured) (acc @ [(k, v)]) q = (acc @ [(k, v)]) @ q"
    by (rule Cons.IH) (use Cons.prems e in auto)
  ultimately show ?case by (simp add: e)
qed simp

lemma captureQuery_short:
  assumes "distinct (map fst q)" and "length q \<le> MAX_KEYS" and "list_all (\<lambda>(k, v). short k \<and> short_value v) q"
  shows "captureQuery q = q"
proof -
  have "foldl (\<lambda>captured (k, v). map_set (take MAX_VALUE k) (capture_value v) captured) [] q = [] @ q"
    by (rule foldl_map_set_distinct) (use assms(1,3) in \<open>auto simp: list_all_iff short_def capture_value_short\<close>)
  then show ?thesis using assms(2) by (simp add: captureQuery_def)
qed

lemma strings_back: "concat (map (\<lambda>x. case string_of x of None \<Rightarrow> [] | Some s \<Rightarrow> [s]) (map JStr ss)) = ss"
  by (induction ss) (simp_all add: string_of_def)

lemma asQuery_json: "asQuery (Some (JObj (map (\<lambda>(k, v). (k, value_json v)) q))) = q"
proof (induction q)
  case (Cons e q)
  then show ?case
    using strings_back by (cases e; cases "snd e") (auto simp: asQuery_def asRecord_def query_entry_def value_json_def)
qed (simp add: asQuery_def asRecord_def)

text \<open>C35. The archive replays what arrived: a request whose query has at most 128 parameters of at
  most 2048 characters is read back with exactly its query, so the shipped adapter parses the
  archived request as it parsed the live one.\<close>

theorem archive_replays_query:
  assumes "distinct (map fst (evQuery e))" and "length (evQuery e) \<le> MAX_KEYS"
    and "list_all (\<lambda>(k, v). short k \<and> short_value v) (evQuery e)"
  shows "rqQuery (toRawRequest (pbPayload (archived_row env p e t)) (pbHeaders (archived_row env p e t))
      (pbSourceIp (archived_row env p e t))) = evQuery e
    \<and> mock_parsePostback parseDate (toRawRequest (pbPayload (archived_row env p e t))
        (pbHeaders (archived_row env p e t)) (pbSourceIp (archived_row env p e t)))
      = mock_parsePostback parseDate (raw_of e)"
proof
  show q: "rqQuery (toRawRequest (pbPayload (archived_row env p e t)) (pbHeaders (archived_row env p e t))
      (pbSourceIp (archived_row env p e t))) = evQuery e"
    using captureQuery_short [OF assms] asQuery_json [of "evQuery e"]
    by (simp add: archived_row_def toRawRequest_def payload_json_def asRecord_def capturePayload_def)
  show "mock_parsePostback parseDate (toRawRequest (pbPayload (archived_row env p e t))
        (pbHeaders (archived_row env p e t)) (pbSourceIp (archived_row env p e t)))
      = mock_parsePostback parseDate (raw_of e)"
    by (simp only: mock_parsePostback_def q) (simp add: raw_of_def)
qed

section \<open>Authentication\<close>

lemma archive_cases:
  assumes "archive env s p e t = (s', r)"
  obtains (stored) "r = Inr Accepted" "ieId env \<notin> set (map pbId (inPostbacks s))"
      "\<not> list_ex (same_event p t) (inPostbacks s)"
      "s' = enqueueProcessing env (s\<lparr>inPostbacks := inPostbacks s @ [archived_row env p e (Some t)]\<rparr>) (ieId env)"
    | (repeated) "r = Inr Duplicate" "list_ex (same_event p t) (inPostbacks s)"
      "s' = s\<lparr>inPostbacks := update_where (same_event p t) (\<lambda>x. x\<lparr>pbDuplicateCount := pbDuplicateCount x + 1,
          pbLastDuplicateAt := Some (ieNow env)\<rparr>) (inPostbacks s)\<rparr>"
    | (missing) "r = Inl RecordMissing" "s' = s"
proof -
  have f: "pbId (archived_row env p e (Some t)) = ieId env" "pbProviderId (archived_row env p e (Some t)) = p"
    "pbExternalTransactionId (archived_row env p e (Some t)) = Some t"
    by (simp_all add: archived_row_def)
  show thesis
  proof (cases "ieId env \<in> set (map pbId (inPostbacks s)) \<or> list_ex (same_event p t) (inPostbacks s)")
    case False
    then show thesis using assms f by (intro stored) (auto simp: archive_def createPostback_def)
  next
    case True
    then have c: "createPostback (inPostbacks s) (archived_row env p e (Some t)) = Inl UniqueViolation"
      by (auto simp: createPostback_def f)
    show thesis
    proof (cases "list_ex (same_event p t) (inPostbacks s)")
      case True
      then show thesis using assms c by (intro repeated) (auto simp: archive_def markDuplicate_def)
    next
      case False
      then show thesis using assms c by (intro missing) (auto simp: archive_def markDuplicate_def)
    qed
  qed
qed

lemma receive_verified:
  assumes "receive env s e = (s', r)" and "s' \<noteq> s \<or> (\<exists>a. r = Inr a)"
  obtains p g a v where "findProviderBySlug (ieProviders env) (evProviderSlug e) = Some p"
    "require_registered (ieRegistry env) (prSlug p) = Inr (g, a)"
    "isPostbackSourceAllowed p (evSourceIp e)" "verifyPostback a = Some v" "v (raw_of e) = Valid"
  using assms
  by (auto simp: receive_def split: option.splits sum.splits if_splits postback_verification.splits)

text \<open>C14. A request leaves a trace, and is acknowledged, only if it names a provider that is enabled
  and built, comes from an allowed address and carries a valid signature; every other request is
  refused and neither table nor queue changes.\<close>

theorem only_authenticated_postbacks_leave_a_trace:
  assumes "receive env s e = (s', r)" and "s' \<noteq> s \<or> r = Inr Accepted \<or> r = Inr Duplicate"
  shows "\<exists>p g a v. findProviderBySlug (ieProviders env) (evProviderSlug e) = Some p
    \<and> require_registered (ieRegistry env) (prSlug p) = Inr (g, a) \<and> rgIsEnabled g
    \<and> isPostbackSourceAllowed p (evSourceIp e) \<and> verifyPostback a = Some v \<and> v (raw_of e) = Valid"
proof -
  obtain p g a v where "findProviderBySlug (ieProviders env) (evProviderSlug e) = Some p"
    "require_registered (ieRegistry env) (prSlug p) = Inr (g, a)"
    "isPostbackSourceAllowed p (evSourceIp e)" "verifyPostback a = Some v" "v (raw_of e) = Valid"
    using receive_verified [OF assms(1)] assms(2) by blast
  moreover from this(2) have "rgIsEnabled g"
    by (auto simp: require_registered_def split: option.splits if_splits)
  ultimately show ?thesis by blast
qed


section \<open>One event, one row, one job\<close>

lemma receive_effect:
  assumes "receive env s e = (s', r)"
  obtains (none) "s' = s" "r \<noteq> Inr Accepted" "r \<noteq> Inr Duplicate"
    | (unparseable) row where "s' = s\<lparr>inPostbacks := inPostbacks s @ [row]\<rparr>" "pbId row = ieId env"
      "pbExternalTransactionId row = None" "ieId env \<notin> set (map pbId (inPostbacks s))"
      "r \<noteq> Inr Accepted" "r \<noteq> Inr Duplicate"
    | (archived) p t where "archive env s p e t = (s', r)"
      "\<And>env2 s2. ieProviders env2 = ieProviders env \<Longrightarrow> ieRegistry env2 = ieRegistry env
         \<Longrightarrow> receive env2 s2 e = archive env2 s2 p e t"
proof (cases "findProviderBySlug (ieProviders env) (evProviderSlug e)")
  case None
  then show thesis using assms none by (auto simp: receive_def)
next
  case p: (Some p)
  show thesis
  proof (cases "require_registered (ieRegistry env) (prSlug p)")
    case (Inl err)
    then show thesis using assms none p by (auto simp: receive_def)
  next
    case (Inr ga)
    obtain g a where ga: "ga = (g, a)" by fastforce
    note reg = Inr [unfolded ga]
    show thesis
    proof (cases "isPostbackSourceAllowed p (evSourceIp e) \<and> (\<exists>v. verifyPostback a = Some v \<and> v (raw_of e) = Valid)")
      case False
      then show thesis using assms none p reg
        by (auto simp: receive_def split: option.splits if_splits postback_verification.splits)
    next
      case True
      then obtain v where v: "isPostbackSourceAllowed p (evSourceIp e)" "verifyPostback a = Some v"
        "v (raw_of e) = Valid" by blast
      show thesis
      proof (cases "\<exists>parse c. parsePostback a = Some parse \<and> parse (raw_of e) = Inr c")
        case True
        then obtain parse c where c: "parsePostback a = Some parse" "parse (raw_of e) = Inr c" by blast
        then show thesis using assms p reg v
          by (intro archived [of "prId p" "ncExternalTransactionId c"]) (simp_all add: receive_def)
      next
        case False
        then obtain err where u: "archiveUnparseable env s (prId p) e err = (s', r)"
          using assms p reg v by (auto simp: receive_def split: option.splits sum.splits)
        show thesis
        proof (cases "ieId env \<in> set (map pbId (inPostbacks s))")
          case True
          then show thesis using u none
            by (auto simp: archiveUnparseable_def createPostback_def archived_row_def Let_def)
        next
          case False
          then show thesis using u
            by (intro unparseable) (auto simp: archiveUnparseable_def createPostback_def archived_row_def Let_def)
        qed
      qed
    qed
  qed
qed

definition events_once :: "intake_state \<Rightarrow> bool" where
  "events_once s \<longleftrightarrow> (\<forall>p t. count_where (same_event p t) (inPostbacks s) \<le> 1) \<and> distinct (inQueue s)
     \<and> set (inQueue s) \<subseteq> set (map pbId (inPostbacks s)) \<and> distinct (map pbId (inPostbacks s))"

definition no_intake :: intake_state where
  "no_intake = \<lparr>inPostbacks = [], inQueue = []\<rparr>"

lemma count_where_update_same:
  "(\<And>x. q (f x) = q x) \<Longrightarrow> count_where q (update_where p f xs) = count_where q xs"
  by (induction xs) auto

lemma same_event_row [simp]: "same_event p t (archived_row env q e u) \<longleftrightarrow> q = p \<and> u = Some t"
  by (auto simp: same_event_def archived_row_def)

lemma list_ex_count: "\<not> list_ex p xs \<longleftrightarrow> count_where p xs = 0"
  by (induction xs) auto

lemma events_once_receive:
  assumes "events_once s"
  shows "events_once (fst (receive env s e))"
proof -
  obtain s' r where sr: "receive env s e = (s', r)" by fastforce
  have "events_once s'"
    using sr
  proof (cases rule: receive_effect)
    case none
    then show ?thesis using assms by simp
  next
    case (unparseable row)
    then have "\<not> same_event p t row" for p t by (simp add: same_event_def)
    then show ?thesis using assms unparseable by (auto simp: events_once_def)
  next
    case (archived p t)
    show ?thesis
      using archived(1)
    proof (cases rule: archive_cases)
      case stored
      have "count_where (same_event p' t') (inPostbacks s @ [archived_row env p e (Some t)]) \<le> 1" for p' t'
        using assms stored(3) by (auto simp: events_once_def list_ex_count)
      moreover have "pbId (archived_row env p e (Some t)) = ieId env" by (simp add: archived_row_def)
      ultimately show ?thesis
        using assms stored(2) unfolding stored(4) enqueueProcessing_def events_once_def by auto
    next
      case repeated
      have "same_event p' t' (x\<lparr>pbDuplicateCount := n, pbLastDuplicateAt := m\<rparr>) = same_event p' t' x" for p' t' x n m
        by (simp add: same_event_def)
      then show ?thesis using assms unfolding repeated(3) events_once_def
        by (simp add: count_where_update_same map_update_where)
    next
      case missing
      then show ?thesis using assms by simp
    qed
  qed
  then show ?thesis by (simp add: sr)
qed

definition execIntake :: "intake_state \<Rightarrow> intake_env \<times> postback_envelope \<Rightarrow> unit + intake_state" where
  "execIntake s call = Inr (fst (receive (fst call) s (snd call)))"

interpretation intake: guarded_system execIntake no_intake events_once
  by unfold_locales (simp add: events_once_def no_intake_def, auto simp: execIntake_def intro: events_once_receive)

text \<open>C13. However often and in whatever order providers deliver, every event, a provider and its
  transaction id, has at most one archived row and at most one processing job, and every job is
  for an archived row.\<close>

theorem events_archived_once:
  "count_where (same_event p t) (inPostbacks (run_ops execIntake no_intake calls)) \<le> 1
   \<and> distinct (inQueue (run_ops execIntake no_intake calls))
   \<and> set (inQueue (run_ops execIntake no_intake calls)) \<subseteq> set (map pbId (inPostbacks (run_ops execIntake no_intake calls)))"
  using intake.inv_run [of calls] by (simp only: events_once_def)

text \<open>Delivering an accepted request again is acknowledged as a duplicate: nothing is queued, and
  of the archived rows only a duplicate counter moves, by one.\<close>

theorem redelivery_is_a_duplicate:
  assumes "receive env s e = (s1, Inr Accepted)" and "receive env2 s1 e = (s2, r)"
    and "ieProviders env2 = ieProviders env" and "ieRegistry env2 = ieRegistry env"
  shows "r = Inr Duplicate \<and> inQueue s2 = inQueue s1
    \<and> map (\<lambda>p. p\<lparr>pbDuplicateCount := 0, pbLastDuplicateAt := None\<rparr>) (inPostbacks s2)
       = map (\<lambda>p. p\<lparr>pbDuplicateCount := 0, pbLastDuplicateAt := None\<rparr>) (inPostbacks s1)
    \<and> sum_list (map pbDuplicateCount (inPostbacks s2)) = sum_list (map pbDuplicateCount (inPostbacks s1)) + 1"
  using assms(1)
proof (cases rule: receive_effect)
  case (archived p t)
  have once: "count_where (same_event p t) (inPostbacks s1) = 1"
    using archived(1)
  proof (cases rule: archive_cases)
    case stored
    then show ?thesis by (simp add: enqueueProcessing_def list_ex_count)
  qed auto
  have "archive env2 s1 p e t = (s2, r)" using archived(2) [OF assms(3,4)] assms(2) by simp
  then show ?thesis
  proof (cases rule: archive_cases)
    case repeated
    have dup: "sum_list (map pbDuplicateCount (update_where q (\<lambda>x. x\<lparr>pbDuplicateCount := pbDuplicateCount x + 1,
        pbLastDuplicateAt := m\<rparr>) rows)) = sum_list (map pbDuplicateCount rows) + int (count_where q rows)" for q m rows
      by (induction rows) auto
    show ?thesis using repeated once by (simp add: map_update_where dup)
  next
    case stored
    then show ?thesis using once by (simp add: list_ex_count)
  next
    case missing
    then have "\<not> list_ex (same_event p t) (inPostbacks s1)"
      using \<open>archive env2 s1 p e t = (s2, r)\<close>
      by (auto simp: archive_def markDuplicate_def createPostback_def split: sum.splits app_error.splits if_splits)
    then show ?thesis using once by (simp add: list_ex_count)
  qed
qed auto


section \<open>A concrete delivery\<close>

definition demo_postback_adapter :: adapter where
  "demo_postback_adapter = demo_adapter\<lparr>parsePostback := Some (\<lambda>_. Inr \<lparr>ncSubId = ''s'',
     ncExternalTransactionId = ''t'', ncPayoutAmountMinor = 150, ncPayoutCurrency = ''USD'', ncStatus = Confirmed,
     ncIsReversal = False, ncExternalOfferId = None, ncOccurredAt = None\<rparr>)\<rparr>"

definition demo_intake_env :: "id \<Rightarrow> intake_env" where
  "demo_intake_env i = \<lparr>ieProviders = [\<lparr>prId = 1, prSlug = ''mock'', prDisplayName = ''Mock'', prIsEnabled = True,
       prPostbackIpRanges = [], prSyncIntervalMinutes = 60, prHealthState = HEALTHY,
       prConsecutiveFailureCount = 0, prLastSuccessfulSyncAt = None, prLastFailureReason = None, prCreatedAt = 0\<rparr>],
     ieRegistry = \<lparr>registered = [(''mock'', (demo_registration, demo_postback_adapter))], failed = [], loaded = True\<rparr>,
     ieId = i, ieNow = 5, ieQueueUp = True, ieSummary = (\<lambda>_. [])\<rparr>"

definition demo_envelope :: postback_envelope where
  "demo_envelope = \<lparr>evProviderSlug = ''mock'', evMethod = ''get'',
     evQuery = [(''sub_id'', Single ''s''), (''transaction_id'', Single ''t''), (''payout'', Single ''1.50''),
       (''currency'', Single ''usd''), (''status'', Single ''1''), (''extra'', Repeated [''x'', ''y''])],
     evBody = JNull, evRawBody = None, evHeaders = [(''host'', Single ''h''), (''x-signature'', Single ''z'')],
     evSourceIp = Some ''10.1.2.3''\<rparr>"

lemma archive_replays_query_witness:
  "mock_parsePostback (\<lambda>_. None) (toRawRequest (pbPayload (archived_row (demo_intake_env 1) 1 demo_envelope (Some ''t'')))
      (pbHeaders (archived_row (demo_intake_env 1) 1 demo_envelope (Some ''t'')))
      (pbSourceIp (archived_row (demo_intake_env 1) 1 demo_envelope (Some ''t''))))
    = mock_parsePostback (\<lambda>_. None) (raw_of demo_envelope)"
proof -
  have "distinct (map fst (evQuery demo_envelope))" "length (evQuery demo_envelope) \<le> MAX_KEYS"
    "list_all (\<lambda>(k, v). short k \<and> short_value v) (evQuery demo_envelope)"
    by code_simp+
  then show ?thesis using archive_replays_query by blast
qed

lemma demo_received: "receive (demo_intake_env 11) no_intake demo_envelope
    = (fst (receive (demo_intake_env 11) no_intake demo_envelope), Inr Accepted)"
proof -
  have "snd (receive (demo_intake_env 11) no_intake demo_envelope) = Inr Accepted"
    by (simp add: receive_def demo_intake_env_def demo_envelope_def findProviderBySlug_def
        require_registered_def demo_registration_def isPostbackSourceAllowed_def demo_postback_adapter_def
        demo_adapter_def archive_def createPostback_def no_intake_def archived_row_def)
  then show ?thesis by (metis prod.collapse)
qed

lemma only_authenticated_postbacks_leave_a_trace_witness:
  "\<exists>p. findProviderBySlug (ieProviders (demo_intake_env 11)) ''mock'' = Some p
    \<and> isPostbackSourceAllowed p (Some ''10.1.2.3'')"
  using only_authenticated_postbacks_leave_a_trace [OF demo_received]
  by (auto simp: demo_envelope_def)

lemma redelivery_is_a_duplicate_witness:
  "snd (receive (demo_intake_env 12) (fst (receive (demo_intake_env 11) no_intake demo_envelope)) demo_envelope)
    = Inr Duplicate"
proof -
  let ?s1 = "fst (receive (demo_intake_env 11) no_intake demo_envelope)"
  have "ieProviders (demo_intake_env 12) = ieProviders (demo_intake_env 11)"
    "ieRegistry (demo_intake_env 12) = ieRegistry (demo_intake_env 11)"
    by (simp_all add: demo_intake_env_def)
  then show ?thesis
    using redelivery_is_a_duplicate [OF demo_received prod.collapse [symmetric]] by blast
qed

end
