(* ===== verification/Conversions.thy ===== *)
theory Conversions
  imports Postbacks Clicks Users Fraud RewardProps
begin

text \<open>
  Turning an archived postback into a conversion and a credit:
  \<^verbatim>\<open>apps/api/src/modules/conversions/conversions.service.ts\<close> with
  \<^verbatim>\<open>fraud-context.builder.ts\<close>. Processing is written in the two parts the code has:
  the reads and decisions before the transaction (\<open>attribute\<close>), and the transaction
  (\<open>persist\<close>), so that two workers can be interleaved between them. What the service finds
  around it (clicks, users, providers, configuration, the signer, fresh ids, the clock) is an
  environment.
\<close>

section \<open>Conversions\<close>

datatype conversion_status = CV_PENDING | CV_ATTRIBUTED | CV_CREDITED | CV_HELD | CV_REVERSED | CV_REJECTED

datatype conversion_type = CT_CONVERSION | CT_REVERSAL

text \<open>Why a conversion is held or rejected: the service's own sentences, the details of the rules
  that fired, or an administrator's words.\<close>

datatype review_reason =
    ProviderRejected | AccountNotActive | RuleDetails "rule_detail list" | BlockedByRule | HeldByRule
  | AdminReason string

record conversion =
  cvId :: id
  cvClickId :: id
  cvUserId :: id
  cvProviderId :: id
  cvOfferId :: id
  cvPostbackId :: id
  cvType :: conversion_type
  cvStatus :: conversion_status
  cvExternalTransactionId :: string
  cvExternalOfferId :: "string option"
  cvPayoutAmountMinor :: int
  cvPayoutCurrency :: string
  cvProviderStatus :: conversion_signal
  cvOccurredAt :: "millis option"
  cvRewardPoints :: int
  cvPointsPerMinorUnit :: int
  cvRewardSharePercent :: int
  cvReversalOfId :: "id option"
  cvReviewReason :: "review_reason option"
  cvFraudEvaluationId :: "id option"
  cvReviewedByAdminId :: "id option"
  cvReviewedAt :: "millis option"
  cvCreatedAt :: millis
  cvUpdatedAt :: millis

record conv_state =
  csIntake :: intake_state
  csConversions :: "conversion list"
  csEvaluations :: "fraud_evaluation list"
  csLedger :: ledger
  csRegistry :: registry

record conv_env =
  veClicks :: "click list"
  veUsers :: "user list"
  veProviders :: "provider list"
  veAdapters :: adapter_map
  veVariables :: "string \<Rightarrow> string option"
  veHmac :: hmac_sha256
  veSecret :: string
  veRates :: "id \<Rightarrow> offers_config"
  veFraud :: "id \<Rightarrow> fraud_config"
  veScoringFails :: bool
  veHoldDays :: "id option \<Rightarrow> int"
  veClickAt :: millis
  veScoreAt :: millis
  vePersistAt :: millis
  veLedgerAt :: millis
  veConversionId :: id
  veEvaluationId :: id
  veTransactionId :: id
  veDescribe :: "app_error \<Rightarrow> string"

text \<open>What \<open>attribute\<close> can end with: a quarantine, or an error of another kind.\<close>

datatype failure = Quarantined quarantine_reason | Thrown app_error

type_synonym 'a attributed = "failure + 'a"

datatype processing_result = Converted id | ResultQuarantined quarantine_reason | SkippedPostback

section \<open>The fraud context\<close>

text \<open>\<open>email.trim().toLowerCase().split('@')\<close>\<close>

definition emailDomainOf :: "string \<Rightarrow> string option" where
  "emailDomainOf email = (case split_on CHR ''@'' (js_lower (js_trim email)) of
     [_, domain] \<Rightarrow> (if length domain > 0 then Some domain else None) | _ \<Rightarrow> None)"

definition countUserConversionsSince :: "conversion list \<Rightarrow> id \<Rightarrow> millis \<Rightarrow> nat" where
  "countUserConversionsSince rows u since =
     count_where (\<lambda>c. cvUserId c = u \<and> cvType c = CT_CONVERSION \<and> since \<le> cvCreatedAt c) rows"

definition countIpConversionsSince :: "conversion list \<Rightarrow> click list \<Rightarrow> string option \<Rightarrow> millis \<Rightarrow> nat option" where
  "countIpConversionsSince rows clicks ip since = (case ip of
     None \<Rightarrow> None
   | Some a \<Rightarrow> let clickIds = findIdsByIpSince clicks a since in
       if length clickIds = 0 then Some 0
       else Some (count_where (\<lambda>c. cvClickId c \<in> set clickIds \<and> cvType c = CT_CONVERSION
         \<and> since \<le> cvCreatedAt c) rows))"

definition countLifetimeConversions :: "conversion list \<Rightarrow> id \<Rightarrow> nat" where
  "countLifetimeConversions rows u = count_where (\<lambda>c. cvUserId c = u \<and> cvType c = CT_CONVERSION) rows"

definition countLifetimeChargebacks :: "conversion list \<Rightarrow> id \<Rightarrow> nat" where
  "countLifetimeChargebacks rows u =
     count_where (\<lambda>c. cvUserId c = u \<and> cvType c = CT_CONVERSION \<and> cvStatus c = CV_REVERSED) rows"

definition buildFraudContext :: "conv_env \<Rightarrow> conversion list \<Rightarrow> user \<Rightarrow> click \<Rightarrow> id \<Rightarrow> millis \<Rightarrow> millis
    \<Rightarrow> fraud_context" where
  "buildFraudContext env rows user click providerId occurredAt now =
     (case windowsFor (veFraud env) providerId of (velocityWindowMinutes, sharedIdentityWindowDays) \<Rightarrow>
      let velocitySince = now - velocityWindowMinutes * 60000;
          identitySince = now - sharedIdentityWindowDays * 86400000
      in \<lparr>fxUserId = usId user, fxProviderId = providerId, fxEmailDomain = emailDomainOf (usEmail user),
          fxAccountCreatedAt = usCreatedAt user, fxClickAt = ckCreatedAt click,
          fxClickIp = ckIpAddress click, fxClickDeviceFingerprint = ckDeviceFingerprint click,
          fxConversionAt = occurredAt,
          fxUserConversionsInWindow = int (countUserConversionsSince rows (usId user) velocitySince),
          fxIpConversionsInWindow = map_option int
            (countIpConversionsSince rows (veClicks env) (ckIpAddress click) velocitySince),
          fxAccountsSharingIp = map_option (\<lambda>a. int (countOtherAccountsSharingIp (veClicks env) a
            (usId user) identitySince)) (ckIpAddress click),
          fxAccountsSharingDevice = map_option (\<lambda>d. int (countOtherAccountsSharingDevice (veClicks env) d
            (usId user) identitySince)) (ckDeviceFingerprint click),
          fxLifetimeConversions = int (countLifetimeConversions rows (usId user)),
          fxLifetimeChargebacks = int (countLifetimeChargebacks rows (usId user))\<rparr>)"

section \<open>Decisions\<close>

definition resolveStatus :: "normalized_conversion \<Rightarrow> bool \<Rightarrow> fraud_action option \<Rightarrow> review_reason option
    \<Rightarrow> conversion_status \<times> review_reason option" where
  "resolveStatus parsed userIsActive fraudAction fraudReason =
     (if ncStatus parsed = RejectedSignal then (CV_REJECTED, Some ProviderRejected)
      else if ncStatus parsed = PendingSignal then (CV_PENDING, None)
      else if \<not> userIsActive then (CV_HELD, Some AccountNotActive)
      else if fraudAction = Some BLOCK
      then (CV_REJECTED, Some (case fraudReason of None \<Rightarrow> BlockedByRule | Some r \<Rightarrow> r))
      else if fraudAction = Some HOLD \<or> fraudAction = Some REVIEW
      then (CV_HELD, Some (case fraudReason of None \<Rightarrow> HeldByRule | Some r \<Rightarrow> r))
      else (CV_ATTRIBUTED, None))"

record credit_plan =
  cpCredits :: bool
  cpHoldIndefinitely :: bool
  cpReason :: string

definition no_credit :: credit_plan where
  "no_credit = \<lparr>cpCredits = False, cpHoldIndefinitely = False, cpReason = []\<rparr>"

definition planCredit :: "conversion_status \<Rightarrow> int \<Rightarrow> bool \<Rightarrow> credit_plan" where
  "planCredit status rewardPoints isReversal =
     (if isReversal then no_credit
      else if rewardPoints \<le> 0 then no_credit
      else (case status of
          CV_ATTRIBUTED \<Rightarrow> \<lparr>cpCredits = True, cpHoldIndefinitely = False, cpReason = ''conversion attributed''\<rparr>
        | CV_HELD \<Rightarrow> \<lparr>cpCredits = True, cpHoldIndefinitely = True, cpReason = ''conversion held for review''\<rparr>
        | _ \<Rightarrow> no_credit))"

definition appliedActionOf :: "fraud_action \<Rightarrow> credit_plan \<Rightarrow> conversion_status \<Rightarrow> fraud_action" where
  "appliedActionOf recommended plan storedStatus =
     (if storedStatus = CV_REJECTED then (if recommended = BLOCK then BLOCK else ALLOW)
      else if \<not> cpCredits plan then ALLOW
      else if cpHoldIndefinitely plan then (if recommended = REVIEW then REVIEW else HOLD)
      else ALLOW)"

record scoring =
  scResult :: fraud_evaluation_result
  scReason :: "review_reason option"

definition score :: "conv_env \<Rightarrow> conversion list \<Rightarrow> user \<Rightarrow> click \<Rightarrow> provider_postback \<Rightarrow> normalized_conversion
    \<Rightarrow> scoring option" where
  "score env rows user click postback parsed =
     (if veScoringFails env then None
      else let context = buildFraudContext env rows user click (pbProviderId postback)
             (case ncOccurredAt parsed of None \<Rightarrow> veScoreAt env | Some t \<Rightarrow> t) (veScoreAt env);
               result = evaluate_fraud (veFraud env) context
           in Some \<lparr>scResult = result, scReason = (if length (evTriggered result) > 0
               then Some (RuleDetails (map trDetail (evTriggered result))) else None)\<rparr>)"

section \<open>Attribution: everything before the transaction\<close>

definition reparse :: "conv_env \<Rightarrow> registry \<Rightarrow> provider_postback \<Rightarrow> registry \<times> normalized_conversion attributed" where
  "reparse env reg postback =
     (case findProvider (veProviders env) (pbProviderId postback) of
        None \<Rightarrow> (reg, Inl (Quarantined Q_PROVIDER_UNAVAILABLE))
      | Some p \<Rightarrow>
          let reg' = (case find_registered reg (prSlug p) of
                Some _ \<Rightarrow> reg | None \<Rightarrow> rebuild (veAdapters env) (veVariables env) (veProviders env))
          in (reg', (case find_registered reg' (prSlug p) of
                None \<Rightarrow> Inl (Quarantined Q_PROVIDER_UNAVAILABLE)
              | Some (_, a) \<Rightarrow> (case parsePostback a of
                  None \<Rightarrow> Inl (Quarantined Q_PAYLOAD_UNREADABLE)
                | Some parse \<Rightarrow> (case parse (toRawRequest (pbPayload postback) (pbHeaders postback) (pbSourceIp postback)) of
                    Inl _ \<Rightarrow> Inl (Quarantined Q_PAYLOAD_UNREADABLE)
                  | Inr parsed \<Rightarrow> Inr parsed)))))"

definition resolveClick :: "conv_env \<Rightarrow> string \<Rightarrow> click attributed" where
  "resolveClick env subId =
     (case resolveSubId (veHmac env) (veSecret env) (veClicks env) (veClickAt env) subId of
        Inr c \<Rightarrow> Inr c
      | Inl e \<Rightarrow> (case e of
          DomainError CLICK_SUB_ID_INVALID _ \<Rightarrow> Inl (Quarantined Q_SUB_ID_INVALID)
        | DomainError CLICK_NOT_FOUND _ \<Rightarrow> Inl (Quarantined Q_CLICK_NOT_FOUND)
        | DomainError CLICK_ATTRIBUTION_EXPIRED _ \<Rightarrow> Inl (Quarantined Q_ATTRIBUTION_EXPIRED)
        | _ \<Rightarrow> Inl (Thrown e)))"

text \<open>A payout that is no 32-bit integer cannot be compared with the column: the query itself fails.\<close>

definition column_int :: "rat \<Rightarrow> int result" where
  "column_int x = (if of_int \<lfloor>x\<rfloor> = x \<and> int4 \<lfloor>x\<rfloor> then Inr \<lfloor>x\<rfloor> else Inl OutOfRange)"

definition reversal_candidate :: "click \<Rightarrow> int \<Rightarrow> string \<Rightarrow> conversion \<Rightarrow> bool" where
  "reversal_candidate click amount currency c \<longleftrightarrow> cvClickId c = ckId click \<and> cvType c = CT_CONVERSION
     \<and> cvStatus c \<noteq> CV_REVERSED \<and> cvPayoutAmountMinor c = amount \<and> cvPayoutCurrency c = currency"

definition findReversalTarget :: "conversion list \<Rightarrow> click \<Rightarrow> normalized_conversion \<Rightarrow> conversion attributed" where
  "findReversalTarget rows click parsed =
     (case column_int (ncPayoutAmountMinor parsed) of
        Inl e \<Rightarrow> Inl (Thrown e)
      | Inr amount \<Rightarrow> (case filter (reversal_candidate click amount (ncPayoutCurrency parsed)) rows of
          [] \<Rightarrow> Inl (Quarantined Q_REVERSAL_ORIGINAL_NOT_FOUND)
        | [c] \<Rightarrow> Inr c
        | _ \<Rightarrow> Inl (Quarantined Q_REVERSAL_AMBIGUOUS)))"

record persist_input =
  piPostback :: provider_postback
  piClick :: click
  piParsed :: normalized_conversion
  piRates :: catalog_rates
  piStatus :: conversion_status
  piReviewReason :: "review_reason option"
  piReversalOf :: "conversion option"
  piScoring :: "scoring option"

definition attribute_parsed :: "conv_env \<Rightarrow> conversion list \<Rightarrow> provider_postback \<Rightarrow> normalized_conversion
    \<Rightarrow> persist_input attributed" where
  "attribute_parsed env rows postback parsed =
     (case resolveClick env (ncSubId parsed) of
        Inl f \<Rightarrow> Inl f
      | Inr click \<Rightarrow>
        if ckProviderId click \<noteq> pbProviderId postback then Inl (Quarantined Q_PROVIDER_MISMATCH)
        else let rates = resolveRates (veRates env) (pbProviderId postback) in
        if ncPayoutCurrency parsed \<noteq> accountingCurrency rates then Inl (Quarantined Q_CURRENCY_MISMATCH)
        else (case findUser (veUsers env) (ckUserId click) of
            None \<Rightarrow> Inl (Quarantined Q_CLICK_NOT_FOUND)
          | Some user \<Rightarrow> (case (if ncIsReversal parsed
                then map_sum (\<lambda>f. f) Some (findReversalTarget rows click parsed) else Inr None) of
              Inl f \<Rightarrow> Inl f
            | Inr reversalOf \<Rightarrow>
                let scoring = (if reversalOf \<noteq> None then None else score env rows user click postback parsed);
                    decided = resolveStatus parsed (isActiveUser user)
                      (map_option (\<lambda>s. evAction (scResult s)) scoring) (Option.bind scoring scReason)
                in Inr \<lparr>piPostback = postback, piClick = click, piParsed = parsed, piRates = rates,
                     piStatus = fst decided, piReviewReason = snd decided, piReversalOf = reversalOf,
                     piScoring = scoring\<rparr>)))"

definition attribute :: "conv_env \<Rightarrow> conv_state \<Rightarrow> provider_postback \<Rightarrow> conv_state \<times> persist_input attributed" where
  "attribute env s postback =
     (case reparse env (csRegistry s) postback of (reg, parsed) \<Rightarrow>
      (s\<lparr>csRegistry := reg\<rparr>, (case parsed of
         Inl f \<Rightarrow> Inl f
       | Inr p \<Rightarrow> attribute_parsed env (csConversions s) postback p)))"

section \<open>Persisting: the transaction\<close>

text \<open>\<open>create\<close> with the table's three unique columns and its 32-bit ones.\<close>

definition createConversion :: "conversion list \<Rightarrow> conversion \<Rightarrow> conversion list result" where
  "createConversion rows c =
     (if cvId c \<in> set (map cvId rows) \<or> cvPostbackId c \<in> set (map cvPostbackId rows)
         \<or> (cvFraudEvaluationId c \<noteq> None \<and> cvFraudEvaluationId c \<in> set (map cvFraudEvaluationId rows))
      then Inl UniqueViolation
      else if \<not> int4 (cvPayoutAmountMinor c) \<or> \<not> int4 (cvRewardPoints c) then Inl OutOfRange
      else Inr (rows @ [c]))"

definition findConversion :: "conversion list \<Rightarrow> id \<Rightarrow> conversion option" where
  "findConversion rows i = List.find (\<lambda>c. cvId c = i) rows"

definition update_conversion :: "conversion list \<Rightarrow> id \<Rightarrow> (conversion \<Rightarrow> conversion)
    \<Rightarrow> (conversion \<times> conversion list) result" where
  "update_conversion rows i f = (case findConversion rows i of
     None \<Rightarrow> Inl RecordMissing
   | Some c \<Rightarrow> Inr (f c, update_where (\<lambda>c. cvId c = i) f rows))"

definition findByPostbackId :: "conversion list \<Rightarrow> id \<Rightarrow> conversion option" where
  "findByPostbackId rows p = List.find (\<lambda>c. cvPostbackId c = p) rows"

definition findByFraudEvaluationId :: "conversion list \<Rightarrow> id \<Rightarrow> conversion option" where
  "findByFraudEvaluationId rows e = List.find (\<lambda>c. cvFraudEvaluationId c = Some e) rows"

definition requireConversion :: "conversion list \<Rightarrow> id \<Rightarrow> conversion result" where
  "requireConversion rows i = (case findConversion rows i of
     None \<Rightarrow> Inl (DomainError CONVERSION_NOT_FOUND 404) | Some c \<Rightarrow> Inr c)"

definition reverseRewardFor :: "conv_env \<Rightarrow> ledger \<Rightarrow> conversion \<Rightarrow> id \<Rightarrow> ledger result" where
  "reverseRewardFor env l original reversalConversionId =
     (case findBySource l SOURCE_CONVERSION (cvId original) (Some CONVERSION_CREDIT) of
        None \<Rightarrow> Inr l
      | Some c \<Rightarrow> map_sum (\<lambda>e. e) snd (reverseCredit l (veTransactionId env) (veLedgerAt env) (txId c)
          ''provider reported a chargeback'' None
          (Some \<lparr>sourceType = SOURCE_CONVERSION, sourceId = Some reversalConversionId, sourceLabel = None\<rparr>)))"

definition conversion_credit :: "conv_env \<Rightarrow> persist_input \<Rightarrow> int \<Rightarrow> credit_plan \<Rightarrow> credit_input" where
  "conversion_credit env input rewardPoints plan =
     \<lparr>crUserId = ckUserId (piClick input), crAmountPoints = of_int rewardPoints,
      crSource = \<lparr>sourceType = SOURCE_CONVERSION, sourceId = Some (veConversionId env),
                   sourceLabel = Some (ckOfferTitleSnapshot (piClick input))\<rparr>,
      crActor = None, crReason = Some (cpReason plan),
      crHoldScopeProviderId = Some (pbProviderId (piPostback input)),
      crHoldIndefinitely = cpHoldIndefinitely plan, crBonus = False\<rparr>"

definition pi_points :: "persist_input \<Rightarrow> int" where
  "pi_points input = toRewardPoints (ncPayoutAmountMinor (piParsed input)) (piRates input)"

definition pi_plan :: "persist_input \<Rightarrow> credit_plan" where
  "pi_plan input = planCredit (piStatus input) (pi_points input) (piReversalOf input \<noteq> None)"

definition storedStatus :: "persist_input \<Rightarrow> conversion_status" where
  "storedStatus input = (if cpCredits (pi_plan input) \<and> \<not> cpHoldIndefinitely (pi_plan input)
     then CV_CREDITED else piStatus input)"

definition new_conversion :: "conv_env \<Rightarrow> persist_input \<Rightarrow> int \<Rightarrow> id option \<Rightarrow> conversion" where
  "new_conversion env input amount evaluationId =
     \<lparr>cvId = veConversionId env, cvClickId = ckId (piClick input), cvUserId = ckUserId (piClick input),
      cvProviderId = pbProviderId (piPostback input), cvOfferId = ckOfferId (piClick input),
      cvPostbackId = pbId (piPostback input),
      cvType = (if piReversalOf input \<noteq> None then CT_REVERSAL else CT_CONVERSION),
      cvStatus = storedStatus input,
      cvExternalTransactionId = ncExternalTransactionId (piParsed input),
      cvExternalOfferId = ncExternalOfferId (piParsed input), cvPayoutAmountMinor = amount,
      cvPayoutCurrency = ncPayoutCurrency (piParsed input), cvProviderStatus = ncStatus (piParsed input),
      cvOccurredAt = ncOccurredAt (piParsed input), cvRewardPoints = pi_points input,
      cvPointsPerMinorUnit = pointsPerMinorUnit (piRates input),
      cvRewardSharePercent = rewardSharePercent (piRates input),
      cvReversalOfId = map_option cvId (piReversalOf input), cvReviewReason = piReviewReason input,
      cvFraudEvaluationId = evaluationId, cvReviewedByAdminId = None, cvReviewedAt = None,
      cvCreatedAt = vePersistAt env, cvUpdatedAt = vePersistAt env\<rparr>"

text \<open>The five writes in their order, each able to abort the transaction.\<close>

definition record_scoring :: "conv_env \<Rightarrow> persist_input \<Rightarrow> fraud_evaluation list
    \<Rightarrow> (id option \<times> fraud_evaluation list) result" where
  "record_scoring env input rows = (case piScoring input of
     None \<Rightarrow> Inr (None, rows)
   | Some sc \<Rightarrow> map_sum (\<lambda>e. e) (map_prod (Some \<circ> feId) (\<lambda>x. x))
       (recordEvaluation rows (veEvaluationId env) (vePersistAt env) (ckUserId (piClick input)) (scResult sc)
         (appliedActionOf (evAction (scResult sc)) (pi_plan input) (storedStatus input))))"

definition credit_reward :: "conv_env \<Rightarrow> persist_input \<Rightarrow> ledger \<Rightarrow> ledger result" where
  "credit_reward env input l =
     (if cpCredits (pi_plan input)
      then map_sum (\<lambda>e. e) snd (credit (veHoldDays env) l (veTransactionId env) (veLedgerAt env)
        (conversion_credit env input (pi_points input) (pi_plan input)))
      else Inr l)"

definition reverse_reward :: "conv_env \<Rightarrow> persist_input \<Rightarrow> ledger \<Rightarrow> ledger result" where
  "reverse_reward env input l = (case piReversalOf input of
     None \<Rightarrow> Inr l | Some original \<Rightarrow> reverseRewardFor env l original (veConversionId env))"

definition store_conversion :: "conv_env \<Rightarrow> persist_input \<Rightarrow> id option \<Rightarrow> conversion list
    \<Rightarrow> (conversion \<times> conversion list) result" where
  "store_conversion env input evaluationId rows =
     (case column_int (ncPayoutAmountMinor (piParsed input)) of
        Inl e \<Rightarrow> Inl e
      | Inr amount \<Rightarrow> let c = new_conversion env input amount evaluationId in
          (case createConversion rows c of
             Inl e \<Rightarrow> Inl e
           | Inr rows1 \<Rightarrow> (case piReversalOf input of
               None \<Rightarrow> Inr (c, rows1)
             | Some original \<Rightarrow> map_sum (\<lambda>e. e) (\<lambda>x. (c, snd x))
                 (update_conversion rows1 (cvId original)
                   (\<lambda>r. r\<lparr>cvStatus := CV_REVERSED, cvUpdatedAt := vePersistAt env\<rparr>)))))"

text \<open>The transaction as one step: its statements with no other transaction between them. The code
  relies on the locks it takes for that, and they give it except for a second chargeback of the same
  credit, whose check can run between this one's check and lock (see \<open>reverseCheck\<close>).\<close>

definition persist_transaction :: "conv_env \<Rightarrow> conv_state \<Rightarrow> persist_input \<Rightarrow> (conversion \<times> conv_state) result" where
  "persist_transaction env s input =
     (case record_scoring env input (csEvaluations s) of
        Inl e \<Rightarrow> Inl e
      | Inr (evaluationId, evaluations) \<Rightarrow> (case credit_reward env input (csLedger s) of
          Inl e \<Rightarrow> Inl e
        | Inr l1 \<Rightarrow> (case reverse_reward env input l1 of
            Inl e \<Rightarrow> Inl e
          | Inr l2 \<Rightarrow> (case store_conversion env input evaluationId (csConversions s) of
              Inl e \<Rightarrow> Inl e
            | Inr (c, conversions) \<Rightarrow>
                (case markProcessed (inPostbacks (csIntake s)) (pbId (piPostback input)) of
                   Inl e \<Rightarrow> Inl e
                 | Inr postbacks \<Rightarrow> Inr (c, s\<lparr>csIntake := (csIntake s)\<lparr>inPostbacks := postbacks\<rparr>,
                     csConversions := conversions, csEvaluations := evaluations, csLedger := l2\<rparr>))))))"

text \<open>A unique violation means another worker recorded this postback first: its row is the answer.\<close>

definition persist :: "conv_env \<Rightarrow> conv_state \<Rightarrow> persist_input \<Rightarrow> conv_state \<times> conversion result" where
  "persist env s input =
     (case persist_transaction env s input of
        Inr (c, s') \<Rightarrow> (s', Inr c)
      | Inl e \<Rightarrow> (s, (if e = UniqueViolation
          then (case findByPostbackId (csConversions s) (pbId (piPostback input)) of
            Some existing \<Rightarrow> Inr existing | None \<Rightarrow> Inl e)
          else Inl e)))"

section \<open>Processing a postback\<close>

definition set_postbacks :: "conv_state \<Rightarrow> provider_postback list result \<Rightarrow> conv_state" where
  "set_postbacks s r = (case r of Inl _ \<Rightarrow> s | Inr rows \<Rightarrow> s\<lparr>csIntake := (csIntake s)\<lparr>inPostbacks := rows\<rparr>\<rparr>)"

text \<open>What \<open>process\<close> does with an error: a quarantine is recorded and answered, anything else marks
  the postback failed, best effort, and is thrown on.\<close>

definition process_failed :: "conv_env \<Rightarrow> conv_state \<Rightarrow> id \<Rightarrow> failure \<Rightarrow> conv_state \<times> processing_result result" where
  "process_failed env s i f = (case f of
     Quarantined reason \<Rightarrow> (case markQuarantined (inPostbacks (csIntake s)) i reason of
         Inl e \<Rightarrow> (s, Inl e)
       | Inr rows \<Rightarrow> (set_postbacks s (Inr rows), Inr (ResultQuarantined reason)))
   | Thrown e \<Rightarrow> (set_postbacks s (markFailed (inPostbacks (csIntake s)) i (veDescribe env e)), Inl e))"

text \<open>The first half of a run, up to the transaction: \<^term>\<open>Inl\<close> when the run is over.\<close>

definition process_start :: "conv_env \<Rightarrow> conv_state \<Rightarrow> id
    \<Rightarrow> conv_state \<times> (processing_result result + persist_input)" where
  "process_start env s i =
     (case List.find (\<lambda>p. pbId p = i) (inPostbacks (csIntake s)) of
        None \<Rightarrow> (s, Inl (Inr SkippedPostback))
      | Some postback \<Rightarrow>
          if pbState postback \<noteq> PB_RECEIVED then (s, Inl (Inr SkippedPostback))
          else (case attribute env s postback of
              (s1, Inr input) \<Rightarrow> (s1, Inr input)
            | (s1, Inl f) \<Rightarrow> (case process_failed env s1 i f of (s2, r) \<Rightarrow> (s2, Inl r))))"

definition process_finish :: "conv_env \<Rightarrow> conv_state \<Rightarrow> persist_input \<Rightarrow> conv_state \<times> processing_result result" where
  "process_finish env s input =
     (case persist env s input of
        (s1, Inr c) \<Rightarrow> (s1, Inr (Converted (cvId c)))
      | (s1, Inl e) \<Rightarrow> process_failed env s1 (pbId (piPostback input)) (Thrown e))"

definition process :: "conv_env \<Rightarrow> conv_state \<Rightarrow> id \<Rightarrow> conv_state \<times> processing_result result" where
  "process env s i = (case process_start env s i of
     (s1, Inl r) \<Rightarrow> (s1, r)
   | (s1, Inr input) \<Rightarrow> process_finish env s1 input)"

section \<open>Resolving a hold\<close>

datatype review_decision = DECISION_CLEAR | DECISION_CONFIRM

record resolve_hold_input =
  rhConversionId :: id
  rhDecision :: review_decision
  rhReason :: string
  rhAdminId :: id
  rhNow :: millis

definition reviewed :: "conversion_status \<Rightarrow> resolve_hold_input \<Rightarrow> conversion \<Rightarrow> conversion" where
  "reviewed status input c = c\<lparr>cvStatus := status, cvReviewReason := Some (AdminReason (rhReason input)),
     cvReviewedByAdminId := Some (rhAdminId input), cvReviewedAt := Some (rhNow input),
     cvUpdatedAt := rhNow input\<rparr>"

text \<open>Runs inside the caller's transaction, with the id and time its ledger movement gets.\<close>

definition resolveHold :: "id \<Rightarrow> millis \<Rightarrow> conv_state \<Rightarrow> resolve_hold_input \<Rightarrow> (conversion \<times> conv_state) result" where
  "resolveHold transactionId ledgerAt s input =
     (case findConversion (csConversions s) (rhConversionId input) of
        None \<Rightarrow> Inl (DomainError CONVERSION_NOT_FOUND 404)
      | Some held \<Rightarrow>
        if cvStatus held \<noteq> CV_HELD then Inl (DomainError FRAUD_CONVERSION_NOT_HELD 409)
        else let l = csLedger s;
                 found = findBySource l SOURCE_CONVERSION (rhConversionId input) (Some CONVERSION_CREDIT);
                 moved = (case found of
                     None \<Rightarrow> Inr l
                   | Some c \<Rightarrow> (case rhDecision input of
                       DECISION_CLEAR \<Rightarrow> map_sum (\<lambda>e. e) snd (mature l transactionId ledgerAt (txId c))
                     | DECISION_CONFIRM \<Rightarrow> map_sum (\<lambda>e. e) snd (reverseCredit l transactionId ledgerAt (txId c)
                         (rhReason input) (Some (admin_actor (Some (rhAdminId input)))) None)))
             in (case moved of
                Inl e \<Rightarrow> Inl e
              | Inr l' \<Rightarrow> map_sum (\<lambda>e. e) (\<lambda>(c, rows). (c, s\<lparr>csConversions := rows, csLedger := l'\<rparr>))
                  (update_conversion (csConversions s) (rhConversionId input)
                    (reviewed (case rhDecision input of DECISION_CLEAR \<Rightarrow> CV_CREDITED | DECISION_CONFIRM \<Rightarrow> CV_REJECTED)
                      input))))"

section \<open>Listing\<close>

record list_conversions_query =
  lvUserId :: "id option"
  lvClickId :: "id option"
  lvProviderId :: "id option"
  lvOfferId :: "id option"
  lvStatus :: "conversion_status option"
  lvType :: "conversion_type option"
  lvExternalTransactionId :: "string option"
  lvLimit :: "int option"
  lvOffset :: "int option"
  lvAscending :: bool

definition clampConversionsLimit :: "int option \<Rightarrow> int" where
  "clampConversionsLimit requested = clampLimit 25 100 requested"

definition conversion_matches :: "list_conversions_query \<Rightarrow> conversion \<Rightarrow> bool" where
  "conversion_matches q c \<longleftrightarrow> by_filter (lvUserId q) (\<lambda>u. cvUserId c = u)
     \<and> by_filter (lvClickId q) (\<lambda>i. cvClickId c = i) \<and> by_filter (lvProviderId q) (\<lambda>i. cvProviderId c = i)
     \<and> by_filter (lvOfferId q) (\<lambda>i. cvOfferId c = i) \<and> by_filter (lvStatus q) (\<lambda>x. cvStatus c = x)
     \<and> by_filter (lvType q) (\<lambda>x. cvType c = x)
     \<and> by_filter (truthy (lvExternalTransactionId q)) (\<lambda>t. cvExternalTransactionId c = t)"

definition findManyConversions :: "conversion list \<Rightarrow> list_conversions_query \<Rightarrow> conversion paginated" where
  "findManyConversions rows q = page (clampConversionsLimit (lvLimit q)) (clampOffset (lvOffset q))
     (sort_by (\<lambda>a b. if lvAscending q then cvCreatedAt a \<le> cvCreatedAt b else cvCreatedAt a \<ge> cvCreatedAt b)
       (filter (conversion_matches q) rows))"

record conversion_summary =
  cyId :: id
  cyType :: conversion_type
  cyStatus :: conversion_status
  cyClickId :: id
  cyUserId :: id
  cyProviderId :: id
  cyProviderSlug :: string
  cyOfferId :: id
  cyPostbackId :: id
  cyExternalTransactionId :: string
  cyExternalOfferId :: "string option"
  cyPayoutAmountMinor :: int
  cyPayoutCurrency :: string
  cyProviderStatus :: conversion_signal
  cyOccurredAt :: "millis option"
  cyRewardPoints :: int
  cyPointsPerMinorUnit :: int
  cyRewardSharePercent :: int
  cyReversalOfId :: "id option"
  cyReviewReason :: "review_reason option"
  cyCreatedAt :: millis
  cyUpdatedAt :: millis

definition toConversionSummary :: "conversion \<Rightarrow> string \<Rightarrow> conversion_summary" where
  "toConversionSummary c providerSlug = \<lparr>cyId = cvId c, cyType = cvType c, cyStatus = cvStatus c,
     cyClickId = cvClickId c, cyUserId = cvUserId c, cyProviderId = cvProviderId c,
     cyProviderSlug = providerSlug, cyOfferId = cvOfferId c, cyPostbackId = cvPostbackId c,
     cyExternalTransactionId = cvExternalTransactionId c, cyExternalOfferId = cvExternalOfferId c,
     cyPayoutAmountMinor = cvPayoutAmountMinor c, cyPayoutCurrency = cvPayoutCurrency c,
     cyProviderStatus = cvProviderStatus c, cyOccurredAt = cvOccurredAt c,
     cyRewardPoints = cvRewardPoints c, cyPointsPerMinorUnit = cvPointsPerMinorUnit c,
     cyRewardSharePercent = cvRewardSharePercent c, cyReversalOfId = cvReversalOfId c,
     cyReviewReason = cvReviewReason c, cyCreatedAt = cvCreatedAt c, cyUpdatedAt = cvUpdatedAt c\<rparr>"

end
