(* ===== verification/ConversionProps.thy ===== *)
theory ConversionProps
  imports Conversions PostbackProps ClickProps
begin

text \<open>
  What conversion processing guarantees about money, for every interleaving of deliveries, workers,
  reviews and the other movements of the ledger. A worker's run is split where the code commits; what
  it read before may be any state at all, so whatever other workers commit between a worker's reads
  and its transaction is included. Transactions are single steps: two chargebacks of one credit whose
  checks overlap are not among the runs (\<open>RewardProps.concurrent_reversals_both_commit\<close>).
\<close>

section \<open>The system\<close>

text \<open>\<open>Finish env0 s0 p env\<close> commits, with what \<open>env\<close> holds, a run that read \<open>s0\<close> under
  \<open>env0\<close>; \<open>Move\<close> is any other movement of the ledger (no other service credits).\<close>

datatype conv_op =
    Receive intake_env postback_envelope
  | Start conv_env id
  | Finish conv_env conv_state provider_postback conv_env
  | Resolve id millis resolve_hold_input
  | Move reward_op
  | Reload registry

definition is_credit_op :: "reward_op \<Rightarrow> bool" where
  "is_credit_op x = (case x of OpCredit _ _ _ _ \<Rightarrow> True | _ \<Rightarrow> False)"

fun execConv :: "conv_state \<Rightarrow> conv_op \<Rightarrow> unit + conv_state" where
  "execConv s (Receive ienv e) = Inr (s\<lparr>csIntake := fst (receive ienv (csIntake s) e)\<rparr>)"
| "execConv s (Start env i) = Inr (fst (process_start env s i))"
| "execConv s (Finish env0 s0 p env) = (case snd (attribute env0 s0 p) of
     Inl _ \<Rightarrow> Inl () | Inr input \<Rightarrow> Inr (fst (process_finish env s input)))"
| "execConv s (Resolve i now input) = map_sum (\<lambda>_. ()) snd (resolveHold i now s input)"
| "execConv s (Move x) = (if is_credit_op x then Inl () else
     map_sum (\<lambda>_. ()) (\<lambda>l. s\<lparr>csLedger := l\<rparr>) (execReward (csLedger s) x))"
| "execConv s (Reload g) = Inr (s\<lparr>csRegistry := g\<rparr>)"

definition no_conversions :: conv_state where
  "no_conversions = \<lparr>csIntake = no_intake, csConversions = [], csEvaluations = [],
     csLedger = empty_ledger, csRegistry = empty_registry\<rparr>"

section \<open>What every movement does to conversion credits\<close>

lemma count_where_one:
  "count_where p xs \<le> 1 \<Longrightarrow> x \<in> set xs \<Longrightarrow> y \<in> set xs \<Longrightarrow> p x \<Longrightarrow> p y \<Longrightarrow> x = y"
proof (induction xs)
  case (Cons z zs)
  then show ?case
    by (cases "p z") (auto simp: count_where_0_iff)
qed simp

definition conv_credit :: "id \<Rightarrow> reward_transaction \<Rightarrow> bool" where
  "conv_credit i r \<longleftrightarrow> txType r = CONVERSION_CREDIT \<and> txSourceType r = SOURCE_CONVERSION \<and> txSourceId r = Some i"

definition charged_back :: "ledger \<Rightarrow> reward_transaction \<Rightarrow> bool" where
  "charged_back l r \<longleftrightarrow> acted l (txId r) [CHARGEBACK_DEBIT] \<noteq> None"

definition credits_for :: "id \<Rightarrow> ledger \<Rightarrow> nat" where
  "credits_for i l = count_where (conv_credit i) (transactions l)"

text \<open>Appending movements other than credits.\<close>

definition extends :: "ledger \<Rightarrow> ledger \<Rightarrow> bool" where
  "extends l l' \<longleftrightarrow> ledger_reachable l' \<and> (\<exists>rs. transactions l' = transactions l @ rs
     \<and> (\<forall>r\<in>set rs. txType r \<noteq> CONVERSION_CREDIT))"

lemma extends_refl: "ledger_reachable l \<Longrightarrow> extends l l"
  by (auto simp: extends_def)

lemma extends_posts: "ledger_reachable l \<Longrightarrow> posts l r l' \<Longrightarrow> txType r \<noteq> CONVERSION_CREDIT \<Longrightarrow> extends l l'"
  using posts_getBalance(2,3) [of l r l'] by (auto simp: extends_def)

lemma extends_credits: "extends l l' \<Longrightarrow> credits_for i l' = credits_for i l"
  by (auto simp: extends_def credits_for_def conv_credit_def count_where_append count_where_0_iff)

lemma extends_keeps_charged: "extends l l' \<Longrightarrow> charged_back l r \<Longrightarrow> charged_back l' r"
  by (auto simp: extends_def charged_back_def acted_def find_append split: option.splits)

lemma extends_member:
  "extends l l' \<Longrightarrow> txType r = CONVERSION_CREDIT \<Longrightarrow> r \<in> set (transactions l') \<Longrightarrow> r \<in> set (transactions l)"
  by (auto simp: extends_def)

lemma reverseCredit_extends:
  assumes "ledger_reachable l" and "reverseCredit l i now t reason actor source = Inr (r, l')"
  shows "extends l l'" and "acted l' t [CHARGEBACK_DEBIT] \<noteq> None"
proof -
  obtain c where r: "txType r = CHARGEBACK_DEBIT" "txSourceTransactionId r = Some t"
    using reverseCredit_InrD [OF assms(2)] by blast
  note p = posts.reverse [OF assms(2)]
  show "extends l l'" using extends_posts [OF assms(1) p] r by simp
  show "acted l' t [CHARGEBACK_DEBIT] \<noteq> None"
    using acted_append [OF posts_getBalance(2) [OF assms(1) p]] r by simp
qed

lemma mature_extends:
  assumes "ledger_reachable l" and "mature l i now t = Inr (r, l')"
  shows "extends l l'"
proof (cases r)
  case None
  then show ?thesis using assms mature_none extends_refl by blast
next
  case (Some m)
  then show ?thesis
    using extends_posts [OF assms(1) posts.mature] mature_InrD assms(2) by fastforce
qed

lemma execReward_extends:
  assumes "ledger_reachable l" and "execReward l x = Inr l'" and "\<not> is_credit_op x"
  shows "extends l l'"
proof (cases x)
  case (OpOpen i u)
  then show ?thesis using assms ledger_reachable.opened [OF assms(1)]
    by (auto simp: extends_def openAccount_def)
next
  case (OpDebit i now input)
  then obtain r where r: "debit l i now input = Inr (r, l')"
    using assms(2) by (auto simp: map_sum_def split: sum.splits)
  then have "txType r \<noteq> CONVERSION_CREDIT"
    by (auto simp: debit_def mutate_def created_row_def split: op_results dest!: writeMovement_InrD(1))
  then show ?thesis using extends_posts [OF assms(1) posts.debit [OF r]] by simp
next
  case (OpReverse i now t reason actor source)
  then show ?thesis using assms reverseCredit_extends(1) by (auto simp: map_sum_def split: sum.splits)
next
  case (OpMature i now t)
  then show ?thesis using assms mature_extends by (auto simp: map_sum_def split: sum.splits)
next
  case (OpLock i now u amount payoutId label)
  then obtain r where r: "lockPoints l i now u amount payoutId label = Inr (r, l')"
    using assms(2) by (auto simp: map_sum_def split: sum.splits)
  then have "txType r \<noteq> CONVERSION_CREDIT"
    by (auto simp: lockPoints_def created_row_def split: op_results dest!: writeMovement_InrD(1))
  then show ?thesis using extends_posts [OF assms(1) posts.lock [OF r]] by simp
next
  case (OpRelease i now t reason actor)
  then obtain r where r: "resolveLock l i now t False reason actor = Inr (r, l')"
    using assms(2) by (auto simp: map_sum_def releaseLock_def split: sum.splits)
  then show ?thesis
    using extends_posts [OF assms(1) posts.resolve [OF r]] resolveLock_InrD [OF r] by auto
next
  case (OpSettle i now t reason actor)
  then obtain r where r: "resolveLock l i now t True reason actor = Inr (r, l')"
    using assms(2) by (auto simp: map_sum_def settleLock_def split: sum.splits)
  then show ?thesis
    using extends_posts [OF assms(1) posts.resolve [OF r]] resolveLock_InrD [OF r] by auto
qed (use assms in \<open>simp add: is_credit_op_def\<close>)

section \<open>The invariant\<close>

text \<open>The credit a conversion was paid with, and what the status of a conversion says about it.\<close>

definition pays_for :: "conversion \<Rightarrow> reward_transaction \<Rightarrow> bool" where
  "pays_for c r \<longleftrightarrow> conv_credit (cvId c) r \<and> cvType c = CT_CONVERSION \<and> txUserId r = cvUserId c
     \<and> txAmountPoints r = cvRewardPoints c"

definition settled :: "ledger \<Rightarrow> conversion \<Rightarrow> bool" where
  "settled l c \<longleftrightarrow> (case cvStatus c of
     CV_PENDING \<Rightarrow> credits_for (cvId c) l = 0
   | CV_ATTRIBUTED \<Rightarrow> credits_for (cvId c) l = 0
   | CV_CREDITED \<Rightarrow> 0 < cvRewardPoints c \<longrightarrow> credits_for (cvId c) l = 1
   | CV_HELD \<Rightarrow> 0 < cvRewardPoints c \<longrightarrow> credits_for (cvId c) l = 1
   | _ \<Rightarrow> (\<forall>r\<in>set (transactions l). conv_credit (cvId c) r \<longrightarrow> charged_back l r))"

definition explained_credits :: "conversion list \<Rightarrow> ledger \<Rightarrow> bool" where
  "explained_credits rows l \<longleftrightarrow>
     (\<forall>r\<in>set (transactions l). txType r = CONVERSION_CREDIT \<longrightarrow> (\<exists>c\<in>set rows. pays_for c r))"

definition conversions_settled :: "conversion list \<Rightarrow> ledger \<Rightarrow> bool" where
  "conversions_settled rows l \<longleftrightarrow> distinct (map cvId rows) \<and> explained_credits rows l
     \<and> (\<forall>i. credits_for i l \<le> 1) \<and> (\<forall>c\<in>set rows. cvType c = CT_CONVERSION \<longrightarrow> settled l c)"

definition one_per_postback :: "conversion list \<Rightarrow> provider_postback list \<Rightarrow> bool" where
  "one_per_postback rows postbacks \<longleftrightarrow> distinct (map cvPostbackId rows)
     \<and> set (map cvPostbackId rows) \<subseteq> set (map pbId postbacks)"

definition conv_ok :: "conv_state \<Rightarrow> bool" where
  "conv_ok s \<longleftrightarrow> ledger_reachable (csLedger s) \<and> events_once (csIntake s)
     \<and> one_per_postback (csConversions s) (inPostbacks (csIntake s))
     \<and> conversions_settled (csConversions s) (csLedger s)"

lemma settled_extends:
  assumes "extends l l'" and "settled l c"
  shows "settled l' c"
proof -
  have "conv_credit (cvId c) r \<Longrightarrow> r \<in> set (transactions l') \<Longrightarrow> r \<in> set (transactions l)" for r
    using extends_member [OF assms(1)] by (simp add: conv_credit_def)
  then show ?thesis
    using assms(2) extends_keeps_charged [OF assms(1)]
    by (auto simp: settled_def extends_credits [OF assms(1)] split: conversion_status.splits)
qed

lemma conversions_settled_extends:
  assumes "extends l l'" and "conversions_settled rows l"
  shows "conversions_settled rows l'"
  using assms(2) settled_extends [OF assms(1)] extends_member [OF assms(1)]
  by (auto simp: conversions_settled_def explained_credits_def extends_credits [OF assms(1)])

lemma credit_reward_cases:
  assumes "ledger_reachable l" and "credit_reward env input l = Inr l'"
  obtains (unpaid) "\<not> cpCredits (pi_plan input)" "l' = l"
    | (paid) r where "cpCredits (pi_plan input)" "transactions l' = transactions l @ [r]" "ledger_reachable l'"
        "conv_credit (veConversionId env) r" "txUserId r = ckUserId (piClick input)"
        "txAmountPoints r = pi_points input"
proof (cases "cpCredits (pi_plan input)")
  case False
  then show thesis using assms(2) unpaid by (simp add: credit_reward_def)
next
  case True
  then obtain r where r: "credit (veHoldDays env) l (veTransactionId env) (veLedgerAt env)
      (conversion_credit env input (pi_points input) (pi_plan input)) = Inr (r, l')"
    using assms(2) by (auto simp: credit_reward_def map_sum_def split: sum.splits)
  note p = posts_getBalance(2,3) [OF assms(1) posts.credit [OF r]]
  have "conv_credit (veConversionId env) r \<and> txUserId r = ckUserId (piClick input)
      \<and> txAmountPoints r = pi_points input"
    using r by (auto simp: credit_def mutate_def conversion_credit_def conv_credit_def created_row_def Let_def
        split: op_results dest!: writeMovement_InrD(1) requirePositive_InrD)
  then show thesis using paid True p by blast
qed

lemma findBySource_credit:
  "findBySource l SOURCE_CONVERSION i (Some CONVERSION_CREDIT) = None
    \<Longrightarrow> \<forall>r\<in>set (transactions l). \<not> conv_credit i r"
  "findBySource l SOURCE_CONVERSION i (Some CONVERSION_CREDIT) = Some c
    \<Longrightarrow> conv_credit i c \<and> c \<in> set (transactions l)"
proof -
  have same: "(txSourceType r = SOURCE_CONVERSION \<and> txSourceId r = Some i
      \<and> opt_eq (Some CONVERSION_CREDIT) (txType r)) = conv_credit i r" for r
    by (auto simp: conv_credit_def opt_eq_def)
  show "findBySource l SOURCE_CONVERSION i (Some CONVERSION_CREDIT) = None
      \<Longrightarrow> \<forall>r\<in>set (transactions l). \<not> conv_credit i r"
    unfolding findBySource_def same find_None_iff by simp
  show "findBySource l SOURCE_CONVERSION i (Some CONVERSION_CREDIT) = Some c
      \<Longrightarrow> conv_credit i c \<and> c \<in> set (transactions l)"
    unfolding findBySource_def same by (auto dest: find_SomeD)
qed

lemma source_charged_back:
  assumes "ledger_reachable l" and "credits_for i l \<le> 1"
    and "findBySource l SOURCE_CONVERSION i (Some CONVERSION_CREDIT) = Some c"
    and "reverseCredit l j now (txId c) reason actor source = Inr (r, l')"
  shows "extends l l' \<and> (\<forall>r\<in>set (transactions l'). conv_credit i r \<longrightarrow> charged_back l' r)"
proof -
  note c = findBySource_credit(2) [OF assms(3)] and x = reverseCredit_extends [OF assms(1,4)]
  have "r = c" if "r \<in> set (transactions l')" "conv_credit i r" for r
    using that c extends_member [OF x(1), of r] assms(2)
      count_where_one [of "conv_credit i" "transactions l" r c]
    by (auto simp: credits_for_def conv_credit_def)
  then show ?thesis using x by (auto simp: charged_back_def)
qed

lemma reverseRewardFor_effect:
  assumes "ledger_reachable l" and "\<And>i. credits_for i l \<le> 1"
    and "reverseRewardFor env l original i = Inr l'"
  shows "extends l l' \<and> (\<forall>r\<in>set (transactions l'). conv_credit (cvId original) r \<longrightarrow> charged_back l' r)"
proof (cases "findBySource l SOURCE_CONVERSION (cvId original) (Some CONVERSION_CREDIT)")
  case None
  then show ?thesis
    using findBySource_credit(1) [OF None] extends_refl [OF assms(1)] assms(3)
    by (simp add: reverseRewardFor_def)
next
  case (Some c)
  then show ?thesis
    using source_charged_back [OF assms(1,2) Some] assms(3)
    by (auto simp: reverseRewardFor_def map_sum_def split: sum.splits)
qed

section \<open>A committed run keeps it\<close>

lemma store_conversion_Inr:
  assumes "store_conversion env input ev rows = Inr (c, rows')"
  shows "\<exists>amount. c = new_conversion env input amount ev \<and> cvId c \<notin> set (map cvId rows)
    \<and> cvPostbackId c \<notin> set (map cvPostbackId rows)
    \<and> rows' = (case piReversalOf input of None \<Rightarrow> rows @ [c]
        | Some original \<Rightarrow> update_where (\<lambda>r. cvId r = cvId original)
            (\<lambda>r. r\<lparr>cvStatus := CV_REVERSED, cvUpdatedAt := vePersistAt env\<rparr>) (rows @ [c]))"
  using assms
  by (auto simp: store_conversion_def createConversion_def update_conversion_def Let_def map_sum_def
      split: sum.splits option.splits if_splits)

lemma persist_transaction_Inr:
  assumes "persist_transaction env s input = Inr (c, s')"
  obtains ev evaluations l1 l2 rows postbacks where
    "credit_reward env input (csLedger s) = Inr l1" "reverse_reward env input l1 = Inr l2"
    "store_conversion env input ev (csConversions s) = Inr (c, rows)"
    "markProcessed (inPostbacks (csIntake s)) (pbId (piPostback input)) = Inr postbacks"
    "s' = s\<lparr>csIntake := (csIntake s)\<lparr>inPostbacks := postbacks\<rparr>, csConversions := rows,
        csEvaluations := evaluations, csLedger := l2\<rparr>"
  using assms by (auto simp: persist_transaction_def split: sum.splits)

lemma new_conversion_simps [simp]:
  "cvId (new_conversion env input amount ev) = veConversionId env"
  "cvPostbackId (new_conversion env input amount ev) = pbId (piPostback input)"
  "cvUserId (new_conversion env input amount ev) = ckUserId (piClick input)"
  "cvRewardPoints (new_conversion env input amount ev) = pi_points input"
  "cvStatus (new_conversion env input amount ev) = storedStatus input"
  "cvType (new_conversion env input amount ev)
     = (if piReversalOf input \<noteq> None then CT_REVERSAL else CT_CONVERSION)"
  by (simp_all add: new_conversion_def)

text \<open>The statuses \<open>attribute\<close> can decide on.\<close>

definition decided_input :: "persist_input \<Rightarrow> bool" where
  "decided_input input \<longleftrightarrow> piStatus input \<in> {CV_PENDING, CV_REJECTED, CV_HELD, CV_ATTRIBUTED}"

lemma resolveStatus_range: "fst (resolveStatus parsed active a r) \<in> {CV_PENDING, CV_REJECTED, CV_HELD, CV_ATTRIBUTED}"
  by (simp add: resolveStatus_def)

lemma attribute_Inr:
  assumes "attribute env s p = (s', Inr input)"
  obtains parsed click user where "snd (reparse env (csRegistry s) p) = Inr parsed"
    "resolveClick env (ncSubId parsed) = Inr click" "ckProviderId click = pbProviderId p"
    "ncPayoutCurrency parsed = accountingCurrency (resolveRates (veRates env) (pbProviderId p))"
    "findUser (veUsers env) (ckUserId click) = Some user"
    "piPostback input = p" "piClick input = click" "piParsed input = parsed"
    "piRates input = resolveRates (veRates env) (pbProviderId p)"
    "piReversalOf input \<noteq> None \<longleftrightarrow> ncIsReversal parsed"
    "piScoring input = (if ncIsReversal parsed then None else score env (csConversions s) user click p parsed)"
    "(piStatus input, piReviewReason input) = resolveStatus parsed (isActiveUser user)
       (map_option (\<lambda>x. evAction (scResult x)) (piScoring input)) (Option.bind (piScoring input) scReason)"
proof -
  from assms obtain reg parsed where p: "reparse env (csRegistry s) p = (reg, Inr parsed)"
    "attribute_parsed env (csConversions s) p parsed = Inr input"
    by (auto simp: attribute_def split: prod.splits sum.splits)
  then obtain click user where c: "resolveClick env (ncSubId parsed) = Inr click"
    "ckProviderId click = pbProviderId p"
    "ncPayoutCurrency parsed = accountingCurrency (resolveRates (veRates env) (pbProviderId p))"
    "findUser (veUsers env) (ckUserId click) = Some user"
    by (auto simp: attribute_parsed_def Let_def split: sum.splits option.splits if_splits)
  show thesis
  proof (cases "ncIsReversal parsed")
    case True
    then obtain original where "findReversalTarget (csConversions s) click parsed = Inr original"
      using p(2) c by (auto simp: attribute_parsed_def Let_def map_sum_def split: sum.splits)
    then have "input = \<lparr>piPostback = p, piClick = click, piParsed = parsed,
        piRates = resolveRates (veRates env) (pbProviderId p),
        piStatus = fst (resolveStatus parsed (isActiveUser user) None None),
        piReviewReason = snd (resolveStatus parsed (isActiveUser user) None None),
        piReversalOf = Some original, piScoring = None\<rparr>"
      using p(2) c True by (simp add: attribute_parsed_def Let_def)
    then show thesis using that [of parsed click user] p(1) c True by simp
  next
    case False
    define sc where "sc = score env (csConversions s) user click p parsed"
    define d where "d = resolveStatus parsed (isActiveUser user)
      (map_option (\<lambda>x. evAction (scResult x)) sc) (Option.bind sc scReason)"
    have "input = \<lparr>piPostback = p, piClick = click, piParsed = parsed,
        piRates = resolveRates (veRates env) (pbProviderId p), piStatus = fst d,
        piReviewReason = snd d, piReversalOf = None, piScoring = sc\<rparr>"
      using p(2) c False by (simp add: attribute_parsed_def Let_def sc_def d_def)
    then show thesis using that [of parsed click user] p(1) c False by (simp add: sc_def d_def)
  qed
qed

lemma attribute_decided: "attribute env s p = (s', Inr input) \<Longrightarrow> decided_input input"
  unfolding decided_input_def by (erule attribute_Inr) (metis fst_conv resolveStatus_range)

lemma attribute_postback: "attribute env s p = (s', Inr input) \<Longrightarrow> piPostback input = p"
  by (erule attribute_Inr)

lemma no_credit_yet:
  "explained_credits rows l \<Longrightarrow> i \<notin> set (map cvId rows) \<Longrightarrow> credits_for i l = 0"
  by (force simp: explained_credits_def credits_for_def count_where_0_iff pays_for_def conv_credit_def)

lemma settled_fresh:
  assumes "credits_for (veConversionId env) l = 0" and "\<not> cpCredits (pi_plan input)"
    and "decided_input input" and "piReversalOf input = None"
  shows "settled l (new_conversion env input amount ev)"
  using assms
  by (auto simp: settled_def storedStatus_def decided_input_def pi_plan_def planCredit_def no_credit_def
      credits_for_def count_where_0_iff)

lemma settled_paid:
  assumes "credits_for (veConversionId env) l = 1" and "cpCredits (pi_plan input)"
  shows "settled l (new_conversion env input amount ev)"
  using assms
  by (auto simp: settled_def storedStatus_def pi_plan_def planCredit_def no_credit_def
      split: conversion_status.splits if_splits)

text \<open>A conversion that is no reversal.\<close>

lemma conversion_settled:
  assumes "ledger_reachable l" and "conversions_settled rows l" and "decided_input input"
    and "piReversalOf input = None" and "credit_reward env input l = Inr l'"
    and "c = new_conversion env input amount ev" and "veConversionId env \<notin> set (map cvId rows)"
  shows "conversions_settled (rows @ [c]) l'"
proof -
  have old: "distinct (map cvId rows)" "explained_credits rows l" "\<And>i. credits_for i l \<le> 1"
    "\<And>x. x \<in> set rows \<Longrightarrow> cvType x = CT_CONVERSION \<Longrightarrow> settled l x"
    using assms(2) by (auto simp: conversions_settled_def)
  note fresh = no_credit_yet [OF old(2) assms(7)]
  show ?thesis
    using assms(1,5)
  proof (cases rule: credit_reward_cases)
    case unpaid
    then show ?thesis
      using old assms(3,4,6,7) settled_fresh [OF fresh unpaid(1)]
      by (auto simp: conversions_settled_def explained_credits_def)
  next
    case (paid r)
    have count: "credits_for i l' = credits_for i l + (if i = veConversionId env then 1 else 0)" for i
      using paid(2,4) by (auto simp: credits_for_def conv_credit_def)
    have keeps: "charged_back l r' \<Longrightarrow> charged_back l' r'" for r'
      using paid(2) by (auto simp: charged_back_def acted_def find_append split: option.splits)
    have "settled l' x" if "x \<in> set rows" "cvType x = CT_CONVERSION" for x
    proof -
      have "cvId x \<noteq> veConversionId env" using that(1) assms(7) by force
      then have same: "credits_for (cvId x) l' = credits_for (cvId x) l"
        "conv_credit (cvId x) r' \<Longrightarrow> r' \<in> set (transactions l') \<Longrightarrow> r' \<in> set (transactions l)" for r'
        using count paid(2,4) by (auto simp: conv_credit_def)
      then show ?thesis
        using old(4) [OF that] keeps by (auto simp: settled_def split: conversion_status.splits)
    qed
    moreover have "pays_for c r"
      using paid(4,5,6) assms(4,6) by (simp add: pays_for_def)
    moreover have "settled l' c"
      using settled_paid [OF _ paid(1)] count fresh assms(6) by simp
    ultimately show ?thesis
      using old assms(6,7) paid(2) count fresh
      by (auto simp: conversions_settled_def explained_credits_def)
  qed
qed

lemma reversed_row_simps [simp]:
  "cvId (r\<lparr>cvStatus := st, cvUpdatedAt := t\<rparr>) = cvId r" "cvType (r\<lparr>cvStatus := st, cvUpdatedAt := t\<rparr>) = cvType r"
  "pays_for (r\<lparr>cvStatus := st, cvUpdatedAt := t\<rparr>) m = pays_for r m"
  by (simp_all add: pays_for_def)

text \<open>A row whose status changes after its credit was taken back, or paid out.\<close>

lemma status_change_settled:
  assumes "extends l l'" and "conversions_settled rows l"
    and "\<And>x. x \<in> set rows \<Longrightarrow> cvId x = i \<Longrightarrow> cvType x = CT_CONVERSION \<Longrightarrow> settled l' (f x)"
    and "\<And>x. cvId (f x) = cvId x" and "\<And>x. cvType (f x) = cvType x" and "\<And>x m. pays_for (f x) m = pays_for x m"
  shows "conversions_settled (update_where (\<lambda>x. cvId x = i) f rows) l'"
proof -
  note s = conversions_settled_extends [OF assms(1,2), unfolded conversions_settled_def]
  have "explained_credits (update_where (\<lambda>x. cvId x = i) f rows) l'"
    unfolding explained_credits_def
  proof (intro ballI impI)
    fix r assume "r \<in> set (transactions l')" "txType r = CONVERSION_CREDIT"
    then obtain c where c: "c \<in> set rows" "pays_for c r" using s by (auto simp: explained_credits_def)
    let ?c = "if cvId c = i then f c else c"
    have "?c \<in> set (update_where (\<lambda>x. cvId x = i) f rows)" using c(1) by (auto simp: set_update_where)
    moreover have "pays_for ?c r" using c(2) assms(6) by simp
    ultimately show "\<exists>c\<in>set (update_where (\<lambda>x. cvId x = i) f rows). pays_for c r" by blast
  qed
  moreover have "settled l' x"
    if "x \<in> set (update_where (\<lambda>x. cvId x = i) f rows)" "cvType x = CT_CONVERSION" for x
    using that s assms(3,5) by (auto simp: set_update_where split: if_splits)
  ultimately show ?thesis
    using s assms(4) by (simp add: conversions_settled_def map_update_where)
qed

lemma same_id: "distinct (map cvId rows) \<Longrightarrow> c \<in> set rows \<Longrightarrow> d \<in> set rows \<Longrightarrow> cvId c = cvId d \<Longrightarrow> c = d"
  by (rule distinct_key_unique)

lemma persist_transaction_settled:
  assumes "ledger_reachable (csLedger s)" and "conversions_settled (csConversions s) (csLedger s)"
    and "decided_input input" and "persist_transaction env s input = Inr (c, s')"
  shows "ledger_reachable (csLedger s') \<and> conversions_settled (csConversions s') (csLedger s')"
  using assms(4)
proof (rule persist_transaction_Inr)
  fix ev evaluations l1 l2 rows postbacks
  assume c: "credit_reward env input (csLedger s) = Inr l1"
    and r: "reverse_reward env input l1 = Inr l2"
    and st: "store_conversion env input ev (csConversions s) = Inr (c, rows)"
    and s': "s' = s\<lparr>csIntake := (csIntake s)\<lparr>inPostbacks := postbacks\<rparr>, csConversions := rows,
        csEvaluations := evaluations, csLedger := l2\<rparr>"
  obtain amount where n: "c = new_conversion env input amount ev" "cvId c \<notin> set (map cvId (csConversions s))"
    "rows = (case piReversalOf input of None \<Rightarrow> csConversions s @ [c]
        | Some original \<Rightarrow> update_where (\<lambda>r. cvId r = cvId original)
            (\<lambda>r. r\<lparr>cvStatus := CV_REVERSED, cvUpdatedAt := vePersistAt env\<rparr>) (csConversions s @ [c]))"
    using store_conversion_Inr [OF st] by blast
  have fresh: "veConversionId env \<notin> set (map cvId (csConversions s))" using n(1,2) by simp
  have l1: "ledger_reachable l1"
    using assms(1) c by (rule credit_reward_cases) (use assms(1) in simp)
  show ?thesis
  proof (cases "piReversalOf input")
    case None
    then have "l2 = l1" using r by (simp add: reverse_reward_def)
    then show ?thesis
      using conversion_settled [OF assms(1,2,3) None c n(1) fresh] n(3) None l1 s' by simp
  next
    case (Some original)
    have "\<not> cpCredits (pi_plan input)" using Some by (simp add: pi_plan_def planCredit_def no_credit_def)
    then have same: "l1 = csLedger s" using c by (simp add: credit_reward_def)
    have "reverseRewardFor env (csLedger s) original (veConversionId env) = Inr l2"
      using r Some same by (simp add: reverse_reward_def)
    note x = reverseRewardFor_effect [THEN conjunct1, OF assms(1) _ this]
      reverseRewardFor_effect [THEN conjunct2, OF assms(1) _ this]
    have once: "credits_for i (csLedger s) \<le> 1" for i using assms(2) by (simp add: conversions_settled_def)
    have "conversions_settled (csConversions s @ [c]) (csLedger s)"
      using assms(2) n(1) fresh Some by (auto simp: conversions_settled_def explained_credits_def)
    then have "conversions_settled rows l2"
      unfolding n(3) Some option.case
      by (rule status_change_settled [OF x(1) [OF once]])
        (use x(2) [OF once] in \<open>auto simp: settled_def\<close>)
    then show ?thesis using s' x(1) [OF once] by (simp add: extends_def)
  qed
qed

lemma mark_keeps_events:
  assumes "events_once q" and "update_postback (inPostbacks q) i f = Inr rows"
    and "\<And>x. pbId (f x) = pbId x" and "\<And>p t x. same_event p t (f x) = same_event p t x"
  shows "events_once (q\<lparr>inPostbacks := rows\<rparr>) \<and> map pbId rows = map pbId (inPostbacks q)"
proof -
  have "rows = update_where (\<lambda>p. pbId p = i) f (inPostbacks q)"
    using assms(2) by (auto simp: update_postback_def split: if_splits)
  then show ?thesis
    using assms(1,3,4) by (simp add: events_once_def map_update_where count_where_update_same)
qed

lemma marked_postbacks:
  "events_once q \<Longrightarrow> markProcessed (inPostbacks q) i = Inr rows
     \<Longrightarrow> events_once (q\<lparr>inPostbacks := rows\<rparr>) \<and> map pbId rows = map pbId (inPostbacks q)"
  "events_once q \<Longrightarrow> markQuarantined (inPostbacks q) i reason = Inr rows
     \<Longrightarrow> events_once (q\<lparr>inPostbacks := rows\<rparr>) \<and> map pbId rows = map pbId (inPostbacks q)"
  "events_once q \<Longrightarrow> markFailed (inPostbacks q) i detail = Inr rows
     \<Longrightarrow> events_once (q\<lparr>inPostbacks := rows\<rparr>) \<and> map pbId rows = map pbId (inPostbacks q)"
  unfolding markProcessed_def markQuarantined_def markFailed_def
  by (erule (1) mark_keeps_events; simp add: same_event_def)+

lemma one_per_postback_same:
  "one_per_postback rows ps \<Longrightarrow> map pbId ps' = map pbId ps \<Longrightarrow> one_per_postback rows ps'"
  unfolding one_per_postback_def by simp

lemma conv_ok_intake:
  "conv_ok s \<Longrightarrow> events_once q \<and> map pbId (inPostbacks q) = map pbId (inPostbacks (csIntake s))
     \<Longrightarrow> conv_ok (s\<lparr>csIntake := q\<rparr>)"
  unfolding conv_ok_def by (auto intro: one_per_postback_same)

lemma process_failed_ok:
  assumes "conv_ok s" shows "conv_ok (fst (process_failed env s i f))"
proof -
  have "events_once (csIntake s)" using assms by (simp add: conv_ok_def)
  note m = marked_postbacks(2,3) [OF this, of i]
  have "markQuarantined (inPostbacks (csIntake s)) i reason = Inr rows
      \<Longrightarrow> conv_ok (s\<lparr>csIntake := (csIntake s)\<lparr>inPostbacks := rows\<rparr>\<rparr>)" for reason rows
    using m(1) by (intro conv_ok_intake [OF assms]) simp
  moreover have "markFailed (inPostbacks (csIntake s)) i detail = Inr rows
      \<Longrightarrow> conv_ok (s\<lparr>csIntake := (csIntake s)\<lparr>inPostbacks := rows\<rparr>\<rparr>)" for detail rows
    using m(2) by (intro conv_ok_intake [OF assms]) simp
  ultimately show ?thesis
    using assms by (auto simp: process_failed_def set_postbacks_def split: failure.splits sum.splits)
qed

lemma markProcessed_ids: "markProcessed rows i = Inr rows' \<Longrightarrow> i \<in> set (map pbId rows)"
  by (auto simp: markProcessed_def update_postback_def split: if_splits)

lemma persist_ok:
  assumes "conv_ok s" and "decided_input input"
  shows "conv_ok (fst (persist env s input))"
proof (cases "persist_transaction env s input")
  case (Inl e)
  then show ?thesis using assms(1) by (simp add: persist_def)
next
  case (Inr cs)
  then obtain c s' where cs: "persist_transaction env s input = Inr (c, s')" by (cases cs) simp
  have s: "ledger_reachable (csLedger s)" "events_once (csIntake s)"
    "one_per_postback (csConversions s) (inPostbacks (csIntake s))"
    "conversions_settled (csConversions s) (csLedger s)"
    using assms(1) by (simp_all add: conv_ok_def)
  have "events_once (csIntake s') \<and> one_per_postback (csConversions s') (inPostbacks (csIntake s'))"
    using cs
  proof (rule persist_transaction_Inr)
    fix ev evaluations l1 l2 rows postbacks
    assume st: "store_conversion env input ev (csConversions s) = Inr (c, rows)"
      and m: "markProcessed (inPostbacks (csIntake s)) (pbId (piPostback input)) = Inr postbacks"
      and s': "s' = s\<lparr>csIntake := (csIntake s)\<lparr>inPostbacks := postbacks\<rparr>, csConversions := rows,
        csEvaluations := evaluations, csLedger := l2\<rparr>"
    have "map cvPostbackId rows = map cvPostbackId (csConversions s) @ [pbId (piPostback input)]
        \<and> pbId (piPostback input) \<notin> set (map cvPostbackId (csConversions s))"
      using store_conversion_Inr [OF st] by (auto simp: map_update_where split: option.splits)
    then show ?thesis
      using s(3) s' marked_postbacks(1) [OF s(2) m] markProcessed_ids [OF m] by (auto simp: one_per_postback_def)
  qed
  then show ?thesis
    using persist_transaction_settled [OF s(1,4) assms(2) cs] cs by (simp add: conv_ok_def persist_def)
qed

lemma process_start_ok:
  assumes "conv_ok s" shows "conv_ok (fst (process_start env s i))"
proof -
  have reg: "conv_ok (s\<lparr>csRegistry := g\<rparr>)" for g using assms by (simp add: conv_ok_def)
  have att: "\<exists>g r. attribute env s p = (s\<lparr>csRegistry := g\<rparr>, r)" for p
    by (cases "reparse env (csRegistry s) p") (auto simp: attribute_def)
  show ?thesis
  proof (cases "List.find (\<lambda>p. pbId p = i) (inPostbacks (csIntake s))")
    case None
    then show ?thesis using assms by (simp add: process_start_def)
  next
    case (Some p)
    obtain g r where g: "attribute env s p = (s\<lparr>csRegistry := g\<rparr>, r)"
      using att by blast
    have failed: "conv_ok (fst (process_failed env (s\<lparr>csRegistry := g\<rparr>) i f))" for f
      by (rule process_failed_ok [OF reg])
    show ?thesis
    proof (cases r)
      case (Inl f)
      then show ?thesis
        using assms failed [of f] Some
        by (simp add: process_start_def g case_prod_unfold)
    next
      case (Inr input)
      then show ?thesis using assms reg Some by (simp add: process_start_def g)
    qed
  qed
qed

lemma process_finish_ok:
  assumes "conv_ok s" and "decided_input input"
  shows "conv_ok (fst (process_finish env s input))"
  using persist_ok [OF assms, of env] process_failed_ok
  by (auto simp: process_finish_def split: prod.splits sum.splits)

lemma receive_keeps_ids: "set (map pbId (inPostbacks q)) \<subseteq> set (map pbId (inPostbacks (fst (receive ienv q e))))"
proof -
  obtain q' r where qr: "receive ienv q e = (q', r)" by fastforce
  have "set (map pbId (inPostbacks q)) \<subseteq> set (map pbId (inPostbacks q'))"
    using qr
  proof (cases rule: receive_effect)
    case (archived p t)
    from archived(1) show ?thesis
      by (cases rule: archive_cases) (auto simp: enqueueProcessing_def map_update_where simp del: set_map)
  qed auto
  then show ?thesis by (simp add: qr)
qed

lemma resolveHold_Inr:
  assumes "resolveHold i now s input = Inr (c, s')"
  obtains held l' where "findConversion (csConversions s) (rhConversionId input) = Some held" "cvStatus held = CV_HELD"
    "case findBySource (csLedger s) SOURCE_CONVERSION (rhConversionId input) (Some CONVERSION_CREDIT) of
       None \<Rightarrow> l' = csLedger s
     | Some r \<Rightarrow> (case rhDecision input of
         DECISION_CLEAR \<Rightarrow> \<exists>m. mature (csLedger s) i now (txId r) = Inr (m, l')
       | DECISION_CONFIRM \<Rightarrow> \<exists>m. reverseCredit (csLedger s) i now (txId r) (rhReason input)
           (Some (admin_actor (Some (rhAdminId input)))) None = Inr (m, l'))"
    "c = reviewed (case rhDecision input of DECISION_CLEAR \<Rightarrow> CV_CREDITED | DECISION_CONFIRM \<Rightarrow> CV_REJECTED) input held"
    "s' = s\<lparr>csConversions := update_where (\<lambda>c. cvId c = rhConversionId input)
        (reviewed (case rhDecision input of DECISION_CLEAR \<Rightarrow> CV_CREDITED | DECISION_CONFIRM \<Rightarrow> CV_REJECTED) input)
        (csConversions s), csLedger := l'\<rparr>"
  using assms
  by (auto simp: resolveHold_def update_conversion_def Let_def map_sum_def
      split: option.splits if_splits sum.splits review_decision.splits)

lemma reviewed_simps [simp]:
  "cvId (reviewed st input c) = cvId c" "cvType (reviewed st input c) = cvType c"
  "cvPostbackId (reviewed st input c) = cvPostbackId c" "cvStatus (reviewed st input c) = st"
  "cvRewardPoints (reviewed st input c) = cvRewardPoints c"
  "pays_for (reviewed st input c) r = pays_for c r"
  by (simp_all add: reviewed_def pays_for_def)

lemma resolveHold_ok:
  assumes "conv_ok s" and "resolveHold i now s input = Inr (c, s')"
  shows "conv_ok s'"
  using assms(2)
proof (rule resolveHold_Inr)
  fix held l'
  let ?status = "case rhDecision input of DECISION_CLEAR \<Rightarrow> CV_CREDITED | DECISION_CONFIRM \<Rightarrow> CV_REJECTED"
  let ?found = "findBySource (csLedger s) SOURCE_CONVERSION (rhConversionId input) (Some CONVERSION_CREDIT)"
  assume held: "findConversion (csConversions s) (rhConversionId input) = Some held" "cvStatus held = CV_HELD"
    and moved: "case ?found of None \<Rightarrow> l' = csLedger s
     | Some r \<Rightarrow> (case rhDecision input of
         DECISION_CLEAR \<Rightarrow> \<exists>m. mature (csLedger s) i now (txId r) = Inr (m, l')
       | DECISION_CONFIRM \<Rightarrow> \<exists>m. reverseCredit (csLedger s) i now (txId r) (rhReason input)
           (Some (admin_actor (Some (rhAdminId input)))) None = Inr (m, l'))"
    and s': "s' = s\<lparr>csConversions := update_where (\<lambda>c. cvId c = rhConversionId input)
        (reviewed ?status input) (csConversions s), csLedger := l'\<rparr>"
  have ok: "ledger_reachable (csLedger s)" "conversions_settled (csConversions s) (csLedger s)"
    using assms(1) by (simp_all add: conv_ok_def)
  then have once: "credits_for j (csLedger s) \<le> 1" and distinct: "distinct (map cvId (csConversions s))" for j
    by (simp_all add: conversions_settled_def)
  have "extends (csLedger s) l' \<and> (rhDecision input = DECISION_CONFIRM \<longrightarrow>
      (\<forall>r\<in>set (transactions l'). conv_credit (rhConversionId input) r \<longrightarrow> charged_back l' r))"
  proof (cases ?found)
    case None
    then show ?thesis
      using moved findBySource_credit(1) [OF None] extends_refl [OF ok(1)] by simp
  next
    case (Some r)
    then show ?thesis
      using moved source_charged_back [OF ok(1) once Some] mature_extends [OF ok(1)]
      by (auto split: review_decision.splits)
  qed
  then have x: "extends (csLedger s) l'" "rhDecision input = DECISION_CONFIRM \<Longrightarrow>
      \<forall>r\<in>set (transactions l'). conv_credit (rhConversionId input) r \<longrightarrow> charged_back l' r" by blast+
  have "settled l' (reviewed ?status input z)"
    if z: "z \<in> set (csConversions s)" "cvId z = rhConversionId input" "cvType z = CT_CONVERSION" for z
  proof -
    have "z = held"
      using held(1) z distinct by (auto simp: findConversion_def dest!: find_SomeD intro: same_id)
    then have "settled (csLedger s) held" using ok(2) z by (auto simp: conversions_settled_def)
    then have "settled l' held" by (rule settled_extends [OF x(1)])
    then show ?thesis
      using x(2) z(2) held(2) \<open>z = held\<close> by (cases "rhDecision input") (auto simp: settled_def)
  qed
  then have "conversions_settled (update_where (\<lambda>c. cvId c = rhConversionId input) (reviewed ?status input)
      (csConversions s)) l'"
    by (intro status_change_settled [OF x(1) ok(2)]) simp_all
  then show ?thesis
    using assms(1) s' x(1)
    by (simp add: conv_ok_def extends_def one_per_postback_def map_update_where set_update_where image_image)
qed

lemma receive_ok:
  assumes "conv_ok s"
  shows "conv_ok (s\<lparr>csIntake := fst (receive ienv (csIntake s) e)\<rparr>)"
  using assms receive_keeps_ids [of "csIntake s" ienv e] events_once_receive [of "csIntake s" ienv e]
  by (auto simp: conv_ok_def one_per_postback_def simp del: set_map)

lemma move_ok:
  assumes "conv_ok s" and "\<not> is_credit_op x" and "execReward (csLedger s) x = Inr l"
  shows "conv_ok (s\<lparr>csLedger := l\<rparr>)"
  using assms execReward_extends [OF _ assms(3,2)] conversions_settled_extends [of "csLedger s" l]
  by (auto simp: conv_ok_def extends_def)

lemma execConv_ok:
  assumes "conv_ok s" and "execConv s x = Inr s'"
  shows "conv_ok s'"
proof (cases x)
  case (Finish env0 s0 p env)
  then obtain input where "snd (attribute env0 s0 p) = Inr input" "s' = fst (process_finish env s input)"
    using assms(2) by (auto split: sum.splits)
  then show ?thesis
    using process_finish_ok [OF assms(1) attribute_decided [of env0 s0 p "fst (attribute env0 s0 p)"]]
    by (metis prod.collapse)
next
  case (Resolve i now input)
  then show ?thesis
    using assms resolveHold_ok by (auto simp: map_sum_def split: sum.splits)
next
  case (Move y)
  then show ?thesis
    using assms move_ok [OF assms(1)] by (auto simp: map_sum_def split: sum.splits if_splits)
qed (use assms process_start_ok receive_ok in \<open>auto simp: conv_ok_def\<close>)

interpretation processing: guarded_system execConv no_conversions conv_ok
proof
  show "conv_ok no_conversions"
    by (auto simp: conv_ok_def no_conversions_def events_once_def no_intake_def one_per_postback_def
        conversions_settled_def explained_credits_def credits_for_def empty_ledger_def
        ledger_reachable.empty [unfolded empty_ledger_def])
qed (rule execConv_ok)

definition run_conversions :: "conv_op list \<Rightarrow> conv_state" where
  "run_conversions ops = run_ops execConv no_conversions ops"

lemma run_conversions_ok: "conv_ok (run_conversions ops)"
  unfolding run_conversions_def by (rule processing.inv_run)

section \<open>What every run guarantees\<close>

text \<open>C3. Credits and conversions correspond, whatever was delivered, retried, raced or reviewed:
  every conversion credit was written for exactly one conversion, to the user that conversion
  belongs to and with the points stored on it; a conversion has at most one credit, and a
  postback at most one conversion.\<close>

theorem credits_belong_to_conversions:
  "(\<forall>r\<in>set (transactions (csLedger (run_conversions ops))). txType r = CONVERSION_CREDIT \<longrightarrow>
      (\<exists>!c. c \<in> set (csConversions (run_conversions ops)) \<and> txSourceId r = Some (cvId c)
        \<and> cvType c = CT_CONVERSION \<and> txUserId r = cvUserId c \<and> txAmountPoints r = cvRewardPoints c))
   \<and> (\<forall>i. count_where (conv_credit i) (transactions (csLedger (run_conversions ops))) \<le> 1)
   \<and> distinct (map cvPostbackId (csConversions (run_conversions ops)))"
proof -
  have ok: "conversions_settled (csConversions (run_conversions ops)) (csLedger (run_conversions ops))"
    "one_per_postback (csConversions (run_conversions ops)) (inPostbacks (csIntake (run_conversions ops)))"
    using run_conversions_ok [of ops] by (simp_all add: conv_ok_def)
  have ids: "distinct (map cvId (csConversions (run_conversions ops)))"
    using ok(1) by (simp add: conversions_settled_def)
  have "\<exists>!c. c \<in> set (csConversions (run_conversions ops)) \<and> txSourceId r = Some (cvId c)
      \<and> cvType c = CT_CONVERSION \<and> txUserId r = cvUserId c \<and> txAmountPoints r = cvRewardPoints c"
    if r: "r \<in> set (transactions (csLedger (run_conversions ops)))" "txType r = CONVERSION_CREDIT" for r
  proof -
    obtain c where "c \<in> set (csConversions (run_conversions ops))" "pays_for c r"
      using ok(1) r by (auto simp: conversions_settled_def explained_credits_def)
    then show ?thesis
      by (intro ex1I [of _ c]) (auto simp: pays_for_def conv_credit_def intro: same_id [OF ids])
  qed
  then show ?thesis using ok by (auto simp: conversions_settled_def one_per_postback_def credits_for_def)
qed

text \<open>C4. A provider's event, a transaction id of that provider, is paid at most once: over any
  run there is at most one credit whose conversion came from a postback of that event.\<close>

theorem event_is_paid_at_most_once:
  "count_where (\<lambda>r. \<exists>c\<in>set (csConversions (run_conversions ops)).
       \<exists>b\<in>set (inPostbacks (csIntake (run_conversions ops))).
         conv_credit (cvId c) r \<and> cvPostbackId c = pbId b \<and> same_event p t b)
     (transactions (csLedger (run_conversions ops))) \<le> 1"
proof -
  let ?s = "run_conversions ops"
  let ?paid = "\<lambda>r. \<exists>c\<in>set (csConversions ?s). \<exists>b\<in>set (inPostbacks (csIntake ?s)).
         conv_credit (cvId c) r \<and> cvPostbackId c = pbId b \<and> same_event p t b"
  have ok: "events_once (csIntake ?s)" "distinct (map cvPostbackId (csConversions ?s))"
    "\<And>i. count_where (conv_credit i) (transactions (csLedger ?s)) \<le> 1"
    using run_conversions_ok [of ops]
    by (simp_all add: conv_ok_def one_per_postback_def conversions_settled_def credits_for_def)
  show ?thesis
  proof (cases "\<exists>c\<in>set (csConversions ?s). \<exists>b\<in>set (inPostbacks (csIntake ?s)).
      cvPostbackId c = pbId b \<and> same_event p t b")
    case False
    then have "count_where ?paid (transactions (csLedger ?s)) = 0" unfolding count_where_0_iff by blast
    then show ?thesis by simp
  next
    case True
    then obtain c b where c: "c \<in> set (csConversions ?s)" "b \<in> set (inPostbacks (csIntake ?s))"
      "cvPostbackId c = pbId b" "same_event p t b" by blast
    have "b' = b" if "b' \<in> set (inPostbacks (csIntake ?s))" "same_event p t b'" for b'
      using count_where_one [of "same_event p t" "inPostbacks (csIntake ?s)" b' b] ok(1) c that
      by (simp add: events_once_def)
    moreover have "c' = c" if "c' \<in> set (csConversions ?s)" "cvPostbackId c' = cvPostbackId c" for c'
      using distinct_key_unique [OF ok(2)] c(1) that by blast
    ultimately have "?paid r \<Longrightarrow> conv_credit (cvId c) r" for r using c(3) by metis
    then have "count_where ?paid (transactions (csLedger ?s))
        \<le> count_where (conv_credit (cvId c)) (transactions (csLedger ?s))"
      by (rule count_where_mono)
    then show ?thesis using ok(3) [of "cvId c"] by linarith
  qed
qed

text \<open>A conversion's status tells where its points are: a pending or unpaid one has no credit,
  a credited or held one worth points has exactly one, and every credit of a rejected or reversed
  conversion has been charged back.\<close>

theorem status_tells_the_credit:
  "\<forall>c\<in>set (csConversions (run_conversions ops)). cvType c = CT_CONVERSION \<longrightarrow>
     (let credits = filter (conv_credit (cvId c)) (transactions (csLedger (run_conversions ops))) in
      (cvStatus c \<in> {CV_PENDING, CV_ATTRIBUTED} \<longrightarrow> credits = [])
      \<and> (cvStatus c \<in> {CV_CREDITED, CV_HELD} \<and> 0 < cvRewardPoints c \<longrightarrow> length credits = 1)
      \<and> (cvStatus c \<in> {CV_REJECTED, CV_REVERSED} \<longrightarrow>
           (\<forall>r\<in>set credits. acted (csLedger (run_conversions ops)) (txId r) [CHARGEBACK_DEBIT] \<noteq> None)))"
proof -
  have "\<forall>c\<in>set (csConversions (run_conversions ops)). cvType c = CT_CONVERSION
      \<longrightarrow> settled (csLedger (run_conversions ops)) c"
    using run_conversions_ok [of ops] by (simp add: conv_ok_def conversions_settled_def)
  then show ?thesis
    by (auto simp: settled_def credits_for_def count_where_def charged_back_def Let_def
        split: conversion_status.splits)
qed

section \<open>Decisions\<close>

text \<open>C9. Points are credited exactly for a confirmed event that is no reversal, is worth points
  and was not blocked by a fraud rule while the account is active; and the credit is held without
  a date exactly when the account is not active or a rule asked for a hold or a review. Scoring
  that fails or finds nothing lets the credit through.\<close>

theorem credit_decision:
  assumes "attribute env s p = (s', Inr input)" and "findUser (veUsers env) (ckUserId (piClick input)) = Some user"
  shows "let action = map_option (\<lambda>x. evAction (scResult x)) (piScoring input) in
    (cpCredits (pi_plan input) \<longleftrightarrow> ncStatus (piParsed input) = Confirmed \<and> \<not> ncIsReversal (piParsed input)
      \<and> 0 < pi_points input \<and> (isActiveUser user \<longrightarrow> action \<noteq> Some BLOCK))
    \<and> (cpHoldIndefinitely (pi_plan input) \<longleftrightarrow> cpCredits (pi_plan input)
      \<and> (\<not> isActiveUser user \<or> action = Some HOLD \<or> action = Some REVIEW))
    \<and> (storedStatus input = CV_CREDITED \<longleftrightarrow> cpCredits (pi_plan input) \<and> \<not> cpHoldIndefinitely (pi_plan input))"
  using assms(1)
proof (rule attribute_Inr)
  fix parsed click u
  assume "findUser (veUsers env) (ckUserId click) = Some u" "piClick input = click"
    and parsed: "piParsed input = parsed" and reversal: "piReversalOf input \<noteq> None \<longleftrightarrow> ncIsReversal parsed"
    and "(piStatus input, piReviewReason input) = resolveStatus parsed (isActiveUser u)
       (map_option (\<lambda>x. evAction (scResult x)) (piScoring input)) (Option.bind (piScoring input) scReason)"
  moreover from this have "u = user" using assms(2) by simp
  ultimately have st: "piStatus input = fst (resolveStatus parsed (isActiveUser user)
       (map_option (\<lambda>x. evAction (scResult x)) (piScoring input)) (Option.bind (piScoring input) scReason))"
    by (metis fst_conv)
  define action where "action = map_option (\<lambda>x. evAction (scResult x)) (piScoring input)"
  have st: "piStatus input = fst (resolveStatus parsed (isActiveUser user) action (Option.bind (piScoring input) scReason))"
    using st by (simp add: action_def)
  show ?thesis
    unfolding action_def [symmetric] parsed pi_plan_def storedStatus_def Let_def planCredit_def reversal no_credit_def
    unfolding st resolveStatus_def
    by (cases "ncStatus parsed"; cases "isActiveUser user"; cases action; (cases "the action")?) auto
qed

section \<open>Races and retries\<close>

text \<open>A worker that reaches the transaction after another has recorded the same postback moves
  no points and writes no conversion; unless its own ledger write fails first, its answer is the
  conversion already there.\<close>

theorem late_worker_changes_nothing:
  assumes "findByPostbackId (csConversions s) (pbId (piPostback input)) = Some c"
    and "process_finish env s input = (s', r)"
  shows "csLedger s' = csLedger s \<and> csConversions s' = csConversions s \<and> csEvaluations s' = csEvaluations s
    \<and> (r = Inr (Converted (cvId c)) \<and> s' = s \<or> (\<exists>e. r = Inl e \<and> e \<noteq> UniqueViolation))"
proof -
  have taken: "pbId (piPostback input) \<in> set (map cvPostbackId (csConversions s))"
    using assms(1) by (force simp: findByPostbackId_def dest!: find_SomeD)
  have "\<exists>e. persist_transaction env s input = Inl e"
  proof (cases "persist_transaction env s input")
    case (Inr cs)
    then obtain c' s2 where "persist_transaction env s input = Inr (c', s2)" by (cases cs) simp
    then show ?thesis
      by (rule persist_transaction_Inr) (use store_conversion_Inr taken in fastforce)
  qed simp
  then obtain e where "persist_transaction env s input = Inl e" by blast
  then show ?thesis
    using assms
    by (auto simp: process_finish_def persist_def process_failed_def set_postbacks_def
        split: if_splits sum.splits)
qed

lemma find_update_same:
  "List.find (\<lambda>p. key p = i) rows = Some x \<Longrightarrow> (\<And>x. key (f x) = key x) \<Longrightarrow>
     List.find (\<lambda>p. key p = i) (update_where (\<lambda>p. key p = i) f rows) = Some (f x)"
  by (induction rows) (auto split: if_splits)

lemma failed_marks:
  assumes "List.find (\<lambda>p. pbId p = i) (inPostbacks (csIntake s)) = Some x"
  shows "\<exists>y. List.find (\<lambda>p. pbId p = i) (inPostbacks (csIntake (fst (process_failed env s i (Thrown e))))) = Some y
    \<and> pbState y = PB_FAILED"
proof -
  have "i \<in> set (map pbId (inPostbacks (csIntake s)))" using assms by (auto dest!: find_SomeD)
  then show ?thesis
    by (auto simp: process_failed_def set_postbacks_def markFailed_def update_postback_def
        find_update_same [OF assms])
qed

lemma persist_error: "persist env s input = (s2, Inl e) \<Longrightarrow> s2 = s"
  by (auto simp: persist_def split: sum.splits option.splits if_splits)

text \<open>C34. A postback whose processing throws is not lost by the failure itself but is never
  processed again: it is marked failed before the error is thrown on, and every later run of the
  job, the queue's retries included, skips a postback that is not in its first state.\<close>

theorem failed_postback_is_skipped_by_retries:
  assumes "process env s i = (s1, Inl e)"
  shows "process env2 s1 i = (s1, Inr SkippedPostback)
    \<and> csLedger s1 = csLedger s \<and> csConversions s1 = csConversions s"
proof -
  obtain p where p: "List.find (\<lambda>p. pbId p = i) (inPostbacks (csIntake s)) = Some p" "pbState p = PB_RECEIVED"
    using assms by (auto simp: process_def process_start_def split: option.splits if_splits)
  obtain g r where g: "attribute env s p = (s\<lparr>csRegistry := g\<rparr>, r)"
    by (cases "reparse env (csRegistry s) p") (auto simp: attribute_def)
  let ?s = "s\<lparr>csRegistry := g\<rparr>"
  have found: "List.find (\<lambda>p. pbId p = i) (inPostbacks (csIntake ?s)) = Some p" using p by simp
  have member: "i \<in> set (map pbId (inPostbacks (csIntake s)))" using p by (auto dest!: find_SomeD)
  have "\<exists>e'. process_failed env ?s i (Thrown e') = (s1, Inl e)"
  proof (cases r)
    case (Inl f)
    then have "process_failed env ?s i f = (s1, Inl e)"
      using assms p g by (auto simp: process_def process_start_def split: prod.splits)
    then show ?thesis
      using member by (cases f) (auto simp: process_failed_def markQuarantined_def update_postback_def)
  next
    case (Inr input)
    then have f: "process_finish env ?s input = (s1, Inl e)"
      using assms p g by (simp add: process_def process_start_def)
    have i: "pbId (piPostback input) = i"
      using attribute_postback [OF g [unfolded Inr]] p(1) by (auto dest!: find_SomeD)
    obtain s2 e2 where e2: "persist env ?s input = (s2, Inl e2)"
      using f by (auto simp: process_finish_def split: prod.splits sum.splits)
    then have "s2 = ?s" by (rule persist_error)
    then show ?thesis using f i e2 by (auto simp: process_finish_def)
  qed
  then obtain e' where e': "process_failed env ?s i (Thrown e') = (s1, Inl e)" by blast
  obtain y where "List.find (\<lambda>p. pbId p = i) (inPostbacks (csIntake s1)) = Some y" "pbState y = PB_FAILED"
    using failed_marks [OF found, of env e'] e' by auto
  then show ?thesis
    using e' by (auto simp: process_def process_start_def process_failed_def set_postbacks_def split: sum.splits)
qed

section \<open>Reviews and chargebacks\<close>

lemma credit_pays_the_held:
  assumes "ledger_reachable l" and settled: "conversions_settled cs l"
    and held: "findConversion cs cid = Some held"
    and paid: "findBySource l SOURCE_CONVERSION cid (Some CONVERSION_CREDIT) = Some r"
  shows "findTransaction l (txId r) = Some r" "pays_for held r" "cvId held = cid"
proof -
  note r = findBySource_credit(2) [OF paid]
  show h: "cvId held = cid" using held by (auto simp: findConversion_def dest!: find_SomeD)
  have mem: "held \<in> set cs" using held by (auto simp: findConversion_def dest!: find_SomeD)
  obtain d where d: "d \<in> set cs" "pays_for d r"
    using settled r by (auto simp: conversions_settled_def explained_credits_def conv_credit_def)
  have "d = held"
  proof (rule same_id [of cs])
    show "cvId d = cvId held" using d(2) h r by (simp add: pays_for_def conv_credit_def)
  qed (use settled d(1) mem in \<open>simp_all add: conversions_settled_def\<close>)
  then show "pays_for held r" using d(2) by simp
  show "findTransaction l (txId r) = Some r"
    using r history_distinct [OF reachable_history [OF assms(1)]] find_key_eq unfolding findTransaction_def by metis
qed

lemma resolved_hold_refused:
  assumes held: "findConversion (csConversions s) cid = Some held"
    and s': "s' = s\<lparr>csConversions := update_where (\<lambda>c. cvId c = cid)
        (reviewed (case d of DECISION_CLEAR \<Rightarrow> CV_CREDITED | DECISION_CONFIRM \<Rightarrow> CV_REJECTED) input) (csConversions s),
        csLedger := l'\<rparr>"
  shows "resolveHold j now2 s' (input2\<lparr>rhConversionId := cid\<rparr>) = Inl (DomainError FRAUD_CONVERSION_NOT_HELD 409)"
proof -
  have "findConversion (csConversions s') cid
      = Some (reviewed (case d of DECISION_CLEAR \<Rightarrow> CV_CREDITED | DECISION_CONFIRM \<Rightarrow> CV_REJECTED) input held)"
    using find_update_same [OF held [unfolded findConversion_def]] s' by (simp add: findConversion_def)
  then show ?thesis by (simp add: resolveHold_def split: review_decision.splits)
qed

lemma resolved_hold_moves_once:
  assumes "case findBySource l SOURCE_CONVERSION cid (Some CONVERSION_CREDIT) of
       None \<Rightarrow> l' = l
     | Some r \<Rightarrow> (case d of
         DECISION_CLEAR \<Rightarrow> \<exists>m. mature l i now (txId r) = Inr (m, l')
       | DECISION_CONFIRM \<Rightarrow> \<exists>m. reverseCredit l i now (txId r) reason actor None = Inr (m, l'))"
    and "findBySource l SOURCE_CONVERSION cid (Some CONVERSION_CREDIT) = Some r"
    and "findTransaction l (txId r) = Some r" and "acted l (txId r) [REWARD_MATURATION, CHARGEBACK_DEBIT] = None"
  obtains (clear) m where "d = DECISION_CLEAR" "mature l i now (txId r) = Inr (Some m, l')"
    | (confirm) m where "d = DECISION_CONFIRM" "reverseCredit l i now (txId r) reason actor None = Inr (m, l')"
  using assms by (cases d) (auto simp: mature_def map_sum_def split: op_results)

text \<open>C10. Resolving a hold moves the money its decision names and cannot be done twice: clearing
  credits the conversion and makes exactly its held points available, confirming rejects it and
  takes them back; afterwards every further resolution is refused.\<close>

theorem hold_is_resolved_once:
  assumes "resolveHold i now (run_conversions ops) input = Inr (c, s')"
    and "findBySource (csLedger (run_conversions ops)) SOURCE_CONVERSION (rhConversionId input) (Some CONVERSION_CREDIT) = Some r"
    and "acted (csLedger (run_conversions ops)) (txId r) [REWARD_MATURATION, CHARGEBACK_DEBIT] = None"
  shows "cvId c = rhConversionId input \<and> cvRewardPoints c = txAmountPoints r
    \<and> (let b = getBalance (csLedger (run_conversions ops)) (cvUserId c); b' = getBalance (csLedger s') (cvUserId c);
           n = cvRewardPoints c
       in case rhDecision input of
          DECISION_CLEAR \<Rightarrow> cvStatus c = CV_CREDITED \<and> b' = b\<lparr>pending := pending b - n, available := available b + n\<rparr>
        | DECISION_CONFIRM \<Rightarrow> cvStatus c = CV_REJECTED \<and> balTotal b' = balTotal b - n
            \<and> lifetimeReversed b' = lifetimeReversed b + n)
    \<and> resolveHold j now2 s' (input2\<lparr>rhConversionId := rhConversionId input\<rparr>) = Inl (DomainError FRAUD_CONVERSION_NOT_HELD 409)"
  using assms(1)
proof (rule resolveHold_Inr)
  fix held l'
  let ?s = "run_conversions ops"
  let ?status = "case rhDecision input of DECISION_CLEAR \<Rightarrow> CV_CREDITED | DECISION_CONFIRM \<Rightarrow> CV_REJECTED"
  assume held: "findConversion (csConversions ?s) (rhConversionId input) = Some held"
    and moved: "case findBySource (csLedger ?s) SOURCE_CONVERSION (rhConversionId input) (Some CONVERSION_CREDIT) of
       None \<Rightarrow> l' = csLedger ?s
     | Some r \<Rightarrow> (case rhDecision input of
         DECISION_CLEAR \<Rightarrow> \<exists>m. mature (csLedger ?s) i now (txId r) = Inr (m, l')
       | DECISION_CONFIRM \<Rightarrow> \<exists>m. reverseCredit (csLedger ?s) i now (txId r) (rhReason input)
           (Some (admin_actor (Some (rhAdminId input)))) None = Inr (m, l'))"
    and c: "c = reviewed ?status input held"
    and s': "s' = ?s\<lparr>csConversions := update_where (\<lambda>c. cvId c = rhConversionId input)
        (reviewed ?status input) (csConversions ?s), csLedger := l'\<rparr>"
  have ok: "ledger_reachable (csLedger ?s)" "conversions_settled (csConversions ?s) (csLedger ?s)"
    using run_conversions_ok [of ops] by (simp_all add: conv_ok_def)
  note paid = credit_pays_the_held [OF ok held assms(2)]
  note again = resolved_hold_refused [OF held s']
  have user: "cvUserId c = cvUserId held" "cvRewardPoints c = txAmountPoints r" "cvUserId held = txUserId r"
    using paid c by (simp_all add: reviewed_def pays_for_def)
  from moved assms(2) paid(1) assms(3) show ?thesis
  proof (cases rule: resolved_hold_moves_once)
    case (clear m)
    note e = mature_InrD [OF clear(2)]
    show ?thesis
      using e paid user again c clear(1) s'
      by (auto simp: posts_getBalance(1) [OF ok(1) posts.mature [OF clear(2)]] moved_by_def Let_def
          earnedDelta_def withdrawnDelta_def reversedDelta_def)
  next
    case (confirm m)
    note e = reverseCredit_InrD [OF confirm(2)]
    show ?thesis
      using e paid user again c confirm(1) s'
      by (auto simp: posts_getBalance(1) [OF ok(1) posts.reverse [OF confirm(2)]] moved_by_def Let_def
          earnedDelta_def withdrawnDelta_def reversedDelta_def)
  qed
qed

text \<open>A chargeback aimed at a conversion whose credit was already taken back, by a reviewer who
  confirmed fraud or by another worker with the same chargeback, cannot be recorded: the ledger
  refuses, the transaction rolls back and the postback ends failed, even one that had been
  processed.\<close>

theorem second_chargeback_fails_its_postback:
  assumes "piReversalOf input = Some original" and "piScoring input = None"
    and "findBySource (csLedger s) SOURCE_CONVERSION (cvId original) (Some CONVERSION_CREDIT) = Some r"
    and "findTransaction (csLedger s) (txId r) = Some r" and "acted (csLedger s) (txId r) [CHARGEBACK_DEBIT] \<noteq> None"
    and "List.find (\<lambda>p. pbId p = pbId (piPostback input)) (inPostbacks (csIntake s)) = Some p"
    and "process_finish env s input = (s', x)"
  shows "x = Inl (DomainError REWARD_INVALID_OPERATION 409) \<and> csConversions s' = csConversions s
    \<and> (\<exists>q. List.find (\<lambda>p. pbId p = pbId (piPostback input)) (inPostbacks (csIntake s')) = Some q
        \<and> pbState q = PB_FAILED)"
proof -
  have "credit_reward env input (csLedger s) = Inr (csLedger s)"
    using assms(1) by (simp add: credit_reward_def pi_plan_def planCredit_def no_credit_def)
  moreover have "reverse_reward env input (csLedger s) = Inl (DomainError REWARD_INVALID_OPERATION 409)"
    using assms(1,3,4,5)
    by (auto simp: reverse_reward_def reverseRewardFor_def reverseCredit_def reverseCheck_def)
  ultimately have "persist_transaction env s input = Inl (DomainError REWARD_INVALID_OPERATION 409)"
    using assms(2) by (simp add: persist_transaction_def record_scoring_def)
  then have f: "process_failed env s (pbId (piPostback input))
      (Thrown (DomainError REWARD_INVALID_OPERATION 409)) = (s', x)"
    using assms(7) by (simp add: process_finish_def persist_def)
  then show ?thesis
    using failed_marks [OF assms(6), of env "DomainError REWARD_INVALID_OPERATION 409"]
    by (auto simp: process_failed_def set_postbacks_def split: sum.splits)
qed

end
