(* ===== verification/ConversionRuns.thy ===== *)
theory ConversionRuns
  imports ConversionProps PayoutProps
begin

text \<open>
  Concrete runs of conversion processing: one delivery, processed for an active and for a suspended
  account, then reviewed or charged back. They show that the hypotheses of the properties hold
  where the program runs.
\<close>

definition demo_event :: "bool \<Rightarrow> normalized_conversion" where
  "demo_event reversal = \<lparr>ncSubId = ''a.AA'', ncExternalTransactionId = ''t'', ncPayoutAmountMinor = 150,
     ncPayoutCurrency = ''USD'', ncStatus = Confirmed, ncIsReversal = reversal, ncExternalOfferId = None,
     ncOccurredAt = None\<rparr>"

definition demo_reader :: "bool \<Rightarrow> conv_state" where
  "demo_reader reversal = no_conversions\<lparr>csRegistry := \<lparr>registered = [(''mock'', (demo_registration,
     demo_adapter\<lparr>parsePostback := Some (\<lambda>_. Inr (demo_event reversal))\<rparr>))], failed = [], loaded = True\<rparr>\<rparr>"

definition demo_conv_click :: click where
  "demo_conv_click = \<lparr>ckId = 3, ckUserId = 7, ckOfferId = 4, ckProviderId = 1, ckSubId = ''a.AA'',
     ckOfferTitleSnapshot = ''Offer'', ckRewardPointsSnapshot = 1050, ckIpAddress = None,
     ckUserAgent = None, ckDeviceFingerprint = None, ckReferrer = None, ckAttributionExpiresAt = 100,
     ckCreatedAt = 0\<rparr>"

definition demo_worker :: "user_status \<Rightarrow> id \<Rightarrow> conv_env" where
  "demo_worker st i = \<lparr>veClicks = [demo_conv_click], veUsers = [demo_user 7 ''u@x'' ROLE_USER st],
     veProviders = ieProviders (demo_intake_env 9), veAdapters = demo_adapters, veVariables = (\<lambda>_. None),
     veHmac = (\<lambda>_ _. [0]), veSecret = [], veRates = (\<lambda>_. default_offers_config),
     veFraud = (\<lambda>_. default_fraud_config), veScoringFails = True, veHoldDays = (\<lambda>_. 7),
     veClickAt = 10, veScoreAt = 11, vePersistAt = 12, veLedgerAt = 13, veConversionId = i,
     veEvaluationId = i, veTransactionId = i, veDescribe = (\<lambda>_. ''failure'')\<rparr>"

definition demo_postback :: provider_postback where
  "demo_postback = archived_row (demo_intake_env 9) 1 demo_envelope (Some ''t'')"

definition demo_input :: "user_status \<Rightarrow> persist_input" where
  "demo_input st = \<lparr>piPostback = demo_postback, piClick = demo_conv_click, piParsed = demo_event False,
     piRates = resolveRates (\<lambda>_. default_offers_config) 1,
     piStatus = (if st = ACTIVE then CV_ATTRIBUTED else CV_HELD),
     piReviewReason = (if st = ACTIVE then None else Some AccountNotActive),
     piReversalOf = None, piScoring = None\<rparr>"

lemma archived_row_simps: "pbId (archived_row env p e t) = ieId env" "pbProviderId (archived_row env p e t) = p"
  "pbState (archived_row env p e t) = PB_RECEIVED"
  by (simp_all add: archived_row_def)

lemma demo_row [simp]: "pbId demo_postback = 9" "pbProviderId demo_postback = 1"
  "pbState demo_postback = PB_RECEIVED" "same_event p t demo_postback \<longleftrightarrow> p = 1 \<and> t = ''t''"
proof -
  show "pbId demo_postback = 9" "pbProviderId demo_postback = 1" "pbState demo_postback = PB_RECEIVED"
    unfolding demo_postback_def archived_row_simps by (simp_all add: demo_intake_env_def)
  show "same_event p t demo_postback \<longleftrightarrow> p = 1 \<and> t = ''t''"
    unfolding demo_postback_def same_event_row by auto
qed

lemma demo_resolveClick: "resolveClick (demo_worker st i) ''a.AA'' = Inr demo_conv_click"
proof -
  have "SUB_ID_PATTERN ''a.AA''" "before_dot ''a.AA'' = ''a''" "after_dot ''a.AA'' = ''AA''" "b64_char 0 = CHR ''A''"
    by code_simp+
  then have "verifySubId (\<lambda>_ _. [0]) [] ''a.AA''"
    by (simp add: verifySubId_def signToken_def SIGNATURE_BYTES_def b64_digit_def)
  then show ?thesis
    by (simp add: resolveClick_def resolveSubId_def demo_worker_def findBySubId_def demo_conv_click_def
        isClickExpired_def)
qed

lemma demo_reparse: "reparse (demo_worker st i) (csRegistry (demo_reader b)) demo_postback
    = (csRegistry (demo_reader b), Inr (demo_event b))"
  by (simp add: reparse_def demo_worker_def demo_intake_env_def findProvider_def demo_reader_def
      find_registered_def Let_def)

lemma demo_attribute: "attribute (demo_worker st i) (demo_reader False) demo_postback
    = (demo_reader False, Inr (demo_input st))"
proof -
  have "score (demo_worker st i) rows u c p e = None" for rows u c p e
    by (simp add: score_def demo_worker_def)
  moreover have "findUser (veUsers (demo_worker st i)) 7 = Some (demo_user 7 ''u@x'' ROLE_USER st)"
    by (simp add: findUser_def demo_worker_def demo_user_def new_user_def)
  moreover have "isActiveUser (demo_user 7 ''u@x'' ROLE_USER st) \<longleftrightarrow> st = ACTIVE"
    by (simp add: isActiveUser_def demo_user_def)
  moreover have "ncSubId (demo_event False) = ''a.AA''" "ncIsReversal (demo_event False) = False"
    "ncPayoutCurrency (demo_event False) = ''USD''" "ncStatus (demo_event False) = Confirmed"
    by (simp_all add: demo_event_def)
  moreover have "ckProviderId demo_conv_click = 1" "ckUserId demo_conv_click = 7"
    by (simp_all add: demo_conv_click_def)
  moreover have "accountingCurrency (resolveRates (veRates (demo_worker st i)) 1) = ''USD''"
    "resolveRates (veRates (demo_worker st i)) 1 = resolveRates (\<lambda>_. default_offers_config) 1"
    by (simp_all add: resolveRates_def demo_worker_def default_offers_config_def)
  ultimately show ?thesis
    by (simp add: attribute_def demo_reparse attribute_parsed_def demo_resolveClick resolveStatus_def
        demo_input_def Let_def)
qed

lemma demo_points: "pi_points (demo_input st) = 1050"
proof -
  have "double_of (of_int 1500) = of_int 1500" "double_of (of_int 105000) = of_int 105000"
    by (rule double_of_int; simp)+
  moreover have "\<lfloor>double_of (of_int 105000 / of_int 100)\<rfloor> = 105000 div 100"
    by (rule floor_double_div) simp_all
  ultimately show ?thesis
    by (simp add: pi_points_def demo_input_def demo_event_def toRewardPoints_def resolveRates_def
        default_offers_config_def Let_def)
qed

lemma demo_receive: "fst (receive (demo_intake_env 9) no_intake demo_envelope)
    = \<lparr>inPostbacks = [demo_postback], inQueue = [9]\<rparr>"
proof -
  have "receive (demo_intake_env 9) no_intake demo_envelope
      = archive (demo_intake_env 9) no_intake 1 demo_envelope ''t''"
    by (simp add: receive_def demo_intake_env_def demo_envelope_def findProviderBySlug_def
        require_registered_def demo_registration_def isPostbackSourceAllowed_def demo_postback_adapter_def
        demo_adapter_def)
  moreover have "createPostback [] demo_postback
      = (Inr [demo_postback] :: provider_postback list result)"
    by (simp add: createPostback_def split: option.splits)
  ultimately show ?thesis
    unfolding archive_def demo_postback_def [symmetric]
    by (simp add: no_intake_def enqueueProcessing_def demo_intake_env_def)
qed

definition demo_conv_ops :: "user_status \<Rightarrow> conv_op list" where
  "demo_conv_ops st = [Move (OpOpen 2 7), Receive (demo_intake_env 9) demo_envelope,
     Finish (demo_worker st 20) (demo_reader False) demo_postback (demo_worker st 20)]"

definition demo_before :: conv_state where
  "demo_before = run_conversions [Move (OpOpen 2 7), Receive (demo_intake_env 9) demo_envelope]"

definition demo_conversion :: "user_status \<Rightarrow> conversion" where
  "demo_conversion st = new_conversion (demo_worker st 20) (demo_input st) 150 None"

definition demo_reward :: "user_status \<Rightarrow> reward_transaction" where
  "demo_reward st = \<lparr>txId = 20, txUserId = 7, txType = CONVERSION_CREDIT, txAmountPoints = 1050,
     txPendingDelta = 1050, txAvailableDelta = 0, txLockedDelta = 0, txSourceType = SOURCE_CONVERSION,
     txSourceId = Some 20, txSourceLabel = Some ''Offer'', txSourceTransactionId = None,
     txActorType = ACTOR_SYSTEM, txActorId = None,
     txReason = Some (if st = ACTIVE then ''conversion attributed'' else ''conversion held for review''),
     txMaturesAt = (if st = ACTIVE then Some (13 + 7 * dayMs) else None),
     txHoldPeriodDays = (if st = ACTIVE then Some 7 else None), txCreatedAt = 13\<rparr>"

lemma demo_before: "demo_before = no_conversions\<lparr>csIntake := \<lparr>inPostbacks = [demo_postback], inQueue = [9]\<rparr>,
    csLedger := openAccount empty_ledger 2 7\<rparr>"
  unfolding demo_before_def run_conversions_def
  by (simp add: is_credit_op_def no_conversions_def demo_receive)

lemma demo_credit: "credit_reward (demo_worker st 20) (demo_input st) (openAccount empty_ledger 2 7)
    = Inr \<lparr>balances = [\<lparr>balId = 2, balUserId = 7, pendingPoints = 1050, availablePoints = 0,
        lockedPoints = 0, lifetimeEarnedPoints = 1050, lifetimeWithdrawnPoints = 0,
        lifetimeReversedPoints = 0, balVersion = 1\<rparr>], transactions = [demo_reward st]\<rparr>"
proof -
  have plan: "pi_plan (demo_input st) = \<lparr>cpCredits = True, cpHoldIndefinitely = st \<noteq> ACTIVE,
      cpReason = if st = ACTIVE then ''conversion attributed'' else ''conversion held for review''\<rparr>"
    unfolding pi_plan_def demo_points by (simp add: demo_input_def planCredit_def)
  have c: "piClick (demo_input st) = demo_conv_click" "piPostback (demo_input st) = demo_postback"
    by (simp_all add: demo_input_def)
  show ?thesis
    unfolding credit_reward_def plan conversion_credit_def demo_points c
    by (simp add: credit_def requirePositive_def mutate_def lockBalance_def findBalance_def openAccount_def
        empty_ledger_def demo_worker_def demo_conv_click_def writeMovement_def created_row_def
        row_in_range_def balance_in_range_def moved_balance_def int4_def or_zero_def system_actor_def
        demo_reward_def Let_def update_where_def)
qed

definition demo_after :: "user_status \<Rightarrow> conv_state" where
  "demo_after st = demo_before\<lparr>csIntake := \<lparr>inPostbacks = [demo_postback\<lparr>pbState := PB_PROCESSED,
       pbProcessingAttempts := pbProcessingAttempts demo_postback + 1, pbErrorDetail := None\<rparr>], inQueue = [9]\<rparr>,
     csConversions := [demo_conversion st],
     csLedger := \<lparr>balances = [\<lparr>balId = 2, balUserId = 7, pendingPoints = 1050, availablePoints = 0,
        lockedPoints = 0, lifetimeEarnedPoints = 1050, lifetimeWithdrawnPoints = 0,
        lifetimeReversedPoints = 0, balVersion = 1\<rparr>], transactions = [demo_reward st]\<rparr>\<rparr>"

lemma demo_input_simps [simp]: "piScoring (demo_input st) = None" "piReversalOf (demo_input st) = None"
  "piPostback (demo_input st) = demo_postback" "ncPayoutAmountMinor (piParsed (demo_input st)) = 150"
  by (simp_all add: demo_input_def demo_event_def)

lemma demo_persist: "persist_transaction (demo_worker st 20) demo_before (demo_input st)
    = Inr (demo_conversion st, demo_after st)"
proof -
  have "store_conversion (demo_worker st 20) (demo_input st) None []
      = Inr (demo_conversion st, [demo_conversion st])"
    by (simp add: store_conversion_def column_int_def createConversion_def demo_conversion_def demo_points
        new_conversion_def int4_def Let_def)
  moreover have "markProcessed [demo_postback] 9 = Inr [demo_postback\<lparr>pbState := PB_PROCESSED,
       pbProcessingAttempts := pbProcessingAttempts demo_postback + 1, pbErrorDetail := None\<rparr>]"
    by (simp add: markProcessed_def update_postback_def update_where_def)
  moreover have "csEvaluations demo_before = []" "csConversions demo_before = []"
    "csLedger demo_before = openAccount empty_ledger 2 7"
    "csIntake demo_before = \<lparr>inPostbacks = [demo_postback], inQueue = [9]\<rparr>"
    by (simp_all add: demo_before no_conversions_def)
  ultimately show ?thesis
    by (simp add: persist_transaction_def record_scoring_def demo_credit reverse_reward_def demo_after_def)
qed

lemma demo_run: "run_conversions (demo_conv_ops st) = demo_after st"
proof -
  have "demo_conv_ops st = [Move (OpOpen 2 7), Receive (demo_intake_env 9) demo_envelope]
      @ [Finish (demo_worker st 20) (demo_reader False) demo_postback (demo_worker st 20)]"
    by (simp add: demo_conv_ops_def)
  then have "run_conversions (demo_conv_ops st) = run_ops execConv demo_before
      [Finish (demo_worker st 20) (demo_reader False) demo_postback (demo_worker st 20)]"
    unfolding demo_before_def run_conversions_def by (simp only: run_ops_append)
  then show ?thesis
    by (simp add: demo_attribute process_finish_def persist_def demo_persist)
qed

lemma demo_after_simps [simp]: "transactions (csLedger (demo_after st)) = [demo_reward st]"
  "csConversions (demo_after st) = [demo_conversion st]" "cvId (demo_conversion st) = 20"
  "txId (demo_reward st) = 20" "conv_credit i (demo_reward st) \<longleftrightarrow> i = 20"
  "cvRewardPoints (demo_conversion st) = 1050" "cvType (demo_conversion st) = CT_CONVERSION"
  "cvPostbackId (demo_conversion st) = 9" "txType (demo_reward st) = CONVERSION_CREDIT"
  by (auto simp: demo_after_def demo_conversion_def demo_worker_def demo_reward_def demo_points conv_credit_def)

lemma demo_statuses [simp]: "cvStatus (demo_conversion st) = (if st = ACTIVE then CV_CREDITED else CV_HELD)"
  unfolding demo_conversion_def new_conversion_simps storedStatus_def pi_plan_def demo_points
  by (simp add: demo_input_def planCredit_def)

lemma credits_belong_to_conversions_witness:
  "\<exists>r\<in>set (transactions (csLedger (run_conversions (demo_conv_ops ACTIVE)))). txAmountPoints r = 1050
    \<and> (\<exists>!c. c \<in> set (csConversions (run_conversions (demo_conv_ops ACTIVE))) \<and> txSourceId r = Some (cvId c)
        \<and> cvType c = CT_CONVERSION \<and> txUserId r = cvUserId c \<and> txAmountPoints r = cvRewardPoints c)"
proof -
  have "demo_reward ACTIVE \<in> set (transactions (csLedger (run_conversions (demo_conv_ops ACTIVE))))"
    "txAmountPoints (demo_reward ACTIVE) = 1050" "txType (demo_reward ACTIVE) = CONVERSION_CREDIT"
    by (simp_all add: demo_run) (simp add: demo_reward_def)
  then show ?thesis using credits_belong_to_conversions [of "demo_conv_ops ACTIVE"] by blast
qed

lemma event_is_paid_at_most_once_witness:
  "length (transactions (csLedger (run_conversions (demo_conv_ops ACTIVE)))) = 1
   \<and> count_where (\<lambda>r. \<exists>c\<in>set (csConversions (run_conversions (demo_conv_ops ACTIVE))).
       \<exists>b\<in>set (inPostbacks (csIntake (run_conversions (demo_conv_ops ACTIVE)))).
         conv_credit (cvId c) r \<and> cvPostbackId c = pbId b \<and> same_event 1 ''t'' b)
     (transactions (csLedger (run_conversions (demo_conv_ops ACTIVE)))) \<le> 1"
  using event_is_paid_at_most_once [of "demo_conv_ops ACTIVE" 1 "''t''"] by (simp add: demo_run)

lemma status_tells_the_credit_witness:
  "cvStatus (demo_conversion SUSPENDED) = CV_HELD
   \<and> length (filter (conv_credit 20) (transactions (csLedger (run_conversions (demo_conv_ops SUSPENDED))))) = 1"
proof -
  have "demo_conversion SUSPENDED \<in> set (csConversions (run_conversions (demo_conv_ops SUSPENDED)))"
    by (simp add: demo_run)
  from status_tells_the_credit [of "demo_conv_ops SUSPENDED", THEN bspec, OF this]
  show ?thesis by (simp add: Let_def)
qed

lemma credit_decision_witness:
  "cpCredits (pi_plan (demo_input SUSPENDED)) \<and> cpHoldIndefinitely (pi_plan (demo_input SUSPENDED))"
proof -
  have "findUser (veUsers (demo_worker SUSPENDED 20)) (ckUserId (piClick (demo_input SUSPENDED)))
      = Some (demo_user 7 ''u@x'' ROLE_USER SUSPENDED)"
    by (simp add: findUser_def demo_worker_def demo_user_def new_user_def demo_input_def demo_conv_click_def)
  from credit_decision [OF demo_attribute this] show ?thesis
    unfolding demo_points
    by (simp add: demo_input_def demo_event_def isActiveUser_def demo_user_def Let_def)
qed

lemma late_worker_changes_nothing_witness:
  "process_finish (demo_worker ACTIVE 21) (run_conversions (demo_conv_ops ACTIVE)) (demo_input ACTIVE)
     \<noteq> (run_conversions (demo_conv_ops ACTIVE), Inl UniqueViolation)"
proof -
  have "findByPostbackId (csConversions (demo_after ACTIVE)) (pbId (piPostback (demo_input ACTIVE)))
      = Some (demo_conversion ACTIVE)"
    by (simp add: findByPostbackId_def)
  from late_worker_changes_nothing [OF this, of "demo_worker ACTIVE 21"] show ?thesis
    unfolding demo_run by (metis sum.distinct(1) sum.inject(1))
qed

lemma failed_postback_is_skipped_by_retries_witness:
  "\<exists>s1 e. process (demo_worker ACTIVE 20) (demo_before\<lparr>csLedger := empty_ledger, csRegistry := csRegistry (demo_reader False)\<rparr>) 9
      = (s1, Inl e)
    \<and> process (demo_worker ACTIVE 21) s1 9 = (s1, Inr SkippedPostback)"
proof -
  let ?s = "demo_before\<lparr>csLedger := empty_ledger, csRegistry := csRegistry (demo_reader False)\<rparr>"
  have found: "List.find (\<lambda>p. pbId p = 9) (inPostbacks (csIntake ?s)) = Some demo_postback"
    by (simp add: demo_before)
  have a: "attribute (demo_worker ACTIVE 20) ?s demo_postback = (?s, Inr (demo_input ACTIVE))"
  proof -
    have "snd (attribute (demo_worker ACTIVE 20) ?s demo_postback)
        = snd (attribute (demo_worker ACTIVE 20) (demo_reader False) demo_postback)"
      by (simp add: attribute_def demo_reparse demo_before) (simp add: demo_reader_def)
    moreover have "fst (attribute (demo_worker ACTIVE 20) ?s demo_postback) = ?s"
      by (simp add: attribute_def demo_reparse)
    ultimately show ?thesis by (simp add: demo_attribute prod_eq_iff)
  qed
  have "credit_reward (demo_worker ACTIVE 20) (demo_input ACTIVE) empty_ledger = Inl (DomainError USER_NOT_FOUND 404)"
    unfolding credit_reward_def conversion_credit_def demo_points pi_plan_def
    by (simp add: demo_input_def planCredit_def credit_def requirePositive_def mutate_def lockBalance_def
        findBalance_def empty_ledger_def Let_def)
  then have "persist (demo_worker ACTIVE 20) ?s (demo_input ACTIVE) = (?s, Inl (DomainError USER_NOT_FOUND 404))"
    by (simp add: persist_def persist_transaction_def record_scoring_def)
  then obtain s1 where "process (demo_worker ACTIVE 20) ?s 9 = (s1, Inl (DomainError USER_NOT_FOUND 404))"
    using found a by (simp add: process_def process_start_def process_finish_def process_failed_def)
  then show ?thesis using failed_postback_is_skipped_by_retries by blast
qed

definition demo_verdict :: "review_decision \<Rightarrow> resolve_hold_input" where
  "demo_verdict d = \<lparr>rhConversionId = 20, rhDecision = d, rhReason = ''looked at'', rhAdminId = 2, rhNow = 40\<rparr>"

lemma demo_source: "findBySource (csLedger (demo_after st)) SOURCE_CONVERSION 20 (Some CONVERSION_CREDIT) = Some (demo_reward st)"
  by (simp add: findBySource_def opt_eq_def) (simp add: demo_reward_def)

lemma demo_acted: "acted (csLedger (demo_after st)) 20 kinds = None"
  by (simp add: acted_def) (simp add: demo_reward_def)

lemma demo_resolved: "\<exists>c s'. resolveHold 30 40 (demo_after SUSPENDED) (demo_verdict d) = Inr (c, s')"
proof -
  have f: "findConversion (csConversions (demo_after SUSPENDED)) 20 = Some (demo_conversion SUSPENDED)"
    by (simp add: findConversion_def)
  have l: "csLedger (demo_after SUSPENDED) = \<lparr>balances = [\<lparr>balId = 2, balUserId = 7, pendingPoints = 1050,
        availablePoints = 0, lockedPoints = 0, lifetimeEarnedPoints = 1050, lifetimeWithdrawnPoints = 0,
        lifetimeReversedPoints = 0, balVersion = 1\<rparr>], transactions = [demo_reward SUSPENDED]\<rparr>"
    by (simp add: demo_after_def)
  have t: "findTransaction (csLedger (demo_after SUSPENDED)) 20 = Some (demo_reward SUSPENDED)"
    by (simp add: findTransaction_def)
  have k: "lockBalance (csLedger (demo_after SUSPENDED)) 7 = Inr (hd (balances (csLedger (demo_after SUSPENDED))))"
    "hd (balances (csLedger (demo_after SUSPENDED))) = \<lparr>balId = 2, balUserId = 7, pendingPoints = 1050,
        availablePoints = 0, lockedPoints = 0, lifetimeEarnedPoints = 1050, lifetimeWithdrawnPoints = 0,
        lifetimeReversedPoints = 0, balVersion = 1\<rparr>"
    by (simp_all add: l lockBalance_def findBalance_def)
  have r: "txUserId (demo_reward SUSPENDED) = 7" "txAmountPoints (demo_reward SUSPENDED) = 1050"
    by (simp_all add: demo_reward_def)
  note writes = writeMovement_def created_row_def row_in_range_def balance_in_range_def moved_balance_def
    int4_def or_zero_def Let_def
  have "\<exists>m l'. mature (csLedger (demo_after SUSPENDED)) 30 40 20 = Inr (m, l')"
    by (simp add: mature_def t demo_acted r k writes)
  moreover have "\<exists>m l'. reverseCredit (csLedger (demo_after SUSPENDED)) 30 40 20 (rhReason (demo_verdict d))
      (Some (admin_actor (Some (rhAdminId (demo_verdict d))))) None = Inr (m, l')"
    by (simp add: reverseCredit_def reverseCheck_def reverseCommit_def t demo_acted r k writes)
  ultimately show ?thesis
    using f by (cases d) (auto simp: resolveHold_def demo_verdict_def demo_source update_conversion_def)
qed

lemma hold_is_resolved_once_witness:
  "\<exists>c s'. resolveHold 30 40 (run_conversions (demo_conv_ops SUSPENDED)) (demo_verdict DECISION_CLEAR) = Inr (c, s')
    \<and> cvStatus c = CV_CREDITED \<and> available (getBalance (csLedger s') (cvUserId c)) = available (getBalance
        (csLedger (demo_after SUSPENDED)) (cvUserId c)) + 1050"
proof -
  obtain c s' where r: "resolveHold 30 40 (run_conversions (demo_conv_ops SUSPENDED)) (demo_verdict DECISION_CLEAR) = Inr (c, s')"
    unfolding demo_run using demo_resolved by blast
  have "rhConversionId (demo_verdict DECISION_CLEAR) = 20" "rhDecision (demo_verdict DECISION_CLEAR) = DECISION_CLEAR"
    "txAmountPoints (demo_reward SUSPENDED) = 1050"
    by (simp_all add: demo_verdict_def demo_reward_def)
  then show ?thesis
    using hold_is_resolved_once [OF r, of "demo_reward SUSPENDED"] r
    by (auto simp: demo_run demo_source demo_acted Let_def)
qed

text \<open>The chargeback that arrives after a reviewer confirmed the fraud.\<close>

definition demo_chargeback :: "conversion \<Rightarrow> persist_input" where
  "demo_chargeback original = (demo_input ACTIVE)\<lparr>piParsed := demo_event True, piReversalOf := Some original\<rparr>"

lemma second_chargeback_fails_its_postback_witness:
  "\<exists>c s' s2. resolveHold 30 40 (demo_after SUSPENDED) (demo_verdict DECISION_CONFIRM) = Inr (c, s')
    \<and> process_finish (demo_worker ACTIVE 21) s' (demo_chargeback c)
      = (s2, Inl (DomainError REWARD_INVALID_OPERATION 409))"
proof -
  obtain c s' where r: "resolveHold 30 40 (demo_after SUSPENDED) (demo_verdict DECISION_CONFIRM) = Inr (c, s')"
    using demo_resolved by blast
  show ?thesis
    using r
  proof (rule resolveHold_Inr)
    fix held l'
    assume f: "findConversion (csConversions (demo_after SUSPENDED)) (rhConversionId (demo_verdict DECISION_CONFIRM)) = Some held"
      and m: "case findBySource (csLedger (demo_after SUSPENDED)) SOURCE_CONVERSION
          (rhConversionId (demo_verdict DECISION_CONFIRM)) (Some CONVERSION_CREDIT) of
        None \<Rightarrow> l' = csLedger (demo_after SUSPENDED)
      | Some r \<Rightarrow> (case rhDecision (demo_verdict DECISION_CONFIRM) of
         DECISION_CLEAR \<Rightarrow> \<exists>m. mature (csLedger (demo_after SUSPENDED)) 30 40 (txId r) = Inr (m, l')
       | DECISION_CONFIRM \<Rightarrow> \<exists>m. reverseCredit (csLedger (demo_after SUSPENDED)) 30 40 (txId r)
           (rhReason (demo_verdict DECISION_CONFIRM))
           (Some (admin_actor (Some (rhAdminId (demo_verdict DECISION_CONFIRM))))) None = Inr (m, l'))"
      and c: "c = reviewed (case rhDecision (demo_verdict DECISION_CONFIRM) of DECISION_CLEAR \<Rightarrow> CV_CREDITED
          | DECISION_CONFIRM \<Rightarrow> CV_REJECTED) (demo_verdict DECISION_CONFIRM) held"
      and s': "s' = (demo_after SUSPENDED)\<lparr>csConversions := update_where (\<lambda>c. cvId c = rhConversionId (demo_verdict DECISION_CONFIRM))
        (reviewed (case rhDecision (demo_verdict DECISION_CONFIRM) of DECISION_CLEAR \<Rightarrow> CV_CREDITED
          | DECISION_CONFIRM \<Rightarrow> CV_REJECTED) (demo_verdict DECISION_CONFIRM)) (csConversions (demo_after SUSPENDED)),
          csLedger := l'\<rparr>"
    have d: "rhConversionId (demo_verdict DECISION_CONFIRM) = 20" "rhDecision (demo_verdict DECISION_CONFIRM) = DECISION_CONFIRM"
      by (simp_all add: demo_verdict_def)
    obtain x where x: "reverseCredit (csLedger (demo_after SUSPENDED)) 30 40 20
        (rhReason (demo_verdict DECISION_CONFIRM))
        (Some (admin_actor (Some (rhAdminId (demo_verdict DECISION_CONFIRM))))) None = Inr (x, l')"
      using m by (auto simp: d demo_source)
    have held: "cvId held = 20" using f by (auto simp: findConversion_def d dest!: find_SomeD)
    have reach: "ledger_reachable (csLedger (demo_after SUSPENDED))"
      using run_conversions_ok [of "demo_conv_ops SUSPENDED"] by (simp add: demo_run conv_ok_def)
    note e = reverseCredit_extends [OF reach x] and
      app = posts_getBalance(2) [OF reach posts.reverse [OF x]]
    have tx: "transactions l' = [demo_reward SUSPENDED, x]" "txType x = CHARGEBACK_DEBIT"
      using app reverseCredit_InrD [OF x] by auto
    have "findBySource l' SOURCE_CONVERSION 20 (Some CONVERSION_CREDIT) = Some (demo_reward SUSPENDED)"
    proof (cases "findBySource l' SOURCE_CONVERSION 20 (Some CONVERSION_CREDIT)")
      case None
      then show ?thesis using findBySource_credit(1) [OF None] tx by simp
    next
      case (Some y)
      then show ?thesis using findBySource_credit(2) [OF Some] tx by (auto simp: conv_credit_def)
    qed
    moreover have "findTransaction l' 20 = Some (demo_reward SUSPENDED)"
      by (simp add: findTransaction_def tx)
    moreover have "List.find (\<lambda>p. pbId p = 9) (inPostbacks (csIntake (demo_after SUSPENDED)))
        = Some (demo_postback\<lparr>pbState := PB_PROCESSED,
            pbProcessingAttempts := pbProcessingAttempts demo_postback + 1, pbErrorDetail := None\<rparr>)"
      by (simp add: demo_after_def)
    ultimately show ?thesis
      using second_chargeback_fails_its_postback [of "demo_chargeback c" c s' "demo_reward SUSPENDED"
          _ "demo_worker ACTIVE 21" "fst (process_finish (demo_worker ACTIVE 21) s' (demo_chargeback c))"
          "snd (process_finish (demo_worker ACTIVE 21) s' (demo_chargeback c))"] e(2) r held
      by (auto simp: demo_chargeback_def s' c d prod_eq_iff)
  qed
qed

end
