(* ===== verification/ConfigKeys.thy ===== *)
theory ConfigKeys
  imports Offers Clicks Fraud Payouts Users
begin

text \<open>
  The configuration keys: \<^verbatim>\<open>core/config/configuration-key.ts\<close> and the
  \<^verbatim>\<open>*.config.ts\<close> file of each module. A schema is what it accepts: a function from a
  JSON value to the parsed value, or to nothing.
\<close>

section \<open>Key definitions\<close>

datatype config_scope = GLOBAL | PROVIDER

datatype value_type = VT_STRING | VT_NUMBER | VT_BOOLEAN | VT_JSON

type_synonym schema = "json \<Rightarrow> json option"

record key_definition =
  kdKey :: string
  kdSchema :: schema
  kdDefault :: json
  kdDescription :: string
  kdScopes :: "config_scope list"
  kdValueType :: value_type

text \<open>The shapes the keys use: a whole number in a range, a non-negative number, a boolean, a currency
  code, a string of bounded length, a choice, a lowercase slug, an array and an object.\<close>

definition int_in :: "int \<Rightarrow> int \<Rightarrow> schema" where
  "int_in lo hi v = (case v of JNum x \<Rightarrow>
     (if of_int \<lfloor>x\<rfloor> = x \<and> lo \<le> \<lfloor>x\<rfloor> \<and> \<lfloor>x\<rfloor> \<le> hi then Some v else None) | _ \<Rightarrow> None)"

definition number_from :: "rat \<Rightarrow> schema" where
  "number_from lo v = (case v of JNum x \<Rightarrow> (if lo \<le> x then Some v else None) | _ \<Rightarrow> None)"

definition boolean_schema :: schema where
  "boolean_schema v = (case v of JBool _ \<Rightarrow> Some v | _ \<Rightarrow> None)"

definition string_where :: "(string \<Rightarrow> bool) \<Rightarrow> schema" where
  "string_where p v = (case v of JStr s \<Rightarrow> (if p s then Some v else None) | _ \<Rightarrow> None)"

definition length_in :: "nat \<Rightarrow> nat \<Rightarrow> string \<Rightarrow> bool" where
  "length_in lo hi s \<longleftrightarrow> lo \<le> length s \<and> length s \<le> hi"

text \<open>\<open>/^[a-z0-9]+(?:_[a-z0-9]+)*$/\<close>: non-empty parts between underscores.\<close>

definition method_slug :: "string \<Rightarrow> bool" where
  "method_slug s \<longleftrightarrow> list_all (\<lambda>part. part \<noteq> [] \<and> list_all
     (\<lambda>c. (97 \<le> code_unit c \<and> code_unit c \<le> 122) \<or> (48 \<le> code_unit c \<and> code_unit c \<le> 57)) part)
     (split_on CHR ''_'' s)"

fun parse_all :: "schema \<Rightarrow> json list \<Rightarrow> json list option" where
  "parse_all p [] = Some []"
| "parse_all p (v # vs) = (case p v of None \<Rightarrow> None
     | Some w \<Rightarrow> (case parse_all p vs of None \<Rightarrow> None | Some ws \<Rightarrow> Some (w # ws)))"

definition array_of :: "schema \<Rightarrow> nat \<Rightarrow> nat \<Rightarrow> schema" where
  "array_of p lo hi v = (case v of
     JArr vs \<Rightarrow> (if lo \<le> length vs \<and> length vs \<le> hi then map_option JArr (parse_all p vs) else None)
   | _ \<Rightarrow> None)"

text \<open>An object with required fields: others are stripped, and the fields come out in the schema's
  order.\<close>

fun parse_fields :: "(string \<times> schema) list \<Rightarrow> (string \<times> json) list \<Rightarrow> (string \<times> json) list option" where
  "parse_fields [] kvs = Some []"
| "parse_fields ((k, p) # shape) kvs = (case map_of kvs k of None \<Rightarrow> None
     | Some v \<Rightarrow> (case p v of None \<Rightarrow> None
       | Some w \<Rightarrow> (case parse_fields shape kvs of None \<Rightarrow> None | Some ws \<Rightarrow> Some ((k, w) # ws))))"

definition object_with :: "(string \<times> schema) list \<Rightarrow> schema" where
  "object_with shape v = (case v of JObj kvs \<Rightarrow> map_option JObj (parse_fields shape kvs) | _ \<Rightarrow> None)"

definition number_key :: "string \<Rightarrow> int \<Rightarrow> int \<Rightarrow> int \<Rightarrow> config_scope list \<Rightarrow> string \<Rightarrow> key_definition" where
  "number_key key lo hi dflt scopes description = \<lparr>kdKey = key, kdSchema = int_in lo hi,
     kdDefault = JNum (of_int dflt), kdDescription = description, kdScopes = scopes, kdValueType = VT_NUMBER\<rparr>"

section \<open>Providers\<close>

definition PROVIDER_HEALTH_DEGRADED_AFTER :: key_definition where
  "PROVIDER_HEALTH_DEGRADED_AFTER = number_key ''providers.health.degraded_after_failures'' 1 1000 3 [GLOBAL, PROVIDER]
     ''Consecutive failed provider operations before the provider is marked DEGRADED''"

definition PROVIDER_HEALTH_DOWN_AFTER :: key_definition where
  "PROVIDER_HEALTH_DOWN_AFTER = number_key ''providers.health.down_after_failures'' 1 1000 10 [GLOBAL, PROVIDER]
     ''Consecutive failed provider operations before the provider is marked DOWN''"

definition PROVIDER_CONFIGURATION_KEYS :: "key_definition list" where
  "PROVIDER_CONFIGURATION_KEYS = [PROVIDER_HEALTH_DEGRADED_AFTER, PROVIDER_HEALTH_DOWN_AFTER]"

section \<open>Authentication\<close>

definition AUTH_LOGIN_MAX_FAILURES_PER_ACCOUNT :: key_definition where
  "AUTH_LOGIN_MAX_FAILURES_PER_ACCOUNT = number_key ''auth.login_max_failures_per_account'' 1 1000 10 [GLOBAL]
     ''Failed login attempts against one account before it is throttled''"

definition AUTH_LOGIN_ACCOUNT_WINDOW_SECONDS :: key_definition where
  "AUTH_LOGIN_ACCOUNT_WINDOW_SECONDS = number_key ''auth.login_account_window_seconds'' 60 86400 900 [GLOBAL]
     ''Rolling window over which per-account login failures are counted''"

definition AUTH_LOGIN_MAX_FAILURES_PER_IP :: key_definition where
  "AUTH_LOGIN_MAX_FAILURES_PER_IP = number_key ''auth.login_max_failures_per_ip'' 1 10000 50 [GLOBAL]
     ''Failed login attempts from one IP address before it is throttled''"

definition AUTH_LOGIN_IP_WINDOW_SECONDS :: key_definition where
  "AUTH_LOGIN_IP_WINDOW_SECONDS = number_key ''auth.login_ip_window_seconds'' 60 86400 900 [GLOBAL]
     ''Rolling window over which per-IP login failures are counted''"

definition AUTH_EMAIL_VERIFICATION_TTL_SECONDS :: key_definition where
  "AUTH_EMAIL_VERIFICATION_TTL_SECONDS = number_key ''auth.email_verification_ttl_seconds'' 300 604800 86400 [GLOBAL]
     ''How long an email verification link remains valid''"

definition AUTH_PASSWORD_RESET_TTL_SECONDS :: key_definition where
  "AUTH_PASSWORD_RESET_TTL_SECONDS = number_key ''auth.password_reset_ttl_seconds'' 300 86400 3600 [GLOBAL]
     ''How long a password reset link remains valid''"

definition AUTH_PUBLIC_MAX_REQUESTS_PER_IP :: key_definition where
  "AUTH_PUBLIC_MAX_REQUESTS_PER_IP = number_key ''auth.public_max_requests_per_ip'' 1 10000 20 [GLOBAL]
     ''Requests one IP address may make to a single public auth endpoint per window''"

definition AUTH_PUBLIC_IP_WINDOW_SECONDS :: key_definition where
  "AUTH_PUBLIC_IP_WINDOW_SECONDS = number_key ''auth.public_ip_window_seconds'' 60 86400 300 [GLOBAL]
     ''Rolling window over which public auth requests from one IP are counted''"

definition AUTH_CONFIGURATION_KEYS :: "key_definition list" where
  "AUTH_CONFIGURATION_KEYS = [AUTH_LOGIN_MAX_FAILURES_PER_ACCOUNT, AUTH_LOGIN_ACCOUNT_WINDOW_SECONDS,
     AUTH_LOGIN_MAX_FAILURES_PER_IP, AUTH_LOGIN_IP_WINDOW_SECONDS, AUTH_EMAIL_VERIFICATION_TTL_SECONDS,
     AUTH_PASSWORD_RESET_TTL_SECONDS, AUTH_PUBLIC_MAX_REQUESTS_PER_IP, AUTH_PUBLIC_IP_WINDOW_SECONDS]"

section \<open>Offers\<close>

definition currency_key :: "string \<Rightarrow> string \<Rightarrow> config_scope list \<Rightarrow> string \<Rightarrow> key_definition" where
  "currency_key key dflt scopes description = \<lparr>kdKey = key, kdSchema = string_where accounting_currency_schema,
     kdDefault = JStr dflt, kdDescription = description, kdScopes = scopes, kdValueType = VT_STRING\<rparr>"

definition OFFERS_POINTS_PER_MINOR_UNIT :: key_definition where
  "OFFERS_POINTS_PER_MINOR_UNIT = number_key ''offers.points_per_minor_unit'' 1 10000 10 [GLOBAL, PROVIDER]
     ''Points awarded per minor unit of provider payout, before revenue share (10 = ten points per cent, matching 1000 points per currency unit)''"

definition OFFERS_REWARD_SHARE_PERCENT :: key_definition where
  "OFFERS_REWARD_SHARE_PERCENT = number_key ''offers.reward_share_percent'' 1 100 70 [GLOBAL, PROVIDER]
     ''Percentage of provider payout passed on to the user as points''"

definition OFFERS_ACCOUNTING_CURRENCY :: key_definition where
  "OFFERS_ACCOUNTING_CURRENCY = currency_key ''offers.accounting_currency'' ''USD'' [GLOBAL, PROVIDER]
     ''The only payout currency the catalog accepts; others are rejected''"

definition OFFERS_PRUNE_SAFETY_THRESHOLD_PERCENT :: key_definition where
  "OFFERS_PRUNE_SAFETY_THRESHOLD_PERCENT = number_key ''offers.sync.prune_safety_threshold_percent'' 0 100 50 [GLOBAL, PROVIDER]
     ''A full sync will not deactivate anything if it accepted fewer than this percentage of the currently active offers''"

definition OFFERS_FULL_SYNC_INTERVAL_HOURS :: key_definition where
  "OFFERS_FULL_SYNC_INTERVAL_HOURS = number_key ''offers.sync.full_sync_interval_hours'' 1 720 24 [GLOBAL, PROVIDER]
     ''Hours between authoritative full synchronizations that may deactivate offers''"

definition OFFERS_CONFIGURATION_KEYS :: "key_definition list" where
  "OFFERS_CONFIGURATION_KEYS = [OFFERS_POINTS_PER_MINOR_UNIT, OFFERS_REWARD_SHARE_PERCENT, OFFERS_ACCOUNTING_CURRENCY,
     OFFERS_PRUNE_SAFETY_THRESHOLD_PERCENT, OFFERS_FULL_SYNC_INTERVAL_HOURS]"

section \<open>Rewards and clicks\<close>

definition REWARDS_HOLD_PERIOD_DAYS :: key_definition where
  "REWARDS_HOLD_PERIOD_DAYS = number_key ''rewards.hold_period_days'' 0 180 14 [GLOBAL, PROVIDER]
     ''Days a conversion credit stays pending before it becomes withdrawable; resolved at credit time and stored on the transaction''"

definition MATURATION_BATCH_SIZE :: nat where
  "MATURATION_BATCH_SIZE = 500"

definition RECONCILIATION_BATCH_SIZE :: nat where
  "RECONCILIATION_BATCH_SIZE = 200"

definition REWARDS_CONFIGURATION_KEYS :: "key_definition list" where
  "REWARDS_CONFIGURATION_KEYS = [REWARDS_HOLD_PERIOD_DAYS]"

definition CLICKS_ATTRIBUTION_WINDOW_DAYS :: key_definition where
  "CLICKS_ATTRIBUTION_WINDOW_DAYS = number_key ''clicks.attribution_window_days'' 1 365 30 [GLOBAL, PROVIDER]
     ''Days a click remains attributable to an incoming conversion''"

definition CLICKS_MAX_PER_USER_PER_HOUR :: key_definition where
  "CLICKS_MAX_PER_USER_PER_HOUR = number_key ''clicks.max_per_user_per_hour'' 1 10000 60 [GLOBAL]
     ''Maximum clicks one user may make in a rolling hour''"

definition CLICKS_MAX_PER_IP_PER_HOUR :: key_definition where
  "CLICKS_MAX_PER_IP_PER_HOUR = number_key ''clicks.max_per_ip_per_hour'' 1 100000 300 [GLOBAL]
     ''Maximum clicks from one IP address in a rolling hour''"

definition CLICKS_CONFIGURATION_KEYS :: "key_definition list" where
  "CLICKS_CONFIGURATION_KEYS = [CLICKS_ATTRIBUTION_WINDOW_DAYS, CLICKS_MAX_PER_USER_PER_HOUR, CLICKS_MAX_PER_IP_PER_HOUR]"

section \<open>Fraud\<close>

fun fraud_rule_name :: "fraud_rule \<Rightarrow> string" where
  "fraud_rule_name USER_CONVERSION_VELOCITY = ''USER_CONVERSION_VELOCITY''"
| "fraud_rule_name IP_CONVERSION_VELOCITY = ''IP_CONVERSION_VELOCITY''"
| "fraud_rule_name SHARED_IP_ACCOUNTS = ''SHARED_IP_ACCOUNTS''"
| "fraud_rule_name SHARED_DEVICE_ACCOUNTS = ''SHARED_DEVICE_ACCOUNTS''"
| "fraud_rule_name IMPOSSIBLE_TIMING = ''IMPOSSIBLE_TIMING''"
| "fraud_rule_name CHARGEBACK_RATE = ''CHARGEBACK_RATE''"
| "fraud_rule_name DISPOSABLE_EMAIL = ''DISPOSABLE_EMAIL''"

fun fraud_action_name :: "fraud_action \<Rightarrow> string" where
  "fraud_action_name ALLOW = ''ALLOW''"
| "fraud_action_name HOLD = ''HOLD''"
| "fraud_action_name REVIEW = ''REVIEW''"
| "fraud_action_name BLOCK = ''BLOCK''"

definition ruleSettingSchema :: schema where
  "ruleSettingSchema = object_with [(''enabled'', boolean_schema), (''threshold'', number_from 0),
     (''weight'', int_in 0 100),
     (''action'', string_where (\<lambda>s. s \<in> set (map fraud_action_name [ALLOW, HOLD, REVIEW, BLOCK])))]"

definition rule_setting_json :: "fraud_rule_setting \<Rightarrow> json" where
  "rule_setting_json r = JObj [(''enabled'', JBool (ruleEnabled r)), (''threshold'', JNum (ruleThreshold r)),
     (''weight'', JNum (of_int (ruleWeight r))), (''action'', JStr (fraud_action_name (ruleAction r)))]"

definition RULE_SCOPES :: "config_scope list" where
  "RULE_SCOPES = [GLOBAL, PROVIDER]"

definition ruleKey :: "fraud_rule \<Rightarrow> string \<Rightarrow> fraud_rule_setting \<Rightarrow> key_definition" where
  "ruleKey rule description dflt = \<lparr>kdKey = ''fraud.rules.'' @ js_lower (fraud_rule_name rule),
     kdSchema = ruleSettingSchema, kdDefault = rule_setting_json dflt, kdDescription = description,
     kdScopes = RULE_SCOPES, kdValueType = VT_JSON\<rparr>"

definition FRAUD_ENABLED :: key_definition where
  "FRAUD_ENABLED = \<lparr>kdKey = ''fraud.enabled'', kdSchema = boolean_schema, kdDefault = JBool True,
     kdDescription = ''Master switch for fraud scoring; off records an empty evaluation'',
     kdScopes = [GLOBAL], kdValueType = VT_BOOLEAN\<rparr>"

definition FRAUD_VELOCITY_WINDOW_MINUTES :: key_definition where
  "FRAUD_VELOCITY_WINDOW_MINUTES = number_key ''fraud.velocity_window_minutes'' 1 10080 60 RULE_SCOPES
     ''Window, in minutes, that the conversion-velocity rules count over''"

definition FRAUD_SHARED_IDENTITY_WINDOW_DAYS :: key_definition where
  "FRAUD_SHARED_IDENTITY_WINDOW_DAYS = number_key ''fraud.shared_identity_window_days'' 1 365 30 RULE_SCOPES
     ''How many days back the shared-IP and shared-device rules look''"

definition FRAUD_CHARGEBACK_MINIMUM_CONVERSIONS :: key_definition where
  "FRAUD_CHARGEBACK_MINIMUM_CONVERSIONS = number_key ''fraud.chargeback_minimum_conversions'' 1 1000 5 RULE_SCOPES
     ''Conversions a user needs before their chargeback rate is judged''"

definition FRAUD_DISPOSABLE_EMAIL_DOMAINS :: key_definition where
  "FRAUD_DISPOSABLE_EMAIL_DOMAINS = \<lparr>kdKey = ''fraud.disposable_email_domains'',
     kdSchema = array_of (string_where (length_in 1 253)) 0 5000, kdDefault = JArr [],
     kdDescription = ''Email domains treated as disposable, lowercase, without the @'',
     kdScopes = [GLOBAL], kdValueType = VT_JSON\<rparr>"

text \<open>Two of the descriptions have a typographic apostrophe, a plain one here.\<close>

fun rule_description :: "fraud_rule \<Rightarrow> string" where
  "rule_description USER_CONVERSION_VELOCITY = ''Conversions by one user within the velocity window before the rule fires''"
| "rule_description IP_CONVERSION_VELOCITY = ''Conversions from one IP within the velocity window before the rule fires''"
| "rule_description SHARED_IP_ACCOUNTS = ''Distinct accounts sharing one IP before the rule fires''"
| "rule_description SHARED_DEVICE_ACCOUNTS = ''Distinct accounts sharing one device fingerprint before the rule fires''"
| "rule_description IMPOSSIBLE_TIMING = ''Seconds between click and conversion below which the conversion is implausible''"
| "rule_description CHARGEBACK_RATE = ''Percentage of a user's conversions that were reversed before the rule fires''"
| "rule_description DISPOSABLE_EMAIL = ''Fires when the account's email domain is on the blocklist; threshold unused''"

definition FRAUD_RULE_KEYS :: "fraud_rule \<Rightarrow> key_definition" where
  "FRAUD_RULE_KEYS rule = ruleKey rule (rule_description rule) (default_rule_setting rule)"

definition FRAUD_CONFIGURATION_KEYS :: "key_definition list" where
  "FRAUD_CONFIGURATION_KEYS = [FRAUD_ENABLED, FRAUD_VELOCITY_WINDOW_MINUTES, FRAUD_SHARED_IDENTITY_WINDOW_DAYS,
     FRAUD_CHARGEBACK_MINIMUM_CONVERSIONS, FRAUD_DISPOSABLE_EMAIL_DOMAINS] @ map FRAUD_RULE_KEYS RULE_IDS"

section \<open>Payouts\<close>

definition PAYOUTS_MINIMUM_POINTS :: key_definition where
  "PAYOUTS_MINIMUM_POINTS = number_key ''payouts.minimum_points'' 1 10000000 1000 [GLOBAL]
     ''Smallest withdrawal a user may request, in points''"

definition PAYOUTS_MAXIMUM_POINTS :: key_definition where
  "PAYOUTS_MAXIMUM_POINTS = number_key ''payouts.maximum_points'' 1 100000000 500000 [GLOBAL]
     ''Largest withdrawal a user may request in one go, in points''"

definition PAYOUTS_MAX_REQUESTS_PER_DAY :: key_definition where
  "PAYOUTS_MAX_REQUESTS_PER_DAY = number_key ''payouts.max_requests_per_day'' 1 100 3 [GLOBAL]
     ''Withdrawal requests one account may submit in a rolling 24 hours''"

definition PAYOUTS_ENABLED_METHODS :: key_definition where
  "PAYOUTS_ENABLED_METHODS = \<lparr>kdKey = ''payouts.enabled_methods'',
     kdSchema = array_of (string_where method_slug) 1 32, kdDefault = JArr [JStr ''paypal''],
     kdDescription = ''Payment methods a user may request a withdrawal through; each is settled manually by an admin'',
     kdScopes = [GLOBAL], kdValueType = VT_JSON\<rparr>"

definition PAYOUTS_POINTS_PER_CURRENCY_UNIT :: key_definition where
  "PAYOUTS_POINTS_PER_CURRENCY_UNIT = number_key ''payouts.points_per_currency_unit'' 1 1000000 1000 [GLOBAL]
     ''Points equal to one unit of the payout currency, e.g. 1000 points = 1 USD''"

definition PAYOUTS_CURRENCY :: key_definition where
  "PAYOUTS_CURRENCY = currency_key ''payouts.currency'' ''USD'' [GLOBAL] ''Currency withdrawals are denominated in''"

definition PAYOUTS_CONFIGURATION_KEYS :: "key_definition list" where
  "PAYOUTS_CONFIGURATION_KEYS = [PAYOUTS_MINIMUM_POINTS, PAYOUTS_MAXIMUM_POINTS, PAYOUTS_MAX_REQUESTS_PER_DAY,
     PAYOUTS_ENABLED_METHODS, PAYOUTS_POINTS_PER_CURRENCY_UNIT, PAYOUTS_CURRENCY]"

section \<open>Every key is well formed\<close>

definition ALL_CONFIGURATION_KEYS :: "key_definition list" where
  "ALL_CONFIGURATION_KEYS = PROVIDER_CONFIGURATION_KEYS @ AUTH_CONFIGURATION_KEYS @ OFFERS_CONFIGURATION_KEYS
     @ REWARDS_CONFIGURATION_KEYS @ CLICKS_CONFIGURATION_KEYS @ FRAUD_CONFIGURATION_KEYS
     @ PAYOUTS_CONFIGURATION_KEYS"

text \<open>A parsed value parses to itself; the key's default is one.\<close>

definition settles :: "schema \<Rightarrow> bool" where
  "settles p \<longleftrightarrow> (\<forall>v w. p v = Some w \<longrightarrow> p w = Some w)"

definition well_defined :: "key_definition \<Rightarrow> bool" where
  "well_defined d \<longleftrightarrow> settles (kdSchema d) \<and> kdSchema d (kdDefault d) = Some (kdDefault d)
     \<and> GLOBAL \<in> set (kdScopes d)"

named_theorems schema_settles

lemma settlesD: "settles p \<Longrightarrow> p v = Some w \<Longrightarrow> p w = Some w"
  by (simp add: settles_def)

lemma settles_int_in [schema_settles]: "settles (int_in lo hi)"
  by (auto simp: settles_def int_in_def split: json.splits if_splits)

lemma settles_number_from [schema_settles]: "settles (number_from lo)"
  by (auto simp: settles_def number_from_def split: json.splits if_splits)

lemma settles_boolean [schema_settles]: "settles boolean_schema"
  by (auto simp: settles_def boolean_schema_def split: json.splits)

lemma settles_string_where [schema_settles]: "settles (string_where p)"
  by (auto simp: settles_def string_where_def split: json.splits if_splits)

lemma parse_all_settles: "settles p \<Longrightarrow> parse_all p vs = Some ws \<Longrightarrow> parse_all p ws = Some ws \<and> length ws = length vs"
  by (induction vs arbitrary: ws) (auto dest: settlesD split: option.splits)

lemma settles_array_of [schema_settles]: "settles p \<Longrightarrow> settles (array_of p lo hi)"
  by (auto simp: settles_def [of "array_of p lo hi"] array_of_def dest: parse_all_settles
      split: json.splits if_splits)

lemma parse_fields_settles:
  assumes "distinct (map fst shape)" and "\<forall>(k, p)\<in>set shape. settles p" and "parse_fields shape kvs = Some ws"
  shows "map fst ws = map fst shape
    \<and> (\<forall>pre. (\<forall>k\<in>set (map fst shape). k \<notin> set (map fst pre)) \<longrightarrow> parse_fields shape (pre @ ws) = Some ws)"
  using assms
proof (induction shape arbitrary: ws)
  case (Cons f shape)
  obtain k p where f: "f = (k, p)" by fastforce
  obtain v w vs where w: "map_of kvs k = Some v" "p v = Some w" "parse_fields shape kvs = Some vs" "ws = (k, w) # vs"
    using Cons.prems(3) by (auto simp: f split: option.splits)
  have ih: "map fst vs = map fst shape"
    "\<And>pre. \<forall>k\<in>set (map fst shape). k \<notin> set (map fst pre) \<Longrightarrow> parse_fields shape (pre @ vs) = Some vs"
    using Cons.IH [OF _ _ w(3)] Cons.prems by auto
  have pw: "p w = Some w" using Cons.prems(2) w(2) by (auto simp: f dest: settlesD)
  have "parse_fields (f # shape) (pre @ ws) = Some ws"
    if "\<forall>k\<in>set (map fst (f # shape)). k \<notin> set (map fst pre)" for pre
  proof -
    have "map_of pre k = None" using that by (auto simp: f map_of_eq_None_iff)
    then have "map_of (pre @ ws) k = Some w" using w(4) by (simp add: map_add_def)
    moreover have "parse_fields shape ((pre @ [(k, w)]) @ vs) = Some vs"
      by (rule ih(2)) (use that Cons.prems(1) in \<open>auto simp: f\<close>)
    ultimately show ?thesis using pw w(4) by (simp add: f)
  qed
  then show ?case using ih(1) w(4) by (simp add: f)
qed simp

lemma settles_object_with [schema_settles]:
  assumes "distinct (map fst shape)" and "\<forall>(k, p)\<in>set shape. settles p"
  shows "settles (object_with shape)"
proof -
  have "parse_fields shape ws = Some ws" if "parse_fields shape kvs = Some ws" for kvs ws
    using parse_fields_settles [OF assms that] by (metis append_Nil list.set(1) list.simps(8) empty_iff)
  then show ?thesis by (auto simp: settles_def object_with_def split: json.splits)
qed

lemma well_defined_number_key:
  "well_defined (number_key key lo hi dflt scopes description) \<longleftrightarrow> lo \<le> dflt \<and> dflt \<le> hi \<and> GLOBAL \<in> set scopes"
  by (auto simp: well_defined_def number_key_def settles_int_in int_in_def)

lemma well_defined_currency_key:
  "well_defined (currency_key key dflt scopes description)
    \<longleftrightarrow> accounting_currency_schema dflt \<and> GLOBAL \<in> set scopes"
  by (auto simp: well_defined_def currency_key_def settles_string_where string_where_def)

lemma well_defined_ruleKey:
  assumes "0 \<le> ruleThreshold dflt" and "0 \<le> ruleWeight dflt" and "ruleWeight dflt \<le> 100"
  shows "well_defined (ruleKey rule description dflt)"
proof -
  have "settles ruleSettingSchema" unfolding ruleSettingSchema_def
    by (intro settles_object_with) (auto intro: schema_settles)
  moreover have "ruleSettingSchema (rule_setting_json dflt) = Some (rule_setting_json dflt)"
    using assms by (cases "ruleAction dflt")
      (simp_all add: ruleSettingSchema_def rule_setting_json_def object_with_def boolean_schema_def
        number_from_def int_in_def string_where_def)
  ultimately show ?thesis by (simp add: well_defined_def ruleKey_def RULE_SCOPES_def)
qed

lemma all_keys_well_defined: "list_all well_defined ALL_CONFIGURATION_KEYS"
proof -
  have usd: "accounting_currency_schema ''USD''" "method_slug ''paypal''" by code_simp+
  have "well_defined (FRAUD_RULE_KEYS rule)" for rule
    unfolding FRAUD_RULE_KEYS_def by (rule well_defined_ruleKey) (cases rule; simp)+
  moreover have "well_defined PAYOUTS_ENABLED_METHODS" "well_defined FRAUD_DISPOSABLE_EMAIL_DOMAINS"
    "well_defined FRAUD_ENABLED"
    using usd by (simp_all add: well_defined_def PAYOUTS_ENABLED_METHODS_def FRAUD_DISPOSABLE_EMAIL_DOMAINS_def
        FRAUD_ENABLED_def schema_settles array_of_def string_where_def boolean_schema_def)
  ultimately show ?thesis
    using usd
    by (simp add: ALL_CONFIGURATION_KEYS_def PROVIDER_CONFIGURATION_KEYS_def AUTH_CONFIGURATION_KEYS_def
        OFFERS_CONFIGURATION_KEYS_def REWARDS_CONFIGURATION_KEYS_def CLICKS_CONFIGURATION_KEYS_def
        FRAUD_CONFIGURATION_KEYS_def PAYOUTS_CONFIGURATION_KEYS_def RULE_IDS_def RULE_SCOPES_def
        PROVIDER_HEALTH_DEGRADED_AFTER_def PROVIDER_HEALTH_DOWN_AFTER_def
        AUTH_LOGIN_MAX_FAILURES_PER_ACCOUNT_def AUTH_LOGIN_ACCOUNT_WINDOW_SECONDS_def
        AUTH_LOGIN_MAX_FAILURES_PER_IP_def AUTH_LOGIN_IP_WINDOW_SECONDS_def
        AUTH_EMAIL_VERIFICATION_TTL_SECONDS_def AUTH_PASSWORD_RESET_TTL_SECONDS_def
        AUTH_PUBLIC_MAX_REQUESTS_PER_IP_def AUTH_PUBLIC_IP_WINDOW_SECONDS_def
        OFFERS_POINTS_PER_MINOR_UNIT_def OFFERS_REWARD_SHARE_PERCENT_def OFFERS_ACCOUNTING_CURRENCY_def
        OFFERS_PRUNE_SAFETY_THRESHOLD_PERCENT_def OFFERS_FULL_SYNC_INTERVAL_HOURS_def
        REWARDS_HOLD_PERIOD_DAYS_def CLICKS_ATTRIBUTION_WINDOW_DAYS_def CLICKS_MAX_PER_USER_PER_HOUR_def
        CLICKS_MAX_PER_IP_PER_HOUR_def FRAUD_VELOCITY_WINDOW_MINUTES_def FRAUD_SHARED_IDENTITY_WINDOW_DAYS_def
        FRAUD_CHARGEBACK_MINIMUM_CONVERSIONS_def PAYOUTS_MINIMUM_POINTS_def PAYOUTS_MAXIMUM_POINTS_def
        PAYOUTS_MAX_REQUESTS_PER_DAY_def PAYOUTS_POINTS_PER_CURRENCY_UNIT_def PAYOUTS_CURRENCY_def
        well_defined_number_key well_defined_currency_key)
qed

lemma configuration_keys_distinct: "distinct (map kdKey ALL_CONFIGURATION_KEYS)"
  by code_simp

end
