(* ===== verification/Configuration.thy ===== *)
theory Configuration
  imports ConfigKeys
begin

text \<open>
  The configuration service: \<^verbatim>\<open>core/config/configuration.service.ts\<close>. Stored rows and their
  history are the database; each process holds a cache of what it read, with a generation that every
  invalidation bumps. A read of the cache that misses is three steps (note the generation, query,
  remember), which other processes' writes and this one's invalidations may come between; they are
  separate definitions. The ids of rows are left out: nothing reads them.
\<close>

section \<open>The tables\<close>

datatype config_actor = AdminActor id | SystemActor | MigrationActor

text \<open>\<open>updatedBy\<close> and the history's \<open>actorType\<close> and \<open>actorId\<close> are read off the actor.\<close>

record config_row =
  cwKey :: string
  cwScope :: config_scope
  cwScopeId :: string
  cwValue :: json
  cwValueType :: value_type
  cwUpdatedBy :: config_actor
  cwUpdatedAt :: millis

record config_history =
  chKey :: string
  chScope :: config_scope
  chScopeId :: string
  chOldValue :: "json option"
  chNewValue :: "json option"
  chActor :: config_actor
  chReason :: "string option"
  chCreatedAt :: millis

record config_db =
  dbRows :: "config_row list"
  dbHistory :: "config_history list"

type_synonym cache_entry = "string \<times> config_scope \<times> string"

text \<open>\<open>cacheKey\<close>: the entry's name. A cached \<^term>\<open>None\<close> is the miss sentinel.\<close>

definition cacheKey :: "string \<Rightarrow> config_scope \<Rightarrow> string \<Rightarrow> cache_entry" where
  "cacheKey key scope scopeId = (key, scope, scopeId)"

record config_cache =
  ccEntries :: "cache_entry \<Rightarrow> json option option"
  ccGeneration :: nat

definition empty_cache :: config_cache where
  "empty_cache = \<lparr>ccEntries = (\<lambda>_. None), ccGeneration = 0\<rparr>"

definition GLOBAL_SCOPE_ID :: string where
  "GLOBAL_SCOPE_ID = []"

definition at_entry :: "string \<Rightarrow> config_scope \<Rightarrow> string \<Rightarrow> config_row \<Rightarrow> bool" where
  "at_entry key scope scopeId r \<longleftrightarrow> cwKey r = key \<and> cwScope r = scope \<and> cwScopeId r = scopeId"

definition findStored :: "config_row list \<Rightarrow> string \<Rightarrow> config_scope \<Rightarrow> string \<Rightarrow> config_row option" where
  "findStored rows key scope scopeId = List.find (at_entry key scope scopeId) rows"

section \<open>Registered definitions\<close>

definition getDefinition :: "key_definition list \<Rightarrow> string \<Rightarrow> key_definition option" where
  "getDefinition defs key = List.find (\<lambda>d. kdKey d = key) defs"

definition requireDefinition :: "key_definition list \<Rightarrow> string \<Rightarrow> key_definition result" where
  "requireDefinition defs key = (case getDefinition defs key of
     None \<Rightarrow> Inl (DomainError CONFIG_UNKNOWN_KEY 422) | Some d \<Rightarrow> Inr d)"

text \<open>Registering a key again with another definition throws when the process starts.\<close>

definition registerDefinition :: "key_definition list \<Rightarrow> key_definition \<Rightarrow> key_definition list option" where
  "registerDefinition defs d = (case getDefinition defs (kdKey d) of
     Some existing \<Rightarrow> if existing \<noteq> d then None else Some defs
   | None \<Rightarrow> Some (defs @ [d]))"

section \<open>The cache\<close>

definition invalidate :: "config_cache \<Rightarrow> string \<Rightarrow> config_scope \<Rightarrow> string \<Rightarrow> config_cache" where
  "invalidate c key scope scopeId = c\<lparr>ccEntries := (ccEntries c)(cacheKey key scope scopeId := None),
     ccGeneration := ccGeneration c + 1\<rparr>"

definition invalidateAll :: "config_cache \<Rightarrow> config_cache" where
  "invalidateAll c = c\<lparr>ccEntries := (\<lambda>_. None), ccGeneration := ccGeneration c + 1\<rparr>"

definition remember :: "config_cache \<Rightarrow> cache_entry \<Rightarrow> json option \<Rightarrow> nat \<Rightarrow> config_cache" where
  "remember c entry value generation =
     (if generation \<noteq> ccGeneration c then c else c\<lparr>ccEntries := (ccEntries c)(entry \<mapsto> value)\<rparr>)"

text \<open>What a query finds: a row whose value no longer satisfies the schema counts as no row.\<close>

definition query_stored :: "config_row list \<Rightarrow> key_definition \<Rightarrow> string \<Rightarrow> config_scope \<Rightarrow> string \<Rightarrow> json option" where
  "query_stored rows d key scope scopeId = (case findStored rows key scope scopeId of
     None \<Rightarrow> None | Some r \<Rightarrow> kdSchema d (cwValue r))"

definition readStored :: "config_row list \<Rightarrow> config_cache \<Rightarrow> string \<Rightarrow> config_scope \<Rightarrow> string \<Rightarrow> key_definition
    \<Rightarrow> config_cache \<times> json option" where
  "readStored rows c key scope scopeId d =
     (let entry = cacheKey key scope scopeId in
      case ccEntries c entry of
        Some cached \<Rightarrow> (c, cached)
      | None \<Rightarrow> let generation = ccGeneration c; found = query_stored rows d key scope scopeId
                in (remember c entry found generation, found))"

section \<open>Resolution\<close>

datatype config_source = FromProvider | FromGlobal | FromDefault

record resolved_configuration =
  rcKey :: string
  rcValue :: json
  rcSource :: config_source
  rcScopeId :: "string option"

definition resolve_global :: "config_row list \<Rightarrow> config_cache \<Rightarrow> key_definition \<Rightarrow> string
    \<Rightarrow> config_cache \<times> resolved_configuration" where
  "resolve_global rows c d key = (case readStored rows c key GLOBAL GLOBAL_SCOPE_ID d of
     (c', Some v) \<Rightarrow> (c', \<lparr>rcKey = key, rcValue = v, rcSource = FromGlobal, rcScopeId = None\<rparr>)
   | (c', None) \<Rightarrow> (c', \<lparr>rcKey = key, rcValue = kdDefault d, rcSource = FromDefault, rcScopeId = None\<rparr>))"

definition resolve_defined :: "config_row list \<Rightarrow> config_cache \<Rightarrow> key_definition \<Rightarrow> string \<Rightarrow> string option
    \<Rightarrow> config_cache \<times> resolved_configuration" where
  "resolve_defined rows c d key scopeId = (case scopeId of
     None \<Rightarrow> resolve_global rows c d key
   | Some s \<Rightarrow>
       if PROVIDER \<notin> set (kdScopes d) then resolve_global rows c d key
       else (case readStored rows c key PROVIDER s d of
           (c', Some v) \<Rightarrow> (c', \<lparr>rcKey = key, rcValue = v, rcSource = FromProvider, rcScopeId = Some s\<rparr>)
         | (c', None) \<Rightarrow> resolve_global rows c' d key))"

definition resolve :: "key_definition list \<Rightarrow> config_row list \<Rightarrow> config_cache \<Rightarrow> string \<Rightarrow> string option
    \<Rightarrow> config_cache \<times> resolved_configuration result" where
  "resolve defs rows c key scopeId = (case requireDefinition defs key of
     Inl e \<Rightarrow> (c, Inl e)
   | Inr d \<Rightarrow> (case resolve_defined rows c d key scopeId of (c', r) \<Rightarrow> (c', Inr r)))"

definition get_config :: "key_definition list \<Rightarrow> config_row list \<Rightarrow> config_cache \<Rightarrow> string \<Rightarrow> string option
    \<Rightarrow> config_cache \<times> json result" where
  "get_config defs rows c key scopeId = (case resolve defs rows c key scopeId of
     (c', r) \<Rightarrow> (c', map_sum (\<lambda>e. e) rcValue r))"

section \<open>Writing\<close>

record set_options =
  soScope :: "config_scope option"
  soScopeId :: "string option"
  soReason :: "string option"
  soActor :: config_actor

record written_configuration =
  wrKey :: string
  wrScope :: config_scope
  wrScopeId :: string
  wrPreviousValue :: "json option"
  wrValue :: "json option"

definition scope_of :: "config_scope option \<Rightarrow> config_scope" where
  "scope_of s = (case s of None \<Rightarrow> GLOBAL | Some x \<Rightarrow> x)"

definition scope_id_of :: "config_scope \<Rightarrow> string option \<Rightarrow> string" where
  "scope_id_of scope scopeId = (if scope = GLOBAL then GLOBAL_SCOPE_ID
     else (case scopeId of None \<Rightarrow> [] | Some s \<Rightarrow> s))"

definition history_entry :: "string \<Rightarrow> config_scope \<Rightarrow> string \<Rightarrow> json option \<Rightarrow> json option \<Rightarrow> set_options \<Rightarrow> millis
    \<Rightarrow> config_history" where
  "history_entry key scope scopeId old new opts now = \<lparr>chKey = key, chScope = scope, chScopeId = scopeId,
     chOldValue = old, chNewValue = new, chActor = soActor opts, chReason = soReason opts, chCreatedAt = now\<rparr>"

text \<open>The transaction body of \<open>set\<close>: previous value, upsert, history; it answers the previous value.\<close>

text \<open>\<open>updatedAt\<close> is Prisma's \<open>@updatedAt\<close>, the clock of the same process; one reading serves both.\<close>

definition write_value :: "config_db \<Rightarrow> key_definition \<Rightarrow> string \<Rightarrow> config_scope \<Rightarrow> string \<Rightarrow> json \<Rightarrow> set_options
    \<Rightarrow> millis \<Rightarrow> json option \<times> config_db" where
  "write_value db d key scope scopeId validated opts now =
     (let previous = map_option cwValue (findStored (dbRows db) key scope scopeId);
          row = \<lparr>cwKey = key, cwScope = scope, cwScopeId = scopeId, cwValue = validated,
                  cwValueType = kdValueType d, cwUpdatedBy = soActor opts, cwUpdatedAt = now\<rparr>;
          rows = (if previous = None then dbRows db @ [row]
                  else update_where (at_entry key scope scopeId) (\<lambda>_. row) (dbRows db))
      in (previous, \<lparr>dbRows = rows,
           dbHistory = dbHistory db @ [history_entry key scope scopeId previous (Some validated) opts now]\<rparr>))"

definition set_configuration :: "key_definition list \<Rightarrow> config_db \<Rightarrow> string \<Rightarrow> json \<Rightarrow> set_options \<Rightarrow> millis
    \<Rightarrow> (written_configuration \<times> config_db) result" where
  "set_configuration defs db key value opts now =
     (case requireDefinition defs key of
        Inl e \<Rightarrow> Inl e
      | Inr d \<Rightarrow>
          let scope = scope_of (soScope opts); scopeId = scope_id_of scope (soScopeId opts) in
          if scope \<notin> set (kdScopes d) then Inl (DomainError CONFIG_INVALID_SCOPE 422)
          else if scope = PROVIDER \<and> scopeId = GLOBAL_SCOPE_ID then Inl (DomainError CONFIG_INVALID_SCOPE 422)
          else (case kdSchema d value of
              None \<Rightarrow> Inl (DomainError CONFIG_INVALID_VALUE 422)
            | Some validated \<Rightarrow> (case write_value db d key scope scopeId validated opts now of
                (previous, db') \<Rightarrow> Inr (\<lparr>wrKey = key, wrScope = scope, wrScopeId = scopeId,
                  wrPreviousValue = previous, wrValue = Some validated\<rparr>, db'))))"

text \<open>\<open>unset\<close> answers nothing, and writes nothing, when nothing is stored.\<close>

definition unset_configuration :: "key_definition list \<Rightarrow> config_db \<Rightarrow> string \<Rightarrow> set_options \<Rightarrow> millis
    \<Rightarrow> (written_configuration option \<times> config_db) result" where
  "unset_configuration defs db key opts now =
     (case requireDefinition defs key of
        Inl e \<Rightarrow> Inl e
      | Inr d \<Rightarrow>
          let scope = scope_of (soScope opts); scopeId = scope_id_of scope (soScopeId opts) in
          if scope \<notin> set (kdScopes d) then Inl (DomainError CONFIG_INVALID_SCOPE 422)
          else (case findStored (dbRows db) key scope scopeId of
              None \<Rightarrow> Inr (None, db)
            | Some existing \<Rightarrow> Inr (Some \<lparr>wrKey = key, wrScope = scope, wrScopeId = scopeId,
                  wrPreviousValue = Some (cwValue existing), wrValue = None\<rparr>,
                \<lparr>dbRows = filter (\<lambda>r. \<not> at_entry key scope scopeId r) (dbRows db),
                 dbHistory = dbHistory db @ [history_entry key scope scopeId (Some (cwValue existing)) None opts now]\<rparr>)))"

text \<open>Without a caller's transaction both write, commit and then invalidate; the broadcast goes to the
  other processes (\<^verbatim>\<open>Invalidation.thy\<close>).\<close>

definition set_and_invalidate :: "key_definition list \<Rightarrow> config_db \<times> config_cache \<Rightarrow> string \<Rightarrow> json \<Rightarrow> set_options \<Rightarrow> millis
    \<Rightarrow> (written_configuration \<times> config_db \<times> config_cache) result" where
  "set_and_invalidate defs s key value opts now =
     map_sum (\<lambda>e. e) (\<lambda>(w, db). (w, db, invalidate (snd s) (wrKey w) (wrScope w) (wrScopeId w)))
       (set_configuration defs (fst s) key value opts now)"

definition unset_and_invalidate :: "key_definition list \<Rightarrow> config_db \<times> config_cache \<Rightarrow> string \<Rightarrow> set_options \<Rightarrow> millis
    \<Rightarrow> (written_configuration option \<times> config_db \<times> config_cache) result" where
  "unset_and_invalidate defs s key opts now =
     map_sum (\<lambda>e. e) (\<lambda>(w, db). (w, db, (case w of None \<Rightarrow> snd s
         | Some x \<Rightarrow> invalidate (snd s) (wrKey x) (wrScope x) (wrScopeId x))))
       (unset_configuration defs (fst s) key opts now)"

section \<open>Introspection\<close>

record stored_value =
  svScope :: config_scope
  svScopeId :: string
  svValue :: json
  svValid :: bool
  svUpdatedBy :: config_actor
  svUpdatedAt :: millis

text \<open>In the order of the scope's declaration, then of the scope id.\<close>

definition scope_rank :: "config_scope \<Rightarrow> nat" where
  "scope_rank s = (case s of GLOBAL \<Rightarrow> 0 | PROVIDER \<Rightarrow> 1)"

definition stored_order :: "config_row \<Rightarrow> config_row \<Rightarrow> bool" where
  "stored_order a b \<longleftrightarrow> scope_rank (cwScope a) < scope_rank (cwScope b)
     \<or> (cwScope a = cwScope b \<and> string_le (cwScopeId a) (cwScopeId b))"

definition storedValues :: "key_definition list \<Rightarrow> config_db \<Rightarrow> string \<Rightarrow> stored_value list result" where
  "storedValues defs db key = (case requireDefinition defs key of
     Inl e \<Rightarrow> Inl e
   | Inr d \<Rightarrow> Inr (map (\<lambda>r. \<lparr>svScope = cwScope r, svScopeId = cwScopeId r, svValue = cwValue r,
         svValid = (kdSchema d (cwValue r) \<noteq> None), svUpdatedBy = cwUpdatedBy r, svUpdatedAt = cwUpdatedAt r\<rparr>)
       (sort_by stored_order (filter (\<lambda>r. cwKey r = key) (dbRows db)))))"

record row_counts =
  rnStored :: nat
  rnProvider :: nat

definition overrideCounts :: "config_db \<Rightarrow> string \<Rightarrow> row_counts" where
  "overrideCounts db key = \<lparr>rnStored = count_where (\<lambda>r. cwKey r = key) (dbRows db),
     rnProvider = count_where (\<lambda>r. cwKey r = key \<and> cwScope r = PROVIDER) (dbRows db)\<rparr>"

definition history_of :: "config_db \<Rightarrow> string \<Rightarrow> nat option \<Rightarrow> config_scope option \<Rightarrow> string option \<Rightarrow> config_history list" where
  "history_of db key limit scope scopeId =
     take (min (case limit of None \<Rightarrow> 50 | Some n \<Rightarrow> n) 200)
       (sort_by (\<lambda>a b. chCreatedAt a \<ge> chCreatedAt b) (filter (\<lambda>h. chKey h = key
          \<and> by_filter scope (\<lambda>s. chScope h = s) \<and> by_filter scopeId (\<lambda>s. chScopeId h = s)) (dbHistory db)))"

end
