(* ===== verification/ConfigProps.thy ===== *)
theory ConfigProps
  imports Configuration OfferProps
begin

text \<open>
  What configuration reads guarantee: every value that comes out satisfies its key's schema, whatever
  is stored; and a process never keeps serving a value after the invalidation of a newer one, however
  its reads overlap with writes.
\<close>

section \<open>Every value read is typed\<close>

text \<open>The caches a process can have: it reads (in one piece or late), and invalidates. The rows it reads
  may be anything at each moment.\<close>

inductive cache_reachable :: "key_definition list \<Rightarrow> config_cache \<Rightarrow> bool" for defs where
  start: "cache_reachable defs empty_cache"
| resolved: "cache_reachable defs c \<Longrightarrow> cache_reachable defs (fst (resolve defs rows c key scopeId))"
| late: "cache_reachable defs c \<Longrightarrow> getDefinition defs key = Some d
    \<Longrightarrow> cache_reachable defs (remember c (cacheKey key scope scopeId) (query_stored rows d key scope scopeId) g)"
| dropped: "cache_reachable defs c \<Longrightarrow> cache_reachable defs (invalidate c key scope scopeId)"
| cleared: "cache_reachable defs c \<Longrightarrow> cache_reachable defs (invalidateAll c)"

definition typed_entry :: "key_definition list \<Rightarrow> cache_entry \<Rightarrow> json \<Rightarrow> bool" where
  "typed_entry defs e v \<longleftrightarrow> (\<forall>d. getDefinition defs (fst e) = Some d \<longrightarrow> kdSchema d v = Some v)"

definition typed_cache :: "key_definition list \<Rightarrow> config_cache \<Rightarrow> bool" where
  "typed_cache defs c \<longleftrightarrow> (\<forall>e v. ccEntries c e = Some (Some v) \<longrightarrow> typed_entry defs e v)"

lemma getDefinition_member: "getDefinition defs key = Some d \<Longrightarrow> d \<in> set defs \<and> kdKey d = key"
  by (auto simp: getDefinition_def dest: find_SomeD)

lemma query_stored_typed:
  assumes "list_all well_defined defs" and "getDefinition defs key = Some d"
    and "query_stored rows d key scope scopeId = Some v"
  shows "kdSchema d v = Some v"
proof -
  have "settles (kdSchema d)"
    using assms(1) getDefinition_member [OF assms(2)] by (auto simp: list_all_iff well_defined_def)
  then show ?thesis
    using assms(3) settlesD by (auto simp: query_stored_def split: option.splits)
qed

lemma typed_cache_remember:
  assumes "list_all well_defined defs" and "getDefinition defs key = Some d" and "typed_cache defs c"
  shows "typed_cache defs (remember c (cacheKey key scope scopeId) (query_stored rows d key scope scopeId) g)"
  using assms(3) query_stored_typed [OF assms(1,2)] assms(2)
  by (auto simp: typed_cache_def typed_entry_def remember_def cacheKey_def)

lemma readStored_typed:
  assumes "list_all well_defined defs" and "getDefinition defs key = Some d" and "typed_cache defs c"
    and "readStored rows c key scope scopeId d = (c', r)"
  shows "typed_cache defs c' \<and> (\<forall>v. r = Some v \<longrightarrow> kdSchema d v = Some v)"
proof (cases "ccEntries c (cacheKey key scope scopeId)")
  case None
  then show ?thesis
    using assms typed_cache_remember [OF assms(1-3)] query_stored_typed [OF assms(1,2)]
    by (auto simp: readStored_def Let_def)
next
  case (Some cached)
  then show ?thesis
    using assms by (auto simp: readStored_def Let_def typed_cache_def typed_entry_def cacheKey_def)
qed

lemma default_typed:
  "list_all well_defined defs \<Longrightarrow> getDefinition defs key = Some d \<Longrightarrow> kdSchema d (kdDefault d) = Some (kdDefault d)"
  using getDefinition_member by (auto simp: list_all_iff well_defined_def)

lemma resolve_defined_typed:
  assumes "list_all well_defined defs" and "getDefinition defs key = Some d" and "typed_cache defs c"
    and "resolve_defined rows c d key scopeId = (c', r)"
  shows "typed_cache defs c' \<and> kdSchema d (rcValue r) = Some (rcValue r)"
proof -
  have glob: "typed_cache defs c2 \<and> kdSchema d (rcValue r2) = Some (rcValue r2)"
    if "typed_cache defs c1" "resolve_global rows c1 d key = (c2, r2)" for c1 c2 r2
    using that readStored_typed [OF assms(1,2) that(1)] default_typed [OF assms(1,2)]
    by (auto simp: resolve_global_def split: prod.splits option.splits)
  have missed: "typed_cache defs c2 \<and> kdSchema d (rcValue r2) = Some (rcValue r2)"
    if "readStored rows c key PROVIDER s d = (c1, None)" "resolve_global rows c1 d key = (c2, r2)" for s c1 c2 r2
    using glob [OF _ that(2)] readStored_typed [OF assms(1,2,3) that(1)] by blast
  show ?thesis
    using assms(4) glob [OF assms(3)] readStored_typed [OF assms(1,2,3)] missed
    by (auto simp: resolve_defined_def split: option.splits if_splits prod.splits)
qed

lemma reachable_cache_typed:
  assumes "list_all well_defined defs" and "cache_reachable defs c"
  shows "typed_cache defs c"
  using assms(2)
proof induction
  case start
  then show ?case by (simp add: typed_cache_def empty_cache_def)
next
  case (resolved c rows key scopeId)
  then show ?case
    using resolve_defined_typed [OF assms(1)]
    by (auto simp: resolve_def requireDefinition_def split: option.splits prod.splits)
next
  case (late c key d scope scopeId rows g)
  then show ?case using typed_cache_remember [OF assms(1)] by blast
qed (auto simp: typed_cache_def invalidate_def invalidateAll_def)

text \<open>C30. Whatever the table holds, values of an older shape included, and whatever the process has
  cached, resolving a key gives a value the key's schema accepts as it is.\<close>

theorem resolved_values_are_typed:
  assumes "cache_reachable ALL_CONFIGURATION_KEYS c"
    and "resolve ALL_CONFIGURATION_KEYS rows c key scopeId = (c', Inr r)"
  shows "\<exists>d\<in>set ALL_CONFIGURATION_KEYS. kdKey d = key \<and> kdSchema d (rcValue r) = Some (rcValue r)"
proof -
  obtain d where "getDefinition ALL_CONFIGURATION_KEYS key = Some d"
    "resolve_defined rows c d key scopeId = (c', r)"
    using assms(2) by (auto simp: resolve_def requireDefinition_def split: option.splits prod.splits)
  then show ?thesis
    using resolve_defined_typed [OF all_keys_well_defined _ reachable_cache_typed
        [OF all_keys_well_defined assms(1)]] getDefinition_member by blast
qed

text \<open>\<open>RatesService.resolve\<close>: the three keys, read for the provider.\<close>

definition int_value :: "json \<Rightarrow> int" where
  "int_value v = (case v of JNum x \<Rightarrow> \<lfloor>x\<rfloor> | _ \<Rightarrow> 0)"

definition text_value :: "json \<Rightarrow> string" where
  "text_value v = (case v of JStr s \<Rightarrow> s | _ \<Rightarrow> [])"

definition rates_from_configuration :: "config_row list \<Rightarrow> config_cache \<Rightarrow> string \<Rightarrow> config_cache \<times> catalog_rates" where
  "rates_from_configuration rows c providerId =
     (case resolve_defined rows c OFFERS_POINTS_PER_MINOR_UNIT (kdKey OFFERS_POINTS_PER_MINOR_UNIT) (Some providerId) of
       (c1, a) \<Rightarrow> (case resolve_defined rows c1 OFFERS_REWARD_SHARE_PERCENT (kdKey OFFERS_REWARD_SHARE_PERCENT) (Some providerId) of
       (c2, b) \<Rightarrow> (case resolve_defined rows c2 OFFERS_ACCOUNTING_CURRENCY (kdKey OFFERS_ACCOUNTING_CURRENCY) (Some providerId) of
       (c3, u) \<Rightarrow> (c3, \<lparr>pointsPerMinorUnit = int_value (rcValue a), rewardSharePercent = int_value (rcValue b),
          accountingCurrency = text_value (rcValue u)\<rparr>))))"

lemma offers_keys_defined:
  "getDefinition ALL_CONFIGURATION_KEYS (kdKey OFFERS_POINTS_PER_MINOR_UNIT) = Some OFFERS_POINTS_PER_MINOR_UNIT"
  "getDefinition ALL_CONFIGURATION_KEYS (kdKey OFFERS_REWARD_SHARE_PERCENT) = Some OFFERS_REWARD_SHARE_PERCENT"
  "getDefinition ALL_CONFIGURATION_KEYS (kdKey OFFERS_ACCOUNTING_CURRENCY) = Some OFFERS_ACCOUNTING_CURRENCY"
  unfolding getDefinition_def
  by (intro find_key_eq configuration_keys_distinct;
      simp add: ALL_CONFIGURATION_KEYS_def OFFERS_CONFIGURATION_KEYS_def)+

text \<open>The rates a provider's conversions and offers are priced with, read from the configuration,
  are valid ones, so the exactness of the points computed from them holds for every stored
  configuration.\<close>

theorem configured_rates_are_valid:
  assumes "cache_reachable ALL_CONFIGURATION_KEYS c"
  shows "valid_rates (snd (rates_from_configuration rows c providerId))"
proof -
  note typed = resolve_defined_typed [OF all_keys_well_defined]
  have c: "typed_cache ALL_CONFIGURATION_KEYS c"
    by (rule reachable_cache_typed [OF all_keys_well_defined assms])
  obtain c1 a where a: "resolve_defined rows c OFFERS_POINTS_PER_MINOR_UNIT (kdKey OFFERS_POINTS_PER_MINOR_UNIT) (Some providerId) = (c1, a)"
    by fastforce
  obtain c2 b where b: "resolve_defined rows c1 OFFERS_REWARD_SHARE_PERCENT (kdKey OFFERS_REWARD_SHARE_PERCENT) (Some providerId) = (c2, b)"
    by fastforce
  obtain c3 u where u: "resolve_defined rows c2 OFFERS_ACCOUNTING_CURRENCY (kdKey OFFERS_ACCOUNTING_CURRENCY) (Some providerId) = (c3, u)"
    by fastforce
  note ta = typed [OF offers_keys_defined(1) c a]
  note tb = typed [OF offers_keys_defined(2) ta [THEN conjunct1] b]
  note tu = typed [OF offers_keys_defined(3) tb [THEN conjunct1] u]
  have "1 \<le> int_value (rcValue a) \<and> int_value (rcValue a) \<le> 10000"
    using ta by (auto simp: OFFERS_POINTS_PER_MINOR_UNIT_def number_key_def int_in_def int_value_def
        split: json.splits if_splits)
  moreover have "1 \<le> int_value (rcValue b) \<and> int_value (rcValue b) \<le> 100"
    using tb by (auto simp: OFFERS_REWARD_SHARE_PERCENT_def number_key_def int_in_def int_value_def
        split: json.splits if_splits)
  moreover have "accounting_currency_schema (text_value (rcValue u))"
    using tu by (auto simp: OFFERS_ACCOUNTING_CURRENCY_def currency_key_def string_where_def text_value_def
        split: json.splits if_splits)
  ultimately show ?thesis
    using a b u by (simp add: rates_from_configuration_def valid_rates_def points_per_minor_unit_schema_def
        reward_share_percent_schema_def)
qed

section \<open>Writes\<close>

definition entry_of :: "config_history \<Rightarrow> cache_entry" where
  "entry_of h = (chKey h, chScope h, chScopeId h)"

definition stored_at :: "config_row list \<Rightarrow> cache_entry \<Rightarrow> json option" where
  "stored_at rows e = map_option cwValue (findStored rows (fst e) (fst (snd e)) (snd (snd e)))"

definition replay :: "config_history list \<Rightarrow> cache_entry \<Rightarrow> json option" where
  "replay hs = foldl (\<lambda>m h. m(entry_of h := chNewValue h)) (\<lambda>_. None) hs"

lemma replay_Nil [simp]: "replay [] e = None"
  by (simp add: replay_def)

lemma replay_snoc [simp]: "replay (hs @ [h]) = (replay hs)(entry_of h := chNewValue h)"
  by (simp add: replay_def)

lemma findStored_append:
  "findStored (rows @ [r]) key scope scopeId = (case findStored rows key scope scopeId of
     Some x \<Rightarrow> Some x | None \<Rightarrow> if at_entry key scope scopeId r then Some r else None)"
  by (auto simp: findStored_def find_append split: option.splits)

lemma find_filter_other:
  "(\<And>x. p x \<Longrightarrow> q x) \<Longrightarrow> List.find p (filter q rows) = List.find p rows"
  by (induction rows) auto

lemma find_filter_same: "(\<And>x. p x \<Longrightarrow> \<not> q x) \<Longrightarrow> List.find p (filter q rows) = None"
  by (induction rows) auto

lemma write_value_stored:
  assumes "write_value db d key scope scopeId v opts now = (previous, db')"
  shows "stored_at (dbRows db') = (stored_at (dbRows db))((key, scope, scopeId) := Some v)"
    and "previous = stored_at (dbRows db) (key, scope, scopeId)"
    and "dbHistory db' = dbHistory db @ [history_entry key scope scopeId previous (Some v) opts now]"
proof -
  show p: "previous = stored_at (dbRows db) (key, scope, scopeId)"
    and h: "dbHistory db' = dbHistory db @ [history_entry key scope scopeId previous (Some v) opts now]"
    using assms by (auto simp: write_value_def stored_at_def Let_def)
  let ?row = "\<lparr>cwKey = key, cwScope = scope, cwScopeId = scopeId, cwValue = v,
    cwValueType = kdValueType d, cwUpdatedBy = soActor opts, cwUpdatedAt = now\<rparr>"
  have row: "at_entry key scope scopeId ?row" by (simp add: at_entry_def)
  have other: "at_entry k sc sid x \<Longrightarrow> at_entry key scope scopeId x \<Longrightarrow> (k, sc, sid) = (key, scope, scopeId)" for k sc sid x
    by (simp add: at_entry_def)
  show "stored_at (dbRows db') = (stored_at (dbRows db))((key, scope, scopeId) := Some v)"
  proof (rule ext)
    fix e :: cache_entry
    obtain k sc sid where e: "e = (k, sc, sid)" by (cases e)
    show "stored_at (dbRows db') e = ((stored_at (dbRows db))((key, scope, scopeId) := Some v)) e"
    proof (cases "findStored (dbRows db) key scope scopeId")
      case None
      then have "dbRows db' = dbRows db @ [?row]" using assms by (auto simp: write_value_def Let_def)
      then show ?thesis
        using None row other by (auto simp: stored_at_def e findStored_append at_entry_def split: option.splits)
    next
      case (Some x)
      then have rows: "dbRows db' = update_where (at_entry key scope scopeId) (\<lambda>_. ?row) (dbRows db)"
        using assms by (auto simp: write_value_def Let_def)
      show ?thesis
      proof (cases "(k, sc, sid) = (key, scope, scopeId)")
        case True
        have "List.find (at_entry key scope scopeId) (update_where (at_entry key scope scopeId) (\<lambda>_. ?row) (dbRows db)) = Some ?row"
          using Some row unfolding findStored_def by (subst find_update_where) (auto dest: find_SomeD)
        then show ?thesis using True by (simp add: stored_at_def e rows findStored_def)
      next
        case False
        have "List.find (at_entry k sc sid) (update_where (at_entry key scope scopeId) (\<lambda>_. ?row) rs)
            = List.find (at_entry k sc sid) rs" for rs
          using False by (induction rs) (auto simp: at_entry_def)
        then show ?thesis using False by (auto simp: stored_at_def e rows findStored_def)
      qed
    qed
  qed
qed

lemma set_configuration_Inr:
  assumes "set_configuration defs db key value opts now = Inr (w, db')"
  obtains d v where "getDefinition defs key = Some d" "kdSchema d value = Some v"
    "wrKey w = key" "wrScope w = scope_of (soScope opts)" "wrScopeId w = scope_id_of (wrScope w) (soScopeId opts)"
    "wrValue w = Some v" "wrScope w \<in> set (kdScopes d)"
    "write_value db d key (wrScope w) (wrScopeId w) v opts now = (wrPreviousValue w, db')"
  using assms
  by (auto simp: set_configuration_def requireDefinition_def Let_def
      split: option.splits if_splits prod.splits)

lemma unset_configuration_Inr:
  assumes "unset_configuration defs db key opts now = Inr (w, db')"
  obtains (nothing) "w = None" "db' = db"
    | (removed) x where "w = Some x" "wrKey x = key" "wrPreviousValue x \<noteq> None" "wrValue x = None"
        "wrPreviousValue x = stored_at (dbRows db) (key, wrScope x, wrScopeId x)"
        "dbRows db' = filter (\<lambda>r. \<not> at_entry key (wrScope x) (wrScopeId x) r) (dbRows db)"
        "dbHistory db' = dbHistory db @ [history_entry key (wrScope x) (wrScopeId x) (wrPreviousValue x) None opts now]"
proof -
  let ?scope = "scope_of (soScope opts)"
  let ?sid = "scope_id_of ?scope (soScopeId opts)"
  have e: "(case findStored (dbRows db) key ?scope ?sid of
      None \<Rightarrow> Inr (None, db)
    | Some existing \<Rightarrow> Inr (Some \<lparr>wrKey = key, wrScope = ?scope, wrScopeId = ?sid,
        wrPreviousValue = Some (cwValue existing), wrValue = None\<rparr>,
        \<lparr>dbRows = filter (\<lambda>r. \<not> at_entry key ?scope ?sid r) (dbRows db),
         dbHistory = dbHistory db @ [history_entry key ?scope ?sid (Some (cwValue existing)) None opts now]\<rparr>))
      = (Inr (w, db') :: (written_configuration option \<times> config_db) result)"
    using assms unfolding unset_configuration_def Let_def
    by (cases "requireDefinition defs key") (simp_all split: if_splits)
  show thesis
  proof (cases "findStored (dbRows db) key ?scope ?sid")
    case None
    then have "w = None" "db' = db" using e by simp_all
    then show thesis by (rule nothing)
  next
    case (Some existing)
    then show thesis using e by (intro removed) (auto simp: stored_at_def)
  qed
qed

lemma removed_stored:
  "stored_at (filter (\<lambda>r. \<not> at_entry key scope scopeId r) rows) = (stored_at rows)((key, scope, scopeId) := None)"
proof (rule ext)
  fix e :: cache_entry
  obtain k sc sid where e: "e = (k, sc, sid)" by (cases e)
  have "findStored (filter (\<lambda>r. \<not> at_entry key scope scopeId r) rows) k sc sid
      = (if (k, sc, sid) = (key, scope, scopeId) then None else findStored rows k sc sid)"
    unfolding findStored_def
    by (cases "(k, sc, sid) = (key, scope, scopeId)")
      (auto intro!: find_filter_same find_filter_other simp: at_entry_def)
  then show "stored_at (filter (\<lambda>r. \<not> at_entry key scope scopeId r) rows) e
      = ((stored_at rows)((key, scope, scopeId) := None)) e"
    by (auto simp: stored_at_def e)
qed

text \<open>The history as the abstract state: what is stored is what replaying the history gives, and every
  entry's old value is what was stored when it was written.\<close>

datatype config_op = SetValue string json set_options millis | UnsetValue string set_options millis

fun execConfig :: "config_db \<Rightarrow> config_op \<Rightarrow> app_error + config_db" where
  "execConfig db (SetValue key value opts now) =
     map_sum (\<lambda>e. e) snd (set_configuration ALL_CONFIGURATION_KEYS db key value opts now)"
| "execConfig db (UnsetValue key opts now) =
     map_sum (\<lambda>e. e) snd (unset_configuration ALL_CONFIGURATION_KEYS db key opts now)"

definition no_configuration :: config_db where
  "no_configuration = \<lparr>dbRows = [], dbHistory = []\<rparr>"

definition chained :: "config_history list \<Rightarrow> bool" where
  "chained hs \<longleftrightarrow> (\<forall>i<length hs. chOldValue (hs ! i) = replay (take i hs) (entry_of (hs ! i)))"

definition history_tells :: "config_db \<Rightarrow> bool" where
  "history_tells db \<longleftrightarrow> stored_at (dbRows db) = replay (dbHistory db) \<and> chained (dbHistory db)"

lemma chained_snoc: "chained (hs @ [h]) \<longleftrightarrow> chained hs \<and> chOldValue h = replay hs (entry_of h)"
  by (auto simp: chained_def nth_append less_Suc_eq)

lemma history_entry_simps [simp]: "entry_of (history_entry key scope scopeId old new opts now) = (key, scope, scopeId)"
  "chOldValue (history_entry key scope scopeId old new opts now) = old"
  "chNewValue (history_entry key scope scopeId old new opts now) = new"
  by (simp_all add: history_entry_def entry_of_def)

lemma execConfig_tells:
  assumes "history_tells db" and "execConfig db x = Inr db'"
  shows "history_tells db'"
proof (cases x)
  case (SetValue key v0 opts now)
  then obtain w where "set_configuration ALL_CONFIGURATION_KEYS db key v0 opts now = Inr (w, db')"
    using assms(2) by (auto simp: map_sum_def split: sum.splits)
  then show ?thesis
  proof (rule set_configuration_Inr)
    fix d v
    assume "write_value db d key (wrScope w) (wrScopeId w) v opts now = (wrPreviousValue w, db')"
    from write_value_stored [OF this] show ?thesis
      using assms(1) by (simp add: history_tells_def chained_snoc)
  qed
next
  case (UnsetValue key opts now)
  then obtain w where "unset_configuration ALL_CONFIGURATION_KEYS db key opts now = Inr (w, db')"
    using assms(2) by (auto simp: map_sum_def split: sum.splits)
  then show ?thesis
    using assms(1)
    by (cases rule: unset_configuration_Inr)
      (auto simp: history_tells_def chained_snoc removed_stored)
qed

interpretation configuration: guarded_system execConfig no_configuration history_tells
proof
  show "history_tells no_configuration"
    by (auto simp: history_tells_def no_configuration_def stored_at_def findStored_def chained_def)
qed (rule execConfig_tells)

text \<open>The history is the whole story: after any run of writes and resets, replaying it rebuilds the
  stored values exactly, and every entry's old value is the one that was in force before it.\<close>

theorem history_rebuilds_configuration:
  "stored_at (dbRows (run_ops execConfig no_configuration ops))
     = replay (dbHistory (run_ops execConfig no_configuration ops))
   \<and> chained (dbHistory (run_ops execConfig no_configuration ops))"
  using configuration.inv_run [of ops] by (simp add: history_tells_def)

section \<open>Reads that overlap with writes\<close>

text \<open>
  One process over the shared table. A read that misses notes the generation and then queries and
  remembers, as \<open>readStored\<close> does in one piece; in between, anything may happen: writes commit,
  here or elsewhere, and each is followed, at some later moment, by its invalidation reaching this
  process. \<open>nsDirty\<close> holds the entries written but not yet invalidated.
\<close>

record config_node =
  nsDb :: config_db
  nsCache :: config_cache
  nsReads :: "(cache_entry \<times> nat \<times> json option option) list"
  nsDirty :: "cache_entry set"

definition fresh_node :: config_node where
  "fresh_node = \<lparr>nsDb = no_configuration, nsCache = empty_cache, nsReads = [], nsDirty = {}\<rparr>"

definition query_entry_of :: "config_db \<Rightarrow> cache_entry \<Rightarrow> json option" where
  "query_entry_of db e = (case getDefinition ALL_CONFIGURATION_KEYS (fst e) of
     None \<Rightarrow> None | Some d \<Rightarrow> query_stored (dbRows db) d (fst e) (fst (snd e)) (snd (snd e)))"

inductive node_step :: "config_node \<Rightarrow> config_node \<Rightarrow> bool" where
  begin_read: "ccEntries (nsCache s) e = None
    \<Longrightarrow> node_step s (s\<lparr>nsReads := nsReads s @ [(e, ccGeneration (nsCache s), None)]\<rparr>)"
| query: "nsReads s = xs @ (e, g, None) # ys
    \<Longrightarrow> node_step s (s\<lparr>nsReads := xs @ (e, g, Some (query_entry_of (nsDb s) e)) # ys\<rparr>)"
| end_read: "nsReads s = xs @ (e, g, Some v) # ys
    \<Longrightarrow> node_step s (s\<lparr>nsCache := remember (nsCache s) e v g, nsReads := xs @ ys\<rparr>)"
| set: "set_configuration ALL_CONFIGURATION_KEYS (nsDb s) key v opts now = Inr (w, db)
    \<Longrightarrow> node_step s (s\<lparr>nsDb := db,
          nsDirty := insert (cacheKey (wrKey w) (wrScope w) (wrScopeId w)) (nsDirty s)\<rparr>)"
| unset: "unset_configuration ALL_CONFIGURATION_KEYS (nsDb s) key opts now = Inr (Some w, db)
    \<Longrightarrow> node_step s (s\<lparr>nsDb := db,
          nsDirty := insert (cacheKey (wrKey w) (wrScope w) (wrScopeId w)) (nsDirty s)\<rparr>)"
| invalidate: "node_step s (s\<lparr>nsCache := invalidate (nsCache s) key scope scopeId,
          nsDirty := nsDirty s - {cacheKey key scope scopeId}\<rparr>)"
| clear: "node_step s (s\<lparr>nsCache := invalidateAll (nsCache s), nsDirty := {}\<rparr>)"

inductive node_reachable :: "config_node \<Rightarrow> bool" where
  start: "node_reachable fresh_node"
| step: "node_reachable s \<Longrightarrow> node_step s s' \<Longrightarrow> node_reachable s'"

definition coherent :: "config_node \<Rightarrow> bool" where
  "coherent s \<longleftrightarrow> (\<forall>e. e \<notin> nsDirty s \<longrightarrow>
     (\<forall>v. ccEntries (nsCache s) e = Some v \<longrightarrow> v = query_entry_of (nsDb s) e)
     \<and> (\<forall>v. (e, ccGeneration (nsCache s), Some v) \<in> set (nsReads s) \<longrightarrow> v = query_entry_of (nsDb s) e))
   \<and> (\<forall>(e, g, v)\<in>set (nsReads s). g \<le> ccGeneration (nsCache s))"

lemma query_stored_at:
  "query_entry_of db e = (case getDefinition ALL_CONFIGURATION_KEYS (fst e) of
     None \<Rightarrow> None | Some d \<Rightarrow> Option.bind (stored_at (dbRows db) e) (kdSchema d))"
  by (auto simp: query_entry_of_def query_stored_def stored_at_def split: option.splits)

lemma written_elsewhere:
  "stored_at (dbRows db') = (stored_at (dbRows db))(e := v) \<Longrightarrow> e' \<noteq> e \<Longrightarrow> query_entry_of db' e' = query_entry_of db e'"
  by (simp add: query_stored_at [of db'] query_stored_at [of db] split: option.splits)

lemma coherent_write:
  assumes "coherent s" and "stored_at (dbRows db) = (stored_at (dbRows (nsDb s)))(e := v)"
  shows "coherent (s\<lparr>nsDb := db, nsDirty := insert e (nsDirty s)\<rparr>)"
  using assms(1) written_elsewhere [OF assms(2)] by (auto simp: coherent_def)

lemma coherent_step:
  assumes "node_step s s'" and "coherent s"
  shows "coherent s'"
  using assms
proof induction
  case (set s key v opts now w db)
  from set(1) show ?case
  proof (rule set_configuration_Inr)
    fix d v'
    assume "wrKey w = key" "write_value (nsDb s) d key (wrScope w) (wrScopeId w) v' opts now = (wrPreviousValue w, db)"
    then show ?thesis
      using coherent_write [OF set(2)] write_value_stored(1) by (auto simp: cacheKey_def)
  qed
next
  case (unset s key opts now w db)
  from unset(1) show ?case
  proof (cases rule: unset_configuration_Inr)
    case (removed x)
    then show ?thesis
      using coherent_write [OF unset(2), of db "(key, wrScope w, wrScopeId w)" None]
      by (simp add: removed_stored cacheKey_def)
  qed simp
next
  case (end_read s xs e g v ys)
  then show ?case by (fastforce simp: coherent_def remember_def)
next
  case (invalidate s key scope scopeId)
  then show ?case
    by (fastforce simp: coherent_def invalidate_def)
next
  case (clear s)
  then show ?case
    by (fastforce simp: coherent_def invalidateAll_def)
qed (fastforce simp: coherent_def)+

lemma reachable_coherent: "node_reachable s \<Longrightarrow> coherent s"
proof (induction rule: node_reachable.induct)
  case start
  show ?case by (simp add: coherent_def fresh_node_def empty_cache_def)
qed (rule coherent_step)

text \<open>C29. No stale configuration: once the invalidation of the last write of an entry has arrived, what
  the process reads of it is what the table holds, cached or not, whatever reads were in flight
  while the write committed and the invalidation passed.\<close>

theorem invalidated_reads_are_fresh:
  assumes "node_reachable s" and "cacheKey key scope scopeId \<notin> nsDirty s"
    and "getDefinition ALL_CONFIGURATION_KEYS key = Some d"
  shows "snd (readStored (dbRows (nsDb s)) (nsCache s) key scope scopeId d)
    = query_stored (dbRows (nsDb s)) d key scope scopeId"
proof -
  have "v = query_entry_of (nsDb s) (cacheKey key scope scopeId)"
    if "ccEntries (nsCache s) (cacheKey key scope scopeId) = Some v" for v
    using reachable_coherent [OF assms(1)] assms(2) that unfolding coherent_def by blast
  then have "v = query_stored (dbRows (nsDb s)) d key scope scopeId"
    if "ccEntries (nsCache s) (cacheKey key scope scopeId) = Some v" for v
    using assms(3) that by (simp add: query_entry_of_def cacheKey_def)
  then show ?thesis by (auto simp: readStored_def Let_def split: option.splits)
qed

text \<open>C00. A write is read back: after \<open>set\<close> the scope it wrote resolves to the validated value, and
  after \<open>unset\<close> a provider falls back to the global value or the default.\<close>

theorem write_is_read_back:
  assumes "set_and_invalidate ALL_CONFIGURATION_KEYS (db, c) key v opts now = Inr (w, db', c')"
  shows "\<exists>d validated. getDefinition ALL_CONFIGURATION_KEYS key = Some d \<and> kdSchema d v = Some validated
    \<and> snd (resolve ALL_CONFIGURATION_KEYS (dbRows db') c' key
        (if wrScope w = PROVIDER then Some (wrScopeId w) else None))
      = Inr \<lparr>rcKey = key, rcValue = validated, rcSource = (if wrScope w = PROVIDER then FromProvider else FromGlobal),
             rcScopeId = (if wrScope w = PROVIDER then Some (wrScopeId w) else None)\<rparr>"
proof -
  have s: "set_configuration ALL_CONFIGURATION_KEYS db key v opts now = Inr (w, db')"
    and c': "c' = invalidate c (wrKey w) (wrScope w) (wrScopeId w)"
    using assms by (auto simp: set_and_invalidate_def map_sum_def split: sum.splits)
  from s show ?thesis
  proof (rule set_configuration_Inr)
    fix d validated
    assume d: "getDefinition ALL_CONFIGURATION_KEYS key = Some d" "kdSchema d v = Some validated"
      "wrKey w = key" "wrScope w = scope_of (soScope opts)" "wrScopeId w = scope_id_of (wrScope w) (soScopeId opts)"
      "wrScope w \<in> set (kdScopes d)"
      and wr: "write_value db d key (wrScope w) (wrScopeId w) validated opts now = (wrPreviousValue w, db')"
    have "stored_at (dbRows db') (key, wrScope w, wrScopeId w) = Some validated"
      using write_value_stored(1) [OF wr] by simp
    moreover have "kdSchema d validated = Some validated"
      using d(1,2) getDefinition_member all_keys_well_defined settlesD
      by (metis list_all_iff well_defined_def)
    ultimately have q: "query_stored (dbRows db') d key (wrScope w) (wrScopeId w) = Some validated"
      by (auto simp: query_stored_def stored_at_def)
    have r: "\<exists>c2. readStored (dbRows db') c' key (wrScope w) (wrScopeId w) d = (c2, Some validated)"
      by (simp add: readStored_def c' invalidate_def d(3) q Let_def)
    have "wrScope w = GLOBAL \<or> wrScope w = PROVIDER" by (cases "wrScope w") simp_all
    then show ?thesis
      using d r by (auto simp: resolve_def requireDefinition_def resolve_defined_def resolve_global_def scope_id_of_def)
  qed
qed

section \<open>Concrete runs\<close>

definition demo_options :: set_options where
  "demo_options = \<lparr>soScope = None, soScopeId = None, soReason = None, soActor = AdminActor 2\<rparr>"

definition demo_bad_row :: config_row where
  "demo_bad_row = \<lparr>cwKey = ''offers.reward_share_percent'', cwScope = GLOBAL, cwScopeId = [], cwValue = JNum 500,
     cwValueType = VT_NUMBER, cwUpdatedBy = MigrationActor, cwUpdatedAt = 0\<rparr>"

lemma fraud_enabled_defined: "getDefinition ALL_CONFIGURATION_KEYS ''fraud.enabled'' = Some FRAUD_ENABLED"
proof -
  have "kdKey FRAUD_ENABLED = ''fraud.enabled''" by (simp add: FRAUD_ENABLED_def)
  moreover have "List.find (\<lambda>d. kdKey d = kdKey FRAUD_ENABLED) ALL_CONFIGURATION_KEYS = Some FRAUD_ENABLED"
    by (intro find_key_eq configuration_keys_distinct)
      (simp add: ALL_CONFIGURATION_KEYS_def FRAUD_CONFIGURATION_KEYS_def)
  ultimately show ?thesis by (simp add: getDefinition_def)
qed

lemma resolved_values_are_typed_witness:
  "\<exists>c' r. resolve ALL_CONFIGURATION_KEYS [demo_bad_row] empty_cache (kdKey OFFERS_REWARD_SHARE_PERCENT) (Some ''p'') = (c', Inr r)
    \<and> (\<exists>d\<in>set ALL_CONFIGURATION_KEYS. kdKey d = kdKey OFFERS_REWARD_SHARE_PERCENT \<and> kdSchema d (rcValue r) = Some (rcValue r))"
proof -
  obtain c' r where r: "resolve ALL_CONFIGURATION_KEYS [demo_bad_row] empty_cache (kdKey OFFERS_REWARD_SHARE_PERCENT) (Some ''p'') = (c', Inr r)"
    by (cases "resolve_defined [demo_bad_row] empty_cache OFFERS_REWARD_SHARE_PERCENT (kdKey OFFERS_REWARD_SHARE_PERCENT) (Some ''p'')")
      (simp add: resolve_def requireDefinition_def offers_keys_defined)
  then show ?thesis using resolved_values_are_typed [OF cache_reachable.start r] by blast
qed

lemma configured_rates_are_valid_witness:
  "valid_rates (snd (rates_from_configuration [demo_bad_row] empty_cache ''p''))"
  by (rule configured_rates_are_valid [OF cache_reachable.start])

definition demo_entry :: cache_entry where
  "demo_entry = cacheKey ''fraud.enabled'' GLOBAL []"

definition demo_db :: config_db where
  "demo_db = \<lparr>dbRows = [\<lparr>cwKey = ''fraud.enabled'', cwScope = GLOBAL, cwScopeId = [], cwValue = JBool False,
       cwValueType = VT_BOOLEAN, cwUpdatedBy = AdminActor 2, cwUpdatedAt = 5\<rparr>],
     dbHistory = [\<lparr>chKey = ''fraud.enabled'', chScope = GLOBAL, chScopeId = [], chOldValue = None,
       chNewValue = Some (JBool False), chActor = AdminActor 2, chReason = None, chCreatedAt = 5\<rparr>]\<rparr>"

lemma demo_set: "set_configuration ALL_CONFIGURATION_KEYS no_configuration ''fraud.enabled'' (JBool False) demo_options 5
    = Inr (\<lparr>wrKey = ''fraud.enabled'', wrScope = GLOBAL, wrScopeId = [], wrPreviousValue = None,
        wrValue = Some (JBool False)\<rparr>, demo_db)"
  by (simp add: set_configuration_def requireDefinition_def fraud_enabled_defined)
    (simp add: FRAUD_ENABLED_def demo_options_def scope_of_def scope_id_of_def GLOBAL_SCOPE_ID_def
      boolean_schema_def write_value_def findStored_def no_configuration_def demo_db_def history_entry_def Let_def)

text \<open>A read that queried before a write and remembers after the write's invalidation.\<close>

lemma invalidated_reads_are_fresh_witness:
  "\<exists>s. node_reachable s \<and> nsDb s = demo_db
    \<and> snd (readStored (dbRows (nsDb s)) (nsCache s) ''fraud.enabled'' GLOBAL [] FRAUD_ENABLED) = Some (JBool False)"
proof -
  let ?s1 = "fresh_node\<lparr>nsReads := [(demo_entry, 0, None)]\<rparr>"
  let ?s2 = "fresh_node\<lparr>nsReads := [(demo_entry, 0, Some None)]\<rparr>"
  let ?s3 = "?s2\<lparr>nsDb := demo_db, nsDirty := {demo_entry}\<rparr>"
  let ?s4 = "?s3\<lparr>nsCache := invalidate empty_cache ''fraud.enabled'' GLOBAL [], nsDirty := {}\<rparr>"
  let ?s5 = "?s4\<lparr>nsCache := remember (nsCache ?s4) demo_entry None 0, nsReads := []\<rparr>"
  have f: "nsDb fresh_node = no_configuration" "nsCache fresh_node = empty_cache" "nsReads fresh_node = []"
    "nsDirty fresh_node = {}" "ccEntries empty_cache = (\<lambda>_. None)" "ccGeneration empty_cache = 0"
    by (simp_all add: fresh_node_def empty_cache_def)
  have "query_entry_of no_configuration demo_entry = None"
    by (simp add: query_entry_of_def demo_entry_def cacheKey_def fraud_enabled_defined query_stored_def
        findStored_def no_configuration_def)
  then have "node_step fresh_node ?s1" "node_step ?s1 ?s2"
    using node_step.begin_read [of fresh_node demo_entry] node_step.query [of ?s1 "[]" demo_entry 0 "[]"]
    by (simp_all add: f)
  moreover have "node_step ?s2 ?s3"
    using node_step.set [of ?s2 "''fraud.enabled''" "JBool False" demo_options 5 _ demo_db] demo_set
    by (simp add: f demo_entry_def)
  moreover have "node_step ?s3 ?s4"
    using node_step.invalidate [of ?s3 "''fraud.enabled''" GLOBAL "[]"] by (simp add: f demo_entry_def)
  moreover have "node_step ?s4 ?s5"
    using node_step.end_read [of ?s4 "[]" demo_entry 0 None "[]"] by simp
  ultimately have r: "node_reachable ?s5"
    by (meson node_reachable.intros)
  have "cacheKey ''fraud.enabled'' GLOBAL [] \<notin> nsDirty ?s5" by simp
  from invalidated_reads_are_fresh [OF r this fraud_enabled_defined]
  have "snd (readStored (dbRows demo_db) (nsCache ?s5) ''fraud.enabled'' GLOBAL [] FRAUD_ENABLED) = Some (JBool False)"
    by (simp add: query_stored_def findStored_def demo_db_def at_entry_def FRAUD_ENABLED_def boolean_schema_def)
  then show ?thesis using r by (intro exI [of _ ?s5]) simp
qed

lemma write_is_read_back_witness:
  "\<exists>w db' c'. set_and_invalidate ALL_CONFIGURATION_KEYS (no_configuration, empty_cache) ''fraud.enabled'' (JBool False)
      demo_options 5 = Inr (w, db', c')
    \<and> (\<exists>r. snd (resolve ALL_CONFIGURATION_KEYS (dbRows db') c' ''fraud.enabled'' None) = Inr r \<and> rcSource r = FromGlobal)"
proof -
  obtain w db' c' where w: "set_and_invalidate ALL_CONFIGURATION_KEYS (no_configuration, empty_cache) ''fraud.enabled''
      (JBool False) demo_options 5 = Inr (w, db', c')" "wrScope w = GLOBAL"
    by (simp add: set_and_invalidate_def demo_set)
  show ?thesis using write_is_read_back [OF w(1)] w by auto
qed

end
