(* ===== verification/Invalidation.thy ===== *)
theory Invalidation
  imports ConfigProps
begin

text \<open>
  Cross-process invalidation: \<^verbatim>\<open>core/events/invalidation-message.ts\<close> and
  \<^verbatim>\<open>core/events/invalidation.bus.ts\<close>, with the configuration service's subscriber. A message
  on the wire is what \<open>JSON.parse\<close> makes of it, nothing when it is no JSON. Whether a send or a
  subscription succeeds is an argument; what a step sends and which handlers it calls are results.
\<close>

section \<open>Messages\<close>

datatype inv_domain = CONFIGURATION_DOMAIN | PROVIDERS_DOMAIN

definition INVALIDATION_DOMAINS :: "inv_domain list" where
  "INVALIDATION_DOMAINS = [CONFIGURATION_DOMAIN, PROVIDERS_DOMAIN]"

fun domain_name :: "inv_domain \<Rightarrow> string" where
  "domain_name CONFIGURATION_DOMAIN = ''configuration''"
| "domain_name PROVIDERS_DOMAIN = ''providers''"

definition INVALIDATION_PROTOCOL_VERSION :: rat where
  "INVALIDATION_PROTOCOL_VERSION = 1"

record inv_entry =
  nvKey :: string
  nvScope :: string
  nvScopeId :: string

record inv_message =
  nmOrigin :: string
  nmDomain :: inv_domain
  nmEntry :: "inv_entry option"

datatype parsed_invalidation = Parsed inv_message | Unintelligible

definition entry_json :: "inv_entry option \<Rightarrow> json" where
  "entry_json e = (case e of None \<Rightarrow> JNull
     | Some x \<Rightarrow> JObj [(''key'', JStr (nvKey x)), (''scope'', JStr (nvScope x)), (''scopeId'', JStr (nvScopeId x))])"

definition serializeInvalidationMessage :: "inv_message \<Rightarrow> json" where
  "serializeInvalidationMessage m = JObj [(''v'', JNum INVALIDATION_PROTOCOL_VERSION),
     (''origin'', JStr (nmOrigin m)), (''domain'', JStr (domain_name (nmDomain m))), (''entry'', entry_json (nmEntry m))]"

text \<open>The schemas: a required non-empty string, the entry, the message.\<close>

definition text_field :: "(string \<times> json) list \<Rightarrow> string \<Rightarrow> nat \<Rightarrow> string option" where
  "text_field kvs k least = (case map_of kvs k of
     Some (JStr s) \<Rightarrow> (if least \<le> length s then Some s else None) | _ \<Rightarrow> None)"

definition entrySchema :: "json \<Rightarrow> inv_entry option" where
  "entrySchema j = (case j of
     JObj kvs \<Rightarrow> (case (text_field kvs ''key'' 1, text_field kvs ''scope'' 1, text_field kvs ''scopeId'' 0) of
        (Some k, Some s, Some i) \<Rightarrow> Some \<lparr>nvKey = k, nvScope = s, nvScopeId = i\<rparr>
      | _ \<Rightarrow> None)
   | _ \<Rightarrow> None)"

definition nullable_entry :: "json \<Rightarrow> inv_entry option option" where
  "nullable_entry j = (if j = JNull then Some None else map_option Some (entrySchema j))"

definition domain_field :: "(string \<times> json) list \<Rightarrow> inv_domain option" where
  "domain_field kvs = (case map_of kvs ''domain'' of
     Some (JStr s) \<Rightarrow> List.find (\<lambda>d. domain_name d = s) INVALIDATION_DOMAINS | _ \<Rightarrow> None)"

definition messageSchema :: "json \<Rightarrow> inv_message option" where
  "messageSchema j = (case j of
     JObj kvs \<Rightarrow>
       if map_of kvs ''v'' \<noteq> Some (JNum INVALIDATION_PROTOCOL_VERSION) then None
       else (case (text_field kvs ''origin'' 1, domain_field kvs, Option.bind (map_of kvs ''entry'') nullable_entry) of
          (Some origin, Some d, Some e) \<Rightarrow> Some \<lparr>nmOrigin = origin, nmDomain = d, nmEntry = e\<rparr>
        | _ \<Rightarrow> None)
   | _ \<Rightarrow> None)"

definition parseInvalidationMessage :: "json option \<Rightarrow> parsed_invalidation" where
  "parseInvalidationMessage raw = (case Option.bind raw messageSchema of
     None \<Rightarrow> Unintelligible | Some m \<Rightarrow> Parsed m)"

section \<open>The bus\<close>

record inv_bus =
  bsInstanceId :: string
  bsHandlers :: "inv_domain \<Rightarrow> id list"
  bsEverSubscribed :: bool
  bsUnannounced :: "inv_domain list"
  bsReportedDisconnect :: bool
  bsShuttingDown :: bool

definition new_bus :: "string \<Rightarrow> inv_bus" where
  "new_bus i = \<lparr>bsInstanceId = i, bsHandlers = (\<lambda>_. []), bsEverSubscribed = False, bsUnannounced = [],
     bsReportedDisconnect = False, bsShuttingDown = False\<rparr>"

type_synonym handler_call = "id \<times> inv_entry option"

definition subscribe :: "inv_bus \<Rightarrow> inv_domain \<Rightarrow> id \<Rightarrow> inv_bus" where
  "subscribe b d h = b\<lparr>bsHandlers := (bsHandlers b)(d := bsHandlers b d @ [h])\<rparr>"

definition message_of :: "inv_bus \<Rightarrow> inv_domain \<Rightarrow> inv_entry option \<Rightarrow> inv_message" where
  "message_of b d e = \<lparr>nmOrigin = bsInstanceId b, nmDomain = d, nmEntry = e\<rparr>"

text \<open>\<open>send\<close> answers whether it failed; what it puts on the channel is the result here.\<close>

definition send :: "inv_bus \<Rightarrow> bool \<Rightarrow> inv_domain \<Rightarrow> inv_entry option \<Rightarrow> inv_message list" where
  "send b up d e = (if up then [message_of b d e] else [])"

definition publish :: "inv_bus \<Rightarrow> bool \<Rightarrow> inv_domain \<Rightarrow> inv_entry option \<Rightarrow> inv_bus \<times> inv_message list" where
  "publish b up d e = (if up then (b, send b up d e)
     else (b\<lparr>bsUnannounced := add_new (bsUnannounced b) [d]\<rparr>, []))"

fun announce_loop :: "(inv_domain \<Rightarrow> bool) \<Rightarrow> inv_domain list \<Rightarrow> inv_bus \<Rightarrow> inv_bus \<times> inv_message list" where
  "announce_loop up [] b = (b, [])"
| "announce_loop up (d # ds) b =
     (if up d then (case announce_loop up ds b of (b', ms) \<Rightarrow> (b', send b True d None @ ms))
      else (b\<lparr>bsUnannounced := add_new (bsUnannounced b) (d # ds)\<rparr>, []))"

definition announceMissed :: "inv_bus \<Rightarrow> (inv_domain \<Rightarrow> bool) \<Rightarrow> inv_bus \<times> inv_message list" where
  "announceMissed b up =
     (if bsShuttingDown b \<or> bsUnannounced b = [] then (b, [])
      else announce_loop up (bsUnannounced b) (b\<lparr>bsUnannounced := []\<rparr>))"

text \<open>A handler that throws is reported and the next one called.\<close>

definition dispatch :: "inv_bus \<Rightarrow> inv_domain \<Rightarrow> inv_entry option \<Rightarrow> handler_call list" where
  "dispatch b d e = map (\<lambda>h. (h, e)) (bsHandlers b d)"

definition dispatchEverything :: "inv_bus \<Rightarrow> handler_call list" where
  "dispatchEverything b = concat (map (\<lambda>d. dispatch b d None) INVALIDATION_DOMAINS)"

definition establish :: "inv_bus \<Rightarrow> bool \<Rightarrow> inv_bus \<times> handler_call list" where
  "establish b subscribed =
     (if bsShuttingDown b then (b, [])
      else if \<not> subscribed then (b, [])
      else let isReconnect = bsEverSubscribed b; b' = b\<lparr>bsEverSubscribed := True, bsReportedDisconnect := False\<rparr>
           in if isReconnect then (b', dispatchEverything b') else (b', []))"

definition receive_message :: "inv_bus \<Rightarrow> json option \<Rightarrow> handler_call list" where
  "receive_message b raw = (case parseInvalidationMessage raw of
     Unintelligible \<Rightarrow> dispatchEverything b
   | Parsed m \<Rightarrow> if nmOrigin m = bsInstanceId b then [] else dispatch b (nmDomain m) (nmEntry m))"

definition reportConnectionError :: "inv_bus \<Rightarrow> inv_bus" where
  "reportConnectionError b = (if bsReportedDisconnect b \<or> bsShuttingDown b then b else b\<lparr>bsReportedDisconnect := True\<rparr>)"

definition onApplicationShutdown :: "inv_bus \<Rightarrow> inv_bus" where
  "onApplicationShutdown b = b\<lparr>bsShuttingDown := True\<rparr>"

section \<open>The configuration service's subscriber\<close>

definition scope_name :: "config_scope \<Rightarrow> string" where
  "scope_name s = (case s of GLOBAL \<Rightarrow> ''GLOBAL'' | PROVIDER \<Rightarrow> ''PROVIDER'')"

definition CONFIG_HANDLER :: id where
  "CONFIG_HANDLER = 2"

text \<open>A scope of another name addresses no entry; the generation moves all the same.\<close>

definition handle_configuration :: "inv_entry option \<Rightarrow> config_cache \<Rightarrow> config_cache" where
  "handle_configuration e c = (case e of
     None \<Rightarrow> invalidateAll c
   | Some x \<Rightarrow> if nvScope x = scope_name GLOBAL then invalidate c (nvKey x) GLOBAL (nvScopeId x)
       else if nvScope x = scope_name PROVIDER then invalidate c (nvKey x) PROVIDER (nvScopeId x)
       else c\<lparr>ccGeneration := ccGeneration c + 1\<rparr>)"

definition run_handlers :: "handler_call list \<Rightarrow> config_cache \<Rightarrow> config_cache" where
  "run_handlers calls c = foldl (\<lambda>c (h, e). if h = CONFIG_HANDLER then handle_configuration e c else c) c calls"

definition entry_for :: "string \<Rightarrow> config_scope \<Rightarrow> string \<Rightarrow> inv_entry" where
  "entry_for key scope scopeId = \<lparr>nvKey = key, nvScope = scope_name scope, nvScopeId = scopeId\<rparr>"

definition invalidateAndBroadcast :: "inv_bus \<Rightarrow> bool \<Rightarrow> config_cache \<Rightarrow> string \<Rightarrow> config_scope \<Rightarrow> string
    \<Rightarrow> inv_bus \<times> config_cache \<times> inv_message list" where
  "invalidateAndBroadcast b up c key scope scopeId =
     (case publish b up CONFIGURATION_DOMAIN (Some (entry_for key scope scopeId)) of
        (b', ms) \<Rightarrow> (b', invalidate c key scope scopeId, ms))"

section \<open>Messages survive the wire\<close>

definition sendable :: "inv_message \<Rightarrow> bool" where
  "sendable m \<longleftrightarrow> nmOrigin m \<noteq> [] \<and> (case nmEntry m of None \<Rightarrow> True | Some e \<Rightarrow> nvKey e \<noteq> [] \<and> nvScope e \<noteq> [])"

lemma domain_found [simp]: "List.find (\<lambda>d. domain_name d = domain_name x) INVALIDATION_DOMAINS = Some x"
  by (cases x) (simp_all add: INVALIDATION_DOMAINS_def)

lemma least_one: "s \<noteq> [] \<Longrightarrow> Suc 0 \<le> length s"
  by (cases s) simp_all

lemma message_round_trip:
  assumes "sendable m"
  shows "parseInvalidationMessage (Some (serializeInvalidationMessage m)) = Parsed m"
proof -
  have "nullable_entry (entry_json (nmEntry m)) = Some (nmEntry m)"
    using assms
    by (cases "nmEntry m") (auto simp: sendable_def nullable_entry_def entry_json_def entrySchema_def text_field_def
        dest: least_one)
  then show ?thesis
    using assms
    by (simp add: parseInvalidationMessage_def serializeInvalidationMessage_def messageSchema_def text_field_def
        domain_field_def sendable_def least_one)
qed

text \<open>A write reaches every process: the message its broadcast puts on the channel, received by a
  process other than the sender, drops exactly the written entry there and voids every read in
  flight; the sender ignores its own message; and anything a build cannot read, a message of another
  protocol version included, drops every entry.\<close>

theorem broadcast_drops_the_entry:
  assumes "invalidateAndBroadcast b True c key scope scopeId = (b', c', ms)"
    and "key \<noteq> []" and "bsInstanceId b \<noteq> []" and "bsHandlers other CONFIGURATION_DOMAIN = [CONFIG_HANDLER]"
    and "bsHandlers other PROVIDERS_DOMAIN = []"
  shows "\<exists>m. ms = [m] \<and> receive_message b (Some (serializeInvalidationMessage m)) = []
    \<and> (bsInstanceId other \<noteq> bsInstanceId b \<longrightarrow>
        run_handlers (receive_message other (Some (serializeInvalidationMessage m))) cache = invalidate cache key scope scopeId)
    \<and> (parseInvalidationMessage raw = Unintelligible \<longrightarrow>
        run_handlers (receive_message other raw) cache = invalidateAll cache)"
proof -
  let ?m = "message_of b CONFIGURATION_DOMAIN (Some (entry_for key scope scopeId))"
  have "sendable ?m"
    using assms(2,3) by (cases scope) (simp_all add: sendable_def message_of_def entry_for_def scope_name_def)
  note wire = message_round_trip [OF this]
  have "ms = [?m]" using assms(1) by (auto simp: invalidateAndBroadcast_def publish_def send_def)
  moreover have "receive_message b (Some (serializeInvalidationMessage ?m)) = []"
    by (simp add: receive_message_def wire) (simp add: message_of_def)
  moreover have "run_handlers (receive_message other (Some (serializeInvalidationMessage ?m))) cache
      = invalidate cache key scope scopeId" if "bsInstanceId other \<noteq> bsInstanceId b"
    using that assms(4)
    by (simp add: receive_message_def wire) (cases scope; simp add: message_of_def dispatch_def run_handlers_def
        handle_configuration_def entry_for_def scope_name_def)
  moreover have "run_handlers (receive_message other raw) cache = invalidateAll cache"
    if "parseInvalidationMessage raw = Unintelligible"
    using that assms(4,5)
    by (simp add: receive_message_def dispatchEverything_def INVALIDATION_DOMAINS_def dispatch_def run_handlers_def
        handle_configuration_def)
  ultimately show ?thesis by blast
qed

section \<open>A broadcast that could not be sent\<close>

text \<open>What a run of the bus's outgoing half leaves on record: a domain whose broadcast was lost, or one
  announced as a whole.\<close>

datatype bus_event = Publish inv_domain "inv_entry option" bool | PublisherReady "inv_domain \<Rightarrow> bool"

datatype bus_note = Lost inv_domain | Announced inv_domain

definition notes_of :: "inv_message list \<Rightarrow> bus_note list" where
  "notes_of ms = map (\<lambda>m. Announced (nmDomain m)) (filter (\<lambda>m. nmEntry m = None) ms)"

fun bus_step :: "inv_bus \<times> bus_note list \<Rightarrow> bus_event \<Rightarrow> inv_bus \<times> bus_note list" where
  "bus_step (b, notes) (Publish d e up) = (case publish b up d e of
     (b', ms) \<Rightarrow> (b', notes @ notes_of ms @ (if up then [] else [Lost d])))"
| "bus_step (b, notes) (PublisherReady up) = (case announceMissed b up of (b', ms) \<Rightarrow> (b', notes @ notes_of ms))"

definition run_bus :: "string \<Rightarrow> bus_event list \<Rightarrow> inv_bus \<times> bus_note list" where
  "run_bus i events = foldl bus_step (new_bus i, []) events"

text \<open>A domain is owed an announcement when its last loss comes after its last announcement.\<close>

fun owed :: "inv_domain \<Rightarrow> bus_note list \<Rightarrow> bool" where
  "owed d [] = False"
| "owed d (Lost x # notes) = (if x = d \<and> Announced d \<notin> set notes then True else owed d notes)"
| "owed d (Announced x # notes) = owed d notes"

lemma owed_append: "owed d (xs @ ys) \<longleftrightarrow> owed d ys \<or> (owed d xs \<and> Announced d \<notin> set ys)"
proof (induction xs)
  case (Cons n xs)
  then show ?case by (cases n) auto
qed simp

lemma owed_notes_of [simp]: "\<not> owed d (notes_of ms)"
  by (induction ms) (auto simp: notes_of_def)

lemma notes_of_append: "notes_of (xs @ ys) = notes_of xs @ notes_of ys"
  by (simp add: notes_of_def)

lemma announce_loop_effect:
  assumes "announce_loop up ds b = (b', ms)" and "bsUnannounced b = []" and "distinct ds"
  shows "set (bsUnannounced b') = {d \<in> set ds. Announced d \<notin> set (notes_of ms)}
    \<and> set (notes_of ms) \<subseteq> Announced ` set ds \<and> bsShuttingDown b' = bsShuttingDown b \<and> distinct (bsUnannounced b')"
  using assms
proof (induction up ds b arbitrary: b' ms rule: announce_loop.induct)
  case (1 up b)
  then show ?case by (simp add: notes_of_def)
next
  case (2 up d ds b)
  show ?case
  proof (cases "up d")
    case False
    then show ?thesis using "2.prems" by (auto simp: add_new_set add_new_distinct notes_of_def)
  next
    case True
    then obtain b2 ms2 where r: "announce_loop up ds b = (b2, ms2)" "b' = b2" "ms = send b True d None @ ms2"
      using "2.prems"(1) by (auto split: prod.splits)
    have "notes_of (send b True d None) = [Announced d]"
      by (simp add: send_def notes_of_def message_of_def)
    then show ?thesis
      using "2.IH" [OF True r(1) "2.prems"(2)] "2.prems"(3) r by (auto simp: notes_of_append)
  qed
qed

definition nothing_forgotten :: "inv_bus \<times> bus_note list \<Rightarrow> bool" where
  "nothing_forgotten s \<longleftrightarrow> \<not> bsShuttingDown (fst s) \<and> distinct (bsUnannounced (fst s))
     \<and> (\<forall>d. owed d (snd s) \<longrightarrow> d \<in> set (bsUnannounced (fst s)))"

lemma bus_step_forgets_nothing:
  assumes "nothing_forgotten s"
  shows "nothing_forgotten (bus_step s x)"
proof -
  obtain b ns where s: "s = (b, ns)" by fastforce
  have b: "\<not> bsShuttingDown b" "distinct (bsUnannounced b)" "\<And>d. owed d ns \<Longrightarrow> d \<in> set (bsUnannounced b)"
    using assms by (auto simp: nothing_forgotten_def s)
  show ?thesis
  proof (cases x)
    case (Publish d e up)
    have "owed d' [Lost d] \<longleftrightarrow> d = d'" for d' by simp
    then show ?thesis
      using b Publish
      by (auto simp: s nothing_forgotten_def publish_def send_def owed_append notes_of_def add_new_set
          add_new_distinct split: if_splits)
  next
    case (PublisherReady up)
    obtain b' ms where r: "announceMissed b up = (b', ms)" by fastforce
    show ?thesis
    proof (cases "bsUnannounced b = []")
      case True
      then show ?thesis using r b PublisherReady
        by (auto simp: s nothing_forgotten_def announceMissed_def notes_of_def)
    next
      case False
      then have "announce_loop up (bsUnannounced b) (b\<lparr>bsUnannounced := []\<rparr>) = (b', ms)"
        using r b(1) by (simp add: announceMissed_def)
      from announce_loop_effect [OF this _ b(2)] show ?thesis
        using b r PublisherReady by (auto simp: s nothing_forgotten_def owed_append)
    qed
  qed
qed

lemma run_bus_forgets_nothing: "nothing_forgotten (run_bus i events)"
proof -
  have "nothing_forgotten s \<Longrightarrow> nothing_forgotten (foldl bus_step s events)" for s
    by (induction events arbitrary: s) (simp_all add: bus_step_forgets_nothing)
  moreover have "nothing_forgotten (new_bus i, [])" by (simp add: nothing_forgotten_def new_bus_def)
  ultimately show ?thesis by (simp add: run_bus_def)
qed

lemma announce_loop_all: "(\<And>d. up d) \<Longrightarrow> announce_loop up ds b = (b, map (\<lambda>d. message_of b d None) ds)"
  by (induction ds) (simp_all add: send_def)

lemma announceMissed_all:
  assumes "\<not> bsShuttingDown b" and "\<And>d. up d"
  shows "announceMissed b up = (b\<lparr>bsUnannounced := []\<rparr>, map (\<lambda>d. message_of b d None) (bsUnannounced b))"
proof (cases "bsUnannounced b")
  case Nil
  then have "b\<lparr>bsUnannounced := []\<rparr> = b" by (cases b) simp
  then show ?thesis using Nil by (simp add: announceMissed_def)
next
  case (Cons d ds)
  then show ?thesis
    using assms(1) announce_loop_all [OF assms(2)]
    by (simp add: announceMissed_def message_of_def)
qed

text \<open>A lost broadcast is always made up for: after any run of broadcasts and recoveries, each of
  which may fail, a recovery whose sends succeed announces every domain that had a broadcast lost
  since its last announcement, and leaves nothing to announce.\<close>

theorem lost_broadcasts_are_announced:
  assumes "owed d (snd (run_bus i events))"
  shows "\<exists>b' ms. announceMissed (fst (run_bus i events)) (\<lambda>_. True) = (b', ms) \<and> bsUnannounced b' = []
    \<and> (\<exists>m\<in>set ms. nmDomain m = d \<and> nmEntry m = None \<and> nmOrigin m = bsInstanceId (fst (run_bus i events)))"
proof -
  have "\<not> bsShuttingDown (fst (run_bus i events))" "d \<in> set (bsUnannounced (fst (run_bus i events)))"
    using run_bus_forgets_nothing [of i events] assms by (auto simp: nothing_forgotten_def)
  then show ?thesis
    using announceMissed_all [of "fst (run_bus i events)" "\<lambda>_. True"] by (auto simp: message_of_def)
qed

section \<open>The first subscription\<close>

text \<open>A subscription that comes after a disconnect drops every cached entry, but the first one drops
  nothing, however late it comes: what a process cached while it could not reach the channel, and
  what another process changed meanwhile, stays cached.\<close>

theorem first_subscription_keeps_the_cache:
  assumes "\<not> bsShuttingDown b" and "bsHandlers b CONFIGURATION_DOMAIN = [CONFIG_HANDLER]"
    and "bsHandlers b PROVIDERS_DOMAIN = []"
  shows "run_handlers (snd (establish b True)) c = (if bsEverSubscribed b then invalidateAll c else c)
    \<and> bsEverSubscribed (fst (establish b True))"
  using assms
  by (simp add: establish_def dispatchEverything_def INVALIDATION_DOMAINS_def dispatch_def run_handlers_def
      handle_configuration_def Let_def)

text \<open>The process that boots without the channel, reads a setting, and connects after the setting was
  changed elsewhere.\<close>

definition demo_bus :: inv_bus where
  "demo_bus = subscribe (new_bus ''b'') CONFIGURATION_DOMAIN CONFIG_HANDLER"

lemma first_subscription_keeps_the_cache_witness:
  "\<exists>c. c = fst (readStored [] empty_cache ''fraud.enabled'' GLOBAL [] FRAUD_ENABLED)
    \<and> snd (readStored (dbRows demo_db) (run_handlers (snd (establish demo_bus True)) c) ''fraud.enabled'' GLOBAL [] FRAUD_ENABLED) = None
    \<and> query_stored (dbRows demo_db) FRAUD_ENABLED ''fraud.enabled'' GLOBAL [] = Some (JBool False)"
proof -
  let ?c = "fst (readStored [] empty_cache ''fraud.enabled'' GLOBAL [] FRAUD_ENABLED)"
  have b: "\<not> bsShuttingDown demo_bus" "bsHandlers demo_bus CONFIGURATION_DOMAIN = [CONFIG_HANDLER]"
    "bsHandlers demo_bus PROVIDERS_DOMAIN = []" "\<not> bsEverSubscribed demo_bus"
    by (simp_all add: demo_bus_def subscribe_def new_bus_def)
  have "run_handlers (snd (establish demo_bus True)) ?c = ?c"
    using first_subscription_keeps_the_cache [OF b(1-3)] b(4) by simp
  moreover have "snd (readStored (dbRows demo_db) ?c ''fraud.enabled'' GLOBAL [] FRAUD_ENABLED) = None"
    by (simp add: readStored_def empty_cache_def query_stored_def findStored_def remember_def cacheKey_def Let_def)
  moreover have "query_stored (dbRows demo_db) FRAUD_ENABLED ''fraud.enabled'' GLOBAL [] = Some (JBool False)"
    by (simp add: query_stored_def findStored_def demo_db_def at_entry_def FRAUD_ENABLED_def boolean_schema_def)
  ultimately show ?thesis by simp
qed

lemma lost_broadcasts_are_announced_witness:
  "\<exists>b' ms. announceMissed (fst (run_bus ''a'' [Publish CONFIGURATION_DOMAIN None False, PublisherReady (\<lambda>_. False)]))
      (\<lambda>_. True) = (b', ms) \<and> bsUnannounced b' = [] \<and> (\<exists>m\<in>set ms. nmDomain m = CONFIGURATION_DOMAIN)"
proof -
  have "owed CONFIGURATION_DOMAIN (snd (run_bus ''a'' [Publish CONFIGURATION_DOMAIN None False, PublisherReady (\<lambda>_. False)]))"
    by code_simp
  from lost_broadcasts_are_announced [OF this] show ?thesis by blast
qed

lemma broadcast_drops_the_entry_witness:
  "\<exists>b' c' m. invalidateAndBroadcast (new_bus ''a'') True empty_cache ''fraud.enabled'' GLOBAL [] = (b', c', [m])
    \<and> run_handlers (receive_message demo_bus (Some (serializeInvalidationMessage m))) empty_cache
        = invalidate empty_cache ''fraud.enabled'' GLOBAL []"
proof -
  have b: "bsHandlers demo_bus CONFIGURATION_DOMAIN = [CONFIG_HANDLER]" "bsHandlers demo_bus PROVIDERS_DOMAIN = []"
    "bsInstanceId demo_bus \<noteq> bsInstanceId (new_bus ''a'')" "bsInstanceId (new_bus ''a'') \<noteq> []"
    by (simp_all add: demo_bus_def subscribe_def new_bus_def)
  obtain b' c' ms where i: "invalidateAndBroadcast (new_bus ''a'') True empty_cache ''fraud.enabled'' GLOBAL [] = (b', c', ms)"
    by (cases "invalidateAndBroadcast (new_bus ''a'') True empty_cache ''fraud.enabled'' GLOBAL []")
  show ?thesis
    using broadcast_drops_the_entry [OF i _ b(4,1,2), of empty_cache None] b(3) i by auto
qed

end
