(* ===== verification/AdminAudit.thy ===== *)
theory AdminAudit
  imports Invalidation
begin

text \<open>
  The audit log of administrative actions: \<^verbatim>\<open>modules/admin/admin-audit.service.ts\<close> with the action
  vocabulary of \<^verbatim>\<open>packages/contracts/src/admin.ts\<close>. Rows are only ever appended; the ids of the
  rows are left out, because nothing reads them.
\<close>

datatype (plugins only: code size) admin_action =
    USER_STATUS_CHANGED | USER_ROLE_CHANGED | USER_SESSIONS_REVOKED | CONFIGURATION_CHANGED
  | PROVIDER_CREATED | PROVIDER_UPDATED | PROVIDER_ENABLED | PROVIDER_DISABLED_ACTION | PROVIDER_HEALTH_RESET
  | OFFER_ACTIVATED | OFFER_DEACTIVATED | CATALOG_SYNC_REQUESTED
  | PAYOUT_APPROVED | PAYOUT_REJECTED | PAYOUT_SETTLED | PAYOUT_FAILED | PAYOUT_DESTINATION_VIEWED
  | CONVERSION_HOLD_CLEARED | CONVERSION_HOLD_CONFIRMED

fun admin_action_name :: "admin_action \<Rightarrow> string" where
  "admin_action_name USER_STATUS_CHANGED = ''user.status_changed''"
| "admin_action_name USER_ROLE_CHANGED = ''user.role_changed''"
| "admin_action_name USER_SESSIONS_REVOKED = ''user.sessions_revoked''"
| "admin_action_name CONFIGURATION_CHANGED = ''configuration.changed''"
| "admin_action_name PROVIDER_CREATED = ''provider.created''"
| "admin_action_name PROVIDER_UPDATED = ''provider.updated''"
| "admin_action_name PROVIDER_ENABLED = ''provider.enabled''"
| "admin_action_name PROVIDER_DISABLED_ACTION = ''provider.disabled''"
| "admin_action_name PROVIDER_HEALTH_RESET = ''provider.health_reset''"
| "admin_action_name OFFER_ACTIVATED = ''offer.activated''"
| "admin_action_name OFFER_DEACTIVATED = ''offer.deactivated''"
| "admin_action_name CATALOG_SYNC_REQUESTED = ''catalog.sync_requested''"
| "admin_action_name PAYOUT_APPROVED = ''payout.approved''"
| "admin_action_name PAYOUT_REJECTED = ''payout.rejected''"
| "admin_action_name PAYOUT_SETTLED = ''payout.settled''"
| "admin_action_name PAYOUT_FAILED = ''payout.failed''"
| "admin_action_name PAYOUT_DESTINATION_VIEWED = ''payout.destination_viewed''"
| "admin_action_name CONVERSION_HOLD_CLEARED = ''conversion.hold_cleared''"
| "admin_action_name CONVERSION_HOLD_CONFIRMED = ''conversion.hold_confirmed''"

text \<open>What an entry is about: the id of a row, or the text naming a configuration entry (which holds
  an \<open>@\<close>, so it is no row's id).\<close>

datatype audit_target = RowTarget id | TextTarget string

record admin_context =
  acAdminId :: id
  acIp :: "string option"

record audit_entry =
  aeAdminId :: id
  aeAction :: admin_action
  aeTargetType :: string
  aeTargetId :: "audit_target option"
  aeBefore :: "json option"
  aeAfter :: "json option"
  aeReason :: "string option"
  aeIp :: "string option"

record audit_row = audit_entry +
  auCreatedAt :: millis

text \<open>\<open>toJson\<close>: an absent value and a JSON null are both stored as SQL NULL.\<close>

definition audit_json :: "json option \<Rightarrow> json option" where
  "audit_json v = (case v of None \<Rightarrow> None | Some j \<Rightarrow> if j = JNull then None else Some j)"

definition audit_row_of :: "audit_entry \<Rightarrow> millis \<Rightarrow> audit_row" where
  "audit_row_of e now = \<lparr>aeAdminId = aeAdminId e, aeAction = aeAction e,
     aeTargetType = aeTargetType e, aeTargetId = aeTargetId e, aeBefore = audit_json (aeBefore e),
     aeAfter = audit_json (aeAfter e), aeReason = aeReason e, aeIp = aeIp e, auCreatedAt = now\<rparr>"

definition record_audit :: "audit_row list \<Rightarrow> audit_entry \<Rightarrow> millis \<Rightarrow> audit_row list" where
  "record_audit rows e now = rows @ [audit_row_of e now]"

record audit_query =
  aqAdminId :: "id option"
  aqTargetType :: "string option"
  aqTargetId :: "audit_target option"
  aqAction :: "string option"
  aqLimit :: "int option"
  aqOffset :: "int option"

text \<open>The view of a row: everything but the address.\<close>

record audit_log_entry =
  alAdminId :: id
  alAction :: string
  alTargetType :: string
  alTargetId :: "audit_target option"
  alBefore :: "json option"
  alAfter :: "json option"
  alReason :: "string option"
  alCreatedAt :: millis

definition audit_view :: "audit_row \<Rightarrow> audit_log_entry" where
  "audit_view r = \<lparr>alAdminId = aeAdminId r, alAction = admin_action_name (aeAction r),
     alTargetType = aeTargetType r, alTargetId = aeTargetId r, alBefore = aeBefore r, alAfter = aeAfter r,
     alReason = aeReason r, alCreatedAt = auCreatedAt r\<rparr>"

definition audit_matches :: "audit_query \<Rightarrow> audit_row \<Rightarrow> bool" where
  "audit_matches q r \<longleftrightarrow> by_filter (aqAdminId q) (\<lambda>a. aeAdminId r = a)
     \<and> by_filter (truthy (aqTargetType q)) (\<lambda>t. aeTargetType r = t)
     \<and> by_filter (case aqTargetId q of Some (TextTarget []) \<Rightarrow> None | t \<Rightarrow> t) (\<lambda>t. aeTargetId r = Some t)
     \<and> by_filter (truthy (aqAction q)) (\<lambda>a. admin_action_name (aeAction r) = a)"

definition find_audit :: "audit_row list \<Rightarrow> audit_query \<Rightarrow> audit_log_entry paginated" where
  "find_audit rows q = page (clampLimit 50 200 (aqLimit q)) (clampOffset (aqOffset q))
     (map audit_view (sort_by (\<lambda>a b. auCreatedAt a \<ge> auCreatedAt b) (filter (audit_matches q) rows)))"

lemma list_all2_snoc [simp]: "list_all2 p (xs @ [x]) (ys @ [y]) \<longleftrightarrow> list_all2 p xs ys \<and> p x y"
  by (subst list_all2_rev [symmetric]) auto

end
