(* ===== verification/AdminConfig.thy ===== *)
theory AdminConfig
  imports AdminAudit
begin

text \<open>
  Configuration by an administrator: \<^verbatim>\<open>modules/admin/admin-configuration.service.ts\<close>. A change is
  checked against the version its author read, written and audited in one transaction, and then
  invalidated and broadcast. A transaction that throws leaves no trace.
\<close>

section \<open>The state an administrator's request sees\<close>

record config_admin =
  caDb :: config_db
  caCache :: config_cache
  caBus :: inv_bus
  caSent :: "inv_message list"
  caAudit :: "audit_row list"

text \<open>
  The version a caller claims to have read: nothing said, nothing stored, or a timestamp. A
  timestamp is either the text \<open>toISOString\<close> gives for an instant, or some other spelling,
  which equals no such text.
\<close>

datatype iso_text = Iso millis | OtherText string

type_synonym expectation = "iso_text option option"

record admin_write =
  awScope :: "config_scope option"
  awScopeId :: "string option"
  awReason :: string
  awExpected :: expectation

section \<open>Checks before the transaction\<close>

definition requireAdminDefinition :: "key_definition list \<Rightarrow> string \<Rightarrow> key_definition result" where
  "requireAdminDefinition defs key = (case getDefinition defs key of
     None \<Rightarrow> Inl (DomainError CONFIG_UNKNOWN_KEY 404) | Some d \<Rightarrow> Inr d)"

text \<open>An empty scope id counts as none. \<open>idText\<close> renders a provider's id.\<close>

definition assertScopeTargetExists :: "(id \<Rightarrow> string) \<Rightarrow> provider list \<Rightarrow> config_scope \<Rightarrow> string option
    \<Rightarrow> unit result" where
  "assertScopeTargetExists idText providers scope scopeId =
     (if scope \<noteq> PROVIDER then
        (if truthy scopeId \<noteq> None then Inl (ValidationError [''scopeId'']) else Inr ())
      else (case truthy scopeId of
          None \<Rightarrow> Inl (ValidationError [''scopeId''])
        | Some s \<Rightarrow> (case List.find (\<lambda>p. idText (prId p) = s) providers of
            None \<Rightarrow> Inl (DomainError PROVIDER_NOT_FOUND 404) | Some _ \<Rightarrow> Inr ())))"

definition scopeIdFor :: "config_scope \<Rightarrow> string option \<Rightarrow> string" where
  "scopeIdFor scope scopeId = (if scope = GLOBAL then GLOBAL_SCOPE_ID
     else (case scopeId of None \<Rightarrow> [] | Some s \<Rightarrow> s))"

definition auditTargetId :: "string \<Rightarrow> config_scope \<Rightarrow> string \<Rightarrow> string" where
  "auditTargetId key scope scopeId =
     (if scopeId = GLOBAL_SCOPE_ID then key @ ''@'' @ scope_name scope
      else key @ ''@'' @ scope_name scope @ '':'' @ scopeId)"

section \<open>The precondition of a write\<close>

definition assertNotStale :: "config_row list \<Rightarrow> string \<Rightarrow> config_scope \<Rightarrow> string \<Rightarrow> expectation \<Rightarrow> unit result" where
  "assertNotStale rows key scope scopeId expectedAt = (case expectedAt of
     None \<Rightarrow> Inr ()
   | Some e \<Rightarrow>
       let current = map_option (\<lambda>r. Iso (cwUpdatedAt r)) (findStored rows key scope scopeId)
       in if current = e then Inr () else Inl (DomainError CONFIG_STALE_WRITE 409))"

section \<open>Views\<close>

record key_summary =
  ksKey :: string
  ksDescription :: string
  ksValueType :: value_type
  ksScopes :: "config_scope list"
  ksDefaultValue :: json
  ksEffectiveValue :: json
  ksSource :: config_source
  ksOverrideCount :: nat

definition toKeySummary :: "config_db \<Rightarrow> config_cache \<Rightarrow> key_definition \<Rightarrow> config_cache \<times> key_summary" where
  "toKeySummary db c d = (case resolve_defined (dbRows db) c d (kdKey d) None of
     (c', effective) \<Rightarrow> (c', \<lparr>ksKey = kdKey d, ksDescription = kdDescription d, ksValueType = kdValueType d,
       ksScopes = kdScopes d, ksDefaultValue = kdDefault d, ksEffectiveValue = rcValue effective,
       ksSource = rcSource effective, ksOverrideCount = rnProvider (overrideCounts db (kdKey d))\<rparr>))"

fun summaries :: "config_db \<Rightarrow> config_cache \<Rightarrow> key_definition list \<Rightarrow> config_cache \<times> key_summary list" where
  "summaries db c [] = (c, [])"
| "summaries db c (d # ds) = (case toKeySummary db c d of
     (c', s) \<Rightarrow> (case summaries db c' ds of (c'', ss) \<Rightarrow> (c'', s # ss)))"

definition matchesSearch :: "key_definition \<Rightarrow> string option \<Rightarrow> bool" where
  "matchesSearch d search = (case truthy search of
     None \<Rightarrow> True
   | Some s \<Rightarrow> let needle = js_lower (js_trim s) in
       has_substring needle (js_lower (kdKey d)) \<or> has_substring needle (js_lower (kdDescription d)))"

text \<open>The list, in the order of the host's collation, which is an argument.\<close>

definition listKeys :: "(string \<Rightarrow> string \<Rightarrow> bool) \<Rightarrow> key_definition list \<Rightarrow> config_db \<Rightarrow> config_cache
    \<Rightarrow> string option \<Rightarrow> bool \<Rightarrow> config_cache \<times> key_summary list \<times> nat" where
  "listKeys collate defs db c search overriddenOnly =
     (let shown = sort_by (\<lambda>a b. collate (kdKey a) (kdKey b)) (filter (\<lambda>d. matchesSearch d search
            \<and> (\<not> overriddenOnly \<or> rnStored (overrideCounts db (kdKey d)) > 0)) defs)
      in (case summaries db c shown of (c', ss) \<Rightarrow> (c', ss, length ss)))"

record key_detail =
  kvSummary :: key_summary
  kvOverrides :: "stored_value list"
  kvHistory :: "config_history list"
  kvResolved :: "(string \<times> json \<times> config_source) option"

definition keyDetail :: "key_definition list \<Rightarrow> config_db \<Rightarrow> config_cache \<Rightarrow> string \<Rightarrow> string option
    \<Rightarrow> config_cache \<times> key_detail result" where
  "keyDetail defs db c key scopeId = (case requireAdminDefinition defs key of
     Inl e \<Rightarrow> (c, Inl e)
   | Inr d \<Rightarrow> (case toKeySummary db c d of (c1, summary) \<Rightarrow>
       (case storedValues defs db key of
          Inl e \<Rightarrow> (c1, Inl e)
        | Inr stored \<Rightarrow>
           (let answer = (\<lambda>r. Inr \<lparr>kvSummary = summary, kvOverrides = stored,
                  kvHistory = history_of db key (Some 50) None None, kvResolved = r\<rparr>)
            in case scopeId of
              None \<Rightarrow> (c1, answer None)
            | Some s \<Rightarrow> (case resolve defs (dbRows db) c1 key (Some s) of
                (c2, Inl e) \<Rightarrow> (c2, Inl e)
              | (c2, Inr r) \<Rightarrow> (c2, answer (Some (s, rcValue r, rcSource r))))))))"

definition keyHistory :: "key_definition list \<Rightarrow> config_db \<Rightarrow> string \<Rightarrow> nat option \<Rightarrow> config_scope option \<Rightarrow> string option
    \<Rightarrow> config_history list result" where
  "keyHistory defs db key limit scope scopeId = (case requireAdminDefinition defs key of
     Inl e \<Rightarrow> Inl e | Inr _ \<Rightarrow> Inr (history_of db key limit scope scopeId))"

section \<open>Changing a setting\<close>

definition json_or_null :: "json option \<Rightarrow> json" where
  "json_or_null v = (case v of None \<Rightarrow> JNull | Some j \<Rightarrow> j)"

definition change_entry :: "admin_context \<Rightarrow> written_configuration \<Rightarrow> string \<Rightarrow> audit_entry" where
  "change_entry ctx x reason = \<lparr>aeAdminId = acAdminId ctx, aeAction = CONFIGURATION_CHANGED,
     aeTargetType = ''configuration'',
     aeTargetId = Some (TextTarget (auditTargetId (wrKey x) (wrScope x) (wrScopeId x))),
     aeBefore = Some (JObj [(''value'', json_or_null (wrPreviousValue x))]),
     aeAfter = Some (JObj [(''value'', json_or_null (wrValue x))]),
     aeReason = Some reason, aeIp = acIp ctx\<rparr>"

definition admin_options :: "admin_write \<Rightarrow> admin_context \<Rightarrow> set_options" where
  "admin_options opts ctx = \<lparr>soScope = Some (scope_of (awScope opts)), soScopeId = awScopeId opts,
     soReason = Some (awReason opts), soActor = AdminActor (acAdminId ctx)\<rparr>"

definition tell_everyone :: "bool \<Rightarrow> written_configuration \<Rightarrow> config_admin \<Rightarrow> config_admin" where
  "tell_everyone up x s = (case invalidateAndBroadcast (caBus s) up (caCache s) (wrKey x) (wrScope x) (wrScopeId x) of
     (b, c, ms) \<Rightarrow> s\<lparr>caBus := b, caCache := c, caSent := caSent s @ ms\<rparr>)"

text \<open>What the transaction of \<open>set\<close> does once the precondition has passed. Two readings of the
  clock: the history's and the audit log's.\<close>

definition set_write :: "key_definition list \<Rightarrow> config_admin \<Rightarrow> string \<Rightarrow> json \<Rightarrow> admin_write \<Rightarrow> admin_context
    \<Rightarrow> millis \<Rightarrow> millis \<Rightarrow> (written_configuration \<times> config_admin) result" where
  "set_write defs s key v opts ctx now later =
     (case set_configuration defs (caDb s) key v (admin_options opts ctx) now of
        Inl e \<Rightarrow> Inl e
      | Inr (x, db) \<Rightarrow> Inr (x, s\<lparr>caDb := db,
          caAudit := record_audit (caAudit s) (change_entry ctx x (awReason opts)) later\<rparr>))"

definition stale_check :: "config_admin \<Rightarrow> string \<Rightarrow> admin_write \<Rightarrow> unit result" where
  "stale_check s key opts = (let scope = scope_of (awScope opts) in
     assertNotStale (dbRows (caDb s)) key scope (scopeIdFor scope (awScopeId opts)) (awExpected opts))"

text \<open>Both requests answer with the detail of the key, read after the commit.\<close>

definition answer_detail :: "key_definition list \<Rightarrow> string \<Rightarrow> admin_write \<Rightarrow> config_admin
    \<Rightarrow> (key_detail \<times> config_admin) result" where
  "answer_detail defs key opts s =
     (case keyDetail defs (caDb s) (caCache s) key
        (if scope_of (awScope opts) = PROVIDER then awScopeId opts else None) of
        (c, Inl e) \<Rightarrow> Inl e
      | (c, Inr d) \<Rightarrow> Inr (d, s\<lparr>caCache := c\<rparr>))"

definition checked_request :: "(id \<Rightarrow> string) \<Rightarrow> key_definition list \<Rightarrow> provider list \<Rightarrow> config_admin \<Rightarrow> string
    \<Rightarrow> admin_write \<Rightarrow> unit result" where
  "checked_request idText defs providers s key opts =
     (case requireAdminDefinition defs key of
        Inl e \<Rightarrow> Inl e
      | Inr _ \<Rightarrow> (case assertScopeTargetExists idText providers (scope_of (awScope opts)) (awScopeId opts) of
          Inl e \<Rightarrow> Inl e
        | Inr _ \<Rightarrow> stale_check s key opts))"

definition admin_set :: "(id \<Rightarrow> string) \<Rightarrow> key_definition list \<Rightarrow> provider list \<Rightarrow> bool \<Rightarrow> config_admin \<Rightarrow> string \<Rightarrow> json
    \<Rightarrow> admin_write \<Rightarrow> admin_context \<Rightarrow> millis \<Rightarrow> millis \<Rightarrow> (key_detail \<times> config_admin) result" where
  "admin_set idText defs providers up s key v opts ctx now later =
     (case checked_request idText defs providers s key opts of
        Inl e \<Rightarrow> Inl e
      | Inr _ \<Rightarrow> (case set_write defs s key v opts ctx now later of
          Inl e \<Rightarrow> Inl e
        | Inr (x, s') \<Rightarrow> answer_detail defs key opts (tell_everyone up x s')))"

definition reset_write :: "key_definition list \<Rightarrow> config_admin \<Rightarrow> string \<Rightarrow> admin_write \<Rightarrow> admin_context
    \<Rightarrow> millis \<Rightarrow> millis \<Rightarrow> (written_configuration option \<times> config_admin) result" where
  "reset_write defs s key opts ctx now later =
     (case unset_configuration defs (caDb s) key (admin_options opts ctx) now of
        Inl e \<Rightarrow> Inl e
      | Inr (None, db) \<Rightarrow> Inr (None, s\<lparr>caDb := db\<rparr>)
      | Inr (Some x, db) \<Rightarrow> Inr (Some x, s\<lparr>caDb := db,
          caAudit := record_audit (caAudit s) (change_entry ctx x (awReason opts)) later\<rparr>))"

definition admin_reset :: "(id \<Rightarrow> string) \<Rightarrow> key_definition list \<Rightarrow> provider list \<Rightarrow> bool \<Rightarrow> config_admin \<Rightarrow> string
    \<Rightarrow> admin_write \<Rightarrow> admin_context \<Rightarrow> millis \<Rightarrow> millis \<Rightarrow> (key_detail \<times> config_admin) result" where
  "admin_reset idText defs providers up s key opts ctx now later =
     (case checked_request idText defs providers s key opts of
        Inl e \<Rightarrow> Inl e
      | Inr _ \<Rightarrow> (case reset_write defs s key opts ctx now later of
          Inl e \<Rightarrow> Inl e
        | Inr (None, s') \<Rightarrow> answer_detail defs key opts s'
        | Inr (Some x, s') \<Rightarrow> answer_detail defs key opts (tell_everyone up x s')))"

end
