(* ===== verification/AdminConfigProps.thy ===== *)
theory AdminConfigProps
  imports AdminConfig
begin

text \<open>
  What the administrator's configuration requests guarantee: every change is in the audit log as it
  is in the history, a writer who read an older version is refused, and what two first writes do.
\<close>

section \<open>Requests as operations\<close>

lemma tell_everyone_keeps [simp]: "caDb (tell_everyone up x s) = caDb s" "caAudit (tell_everyone up x s) = caAudit s"
  by (simp_all add: tell_everyone_def split: prod.splits)

lemma answer_detail_keeps:
  assumes "answer_detail defs key opts s = Inr (d, s')"
  shows "caDb s' = caDb s \<and> caAudit s' = caAudit s"
  using assms by (auto simp: answer_detail_def split: prod.splits sum.splits)

lemma admin_set_Inr:
  assumes "admin_set idText defs providers up s key v opts ctx now later = Inr (d, s')"
  obtains x s1 where "stale_check s key opts = Inr ()" "set_write defs s key v opts ctx now later = Inr (x, s1)"
    "caDb s' = caDb s1" "caAudit s' = caAudit s1"
  using assms
  by (auto simp: admin_set_def checked_request_def split: sum.splits prod.splits dest!: answer_detail_keeps)

lemma admin_reset_Inr:
  assumes "admin_reset idText defs providers up s key opts ctx now later = Inr (d, s')"
  obtains x s1 where "stale_check s key opts = Inr ()" "reset_write defs s key opts ctx now later = Inr (x, s1)"
    "caDb s' = caDb s1" "caAudit s' = caAudit s1"
  using assms
  by (auto simp: admin_reset_def checked_request_def split: sum.splits prod.splits option.splits dest!: answer_detail_keeps)

datatype admin_op =
    AdminSet bool string json admin_write admin_context millis millis
  | AdminReset bool string admin_write admin_context millis millis

fun execAdmin :: "(id \<Rightarrow> string) \<Rightarrow> provider list \<Rightarrow> config_admin \<Rightarrow> admin_op \<Rightarrow> app_error + config_admin" where
  "execAdmin idText providers s (AdminSet up key v opts ctx now later) =
     map_sum (\<lambda>e. e) snd (admin_set idText ALL_CONFIGURATION_KEYS providers up s key v opts ctx now later)"
| "execAdmin idText providers s (AdminReset up key opts ctx now later) =
     map_sum (\<lambda>e. e) snd (admin_reset idText ALL_CONFIGURATION_KEYS providers up s key opts ctx now later)"

definition fresh_admin :: "inv_bus \<Rightarrow> config_admin" where
  "fresh_admin b = \<lparr>caDb = no_configuration, caCache = empty_cache, caBus = b, caSent = [], caAudit = []\<rparr>"

section \<open>The audit log mirrors the history\<close>

definition mirrors :: "config_history \<Rightarrow> audit_row \<Rightarrow> bool" where
  "mirrors h a \<longleftrightarrow> aeAction a = CONFIGURATION_CHANGED \<and> chActor h = AdminActor (aeAdminId a)
     \<and> aeTargetId a = Some (TextTarget (auditTargetId (chKey h) (chScope h) (chScopeId h)))
     \<and> aeBefore a = Some (JObj [(''value'', json_or_null (chOldValue h))])
     \<and> aeAfter a = Some (JObj [(''value'', json_or_null (chNewValue h))])
     \<and> aeReason a = chReason h"

definition audited :: "config_admin \<Rightarrow> bool" where
  "audited s \<longleftrightarrow> history_tells (caDb s) \<and> list_all2 mirrors (dbHistory (caDb s)) (caAudit s)"

lemma change_entry_mirrors:
  "mirrors (history_entry (wrKey x) (wrScope x) (wrScopeId x) (wrPreviousValue x) (wrValue x)
      (admin_options opts ctx) now)
    (audit_row_of (change_entry ctx x (awReason opts)) later)"
  by (simp add: mirrors_def history_entry_def admin_options_def change_entry_def audit_json_def audit_row_of_def)

lemma set_write_audited:
  assumes "audited s" and "set_write ALL_CONFIGURATION_KEYS s key v opts ctx now later = Inr (x, s')"
  shows "audited s'"
proof -
  obtain db where set: "set_configuration ALL_CONFIGURATION_KEYS (caDb s) key v (admin_options opts ctx) now = Inr (x, db)"
    and s': "s' = s\<lparr>caDb := db, caAudit := record_audit (caAudit s) (change_entry ctx x (awReason opts)) later\<rparr>"
    using assms(2) by (auto simp: set_write_def split: sum.splits)
  have "history_tells db"
    using assms(1) set execConfig_tells [of "caDb s" "SetValue key v (admin_options opts ctx) now" db]
    by (simp add: audited_def)
  moreover obtain d validated where d: "wrKey x = key" "wrValue x = Some validated"
    "write_value (caDb s) d key (wrScope x) (wrScopeId x) validated (admin_options opts ctx) now = (wrPreviousValue x, db)"
    using set by (rule set_configuration_Inr)
  then have "dbHistory db = dbHistory (caDb s) @ [history_entry (wrKey x) (wrScope x) (wrScopeId x) (wrPreviousValue x)
      (wrValue x) (admin_options opts ctx) now]"
    by (auto simp: write_value_def Let_def)
  ultimately show ?thesis
    using assms(1) by (simp add: audited_def s' record_audit_def change_entry_mirrors)
qed

lemma reset_write_audited:
  assumes "audited s" and "reset_write ALL_CONFIGURATION_KEYS s key opts ctx now later = Inr (w, s')"
  shows "audited s'"
proof -
  obtain db where unset: "unset_configuration ALL_CONFIGURATION_KEYS (caDb s) key (admin_options opts ctx) now = Inr (w, db)"
    and s': "s' = s\<lparr>caDb := db, caAudit := (case w of None \<Rightarrow> caAudit s
        | Some x \<Rightarrow> record_audit (caAudit s) (change_entry ctx x (awReason opts)) later)\<rparr>"
    using assms(2) by (auto simp: reset_write_def split: sum.splits option.splits)
  have "history_tells db"
    using assms(1) unset execConfig_tells [of "caDb s" "UnsetValue key (admin_options opts ctx) now" db]
    by (simp add: audited_def)
  from unset show ?thesis
  proof (cases rule: unset_configuration_Inr)
    case nothing
    then show ?thesis using assms(1) by (simp add: audited_def s')
  next
    case (removed x)
    have "mirrors (history_entry key (wrScope x) (wrScopeId x) (wrPreviousValue x) None (admin_options opts ctx) now)
        (audit_row_of (change_entry ctx x (awReason opts)) later)"
      using change_entry_mirrors [of x opts ctx now later] removed(2,4) by simp
    then show ?thesis
      using assms(1) \<open>history_tells db\<close> removed(1,7) by (simp add: audited_def s' record_audit_def)
  qed
qed

lemma execAdmin_audited:
  assumes "audited s" and "execAdmin idText providers s x = Inr s'"
  shows "audited s'"
proof (cases x)
  case (AdminSet up key v opts ctx now later)
  then obtain d where "admin_set idText ALL_CONFIGURATION_KEYS providers up s key v opts ctx now later = Inr (d, s')"
    using assms(2) by (auto simp: map_sum_def split: sum.splits)
  then show ?thesis
    by (rule admin_set_Inr) (use set_write_audited [OF assms(1)] in \<open>auto simp: audited_def\<close>)
next
  case (AdminReset up key opts ctx now later)
  then obtain d where "admin_reset idText ALL_CONFIGURATION_KEYS providers up s key opts ctx now later = Inr (d, s')"
    using assms(2) by (auto simp: map_sum_def split: sum.splits)
  then show ?thesis
    by (rule admin_reset_Inr) (use reset_write_audited [OF assms(1)] in \<open>auto simp: audited_def\<close>)
qed

interpretation administered: guarded_system "execAdmin idText providers" "fresh_admin b" audited
  for idText providers b
proof
  show "audited (fresh_admin b)"
    using configuration.inv_init by (simp add: audited_def fresh_admin_def) (simp add: no_configuration_def)
qed (rule execAdmin_audited)

text \<open>C32. Every change is audited: after any run of an administrator's requests the audit log and the
  configuration history agree entry by entry (who, which setting, the value before, the value after,
  why), and replaying either gives the values in force.\<close>

theorem admin_changes_are_audited:
  fixes idText providers b ops
  defines "s \<equiv> run_ops (execAdmin idText providers) (fresh_admin b) ops"
  shows "list_all2 mirrors (dbHistory (caDb s)) (caAudit s)
    \<and> stored_at (dbRows (caDb s)) = replay (dbHistory (caDb s))"
  using administered.inv_run [of idText providers b ops] by (simp add: s_def audited_def history_tells_def)

section \<open>Two writers\<close>

lemma assertNotStale_cases:
  "assertNotStale rows key scope scopeId (Some e) = Inr () \<longleftrightarrow>
     map_option (\<lambda>r. Iso (cwUpdatedAt r)) (findStored rows key scope scopeId) = e"
  "assertNotStale rows key scope scopeId (Some e) \<noteq> Inr () \<Longrightarrow>
     assertNotStale rows key scope scopeId (Some e) = Inl (DomainError CONFIG_STALE_WRITE 409)"
  by (simp_all add: assertNotStale_def Let_def split: if_splits)

lemma written_row:
  assumes "write_value db d key scope scopeId v opts now = (previous, db')"
  shows "\<exists>r. findStored (dbRows db') key scope scopeId = Some r \<and> cwUpdatedAt r = now \<and> cwValue r = v"
proof -
  let ?row = "\<lparr>cwKey = key, cwScope = scope, cwScopeId = scopeId, cwValue = v, cwValueType = kdValueType d,
    cwUpdatedBy = soActor opts, cwUpdatedAt = now\<rparr>"
  have at: "at_entry key scope scopeId ?row" by (simp add: at_entry_def)
  show ?thesis
  proof (cases "findStored (dbRows db) key scope scopeId")
    case None
    then have "dbRows db' = dbRows db @ [?row]"
      using assms by (auto simp: write_value_def Let_def)
    then show ?thesis using None at by (simp add: findStored_def find_append)
  next
    case (Some r)
    then have rows: "dbRows db' = update_where (at_entry key scope scopeId) (\<lambda>_. ?row) (dbRows db)"
      using assms by (auto simp: write_value_def Let_def)
    have "List.find (at_entry key scope scopeId) (dbRows db') = Some ?row"
      using Some at unfolding rows findStored_def
      by (subst find_update_where) (auto dest: find_SomeD)
    then show ?thesis by (simp add: findStored_def)
  qed
qed

lemma set_write_row:
  assumes "set_write defs s key v opts ctx now later = Inr (x, s')"
  shows "\<exists>r. findStored (dbRows (caDb s')) key (scope_of (awScope opts))
      (scopeIdFor (scope_of (awScope opts)) (awScopeId opts)) = Some r \<and> cwUpdatedAt r = now"
proof -
  obtain db where "set_configuration defs (caDb s) key v (admin_options opts ctx) now = Inr (x, db)" and db: "caDb s' = db"
    using assms by (auto simp: set_write_def split: sum.splits)
  then show ?thesis
  proof (elim set_configuration_Inr)
    fix d w
    assume "wrScope x = scope_of (soScope (admin_options opts ctx))"
      "wrScopeId x = scope_id_of (wrScope x) (soScopeId (admin_options opts ctx))"
      and wv: "write_value (caDb s) d key (wrScope x) (wrScopeId x) w (admin_options opts ctx) now = (wrPreviousValue x, db)"
    then have "wrScope x = scope_of (awScope opts)" "wrScopeId x = scopeIdFor (scope_of (awScope opts)) (awScopeId opts)"
      by (simp_all add: admin_options_def scope_of_def scope_id_of_def scopeIdFor_def)
    then show ?thesis using written_row [OF wv] by (auto simp: db)
  qed
qed

text \<open>The setting a request is about, the version it names, and when it runs.\<close>

fun op_entry :: "admin_op \<Rightarrow> string \<times> config_scope \<times> string option" where
  "op_entry (AdminSet _ key _ opts _ _ _) = (key, scope_of (awScope opts), awScopeId opts)"
| "op_entry (AdminReset _ key opts _ _ _) = (key, scope_of (awScope opts), awScopeId opts)"

fun op_version :: "admin_op \<Rightarrow> expectation" where
  "op_version (AdminSet _ _ _ opts _ _ _) = awExpected opts"
| "op_version (AdminReset _ _ opts _ _ _) = awExpected opts"

fun op_time :: "admin_op \<Rightarrow> millis" where
  "op_time (AdminSet _ _ _ _ _ now _) = now"
| "op_time (AdminReset _ _ _ _ now _) = now"

text \<open>Which rows an accepted request leaves: each is one that was there, or carries the request's time
  and stands at its entry; a set or a reset leaves no older row at its entry.\<close>

definition op_place :: "admin_op \<Rightarrow> config_row \<Rightarrow> bool" where
  "op_place x = (case op_entry x of (key, scope, scopeId) \<Rightarrow> at_entry key scope (scopeIdFor scope scopeId))"

lemma write_value_rows:
  assumes "write_value db d key scope scopeId v opts now = (previous, db')" and "r \<in> set (dbRows db')"
  shows "cwUpdatedAt r = now \<or> r \<in> set (dbRows db) \<and> \<not> at_entry key scope scopeId r"
  using assms
  by (auto simp: write_value_def Let_def set_update_where findStored_def find_None_iff split: if_splits)

lemma set_write_rows:
  assumes "set_write defs s key v opts ctx now later = Inr (x, s')" and "r \<in> set (dbRows (caDb s'))"
  shows "cwUpdatedAt r = now \<or> r \<in> set (dbRows (caDb s))
    \<and> \<not> at_entry key (scope_of (awScope opts)) (scopeIdFor (scope_of (awScope opts)) (awScopeId opts)) r"
proof -
  obtain db where "set_configuration defs (caDb s) key v (admin_options opts ctx) now = Inr (x, db)" and db: "caDb s' = db"
    using assms(1) by (auto simp: set_write_def split: sum.splits)
  then show ?thesis
  proof (elim set_configuration_Inr)
    fix d w
    assume "wrScope x = scope_of (soScope (admin_options opts ctx))"
      "wrScopeId x = scope_id_of (wrScope x) (soScopeId (admin_options opts ctx))"
      and wv: "write_value (caDb s) d key (wrScope x) (wrScopeId x) w (admin_options opts ctx) now = (wrPreviousValue x, db)"
    then have "wrScope x = scope_of (awScope opts)" "wrScopeId x = scopeIdFor (scope_of (awScope opts)) (awScopeId opts)"
      by (simp_all add: admin_options_def scope_of_def scope_id_of_def scopeIdFor_def)
    then show ?thesis using write_value_rows [OF wv] assms(2) by (simp add: db)
  qed
qed

lemma reset_write_rows:
  assumes "reset_write defs s key opts ctx now later = Inr (w, s')" and "r \<in> set (dbRows (caDb s'))"
  shows "r \<in> set (dbRows (caDb s))
    \<and> \<not> at_entry key (scope_of (awScope opts)) (scopeIdFor (scope_of (awScope opts)) (awScopeId opts)) r"
  using assms
  by (auto simp: reset_write_def unset_configuration_def admin_options_def scope_of_def scope_id_of_def scopeIdFor_def
      findStored_def find_None_iff Let_def split: sum.splits option.splits if_splits)

lemma execAdmin_rows:
  assumes "execAdmin idText providers s x = Inr s'" and "r \<in> set (dbRows (caDb s'))"
  shows "cwUpdatedAt r = op_time x \<or> r \<in> set (dbRows (caDb s)) \<and> \<not> op_place x r"
proof (cases x)
  case (AdminSet up key v opts ctx now later)
  then obtain d where "admin_set idText ALL_CONFIGURATION_KEYS providers up s key v opts ctx now later = Inr (d, s')"
    using assms(1) by (auto simp: map_sum_def split: sum.splits)
  then show ?thesis
    by (rule admin_set_Inr) (use AdminSet set_write_rows assms(2) in \<open>fastforce simp: op_place_def\<close>)
next
  case (AdminReset up key opts ctx now later)
  then obtain d where "admin_reset idText ALL_CONFIGURATION_KEYS providers up s key opts ctx now later = Inr (d, s')"
    using assms(1) by (auto simp: map_sum_def split: sum.splits)
  then show ?thesis
    by (rule admin_reset_Inr) (use AdminReset reset_write_rows assms(2) in \<open>fastforce simp: op_place_def\<close>)
qed

text \<open>An entry at which no row carries a timestamp refuses every request that names it.\<close>

lemma version_refused:
  assumes "\<forall>r\<in>set (dbRows (caDb s)). op_place x r \<longrightarrow> cwUpdatedAt r \<noteq> t" and "op_version x = Some (Some (Iso t))"
    and "\<exists>d. requireAdminDefinition ALL_CONFIGURATION_KEYS (fst (op_entry x)) = Inr d"
    and "assertScopeTargetExists idText providers (fst (snd (op_entry x))) (snd (snd (op_entry x))) = Inr ()"
  shows "execAdmin idText providers s x = Inl (DomainError CONFIG_STALE_WRITE 409)"
proof -
  have "findStored (dbRows (caDb s)) key scope scopeId \<noteq> Some r"
    if "op_place x = at_entry key scope scopeId" "cwUpdatedAt r = t" for key scope scopeId r
    using assms(1) that by (auto simp: findStored_def dest: find_SomeD)
  then show ?thesis
    using assms(2-4)
    by (cases x) (auto simp: op_place_def admin_set_def admin_reset_def checked_request_def stale_check_def
        assertNotStale_def Let_def)
qed

lemma accepted_request:
  assumes "execAdmin idText providers s x = Inr s'"
  shows "\<exists>d. requireAdminDefinition ALL_CONFIGURATION_KEYS (fst (op_entry x)) = Inr d"
    and "assertScopeTargetExists idText providers (fst (snd (op_entry x))) (snd (snd (op_entry x))) = Inr ()"
    and "op_version x = Some e \<Longrightarrow> case op_entry x of (key, scope, scopeId) \<Rightarrow>
      map_option (\<lambda>r. Iso (cwUpdatedAt r)) (findStored (dbRows (caDb s)) key scope (scopeIdFor scope scopeId)) = e"
  using assms
  by (cases x; auto simp: admin_set_def admin_reset_def checked_request_def stale_check_def assertNotStale_def map_sum_def
      Let_def split: sum.splits if_splits)+

text \<open>C33. Of two administrators who read the same stored version of a setting, the second is refused,
  however much later: once a write or a reset against a stored version has been accepted, that version
  was the stored one, and whatever requests run in between, every later write or reset of the same
  entry that names it is answered with a conflict, provided only that the process's clock has moved
  past the version's timestamp. (Two requests that both found nothing stored are not protected when
  they overlap, and a timestamp that recurs would be taken for the old version.)\<close>

theorem second_writer_is_refused:
  assumes "execAdmin idText providers s first = Inr s1"
    and "op_version first = Some (Some (Iso t))" and "t < op_time first"
    and "\<forall>x\<in>set between. t < op_time x"
    and "op_entry second = op_entry first" and "op_version second = Some (Some (Iso t))"
  shows "(case op_entry first of (key, scope, scopeId) \<Rightarrow>
      map_option cwUpdatedAt (findStored (dbRows (caDb s)) key scope (scopeIdFor scope scopeId)) = Some t)
    \<and> execAdmin idText providers (run_ops (execAdmin idText providers) s1 between) second
      = Inl (DomainError CONFIG_STALE_WRITE 409)"
proof -
  let ?gone = "\<lambda>s. \<forall>r\<in>set (dbRows (caDb s)). op_place first r \<longrightarrow> cwUpdatedAt r \<noteq> t"
  have "?gone s1" using execAdmin_rows [OF assms(1)] assms(3) by fastforce
  with assms(4) have "?gone (run_ops (execAdmin idText providers) s1 between)"
  proof (induction between arbitrary: s1)
    case (Cons x xs)
    have "?gone s2" if "execAdmin idText providers s1 x = Inr s2" for s2
      using execAdmin_rows [OF that] Cons.prems by fastforce
    then show ?case using Cons by (cases "execAdmin idText providers s1 x") simp_all
  qed simp
  moreover have "op_place second = op_place first" using assms(5) by (simp add: op_place_def)
  ultimately have "execAdmin idText providers (run_ops (execAdmin idText providers) s1 between) second
      = Inl (DomainError CONFIG_STALE_WRITE 409)"
    using version_refused [OF _ assms(6)] accepted_request(1,2) [OF assms(1)] assms(5) by simp
  then show ?thesis
    using accepted_request(3) [OF assms(1,2)] by (auto split: prod.splits option.splits)
qed

text \<open>Two first writes at once: when nothing is stored there is no row to lock, so two requests
  that each assert absence both pass the check before either writes; the second then overwrites the
  first and is not told. (The write is an upsert, so the unique index does not refuse it.)\<close>

theorem first_writes_overwrite:
  assumes "findStored (dbRows (caDb s)) key GLOBAL GLOBAL_SCOPE_ID = None"
    and "awScope opts1 = None" and "awScope opts2 = None"
    and "awExpected opts1 = Some None" and "awExpected opts2 = Some None"
    and "getDefinition defs key = Some d" and "GLOBAL \<in> set (kdScopes d)"
    and "kdSchema d v1 = Some w1" and "kdSchema d v2 = Some w2"
  shows "stale_check s key opts1 = Inr () \<and> stale_check s key opts2 = Inr ()
    \<and> (\<exists>x1 s1 x2 s2. set_write defs s key v1 opts1 ctx1 now1 later1 = Inr (x1, s1)
        \<and> set_write defs s1 key v2 opts2 ctx2 now2 later2 = Inr (x2, s2)
        \<and> wrPreviousValue x2 = Some w1
        \<and> stored_at (dbRows (caDb s2)) (key, GLOBAL, GLOBAL_SCOPE_ID) = Some w2)"
proof -
  have checks: "stale_check s key opts1 = Inr ()" "stale_check s key opts2 = Inr ()"
    using assms(1-5) by (simp_all add: stale_check_def assertNotStale_def scope_of_def scopeIdFor_def Let_def)
  have set: "\<exists>x t. set_write defs r key u opts ctx now later = Inr (x, t)
      \<and> wrPreviousValue x = stored_at (dbRows (caDb r)) (key, GLOBAL, GLOBAL_SCOPE_ID)
      \<and> stored_at (dbRows (caDb t)) (key, GLOBAL, GLOBAL_SCOPE_ID) = Some w"
    if "awScope opts = None" "kdSchema d u = Some w" for r u w opts ctx now later
  proof -
    obtain p db where wv: "write_value (caDb r) d key GLOBAL GLOBAL_SCOPE_ID w (admin_options opts ctx) now = (p, db)"
      by (cases "write_value (caDb r) d key GLOBAL GLOBAL_SCOPE_ID w (admin_options opts ctx) now")
    then have "p = stored_at (dbRows (caDb r)) (key, GLOBAL, GLOBAL_SCOPE_ID)"
      by (auto simp: write_value_def stored_at_def Let_def)
    moreover have "stored_at (dbRows db) (key, GLOBAL, GLOBAL_SCOPE_ID) = Some w"
      using write_value_stored(1) [OF wv] by simp
    ultimately show ?thesis
      using that wv assms(6,7)
      by (simp add: set_write_def set_configuration_def requireDefinition_def admin_options_def scope_of_def
          scope_id_of_def Let_def)
  qed
  obtain x1 s1 where 1: "set_write defs s key v1 opts1 ctx1 now1 later1 = Inr (x1, s1)"
    "stored_at (dbRows (caDb s1)) (key, GLOBAL, GLOBAL_SCOPE_ID) = Some w1"
    using set [OF assms(2,8)] by blast
  obtain x2 s2 where "set_write defs s1 key v2 opts2 ctx2 now2 later2 = Inr (x2, s2)"
    "wrPreviousValue x2 = Some w1" "stored_at (dbRows (caDb s2)) (key, GLOBAL, GLOBAL_SCOPE_ID) = Some w2"
    using set [OF assms(3,9), of s1 ctx2 now2 later2] 1(2) by auto
  then show ?thesis using checks 1(1) by blast
qed

section \<open>Concrete requests\<close>

text \<open>Once written, a request answers: reading the detail of a defined key cannot fail.\<close>

lemma answer_detail_total:
  assumes "getDefinition defs key = Some d0"
  shows "\<exists>d s'. answer_detail defs key opts s = Inr (d, s')"
proof -
  obtain c1 summary where "toKeySummary (caDb s) (caCache s) d0 = (c1, summary)"
    by (cases "toKeySummary (caDb s) (caCache s) d0")
  then show ?thesis
    using assms
    by (auto simp: answer_detail_def keyDetail_def requireAdminDefinition_def storedValues_def resolve_def
        requireDefinition_def Let_def split: prod.splits option.splits)
qed

definition demo_write :: admin_write where
  "demo_write = \<lparr>awScope = None, awScopeId = None, awReason = ''checked'', awExpected = Some None\<rparr>"

definition demo_context :: admin_context where
  "demo_context = \<lparr>acAdminId = 2, acIp = None\<rparr>"

lemma demo_set_write: "\<exists>x t. set_write ALL_CONFIGURATION_KEYS (fresh_admin (new_bus ''a'')) ''fraud.enabled'' (JBool False)
    demo_write demo_context 5 6 = Inr (x, t)"
  by (simp add: set_write_def fresh_admin_def set_configuration_def requireDefinition_def fraud_enabled_defined)
    (simp add: FRAUD_ENABLED_def admin_options_def demo_write_def scope_of_def scope_id_of_def GLOBAL_SCOPE_ID_def
      boolean_schema_def write_value_def Let_def)

lemma demo_admin_set: "\<exists>d t. admin_set (\<lambda>_. ''x'') ALL_CONFIGURATION_KEYS [] True (fresh_admin (new_bus ''a''))
    ''fraud.enabled'' (JBool False) demo_write demo_context 5 6 = Inr (d, t)"
proof -
  obtain x t where "set_write ALL_CONFIGURATION_KEYS (fresh_admin (new_bus ''a'')) ''fraud.enabled'' (JBool False)
    demo_write demo_context 5 6 = Inr (x, t)"
    using demo_set_write by blast
  moreover have "checked_request (\<lambda>_. ''x'') ALL_CONFIGURATION_KEYS [] (fresh_admin (new_bus ''a'')) ''fraud.enabled'' demo_write
      = Inr ()"
    by (simp add: checked_request_def requireAdminDefinition_def fraud_enabled_defined)
      (simp add: demo_write_def assertScopeTargetExists_def scope_of_def stale_check_def assertNotStale_def
        findStored_def fresh_admin_def no_configuration_def truthy_def)
  ultimately show ?thesis
    using answer_detail_total [OF fraud_enabled_defined] by (simp add: admin_set_def)
qed

definition demo_versioned :: admin_write where
  "demo_versioned = demo_write\<lparr>awExpected := Some (Some (Iso 5))\<rparr>"

lemma demo_rewrite:
  assumes "admin_set (\<lambda>_. ''x'') ALL_CONFIGURATION_KEYS [] True (fresh_admin (new_bus ''a'')) ''fraud.enabled'' (JBool False)
    demo_write demo_context 5 6 = Inr (d, s)"
  shows "\<exists>d' s1. admin_set (\<lambda>_. ''x'') ALL_CONFIGURATION_KEYS [] True s ''fraud.enabled'' (JBool True) demo_versioned
    demo_context 7 8 = Inr (d', s1)"
proof -
  obtain x s0 where w: "set_write ALL_CONFIGURATION_KEYS (fresh_admin (new_bus ''a'')) ''fraud.enabled'' (JBool False)
      demo_write demo_context 5 6 = Inr (x, s0)" "caDb s = caDb s0"
    using assms by (rule admin_set_Inr)
  obtain r where r: "findStored (dbRows (caDb s)) ''fraud.enabled'' GLOBAL GLOBAL_SCOPE_ID = Some r" "cwUpdatedAt r = 5"
    using set_write_row [OF w(1)] w(2) by (auto simp: demo_write_def scope_of_def scopeIdFor_def)
  have "checked_request (\<lambda>_. ''x'') ALL_CONFIGURATION_KEYS [] s ''fraud.enabled'' demo_versioned = Inr ()"
    using r by (simp add: checked_request_def requireAdminDefinition_def fraud_enabled_defined)
      (simp add: demo_versioned_def demo_write_def assertScopeTargetExists_def scope_of_def stale_check_def
        assertNotStale_def scopeIdFor_def truthy_def)
  moreover have "\<exists>x t. set_write ALL_CONFIGURATION_KEYS s ''fraud.enabled'' (JBool True) demo_versioned demo_context 7 8 = Inr (x, t)"
    by (simp add: set_write_def set_configuration_def requireDefinition_def fraud_enabled_defined)
      (simp add: FRAUD_ENABLED_def admin_options_def demo_versioned_def demo_write_def scope_of_def scope_id_of_def
        GLOBAL_SCOPE_ID_def boolean_schema_def Let_def split: prod.splits)
  ultimately show ?thesis
    using answer_detail_total [OF fraud_enabled_defined] by (force simp: admin_set_def)
qed

lemma second_writer_is_refused_witness:
  "\<exists>s s1. execAdmin (\<lambda>_. ''x'') [] s (AdminSet True ''fraud.enabled'' (JBool True) demo_versioned demo_context 7 8) = Inr s1
    \<and> execAdmin (\<lambda>_. ''x'') [] (run_ops (execAdmin (\<lambda>_. ''x'') []) s1
        [AdminSet True ''fraud.enabled'' (JBool False) (demo_write\<lparr>awExpected := None\<rparr>) demo_context 9 9])
      (AdminReset True ''fraud.enabled'' demo_versioned demo_context 10 10) = Inl (DomainError CONFIG_STALE_WRITE 409)"
proof -
  obtain d s where "admin_set (\<lambda>_. ''x'') ALL_CONFIGURATION_KEYS [] True (fresh_admin (new_bus ''a''))
    ''fraud.enabled'' (JBool False) demo_write demo_context 5 6 = Inr (d, s)"
    using demo_admin_set by blast
  from demo_rewrite [OF this] obtain s1 where s1: "execAdmin (\<lambda>_. ''x'') [] s
      (AdminSet True ''fraud.enabled'' (JBool True) demo_versioned demo_context 7 8) = Inr s1"
    by auto
  have v: "op_version (AdminSet True ''fraud.enabled'' (JBool True) demo_versioned demo_context 7 8) = Some (Some (Iso 5))"
      "op_version (AdminReset True ''fraud.enabled'' demo_versioned demo_context 10 10) = Some (Some (Iso 5))"
    by (simp_all add: demo_versioned_def)
  show ?thesis
    using second_writer_is_refused [OF s1 v(1) _ _ _ v(2), of "[AdminSet True ''fraud.enabled'' (JBool False)
        (demo_write\<lparr>awExpected := None\<rparr>) demo_context 9 9]"] s1
    by (intro exI conjI) auto
qed

lemma first_writes_overwrite_witness:
  "\<exists>x1 s1 x2 s2. set_write ALL_CONFIGURATION_KEYS (fresh_admin (new_bus ''a'')) ''fraud.enabled'' (JBool False) demo_write
        demo_context 5 6 = Inr (x1, s1)
      \<and> set_write ALL_CONFIGURATION_KEYS s1 ''fraud.enabled'' (JBool True) demo_write demo_context 7 8 = Inr (x2, s2)
      \<and> wrPreviousValue x2 = Some (JBool False)"
  using first_writes_overwrite [where s = "fresh_admin (new_bus ''a'')" and key = "''fraud.enabled''"
      and defs = ALL_CONFIGURATION_KEYS and d = FRAUD_ENABLED and ?opts1.0 = demo_write and ?opts2.0 = demo_write
      and ?v1.0 = "JBool False" and ?w1.0 = "JBool False" and ?v2.0 = "JBool True" and ?w2.0 = "JBool True"
      and ?ctx1.0 = demo_context and ?ctx2.0 = demo_context and ?now1.0 = 5 and ?later1.0 = 6 and ?now2.0 = 7
      and ?later2.0 = 8]
  by (auto simp: demo_write_def fraud_enabled_defined fresh_admin_def no_configuration_def findStored_def
      FRAUD_ENABLED_def boolean_schema_def)

end
