(* ===== verification/Tokens.thy ===== *)
theory Tokens
  imports Users ConfigKeys
begin

text \<open>
  Sessions and one-time links: \<^verbatim>\<open>modules/auth/token.service.ts\<close> and
  \<^verbatim>\<open>modules/auth/verification.service.ts\<close>. The hash of a token (SHA-256), the signature of an
  access token, the random tokens and the fresh ids are arguments. A rotation is two statements,
  the check and the transaction that follows it; they are separate definitions, because nothing
  holds the row between them. Each of the two reads the clock once here.
\<close>

section \<open>Refresh tokens\<close>

datatype revocation_reason = BY_LOGOUT | BY_ROTATION | BY_REUSE_DETECTED | BY_PASSWORD_RESET

record refresh_token =
  rtId :: id
  rtUserId :: id
  rtFamilyId :: id
  rtTokenHash :: string
  rtExpiresAt :: millis
  rtUsedAt :: "millis option"
  rtRevokedAt :: "millis option"
  rtRevokedReason :: "revocation_reason option"
  rtIssuedIp :: "string option"
  rtIssuedUserAgent :: "string option"

record session_context =
  scxIp :: "string option"
  scxUserAgent :: "string option"

record issued_session =
  isAccessToken :: string
  isExpiresIn :: int
  isRefreshToken :: string
  isRefreshExpiresAt :: millis

text \<open>What the service is given: the hash, the signer, and the two lifetimes of the environment.\<close>

record token_env =
  tvHash :: "string \<Rightarrow> string"
  tvSign :: "id \<Rightarrow> user_role \<Rightarrow> string"
  tvAccessTtlSeconds :: int
  tvRefreshTtlDays :: int

text \<open>A fresh row's id and random token.\<close>

type_synonym fresh_token = "id \<times> string"

definition issueInFamily :: "token_env \<Rightarrow> refresh_token list \<Rightarrow> millis \<Rightarrow> fresh_token \<Rightarrow> id \<Rightarrow> user_role \<Rightarrow> id
    \<Rightarrow> session_context \<Rightarrow> (issued_session \<times> refresh_token list) result" where
  "issueInFamily env rows now fresh userId role familyId ctx =
     (let refreshToken = snd fresh; expiresAt = now + tvRefreshTtlDays env * 24 * 60 * 60 * 1000;
          row = \<lparr>rtId = fst fresh, rtUserId = userId, rtFamilyId = familyId, rtTokenHash = tvHash env refreshToken,
             rtExpiresAt = expiresAt, rtUsedAt = None, rtRevokedAt = None, rtRevokedReason = None,
             rtIssuedIp = scxIp ctx, rtIssuedUserAgent = map_option (take 512) (scxUserAgent ctx)\<rparr>
      in if rtId row \<in> set (map rtId rows) \<or> rtTokenHash row \<in> set (map rtTokenHash rows) then Inl UniqueViolation
         else Inr (\<lparr>isAccessToken = tvSign env userId role, isExpiresIn = tvAccessTtlSeconds env,
             isRefreshToken = refreshToken, isRefreshExpiresAt = expiresAt\<rparr>, rows @ [row]))"

definition issueSession :: "token_env \<Rightarrow> refresh_token list \<Rightarrow> millis \<Rightarrow> fresh_token \<Rightarrow> id \<Rightarrow> id \<Rightarrow> user_role
    \<Rightarrow> session_context \<Rightarrow> (issued_session \<times> refresh_token list) result" where
  "issueSession env rows now fresh familyId userId role ctx = issueInFamily env rows now fresh userId role familyId ctx"

definition mark_revoked :: "millis \<Rightarrow> revocation_reason \<Rightarrow> refresh_token \<Rightarrow> refresh_token" where
  "mark_revoked now reason t = t\<lparr>rtRevokedAt := Some now, rtRevokedReason := Some reason\<rparr>"

definition revokeFamily :: "refresh_token list \<Rightarrow> millis \<Rightarrow> id \<Rightarrow> revocation_reason \<Rightarrow> refresh_token list" where
  "revokeFamily rows now familyId reason =
     update_where (\<lambda>t. rtFamilyId t = familyId \<and> rtRevokedAt t = None) (mark_revoked now reason) rows"

definition revokeAllForUser :: "refresh_token list \<Rightarrow> millis \<Rightarrow> id \<Rightarrow> revocation_reason \<Rightarrow> nat \<times> refresh_token list" where
  "revokeAllForUser rows now userId reason =
     (count_where (\<lambda>t. rtUserId t = userId \<and> rtRevokedAt t = None) rows,
      update_where (\<lambda>t. rtUserId t = userId \<and> rtRevokedAt t = None) (mark_revoked now reason) rows)"

definition findByHash :: "refresh_token list \<Rightarrow> string \<Rightarrow> refresh_token option" where
  "findByHash rows h = List.find (\<lambda>t. rtTokenHash t = h) rows"

definition revokeByToken :: "token_env \<Rightarrow> refresh_token list \<Rightarrow> millis \<Rightarrow> string \<Rightarrow> refresh_token list" where
  "revokeByToken env rows now presented = (case findByHash rows (tvHash env presented) of
     None \<Rightarrow> rows
   | Some t \<Rightarrow> if rtRevokedAt t \<noteq> None then rows else revokeFamily rows now (rtFamilyId t) BY_LOGOUT)"

text \<open>The statements before the transaction: the rows they leave, and the token to rotate or the
  refusal. A token's user is there by the foreign key.\<close>

definition invalidRefresh :: app_error where
  "invalidRefresh = DomainError AUTH_REFRESH_INVALID 401"

definition rotate_check :: "token_env \<Rightarrow> user list \<Rightarrow> refresh_token list \<Rightarrow> millis \<Rightarrow> string
    \<Rightarrow> refresh_token list \<times> (refresh_token \<times> user) result" where
  "rotate_check env users rows now presented =
     (case findByHash rows (tvHash env presented) of
        None \<Rightarrow> (rows, Inl invalidRefresh)
      | Some stored \<Rightarrow> (case findUser users (rtUserId stored) of
          None \<Rightarrow> (rows, Inl RecordMissing)
        | Some u \<Rightarrow>
            if rtUsedAt stored \<noteq> None
            then (revokeFamily rows now (rtFamilyId stored) BY_REUSE_DETECTED, Inl invalidRefresh)
            else if rtRevokedAt stored \<noteq> None \<or> rtExpiresAt stored \<le> now then (rows, Inl invalidRefresh)
            else if usStatus u \<noteq> ACTIVE
            then (snd (revokeAllForUser rows now (rtUserId stored) BY_REUSE_DETECTED),
                  Inl (DomainError AUTH_ACCOUNT_INACTIVE 403))
            else (rows, Inr (stored, u))))"

text \<open>The transaction: the row is updated whatever it holds by now.\<close>

definition mark_spent :: "millis \<Rightarrow> refresh_token \<Rightarrow> refresh_token" where
  "mark_spent now t = t\<lparr>rtUsedAt := Some now, rtRevokedAt := Some now, rtRevokedReason := Some BY_ROTATION\<rparr>"

definition rotate_commit :: "token_env \<Rightarrow> refresh_token list \<Rightarrow> millis \<Rightarrow> fresh_token \<Rightarrow> refresh_token \<Rightarrow> user
    \<Rightarrow> session_context \<Rightarrow> (issued_session \<times> refresh_token list) result" where
  "rotate_commit env rows now fresh stored u ctx =
     (if rtId stored \<notin> set (map rtId rows) then Inl RecordMissing
      else issueInFamily env (update_where (\<lambda>t. rtId t = rtId stored) (mark_spent now) rows) now fresh
             (rtUserId stored) (usRole u) (rtFamilyId stored) ctx)"

definition rotate :: "token_env \<Rightarrow> user list \<Rightarrow> refresh_token list \<Rightarrow> millis \<Rightarrow> millis \<Rightarrow> fresh_token \<Rightarrow> string
    \<Rightarrow> session_context \<Rightarrow> refresh_token list \<times> (id \<times> issued_session) result" where
  "rotate env users rows now later fresh presented ctx =
     (case rotate_check env users rows now presented of
        (rows', Inl e) \<Rightarrow> (rows', Inl e)
      | (rows', Inr (stored, u)) \<Rightarrow> (case rotate_commit env rows' later fresh stored u ctx of
          Inl e \<Rightarrow> (rows', Inl e)
        | Inr (session, rows'') \<Rightarrow> (rows'', Inr (rtUserId stored, session))))"

definition countActiveSessions :: "refresh_token list \<Rightarrow> millis \<Rightarrow> id list \<Rightarrow> id \<Rightarrow> nat option" where
  "countActiveSessions rows now userIds u =
     (let n = count_where (\<lambda>t. rtUserId t = u \<and> rtRevokedAt t = None \<and> rtUsedAt t = None \<and> rtExpiresAt t > now) rows
      in if u \<in> set userIds \<and> n > 0 then Some n else None)"

section \<open>Verification and reset links\<close>

datatype token_purpose = EMAIL_VERIFICATION | PASSWORD_RESET

record verification_token =
  vtId :: id
  vtUserId :: id
  vtPurpose :: token_purpose
  vtTokenHash :: string
  vtExpiresAt :: millis
  vtUsedAt :: "millis option"

definition issue_link :: "token_env \<Rightarrow> verification_token list \<Rightarrow> millis \<Rightarrow> fresh_token \<Rightarrow> int \<Rightarrow> id \<Rightarrow> token_purpose
    \<Rightarrow> (string \<times> verification_token list) result" where
  "issue_link env rows now fresh ttlSeconds userId purpose =
     (if fst fresh \<in> set (map vtId rows) \<or> tvHash env (snd fresh) \<in> set (map vtTokenHash rows) then Inl UniqueViolation
      else Inr (snd fresh, rows @ [\<lparr>vtId = fst fresh, vtUserId = userId, vtPurpose = purpose,
             vtTokenHash = tvHash env (snd fresh), vtExpiresAt = now + ttlSeconds * 1000, vtUsedAt = None\<rparr>]))"

definition invalidToken :: app_error where
  "invalidToken = DomainError AUTH_TOKEN_INVALID 400"

definition consumable :: "string \<Rightarrow> token_purpose \<Rightarrow> millis \<Rightarrow> verification_token \<Rightarrow> bool" where
  "consumable h purpose now t \<longleftrightarrow> vtTokenHash t = h \<and> vtPurpose t = purpose \<and> vtUsedAt t = None \<and> vtExpiresAt t > now"

text \<open>One conditional update spends the link; its count decides.\<close>

definition consume :: "token_env \<Rightarrow> verification_token list \<Rightarrow> millis \<Rightarrow> string \<Rightarrow> token_purpose
    \<Rightarrow> (id \<times> verification_token list) result" where
  "consume env rows now presented purpose =
     (let h = tvHash env presented;
          rows' = update_where (consumable h purpose now) (\<lambda>t. t\<lparr>vtUsedAt := Some now\<rparr>) rows
      in if count_where (consumable h purpose now) rows = 0 then Inl invalidToken
         else (case List.find (\<lambda>t. vtTokenHash t = h) rows' of
             None \<Rightarrow> Inl invalidToken | Some t \<Rightarrow> Inr (vtUserId t, rows')))"

text \<open>Confirming an address: the link is spent, and the address marked verified if it was not.\<close>

definition confirmEmail :: "token_env \<Rightarrow> user list \<Rightarrow> verification_token list \<Rightarrow> millis \<Rightarrow> string
    \<Rightarrow> (user list \<times> verification_token list) result" where
  "confirmEmail env users rows now presented =
     (case consume env rows now presented EMAIL_VERIFICATION of
        Inl e \<Rightarrow> Inl e
      | Inr (userId, rows') \<Rightarrow> Inr (update_where (\<lambda>u. usId u = userId \<and> usEmailVerifiedAt u = None)
            (\<lambda>u. u\<lparr>usEmailVerifiedAt := Some now, usUpdatedAt := now\<rparr>) users, rows'))"

section \<open>Passwords\<close>

text \<open>\<open>PASSWORD_POLICY\<close>: 12 to 256 characters. Hashing and verifying are argon2's, arguments where
  they are used; a stored hash that cannot be read verifies nothing.\<close>

definition assertMeetsPolicy :: "string \<Rightarrow> unit result" where
  "assertMeetsPolicy plaintext =
     (if length plaintext < 12 \<or> length plaintext > 256 then Inl (DomainError AUTH_WEAK_PASSWORD 422) else Inr ())"

record password_hasher =
  pwHash :: "string \<Rightarrow> string"
  pwVerify :: "string \<Rightarrow> string \<Rightarrow> bool option"

definition verify_password :: "password_hasher \<Rightarrow> string \<Rightarrow> string \<Rightarrow> bool" where
  "verify_password pw storedHash plaintext = (pwVerify pw storedHash plaintext = Some True)"

definition hash_password :: "password_hasher \<Rightarrow> string \<Rightarrow> string result" where
  "hash_password pw plaintext = (case assertMeetsPolicy plaintext of Inl e \<Rightarrow> Inl e | Inr _ \<Rightarrow> Inr (pwHash pw plaintext))"

end
