(* ===== verification/TokenProps.thy ===== *)
theory TokenProps
  imports Tokens
begin

text \<open>
  What rotation keeps: one live token in every session family, and no way back for a family whose
  spent token was presented again, as long as requests do not overlap; and what two overlapping
  requests can do. Links are spent once.
\<close>

section \<open>Requests one after the other\<close>

definition live :: "refresh_token \<Rightarrow> bool" where
  "live t \<longleftrightarrow> rtUsedAt t = None \<and> rtRevokedAt t = None"

text \<open>A new session's family is a fresh uuid; every other request may name anything.\<close>

inductive session_step :: "token_env \<Rightarrow> refresh_token list \<Rightarrow> refresh_token list \<Rightarrow> bool" for env where
  issue: "issueSession env rows now fresh familyId userId role ctx = Inr (s, rows') \<Longrightarrow>
    familyId \<notin> set (map rtFamilyId rows) \<Longrightarrow> session_step env rows rows'"
| rotate: "session_step env rows (fst (rotate env users rows now later fresh presented ctx))"
| logout: "session_step env rows (revokeByToken env rows now presented)"
| revoke_family: "session_step env rows (revokeFamily rows now familyId reason)"
| revoke_all: "session_step env rows (snd (revokeAllForUser rows now userId reason))"

inductive session_reachable :: "token_env \<Rightarrow> refresh_token list \<Rightarrow> bool" for env where
  none: "session_reachable env []"
| step: "session_reachable env rows \<Longrightarrow> session_step env rows rows' \<Longrightarrow> session_reachable env rows'"

text \<open>What each step does to the table: it changes tokens in place, only from live to not live, or
  it also appends one row.\<close>

definition fades :: "(refresh_token \<Rightarrow> refresh_token) \<Rightarrow> bool" where
  "fades f \<longleftrightarrow> (\<forall>t. rtId (f t) = rtId t \<and> rtFamilyId (f t) = rtFamilyId t \<and> rtTokenHash (f t) = rtTokenHash t
     \<and> rtUserId (f t) = rtUserId t \<and> (live (f t) \<longrightarrow> f t = t) \<and> (rtRevokedAt t \<noteq> None \<longrightarrow> rtRevokedAt (f t) \<noteq> None)
     \<and> (rtUsedAt (f t) \<noteq> None \<longrightarrow> rtUsedAt t \<noteq> None \<or> rtRevokedAt (f t) \<noteq> None))"

lemma fades_revoked [simp]: "fades (mark_revoked now reason)"
  by (simp add: fades_def mark_revoked_def live_def)

lemma fades_spent [simp]: "fades (mark_spent now)"
  by (simp add: fades_def mark_spent_def live_def)

lemma fades_if [simp]: "fades f \<Longrightarrow> fades (\<lambda>t. if p t then f t else t)"
  by (auto simp: fades_def)

lemma fadesD:
  assumes "fades f"
  shows "rtId (f t) = rtId t" "rtFamilyId (f t) = rtFamilyId t" "rtTokenHash (f t) = rtTokenHash t"
    "rtUserId (f t) = rtUserId t" "live (f t) \<Longrightarrow> f t = t" "rtRevokedAt t \<noteq> None \<Longrightarrow> rtRevokedAt (f t) \<noteq> None"
    "rtUsedAt (f t) \<noteq> None \<Longrightarrow> rtUsedAt t \<noteq> None \<or> rtRevokedAt (f t) \<noteq> None"
  using assms by (simp_all add: fades_def)

lemma issueInFamily_Inr:
  assumes "issueInFamily env rows now fresh userId role familyId ctx = Inr (s, rows')"
  obtains t where "rows' = rows @ [t]" "rtFamilyId t = familyId" "rtUserId t = userId" "live t"
    "rtId t = fst fresh" "rtTokenHash t = tvHash env (snd fresh)"
    "rtId t \<notin> set (map rtId rows)" "rtTokenHash t \<notin> set (map rtTokenHash rows)"
  using assms by (auto simp: issueInFamily_def live_def Let_def split: if_splits)

lemma findByHash_D: "findByHash rows h = Some t \<Longrightarrow> t \<in> set rows \<and> rtTokenHash t = h"
  unfolding findByHash_def by (rule find_SomeD)

lemma rotate_check_Inr:
  assumes "rotate_check env users rows now presented = (rows', Inr (stored, u))"
  shows "rows' = rows \<and> stored \<in> set rows \<and> rtTokenHash stored = tvHash env presented \<and> live stored
    \<and> usStatus u = ACTIVE \<and> findUser users (rtUserId stored) = Some u"
  using assms by (auto simp: rotate_check_def live_def dest: findByHash_D split: option.splits if_splits)

lemma rotate_check_Inl:
  assumes "rotate_check env users rows now presented = (rows', Inl e)"
  shows "\<exists>f. fades f \<and> rows' = map f rows"
proof -
  have "fades (\<lambda>t. t)" by (simp add: fades_def)
  then have same: "\<exists>f. fades f \<and> rows = map f rows" by (intro exI [of _ "\<lambda>t. t"]) simp
  have upd: "\<exists>f. fades f \<and> update_where p (mark_revoked now reason) rows = map f rows" for p reason
    unfolding update_where_def
    by (rule exI [of _ "\<lambda>t. if p t then mark_revoked now reason t else t"]) simp
  show ?thesis
    using assms same upd
    by (auto simp: rotate_check_def revokeFamily_def revokeAllForUser_def split: option.splits if_splits)
qed

lemma rotate_commit_Inr:
  assumes "rotate_commit env rows now fresh stored u ctx = Inr (s, rows')"
  obtains t where "rows' = update_where (\<lambda>x. rtId x = rtId stored) (mark_spent now) rows @ [t]"
    "rtFamilyId t = rtFamilyId stored" "rtUserId t = rtUserId stored" "live t"
    "rtId t = fst fresh" "rtTokenHash t = tvHash env (snd fresh)"
    "rtId t \<notin> set (map rtId rows)" "rtTokenHash t \<notin> set (map rtTokenHash rows)"
proof -
  have "issueInFamily env (update_where (\<lambda>t. rtId t = rtId stored) (mark_spent now) rows) now fresh
      (rtUserId stored) (usRole u) (rtFamilyId stored) ctx = Inr (s, rows')"
    using assms by (simp add: rotate_commit_def split: if_splits)
  then show thesis
    by (rule issueInFamily_Inr)
      (use that in \<open>simp add: map_update_where mark_spent_def\<close>)
qed

text \<open>The shape of every step, in one case distinction.\<close>

lemma session_step_cases:
  assumes "session_step env rows rows'"
  obtains (fade) f where "fades f" "rows' = map f rows"
    | (opened) t where "rows' = rows @ [t]" "live t" "rtFamilyId t \<notin> set (map rtFamilyId rows)"
        "rtId t \<notin> set (map rtId rows)" "rtTokenHash t \<notin> set (map rtTokenHash rows)"
    | (rotated) stored now t where "stored \<in> set rows" "live stored"
        "rows' = update_where (\<lambda>x. rtId x = rtId stored) (mark_spent now) rows @ [t]" "live t"
        "rtFamilyId t = rtFamilyId stored" "rtId t \<notin> set (map rtId rows)" "rtTokenHash t \<notin> set (map rtTokenHash rows)"
proof -
  have upd: thesis if "rows' = update_where p (mark_revoked now reason) rows" for p now reason
    using that fade [of "\<lambda>t. if p t then mark_revoked now reason t else t"] by (simp add: update_where_def)
  have id: thesis if "rows' = rows"
    using that fade [of "\<lambda>t. t"] by (simp add: fades_def)
  show thesis
    using assms
  proof cases
    case (issue now fresh familyId userId role ctx s)
    from issue(1) [unfolded issueSession_def] show thesis
      by (rule issueInFamily_Inr) (use issue(2) in \<open>auto intro: opened\<close>)
  next
    case (rotate users now later fresh presented ctx)
    obtain rows1 r where c: "rotate_check env users rows now presented = (rows1, r)" by fastforce
    show thesis
    proof (cases r)
      case (Inl e)
      then show thesis
        using c rotate rotate_check_Inl [of env users rows now presented rows1 e] fade
        by (auto simp: rotate_def)
    next
      case (Inr p)
      obtain stored u where p: "p = (stored, u)" by (cases p)
      note check = rotate_check_Inr [OF c [unfolded Inr p]]
      show thesis
      proof (cases "rotate_commit env rows later fresh stored u ctx")
        case (Inl e)
        then show thesis using c rotate \<open>r = Inr p\<close> p check id by (auto simp: rotate_def)
      next
        case (Inr q)
        obtain s rows2 where q: "q = (s, rows2)" by (cases q)
        have "rows' = rows2" using c rotate \<open>r = Inr p\<close> p check Inr q by (auto simp: rotate_def)
        with Inr [unfolded q] show thesis
          by (elim rotate_commit_Inr) (use check rotated in blast)
      qed
    qed
  next
    case (logout now presented)
    then show thesis using upd id
      by (auto simp: revokeByToken_def revokeFamily_def split: option.splits if_splits)
  next
    case (revoke_family now familyId reason)
    then show thesis using upd by (auto simp: revokeFamily_def)
  next
    case (revoke_all now userId reason)
    then show thesis using upd by (auto simp: revokeAllForUser_def)
  qed
qed

section \<open>One live token in a family\<close>

definition well_kept :: "refresh_token list \<Rightarrow> bool" where
  "well_kept rows \<longleftrightarrow> distinct (map rtId rows) \<and> distinct (map rtTokenHash rows)
     \<and> (\<forall>t\<in>set rows. \<forall>t'\<in>set rows. live t \<and> live t' \<and> rtFamilyId t = rtFamilyId t' \<longrightarrow> t = t')
     \<and> (\<forall>t\<in>set rows. rtUsedAt t \<noteq> None \<longrightarrow> rtRevokedAt t \<noteq> None)"

lemma well_kept_map:
  assumes "well_kept rows" and "fades f"
  shows "well_kept (map f rows)"
proof -
  have "distinct (map rtId (map f rows))" "distinct (map rtTokenHash (map f rows))"
    using assms(1) fadesD [OF assms(2)] by (simp_all add: well_kept_def comp_def)
  moreover have "f t = f t'" if "t \<in> set rows" "t' \<in> set rows" "live (f t)" "live (f t')"
    "rtFamilyId (f t) = rtFamilyId (f t')" for t t'
    using that assms(1) fadesD(5) [OF assms(2)] by (metis well_kept_def)
  moreover have "rtRevokedAt (f t) \<noteq> None" if "t \<in> set rows" "rtUsedAt (f t) \<noteq> None" for t
    using that assms(1) fadesD(6,7) [OF assms(2)] unfolding well_kept_def by metis
  ultimately show ?thesis
    unfolding well_kept_def by (simp del: map_map)
qed

lemma well_kept_add:
  assumes "well_kept rows" and "live t" and "rtId t \<notin> set (map rtId rows)" and "rtTokenHash t \<notin> set (map rtTokenHash rows)"
    and "\<forall>x\<in>set rows. live x \<longrightarrow> rtFamilyId x \<noteq> rtFamilyId t"
  shows "well_kept (rows @ [t])"
proof -
  have "x = y" if "x \<in> set (rows @ [t])" "y \<in> set (rows @ [t])" "live x" "live y" "rtFamilyId x = rtFamilyId y" for x y
    using that assms(1,5) by (auto simp: well_kept_def)
  moreover have "rtUsedAt t = None" using assms(2) by (simp add: live_def)
  ultimately show ?thesis using assms(1,3,4) by (auto simp: well_kept_def)
qed

lemma well_kept_step:
  assumes "well_kept rows" and "session_step env rows rows'"
  shows "well_kept rows'"
  using assms(2)
proof (cases rule: session_step_cases)
  case (fade f)
  then show ?thesis using well_kept_map [OF assms(1)] by simp
next
  case (opened t)
  have "well_kept (rows @ [t])"
    using opened(3) by (intro well_kept_add [OF assms(1) opened(2,4,5)]) (auto simp: image_iff)
  then show ?thesis by (simp add: opened(1))
next
  case (rotated stored now t)
  define f where "f = (\<lambda>x. if rtId x = rtId stored then mark_spent now x else x)"
  have f: "fades f" by (simp add: f_def)
  have others: "rtFamilyId (f x) \<noteq> rtFamilyId stored" if "x \<in> set rows" "live (f x)" for x
    using that rotated(1,2) assms(1) by (auto simp: f_def well_kept_def live_def mark_spent_def split: if_splits)
  have "well_kept (map f rows @ [t])"
  proof (rule well_kept_add [OF well_kept_map [OF assms(1) f] rotated(4)])
    show "rtId t \<notin> set (map rtId (map f rows))" "rtTokenHash t \<notin> set (map rtTokenHash (map f rows))"
      using rotated(6,7) fadesD [OF f] by auto
    show "\<forall>x\<in>set (map f rows). live x \<longrightarrow> rtFamilyId x \<noteq> rtFamilyId t"
      using others rotated(5) by auto
  qed
  then show ?thesis by (simp add: rotated(3) update_where_def f_def)
qed

lemma reachable_well_kept: "session_reachable env rows \<Longrightarrow> well_kept rows"
  by (induction rule: session_reachable.induct) (auto simp: well_kept_def [of "[]"] intro: well_kept_step)

text \<open>C20. While requests do not overlap, a session family has at most one live token, and a spent token
  is a revoked one: whatever is issued, rotated, logged out and revoked, a stolen token and its
  owner's cannot both be alive.\<close>

theorem one_live_token_per_family:
  assumes "session_reachable env rows"
  shows "(\<forall>t\<in>set rows. \<forall>t'\<in>set rows. live t \<and> live t' \<and> rtFamilyId t = rtFamilyId t' \<longrightarrow> t = t')
    \<and> (\<forall>t\<in>set rows. rtUsedAt t \<noteq> None \<longrightarrow> rtRevokedAt t \<noteq> None)"
  using reachable_well_kept [OF assms] by (simp add: well_kept_def)

section \<open>Reuse ends a family\<close>

definition extinct :: "id \<Rightarrow> refresh_token list \<Rightarrow> bool" where
  "extinct fam rows \<longleftrightarrow> fam \<in> set (map rtFamilyId rows) \<and> (\<forall>t\<in>set rows. rtFamilyId t = fam \<longrightarrow> \<not> live t)"

lemma extinct_map:
  assumes "extinct fam rows" and "fades f"
  shows "extinct fam (map f rows)"
proof -
  have "map rtFamilyId (map f rows) = map rtFamilyId rows" using fadesD(2) [OF assms(2)] by simp
  moreover have "\<not> live (f t)" if "t \<in> set rows" "rtFamilyId (f t) = fam" for t
    using that assms(1) fadesD(2,5) [OF assms(2)] unfolding extinct_def by metis
  ultimately show ?thesis using assms(1) unfolding extinct_def by auto
qed

lemma extinct_step:
  assumes "extinct fam rows" and "session_step env rows rows'"
  shows "extinct fam rows'"
  using assms(2)
proof (cases rule: session_step_cases)
  case (fade f)
  then show ?thesis using extinct_map [OF assms(1)] by simp
next
  case (opened t)
  then show ?thesis using assms(1) by (auto simp: extinct_def)
next
  case (rotated stored now t)
  have "extinct fam (update_where (\<lambda>x. rtId x = rtId stored) (mark_spent now) rows)"
    using extinct_map [OF assms(1), of "\<lambda>x. if rtId x = rtId stored then mark_spent now x else x"]
    by (simp add: update_where_def)
  moreover have "rtFamilyId stored \<noteq> fam" using assms(1) rotated(1,2) by (auto simp: extinct_def)
  ultimately show ?thesis using rotated(3,5) by (auto simp: extinct_def)
qed

lemma extinct_later: "(session_step env)\<^sup>*\<^sup>* rows rows' \<Longrightarrow> extinct fam rows \<Longrightarrow> extinct fam rows'"
  by (induction rule: rtranclp_induct) (auto intro: extinct_step)

lemma revoked_not_live:
  assumes t: "t \<in> set (update_where (\<lambda>x. p x \<and> rtRevokedAt x = None) (mark_revoked now reason) rows)" "p t"
  shows "\<not> live t"
proof -
  obtain x where "t = (if p x \<and> rtRevokedAt x = None then mark_revoked now reason x else x)"
    using t(1) unfolding set_update_where by blast
  with t(2) show ?thesis
    by (cases "p x \<and> rtRevokedAt x = None") (auto simp: mark_revoked_def live_def)
qed

text \<open>C19. Presenting a spent token is refused and ends its whole family for good: no later request of
  any kind brings a live token of that family back.\<close>

theorem reuse_ends_the_family:
  assumes "findByHash rows (tvHash env presented) = Some stored" and "rtUsedAt stored \<noteq> None"
    and "findUser users (rtUserId stored) = Some u"
    and "(session_step env)\<^sup>*\<^sup>* (fst (rotate env users rows now later fresh presented ctx)) rows'"
  shows "snd (rotate env users rows now later fresh presented ctx) = Inl (DomainError AUTH_REFRESH_INVALID 401)
    \<and> (\<forall>t\<in>set rows'. rtFamilyId t = rtFamilyId stored \<longrightarrow> \<not> live t)"
proof -
  have r: "rotate env users rows now later fresh presented ctx
      = (revokeFamily rows now (rtFamilyId stored) BY_REUSE_DETECTED, Inl invalidRefresh)"
    using assms(1-3) by (simp add: rotate_def rotate_check_def)
  have "stored \<in> set rows" using findByHash_D [OF assms(1)] by simp
  moreover have "map rtFamilyId (revokeFamily rows now (rtFamilyId stored) BY_REUSE_DETECTED) = map rtFamilyId rows"
    by (simp add: revokeFamily_def map_update_where mark_revoked_def)
  ultimately have "rtFamilyId stored \<in> set (map rtFamilyId (revokeFamily rows now (rtFamilyId stored) BY_REUSE_DETECTED))"
    by simp
  then have "extinct (rtFamilyId stored) (revokeFamily rows now (rtFamilyId stored) BY_REUSE_DETECTED)"
    unfolding extinct_def revokeFamily_def
    using revoked_not_live [where p = "\<lambda>t. rtFamilyId t = rtFamilyId stored"] by simp
  from extinct_later [OF assms(4) [unfolded r fst_conv] this] show ?thesis
    by (simp add: r invalidRefresh_def extinct_def)
qed

section \<open>Requests that overlap\<close>

text \<open>Two rotations of one token that overlap both succeed: the check of each passes before the
  other's transaction, nothing in the transaction asks whether the token is still unspent, and the
  family is left with two live tokens and no reuse detected.\<close>

theorem overlapping_rotations_fork:
  assumes "rotate_check env users rows now1 presented = (rows, Inr (stored, u))"
    and "rotate_check env users rows now2 presented = (rows, Inr (stored, u))"
    and "rotate_commit env rows later1 fresh1 stored u ctx1 = Inr (s1, rows1)"
    and "fst fresh2 \<notin> set (map rtId rows1)" and "tvHash env (snd fresh2) \<notin> set (map rtTokenHash rows1)"
  shows "\<exists>s2 rows2. rotate_commit env rows1 later2 fresh2 stored u ctx2 = Inr (s2, rows2)
    \<and> (\<exists>t1\<in>set rows2. \<exists>t2\<in>set rows2. t1 \<noteq> t2 \<and> live t1 \<and> live t2
        \<and> rtFamilyId t1 = rtFamilyId stored \<and> rtFamilyId t2 = rtFamilyId stored)"
proof -
  from assms(3) obtain t1 where t1: "rows1 = update_where (\<lambda>x. rtId x = rtId stored) (mark_spent later1) rows @ [t1]"
      "rtFamilyId t1 = rtFamilyId stored" "live t1" "rtId t1 \<notin> set (map rtId rows)"
    by (rule rotate_commit_Inr)
  have stored: "rtId stored \<in> set (map rtId rows)" using rotate_check_Inr [OF assms(1)] by auto
  then have "rtId stored \<in> set (map rtId rows1)" by (simp add: t1(1) map_update_where mark_spent_def)
  then obtain s2 rows2 where c2: "rotate_commit env rows1 later2 fresh2 stored u ctx2 = Inr (s2, rows2)"
    using assms(4,5)
    by (auto simp: rotate_commit_def issueInFamily_def Let_def map_update_where mark_spent_def set_update_where)
  then obtain t2 where t2: "rows2 = update_where (\<lambda>x. rtId x = rtId stored) (mark_spent later2) rows1 @ [t2]"
      "rtFamilyId t2 = rtFamilyId stored" "live t2" "rtId t2 \<notin> set (map rtId rows1)"
    by (rule rotate_commit_Inr)
  have "rtId t1 \<noteq> rtId stored" using stored t1(4) by auto
  then have "t1 \<in> set rows2" by (simp add: t2(1) t1(1))
  moreover have "t1 \<noteq> t2" using t2(4) t1(1) by auto
  ultimately show ?thesis using c2 t1(2,3) t2(1-3) by auto
qed

text \<open>A rotation that overlaps a revocation undoes it: if every session of the user is revoked (a
  password reset, a suspension, an administrator's order) between the check and the transaction, the
  transaction still issues a live token to that user.\<close>

theorem rotation_outlives_revocation:
  assumes "rotate_check env users rows now presented = (rows, Inr (stored, u))"
    and "fst fresh \<notin> set (map rtId rows)" and "tvHash env (snd fresh) \<notin> set (map rtTokenHash rows)"
  shows "\<exists>s rows'. rotate_commit env (snd (revokeAllForUser rows revokedAt (rtUserId stored) reason)) later fresh stored u ctx
      = Inr (s, rows') \<and> (\<exists>t\<in>set rows'. rtUserId t = rtUserId stored \<and> live t \<and> rtTokenHash t = tvHash env (isRefreshToken s))"
proof -
  let ?rows = "snd (revokeAllForUser rows revokedAt (rtUserId stored) reason)"
  have keys: "map rtId ?rows = map rtId rows" "map rtTokenHash ?rows = map rtTokenHash rows"
    by (simp_all add: revokeAllForUser_def map_update_where mark_revoked_def)
  have "rtId stored \<in> set (map rtId ?rows)"
    using rotate_check_Inr [OF assms(1)] unfolding keys by simp
  moreover have "map rtId (update_where (\<lambda>t. rtId t = rtId stored) (mark_spent later) ?rows) = map rtId rows"
    "map rtTokenHash (update_where (\<lambda>t. rtId t = rtId stored) (mark_spent later) ?rows) = map rtTokenHash rows"
    using keys by (simp_all add: map_update_where mark_spent_def)
  ultimately show ?thesis
    using assms(2,3) by (auto simp: rotate_commit_def issueInFamily_def Let_def live_def)
qed

section \<open>A link is spent once\<close>

lemma consume_Inr:
  assumes "distinct (map vtTokenHash rows)" and "consume env rows now presented purpose = Inr (uid, rows')"
  obtains t where "t \<in> set rows" "consumable (tvHash env presented) purpose now t" "vtUserId t = uid"
    "rows' = update_where (consumable (tvHash env presented) purpose now) (\<lambda>t. t\<lparr>vtUsedAt := Some now\<rparr>) rows"
proof -
  let ?h = "tvHash env presented"
  let ?u = "\<lambda>t :: verification_token. t\<lparr>vtUsedAt := Some now\<rparr>"
  have rows': "rows' = update_where (consumable ?h purpose now) ?u rows"
    and n: "count_where (consumable ?h purpose now) rows \<noteq> 0"
    and f: "\<exists>t. List.find (\<lambda>t. vtTokenHash t = ?h) rows' = Some t \<and> vtUserId t = uid"
    using assms(2) by (auto simp: consume_def Let_def split: if_splits option.splits)
  from n obtain t where t: "t \<in> set rows" "consumable ?h purpose now t"
    by (auto simp: count_where_0_iff)
  have "List.find (\<lambda>x. vtTokenHash x = ?h) rows = Some t"
    using find_key_eq [OF assms(1) t(1)] t(2) by (simp add: consumable_def)
  moreover have "List.find (\<lambda>x. vtTokenHash x = ?h) rows'
      = map_option (\<lambda>r. if consumable ?h purpose now r then ?u r else r) (List.find (\<lambda>x. vtTokenHash x = ?h) rows)"
    unfolding rows' by (rule find_update_where) (simp add: consumable_def)
  ultimately have "vtUserId t = uid" using f t(2) by auto
  then show thesis using that t rows' by blast
qed

text \<open>A link works once, for its own purpose, before it expires: whoever it is accepted for is the
  owner of an unspent, unexpired link of that purpose, and after that the link is refused for every
  purpose. (The condition is part of the update, so this also decides between overlapping requests.)\<close>

theorem link_is_spent_once:
  assumes "distinct (map vtTokenHash rows)" and "consume env rows now presented purpose = Inr (uid, rows')"
  shows "(\<exists>t\<in>set rows. vtUserId t = uid \<and> vtTokenHash t = tvHash env presented \<and> vtPurpose t = purpose
        \<and> vtUsedAt t = None \<and> now < vtExpiresAt t)
    \<and> consume env rows' later presented purpose' = Inl (DomainError AUTH_TOKEN_INVALID 400)"
proof -
  let ?h = "tvHash env presented"
  obtain t where t: "t \<in> set rows" "consumable ?h purpose now t" "vtUserId t = uid"
    and rows': "rows' = update_where (consumable ?h purpose now) (\<lambda>t. t\<lparr>vtUsedAt := Some now\<rparr>) rows"
    using assms by (rule consume_Inr)
  have "\<not> consumable ?h purpose' later y" if y: "y \<in> set rows'" for y
  proof -
    obtain x where x: "x \<in> set rows" "y = (if consumable ?h purpose now x then x\<lparr>vtUsedAt := Some now\<rparr> else x)"
      using y unfolding rows' set_update_where by blast
    show ?thesis
    proof (cases "x = t")
      case True
      then show ?thesis using x(2) t(2) by (simp add: consumable_def)
    next
      case False
      then have "vtTokenHash x \<noteq> ?h"
        using distinct_key_unique [OF assms(1) x(1) t(1)] t(2) by (auto simp: consumable_def)
      then show ?thesis using x(2) by (simp add: consumable_def)
    qed
  qed
  then have "count_where (consumable ?h purpose' later) rows' = 0" by (simp add: count_where_0_iff)
  then have "consume env rows' later presented purpose' = Inl (DomainError AUTH_TOKEN_INVALID 400)"
    by (simp add: consume_def Let_def invalidToken_def)
  moreover have "\<exists>t\<in>set rows. vtUserId t = uid \<and> vtTokenHash t = ?h \<and> vtPurpose t = purpose
      \<and> vtUsedAt t = None \<and> now < vtExpiresAt t"
    using t by (intro bexI [of _ t]) (auto simp: consumable_def)
  ultimately show ?thesis by simp
qed

section \<open>Concrete sessions\<close>

definition demo_env :: token_env where
  "demo_env = \<lparr>tvHash = (\<lambda>t. t), tvSign = (\<lambda>_ _. ''jwt''), tvAccessTtlSeconds = 900, tvRefreshTtlDays = 30\<rparr>"

definition demo_session_context :: session_context where
  "demo_session_context = \<lparr>scxIp = None, scxUserAgent = None\<rparr>"

definition demo_account :: user where
  "demo_account = \<lparr>usId = 4, usEmail = ''a@b'', usPasswordHash = ''h'', usRole = ROLE_USER, usStatus = ACTIVE,
     usEmailVerifiedAt = None, usRegistrationIp = None, usRegistrationCountry = None, usLocale = ''en'',
     usCreatedAt = 0, usUpdatedAt = 0\<rparr>"

definition demo_refresh :: "id \<Rightarrow> string \<Rightarrow> millis option \<Rightarrow> refresh_token" where
  "demo_refresh i h spent = \<lparr>rtId = i, rtUserId = 4, rtFamilyId = 7, rtTokenHash = h, rtExpiresAt = 2592000000,
     rtUsedAt = spent, rtRevokedAt = spent, rtRevokedReason = map_option (\<lambda>_. BY_ROTATION) spent,
     rtIssuedIp = None, rtIssuedUserAgent = None\<rparr>"

lemmas demo_session_simps = demo_env_def demo_session_context_def demo_account_def demo_refresh_def findUser_def
  findByHash_def

lemma demo_check: "rotate_check demo_env [demo_account] [demo_refresh 2 ''t'' None] 5 ''t''
    = ([demo_refresh 2 ''t'' None], Inr (demo_refresh 2 ''t'' None, demo_account))"
  by (simp add: rotate_check_def demo_session_simps)

lemma one_live_token_per_family_witness:
  "\<exists>rows. session_reachable demo_env rows \<and> rows \<noteq> [] \<and> (\<forall>t\<in>set rows. rtUsedAt t \<noteq> None \<longrightarrow> rtRevokedAt t \<noteq> None)"
proof -
  have "issueSession demo_env [] 0 (2, ''t'') 7 4 ROLE_USER demo_session_context
      = Inr (\<lparr>isAccessToken = ''jwt'', isExpiresIn = 900, isRefreshToken = ''t'', isRefreshExpiresAt = 2592000000\<rparr>,
             [demo_refresh 2 ''t'' None])"
    by (simp add: issueSession_def issueInFamily_def demo_session_simps Let_def)
  then have "session_reachable demo_env [demo_refresh 2 ''t'' None]"
    by (intro session_reachable.step [OF session_reachable.none] session_step.issue) auto
  with one_live_token_per_family [OF this] show ?thesis by (intro exI [of _ "[demo_refresh 2 ''t'' None]"]) simp
qed

lemma reuse_ends_the_family_witness:
  "snd (rotate demo_env [demo_account] [demo_refresh 2 ''t'' (Some 3), demo_refresh 3 ''u'' None] 5 5 (4, ''v'') ''t''
      demo_session_context) = Inl (DomainError AUTH_REFRESH_INVALID 401)"
  using reuse_ends_the_family [where env = demo_env and rows = "[demo_refresh 2 ''t'' (Some 3), demo_refresh 3 ''u'' None]"
      and presented = "''t''" and stored = "demo_refresh 2 ''t'' (Some 3)" and users = "[demo_account]" and u = demo_account
      and now = 5 and later = 5 and fresh = "(4, ''v'')" and ctx = demo_session_context, OF _ _ _ rtranclp.rtrancl_refl]
  by (simp add: demo_session_simps)

lemma demo_commit: "\<exists>s. rotate_commit demo_env [demo_refresh 2 ''t'' None] 6 (3, ''u'') (demo_refresh 2 ''t'' None) demo_account
    demo_session_context = Inr (s, [demo_refresh 2 ''t'' (Some 6),
      (demo_refresh 3 ''u'' None)\<lparr>rtExpiresAt := 2592000006\<rparr>])"
  by (simp add: rotate_commit_def issueInFamily_def demo_session_simps mark_spent_def Let_def)

lemma overlapping_rotations_fork_witness:
  "\<exists>rows. rows \<noteq> [] \<and> (\<exists>t1\<in>set rows. \<exists>t2\<in>set rows. t1 \<noteq> t2 \<and> live t1 \<and> live t2 \<and> rtFamilyId t1 = rtFamilyId t2)"
proof -
  obtain s1 where c: "rotate_commit demo_env [demo_refresh 2 ''t'' None] 6 (3, ''u'') (demo_refresh 2 ''t'' None) demo_account
    demo_session_context = Inr (s1, [demo_refresh 2 ''t'' (Some 6), (demo_refresh 3 ''u'' None)\<lparr>rtExpiresAt := 2592000006\<rparr>])"
    using demo_commit by blast
  have "\<exists>s2 rows2. rotate_commit demo_env [demo_refresh 2 ''t'' (Some 6), (demo_refresh 3 ''u'' None)\<lparr>rtExpiresAt := 2592000006\<rparr>]
      6 (4, ''v'') (demo_refresh 2 ''t'' None) demo_account demo_session_context = Inr (s2, rows2)
    \<and> (\<exists>t1\<in>set rows2. \<exists>t2\<in>set rows2. t1 \<noteq> t2 \<and> live t1 \<and> live t2
        \<and> rtFamilyId t1 = rtFamilyId (demo_refresh 2 ''t'' None) \<and> rtFamilyId t2 = rtFamilyId (demo_refresh 2 ''t'' None))"
    by (rule overlapping_rotations_fork [OF demo_check demo_check c]) (simp_all add: demo_session_simps)
  then show ?thesis by (metis empty_iff list.set(1))
qed

lemma rotation_outlives_revocation_witness:
  "\<exists>s rows'. rotate_commit demo_env (snd (revokeAllForUser [demo_refresh 2 ''t'' None] 6 4 BY_PASSWORD_RESET)) 7 (3, ''u'')
      (demo_refresh 2 ''t'' None) demo_account demo_session_context = Inr (s, rows') \<and> (\<exists>t\<in>set rows'. live t)"
  using rotation_outlives_revocation [OF demo_check, where fresh = "(3, ''u'')" and revokedAt = 6 and later = 7
      and reason = BY_PASSWORD_RESET and ctx = demo_session_context]
  by (auto simp: demo_env_def demo_refresh_def)

definition demo_link :: verification_token where
  "demo_link = \<lparr>vtId = 2, vtUserId = 4, vtPurpose = PASSWORD_RESET, vtTokenHash = ''r'', vtExpiresAt = 100, vtUsedAt = None\<rparr>"

lemma link_is_spent_once_witness:
  "\<exists>rows. consume demo_env [demo_link] 5 ''r'' PASSWORD_RESET = Inr (4, rows)
    \<and> consume demo_env rows 6 ''r'' PASSWORD_RESET = Inl (DomainError AUTH_TOKEN_INVALID 400)"
proof -
  have c: "consume demo_env [demo_link] 5 ''r'' PASSWORD_RESET = Inr (4, [demo_link\<lparr>vtUsedAt := Some 5\<rparr>])"
    by (simp add: consume_def demo_env_def demo_link_def consumable_def)
  have "distinct (map vtTokenHash [demo_link])" by simp
  from link_is_spent_once [OF this c] c show ?thesis by blast
qed

end
