(* ===== verification/AuthFlows.thy ===== *)
theory AuthFlows
  imports TokenProps
begin

text \<open>
  Authentication as requests see it: the flows of \<^verbatim>\<open>modules/auth/auth.service.ts\<close>, the two
  throttles, and the guards that decide who a request is and whether it may pass. What Redis
  answers to the counters' commands, argon2 and the verification of a signed token are arguments.
\<close>

section \<open>Throttles\<close>

definition throttled :: app_error where
  "throttled = DomainError RATE_LIMITED 429"

definition counters_unusable :: app_error where
  "counters_unusable = InfrastructureError SERVICE_UNAVAILABLE 503 True"

text \<open>The account's bucket is the same for every spelling of an address.\<close>

definition accountKeyFor :: "(string \<Rightarrow> string) \<Rightarrow> string \<Rightarrow> string" where
  "accountKeyFor sha256 email = sha256 (normalizeEmail email)"

definition accountRedisKey :: "string \<Rightarrow> string" where
  "accountRedisKey k = ''ow:1:login-throttle:account:'' @ k"

definition ipRedisKey :: "string \<Rightarrow> string" where
  "ipRedisKey ip = ''ow:1:login-throttle:ip:'' @ ip"

text \<open>What a counter transaction answers: discarded, failed, or the new count.\<close>

datatype counter_reply = Discarded | Failed | Count int

definition reply_count :: "counter_reply \<Rightarrow> int option" where
  "reply_count r = (case r of Count n \<Rightarrow> Some n | _ \<Rightarrow> None)"

definition reserveAttempt :: "int \<Rightarrow> int \<Rightarrow> string option \<Rightarrow> counter_reply \<Rightarrow> counter_reply \<Rightarrow> unit result" where
  "reserveAttempt accountLimit ipLimit ip accountReply ipReply =
     (case (reply_count accountReply, if ip = None then Some 0 else reply_count ipReply) of
        (Some accountAttempts, Some ipAttempts) \<Rightarrow>
          if accountAttempts > accountLimit then Inl throttled
          else if ip \<noteq> None \<and> ipAttempts > ipLimit then Inl throttled
          else Inr ()
      | _ \<Rightarrow> Inl counters_unusable)"

definition publicReserve :: "int \<Rightarrow> string option \<Rightarrow> counter_reply \<Rightarrow> unit result" where
  "publicReserve limit ip reply = (case ip of
     None \<Rightarrow> Inr ()
   | Some _ \<Rightarrow> (case reply_count reply of
       None \<Rightarrow> Inl counters_unusable
     | Some requests \<Rightarrow> if requests > limit then Inl throttled else Inr ()))"

definition publicRedisKey :: "string \<Rightarrow> string \<Rightarrow> string" where
  "publicRedisKey bucket ip = ''ow:1:public-throttle:'' @ bucket @ '':'' @ ip"

section \<open>The state and what a flow does besides\<close>

record email_job =
  ejUserId :: id
  ejEmail :: string
  ejToken :: string
  ejPurpose :: token_purpose

record auth_state =
  asUsers :: users_state
  asTokens :: "refresh_token list"
  asLinks :: "verification_token list"
  asEmails :: "email_job list"

text \<open>What a login does that its caller does not see: the counters' commands and the password
  verifications.\<close>

datatype login_event =
    Reserve string "string option"
  | ClearAccount string
  | ReleaseAddress "string option"
  | VerifyAgainst string

record auth_ports =
  apEnv :: token_env
  apHasher :: password_hasher
  apDecoy :: string
  apAccountLimit :: int
  apIpLimit :: int
  apVerifyTtl :: int
  apResetTtl :: int

section \<open>Registering\<close>

text \<open>\<open>sendVerificationEmail\<close> never fails: an error is logged. \<open>queued\<close>: whether the queue takes it.\<close>

definition send_link :: "auth_ports \<Rightarrow> bool \<Rightarrow> auth_state \<Rightarrow> millis \<Rightarrow> fresh_token \<Rightarrow> int \<Rightarrow> user \<Rightarrow> token_purpose
    \<Rightarrow> auth_state" where
  "send_link ports queued s now fresh ttl u purpose =
     (case issue_link (apEnv ports) (asLinks s) now fresh ttl (usId u) purpose of
        Inl _ \<Rightarrow> s
      | Inr (token, links) \<Rightarrow> s\<lparr>asLinks := links, asEmails := (if queued then asEmails s @ [\<lparr>ejUserId = usId u,
          ejEmail = usEmail u, ejToken = token, ejPurpose = purpose\<rparr>] else asEmails s)\<rparr>)"

definition open_session :: "auth_ports \<Rightarrow> auth_state \<Rightarrow> millis \<Rightarrow> fresh_token \<Rightarrow> id \<Rightarrow> user \<Rightarrow> session_context
    \<Rightarrow> auth_state \<times> (user_profile \<times> issued_session) result" where
  "open_session ports s now fresh familyId u ctx =
     (case issueSession (apEnv ports) (asTokens s) now fresh familyId (usId u) (usRole u) ctx of
        Inl e \<Rightarrow> (s, Inl e)
      | Inr (session, tokens) \<Rightarrow> (s\<lparr>asTokens := tokens\<rparr>, Inr (toProfile u, session)))"

definition register :: "auth_ports \<Rightarrow> bool \<Rightarrow> auth_state \<Rightarrow> millis \<Rightarrow> id \<times> id \<Rightarrow> fresh_token \<Rightarrow> fresh_token \<Rightarrow> id
    \<Rightarrow> string \<Rightarrow> string \<Rightarrow> session_context \<Rightarrow> auth_state \<times> (user_profile \<times> issued_session) result" where
  "register ports queued s now ids freshLink fresh familyId email password ctx =
     (case assertMeetsPolicy password of
        Inl e \<Rightarrow> (s, Inl e)
      | Inr _ \<Rightarrow> (case hash_password (apHasher ports) password of
          Inl e \<Rightarrow> (s, Inl e)
        | Inr h \<Rightarrow> (case createUser (asUsers s) (fst ids) (snd ids) now \<lparr>cxEmail = email, cxPasswordHash = h,
              cxRegistrationIp = scxIp ctx, cxRegistrationCountry = None, cxLocale = None\<rparr> of
            Inl e \<Rightarrow> (s, Inl e)
          | Inr (u, users) \<Rightarrow>
              open_session ports (send_link ports queued (s\<lparr>asUsers := users\<rparr>) now freshLink (apVerifyTtl ports) u
                EMAIL_VERIFICATION) now fresh familyId u ctx)))"

section \<open>Logging in\<close>

definition invalidCredentials :: app_error where
  "invalidCredentials = DomainError AUTH_INVALID_CREDENTIALS 401"

definition login :: "auth_ports \<Rightarrow> auth_state \<Rightarrow> millis \<Rightarrow> fresh_token \<Rightarrow> id \<Rightarrow> counter_reply \<Rightarrow> counter_reply
    \<Rightarrow> string \<Rightarrow> string \<Rightarrow> session_context
    \<Rightarrow> login_event list \<times> auth_state \<times> (user_profile \<times> issued_session) result" where
  "login ports s now fresh familyId accountReply ipReply email password ctx =
     (let accountKey = accountKeyFor (tvHash (apEnv ports)) email; ip = scxIp ctx; begun = [Reserve accountKey ip]
      in case reserveAttempt (apAccountLimit ports) (apIpLimit ports) ip accountReply ipReply of
        Inl e \<Rightarrow> (begun, s, Inl e)
      | Inr _ \<Rightarrow> (case findUserByEmail (usUsers (asUsers s)) email of
          None \<Rightarrow> (begun @ [VerifyAgainst (apDecoy ports)], s, Inl invalidCredentials)
        | Some u \<Rightarrow>
            let checked = begun @ [VerifyAgainst (usPasswordHash u)] in
            if \<not> verify_password (apHasher ports) (usPasswordHash u) password then (checked, s, Inl invalidCredentials)
            else let released = checked @ [ClearAccount accountKey, ReleaseAddress ip] in
              if \<not> isActiveUser u then (released, s, Inl (DomainError AUTH_ACCOUNT_INACTIVE 403))
              else (released, open_session ports s now fresh familyId u ctx)))"

section \<open>Links, refreshing and leaving\<close>

definition verifyEmail :: "auth_ports \<Rightarrow> auth_state \<Rightarrow> millis \<Rightarrow> string \<Rightarrow> auth_state result" where
  "verifyEmail ports s now presented =
     (case confirmEmail (apEnv ports) (usUsers (asUsers s)) (asLinks s) now presented of
        Inl e \<Rightarrow> Inl e
      | Inr (rows, links) \<Rightarrow> Inr (s\<lparr>asUsers := (asUsers s)\<lparr>usUsers := rows\<rparr>, asLinks := links\<rparr>))"

text \<open>The answer is the same whether or not the address is known, and whatever fails.\<close>

definition requestPasswordReset :: "auth_ports \<Rightarrow> bool \<Rightarrow> auth_state \<Rightarrow> millis \<Rightarrow> fresh_token \<Rightarrow> string \<Rightarrow> auth_state" where
  "requestPasswordReset ports queued s now fresh email =
     (case findUserByEmail (usUsers (asUsers s)) email of
        None \<Rightarrow> s
      | Some u \<Rightarrow> if \<not> isActiveUser u then s
          else send_link ports queued s now fresh (apResetTtl ports) u PASSWORD_RESET)"

text \<open>One transaction: the link, the password and the sessions.\<close>

definition resetPassword :: "auth_ports \<Rightarrow> auth_state \<Rightarrow> millis \<Rightarrow> string \<Rightarrow> string \<Rightarrow> auth_state result" where
  "resetPassword ports s now presented newPassword =
     (case assertMeetsPolicy newPassword of
        Inl e \<Rightarrow> Inl e
      | Inr _ \<Rightarrow> (case hash_password (apHasher ports) newPassword of
          Inl e \<Rightarrow> Inl e
        | Inr h \<Rightarrow> (case consume (apEnv ports) (asLinks s) now presented PASSWORD_RESET of
            Inl e \<Rightarrow> Inl e
          | Inr (owner, links) \<Rightarrow> (case updatePasswordHash (usUsers (asUsers s)) now owner h of
              Inl e \<Rightarrow> Inl e
            | Inr (u, rows) \<Rightarrow> Inr (s\<lparr>asLinks := links, asUsers := (asUsers s)\<lparr>usUsers := rows\<rparr>,
                asTokens := snd (revokeAllForUser (asTokens s) now owner BY_PASSWORD_RESET)\<rparr>)))))"

definition refresh :: "auth_ports \<Rightarrow> auth_state \<Rightarrow> millis \<Rightarrow> millis \<Rightarrow> fresh_token \<Rightarrow> string \<Rightarrow> session_context
    \<Rightarrow> auth_state \<times> (user_profile \<times> issued_session) result" where
  "refresh ports s now later fresh presented ctx =
     (case rotate (apEnv ports) (usUsers (asUsers s)) (asTokens s) now later fresh presented ctx of
        (tokens, Inl e) \<Rightarrow> (s\<lparr>asTokens := tokens\<rparr>, Inl e)
      | (tokens, Inr (userId, session)) \<Rightarrow> (s\<lparr>asTokens := tokens\<rparr>,
          (case findUser (usUsers (asUsers s)) userId of
             None \<Rightarrow> Inl invalidCredentials | Some u \<Rightarrow> Inr (toProfile u, session))))"

definition logout :: "auth_ports \<Rightarrow> auth_state \<Rightarrow> millis \<Rightarrow> string option \<Rightarrow> auth_state" where
  "logout ports s now presented = (case truthy presented of
     None \<Rightarrow> s | Some t \<Rightarrow> s\<lparr>asTokens := revokeByToken (apEnv ports) (asTokens s) now t\<rparr>)"

section \<open>Guards\<close>

text \<open>\<open>extractBearerToken\<close>: the second word of the header, when the first is \<open>Bearer\<close> in any case.\<close>

definition extractBearerToken :: "string option \<Rightarrow> string option" where
  "extractBearerToken header = (case header of
     None \<Rightarrow> None
   | Some h \<Rightarrow> (case split_on CHR '' '' h of
       scheme # word # _ \<Rightarrow> if js_lower scheme \<noteq> ''bearer'' \<or> word = [] then None else truthy (Some (js_trim word))
     | _ \<Rightarrow> None))"

record principal =
  ppId :: id
  ppEmail :: string
  ppRole :: user_role
  ppStatus :: user_status

definition unauthenticated :: app_error where
  "unauthenticated = DomainError AUTH_TOKEN_INVALID 401"

text \<open>\<open>verifyJwt\<close> answers the claims of a token whose signature and expiry hold.\<close>

definition jwt_guard :: "(string \<Rightarrow> (id \<times> user_role) option) \<Rightarrow> user list \<Rightarrow> bool \<Rightarrow> string option
    \<Rightarrow> principal option result" where
  "jwt_guard verifyJwt users isPublic header =
     (if isPublic then Inr None
      else (case extractBearerToken header of
          None \<Rightarrow> Inl unauthenticated
        | Some token \<Rightarrow> (case verifyJwt token of
            None \<Rightarrow> Inl unauthenticated
          | Some (sub, role) \<Rightarrow> (case findUser users sub of
              None \<Rightarrow> Inl unauthenticated
            | Some u \<Rightarrow> if \<not> isActiveUser u then Inl (DomainError AUTH_ACCOUNT_INACTIVE 403)
                else Inr (Some \<lparr>ppId = usId u, ppEmail = usEmail u, ppRole = usRole u, ppStatus = usStatus u\<rparr>)))))"

definition roles_guard :: "user_role list option \<Rightarrow> principal option \<Rightarrow> unit result" where
  "roles_guard required who = (case required of
     None \<Rightarrow> Inr ()
   | Some [] \<Rightarrow> Inr ()
   | Some (r # rs) \<Rightarrow> (case who of
       None \<Rightarrow> Inl unauthenticated
     | Some p \<Rightarrow> if ppRole p \<in> set (r # rs) then Inr () else Inl (DomainError FORBIDDEN 403)))"

text \<open>The two guards in the order they are registered.\<close>

definition guard_request :: "(string \<Rightarrow> (id \<times> user_role) option) \<Rightarrow> user list \<Rightarrow> bool \<Rightarrow> user_role list option
    \<Rightarrow> string option \<Rightarrow> principal option result" where
  "guard_request verifyJwt users isPublic required header =
     (case jwt_guard verifyJwt users isPublic header of
        Inl e \<Rightarrow> Inl e
      | Inr who \<Rightarrow> (case roles_guard required who of Inl e \<Rightarrow> Inl e | Inr _ \<Rightarrow> Inr who))"

section \<open>The refresh cookie\<close>

definition readRefreshToken :: "json option \<Rightarrow> json option \<Rightarrow> string option" where
  "readRefreshToken fromCookie fromBody =
     (case fromCookie of
        Some (JStr (c # cs)) \<Rightarrow> Some (c # cs)
      | _ \<Rightarrow> (case fromBody of Some (JStr (c # cs)) \<Rightarrow> Some (c # cs) | _ \<Rightarrow> None))"

end
