(* ===== verification/AdminActions.thy ===== *)
theory AdminActions
  imports AdminConfig AuthFlows ConversionProps SyncProps
begin

text \<open>
  What an administrator does to users, payouts, held conversions, providers and the catalog:
  \<^verbatim>\<open>modules/admin/admin-users.service.ts\<close>, \<^verbatim>\<open>admin-payouts.service.ts\<close>,
  \<^verbatim>\<open>admin-fraud.service.ts\<close>, \<^verbatim>\<open>admin-providers.service.ts\<close> and
  \<^verbatim>\<open>admin-catalog.service.ts\<close>. Each change and its audit entry are one transaction: a result that is
  an error leaves no new state. Where the code reads the row for the entry's \<open>before\<close> ahead of the
  transaction, the model does so at the start of the same step.
\<close>

section \<open>Audit entries\<close>

definition admin_entry :: "admin_context \<Rightarrow> admin_action \<Rightarrow> string \<Rightarrow> id \<Rightarrow> (string \<times> json) list option
    \<Rightarrow> (string \<times> json) list \<Rightarrow> string option \<Rightarrow> audit_entry" where
  "admin_entry ctx action targetType target before after reason = \<lparr>aeAdminId = acAdminId ctx, aeAction = action,
     aeTargetType = targetType, aeTargetId = Some (RowTarget target), aeBefore = map_option JObj before,
     aeAfter = Some (JObj after), aeReason = reason, aeIp = acIp ctx\<rparr>"

definition json_int :: "int \<Rightarrow> json" where
  "json_int n = JNum (of_int n)"

definition json_text :: "string option \<Rightarrow> json" where
  "json_text s = (case s of None \<Rightarrow> JNull | Some t \<Rightarrow> JStr t)"

section \<open>Users\<close>

fun user_status_name :: "user_status \<Rightarrow> string" where
  "user_status_name ACTIVE = ''ACTIVE''"
| "user_status_name SUSPENDED = ''SUSPENDED''"
| "user_status_name BANNED = ''BANNED''"
| "user_status_name CLOSED = ''CLOSED''"

fun user_role_name :: "user_role \<Rightarrow> string" where
  "user_role_name ROLE_USER = ''USER''"
| "user_role_name ROLE_ADMIN = ''ADMIN''"

record user_admin =
  uaUsers :: "user list"
  uaTokens :: "refresh_token list"
  uaAudit :: "audit_row list"

definition session_count :: "refresh_token list \<Rightarrow> millis \<Rightarrow> id list \<Rightarrow> id \<Rightarrow> nat" where
  "session_count tokens now ids u = (case countActiveSessions tokens now ids u of None \<Rightarrow> 0 | Some n \<Rightarrow> n)"

definition admin_list_users :: "user_admin \<Rightarrow> millis \<Rightarrow> list_users_query \<Rightarrow> admin_user_summary paginated" where
  "admin_list_users s now q = (let p = findManyUsers (uaUsers s) q in
     \<lparr>items = map (\<lambda>u. toAdminUserSummary u (session_count (uaTokens s) now (map usId (items p)) (usId u))) (items p),
      total = total p, page_limit = page_limit p, page_offset = page_offset p\<rparr>)"

definition admin_get_user :: "user_admin \<Rightarrow> millis \<Rightarrow> id \<Rightarrow> admin_user_summary result" where
  "admin_get_user s now i = map_sum (\<lambda>e. e)
     (\<lambda>u. toAdminUserSummary u (session_count (uaTokens s) now [i] i)) (requireUser (uaUsers s) i)"

definition admin_balance :: "user list \<Rightarrow> ledger \<Rightarrow> id \<Rightarrow> Rewards.balance result" where
  "admin_balance users l i = map_sum (\<lambda>e. e) (\<lambda>_. getBalance l i) (requireUser users i)"

definition self_action :: app_error where
  "self_action = DomainError ADMIN_SELF_ACTION_FORBIDDEN 403"

definition admin_set_status :: "user_admin \<Rightarrow> millis \<Rightarrow> id \<Rightarrow> user_status \<Rightarrow> string \<Rightarrow> admin_context
    \<Rightarrow> (admin_user_summary \<times> user_admin) result" where
  "admin_set_status s now target status reason ctx =
     (if target = acAdminId ctx then Inl self_action
      else (case requireUser (uaUsers s) target of
          Inl e \<Rightarrow> Inl e
        | Inr before \<Rightarrow> (case updateStatus (uaUsers s) now target status of
            Inl e \<Rightarrow> Inl e
          | Inr (u, users) \<Rightarrow>
              let tokens = (if isActiveUser u then uaTokens s else snd (revokeAllForUser (uaTokens s) now target BY_LOGOUT));
                  s' = \<lparr>uaUsers = users, uaTokens = tokens, uaAudit = record_audit (uaAudit s)
                    (admin_entry ctx USER_STATUS_CHANGED ''user'' target
                      (Some [(''status'', JStr (user_status_name (usStatus before)))])
                      [(''status'', JStr (user_status_name (usStatus u)))] (Some reason)) now\<rparr>
              in Inr (toAdminUserSummary u (session_count tokens now [target] target), s'))))"

definition admin_set_role :: "user_admin \<Rightarrow> millis \<Rightarrow> id \<Rightarrow> user_role \<Rightarrow> string \<Rightarrow> admin_context
    \<Rightarrow> (admin_user_summary \<times> user_admin) result" where
  "admin_set_role s now target role reason ctx =
     (if target = acAdminId ctx then Inl self_action
      else (case requireUser (uaUsers s) target of
          Inl e \<Rightarrow> Inl e
        | Inr before \<Rightarrow> (case updateRole (uaUsers s) now target role of
            Inl e \<Rightarrow> Inl e
          | Inr (u, users) \<Rightarrow>
              Inr (toAdminUserSummary u (session_count (uaTokens s) now [target] target),
                s\<lparr>uaUsers := users, uaAudit := record_audit (uaAudit s)
                  (admin_entry ctx USER_ROLE_CHANGED ''user'' target
                    (Some [(''role'', JStr (user_role_name (usRole before)))])
                    [(''role'', JStr (user_role_name (usRole u)))] (Some reason)) now\<rparr>))))"

definition admin_revoke_sessions :: "user_admin \<Rightarrow> millis \<Rightarrow> id \<Rightarrow> string \<Rightarrow> admin_context
    \<Rightarrow> (nat \<times> user_admin) result" where
  "admin_revoke_sessions s now target reason ctx =
     (case requireUser (uaUsers s) target of
        Inl e \<Rightarrow> Inl e
      | Inr _ \<Rightarrow> (case revokeAllForUser (uaTokens s) now target BY_LOGOUT of
          (count, tokens) \<Rightarrow> Inr (count, s\<lparr>uaTokens := tokens, uaAudit := record_audit (uaAudit s)
            (admin_entry ctx USER_SESSIONS_REVOKED ''user'' target None
              [(''revokedSessions'', json_int (int count))] (Some reason)) now\<rparr>)))"

section \<open>Payouts\<close>

fun payout_status_name :: "payout_status \<Rightarrow> string" where
  "payout_status_name PENDING_REVIEW = ''PENDING_REVIEW''"
| "payout_status_name APPROVED = ''APPROVED''"
| "payout_status_name PAID = ''PAID''"
| "payout_status_name REJECTED = ''REJECTED''"
| "payout_status_name FAILED = ''FAILED''"

record payout_admin =
  paPayouts :: payouts_state
  paAudit :: "audit_row list"

text \<open>The transaction of a review. \<open>before\<close> is the row that \<open>requireById\<close> answered: that read takes no
  lock and does not go through the transaction, so other requests may have changed the row since.\<close>

definition payout_review :: "payout_admin \<Rightarrow> payout_request \<Rightarrow> id \<Rightarrow> millis \<Rightarrow> payout_status \<Rightarrow> admin_action
    \<Rightarrow> string option \<Rightarrow> string option \<Rightarrow> admin_context \<Rightarrow> (admin_payout_summary \<times> payout_admin) result" where
  "payout_review s before moveId now to action reason externalReference ctx =
     (case applyTransition (paPayouts s) moveId now (poId before) to
            \<lparr>rvAdminId = acAdminId ctx, rvReason = reason, rvExternalReference = externalReference\<rparr> of
        Inl e \<Rightarrow> Inl e
      | Inr (payout, payouts) \<Rightarrow> Inr (toAdminSummary payout,
          \<lparr>paPayouts = payouts, paAudit = record_audit (paAudit s)
            (admin_entry ctx action ''payout_request'' (poId before)
              (Some [(''status'', JStr (payout_status_name (poStatus before)))])
              [(''status'', JStr (payout_status_name (poStatus payout))),
               (''amountPoints'', json_int (poAmountPoints payout)),
               (''externalReference'', json_text (poExternalReference payout))] reason) now\<rparr>))"

definition payout_approve :: "payout_admin \<Rightarrow> payout_request \<Rightarrow> id \<Rightarrow> millis \<Rightarrow> string option \<Rightarrow> admin_context
    \<Rightarrow> (admin_payout_summary \<times> payout_admin) result" where
  "payout_approve s before moveId now reason ctx = payout_review s before moveId now APPROVED PAYOUT_APPROVED reason None ctx"

definition payout_reject :: "payout_admin \<Rightarrow> payout_request \<Rightarrow> id \<Rightarrow> millis \<Rightarrow> string option \<Rightarrow> admin_context
    \<Rightarrow> (admin_payout_summary \<times> payout_admin) result" where
  "payout_reject s before moveId now reason ctx = payout_review s before moveId now REJECTED PAYOUT_REJECTED reason None ctx"

definition payout_mark_failed :: "payout_admin \<Rightarrow> payout_request \<Rightarrow> id \<Rightarrow> millis \<Rightarrow> string option \<Rightarrow> admin_context
    \<Rightarrow> (admin_payout_summary \<times> payout_admin) result" where
  "payout_mark_failed s before moveId now reason ctx = payout_review s before moveId now FAILED PAYOUT_FAILED reason None ctx"

text \<open>\<open>settle\<close> after \<open>execute\<close> has answered the provider's reference.\<close>

definition payout_settle :: "payout_admin \<Rightarrow> payout_request \<Rightarrow> id \<Rightarrow> millis \<Rightarrow> string \<Rightarrow> admin_context
    \<Rightarrow> (admin_payout_summary \<times> payout_admin) result" where
  "payout_settle s before moveId now reference ctx =
     payout_review s before moveId now PAID PAYOUT_SETTLED None (Some reference) ctx"

text \<open>Reading one request exposes its destination and is itself audited; \<open>idText\<close> renders a user's id.\<close>

definition view_destination :: "(id \<Rightarrow> string) \<Rightarrow> payout_admin \<Rightarrow> payout_request \<Rightarrow> millis \<Rightarrow> admin_context \<Rightarrow> payout_admin" where
  "view_destination idText s payout now ctx = s\<lparr>paAudit := record_audit (paAudit s)
     (admin_entry ctx PAYOUT_DESTINATION_VIEWED ''payout_request'' (poId payout) None
       [(''userId'', JStr (idText (poUserId payout))), (''status'', JStr (payout_status_name (poStatus payout)))] None) now\<rparr>"

record review_context =
  rxAccountCreatedAt :: millis
  rxAccountStatus :: user_status
  rxPending :: int
  rxAvailable :: int
  rxLocked :: int
  rxConversionCount :: nat
  rxChargebackCount :: nat
  rxPaidPayoutCount :: nat
  rxFraud :: "user_fraud_signals option"

definition any_conversion :: "id \<Rightarrow> list_conversions_query" where
  "any_conversion u = \<lparr>lvUserId = Some u, lvClickId = None, lvProviderId = None, lvOfferId = None, lvStatus = None,
     lvType = None, lvExternalTransactionId = None, lvLimit = Some 1, lvOffset = None, lvAscending = False\<rparr>"

definition reviewContext :: "user list \<Rightarrow> payouts_state \<Rightarrow> conversion list \<Rightarrow> fraud_evaluation list \<Rightarrow> id
    \<Rightarrow> review_context result" where
  "reviewContext users payouts conversions evaluations userId =
     (case requireUser users userId of
        Inl e \<Rightarrow> Inl e
      | Inr u \<Rightarrow> let b = getBalance (poLedger payouts) userId; fraud = signalsFor evaluations userId in
          Inr \<lparr>rxAccountCreatedAt = usCreatedAt u, rxAccountStatus = usStatus u, rxPending = pending b,
            rxAvailable = available b, rxLocked = locked b,
            rxConversionCount = total (findManyConversions conversions ((any_conversion userId)\<lparr>lvType := Some CT_CONVERSION\<rparr>)),
            rxChargebackCount = total (findManyConversions conversions ((any_conversion userId)\<lparr>lvStatus := Some CV_REVERSED\<rparr>)),
            rxPaidPayoutCount = countPaidFor payouts userId,
            rxFraud = (if latestScore fraud = None \<and> flaggedCount fraud = 0 then None else Some fraud)\<rparr>)"

text \<open>What the controller answers after the entry: the destination in full, and the review's context.\<close>

definition payout_detail :: "user list \<Rightarrow> payouts_state \<Rightarrow> conversion list \<Rightarrow> fraud_evaluation list \<Rightarrow> payout_request
    \<Rightarrow> (admin_payout_summary \<times> string \<times> review_context) result" where
  "payout_detail users payouts conversions evaluations p = map_sum (\<lambda>e. e)
     (\<lambda>c. (toAdminSummary p, poDestination p, c)) (reviewContext users payouts conversions evaluations (poUserId p))"

section \<open>Held conversions\<close>

fun conversion_status_name :: "conversion_status \<Rightarrow> string" where
  "conversion_status_name CV_ATTRIBUTED = ''ATTRIBUTED''"
| "conversion_status_name CV_PENDING = ''PENDING''"
| "conversion_status_name CV_CREDITED = ''CREDITED''"
| "conversion_status_name CV_HELD = ''HELD''"
| "conversion_status_name CV_REJECTED = ''REJECTED''"
| "conversion_status_name CV_REVERSED = ''REVERSED''"

record held_summary =
  hsConversionId :: id
  hsUserId :: id
  hsRewardPoints :: int
  hsReviewReason :: "review_reason option"
  hsFraudScore :: "int option"
  hsTriggeredRules :: "fraud_rule list"
  hsOccurredAt :: "millis option"
  hsCreatedAt :: millis

definition toHeldSummary :: "fraud_evaluation list \<Rightarrow> conversion \<Rightarrow> held_summary" where
  "toHeldSummary evaluations c =
     (let evaluation = Option.bind (cvFraudEvaluationId c) (findEvaluation evaluations);
          detail = map_option (\<lambda>e. toFraudDetail e (Some (cvId c))) evaluation
      in \<lparr>hsConversionId = cvId c, hsUserId = cvUserId c, hsRewardPoints = cvRewardPoints c,
          hsReviewReason = cvReviewReason c, hsFraudScore = map_option fsScore detail,
          hsTriggeredRules = (case detail of None \<Rightarrow> [] | Some d \<Rightarrow> map trRule (fdTriggered d)),
          hsOccurredAt = cvOccurredAt c, hsCreatedAt = cvCreatedAt c\<rparr>)"

definition heldQueue :: "conv_state \<Rightarrow> id option \<Rightarrow> int option \<Rightarrow> int option \<Rightarrow> held_summary paginated" where
  "heldQueue s userId limit offset =
     (let p = findManyConversions (csConversions s) \<lparr>lvUserId = userId, lvClickId = None, lvProviderId = None,
            lvOfferId = None, lvStatus = Some CV_HELD, lvType = None, lvExternalTransactionId = None, lvLimit = limit,
            lvOffset = offset, lvAscending = True\<rparr>
      in \<lparr>items = map (toHeldSummary (csEvaluations s)) (items p), total = total p, page_limit = page_limit p,
          page_offset = page_offset p\<rparr>)"

definition fraud_review :: "conv_state \<Rightarrow> audit_row list \<Rightarrow> id \<Rightarrow> millis \<Rightarrow> millis \<Rightarrow> id \<Rightarrow> review_decision \<Rightarrow> string
    \<Rightarrow> admin_context \<Rightarrow> (held_summary \<times> conv_state \<times> audit_row list) result" where
  "fraud_review s rows moveId ledgerAt now conversionId decision reason ctx =
     (case requireConversion (csConversions s) conversionId of
        Inl e \<Rightarrow> Inl e
      | Inr before \<Rightarrow> (case resolveHold moveId ledgerAt s \<lparr>rhConversionId = conversionId, rhDecision = decision,
            rhReason = reason, rhAdminId = acAdminId ctx, rhNow = now\<rparr> of
          Inl e \<Rightarrow> Inl e
        | Inr (c, s') \<Rightarrow> Inr (toHeldSummary (csEvaluations s') c, s', record_audit rows
            (admin_entry ctx (case decision of DECISION_CLEAR \<Rightarrow> CONVERSION_HOLD_CLEARED
                | DECISION_CONFIRM \<Rightarrow> CONVERSION_HOLD_CONFIRMED) ''conversion'' conversionId
              (Some [(''status'', JStr (conversion_status_name (cvStatus before))),
                (''rewardPoints'', json_int (cvRewardPoints before))])
              [(''status'', JStr (conversion_status_name (cvStatus c)))] (Some reason)) now)))"

definition conversionIdFor :: "conversion list \<Rightarrow> id \<Rightarrow> id option" where
  "conversionIdFor rows evaluationId = map_option cvId (findByFraudEvaluationId rows evaluationId)"

definition admin_evaluations :: "conv_state \<Rightarrow> id option \<Rightarrow> fraud_action option \<Rightarrow> int option \<Rightarrow> nat
    \<Rightarrow> fraud_evaluation_summary list \<times> nat" where
  "admin_evaluations s u a limit offset =
     (case findManyEvaluations (csEvaluations s) u a limit offset of
        (rows, n) \<Rightarrow> (map (\<lambda>e. toFraudSummary e (conversionIdFor (csConversions s) (feId e))) rows, n))"

definition evaluationDetail :: "conv_state \<Rightarrow> id \<Rightarrow> fraud_evaluation_detail result" where
  "evaluationDetail s i = map_sum (\<lambda>e. e) (\<lambda>e. toFraudDetail e (conversionIdFor (csConversions s) i))
     (requireEvaluation (csEvaluations s) i)"

section \<open>Providers\<close>

record provider_admin =
  vaProviders :: "provider list"
  vaRegistry :: registry
  vaBus :: inv_bus
  vaSent :: "inv_message list"
  vaAudit :: "audit_row list"

definition reloadAndBroadcast :: "adapter_map \<Rightarrow> (string \<Rightarrow> string option) \<Rightarrow> bool \<Rightarrow> provider_admin \<Rightarrow> provider_admin" where
  "reloadAndBroadcast adapters vars up s = (case publish (vaBus s) up PROVIDERS_DOMAIN None of
     (b, ms) \<Rightarrow> s\<lparr>vaRegistry := rebuild adapters vars (vaProviders s), vaBus := b, vaSent := vaSent s @ ms\<rparr>)"

definition commit_provider :: "adapter_map \<Rightarrow> (string \<Rightarrow> string option) \<Rightarrow> bool \<Rightarrow> provider_admin \<Rightarrow> provider
    \<Rightarrow> provider list \<Rightarrow> audit_entry \<Rightarrow> millis \<Rightarrow> provider_summary \<times> provider_admin" where
  "commit_provider adapters vars up s p rows e now =
     (let s' = reloadAndBroadcast adapters vars up (s\<lparr>vaProviders := rows, vaAudit := record_audit (vaAudit s) e now\<rparr>)
      in (toProviderSummary (vaRegistry s') p, s'))"

definition admin_list_providers :: "provider_admin \<Rightarrow> bool option \<Rightarrow> health_state option \<Rightarrow> provider_summary list" where
  "admin_list_providers s en h = map (toProviderSummary (vaRegistry s)) (findAllProviders (vaProviders s) en h)"

definition admin_create_provider :: "adapter_map \<Rightarrow> (string \<Rightarrow> string option) \<Rightarrow> bool \<Rightarrow> provider_admin \<Rightarrow> id \<Rightarrow> millis
    \<Rightarrow> create_provider_request \<Rightarrow> admin_context \<Rightarrow> (provider_summary \<times> provider_admin) result" where
  "admin_create_provider adapters vars up s i now input ctx =
     (case createProvider adapters (vaProviders s) i now input of
        Inl e \<Rightarrow> Inl e
      | Inr (p, rows) \<Rightarrow> Inr (commit_provider adapters vars up s p rows
          (admin_entry ctx PROVIDER_CREATED ''provider'' (prId p) None
            [(''slug'', JStr (prSlug p)), (''displayName'', JStr (prDisplayName p))] None) now))"

definition provider_fields :: "provider \<Rightarrow> (string \<times> json) list" where
  "provider_fields p = [(''displayName'', JStr (prDisplayName p)),
     (''syncIntervalMinutes'', json_int (prSyncIntervalMinutes p)),
     (''postbackIpRanges'', JArr (map JStr (prPostbackIpRanges p)))]"

definition admin_update_provider :: "adapter_map \<Rightarrow> (string \<Rightarrow> string option) \<Rightarrow> bool \<Rightarrow> provider_admin \<Rightarrow> millis \<Rightarrow> id
    \<Rightarrow> update_provider_request \<Rightarrow> admin_context \<Rightarrow> (provider_summary \<times> provider_admin) result" where
  "admin_update_provider adapters vars up s now i changes ctx =
     (case requireProvider (vaProviders s) i of
        Inl e \<Rightarrow> Inl e
      | Inr before \<Rightarrow> (case updateProvider (vaProviders s) i changes of
          Inl e \<Rightarrow> Inl e
        | Inr (p, rows) \<Rightarrow> Inr (commit_provider adapters vars up s p rows
            (admin_entry ctx PROVIDER_UPDATED ''provider'' i (Some (provider_fields before)) (provider_fields p) None) now)))"

definition admin_set_enabled :: "adapter_map \<Rightarrow> (string \<Rightarrow> string option) \<Rightarrow> bool \<Rightarrow> provider_admin \<Rightarrow> millis \<Rightarrow> id
    \<Rightarrow> bool \<Rightarrow> string \<Rightarrow> admin_context \<Rightarrow> (provider_summary \<times> provider_admin) result" where
  "admin_set_enabled adapters vars up s now i en reason ctx =
     (case setProviderEnabled (vaRegistry s) (vaProviders s) i en of
        Inl e \<Rightarrow> Inl e
      | Inr (p, rows) \<Rightarrow> Inr (commit_provider adapters vars up s p rows
          (admin_entry ctx (if en then PROVIDER_ENABLED else PROVIDER_DISABLED_ACTION) ''provider'' i
            (Some [(''isEnabled'', JBool (\<not> en))]) [(''isEnabled'', JBool en)] (Some reason)) now))"

fun health_name :: "health_state \<Rightarrow> string" where
  "health_name HEALTHY = ''HEALTHY''"
| "health_name DEGRADED = ''DEGRADED''"
| "health_name DOWN = ''DOWN''"

definition admin_reset_health :: "provider_admin \<Rightarrow> millis \<Rightarrow> id \<Rightarrow> string \<Rightarrow> admin_context
    \<Rightarrow> (provider_summary \<times> provider_admin) result" where
  "admin_reset_health s now i reason ctx =
     (case requireProvider (vaProviders s) i of
        Inl e \<Rightarrow> Inl e
      | Inr before \<Rightarrow> (case resetHealth (vaProviders s) i of
          Inl e \<Rightarrow> Inl e
        | Inr rows \<Rightarrow> (case requireProvider rows i of
            Inl e \<Rightarrow> Inl e
          | Inr p \<Rightarrow> Inr (toProviderSummary (vaRegistry s) p, s\<lparr>vaProviders := rows,
              vaAudit := record_audit (vaAudit s) (admin_entry ctx PROVIDER_HEALTH_RESET ''provider'' i
                (Some [(''healthState'', JStr (health_name (prHealthState before))),
                  (''consecutiveFailureCount'', json_int (prConsecutiveFailureCount before))])
                [(''healthState'', JStr (health_name (prHealthState p))), (''consecutiveFailureCount'', json_int 0)]
                (Some reason)) now\<rparr>))))"

section \<open>The catalog\<close>

definition slug_for :: "provider list \<Rightarrow> id \<Rightarrow> string" where
  "slug_for providers i = (case map_of (rev (map (\<lambda>p. (prId p, prSlug p)) (by_slug providers))) i of
     None \<Rightarrow> ''unknown'' | Some s \<Rightarrow> s)"

definition admin_list_offers :: "offer list \<Rightarrow> provider list \<Rightarrow> list_offers_query \<Rightarrow> offer_summary paginated" where
  "admin_list_offers rows providers q = (let p = findManyOffers rows q in
     \<lparr>items = map (\<lambda>x. toOfferSummary x (slug_for providers (ofProviderId x))) (items p),
      total = total p, page_limit = page_limit p, page_offset = page_offset p\<rparr>)"

definition admin_get_offer :: "offer list \<Rightarrow> provider list \<Rightarrow> id \<Rightarrow> offer_summary result" where
  "admin_get_offer rows providers i = (case requireOffer rows i of
     Inl e \<Rightarrow> Inl e
   | Inr x \<Rightarrow> map_sum (\<lambda>e. e) (\<lambda>p. toOfferSummary x (prSlug p)) (requireProvider providers (ofProviderId x)))"

definition source_json :: "deactivation_source option \<Rightarrow> json" where
  "source_json d = (case d of None \<Rightarrow> JNull | Some BySync \<Rightarrow> JStr ''SYNC'' | Some ByAdmin \<Rightarrow> JStr ''ADMIN'')"

definition offer_state_json :: "offer \<Rightarrow> (string \<times> json) list" where
  "offer_state_json x = [(''isActive'', JBool (ofIsActive x)), (''deactivationSource'', source_json (ofDeactivationSource x))]"

definition admin_set_offer_active :: "offer list \<Rightarrow> audit_row list \<Rightarrow> millis \<Rightarrow> id \<Rightarrow> bool \<Rightarrow> string \<Rightarrow> admin_context
    \<Rightarrow> (offer \<times> offer list \<times> audit_row list) result" where
  "admin_set_offer_active rows audit now i active reason ctx =
     (case requireOffer rows i of
        Inl e \<Rightarrow> Inl e
      | Inr before \<Rightarrow> (case setActive rows now i active of
          Inl e \<Rightarrow> Inl e
        | Inr (x, rows') \<Rightarrow> Inr (x, rows', record_audit audit
            (admin_entry ctx (if active then OFFER_ACTIVATED else OFFER_DEACTIVATED) ''offer'' i
              (Some (offer_state_json before)) (offer_state_json x) (Some reason)) now)))"

definition admin_list_runs :: "offer_sync_run list \<Rightarrow> provider list \<Rightarrow> id option \<Rightarrow> sync_outcome option \<Rightarrow> int option
    \<Rightarrow> int option \<Rightarrow> sync_run_summary paginated" where
  "admin_list_runs runs providers providerId outcome limit offset =
     (let p = findManyRuns runs providerId outcome limit offset in
      \<lparr>items = map (\<lambda>x. toRunSummary x (slug_for providers (syProviderId x))) (items p),
       total = total p, page_limit = page_limit p, page_offset = page_offset p\<rparr>)"

text \<open>The entry is written on its own, then the job is queued; \<open>queued\<close>: whether the queue takes it.\<close>

record sync_job =
  sjProviderId :: id
  sjMode :: sync_mode
  sjRequestedBy :: id

definition requestSync :: "bool \<Rightarrow> provider list \<Rightarrow> audit_row list \<Rightarrow> sync_job list \<Rightarrow> millis \<Rightarrow> id \<Rightarrow> sync_mode
    \<Rightarrow> string option \<Rightarrow> admin_context \<Rightarrow> audit_row list \<times> sync_job list \<times> (id \<times> sync_mode) result" where
  "requestSync queued providers audit jobs now providerId mode reason ctx =
     (case requireProvider providers providerId of
        Inl e \<Rightarrow> (audit, jobs, Inl e)
      | Inr _ \<Rightarrow>
          let audit' = record_audit audit (admin_entry ctx CATALOG_SYNC_REQUESTED ''provider'' providerId None
                [(''mode'', JStr (case mode of FULL \<Rightarrow> ''FULL'' | INCREMENTAL \<Rightarrow> ''INCREMENTAL''))] reason) now
          in if queued then (audit', jobs @ [\<lparr>sjProviderId = providerId, sjMode = mode, sjRequestedBy = acAdminId ctx\<rparr>],
               Inr (providerId, mode))
             else (audit', jobs, Inl (InfrastructureError INTERNAL_ERROR 500 False)))"

end
