(* ===== verification/AuthProps.thy ===== *)
theory AuthProps
  imports AuthFlows
begin

text \<open>
  What the authentication flows guarantee: who gets a session, what a refused login shows, what a
  password reset ends, how many overlapping attempts a throttle lets through, and whom the guards
  let pass.
\<close>

section \<open>Logging in\<close>

text \<open>A session is only given for the password of an active account: a login that succeeds, and a login
  that gives its place in the counters back, has verified the password against the stored hash of the
  account with that address, after the counters let it through; the session it opens is that
  account's, and belongs to the role stored for it.\<close>

theorem login_needs_the_password:
  assumes "login ports s now fresh familyId accountReply ipReply email password ctx = (events, s', r)"
    and "(\<exists>x. r = Inr x) \<or> ClearAccount k \<in> set events \<or> ReleaseAddress ip \<in> set events"
  shows "\<exists>u\<in>set (usUsers (asUsers s)). usEmail u = normalizeEmail email
      \<and> pwVerify (apHasher ports) (usPasswordHash u) password = Some True
      \<and> reserveAttempt (apAccountLimit ports) (apIpLimit ports) (scxIp ctx) accountReply ipReply = Inr ()
      \<and> (\<forall>profile session. r = Inr (profile, session) \<longrightarrow> usStatus u = ACTIVE \<and> profile = toProfile u
           \<and> isAccessToken session = tvSign (apEnv ports) (usId u) (usRole u)
           \<and> (\<exists>t. asTokens s' = asTokens s @ [t] \<and> rtUserId t = usId u \<and> live t))"
proof -
  have passed: "reserveAttempt (apAccountLimit ports) (apIpLimit ports) (scxIp ctx) accountReply ipReply = Inr ()"
    using assms by (auto simp: login_def Let_def split: sum.splits)
  obtain u where u: "findUserByEmail (usUsers (asUsers s)) email = Some u"
    and pw: "verify_password (apHasher ports) (usPasswordHash u) password"
    using assms passed by (auto simp: login_def Let_def split: option.splits if_splits)
  have user: "u \<in> set (usUsers (asUsers s))" "usEmail u = normalizeEmail email"
    using find_SomeD [OF u [unfolded findUserByEmail_def]] by auto
  have "usStatus u = ACTIVE \<and> profile = toProfile u
      \<and> isAccessToken session = tvSign (apEnv ports) (usId u) (usRole u)
      \<and> (\<exists>t. asTokens s' = asTokens s @ [t] \<and> rtUserId t = usId u \<and> live t)"
    if "r = Inr (profile, session)" for profile session
  proof -
    have act: "isActiveUser u" and "open_session ports s now fresh familyId u ctx = (s', Inr (profile, session))"
      using assms(1) passed u pw that by (auto simp: login_def Let_def split: if_splits)
    then obtain tokens where i: "issueInFamily (apEnv ports) (asTokens s) now fresh (usId u) (usRole u) familyId ctx
        = Inr (session, tokens)" and s': "s' = s\<lparr>asTokens := tokens\<rparr>" "profile = toProfile u"
      by (auto simp: open_session_def issueSession_def split: sum.splits)
    have "isAccessToken session = tvSign (apEnv ports) (usId u) (usRole u)"
      using i by (auto simp: issueInFamily_def Let_def split: if_splits)
    moreover have "\<exists>t. tokens = asTokens s @ [t] \<and> rtUserId t = usId u \<and> live t"
      using i by (rule issueInFamily_Inr) blast
    ultimately show ?thesis using act s' by (simp add: isActiveUser_def)
  qed
  then show ?thesis using user pw passed by (auto simp: verify_password_def)
qed

text \<open>A refused login does not say whether the address is known: for an unknown address and for a known
  one with a wrong password, the answer is the same, nothing is written, and each takes its place in
  the counters and verifies one password.\<close>

theorem refusals_look_alike:
  assumes "findUserByEmail (usUsers (asUsers s)) unknown = None"
    and "findUserByEmail (usUsers (asUsers s)) known = Some u"
    and "pwVerify (apHasher ports) (usPasswordHash u) wrong \<noteq> Some True"
    and "reserveAttempt (apAccountLimit ports) (apIpLimit ports) (scxIp ctx) accountReply ipReply = Inr ()"
  shows "\<exists>h h'. login ports s now fresh familyId accountReply ipReply unknown any ctx
        = ([Reserve (accountKeyFor (tvHash (apEnv ports)) unknown) (scxIp ctx), VerifyAgainst h], s, Inl invalidCredentials)
      \<and> login ports s now fresh familyId accountReply ipReply known wrong ctx
        = ([Reserve (accountKeyFor (tvHash (apEnv ports)) known) (scxIp ctx), VerifyAgainst h'], s, Inl invalidCredentials)"
  using assms by (simp add: login_def Let_def verify_password_def)

section \<open>The throttle\<close>

text \<open>C00. However many attempts overlap, a throttle lets no more than its limit through: as long as the
  counter gives every attempt its own number, counting from one, at most \<open>limit\<close> of them pass.\<close>

theorem throttle_admits_its_limit:
  assumes "distinct counts" and "\<forall>n\<in>set counts. 1 \<le> n" and "0 \<le> limit"
  shows "count_where (\<lambda>n. reserveAttempt limit ipLimit ip (Count n) (ipReply n) = Inr ()) counts \<le> nat limit
    \<and> count_where (\<lambda>n. publicReserve limit (Some a) (Count n) = Inr ()) counts \<le> nat limit"
proof -
  have bound: "count_where p counts \<le> nat limit" if "\<And>n. p n \<Longrightarrow> n \<le> limit" for p
  proof -
    have "set (filter p counts) \<subseteq> {1..limit}" using that assms(2) by auto
    then have "card (set (filter p counts)) \<le> card {1..limit}" by (intro card_mono) auto
    moreover have "card (set (filter p counts)) = length (filter p counts)"
      using assms(1) by (simp only: distinct_card distinct_filter)
    ultimately show ?thesis by (simp add: count_where_def)
  qed
  have "n \<le> limit" if "reserveAttempt limit ipLimit ip (Count n) (ipReply n) = Inr ()" for n
    using that by (auto simp: reserveAttempt_def reply_count_def split: option.splits if_splits counter_reply.splits)
  moreover have "n \<le> limit" if "publicReserve limit (Some a) (Count n) = Inr ()" for n
    using that by (auto simp: publicReserve_def reply_count_def split: if_splits)
  ultimately show ?thesis by (intro conjI bound)
qed

section \<open>Resetting a password\<close>

lemma consumed_links:
  assumes "distinct (map vtTokenHash rows)" and "t \<in> set rows" and "consumable (vtTokenHash t) purpose now t"
  shows "update_where (consumable (vtTokenHash t) purpose now) f rows = map (\<lambda>l. if l = t then f l else l) rows"
proof -
  have "consumable (vtTokenHash t) purpose now l \<longleftrightarrow> l = t" if "l \<in> set rows" for l
    using distinct_key_unique [OF assms(1) that assms(2)] assms(3) by (auto simp: consumable_def)
  then show ?thesis by (auto simp: update_where_def)
qed

text \<open>What a successful reset writes, and of which link.\<close>

lemma resetPassword_Inr:
  assumes "distinct (map vtTokenHash (asLinks s))" and "resetPassword ports s now presented newPassword = Inr s'"
  obtains t where "t \<in> set (asLinks s)" "consumable (tvHash (apEnv ports) presented) PASSWORD_RESET now t"
    "asLinks s' = map (\<lambda>l. if l = t then l\<lparr>vtUsedAt := Some now\<rparr> else l) (asLinks s)"
    "usUsers (asUsers s') = update_where (\<lambda>x. usId x = vtUserId t)
      (\<lambda>u. u\<lparr>usPasswordHash := pwHash (apHasher ports) newPassword, usUpdatedAt := now\<rparr>) (usUsers (asUsers s))"
    "asTokens s' = update_where (\<lambda>x. rtUserId x = vtUserId t \<and> rtRevokedAt x = None)
      (mark_revoked now BY_PASSWORD_RESET) (asTokens s)"
    "12 \<le> length newPassword" "length newPassword \<le> 256"
proof -
  let ?h = "tvHash (apEnv ports) presented"
  obtain owner links u rows where c: "consume (apEnv ports) (asLinks s) now presented PASSWORD_RESET = Inr (owner, links)"
    and h: "updatePasswordHash (usUsers (asUsers s)) now owner (pwHash (apHasher ports) newPassword) = Inr (u, rows)"
    and len: "12 \<le> length newPassword" "length newPassword \<le> 256"
    and s': "s' = s\<lparr>asLinks := links, asUsers := (asUsers s)\<lparr>usUsers := rows\<rparr>,
        asTokens := snd (revokeAllForUser (asTokens s) now owner BY_PASSWORD_RESET)\<rparr>"
    using assms(2) by (auto simp: resetPassword_def hash_password_def assertMeetsPolicy_def split: sum.splits if_splits)
  obtain t where t: "t \<in> set (asLinks s)" "consumable ?h PASSWORD_RESET now t" "vtUserId t = owner"
    and spent: "links = update_where (consumable ?h PASSWORD_RESET now) (\<lambda>t. t\<lparr>vtUsedAt := Some now\<rparr>) (asLinks s)"
    by (rule consume_Inr [OF assms(1) c])
  have "vtTokenHash t = ?h" using t(2) by (simp add: consumable_def)
  then have "asLinks s' = map (\<lambda>l. if l = t then l\<lparr>vtUsedAt := Some now\<rparr> else l) (asLinks s)"
    using consumed_links [OF assms(1) t(1), of PASSWORD_RESET now "\<lambda>t. t\<lparr>vtUsedAt := Some now\<rparr>"] t(2) by (simp add: s' spent)
  moreover have "rows = update_where (\<lambda>x. usId x = owner)
      (\<lambda>u. u\<lparr>usPasswordHash := pwHash (apHasher ports) newPassword, usUpdatedAt := now\<rparr>) (usUsers (asUsers s))"
    using update_user_Inr [OF h [unfolded updatePasswordHash_def]] by simp
  ultimately show thesis
    using that [OF t(1,2)] t(3) len by (simp add: s' revokeAllForUser_def)
qed

lemma spent_link_refused:
  assumes "distinct (map vtTokenHash (asLinks s))" and "t \<in> set (asLinks s)" and "vtTokenHash t = tvHash (apEnv ports) presented"
    and "asLinks s' = map (\<lambda>l. if l = t then l\<lparr>vtUsedAt := Some now\<rparr> else l) (asLinks s)"
  shows "resetPassword ports s' later presented other
    = Inl (if length other < 12 \<or> 256 < length other then DomainError AUTH_WEAK_PASSWORD 422 else invalidToken)"
proof -
  have "\<not> consumable (tvHash (apEnv ports) presented) PASSWORD_RESET later l" if "l \<in> set (asLinks s')" for l
  proof -
    have "l \<in> (\<lambda>l. if l = t then l\<lparr>vtUsedAt := Some now\<rparr> else l) ` set (asLinks s)"
      using that by (simp only: assms(4) set_map)
    then obtain m where m: "m \<in> set (asLinks s)" "l = (if m = t then m\<lparr>vtUsedAt := Some now\<rparr> else m)" by blast
    have "m = t" if "vtTokenHash m = tvHash (apEnv ports) presented"
      by (rule distinct_key_unique [OF assms(1) m(1) assms(2)]) (simp add: that assms(3))
    then show ?thesis using m(2) by (cases "m = t") (auto simp: consumable_def)
  qed
  then show ?thesis
    by (simp add: resetPassword_def hash_password_def assertMeetsPolicy_def consume_def count_where_0_iff Let_def)
qed

text \<open>C27. A password reset replaces the password and ends the sessions together: when it succeeds, the link
  presented was an unspent, unexpired reset link of exactly one account and is spent now, it and no
  other, so that presenting it again is refused whenever and for whatever password; that account's
  stored hash is the new password's, none of its sessions is alive, and every other account's row and
  sessions are as they were; when it fails, nothing has changed (there is no new state).\<close>

theorem reset_ends_sessions:
  assumes "distinct (map vtTokenHash (asLinks s))" and "resetPassword ports s now presented newPassword = Inr s'"
  shows "\<exists>t\<in>set (asLinks s). vtTokenHash t = tvHash (apEnv ports) presented
    \<and> vtPurpose t = PASSWORD_RESET \<and> vtUsedAt t = None \<and> now < vtExpiresAt t
    \<and> asLinks s' = map (\<lambda>l. if l = t then l\<lparr>vtUsedAt := Some now\<rparr> else l) (asLinks s)
    \<and> (\<forall>later other. resetPassword ports s' later presented other
        = Inl (if length other < 12 \<or> 256 < length other then DomainError AUTH_WEAK_PASSWORD 422 else invalidToken))
    \<and> 12 \<le> length newPassword \<and> length newPassword \<le> 256
    \<and> (\<forall>u\<in>set (usUsers (asUsers s')). usId u = vtUserId t \<longrightarrow> usPasswordHash u = pwHash (apHasher ports) newPassword)
    \<and> (\<forall>r\<in>set (asTokens s'). rtUserId r = vtUserId t \<longrightarrow> \<not> live r)
    \<and> filter (\<lambda>r. rtUserId r \<noteq> vtUserId t) (asTokens s') = filter (\<lambda>r. rtUserId r \<noteq> vtUserId t) (asTokens s)
    \<and> filter (\<lambda>u. usId u \<noteq> vtUserId t) (usUsers (asUsers s')) = filter (\<lambda>u. usId u \<noteq> vtUserId t) (usUsers (asUsers s))"
proof -
  have others: "filter (\<lambda>r. \<not> q r) (update_where p f rows) = filter (\<lambda>r. \<not> q r) rows"
    if "\<And>r. p r \<Longrightarrow> q r" "\<And>r. q (f r) = q r" for p q :: "'x \<Rightarrow> bool" and f rows
    using that by (induction rows) auto
  obtain t where t: "t \<in> set (asLinks s)" "consumable (tvHash (apEnv ports) presented) PASSWORD_RESET now t"
    and links: "asLinks s' = map (\<lambda>l. if l = t then l\<lparr>vtUsedAt := Some now\<rparr> else l) (asLinks s)"
    and users: "usUsers (asUsers s') = update_where (\<lambda>x. usId x = vtUserId t)
      (\<lambda>u. u\<lparr>usPasswordHash := pwHash (apHasher ports) newPassword, usUpdatedAt := now\<rparr>) (usUsers (asUsers s))"
    and tokens: "asTokens s' = update_where (\<lambda>x. rtUserId x = vtUserId t \<and> rtRevokedAt x = None)
      (mark_revoked now BY_PASSWORD_RESET) (asTokens s)"
    and len: "12 \<le> length newPassword" "length newPassword \<le> 256"
    by (rule resetPassword_Inr [OF assms])
  have "\<not> live r" if "r \<in> set (asTokens s')" "rtUserId r = vtUserId t" for r
    using that unfolding tokens by (rule revoked_not_live [where p = "\<lambda>x. rtUserId x = vtUserId t"])
  moreover have "usPasswordHash x = pwHash (apHasher ports) newPassword"
    if x: "x \<in> set (usUsers (asUsers s'))" "usId x = vtUserId t" for x
    using x unfolding users set_update_where by auto
  moreover have "filter (\<lambda>r. rtUserId r \<noteq> vtUserId t) (asTokens s') = filter (\<lambda>r. rtUserId r \<noteq> vtUserId t) (asTokens s)"
    unfolding tokens by (rule others) (auto simp: mark_revoked_def)
  moreover have "filter (\<lambda>u. usId u \<noteq> vtUserId t) (usUsers (asUsers s')) = filter (\<lambda>u. usId u \<noteq> vtUserId t) (usUsers (asUsers s))"
    unfolding users by (rule others) simp_all
  moreover have "vtTokenHash t = tvHash (apEnv ports) presented" "vtPurpose t = PASSWORD_RESET" "vtUsedAt t = None" "now < vtExpiresAt t"
    using t(2) by (simp_all add: consumable_def)
  ultimately show ?thesis
    using t(1) len links spent_link_refused [OF assms(1) t(1) _ links] by (intro bexI [OF _ t(1)]) blast
qed

section \<open>The guards\<close>

text \<open>Only an active administrator passes a route for administrators, whatever a token claims: the
  request's principal is a row of the users table that is active and an administrator now, named by a
  verified token; the role written in the token decides nothing.\<close>

theorem admin_routes_need_an_active_admin:
  assumes "guard_request verifyJwt users isPublic (Some [ROLE_ADMIN]) header = Inr who"
  shows "\<exists>u\<in>set users. active_admin u \<and> \<not> isPublic
    \<and> who = Some \<lparr>ppId = usId u, ppEmail = usEmail u, ppRole = ROLE_ADMIN, ppStatus = ACTIVE\<rparr>
    \<and> (\<exists>token role. extractBearerToken header = Some token \<and> verifyJwt token = Some (usId u, role))
    \<and> guard_request (map_option (\<lambda>(i, r). (i, claimed)) \<circ> verifyJwt) users isPublic (Some [ROLE_ADMIN]) header = Inr who"
proof -
  obtain p where p: "who = Some p" "ppRole p = ROLE_ADMIN" and j: "jwt_guard verifyJwt users isPublic header = Inr who"
    using assms by (auto simp: guard_request_def roles_guard_def split: sum.splits option.splits if_splits)
  obtain token sub role u where g: "\<not> isPublic" "extractBearerToken header = Some token" "verifyJwt token = Some (sub, role)"
      "findUser users sub = Some u" "isActiveUser u"
      "p = \<lparr>ppId = usId u, ppEmail = usEmail u, ppRole = usRole u, ppStatus = usStatus u\<rparr>"
    using j p(1) by (auto simp: jwt_guard_def split: if_splits option.splits)
  have "u \<in> set users" "usId u = sub" using find_SomeD [OF g(4) [unfolded findUser_def]] by auto
  moreover have "jwt_guard (map_option (\<lambda>(i, r). (i, claimed)) \<circ> verifyJwt) users isPublic header = Inr who"
    using g by (simp add: jwt_guard_def p(1))
  ultimately show ?thesis
    using g p by (intro bexI [of _ u]) (auto simp: active_admin_def isActiveUser_def guard_request_def roles_guard_def)
qed

section \<open>Concrete requests\<close>

definition demo_ports :: auth_ports where
  "demo_ports = \<lparr>apEnv = demo_env, apHasher = \<lparr>pwHash = (\<lambda>p. p), pwVerify = (\<lambda>h p. Some (h = p))\<rparr>, apDecoy = ''d'',
     apAccountLimit = 10, apIpLimit = 50, apVerifyTtl = 86400, apResetTtl = 3600\<rparr>"

definition demo_auth :: auth_state where
  "demo_auth = \<lparr>asUsers = \<lparr>usUsers = [demo_account, demo_account\<lparr>usId := 9, usEmail := ''r@b'', usRole := ROLE_ADMIN\<rparr>],
     usLedger = empty_ledger\<rparr>, asTokens = [demo_refresh 2 ''t'' None], asLinks = [demo_link], asEmails = []\<rparr>"

lemma login_needs_the_password_witness:
  "\<exists>profile session s'. login demo_ports demo_auth 5 (3, ''u'') 8 (Count 1) (Count 0) ''A@b'' ''h'' demo_session_context
      = ([Reserve ''a@b'' None, VerifyAgainst ''h'', ClearAccount ''a@b'', ReleaseAddress None], s', Inr (profile, session))
    \<and> isAccessToken session = ''jwt''"
proof -
  have e: "normalizeEmail ''A@b'' = ''a@b''" by code_simp
  obtain profile session s' where l: "login demo_ports demo_auth 5 (3, ''u'') 8 (Count 1) (Count 0) ''A@b'' ''h'' demo_session_context
      = ([Reserve ''a@b'' None, VerifyAgainst ''h'', ClearAccount ''a@b'', ReleaseAddress None], s', Inr (profile, session))"
    by (simp add: login_def Let_def accountKeyFor_def e reserveAttempt_def reply_count_def demo_ports_def demo_auth_def
        findUserByEmail_def demo_session_simps verify_password_def isActiveUser_def open_session_def issueSession_def
        issueInFamily_def)
  then show ?thesis
    using login_needs_the_password [OF l] by (auto simp: demo_ports_def demo_env_def)
qed

lemma refusals_look_alike_witness:
  "\<exists>e. snd (snd (login demo_ports demo_auth 5 (3, ''u'') 8 (Count 1) (Count 0) ''x'' ''any'' demo_session_context)) = Inl e
    \<and> snd (snd (login demo_ports demo_auth 5 (3, ''u'') 8 (Count 1) (Count 0) ''a@b'' ''wrong'' demo_session_context)) = Inl e"
proof -
  have e: "normalizeEmail ''x'' = ''x''" "normalizeEmail ''a@b'' = ''a@b''" by code_simp+
  have "findUserByEmail (usUsers (asUsers demo_auth)) ''x'' = None"
    "findUserByEmail (usUsers (asUsers demo_auth)) ''a@b'' = Some demo_account"
    by (simp_all add: findUserByEmail_def e demo_auth_def demo_account_def)
  from refusals_look_alike [OF this, of demo_ports "''wrong''" demo_session_context "Count 1" "Count 0" 5 "(3, ''u'')" 8 "''any''"]
  show ?thesis
    by (auto simp: demo_ports_def demo_account_def reserveAttempt_def reply_count_def demo_session_context_def)
qed

lemma throttle_admits_its_limit_witness:
  "count_where (\<lambda>n. reserveAttempt 2 50 (Some ''a'') (Count n) (Count n) = Inr ()) [1, 2, 3, 4] \<le> 2"
  using throttle_admits_its_limit [of "[1, 2, 3, 4]" 2 50 "Some ''a''" "\<lambda>n. Count n" "''a''"] by simp

lemma reset_ends_sessions_witness:
  "\<exists>s'. resetPassword demo_ports demo_auth 5 ''r'' ''twelve chars'' = Inr s'
    \<and> (\<forall>r\<in>set (asTokens s'). rtUserId r = 4 \<longrightarrow> \<not> live r)
    \<and> resetPassword demo_ports s' 6 ''r'' ''another twelve'' = Inl invalidToken"
proof -
  obtain s' where r: "resetPassword demo_ports demo_auth 5 ''r'' ''twelve chars'' = Inr s'"
    by (simp add: resetPassword_def hash_password_def assertMeetsPolicy_def consume_def consumable_def demo_link_def
        demo_auth_def demo_ports_def demo_env_def updatePasswordHash_def update_user_def findUser_def demo_account_def)
  have "distinct (map vtTokenHash (asLinks demo_auth))" by (simp add: demo_auth_def)
  from reset_ends_sessions [OF this r] show ?thesis
    using r by (auto simp: demo_auth_def demo_link_def)
qed

lemma admin_routes_need_an_active_admin_witness:
  "\<exists>who. guard_request (\<lambda>t. if t = ''k'' then Some (9, ROLE_USER) else None) (usUsers (asUsers demo_auth)) False
      (Some [ROLE_ADMIN]) (Some ''Bearer k'') = Inr who \<and> who \<noteq> None"
proof -
  have x: "extractBearerToken (Some ''Bearer k'') = Some ''k''" by code_simp
  have "\<exists>who. guard_request (\<lambda>t. if t = ''k'' then Some (9, ROLE_USER) else None) (usUsers (asUsers demo_auth)) False
      (Some [ROLE_ADMIN]) (Some ''Bearer k'') = Inr who"
    by (simp add: guard_request_def jwt_guard_def roles_guard_def x findUser_def demo_auth_def demo_account_def isActiveUser_def)
  then show ?thesis using admin_routes_need_an_active_admin by blast
qed

end
