(* ===== verification/AdminProps.thy ===== *)
theory AdminProps
  imports AdminActions AuthProps PayoutProps
begin

text \<open>
  What the administrator's actions guarantee: a suspension ends the user's sessions, every change is
  audited as what it was, and the audit log of a payout is its path through the state machine.
\<close>

section \<open>Truthful entries\<close>

lemma updateStatus_Inr:
  assumes "updateStatus rows now i status = Inr (u, rows')"
  shows "\<exists>old. findUser rows i = Some old \<and> usStatus old \<noteq> status \<and> usStatus old \<noteq> CLOSED
    \<and> u = old\<lparr>usStatus := status, usUpdatedAt := now\<rparr>
    \<and> rows' = update_where (\<lambda>x. usId x = i) (\<lambda>u. u\<lparr>usStatus := status, usUpdatedAt := now\<rparr>) rows
    \<and> (\<exists>a\<in>set rows'. active_admin a)"
  using assms
  by (auto simp: updateStatus_def requireUser_def update_user_def canTransitionStatus_def
      split: option.splits if_splits sum.splits dest: assertAnAdminRemains_Inr)

lemma findUser_D: "findUser rows i = Some u \<Longrightarrow> u \<in> set rows \<and> usId u = i"
  unfolding findUser_def by (rule find_SomeD)

text \<open>Suspending an account ends its sessions at once: when an administrator takes a user's active
  status away, the change, the end of every live session of that user and the audit entry that says
  who, why, from what and to what happen together; the administrator is somebody else, and an active
  administrator remains.\<close>

theorem suspension_ends_sessions:
  assumes "admin_set_status s now target status reason ctx = Inr (r, s')" and "status \<noteq> ACTIVE"
  shows "target \<noteq> acAdminId ctx
    \<and> (\<forall>t\<in>set (uaTokens s'). rtUserId t = target \<longrightarrow> \<not> live t)
    \<and> (\<exists>a\<in>set (uaUsers s'). active_admin a)
    \<and> (\<exists>old. findUser (uaUsers s) target = Some old
        \<and> findUser (uaUsers s') target = Some (old\<lparr>usStatus := status, usUpdatedAt := now\<rparr>)
        \<and> uaAudit s' = uaAudit s @ [\<lparr>aeAdminId = acAdminId ctx, aeAction = USER_STATUS_CHANGED, aeTargetType = ''user'',
            aeTargetId = Some (RowTarget target),
            aeBefore = Some (JObj [(''status'', JStr (user_status_name (usStatus old)))]),
            aeAfter = Some (JObj [(''status'', JStr (user_status_name status))]),
            aeReason = Some reason, aeIp = acIp ctx, auCreatedAt = now\<rparr>])"
proof -
  obtain before u users where b: "target \<noteq> acAdminId ctx" "requireUser (uaUsers s) target = Inr before"
      "updateStatus (uaUsers s) now target status = Inr (u, users)"
    using assms(1) by (auto simp: admin_set_status_def split: if_splits sum.splits)
  obtain old where old: "findUser (uaUsers s) target = Some old" "u = old\<lparr>usStatus := status, usUpdatedAt := now\<rparr>"
      "users = update_where (\<lambda>x. usId x = target) (\<lambda>u. u\<lparr>usStatus := status, usUpdatedAt := now\<rparr>) (uaUsers s)"
      "\<exists>a\<in>set users. active_admin a"
    using updateStatus_Inr [OF b(3)] by blast
  have "\<not> isActiveUser u" using assms(2) by (simp add: old(2) isActiveUser_def)
  then have s': "uaUsers s' = users" "uaTokens s' = snd (revokeAllForUser (uaTokens s) now target BY_LOGOUT)"
      "uaAudit s' = record_audit (uaAudit s) (admin_entry ctx USER_STATUS_CHANGED ''user'' target
        (Some [(''status'', JStr (user_status_name (usStatus before)))])
        [(''status'', JStr (user_status_name (usStatus u)))] (Some reason)) now"
    using assms(1) b by (auto simp: admin_set_status_def Let_def)
  have "before = old" using b(2) old(1) by (simp add: requireUser_def)
  moreover have "findUser users target = Some (old\<lparr>usStatus := status, usUpdatedAt := now\<rparr>)"
    using old(1) findUser_D [OF old(1)] unfolding findUser_def old(3) by (subst find_update_where) auto
  moreover have "\<not> live t" if "t \<in> set (uaTokens s')" "rtUserId t = target" for t
    using that unfolding s'(2) revokeAllForUser_def snd_conv
    by (rule revoked_not_live [where p = "\<lambda>t. rtUserId t = target"])
  ultimately show ?thesis
    using b(1) old s' by (auto simp: record_audit_def audit_row_of_def admin_entry_def audit_json_def)
qed

section \<open>A payout's audit trail\<close>

text \<open>Requests of administrators, split where another request can run. \<open>ReadPayout\<close> is
  \<open>requireById\<close>, with which every review and every view begins, \<open>ExecutePayout\<close> the call of the
  provider that precedes a settlement. What was read stays available to the request that read it:
  \<open>pdReads\<close> and \<open>pdExecuted\<close> hold everything read and confirmed so far, and a later step may use
  any of it.\<close>

record payout_desk =
  pdAdmin :: payout_admin
  pdReads :: "payout_request list"
  pdExecuted :: "(id \<times> string) list"

datatype payout_admin_op =
    SubmitPayout payouts_config id id millis submit_input
  | ReadPayout id
  | ExecutePayout id string
  | ApprovePayout payout_request id millis "string option" admin_context
  | RejectPayout payout_request id millis "string option" admin_context
  | FailPayout payout_request id millis "string option" admin_context
  | SettlePayout payout_request id millis string admin_context
  | ViewDestination payout_request millis admin_context
  | OtherLedger other_op

definition review_step :: "payout_desk \<Rightarrow> payout_request \<Rightarrow> (admin_payout_summary \<times> payout_admin) result \<Rightarrow> unit + payout_desk" where
  "review_step d before r = (if before \<notin> set (pdReads d) then Inl ()
     else map_sum (\<lambda>_. ()) (\<lambda>(_, a). d\<lparr>pdAdmin := a\<rparr>) r)"

fun execPayoutAdmin :: "(id \<Rightarrow> string) \<Rightarrow> payout_provider \<Rightarrow> payout_desk \<Rightarrow> payout_admin_op \<Rightarrow> unit + payout_desk" where
  "execPayoutAdmin idText provider d (SubmitPayout c i t now input) =
     map_sum (\<lambda>_. ()) (\<lambda>(_, p). d\<lparr>pdAdmin := (pdAdmin d)\<lparr>paPayouts := p\<rparr>\<rparr>)
       (submit provider c (paPayouts (pdAdmin d)) i t now input)"
| "execPayoutAdmin idText provider d (ReadPayout i) =
     map_sum (\<lambda>_. ()) (\<lambda>p. d\<lparr>pdReads := p # pdReads d\<rparr>) (requireById (paPayouts (pdAdmin d)) i)"
| "execPayoutAdmin idText provider d (ExecutePayout i ref) =
     map_sum (\<lambda>_. ()) (\<lambda>confirmed. d\<lparr>pdExecuted := (i, confirmed) # pdExecuted d\<rparr>)
       (execute provider (paPayouts (pdAdmin d)) i ref)"
| "execPayoutAdmin idText provider d (ApprovePayout p t now reason ctx) =
     review_step d p (payout_approve (pdAdmin d) p t now reason ctx)"
| "execPayoutAdmin idText provider d (RejectPayout p t now reason ctx) =
     review_step d p (payout_reject (pdAdmin d) p t now reason ctx)"
| "execPayoutAdmin idText provider d (FailPayout p t now reason ctx) =
     review_step d p (payout_mark_failed (pdAdmin d) p t now reason ctx)"
| "execPayoutAdmin idText provider d (SettlePayout p t now confirmed ctx) =
     (if (poId p, confirmed) \<notin> set (pdExecuted d) then Inl ()
      else review_step d p (payout_settle (pdAdmin d) p t now confirmed ctx))"
| "execPayoutAdmin idText provider d (ViewDestination p now ctx) =
     (if p \<notin> set (pdReads d) then Inl () else Inr (d\<lparr>pdAdmin := view_destination idText (pdAdmin d) p now ctx\<rparr>))"
| "execPayoutAdmin idText provider d (OtherLedger x) =
     map_sum (\<lambda>_. ()) (\<lambda>l. d\<lparr>pdAdmin := (pdAdmin d)\<lparr>paPayouts := (paPayouts (pdAdmin d))\<lparr>poLedger := l\<rparr>\<rparr>\<rparr>)
       (execReward (poLedger (paPayouts (pdAdmin d))) (as_reward_op x))"

definition status_of :: "json option \<Rightarrow> string option" where
  "status_of j = (case j of Some (JObj kvs) \<Rightarrow> (case map_of kvs ''status'' of Some (JStr s) \<Rightarrow> Some s | _ \<Rightarrow> None) | _ \<Rightarrow> None)"

definition about_payout :: "id \<Rightarrow> audit_row \<Rightarrow> bool" where
  "about_payout i r \<longleftrightarrow> aeTargetType r = ''payout_request'' \<and> aeTargetId r = Some (RowTarget i)"

abbreviation entries_about :: "payout_admin \<Rightarrow> id \<Rightarrow> audit_row list" where
  "entries_about a i \<equiv> filter (about_payout i) (paAudit a)"

fun action_to :: "payout_status \<Rightarrow> admin_action" where
  "action_to APPROVED = PAYOUT_APPROVED"
| "action_to REJECTED = PAYOUT_REJECTED"
| "action_to FAILED = PAYOUT_FAILED"
| "action_to _ = PAYOUT_SETTLED"

text \<open>Entries tell a path, latest status first: a review's entry goes one transition further, under the
  action of the status it reaches; a view's entry goes nowhere. The other status an entry names, the
  one its author read, is one the payout had had.\<close>

inductive tells :: "audit_row list \<Rightarrow> payout_status list \<Rightarrow> bool" where
  submitted: "tells [] [PENDING_REVIEW]"
| reviewed: "tells rs (a # path) \<Longrightarrow> canTransition a c \<Longrightarrow> aeAction r = action_to c
    \<Longrightarrow> status_of (aeAfter r) = Some (payout_status_name c)
    \<Longrightarrow> b \<in> set (a # path) \<Longrightarrow> status_of (aeBefore r) = Some (payout_status_name b) \<Longrightarrow> tells (rs @ [r]) (c # a # path)"
| viewed: "tells rs path \<Longrightarrow> aeAction r = PAYOUT_DESTINATION_VIEWED \<Longrightarrow> aeBefore r = None
    \<Longrightarrow> b \<in> set path \<Longrightarrow> status_of (aeAfter r) = Some (payout_status_name b) \<Longrightarrow> tells (rs @ [r]) path"

text \<open>What is known of one payout: its entries tell a path to its status that passes through every
  status read of it.\<close>

definition told :: "payout_desk \<Rightarrow> payout_request \<Rightarrow> bool" where
  "told d p \<longleftrightarrow> (\<exists>path. tells (entries_about (pdAdmin d) (poId p)) (poStatus p # path)
     \<and> (\<forall>q\<in>set (pdReads d). poId q = poId p \<longrightarrow> poStatus q \<in> set (poStatus p # path)))"

definition trails_told :: "payout_desk \<Rightarrow> bool" where
  "trails_told d \<longleftrightarrow> (let rows = payoutRequests (paPayouts (pdAdmin d)) in
     distinct (map poId rows) \<and> (\<forall>p\<in>set rows. told d p)
     \<and> (\<forall>q\<in>set (pdReads d). poId q \<in> set (map poId rows))
     \<and> (\<forall>i. i \<notin> set (map poId rows) \<longrightarrow> entries_about (pdAdmin d) i = []))"

lemma entries_record [simp]: "filter (about_payout i) (record_audit rows e now) = filter (about_payout i) rows
    @ (if about_payout i (audit_row_of e now) then [audit_row_of e now] else [])"
  by (simp add: record_audit_def)

lemma payout_entry [simp]:
  "about_payout j (audit_row_of (admin_entry ctx action ''payout_request'' i before after reason) now) \<longleftrightarrow> j = i"
  "aeAction (audit_row_of (admin_entry ctx action ty i before after reason) now) = action"
  "aeBefore (audit_row_of (admin_entry ctx action ty i None after reason) now) = None"
  "status_of (aeBefore (audit_row_of (admin_entry ctx action ty i (Some kvs) after reason) now)) = status_of (Some (JObj kvs))"
  "status_of (aeAfter (audit_row_of (admin_entry ctx action ty i before after reason) now)) = status_of (Some (JObj after))"
  by (auto simp: about_payout_def audit_row_of_def admin_entry_def audit_json_def status_of_def)

lemma status_of_entry [simp]:
  "status_of (Some (JObj ((''status'', JStr x) # kvs))) = Some x"
  "status_of (Some (JObj [(''userId'', u), (''status'', JStr x)])) = Some x"
  by (simp_all add: status_of_def)

lemma payout_review_told:
  assumes "trails_told d" and "before \<in> set (pdReads d)" and "action = action_to to"
    and "payout_review (pdAdmin d) before t now to action reason ref ctx = Inr (r, a')"
  shows "trails_told (d\<lparr>pdAdmin := a'\<rparr>)"
proof -
  let ?i = "poId before" and ?rows = "payoutRequests (paPayouts (pdAdmin d))"
  obtain q payouts where app: "applyTransition (paPayouts (pdAdmin d)) t now ?i to
        \<lparr>rvAdminId = acAdminId ctx, rvReason = reason, rvExternalReference = ref\<rparr> = Inr (q, payouts)"
    and a': "paPayouts a' = payouts" "paAudit a' = record_audit (paAudit (pdAdmin d)) (admin_entry ctx action ''payout_request'' ?i
        (Some [(''status'', JStr (payout_status_name (poStatus before)))])
        [(''status'', JStr (payout_status_name (poStatus q))), (''amountPoints'', json_int (poAmountPoints q)),
         (''externalReference'', json_text (poExternalReference q))] reason) now"
    using assms(4) by (auto simp: payout_review_def split: sum.splits)
  obtain p why where p: "findPayout (paPayouts (pdAdmin d)) ?i = Some p" "canTransition (poStatus p) to"
      "q = reviewed_row to \<lparr>rvAdminId = acAdminId ctx, rvReason = reason, rvExternalReference = ref\<rparr> why now p"
      "payoutRequests payouts = update_where (\<lambda>x. poId x = ?i)
        (reviewed_row to \<lparr>rvAdminId = acAdminId ctx, rvReason = reason, rvExternalReference = ref\<rparr> why now) ?rows"
    using applyTransition_InrD [OF app] by auto
  note mem = findPayout_SomeD [OF p(1)]
  have "poStatus q = to" using p(3) by (simp add: reviewed_row_def)
  with a'(2) assms(3) obtain e where e: "paAudit a' = record_audit (paAudit (pdAdmin d)) e now"
      "aeAction (audit_row_of e now) = action_to to" "\<And>j. about_payout j (audit_row_of e now) \<longleftrightarrow> j = ?i"
      "status_of (aeBefore (audit_row_of e now)) = Some (payout_status_name (poStatus before))"
      "status_of (aeAfter (audit_row_of e now)) = Some (payout_status_name to)"
    by (metis payout_entry(1,2,4,5) status_of_entry(1))
  have ids: "map poId (payoutRequests (paPayouts a')) = map poId ?rows"
    by (simp add: a'(1) p(4) map_update_where)
  have keep: "told (d\<lparr>pdAdmin := a'\<rparr>) x" if "told d x" "poId x \<noteq> ?i" for x
    using that by (auto simp: told_def e)
  obtain path where path: "tells (entries_about (pdAdmin d) ?i) (poStatus p # path)"
      "\<forall>q\<in>set (pdReads d). poId q = ?i \<longrightarrow> poStatus q \<in> set (poStatus p # path)"
    using assms(1) mem by (auto simp: trails_told_def told_def Let_def)
  have moved: "told (d\<lparr>pdAdmin := a'\<rparr>) x" if "poId x = ?i" "poStatus x = to" for x
    using tells.reviewed [OF path(1) p(2) e(2,5) _ e(4)] path(2) assms(2) that
    unfolding told_def by (intro exI [of _ "poStatus p # path"]) (auto simp: e)
  have "told (d\<lparr>pdAdmin := a'\<rparr>) x" if x: "x \<in> set (payoutRequests (paPayouts a'))" for x
  proof -
    obtain y where y: "y \<in> set ?rows" "x = (if poId y = ?i then reviewed_row to \<lparr>rvAdminId = acAdminId ctx,
        rvReason = reason, rvExternalReference = ref\<rparr> why now y else y)"
      using x unfolding a'(1) p(4) set_update_where by blast
    have "told d y" using assms(1) y(1) by (simp add: trails_told_def Let_def)
    then show ?thesis using y(2) keep moved by (cases "poId y = ?i") simp_all
  qed
  moreover have "entries_about a' j = []" if "j \<notin> set (map poId ?rows)" for j
  proof -
    have "j \<noteq> ?i" using that mem by (metis image_eqI list.set_map)
    then show ?thesis using that assms(1) by (simp add: e trails_told_def Let_def)
  qed
  moreover have "poId q \<in> set (map poId ?rows)" if "q \<in> set (pdReads d)" for q
    using that assms(1) unfolding trails_told_def Let_def by blast
  moreover have "distinct (map poId ?rows)" using assms(1) by (simp add: trails_told_def Let_def)
  moreover have "poId ` set (payoutRequests (paPayouts a')) = poId ` set ?rows" using ids by (metis list.set_map)
  ultimately show ?thesis by (simp add: trails_told_def Let_def ids)
qed

lemma review_step_told:
  assumes "trails_told d" and "review_step d p (payout_review (pdAdmin d) p t now to (action_to to) reason ref ctx) = Inr d'"
  shows "trails_told d'"
  using assms payout_review_told [OF assms(1) _ refl]
  by (auto simp: review_step_def map_sum_def split: sum.splits if_splits)

lemma view_told:
  assumes "trails_told d" and "p \<in> set (pdReads d)"
  shows "trails_told (d\<lparr>pdAdmin := view_destination idText (pdAdmin d) p now ctx\<rparr>)"
proof -
  let ?a' = "view_destination idText (pdAdmin d) p now ctx" and ?rows = "payoutRequests (paPayouts (pdAdmin d))"
  let ?e = "admin_entry ctx PAYOUT_DESTINATION_VIEWED ''payout_request'' (poId p) None
     [(''userId'', JStr (idText (poUserId p))), (''status'', JStr (payout_status_name (poStatus p)))] None"
  have e: "paAudit ?a' = record_audit (paAudit (pdAdmin d)) ?e now" "paPayouts ?a' = paPayouts (pdAdmin d)"
    by (simp_all add: view_destination_def)
  have "told (d\<lparr>pdAdmin := ?a'\<rparr>) x" if x: "x \<in> set ?rows" for x
  proof -
    obtain path where path: "tells (entries_about (pdAdmin d) (poId x)) (poStatus x # path)"
        "\<forall>q\<in>set (pdReads d). poId q = poId x \<longrightarrow> poStatus q \<in> set (poStatus x # path)"
      using assms(1) x by (auto simp: trails_told_def told_def Let_def)
    show ?thesis
      using tells.viewed [OF path(1), of "audit_row_of ?e now" "poStatus p"] path assms(2)
      unfolding told_def by (intro exI [of _ path]) (auto simp: e)
  qed
  moreover have "poId p \<in> set (map poId ?rows)" using assms unfolding trails_told_def Let_def by blast
  ultimately show ?thesis using assms(1) by (auto simp: trails_told_def Let_def e)
qed

lemma execPayoutAdmin_told:
  assumes "trails_told d" and "execPayoutAdmin idText provider d x = Inr d'"
  shows "trails_told d'"
proof (cases x)
  case (SubmitPayout c i t now input)
  then obtain p payouts where sub: "submit provider c (paPayouts (pdAdmin d)) i t now input = Inr (p, payouts)"
      and d': "d' = d\<lparr>pdAdmin := (pdAdmin d)\<lparr>paPayouts := payouts\<rparr>\<rparr>"
    using assms(2) by (auto simp: map_sum_def split: sum.splits)
  have new: "payoutRequests payouts = payoutRequests (paPayouts (pdAdmin d)) @ [p]" "poStatus p = PENDING_REVIEW"
      "poId p \<notin> set (map poId (payoutRequests (paPayouts (pdAdmin d))))"
    using submit_InrD [OF sub] by auto
  have old: "told d' q \<longleftrightarrow> told d q" for q by (simp add: told_def d')
  have "entries_about (pdAdmin d) (poId p) = []" using assms(1) new(3) by (simp add: trails_told_def Let_def)
  moreover have "\<forall>q\<in>set (pdReads d). poId q \<noteq> poId p" using assms(1) new(3) unfolding trails_told_def Let_def by metis
  ultimately have "told d p" using tells.submitted new(2) by (auto simp: told_def)
  then show ?thesis using assms(1) new by (auto simp: trails_told_def Let_def old) (auto simp: d')
next
  case (ReadPayout i)
  then obtain p where p: "findPayout (paPayouts (pdAdmin d)) i = Some p" and d': "d' = d\<lparr>pdReads := p # pdReads d\<rparr>"
    using assms(2) by (auto simp: requireById_def map_sum_def split: option.splits)
  note mem = findPayout_SomeD [OF p]
  have "told d' x" if x: "x \<in> set (payoutRequests (paPayouts (pdAdmin d)))" for x
  proof -
    have one: "x = p" if "poId x = poId p"
      using distinct_key_unique [OF _ x, of poId p] that mem assms(1) by (simp add: trails_told_def Let_def)
    obtain path where "tells (entries_about (pdAdmin d) (poId x)) (poStatus x # path)"
        "\<forall>q\<in>set (pdReads d). poId q = poId x \<longrightarrow> poStatus q \<in> set (poStatus x # path)"
      using assms(1) x by (auto simp: trails_told_def told_def Let_def)
    then show ?thesis
      using one unfolding told_def by (intro exI [of _ path]) (auto simp: d' dest: sym)
  qed
  then show ?thesis using assms(1) mem by (auto simp: trails_told_def Let_def d')
next
  case (ExecutePayout i ref)
  then show ?thesis using assms by (auto simp: map_sum_def trails_told_def told_def Let_def split: sum.splits)
next
  case (ViewDestination p now ctx)
  then show ?thesis using assms view_told [OF assms(1)] by (auto split: if_splits)
next
  case (OtherLedger y)
  then show ?thesis using assms by (auto simp: map_sum_def trails_told_def told_def Let_def split: sum.splits)
next
  case (ApprovePayout p t now reason ctx)
  then show ?thesis using assms review_step_told [of d p t now APPROVED] by (simp add: payout_approve_def)
next
  case (RejectPayout p t now reason ctx)
  then show ?thesis using assms review_step_told [of d p t now REJECTED] by (simp add: payout_reject_def)
next
  case (FailPayout p t now reason ctx)
  then show ?thesis using assms review_step_told [of d p t now FAILED] by (simp add: payout_mark_failed_def)
next
  case (SettlePayout p t now confirmed ctx)
  then show ?thesis
    using assms review_step_told [of d p t now PAID] by (simp add: payout_settle_def split: if_splits)
qed

definition no_payouts_desk :: payout_desk where
  "no_payouts_desk = \<lparr>pdAdmin = \<lparr>paPayouts = empty_payouts, paAudit = []\<rparr>, pdReads = [], pdExecuted = []\<rparr>"

interpretation audited_payouts: guarded_system "execPayoutAdmin idText provider" no_payouts_desk trails_told
  for idText provider
proof
  show "trails_told no_payouts_desk"
    by (simp add: trails_told_def no_payouts_desk_def empty_payouts_def)
qed (rule execPayoutAdmin_told)

text \<open>C00. The audit log tells every payout's story, however administrators' requests overlap: after any run
  of submissions, reads, reviews, settlements, views of destinations and other ledger movements, the
  entries about a request, in order, lead from \<open>PENDING_REVIEW\<close> to the status it now has, one entry for
  each transition of the state machine, under the action that makes it, and none for a transition
  that was not made; in between stand the entries of views. The status a review's entry calls the one
  before, or a view's entry names, is one the payout had had, though not always the last.\<close>

theorem audit_trail_is_the_payout_path:
  fixes idText provider ops
  defines "a \<equiv> pdAdmin (run_ops (execPayoutAdmin idText provider) no_payouts_desk ops)"
  assumes "p \<in> set (payoutRequests (paPayouts a))"
  shows "\<exists>path. tells (entries_about a (poId p)) (poStatus p # path)"
  using audited_payouts.inv_run [of idText provider ops] assms(2)
  by (auto simp: a_def trails_told_def told_def Let_def)

section \<open>Concrete actions\<close>

lemma suspension_ends_sessions_witness:
  "\<exists>r s'. admin_set_status \<lparr>uaUsers = usUsers (asUsers demo_auth), uaTokens = asTokens demo_auth, uaAudit = []\<rparr> 5 4 SUSPENDED
      ''fraud'' \<lparr>acAdminId = 9, acIp = None\<rparr> = Inr (r, s') \<and> (\<forall>t\<in>set (uaTokens s'). rtUserId t = 4 \<longrightarrow> \<not> live t)"
proof -
  obtain r s' where r: "admin_set_status \<lparr>uaUsers = usUsers (asUsers demo_auth), uaTokens = asTokens demo_auth, uaAudit = []\<rparr>
      5 4 SUSPENDED ''fraud'' \<lparr>acAdminId = 9, acIp = None\<rparr> = Inr (r, s')"
    by (simp add: admin_set_status_def demo_auth_def demo_account_def requireUser_def findUser_def updateStatus_def
        canTransitionStatus_def update_user_def assertAnAdminRemains_def active_admin_def Let_def)
  show ?thesis using suspension_ends_sessions [OF r] r by auto
qed

definition demo_admin_prefix :: "payout_admin_op list" where
  "demo_admin_prefix = [OtherLedger (OtherOpen 2 7),
     OtherLedger (OtherCredit (\<lambda>_. 0) 10 0 ((demo_credit 7)\<lparr>crAmountPoints := 5000\<rparr>)),
     OtherLedger (OtherMature 12 2 10),
     SubmitPayout default_payouts_config 50 13 2 demo_withdrawal, ReadPayout 50]"

abbreviation demo_desk :: "payout_admin_op list \<Rightarrow> payout_desk" where
  "demo_desk ops \<equiv> run_ops (execPayoutAdmin (\<lambda>_. ''u'') ManualPayoutProvider) no_payouts_desk ops"

definition demo_request :: payout_request where
  "demo_request = hd (pdReads (demo_desk demo_admin_prefix))"

definition demo_admin_context :: admin_context where
  "demo_admin_context = \<lparr>acAdminId = 9, acIp = None\<rparr>"

lemmas demo_desk_simps = demo_admin_prefix_def demo_request_def demo_admin_context_def no_payouts_desk_def payout_eval
  reward_eval demo_strings payout_approve_def payout_mark_failed_def payout_review_def review_step_def
  view_destination_def requireById_def

lemma demo_admin_result:
  "\<exists>p. p \<in> set (payoutRequests (paPayouts (pdAdmin (demo_desk (demo_admin_prefix
        @ [ViewDestination demo_request 3 demo_admin_context, ApprovePayout demo_request 14 3 None demo_admin_context])))))
    \<and> poStatus p = APPROVED \<and> poId p = 50"
  by (simp add: demo_desk_simps)

lemma audit_trail_is_the_payout_path_witness:
  "\<exists>path. tells (entries_about (pdAdmin (demo_desk (demo_admin_prefix
        @ [ViewDestination demo_request 3 demo_admin_context, ApprovePayout demo_request 14 3 None demo_admin_context]))) 50)
      (APPROVED # path)"
  using demo_admin_result audit_trail_is_the_payout_path by metis

lemma demo_reason: "js_trim ''bounced'' = ''bounced''"
  by code_simp

text \<open>The status before is read without the lock: when an approval commits between the read and the
  transaction of another review, the entry of that review skips it.\<close>

lemma stale_before_is_recorded:
  "map (\<lambda>r. (status_of (aeBefore r), status_of (aeAfter r))) (entries_about (pdAdmin (demo_desk (demo_admin_prefix
      @ [ApprovePayout demo_request 14 3 None demo_admin_context,
         FailPayout demo_request 15 4 (Some ''bounced'') demo_admin_context]))) 50)
   = [(Some ''PENDING_REVIEW'', Some ''APPROVED''), (Some ''PENDING_REVIEW'', Some ''FAILED'')]"
  by (simp add: demo_desk_simps demo_reason status_of_def about_payout_def record_audit_def audit_row_of_def admin_entry_def audit_json_def)

end
