(* ===== verification/Sweeps.thy ===== *)
theory Sweeps
  imports ConfigKeys RewardProps
begin

text \<open>
  The two periodic jobs over the ledger: \<^verbatim>\<open>jobs/reward-maturation.processor.ts\<close>, which matures
  one bounded batch of due credits an hour, and \<^verbatim>\<open>jobs/reconciliation.processor.ts\<close>, which checks
  every account against its history, a page per job, each full page queueing the next. A job name
  that is not the queue's own is an error of the process.
\<close>

section \<open>Maturation\<close>

text \<open>The loop: a credit that fails is skipped. \<open>fresh\<close> gives each step its row id and clock.\<close>

fun mature_each :: "(nat \<Rightarrow> id \<times> millis) \<Rightarrow> nat \<Rightarrow> id list \<Rightarrow> nat \<Rightarrow> ledger \<Rightarrow> nat \<times> ledger" where
  "mature_each fresh k [] matured l = (matured, l)"
| "mature_each fresh k (c # cs) matured l =
     (case mature l (fst (fresh k)) (snd (fresh k)) c of
        Inl _ \<Rightarrow> mature_each fresh (k + 1) cs matured l
      | Inr (None, l') \<Rightarrow> mature_each fresh (k + 1) cs matured l'
      | Inr (Some _, l') \<Rightarrow> mature_each fresh (k + 1) cs (matured + 1) l')"

record maturation_result =
  mzMatured :: nat
  mzScanned :: nat

definition maturation_sweep :: "(nat \<Rightarrow> id \<times> millis) \<Rightarrow> millis \<Rightarrow> ledger \<Rightarrow> maturation_result \<times> ledger" where
  "maturation_sweep fresh now l =
     (let candidates = findMaturable l now MATURATION_BATCH_SIZE
      in case mature_each fresh 0 candidates 0 l of
           (matured, l') \<Rightarrow> (\<lparr>mzMatured = matured, mzScanned = length candidates\<rparr>, l'))"

definition maturation_process :: "(nat \<Rightarrow> id \<times> millis) \<Rightarrow> string \<Rightarrow> millis \<Rightarrow> ledger
    \<Rightarrow> (maturation_result \<times> ledger) option" where
  "maturation_process fresh jobName now l =
     (if jobName \<noteq> ''reward-maturation'' then None else Some (maturation_sweep fresh now l))"

section \<open>Reconciliation\<close>

text \<open>\<open>fails\<close>: the accounts whose check throws (the database, not the sums).\<close>

fun reconcile_each :: "ledger \<Rightarrow> (id \<Rightarrow> bool) \<Rightarrow> id list \<Rightarrow> nat \<times> nat \<times> nat \<Rightarrow> nat \<times> nat \<times> nat" where
  "reconcile_each l fails [] acc = acc"
| "reconcile_each l fails (u # us) (checked, drifted, broken) =
     reconcile_each l fails us
       (if fails u then (checked, drifted, broken + 1)
        else (checked + 1, if balanced (reconcile l u) then drifted else drifted + 1, broken))"

record page_result =
  zpChecked :: nat
  zpDrifted :: nat
  zpFailed :: nat
  zpAfter :: "id option"
  zpComplete :: bool

text \<open>The page and the job it queues, if any.\<close>

definition reconciliation_sweep :: "ledger \<Rightarrow> (id \<Rightarrow> bool) \<Rightarrow> id option \<Rightarrow> page_result \<times> id option" where
  "reconciliation_sweep l fails after =
     (let userIds = findUsersToReconcile l after RECONCILIATION_BATCH_SIZE;
          last_id = (if userIds = [] then None else Some (last userIds));
          complete = (length userIds < RECONCILIATION_BATCH_SIZE \<or> last_id = None \<or> last_id = after)
      in case reconcile_each l fails userIds (0, 0, 0) of
           (checked, drifted, broken) \<Rightarrow>
             (\<lparr>zpChecked = checked, zpDrifted = drifted, zpFailed = broken, zpAfter = after, zpComplete = complete\<rparr>,
              if complete then None else last_id))"

definition reconciliation_process :: "string \<Rightarrow> ledger \<Rightarrow> (id \<Rightarrow> bool) \<Rightarrow> id option
    \<Rightarrow> (page_result \<times> id option) option" where
  "reconciliation_process jobName l fails after =
     (if jobName \<noteq> ''reconciliation'' then None else Some (reconciliation_sweep l fails after))"

subsection \<open>The chain of jobs ends\<close>

text \<open>The accounts beyond a cursor, in order; each page takes a batch of them off the front.\<close>

definition beyond :: "ledger \<Rightarrow> id option \<Rightarrow> id list" where
  "beyond l after = sort (filter (\<lambda>u. case after of None \<Rightarrow> True | Some a \<Rightarrow> a < u) (map balUserId (balances l)))"

lemma batch_positive [simp]: "0 < RECONCILIATION_BATCH_SIZE"
  by (simp add: RECONCILIATION_BATCH_SIZE_def)

lemma page_is_batch: "findUsersToReconcile l after n = take n (beyond l after)"
  by (simp add: findUsersToReconcile_def beyond_def)

lemma beyond_further:
  "after = None \<or> the after < a \<Longrightarrow> beyond l (Some a) = filter (\<lambda>u. a < u) (beyond l after)"
  unfolding beyond_def filter_sort by (cases after) (auto intro!: arg_cong [where f = sort] filter_cong)

lemma sweep_next:
  assumes "reconciliation_sweep l fails after = (r, Some a)"
  shows "a \<in> set (beyond l after) \<and> (after = None \<or> the after < a)
    \<and> take RECONCILIATION_BATCH_SIZE (beyond l after) \<noteq> []
    \<and> a = last (take RECONCILIATION_BATCH_SIZE (beyond l after))"
proof -
  let ?us = "take RECONCILIATION_BATCH_SIZE (beyond l after)"
  have us: "?us \<noteq> []" "a = last ?us"
    using assms by (auto simp: reconciliation_sweep_def page_is_batch Let_def split: prod.splits if_splits)
  then have a: "a \<in> set (beyond l after)" by (metis last_in_set in_set_takeD)
  then have "after = None \<or> the after < a" by (auto simp: beyond_def split: option.splits)
  then show ?thesis using a us by blast
qed

lemma beyond_shrinks:
  assumes "reconciliation_sweep l fails after = (r, Some a)"
  shows "length (beyond l (Some a)) < length (beyond l after)"
proof -
  note n = sweep_next [OF assms]
  have "length (filter (\<lambda>u. a < u) (beyond l after)) < length (beyond l after)"
    using n by (intro length_filter_less [of a]) auto
  then show ?thesis using n by (subst beyond_further) auto
qed

function reconciliation_chain :: "ledger \<Rightarrow> (id \<Rightarrow> bool) \<Rightarrow> id option \<Rightarrow> page_result list" where
  "reconciliation_chain l fails after = (case reconciliation_sweep l fails after of
     (r, None) \<Rightarrow> [r] | (r, Some a) \<Rightarrow> r # reconciliation_chain l fails (Some a))"
  by pat_completeness auto

termination
  apply (relation "measure (\<lambda>(l, fails, after). length (beyond l after))")
   apply simp
  apply (simp only: in_measure split_conv)
  apply (rule beyond_shrinks)
  apply (erule sym)
  done

declare reconciliation_chain.simps [simp del]

section \<open>Every account is checked, once\<close>

lemma reconcile_each_counts:
  "reconcile_each l fails us (c, d, f) =
     (c + count_where (\<lambda>u. \<not> fails u) us, d + count_where (\<lambda>u. \<not> fails u \<and> \<not> balanced (reconcile l u)) us,
      f + count_where fails us)"
  by (induction us arbitrary: c d f) auto

lemma sweep_counts:
  assumes "reconciliation_sweep l fails after = (r, next_job)"
  shows "let us = take RECONCILIATION_BATCH_SIZE (beyond l after) in
      zpChecked r = count_where (\<lambda>u. \<not> fails u) us \<and> zpFailed r = count_where fails us
      \<and> zpDrifted r = count_where (\<lambda>u. \<not> fails u \<and> \<not> balanced (reconcile l u)) us
      \<and> (zpComplete r \<longleftrightarrow> next_job = None)"
  using assms
  by (auto simp: reconciliation_sweep_def page_is_batch reconcile_each_counts Let_def split: if_splits)

lemma beyond_ordered:
  assumes "distinct (map balUserId (balances l))"
  shows "sorted_wrt (<) (beyond l after)"
  using assms by (simp add: beyond_def strict_sorted_iff)

lemma filter_after_last:
  assumes "sorted_wrt (<) xs" and "take n xs \<noteq> []"
  shows "filter (\<lambda>u. last (take n xs) < u) xs = drop n (xs :: nat list)"
proof -
  define us where "us = take n xs"
  define vs where "vs = drop n xs"
  have xs: "xs = us @ vs" by (simp add: us_def vs_def)
  have s: "sorted_wrt (<) us" "\<forall>x\<in>set us. \<forall>y\<in>set vs. x < y"
    using assms(1) unfolding xs sorted_wrt_append by auto
  have ne: "us \<noteq> []" using assms(2) by (simp add: us_def)
  obtain vs' x where split: "us = vs' @ [x]" using ne by (cases us rule: rev_cases) auto
  have "u \<le> last us" if "u \<in> set us" for u
    using that s(1) by (auto simp: split sorted_wrt_append)
  then have "filter (\<lambda>u. last us < u) us = []" by (auto simp: filter_empty_conv not_less)
  moreover have "filter (\<lambda>u. last us < u) vs = vs"
    using s(2) last_in_set [OF ne] by (auto intro: filter_True)
  ultimately have "filter (\<lambda>u. last us < u) (us @ vs) = vs" by simp
  then show ?thesis by (simp add: us_def vs_def)
qed

lemma page_last:
  assumes "reconciliation_sweep l fails after = (r, None)" and "distinct (map balUserId (balances l))"
  shows "drop RECONCILIATION_BATCH_SIZE (beyond l after) = []"
proof -
  let ?us = "take RECONCILIATION_BATCH_SIZE (beyond l after)"
  have "length ?us < RECONCILIATION_BATCH_SIZE \<or> ?us = [] \<or> Some (last ?us) = after"
    using assms(1) by (auto simp: reconciliation_sweep_def page_is_batch Let_def split: prod.splits if_splits)
  moreover have "Some (last ?us) \<noteq> after" if "?us \<noteq> []"
  proof -
    have "last ?us \<in> set (beyond l after)" using that by (metis last_in_set in_set_takeD)
    then show ?thesis by (auto simp: beyond_def)
  qed
  ultimately have "length ?us < RECONCILIATION_BATCH_SIZE \<or> ?us = []" by blast
  then show ?thesis using batch_positive by (auto simp del: batch_positive)
qed

lemma count_where_split: "count_where p xs = count_where p (take n xs) + count_where p (drop n xs)"
  by (metis append_take_drop_id count_where_append)

lemma chain_counts:
  assumes "distinct (map balUserId (balances l))"
  shows "sum_list (map zpChecked (reconciliation_chain l fails after)) = count_where (\<lambda>u. \<not> fails u) (beyond l after)
    \<and> sum_list (map zpFailed (reconciliation_chain l fails after)) = count_where fails (beyond l after)
    \<and> sum_list (map zpDrifted (reconciliation_chain l fails after))
        = count_where (\<lambda>u. \<not> fails u \<and> \<not> balanced (reconcile l u)) (beyond l after)"
proof (induction "length (beyond l after)" arbitrary: after rule: less_induct)
  case less
  let ?n = RECONCILIATION_BATCH_SIZE
  obtain r next_job where s: "reconciliation_sweep l fails after = (r, next_job)" by fastforce
  note page = sweep_counts [OF s, unfolded Let_def]
  show ?case
  proof (cases next_job)
    case None
    then have "drop ?n (beyond l after) = []" using page_last s assms by simp
    then have "take ?n (beyond l after) = beyond l after" by simp
    then show ?thesis using page s None by (simp add: reconciliation_chain.simps [of l fails after])
  next
    case (Some a)
    note n = sweep_next [OF s [unfolded Some]]
    have rest: "beyond l (Some a) = drop ?n (beyond l after)"
      using n filter_after_last [OF beyond_ordered [OF assms], of ?n after] by (subst beyond_further) auto
    have "reconciliation_chain l fails after = r # reconciliation_chain l fails (Some a)"
      using s Some by (simp add: reconciliation_chain.simps [of l fails after])
    then show ?thesis
      using page less [OF beyond_shrinks [OF s [unfolded Some]]] count_where_split [of _ "beyond l after" ?n]
      by (simp add: rest)
  qed
qed

lemma chain_ends: "reconciliation_chain l fails after \<noteq> [] \<and> zpComplete (last (reconciliation_chain l fails after))
    \<and> (\<forall>p\<in>set (butlast (reconciliation_chain l fails after)). \<not> zpComplete p)"
proof (induction l fails after rule: reconciliation_chain.induct)
  case (1 l fails after)
  obtain r next_job where s: "reconciliation_sweep l fails after = (r, next_job)" by fastforce
  note page = sweep_counts [OF s, unfolded Let_def]
  show ?case
  proof (cases next_job)
    case None
    then show ?thesis using page s by (simp add: reconciliation_chain.simps [of l fails after])
  next
    case (Some a)
    then have "reconciliation_chain l fails after = r # reconciliation_chain l fails (Some a)"
      using s by (simp add: reconciliation_chain.simps [of l fails after])
    then show ?thesis using 1 [OF s [symmetric] Some] page Some by auto
  qed
qed

text \<open>C16. The nightly reconciliation ends and reaches every account: started from the beginning, the chain
  of jobs is finite, only its last page is complete, every account is either checked or reported as
  unreadable, none twice, and on a ledger that only the service has written no drift is found.\<close>

theorem reconciliation_reaches_everyone:
  fixes ops fails
  defines "chain \<equiv> reconciliation_chain (run_rewards ops) fails None"
    and "accounts \<equiv> map balUserId (balances (run_rewards ops))"
  shows "zpComplete (last chain) \<and> list_all (\<lambda>p. \<not> zpComplete p) (butlast chain)
    \<and> sum_list (map zpChecked chain) = count_where (\<lambda>u. \<not> fails u) accounts
    \<and> sum_list (map zpFailed chain) = count_where fails accounts
    \<and> sum_list (map zpChecked chain) + sum_list (map zpFailed chain) = length accounts
    \<and> sum_list (map zpDrifted chain) = 0"
proof -
  have d: "distinct (map balUserId (balances (run_rewards ops)))"
    using reachable_keys [OF run_rewards_reachable] by (simp add: ledger_keys_def)
  have order: "count_where p (beyond (run_rewards ops) None) = count_where p accounts" for p
    by (simp add: beyond_def count_where_def accounts_def filter_sort)
  have "count_where (\<lambda>u. \<not> fails u \<and> \<not> balanced (reconcile (run_rewards ops) u)) accounts = 0"
    using reachable_balanced [OF run_rewards_reachable] by (simp add: count_where_0_iff)
  moreover have "count_where (\<lambda>u. \<not> fails u) accounts + count_where fails accounts = length accounts"
    unfolding count_where_def using sum_length_filter_compl [of fails accounts] by simp
  ultimately show ?thesis
    using chain_counts [OF d, of fails None] chain_ends [of "run_rewards ops" fails None]
    by (simp add: chain_def order list_all_iff)
qed

section \<open>A sweep matures what is due\<close>

lemma count_remove:
  assumes "distinct (map f xs)" and "x \<in> set xs" and "p x"
  shows "count_where p xs = Suc (count_where (\<lambda>y. p y \<and> f y \<noteq> f x) xs)"
  using assms
proof (induction xs)
  case (Cons y ys)
  show ?case
  proof (cases "x = y")
    case True
    then have "count_where (\<lambda>z. p z \<and> f z \<noteq> f x) ys = count_where p ys"
      using Cons.prems(1) unfolding count_where_def by (intro arg_cong [where f = length] filter_cong) (auto simp: image_iff)
    then show ?thesis using True Cons.prems by simp
  next
    case False
    then show ?thesis using Cons by auto
  qed
qed simp

definition backlog :: "ledger \<Rightarrow> millis \<Rightarrow> nat" where
  "backlog l now = count_where (maturable l now) (transactions l)"

definition due :: "ledger \<Rightarrow> millis \<Rightarrow> id \<Rightarrow> bool" where
  "due l now c \<longleftrightarrow> (\<exists>x\<in>set (transactions l). txId x = c \<and> maturable l now x)"

lemma mature_step:
  assumes "ledger_reachable l" and "mature l i t c = Inr (Some r, l')" and "due l now c"
  shows "ledger_reachable l'" "Suc (backlog l' now) = backlog l now" "balTotal (getBalance l' u) = balTotal (getBalance l u)"
    and "d \<noteq> c \<Longrightarrow> due l now d \<Longrightarrow> due l' now d"
proof -
  note post = posts_getBalance [OF assms(1) posts.mature [OF assms(2)]]
  have r: "txType r = REWARD_MATURATION" "txSourceTransactionId r = Some c"
      "txPendingDelta r + txAvailableDelta r + txLockedDelta r = 0"
    using mature_InrD [OF assms(2)] by auto
  show "ledger_reachable l'" by (rule post(3))
  show "balTotal (getBalance l' u) = balTotal (getBalance l u)"
    using r(3) by (simp add: post(1) moved_by_def)
  have still: "maturable l' now x \<longleftrightarrow> maturable l now x \<and> txId x \<noteq> c" for x
    using r by (auto simp: maturable_def acted_def post(2) find_append split: option.splits)
  obtain x where x: "x \<in> set (transactions l)" "txId x = c" "maturable l now x"
    using assms(3) by (auto simp: due_def)
  have "count_where (maturable l now) (transactions l)
      = Suc (count_where (\<lambda>y. maturable l now y \<and> txId y \<noteq> c) (transactions l))"
    using count_remove [OF history_distinct [OF reachable_history [OF assms(1)]] x(1), of "maturable l now"] x(2,3) by simp
  moreover have "maturable l' now = (\<lambda>y. maturable l now y \<and> txId y \<noteq> c)" using still by auto
  moreover have "\<not> maturable l now r" using r(1) by (simp add: maturable_def)
  ultimately show "Suc (backlog l' now) = backlog l now"
    by (simp add: backlog_def post(2))
  show "due l' now d" if "d \<noteq> c" "due l now d"
    using that by (auto simp: due_def post(2) still)
qed

lemma mature_each_counts:
  assumes "ledger_reachable l" and "distinct cs" and "\<forall>c\<in>set cs. due l now c"
    and "mature_each fresh k cs m l = (m', l')"
  shows "ledger_reachable l' \<and> m \<le> m' \<and> m' \<le> m + length cs \<and> backlog l' now + m' = backlog l now + m
    \<and> (\<forall>u. balTotal (getBalance l' u) = balTotal (getBalance l u))"
  using assms
proof (induction cs arbitrary: k m l)
  case (Cons c cs)
  let ?run = "mature l (fst (fresh k)) (snd (fresh k)) c"
  have skip: ?case if "mature_each fresh (k + 1) cs m l = (m', l')"
    using Cons.IH [OF Cons.prems(1) _ _ that] Cons.prems(2,3) by auto
  show ?case
  proof (cases "\<exists>r l1. ?run = Inr (Some r, l1)")
    case True
    then obtain r l1 where r: "?run = Inr (Some r, l1)" by blast
    have c: "due l now c" using Cons.prems(3) by simp
    note step = mature_step [OF Cons.prems(1) r c]
    have "mature_each fresh (k + 1) cs (m + 1) l1 = (m', l')" using Cons.prems(4) r by simp
    moreover have "\<forall>d\<in>set cs. due l1 now d" using step(4) Cons.prems(2,3)
      by (metis distinct.simps(2) list.set_intros(2))
    ultimately show ?thesis
      using Cons.IH [OF step(1), of "k + 1" "m + 1"] Cons.prems(2) step(2,3) by auto
  next
    case False
    then have "mature_each fresh (k + 1) cs m l = (m', l')"
      using Cons.prems(4) by (auto dest!: mature_none split: sum.splits option.splits prod.splits)
    then show ?thesis by (rule skip)
  qed
qed auto

lemma findMaturable_due:
  assumes "ledger_reachable l"
  shows "distinct (findMaturable l now n)" "\<forall>c\<in>set (findMaturable l now n). due l now c"
    "length (findMaturable l now n) = min n (backlog l now)"
proof -
  let ?cs = "sort_key (\<lambda>r. the (txMaturesAt r)) (filter (maturable l now) (transactions l))"
  have "distinct (map txId (filter (maturable l now) (transactions l)))"
    using history_distinct [OF reachable_history [OF assms]] by (rule distinct_map_filter)
  then have "distinct (map txId ?cs)" by (simp add: distinct_map)
  then show "distinct (findMaturable l now n)" by (simp add: findMaturable_def take_map [symmetric])
  show "\<forall>c\<in>set (findMaturable l now n). due l now c"
    by (auto simp: findMaturable_def due_def dest!: in_set_takeD)
  show "length (findMaturable l now n) = min n (backlog l now)"
    by (simp add: findMaturable_def backlog_def count_where_def)
qed

text \<open>C17. A maturation sweep works the backlog down: it scans as many due credits as fit its batch, the
  backlog shrinks by exactly the number it reports as matured, so a sweep in which none fails leaves
  none behind when the backlog fits a batch, and no user's total changes.\<close>

theorem sweep_works_the_backlog_down:
  assumes "maturation_sweep fresh now (run_rewards ops) = (r, l')"
  shows "mzScanned r = min MATURATION_BATCH_SIZE (backlog (run_rewards ops) now) \<and> mzMatured r \<le> mzScanned r
    \<and> backlog l' now + mzMatured r = backlog (run_rewards ops) now
    \<and> (mzMatured r = mzScanned r \<longrightarrow> backlog l' now = backlog (run_rewards ops) now - MATURATION_BATCH_SIZE)
    \<and> balTotal (getBalance l' u) = balTotal (getBalance (run_rewards ops) u)"
proof -
  note due = findMaturable_due [OF run_rewards_reachable [of ops], of now MATURATION_BATCH_SIZE]
  obtain m where m: "mature_each fresh 0 (findMaturable (run_rewards ops) now MATURATION_BATCH_SIZE) 0 (run_rewards ops) = (m, l')"
      "r = \<lparr>mzMatured = m, mzScanned = length (findMaturable (run_rewards ops) now MATURATION_BATCH_SIZE)\<rparr>"
    using assms by (auto simp: maturation_sweep_def Let_def split: prod.splits)
  show ?thesis
    using mature_each_counts [OF run_rewards_reachable due(1,2) m(1)] due(3) m(2) by auto
qed

text \<open>A sweep over two due credits.\<close>

lemma sweep_works_the_backlog_down_witness:
  "\<exists>r l'. maturation_sweep (\<lambda>k. (50 + k, 9)) 1000000000000 (run_rewards demo_ops) = (r, l')
    \<and> backlog l' 1000000000000 + mzMatured r = backlog (run_rewards demo_ops) 1000000000000"
proof -
  obtain r l' where "maturation_sweep (\<lambda>k. (50 + k, 9)) 1000000000000 (run_rewards demo_ops) = (r, l')" by fastforce
  with sweep_works_the_backlog_down [OF this] show ?thesis by blast
qed

end
