(* ===== verification/Edge.thy ===== *)
theory Edge
  imports CatalogSync
begin

text \<open>
  Where the services meet the outside: how an exception becomes a response
  (\<^verbatim>\<open>core/errors/global-exception.filter.ts\<close>, with the families of \<^verbatim>\<open>core/errors/app-error.ts\<close>
  and the flattening of validation errors in \<^verbatim>\<open>core/errors/validation-pipe.ts\<close>), the catalog's jobs
  (\<^verbatim>\<open>jobs/catalog-sync.processor.ts\<close>) and the emails (\<^verbatim>\<open>jobs/notifications.processor.ts\<close>).
\<close>

section \<open>Error families\<close>

datatype log_level = LOG_DEBUG | LOG_INFO | LOG_ERROR

text \<open>The three families; what the database raises is none of them.\<close>

fun error_code_of :: "app_error \<Rightarrow> error_code option" where
  "error_code_of (ValidationError _) = Some VALIDATION_FAILED"
| "error_code_of (DomainError c _) = Some c"
| "error_code_of (InfrastructureError c _ _) = Some c"
| "error_code_of _ = None"

fun error_status_of :: "app_error \<Rightarrow> nat" where
  "error_status_of (ValidationError _) = 422"
| "error_status_of (DomainError _ st) = st"
| "error_status_of (InfrastructureError _ st _) = st"
| "error_status_of _ = 500"

fun error_level_of :: "app_error \<Rightarrow> log_level" where
  "error_level_of (ValidationError _) = LOG_DEBUG"
| "error_level_of (DomainError _ _) = LOG_INFO"
| "error_level_of _ = LOG_ERROR"

fun retryable_error :: "app_error \<Rightarrow> bool" where
  "retryable_error (InfrastructureError _ _ r) = r"
| "retryable_error _ = False"

definition isAppError :: "app_error \<Rightarrow> bool" where
  "isAppError e \<longleftrightarrow> error_code_of e \<noteq> None"

section \<open>The exception filter\<close>

record field_error =
  flField :: string
  flMessage :: string

text \<open>What can be thrown: an error of the application (with its message and, for a validation error,
  the fields), the framework's own \<open>HttpException\<close>, and anything else.\<close>

datatype http_payload = TextPayload string | MessagePayload json | NoMessage

datatype thrown =
    ThrownApp app_error string "field_error list"
  | ThrownHttp nat http_payload string
  | ThrownOther string

record error_response =
  erStatus :: nat
  erCode :: error_code
  erMessage :: string
  erFields :: "field_error list"
  erLevel :: log_level

definition httpStatusToCode :: "nat \<Rightarrow> error_code" where
  "httpStatusToCode st =
     (if st = 400 \<or> st = 422 then VALIDATION_FAILED
      else if st = 401 then UNAUTHENTICATED
      else if st = 403 then FORBIDDEN
      else if st = 404 then NOT_FOUND
      else if st = 429 then RATE_LIMITED
      else if st = 503 then SERVICE_UNAVAILABLE
      else if st \<ge> 500 then INTERNAL_ERROR else VALIDATION_FAILED)"

fun join_with :: "string \<Rightarrow> string list \<Rightarrow> string" where
  "join_with sep [] = []"
| "join_with sep [x] = x"
| "join_with sep (x # y # ys) = x @ sep @ join_with sep (y # ys)"

text \<open>A message array is joined; its elements are strings, as the framework's validation makes them.\<close>

definition extractHttpExceptionMessage :: "http_payload \<Rightarrow> string \<Rightarrow> string" where
  "extractHttpExceptionMessage payload own = (case payload of
     TextPayload s \<Rightarrow> s
   | MessagePayload (JStr s) \<Rightarrow> s
   | MessagePayload (JArr vs) \<Rightarrow> join_with ''; '' (map (\<lambda>v. case v of JStr s \<Rightarrow> s | _ \<Rightarrow> []) vs)
   | _ \<Rightarrow> own)"

definition unexpected :: error_response where
  "unexpected = \<lparr>erStatus = 500, erCode = INTERNAL_ERROR, erMessage = ''An unexpected error occurred'',
     erFields = [], erLevel = LOG_ERROR\<rparr>"

definition map_exception :: "thrown \<Rightarrow> error_response" where
  "map_exception x = (case x of
     ThrownApp e message fields_of \<Rightarrow> (case error_code_of e of
         Some c \<Rightarrow> \<lparr>erStatus = error_status_of e, erCode = c, erMessage = message,
           erFields = (case e of ValidationError _ \<Rightarrow> fields_of | _ \<Rightarrow> []), erLevel = error_level_of e\<rparr>
       | None \<Rightarrow> unexpected)
   | ThrownHttp st payload own \<Rightarrow> \<lparr>erStatus = st, erCode = httpStatusToCode st,
       erMessage = extractHttpExceptionMessage payload own, erFields = [],
       erLevel = (if st \<ge> 500 then LOG_ERROR else LOG_DEBUG)\<rparr>
   | ThrownOther _ \<Rightarrow> unexpected)"

section \<open>Validation errors\<close>

datatype (plugins only: code size) validation_node =
    VNode (vnProperty: string) (vnConstraints: "string list") (vnChildren: "validation_node list")

definition child_path :: "string \<Rightarrow> string \<Rightarrow> string" where
  "child_path parentPath property = (if parentPath = [] then property else parentPath @ ''.'' @ property)"

fun flatten_errors :: "validation_node list \<Rightarrow> string \<Rightarrow> field_error list" where
  "flatten_errors [] parentPath = []"
| "flatten_errors (VNode property constraints children # errors) parentPath =
     (let path = child_path parentPath property
      in map (\<lambda>m. \<lparr>flField = path, flMessage = m\<rparr>) constraints @ flatten_errors children path
         @ flatten_errors errors parentPath)"

section \<open>Catalog jobs\<close>

definition TICK_INTERVAL_MS :: int where
  "TICK_INTERVAL_MS = 60000"

definition minuteBucket :: "millis \<Rightarrow> int" where
  "minuteBucket now = now div 60000"

text \<open>The parts of a scheduled job's id; its text joins them with underscores.\<close>

definition buildSyncJobId :: "id \<Rightarrow> sync_mode \<Rightarrow> millis \<Rightarrow> id \<times> sync_mode \<times> int" where
  "buildSyncJobId providerId mode now = (providerId, mode, minuteBucket now)"

text \<open>The tick: the state it leaves, and the jobs it adds, each with its id.\<close>

definition catalog_tick :: "adapter_map \<Rightarrow> (string \<Rightarrow> string option) \<Rightarrow> (id \<Rightarrow> offers_config) \<Rightarrow> sync_state \<Rightarrow> millis
    \<Rightarrow> sync_state \<times> ((id \<times> sync_mode \<times> int) \<times> id \<times> sync_mode) list" where
  "catalog_tick adapters variables config s now =
     (case dueProviders adapters variables config s now of
        (s', due) \<Rightarrow> (s', map (\<lambda>(p, mode). (buildSyncJobId p mode now, p, mode)) due))"

text \<open>A sync job answers with the run it recorded; what \<open>sync\<close> throws is the job's failure.\<close>

definition runSync :: "sync_env \<Rightarrow> sync_state \<Rightarrow> id \<times> sync_mode \<Rightarrow> sync_state \<times> (id \<times> sync_outcome) result" where
  "runSync env s job = (case sync env s (fst job) (snd job) of
     (s', r) \<Rightarrow> (s', map_sum (\<lambda>e. e) (\<lambda>run. (syId run, syOutcome run)) r))"

datatype catalog_job_result =
    TickEnqueued "((id \<times> sync_mode \<times> int) \<times> id \<times> sync_mode) list"
  | SyncFinished "(id \<times> sync_outcome) result"

text \<open>The consumer of the queue, by the name of the job: \<^term>\<open>None\<close> is the error of a name that is not
  the queue's.\<close>

definition catalog_process :: "sync_env \<Rightarrow> sync_state \<Rightarrow> string \<Rightarrow> id \<times> sync_mode \<Rightarrow> millis
    \<Rightarrow> (sync_state \<times> catalog_job_result) option" where
  "catalog_process env s jobName job now =
     (if jobName = ''catalog-tick''
      then Some (map_prod (\<lambda>x. x) TickEnqueued (catalog_tick (seAdapters env) (seVariables env) (seConfig env) s now))
      else if jobName = ''catalog-sync'' then Some (map_prod (\<lambda>x. x) SyncFinished (runSync env s job))
      else None)"

text \<open>What the queue holds after a tick: adding a job under an id the queue knows is a no-op.\<close>

type_synonym catalog_queue = "((id \<times> sync_mode \<times> int) \<times> id \<times> sync_mode) list"

definition add_catalog_job :: "catalog_queue \<Rightarrow> (id \<times> sync_mode \<times> int) \<times> id \<times> sync_mode \<Rightarrow> catalog_queue" where
  "add_catalog_job q job = (if fst job \<in> fst ` set q then q else q @ [job])"

lemma add_catalog_job_known: "list_all (\<lambda>j. fst j \<in> fst ` set q) jobs \<Longrightarrow> foldl add_catalog_job q jobs = q"
  by (induction jobs) (auto simp: add_catalog_job_def)

lemma add_catalog_job_adds: "fst ` set (foldl add_catalog_job q jobs) = fst ` set q \<union> fst ` set jobs"
proof (induction jobs arbitrary: q)
  case (Cons job jobs)
  have "fst ` set (add_catalog_job q job) = insert (fst job) (fst ` set q)"
    by (simp add: add_catalog_job_def insert_absorb)
  then show ?case using Cons by simp
qed simp

text \<open>Two ticks within one minute that find the same providers due queue each of them once, whatever the
  queue held; a tick of a later minute queues them again.\<close>

theorem repeated_tick_queues_once:
  "(minuteBucket now2 = minuteBucket now1 \<longrightarrow>
      snd (dueProviders adapters variables config s2 now2) = snd (dueProviders adapters variables config s1 now1) \<longrightarrow>
      foldl add_catalog_job (foldl add_catalog_job q (snd (catalog_tick adapters variables config s1 now1)))
        (snd (catalog_tick adapters variables config s2 now2))
      = foldl add_catalog_job q (snd (catalog_tick adapters variables config s1 now1)))
   \<and> (minuteBucket now2 \<noteq> minuteBucket now1 \<longrightarrow>
      fst ` set (snd (catalog_tick adapters variables config s1 now1))
        \<inter> fst ` set (snd (catalog_tick adapters variables config s2 now2)) = {})"
proof -
  have ids: "fst ` set (snd (catalog_tick adapters variables config s now))
      = (\<lambda>(p, mode). (p, mode, minuteBucket now)) ` set (snd (dueProviders adapters variables config s now))" for s now
    by (cases "dueProviders adapters variables config s now")
      (simp add: catalog_tick_def buildSyncJobId_def image_image case_prod_unfold)
  have "foldl add_catalog_job (foldl add_catalog_job q jobs1) jobs2 = foldl add_catalog_job q jobs1"
    if "fst ` set jobs2 = fst ` set jobs1" for jobs1 jobs2
    by (rule add_catalog_job_known) (use that add_catalog_job_adds [of q jobs1] in \<open>auto simp: list_all_iff\<close>)
  then show ?thesis by (auto simp: ids)
qed

section \<open>Emails\<close>

datatype email_template = VERIFY_EMAIL | RESET_PASSWORD

record email_message =
  emTo :: string
  emTemplate :: email_template
  emUrl :: string

definition app_link :: "string \<Rightarrow> string \<Rightarrow> string \<Rightarrow> string" where
  "app_link appUrl path token = appUrl @ path @ ''?token='' @ encodeURIComponent token"

definition build_email :: "string \<Rightarrow> string \<Rightarrow> string \<Rightarrow> string \<Rightarrow> email_message option" where
  "build_email jobName appUrl email token =
     (if jobName = ''verification-email''
      then Some \<lparr>emTo = email, emTemplate = VERIFY_EMAIL, emUrl = app_link appUrl ''/verify-email'' token\<rparr>
      else if jobName = ''password-reset-email''
      then Some \<lparr>emTo = email, emTemplate = RESET_PASSWORD, emUrl = app_link appUrl ''/reset-password'' token\<rparr>
      else None)"

section \<open>What the edge guarantees\<close>

text \<open>An unexpected failure shows nothing of itself: whatever is thrown that is neither the
  application's own error nor the framework's, a database error included, the answer is the same fixed
  one, and only a validation error ever names fields.\<close>

theorem unexpected_failures_are_opaque:
  "map_exception (ThrownOther a) = map_exception (ThrownOther b)
   \<and> map_exception (ThrownApp UniqueViolation m fs) = map_exception (ThrownOther a)
   \<and> map_exception (ThrownApp OutOfRange m fs) = map_exception (ThrownOther a)
   \<and> map_exception (ThrownApp RecordMissing m fs) = map_exception (ThrownOther a)
   \<and> erStatus (map_exception (ThrownOther a)) = 500 \<and> erCode (map_exception (ThrownOther a)) = INTERNAL_ERROR
   \<and> (erFields (map_exception x) = [] \<or> (\<exists>ps m. x = ThrownApp (ValidationError ps) m (erFields (map_exception x))))"
proof -
  have "erFields (map_exception x) = [] \<or> (\<exists>ps m. x = ThrownApp (ValidationError ps) m (erFields (map_exception x)))"
  proof (cases x)
    case (ThrownApp e m fs)
    then show ?thesis by (cases e) (simp_all add: map_exception_def unexpected_def)
  qed (simp_all add: map_exception_def unexpected_def)
  then show ?thesis by (simp add: map_exception_def unexpected_def)
qed

text \<open>A message is reported with the names on the way to it, joined by dots.\<close>

inductive reports :: "validation_node list \<Rightarrow> string \<Rightarrow> string \<Rightarrow> string \<Rightarrow> bool" where
  here: "VNode property constraints children \<in> set errors \<Longrightarrow> m \<in> set constraints
    \<Longrightarrow> reports errors parentPath (child_path parentPath property) m"
| below: "VNode property constraints children \<in> set errors
    \<Longrightarrow> reports children (child_path parentPath property) path m \<Longrightarrow> reports errors parentPath path m"

lemma reports_iff: "reports es p path m \<longleftrightarrow> (\<exists>q cs children. VNode q cs children \<in> set es
    \<and> (path = child_path p q \<and> m \<in> set cs \<or> reports children (child_path p q) path m))"
  (is "_ \<longleftrightarrow> ?below")
proof
  assume "reports es p path m"
  then show ?below
  proof cases
    case (here q cs children)
    then show ?thesis by blast
  next
    case (below q cs children)
    then show ?thesis by blast
  qed
next
  assume ?below
  then obtain q cs children where v: "VNode q cs children \<in> set es"
    and r: "path = child_path p q \<and> m \<in> set cs \<or> reports children (child_path p q) path m"
    by blast
  from r show "reports es p path m"
  proof
    assume "path = child_path p q \<and> m \<in> set cs"
    then show ?thesis using reports.here [OF v] by simp
  next
    assume "reports children (child_path p q) path m"
    then show ?thesis by (rule reports.below [OF v])
  qed
qed

lemma reports_Nil [simp]: "\<not> reports [] p path m"
  by (subst reports_iff) simp

lemma reports_single: "reports [VNode q cs children] p path m \<longleftrightarrow>
    (path = child_path p q \<and> m \<in> set cs) \<or> reports children (child_path p q) path m"
  by (subst reports_iff) simp

lemma reports_Cons: "reports (e # es) p path m \<longleftrightarrow> reports [e] p path m \<or> reports es p path m"
  unfolding reports_iff [of "e # es"] reports_iff [of "[e]"] reports_iff [of es] by auto

text \<open>Flattening loses no validation message: the flat list names exactly the messages of the error
  tree, however deep, each with its dotted path.\<close>

theorem flattening_is_complete:
  "\<lparr>flField = path, flMessage = m\<rparr> \<in> set (flatten_errors errors parentPath) \<longleftrightarrow> reports errors parentPath path m"
proof (induction errors parentPath rule: flatten_errors.induct)
  case (2 property constraints children errors parentPath)
  then show ?case
    by (subst reports_Cons) (auto simp: reports_single Let_def)
qed simp

end
