(* ===== verification/RewardStanding.thy ===== *)
theory RewardStanding
  imports RewardProps
begin

text \<open>
  Which credits of the ledger still stand: the ones nothing of a kind (a chargeback, a maturation) has
  acted on. Two sums follow from them: what was earned less what was reversed is what no chargeback
  has taken, and what can be spent or was paid never exceeds what was earned.
\<close>

section \<open>Credits nothing has acted on\<close>

definition is_credit :: "reward_transaction \<Rightarrow> bool" where
  "is_credit r \<longleftrightarrow> txType r \<in> {CONVERSION_CREDIT, BONUS}"

definition unacted :: "(reward_transaction \<Rightarrow> bool) \<Rightarrow> reward_transaction list \<Rightarrow> reward_transaction \<Rightarrow> bool" where
  "unacted kind txs r \<longleftrightarrow> is_credit r \<and> acts_on kind txSourceTransactionId (txId r) txs = 0"

definition unacted_points :: "(reward_transaction \<Rightarrow> bool) \<Rightarrow> id \<Rightarrow> reward_transaction list \<Rightarrow> int" where
  "unacted_points kind u txs = sum_for txUserId txAmountPoints u (filter (unacted kind txs) txs)"

lemma positive_rows_are_credits:
  "history_ok txs \<Longrightarrow> r \<in> set txs \<Longrightarrow> 0 < txAmountPoints r \<Longrightarrow> is_credit r"
  by (induction rule: history_ok.induct)
    (auto simp: is_credit_def row_ok.simps acting_on_def dest: history_lock_positive split: reward_transaction_type.splits)

lemma credit_rows_positive:
  "history_ok txs \<Longrightarrow> r \<in> set txs \<Longrightarrow> is_credit r \<Longrightarrow> 0 < txAmountPoints r"
  by (induction rule: history_ok.induct) (auto simp: is_credit_def row_ok.simps)

lemma unacted_points_Nil [simp]: "unacted_points kind u [] = 0"
  by (simp add: unacted_points_def)

lemma unacted_points_nonneg: "history_ok txs \<Longrightarrow> 0 \<le> unacted_points kind u txs"
  unfolding unacted_points_def sum_for_def
  by (rule sum_list_nonneg) (auto simp: unacted_def dest: credit_rows_positive)

lemma unacted_snoc_plain:
  assumes "history_ok txs" and "txId r \<notin> set (map txId txs)" and "\<not> kind r"
  shows "unacted_points kind u (txs @ [r])
    = unacted_points kind u txs + (if txUserId r = u \<and> is_credit r then txAmountPoints r else 0)"
proof -
  have "filter (unacted kind (txs @ [r])) txs = filter (unacted kind txs) txs"
    using assms(3) by (auto simp: unacted_def acts_on_def intro!: filter_cong)
  moreover have "unacted kind (txs @ [r]) r \<longleftrightarrow> is_credit r"
    using fresh_not_acted [OF assms(1,2), of kind] assms(3) by (auto simp: unacted_def acts_on_def)
  ultimately show ?thesis by (auto simp: unacted_points_def)
qed

lemma unacted_snoc_acting:
  assumes "history_ok txs" and "kind r" and "\<not> is_credit r" and "acting_on txs r k"
    and "acts_on kind txSourceTransactionId (txId k) txs = 0"
  shows "unacted_points kind u (txs @ [r])
    = unacted_points kind u txs - (if txUserId r = u \<and> is_credit k then txAmountPoints k else 0)"
proof -
  have k: "k \<in> set txs" "txSourceTransactionId r = Some (txId k)" "txUserId r = txUserId k"
    using assms(4) by (simp_all add: acting_on_def)
  have f: "filter (unacted kind (txs @ [r])) txs = filter (\<lambda>x. unacted kind txs x \<and> txId x \<noteq> txId k) txs"
    using assms(2) k(2) by (auto simp: unacted_def acts_on_def intro!: filter_cong)
  show ?thesis
  proof (cases "is_credit k")
    case True
    then show ?thesis
      using sum_for_remove [OF history_distinct [OF assms(1)] k(1), of "unacted kind txs"] assms(3,5) k(3) f
      by (auto simp: unacted_points_def unacted_def)
  next
    case False
    have "x = k" if "x \<in> set txs" "txId x = txId k" for x
      using distinct_key_unique [OF history_distinct [OF assms(1)] that(1) k(1) that(2)] .
    then have "unacted kind txs x \<Longrightarrow> x \<in> set txs \<Longrightarrow> txId x \<noteq> txId k" for x
      using False by (auto simp: unacted_def)
    then have "filter (\<lambda>x. unacted kind txs x \<and> txId x \<noteq> txId k) txs = filter (unacted kind txs) txs"
      by (intro filter_cong) auto
    then show ?thesis using False f assms(3) by (simp add: unacted_points_def unacted_def)
  qed
qed

section \<open>What no chargeback has taken\<close>

abbreviation standing_points :: "id \<Rightarrow> reward_transaction list \<Rightarrow> int" where
  "standing_points \<equiv> unacted_points is_chargeback"

lemma history_standing:
  "history_ok txs \<Longrightarrow> standing_points u txs
    = sum_for txUserId earnedDelta u txs - sum_for txUserId reversedDelta u txs"
proof (induction rule: history_ok.induct)
  case (snoc txs r)
  show ?case
  proof (cases "is_chargeback r")
    case True
    then obtain k where k: "acting_on txs r k" "0 < txAmountPoints k" "txAmountPoints r = - txAmountPoints k"
        "acts_on is_chargeback txSourceTransactionId (txId k) txs = 0"
      using snoc(2) by (auto simp: row_ok.simps is_chargeback_def)
    have r: "txType r = CHARGEBACK_DEBIT" "\<not> is_credit r" using True by (simp_all add: is_chargeback_def is_credit_def)
    have "is_credit k" using positive_rows_are_credits [OF snoc(1)] k(1,2) by (simp add: acting_on_def)
    then show ?thesis
      using unacted_snoc_acting [where kind = is_chargeback, OF snoc(1) True r(2) k(1,4), of u] snoc(4) r(1) k(3)
      by (simp add: earnedDelta_def reversedDelta_def)
  next
    case False
    then have "earnedDelta r = (if is_credit r then txAmountPoints r else 0)" "reversedDelta r = 0"
      by (auto simp: earnedDelta_def reversedDelta_def is_chargeback_def is_credit_def)
    then show ?thesis using unacted_snoc_plain [where kind = is_chargeback, OF snoc(1,3) False, of u] snoc(4) by simp
  qed
qed simp

section \<open>What can be spent was earned\<close>

definition maturedDelta :: "reward_transaction \<Rightarrow> int" where
  "maturedDelta r = (if is_maturation r then txAvailableDelta r else 0)"

lemma history_matured:
  "history_ok txs \<Longrightarrow> sum_for txUserId maturedDelta u txs + unacted_points is_maturation u txs
    \<le> sum_for txUserId earnedDelta u txs"
proof (induction rule: history_ok.induct)
  case (snoc txs r)
  show ?case
  proof (cases "is_maturation r")
    case True
    then obtain k where k: "acting_on txs r k" "txAvailableDelta r = txAmountPoints k"
        "acts_on is_maturation txSourceTransactionId (txId k) txs = 0"
      using snoc(2) by (auto simp: row_ok.simps is_maturation_def)
    have r: "txType r = REWARD_MATURATION" "\<not> is_credit r" using True by (simp_all add: is_maturation_def is_credit_def)
    have m: "maturedDelta r = txAmountPoints k" using True k(2) by (simp add: maturedDelta_def)
    have "is_credit k \<or> txAmountPoints k \<le> 0"
      using positive_rows_are_credits [OF snoc(1), of k] k(1) by (force simp: acting_on_def)
    then show ?thesis
      using unacted_snoc_acting [where kind = is_maturation, OF snoc(1) True r(2) k(1,3), of u] snoc(4) r(1) m
      by (auto simp: earnedDelta_def)
  next
    case False
    then have "earnedDelta r = (if is_credit r then txAmountPoints r else 0)" "maturedDelta r = 0"
      by (auto simp: earnedDelta_def maturedDelta_def is_credit_def)
    then show ?thesis using unacted_snoc_plain [where kind = is_maturation, OF snoc(1,3) False, of u] snoc(4) by simp
  qed
qed simp

text \<open>No chargeback gives points back: it takes from pending what is there and the rest from available.\<close>

lemma posts_spendable:
  assumes "ledger_reachable l" and "posts l r l'"
  shows "txAvailableDelta r + txLockedDelta r + withdrawnDelta r \<le> maturedDelta r"
proof (cases "txType r = CHARGEBACK_DEBIT")
  case True
  from assms(2) have "txAvailableDelta r \<le> 0"
  proof cases
    case (reverse i now t reason actor source)
    then show ?thesis
      by (auto simp: reverseCredit_def reverseCommit_def Let_def created_row_def split: op_results
          dest!: writeMovement_InrD(1))
  qed (use True in \<open>auto simp: credit_def debit_def mature_def lockPoints_def resolveLock_def mutate_def map_sum_def
      Let_def created_row_def split: op_results dest!: writeMovement_InrD(1)\<close>)
  then show ?thesis
    using posts_tables(3) [OF reachable_keys [OF assms(1)] assms(2)] True
    by (auto simp: row_ok.simps withdrawnDelta_def maturedDelta_def is_maturation_def)
next
  case False
  then show ?thesis
    using posts_tables(3) [OF reachable_keys [OF assms(1)] assms(2)]
    by (auto simp: row_ok.simps withdrawnDelta_def maturedDelta_def is_maturation_def
        split: reward_transaction_type.splits)
qed

lemma reachable_spendable:
  "ledger_reachable l \<Longrightarrow> sum_for txUserId txAvailableDelta u (transactions l)
      + sum_for txUserId txLockedDelta u (transactions l) + sum_for txUserId withdrawnDelta u (transactions l)
    \<le> sum_for txUserId maturedDelta u (transactions l)"
proof (induction rule: ledger_reachable.induct)
  case (posted l r l')
  then show ?case
    using posts_spendable [OF posted(1,2)] posts_getBalance(2) [OF posted(1,2)] by auto
qed (auto simp: empty_ledger_def openAccount_def)

text \<open>C7. Nobody can spend more than they were ever credited: whatever was reversed, matured, locked and
  paid in whatever order, what an account has available, locked and already withdrawn is together at most
  what it has earned in its lifetime.\<close>

theorem spending_is_covered_by_credits:
  "(let b = getBalance (run_rewards ops) u in available b + locked b + lifetimeWithdrawn b \<le> lifetimeEarned b)"
proof -
  note l = run_rewards_reachable [of ops]
  note h = reachable_history [OF l]
  show ?thesis
    using reachable_spendable [OF l, of u] history_matured [OF h, of u] unacted_points_nonneg [OF h, of is_maturation u]
    by (simp add: reachable_getBalance [OF l] history_balance_def Let_def)
qed

end
