(* ===== verification/Platform.thy ===== *)
theory Platform
  imports ConversionProps PayoutProps RewardStanding
begin

text \<open>
  Conversions and payouts on their one ledger: postback intake, the processing worker, the review of
  held conversions, the opening of accounts, the maturation sweep, withdrawals and their review. No
  other code of the API moves points. However their transactions follow one another, an account holds
  exactly what its standing conversions earned less what was paid out to it.
\<close>

section \<open>The system\<close>

record platform =
  plConv :: conv_state
  plPayouts :: "payout_request list"

datatype platform_op =
    PlConv conv_op
  | PlSubmit payouts_config id id millis submit_input
  | PlReview id millis id payout_status review_input

text \<open>The movements made outside conversions and payouts: accounts opened on registration, and
  credits made available by the sweep. Nothing calls \<open>debit\<close> or credits a bonus.\<close>

definition outside_move :: "reward_op \<Rightarrow> bool" where
  "outside_move x = (case x of OpOpen _ _ \<Rightarrow> True | OpMature _ _ _ \<Rightarrow> True | _ \<Rightarrow> False)"

definition in_platform :: "conv_op \<Rightarrow> bool" where
  "in_platform x = (case x of Move y \<Rightarrow> outside_move y | _ \<Rightarrow> True)"

definition payouts_view :: "platform \<Rightarrow> payouts_state" where
  "payouts_view s = \<lparr>poLedger = csLedger (plConv s), payoutRequests = plPayouts s\<rparr>"

definition set_payouts :: "platform \<Rightarrow> payouts_state \<Rightarrow> platform" where
  "set_payouts s v = s\<lparr>plConv := (plConv s)\<lparr>csLedger := poLedger v\<rparr>, plPayouts := payoutRequests v\<rparr>"

fun execPlatform :: "payout_provider \<Rightarrow> platform \<Rightarrow> platform_op \<Rightarrow> unit + platform" where
  "execPlatform provider s (PlConv x) = (if in_platform x
     then map_sum (\<lambda>_. ()) (\<lambda>c. s\<lparr>plConv := c\<rparr>) (execConv (plConv s) x) else Inl ())"
| "execPlatform provider s (PlSubmit c i t now input) =
     map_sum (\<lambda>_. ()) (\<lambda>(_, v). set_payouts s v) (submit provider c (payouts_view s) i t now input)"
| "execPlatform provider s (PlReview t now i to review) =
     map_sum (\<lambda>_. ()) (\<lambda>(_, v). set_payouts s v) (applyTransition (payouts_view s) t now i to review)"

definition empty_platform :: platform where
  "empty_platform = \<lparr>plConv = no_conversions, plPayouts = []\<rparr>"

definition run_platform :: "payout_provider \<Rightarrow> platform_op list \<Rightarrow> platform" where
  "run_platform provider ops = run_ops (execPlatform provider) empty_platform ops"

section \<open>What is charged back\<close>

lemma charged_back_posts:
  assumes "ledger_reachable l" and "posts l r l'"
  shows "charged_back l' x \<longleftrightarrow> charged_back l x
    \<or> txType r = CHARGEBACK_DEBIT \<and> txSourceTransactionId r = Some (txId x)"
  using posts_getBalance(2) [OF assms]
  by (auto simp: charged_back_def acted_def find_append split: option.splits)

lemma charged_back_acts_on:
  "charged_back l x \<longleftrightarrow> acts_on is_chargeback txSourceTransactionId (txId x) (transactions l) \<noteq> 0"
  by (simp add: charged_back_def acted_None_iff is_chargeback_def [abs_def])

text \<open>No chargeback points at the credit of a conversion that is credited or held.\<close>

definition standing_status :: "conversion \<Rightarrow> bool" where
  "standing_status c \<longleftrightarrow> cvType c = CT_CONVERSION \<and> cvStatus c \<in> {CV_CREDITED, CV_HELD}"

definition uncharged :: "ledger \<Rightarrow> conversion \<Rightarrow> bool" where
  "uncharged l c \<longleftrightarrow> (\<forall>r\<in>set (transactions l). conv_credit (cvId c) r \<longrightarrow> \<not> charged_back l r)"

definition standing_uncharged :: "conversion list \<Rightarrow> ledger \<Rightarrow> bool" where
  "standing_uncharged rows l \<longleftrightarrow> (\<forall>c\<in>set rows. standing_status c \<longrightarrow> uncharged l c)"

text \<open>A movement that is no chargeback of the conversion's own credit leaves it so.\<close>

lemma uncharged_posts:
  assumes "ledger_reachable l" and "posts l r l'" and "uncharged l c"
    and "\<And>x. txType r = CHARGEBACK_DEBIT \<Longrightarrow> x \<in> set (transactions l) \<Longrightarrow> conv_credit (cvId c) x
      \<Longrightarrow> txSourceTransactionId r \<noteq> Some (txId x)"
  shows "uncharged l' c"
proof -
  have t: "transactions l' = transactions l @ [r]" "txId r \<notin> set (map txId (transactions l))"
    using posts_tables [OF reachable_keys [OF assms(1)] assms(2)] by auto
  have "\<not> charged_back l' r" if "txType r \<noteq> CHARGEBACK_DEBIT"
    using that fresh_not_acted [OF reachable_history [OF assms(1)] t(2)] charged_back_posts [OF assms(1,2)]
      charged_back_acts_on [of l r] by simp
  then show ?thesis
    using assms(3,4) by (auto simp: uncharged_def t(1) charged_back_posts [OF assms(1,2)] conv_credit_def)
qed

lemma standing_uncharged_posts:
  assumes "ledger_reachable l" and "posts l r l'" and "standing_uncharged rows l"
    and "txType r \<noteq> CHARGEBACK_DEBIT"
  shows "standing_uncharged rows l'"
  using assms uncharged_posts [OF assms(1,2)] by (auto simp: standing_uncharged_def)

text \<open>A chargeback of one conversion's credit touches no other conversion's.\<close>

lemma uncharged_chargeback:
  assumes "ledger_reachable l" and "reverseCredit l j now (txId k) reason actor source = Inr (r, l')"
    and "k \<in> set (transactions l)" and "conv_credit i k" and "uncharged l c" and "cvId c \<noteq> i"
  shows "uncharged l' c"
  using assms(1) posts.reverse [OF assms(2)] assms(5)
proof (rule uncharged_posts)
  fix x assume "x \<in> set (transactions l)" "conv_credit (cvId c) x"
  moreover have "x \<noteq> k" using \<open>conv_credit (cvId c) x\<close> assms(4,6) by (auto simp: conv_credit_def)
  ultimately have "txId x \<noteq> txId k"
    using distinct_key_unique [OF history_distinct [OF reachable_history [OF assms(1)]] _ assms(3)] by blast
  then show "txSourceTransactionId r \<noteq> Some (txId x)"
    using reverseCredit_InrD [OF assms(2)] by auto
qed

section \<open>Standing credits are the standing conversions\<close>

definition standing_worth :: "conversion \<Rightarrow> int" where
  "standing_worth c = (if standing_status c \<and> 0 < cvRewardPoints c then cvRewardPoints c else 0)"

definition conversions_only :: "ledger \<Rightarrow> bool" where
  "conversions_only l \<longleftrightarrow> (\<forall>r\<in>set (transactions l). txType r \<notin> {BONUS, MANUAL_ADJUSTMENT})"

lemma sum_for_set:
  assumes "distinct (map key rows)"
  shows "sum_for owner d u rows = sum d {x \<in> set rows. owner x = u}"
  using assms by (simp add: sum_for_def sum_list_distinct_conv_sum_set distinct_map)

lemma standing_conversion_paid:
  assumes "conversions_settled rows l" and "c \<in> set rows" and "standing_status c" and "0 < cvRewardPoints c"
  shows "\<exists>r\<in>set (transactions l). pays_for c r"
proof -
  have "settled l c" "explained_credits rows l" "distinct (map cvId rows)"
    using assms by (auto simp: conversions_settled_def standing_status_def)
  then have "credits_for (cvId c) l = 1"
    using assms(3,4) by (auto simp: settled_def standing_status_def)
  then obtain r where r: "r \<in> set (transactions l)" "conv_credit (cvId c) r"
    by (metis count_where_0_iff credits_for_def zero_neq_one)
  then obtain d where d: "d \<in> set rows" "pays_for d r"
    using \<open>explained_credits rows l\<close> by (auto simp: explained_credits_def conv_credit_def)
  have "d = c"
    using same_id [OF \<open>distinct (map cvId rows)\<close> d(1) assms(2)] d(2) r(2)
    by (simp add: pays_for_def conv_credit_def)
  then show ?thesis using r(1) d(2) by blast
qed

lemma standing_credit_explained:
  assumes "conversions_settled rows l" and "r \<in> set (transactions l)" and "txType r = CONVERSION_CREDIT"
    and "\<not> charged_back l r"
  shows "\<exists>c\<in>set rows. pays_for c r \<and> standing_status c"
proof -
  obtain c where c: "c \<in> set rows" "pays_for c r"
    using assms by (auto simp: conversions_settled_def explained_credits_def)
  then have cc: "conv_credit (cvId c) r" "cvType c = CT_CONVERSION" by (simp_all add: pays_for_def)
  have "credits_for (cvId c) l \<noteq> 0"
    using assms(2) cc(1) by (auto simp: credits_for_def count_where_0_iff)
  moreover have "settled l c" using assms(1) c(1) cc(2) by (auto simp: conversions_settled_def)
  ultimately have "standing_status c"
    using assms(2,4) cc by (auto simp: settled_def standing_status_def split: conversion_status.splits)
  then show ?thesis using c by blast
qed

lemma standing_points_conversions:
  assumes "history_ok (transactions l)" and "conversions_settled rows l" and "standing_uncharged rows l"
    and "conversions_only l"
  shows "standing_points u (transactions l) = sum_for cvUserId standing_worth u rows"
proof -
  define S where "S = {r \<in> set (transactions l). unacted is_chargeback (transactions l) r \<and> txUserId r = u}"
  define T where "T = {c \<in> set rows. standing_status c \<and> 0 < cvRewardPoints c \<and> cvUserId c = u}"
  have S: "r \<in> S \<longleftrightarrow> r \<in> set (transactions l) \<and> txType r = CONVERSION_CREDIT \<and> \<not> charged_back l r \<and> txUserId r = u" for r
    using assms(4) by (auto simp: S_def unacted_def is_credit_def charged_back_acts_on conversions_only_def)
  have "\<forall>c\<in>T. \<exists>r. r \<in> set (transactions l) \<and> pays_for c r"
    using standing_conversion_paid [OF assms(2)] by (auto simp: T_def)
  then obtain f where f: "\<And>c. c \<in> T \<Longrightarrow> f c \<in> set (transactions l) \<and> pays_for c (f c)" by metis
  have inj: "inj_on f T"
  proof (rule inj_onI)
    fix c d assume "c \<in> T" "d \<in> T" "f c = f d"
    then have "cvId c = cvId d" using f [of c] f [of d] by (simp add: pays_for_def conv_credit_def)
    then show "c = d"
      using \<open>c \<in> T\<close> \<open>d \<in> T\<close> same_id assms(2) by (auto simp: T_def conversions_settled_def)
  qed
  have "f ` T = S"
  proof (intro equalityI subsetI)
    fix r assume "r \<in> f ` T"
    then obtain c where "c \<in> T" "r = f c" by blast
    then show "r \<in> S"
      using f [of c] assms(3) by (auto simp: S T_def standing_uncharged_def uncharged_def pays_for_def conv_credit_def)
  next
    fix r assume r: "r \<in> S"
    then obtain c where c: "c \<in> set rows" "pays_for c r" "standing_status c"
      using standing_credit_explained [OF assms(2)] by (auto simp: S)
    moreover have "0 < txAmountPoints r" using credit_rows_positive [OF assms(1)] r by (auto simp: S is_credit_def)
    ultimately have "c \<in> T" using r by (auto simp: T_def S pays_for_def)
    moreover have "f c = r"
      using count_where_one [of "conv_credit (cvId c)" "transactions l" "f c" r] f [OF \<open>c \<in> T\<close>] c(2) r assms(2)
      by (auto simp: S pays_for_def conversions_settled_def credits_for_def)
    ultimately show "r \<in> f ` T" by blast
  qed
  then have "sum txAmountPoints S = sum (txAmountPoints \<circ> f) T" using sum.reindex [OF inj, of txAmountPoints] by simp
  also have "\<dots> = sum cvRewardPoints T" by (rule sum.cong) (use f in \<open>auto simp: pays_for_def\<close>)
  also have "\<dots> = sum standing_worth {c \<in> set rows. cvUserId c = u}"
    by (rule sum.mono_neutral_cong_left) (auto simp: T_def standing_worth_def)
  finally show ?thesis
    using assms(2) sum_for_set [of cvId rows] sum_for_set [of txId "filter (unacted is_chargeback (transactions l)) (transactions l)"]
      history_distinct [OF assms(1)]
    by (simp add: unacted_points_def S_def conversions_settled_def distinct_map_filter conj_assoc)
qed

section \<open>The movements conversions make\<close>

definition conversion_move :: "other_op \<Rightarrow> bool" where
  "conversion_move x = (case x of OtherCredit _ _ _ input \<Rightarrow> \<not> crBonus input | OtherDebit _ _ _ \<Rightarrow> False | _ \<Rightarrow> True)"

inductive conv_moves :: "ledger \<Rightarrow> ledger \<Rightarrow> bool" where
  stay: "conv_moves l l"
| move: "conv_moves l l1 \<Longrightarrow> execReward l1 (as_reward_op x) = Inr l2 \<Longrightarrow> conversion_move x \<Longrightarrow> conv_moves l l2"

lemma conv_moves_one: "execReward l (as_reward_op x) = Inr l' \<Longrightarrow> conversion_move x \<Longrightarrow> conv_moves l l'"
  by (rule conv_moves.move [OF conv_moves.stay])

lemma conv_moves_backed:
  "conv_moves l l' \<Longrightarrow> ledger_locks.backed l ps \<Longrightarrow> ledger_locks.backed l' ps"
proof (induction rule: conv_moves.induct)
  case (move l l1 x l2)
  then show ?case by (metis ledger_locks.backed_unrelated ledger_unrelated_def)
qed

lemma conversions_only_posts:
  assumes "ledger_reachable l" and "posts l r l'" and "txType r \<notin> {BONUS, MANUAL_ADJUSTMENT}"
    and "conversions_only l"
  shows "conversions_only l'"
  using assms(3,4) by (auto simp: conversions_only_def posts_getBalance(2) [OF assms(1,2)])

lemma conversion_move_only:
  assumes "ledger_reachable l" and "execReward l (as_reward_op x) = Inr l'" and "conversion_move x"
    and "conversions_only l"
  shows "conversions_only l'"
proof (cases x)
  case (OtherOpen i u)
  then show ?thesis using assms by (auto simp: conversions_only_def openAccount_def split: if_splits)
next
  case (OtherCredit h i now input)
  then obtain r where r: "credit h l i now input = Inr (r, l')"
    using assms(2) by (auto simp: map_sum_def split: sum.splits)
  then have "txType r = CONVERSION_CREDIT"
    using assms(3) OtherCredit
    by (auto simp: credit_def mutate_def Let_def created_row_def conversion_move_def split: op_results
        dest!: writeMovement_InrD(1))
  then show ?thesis using conversions_only_posts [OF assms(1) posts.credit [OF r]] assms(4) by simp
next
  case (OtherReverse i now t reason actor source)
  then obtain r where r: "reverseCredit l i now t reason actor source = Inr (r, l')"
    using assms(2) by (auto simp: map_sum_def split: sum.splits)
  then show ?thesis
    using conversions_only_posts [OF assms(1) posts.reverse [OF r]] reverseCredit_InrD [OF r] assms(4) by auto
next
  case (OtherMature i now t)
  then obtain ro where r: "mature l i now t = Inr (ro, l')"
    using assms(2) by (auto simp: map_sum_def split: sum.splits)
  then show ?thesis
  proof (cases ro)
    case None
    then show ?thesis using r mature_none assms(4) by blast
  next
    case (Some m)
    then show ?thesis
      using conversions_only_posts [OF assms(1) posts.mature] mature_InrD r assms(4) by fastforce
  qed
qed (use assms in \<open>simp add: conversion_move_def\<close>)

lemma conv_moves_only:
  assumes "conv_moves l l'" and "ledger_reachable l" and "conversions_only l"
  shows "ledger_reachable l' \<and> conversions_only l'"
  using assms
  by (induction rule: conv_moves.induct) (auto intro: execReward_reachable conversion_move_only)

lemma conv_moves_reachable: "conv_moves l l' \<Longrightarrow> ledger_reachable l \<Longrightarrow> ledger_reachable l'"
  by (induction rule: conv_moves.induct) (auto intro: execReward_reachable)

lemma credit_reward_moves:
  assumes "credit_reward env input l = Inr l'" shows "conv_moves l l'"
proof (cases "cpCredits (pi_plan input)")
  case True
  then have "execReward l (as_reward_op (OtherCredit (veHoldDays env) (veTransactionId env) (veLedgerAt env)
      (conversion_credit env input (pi_points input) (pi_plan input)))) = Inr l'"
    using assms by (simp add: credit_reward_def)
  then show ?thesis by (rule conv_moves_one) (simp add: conversion_move_def conversion_credit_def)
qed (use assms in \<open>auto simp: credit_reward_def intro: conv_moves.stay\<close>)

lemma reverseCredit_moves: "reverseCredit l i now t reason actor source = Inr (r, l') \<Longrightarrow> conv_moves l l'"
  by (rule conv_moves_one [of l "OtherReverse i now t reason actor source"]) (simp_all add: conversion_move_def)

lemma mature_moves: "mature l i now t = Inr (r, l') \<Longrightarrow> conv_moves l l'"
  by (rule conv_moves_one [of l "OtherMature i now t"]) (simp_all add: conversion_move_def)

lemma reverseRewardFor_moves: "reverseRewardFor env l original i = Inr l' \<Longrightarrow> conv_moves l l'"
  by (auto simp: reverseRewardFor_def map_sum_def intro: conv_moves.stay reverseCredit_moves
      split: option.splits sum.splits)

lemma conv_moves_trans: "conv_moves l1 l2 \<Longrightarrow> conv_moves l l1 \<Longrightarrow> conv_moves l l2"
  by (induction rule: conv_moves.induct) (auto intro: conv_moves.move)

lemma persist_moves:
  assumes "persist_transaction env s input = Inr (c, s')" shows "conv_moves (csLedger s) (csLedger s')"
  using assms
proof (rule persist_transaction_Inr)
  fix ev evaluations l1 l2 rows postbacks
  assume c: "credit_reward env input (csLedger s) = Inr l1" and r: "reverse_reward env input l1 = Inr l2"
    and "s' = s\<lparr>csIntake := (csIntake s)\<lparr>inPostbacks := postbacks\<rparr>, csConversions := rows,
        csEvaluations := evaluations, csLedger := l2\<rparr>"
  moreover have "conv_moves l1 l2"
    using r by (auto simp: reverse_reward_def intro: conv_moves.stay reverseRewardFor_moves split: option.splits)
  ultimately show ?thesis using conv_moves_trans [OF _ credit_reward_moves [OF c]] by simp
qed

lemma resolveHold_moves:
  assumes "resolveHold i now s input = Inr (c, s')" shows "conv_moves (csLedger s) (csLedger s')"
  using assms
  by (rule resolveHold_Inr)
    (auto intro: conv_moves.stay mature_moves reverseCredit_moves split: option.splits review_decision.splits)

text \<open>What leaves conversions and ledger alone.\<close>

lemma process_failed_same:
  "csLedger (fst (process_failed env s i f)) = csLedger s \<and> csConversions (fst (process_failed env s i f)) = csConversions s"
  by (auto simp: process_failed_def set_postbacks_def split: failure.splits sum.splits)

lemma process_start_same:
  "csLedger (fst (process_start env s i)) = csLedger s \<and> csConversions (fst (process_start env s i)) = csConversions s"
proof (cases "List.find (\<lambda>p. pbId p = i) (inPostbacks (csIntake s))")
  case (Some p)
  obtain g r where "attribute env s p = (s\<lparr>csRegistry := g\<rparr>, r)"
    by (cases "reparse env (csRegistry s) p") (auto simp: attribute_def)
  then show ?thesis
    using Some process_failed_same [of env "s\<lparr>csRegistry := g\<rparr>" i]
    by (auto simp: process_start_def case_prod_unfold split: sum.splits)
qed (simp add: process_start_def)

lemma process_finish_cases:
  obtains (failed) "csLedger (fst (process_finish env s input)) = csLedger s"
      "csConversions (fst (process_finish env s input)) = csConversions s"
    | (persisted) c s' where "persist_transaction env s input = Inr (c, s')"
      "csLedger (fst (process_finish env s input)) = csLedger s'"
      "csConversions (fst (process_finish env s input)) = csConversions s'"
proof (cases "persist_transaction env s input")
  case (Inl e)
  then have "csLedger (fst (process_finish env s input)) = csLedger s
      \<and> csConversions (fst (process_finish env s input)) = csConversions s"
    using process_failed_same
    by (auto simp: process_finish_def persist_def split: option.splits)
  then show ?thesis using failed by blast
next
  case (Inr cs)
  then obtain c s' where "persist_transaction env s input = Inr (c, s')" by (cases cs) simp
  then show ?thesis using persisted by (simp add: process_finish_def persist_def)
qed

section \<open>Standing credits stay uncharged\<close>

lemma standing_uncharged_mature:
  assumes "ledger_reachable l" and "mature l i now t = Inr (m, l')" and "standing_uncharged rows l"
  shows "standing_uncharged rows l'"
proof (cases m)
  case (Some r)
  then show ?thesis
    using standing_uncharged_posts [OF assms(1) posts.mature _ , of i now t r l'] mature_InrD [of l i now t r l'] assms
    by auto
qed (use assms mature_none in blast)

text \<open>A chargeback of the credit of conversion \<open>i\<close> only concerns \<open>i\<close>.\<close>

lemma source_reversal_uncharged:
  assumes "ledger_reachable l" and "findBySource l SOURCE_CONVERSION i (Some CONVERSION_CREDIT) = Some k"
    and "reverseCredit l j now (txId k) reason actor source = Inr (r, l')"
    and "uncharged l c" and "cvId c \<noteq> i"
  shows "uncharged l' c"
  using findBySource_credit(2) [OF assms(2)] assms(5)
  by (intro uncharged_chargeback [OF assms(1,3) _ _ assms(4)]) auto

lemma reverseRewardFor_uncharged:
  assumes "ledger_reachable l" and "reverseRewardFor env l original i = Inr l'"
    and "uncharged l c" and "cvId c \<noteq> cvId original"
  shows "uncharged l' c"
  using assms(2,3) source_reversal_uncharged [OF assms(1) _ _ assms(3,4)]
  by (auto simp: reverseRewardFor_def map_sum_def split: option.splits sum.splits)

lemma credit_reward_uncharged:
  assumes "ledger_reachable l" and "credit_reward env input l = Inr l'" and "standing_uncharged rows l"
  shows "standing_uncharged rows l'"
proof (cases "cpCredits (pi_plan input)")
  case True
  then obtain r where r: "credit (veHoldDays env) l (veTransactionId env) (veLedgerAt env)
      (conversion_credit env input (pi_points input) (pi_plan input)) = Inr (r, l')"
    using assms(2) by (auto simp: credit_reward_def map_sum_def split: sum.splits)
  then have "txType r \<noteq> CHARGEBACK_DEBIT"
    by (auto simp: credit_def mutate_def Let_def created_row_def split: op_results dest!: writeMovement_InrD(1))
  then show ?thesis by (rule standing_uncharged_posts [OF assms(1) posts.credit [OF r] assms(3)])
qed (use assms in \<open>simp add: credit_reward_def\<close>)

lemma uncharged_fresh: "credits_for (cvId c) l = 0 \<Longrightarrow> uncharged l c"
  by (auto simp: uncharged_def credits_for_def count_where_0_iff)

lemma persist_uncharged:
  assumes "ledger_reachable (csLedger s)" and "conversions_settled (csConversions s) (csLedger s)"
    and "standing_uncharged (csConversions s) (csLedger s)" and "persist_transaction env s input = Inr (c, s')"
  shows "standing_uncharged (csConversions s') (csLedger s')"
  using assms(4)
proof (rule persist_transaction_Inr)
  fix ev evaluations l1 l2 rows postbacks
  assume cr: "credit_reward env input (csLedger s) = Inr l1"
    and r: "reverse_reward env input l1 = Inr l2"
    and st: "store_conversion env input ev (csConversions s) = Inr (c, rows)"
    and s': "s' = s\<lparr>csIntake := (csIntake s)\<lparr>inPostbacks := postbacks\<rparr>, csConversions := rows,
        csEvaluations := evaluations, csLedger := l2\<rparr>"
  obtain amount where n: "c = new_conversion env input amount ev" "cvId c \<notin> set (map cvId (csConversions s))"
    "rows = (case piReversalOf input of None \<Rightarrow> csConversions s @ [c]
        | Some original \<Rightarrow> update_where (\<lambda>r. cvId r = cvId original)
            (\<lambda>r. r\<lparr>cvStatus := CV_REVERSED, cvUpdatedAt := vePersistAt env\<rparr>) (csConversions s @ [c]))"
    using store_conversion_Inr [OF st] by blast
  have "uncharged (csLedger s) c"
    using no_credit_yet [OF _ n(2)] assms(2) by (intro uncharged_fresh) (simp add: conversions_settled_def)
  then have old: "standing_uncharged (csConversions s @ [c]) (csLedger s)"
    using assms(3) by (simp add: standing_uncharged_def)
  have l1: "ledger_reachable l1" "standing_uncharged (csConversions s @ [c]) l1"
    using conv_moves_reachable [OF credit_reward_moves [OF cr] assms(1)] credit_reward_uncharged [OF assms(1) cr old] .
  show ?thesis
  proof (cases "piReversalOf input")
    case None
    then show ?thesis using r l1(2) by (simp add: s' n(3) reverse_reward_def)
  next
    case (Some original)
    then have "reverseRewardFor env l1 original (veConversionId env) = Inr l2"
      using r by (simp add: reverse_reward_def)
    then show ?thesis
      using l1 reverseRewardFor_uncharged
      by (auto simp: s' n(3) Some standing_uncharged_def set_update_where standing_status_def)
  qed
qed

lemma resolveHold_uncharged:
  assumes "ledger_reachable (csLedger s)" and "distinct (map cvId (csConversions s))"
    and "standing_uncharged (csConversions s) (csLedger s)" and "resolveHold i now s input = Inr (c, s')"
  shows "standing_uncharged (csConversions s') (csLedger s')"
  using assms(4)
proof (rule resolveHold_Inr)
  fix held l'
  let ?status = "case rhDecision input of DECISION_CLEAR \<Rightarrow> CV_CREDITED | DECISION_CONFIRM \<Rightarrow> CV_REJECTED"
  let ?found = "findBySource (csLedger s) SOURCE_CONVERSION (rhConversionId input) (Some CONVERSION_CREDIT)"
  assume held: "findConversion (csConversions s) (rhConversionId input) = Some held" "cvStatus held = CV_HELD"
    and moved: "case ?found of None \<Rightarrow> l' = csLedger s
     | Some r \<Rightarrow> (case rhDecision input of
         DECISION_CLEAR \<Rightarrow> \<exists>m. mature (csLedger s) i now (txId r) = Inr (m, l')
       | DECISION_CONFIRM \<Rightarrow> \<exists>m. reverseCredit (csLedger s) i now (txId r) (rhReason input)
           (Some (admin_actor (Some (rhAdminId input)))) None = Inr (m, l'))"
    and s': "s' = s\<lparr>csConversions := update_where (\<lambda>c. cvId c = rhConversionId input)
        (reviewed ?status input) (csConversions s), csLedger := l'\<rparr>"
  have same: "z = held" if "z \<in> set (csConversions s)" "cvId z = rhConversionId input" for z
    using held(1) that assms(2) by (auto simp: findConversion_def dest!: find_SomeD intro: same_id)
  have others: "uncharged l' z" if "z \<in> set (csConversions s)" "standing_status z"
      "rhDecision input = DECISION_CLEAR \<or> cvId z \<noteq> rhConversionId input" for z
  proof -
    have z: "uncharged (csLedger s) z" using assms(3) that by (simp add: standing_uncharged_def)
    show ?thesis
      using moved z that source_reversal_uncharged [OF assms(1) _ _ z]
        standing_uncharged_mature [OF assms(1) _ assms(3)]
      by (auto simp: standing_uncharged_def split: option.splits review_decision.splits)
  qed
  show ?thesis
    unfolding standing_uncharged_def
  proof (intro ballI impI)
    fix z assume z: "z \<in> set (csConversions s')" "standing_status z"
    then obtain y where y: "y \<in> set (csConversions s)"
      "z = (if cvId y = rhConversionId input then reviewed ?status input y else y)"
      by (auto simp: s' set_update_where)
    have "standing_status y \<and> (rhDecision input = DECISION_CLEAR \<or> cvId y \<noteq> rhConversionId input)"
      using z(2) y same [OF y(1)] held(2)
      by (auto simp: standing_status_def split: if_splits review_decision.splits)
    then have "uncharged l' y" using others [OF y(1)] by blast
    then show "uncharged (csLedger s') z" by (simp add: s' y(2) uncharged_def)
  qed
qed

section \<open>The invariant of the platform\<close>

definition platform_ok :: "platform \<Rightarrow> bool" where
  "platform_ok s \<longleftrightarrow> conv_ok (plConv s) \<and> payouts_backed (payouts_view s)
     \<and> conversions_only (csLedger (plConv s))
     \<and> standing_uncharged (csConversions (plConv s)) (csLedger (plConv s))"

lemma conv_ok_extends: "conv_ok s \<Longrightarrow> extends (csLedger s) l \<Longrightarrow> conv_ok (s\<lparr>csLedger := l\<rparr>)"
  using conversions_settled_extends [of "csLedger s" l] by (auto simp: conv_ok_def extends_def)

text \<open>What a step of conversion processing does to the ledger the payouts share.\<close>

lemma outside_move_other:
  assumes "outside_move x"
  obtains y where "x = as_reward_op y" "conversion_move y" "\<not> is_credit_op x"
proof (cases x)
  case (OpOpen i u)
  then show thesis by (intro that [of "OtherOpen i u"]) (simp_all add: conversion_move_def is_credit_op_def)
next
  case (OpMature i now t)
  then show thesis by (intro that [of "OtherMature i now t"]) (simp_all add: conversion_move_def is_credit_op_def)
qed (use assms in \<open>simp_all add: outside_move_def\<close>)

lemma execConv_moves:
  assumes "execConv s x = Inr s'" and "in_platform x"
  shows "conv_moves (csLedger s) (csLedger s')"
proof (cases x)
  case (Finish env0 s0 p env)
  then obtain input where "s' = fst (process_finish env s input)"
    using assms(1) by (auto split: sum.splits)
  then show ?thesis
    by (cases rule: process_finish_cases [of env s input]) (auto intro: conv_moves.stay persist_moves)
next
  case (Move y)
  then show ?thesis
    using assms by (auto simp: in_platform_def map_sum_def intro: conv_moves_one elim!: outside_move_other
        split: sum.splits if_splits)
qed (use assms process_start_same in
  \<open>auto simp: map_sum_def intro: conv_moves.stay resolveHold_moves split: sum.splits\<close>)

lemma execConv_uncharged:
  assumes "conv_ok s" and "standing_uncharged (csConversions s) (csLedger s)"
    and "execConv s x = Inr s'" and "in_platform x"
  shows "standing_uncharged (csConversions s') (csLedger s')"
proof (cases x)
  case (Finish env0 s0 p env)
  then obtain input where s': "s' = fst (process_finish env s input)"
    using assms(3) by (auto split: sum.splits)
  show ?thesis
    using assms(1,2) s' persist_uncharged [of s env input]
    by (cases rule: process_finish_cases [of env s input]) (auto simp: conv_ok_def)
next
  case (Resolve i now input)
  then show ?thesis
    using assms resolveHold_uncharged [of s i now input]
    by (auto simp: conv_ok_def conversions_settled_def map_sum_def split: sum.splits)
next
  case (Move y)
  then obtain l where l: "execReward (csLedger s) y = Inr l" "s' = s\<lparr>csLedger := l\<rparr>" "outside_move y"
    using assms(3,4) by (auto simp: in_platform_def map_sum_def split: sum.splits if_splits)
  have "ledger_reachable (csLedger s)" using assms(1) by (simp add: conv_ok_def)
  then show ?thesis
    using l assms(2) standing_uncharged_mature
    by (cases y) (auto simp: outside_move_def map_sum_def openAccount_def standing_uncharged_def uncharged_def
        charged_back_def acted_def split: sum.splits if_splits)
qed (use assms process_start_same in \<open>auto simp: standing_uncharged_def\<close>)

lemma platform_conv_ok:
  assumes "platform_ok s" and "execConv (plConv s) x = Inr c" and "in_platform x"
  shows "platform_ok (s\<lparr>plConv := c\<rparr>)"
proof -
  have ok: "conv_ok (plConv s)" "payouts_backed (payouts_view s)" "conversions_only (csLedger (plConv s))"
    "standing_uncharged (csConversions (plConv s)) (csLedger (plConv s))" "ledger_reachable (csLedger (plConv s))"
    using assms(1) by (simp_all add: platform_ok_def conv_ok_def)
  note m = execConv_moves [OF assms(2,3)]
  show ?thesis
    using ok(1,2) execConv_ok [OF ok(1) assms(2)] conv_moves_backed [OF m] conv_moves_only [OF m ok(5,3)]
      execConv_uncharged [OF ok(1,4) assms(2,3)]
    by (simp add: platform_ok_def payouts_view_def)
qed

text \<open>What the payouts post: locks, settlements and refunds.\<close>

lemma payout_step_posts:
  assumes "payouts_backed v" and "submit provider c v i t now input = Inr (p, v')
    \<or> applyTransition v t now i to review = Inr (p, v')"
  shows "payouts_backed v' \<and> (poLedger v' = poLedger v
    \<or> (\<exists>r. posts (poLedger v) r (poLedger v') \<and> txType r \<in> {PAYOUT_LOCK, PAYOUT_SETTLE, PAYOUT_REFUND}))"
  using assms(2)
proof
  assume s: "submit provider c v i t now input = Inr (p, v')"
  then obtain m k where k: "lockPoints (poLedger v) t now (sbUserId input) (sbAmountPoints input) i (Some m)
      = Inr (k, poLedger v')"
    using submit_InrD by blast
  then have "txType k = PAYOUT_LOCK"
    by (auto simp: lockPoints_def created_row_def split: op_results dest!: writeMovement_InrD(1))
  then show ?thesis
    using posts.lock [OF k] payouts_backed_exec [OF assms(1), of provider "OpSubmit c i t now input" v'] s by auto
next
  assume s: "applyTransition v t now i to review = Inr (p, v')"
  then obtain q reason l' where q: "canTransition (poStatus q) to"
      "resolve_effect (poLedger v) t now q to reason (rvAdminId review) = Inr l'" "poLedger v' = l'"
    using applyTransition_InrD by fastforce
  have "payouts_backed v'"
    using payouts_backed_exec [OF assms(1), of provider "OpReview t now i to review" v'] s by auto
  moreover have "l' = poLedger v \<or> ledger_resolve (poLedger v) (poLockTransactionId q) (to = PAID) l'"
    using resolve_effect_InrD [OF q(2,1)] by (auto split: if_splits)
  moreover have "\<exists>r. posts (poLedger v) r l' \<and> txType r \<in> {PAYOUT_SETTLE, PAYOUT_REFUND}"
    if resolved: "ledger_resolve (poLedger v) (poLockTransactionId q) (to = PAID) l'"
  proof -
    obtain j n reason actor r where r: "resolveLock (poLedger v) j n (poLockTransactionId q) (to = PAID) reason actor = Inr (r, l')"
      using resolved by (auto simp: ledger_resolve_def)
    have "txType r \<in> {PAYOUT_SETTLE, PAYOUT_REFUND}" using resolveLock_InrD [OF r] by (auto split: if_splits)
    then show ?thesis using posts.resolve [OF r] by blast
  qed
  ultimately show ?thesis using q(3) by blast
qed

lemma platform_payout_ok:
  assumes "platform_ok s" and "submit provider c (payouts_view s) i t now input = Inr (p, v')
    \<or> applyTransition (payouts_view s) t now i to review = Inr (p, v')"
  shows "platform_ok (set_payouts s v')"
proof -
  have ok: "conv_ok (plConv s)" "payouts_backed (payouts_view s)" "conversions_only (csLedger (plConv s))"
    "standing_uncharged (csConversions (plConv s)) (csLedger (plConv s))" "ledger_reachable (csLedger (plConv s))"
    using assms(1) by (simp_all add: platform_ok_def conv_ok_def)
  note step = payout_step_posts [OF ok(2) assms(2)]
  have "extends (csLedger (plConv s)) (poLedger v') \<and> conversions_only (poLedger v')
      \<and> standing_uncharged (csConversions (plConv s)) (poLedger v')"
    using step ok(3,4) extends_refl [OF ok(5)] extends_posts [OF ok(5)] conversions_only_posts [OF ok(5)]
      standing_uncharged_posts [OF ok(5)]
    by (auto simp: payouts_view_def)
  then show ?thesis
    using step conv_ok_extends [OF ok(1)] by (auto simp: platform_ok_def set_payouts_def payouts_view_def)
qed

lemma platform_ok_exec:
  assumes "platform_ok s" and "execPlatform provider s x = Inr s'"
  shows "platform_ok s'"
proof (cases x)
  case (PlConv y)
  then show ?thesis
    using assms platform_conv_ok by (auto simp: map_sum_def split: sum.splits if_splits)
next
  case (PlSubmit c i t now input)
  then obtain p v' where "submit provider c (payouts_view s) i t now input = Inr (p, v')" "s' = set_payouts s v'"
    using assms(2) by (auto simp: map_sum_def split: sum.splits)
  then show ?thesis using platform_payout_ok [OF assms(1) disjI1] by simp
next
  case (PlReview t now i to review)
  then obtain p v' where "applyTransition (payouts_view s) t now i to review = Inr (p, v')" "s' = set_payouts s v'"
    using assms(2) by (auto simp: map_sum_def split: sum.splits)
  then show ?thesis using platform_payout_ok [OF assms(1) disjI2] by simp
qed

lemma platform_ok_empty: "platform_ok empty_platform"
  using processing.inv_init payouts_backed_empty
  by (simp add: platform_ok_def empty_platform_def payouts_view_def empty_payouts_def no_conversions_def
      conversions_only_def standing_uncharged_def empty_ledger_def)

interpretation platform: guarded_system "execPlatform provider" empty_platform platform_ok
  by unfold_locales (auto intro: platform_ok_empty platform_ok_exec)

lemma run_platform_ok: "platform_ok (run_platform provider ops)"
  unfolding run_platform_def by (rule platform.inv_run)

section \<open>What an account holds\<close>

lemma sum_for_zero: "(\<And>r. r \<in> set rows \<Longrightarrow> d r = 0) \<Longrightarrow> sum_for owner d u rows = 0"
  by (induction rows) (auto simp: sum_for_def)

lemma platform_total:
  assumes "platform_ok s"
  shows "balTotal (getBalance (csLedger (plConv s)) u)
    = sum_for cvUserId standing_worth u (csConversions (plConv s))
      - points_in (\<lambda>p. poStatus p = PAID) u (plPayouts s)"
proof -
  let ?l = "csLedger (plConv s)" and ?txs = "transactions (csLedger (plConv s))"
  have ok: "conversions_settled (csConversions (plConv s)) ?l" "payouts_backed (payouts_view s)"
    "conversions_only ?l" "standing_uncharged (csConversions (plConv s)) ?l" "ledger_reachable ?l"
    using assms by (simp_all add: platform_ok_def conv_ok_def)
  note h = reachable_history [OF ok(5)]
  have "sum_for txUserId adjustedDelta u ?txs = 0"
    using ok(3) by (intro sum_for_zero) (simp add: adjustedDelta_def conversions_only_def)
  moreover have "sum_for txUserId withdrawnDelta u ?txs = points_in (\<lambda>p. poStatus p = PAID) u (plPayouts s)"
    using ok(2) by (simp add: ledger_locks.backed_def payouts_view_def withdrawn_points_def
        reachable_getBalance [OF ok(5)] history_balance_def Let_def)
  ultimately show ?thesis
    using history_conserves [OF h, of u] history_standing [OF h, of u]
      standing_points_conversions [OF h ok(1,4,3), of u]
    by (simp add: reachable_getBalance [OF ok(5)] history_balance_def Let_def)
qed

text \<open>C1. As long as no two chargebacks of the same credit overlap, an account holds exactly what its
  standing conversions earned less what was paid out to it: after any run of deliveries, workers that
  retry or read what others then change, reviews of holds, chargebacks, maturations, withdrawals and
  their reviews, each transaction taken as one step, the sum of a user's pending, available and locked
  points is the sum of the points of their credited and held conversions minus the points of their
  paid withdrawals. (Two transactions that take back one credit, a provider's reversal and a
  reviewer's confirmation or two reversals, can both pass the check the code makes before its lock;
  the second then takes the points again: \<open>RewardProps.concurrent_reversals_both_commit\<close>.)\<close>

theorem account_holds_its_standing_conversions:
  "balTotal (getBalance (csLedger (plConv (run_platform provider ops))) u)
    = sum_for cvUserId
        (\<lambda>c. if cvType c = CT_CONVERSION \<and> cvStatus c \<in> {CV_CREDITED, CV_HELD} \<and> 0 < cvRewardPoints c
             then cvRewardPoints c else 0) u (csConversions (plConv (run_platform provider ops)))
      - sum_for poUserId (\<lambda>p. if poStatus p = PAID then poAmountPoints p else 0) u
          (plPayouts (run_platform provider ops))"
proof -
  have "standing_worth = (\<lambda>c. if cvType c = CT_CONVERSION \<and> cvStatus c \<in> {CV_CREDITED, CV_HELD}
      \<and> 0 < cvRewardPoints c then cvRewardPoints c else 0)"
    by (auto simp: fun_eq_iff standing_worth_def standing_status_def)
  then show ?thesis
    using platform_total [OF run_platform_ok [of provider ops], of u] by (simp add: points_in_def)
qed

end
