(* ===== verification/Holds.thy ===== *)
theory Holds
  imports Platform ConversionRuns
begin

text \<open>
  The queue of held conversions on the platform: every entry can be resolved, whatever else has
  happened to the ledger, and what a resolution of a chargeback's own row does.
\<close>

section \<open>A credit that stands can be taken back and released\<close>

lemma account_of_row:
  assumes "ledger_reachable l" and "r \<in> set (transactions l)"
  obtains b where "lockBalance l (txUserId r) = Inr b"
  using reachable_explained [OF assms(1)] assms(2) that
  by (cases "findBalance l (txUserId r)")
    (fastforce simp: explained_def lockBalance_def findBalance_def dest: find_NoneD)+

lemma writeMovement_InlD:
  "writeMovement l i m b = Inl e \<Longrightarrow> e = UniqueViolation \<and> i \<in> txId ` set (transactions l) \<or> e = OutOfRange"
  by (auto simp: writeMovement_def Let_def split: if_splits)

lemma reverse_standing_credit:
  assumes "ledger_reachable l" and "findTransaction l t = Some c" and "0 < txAmountPoints c"
    and "\<not> charged_back l c" and "reverseCredit l i now t reason actor source = Inl e"
  shows "e = UniqueViolation \<and> i \<in> txId ` set (transactions l) \<or> e = OutOfRange"
proof -
  obtain b where "lockBalance l (txUserId c) = Inr b"
    using account_of_row [OF assms(1)] findTransaction_SomeD [OF assms(2)] by blast
  then show ?thesis
    using assms(2-5)
    by (auto simp: reverseCredit_def reverseCheck_def reverseCommit_def charged_back_def Let_def
        dest: writeMovement_InlD)
qed

lemma mature_any_credit:
  assumes "ledger_reachable l" and "mature l i now t = Inl e"
  shows "e = UniqueViolation \<and> i \<in> txId ` set (transactions l) \<or> e = OutOfRange"
proof -
  obtain c where c: "findTransaction l t = Some c" using assms(2) by (auto simp: mature_def split: option.splits)
  obtain b where "lockBalance l (txUserId c) = Inr b"
    using account_of_row [OF assms(1)] findTransaction_SomeD [OF c] by blast
  then show ?thesis
    using assms(2) c by (auto simp: mature_def map_sum_def split: if_splits sum.splits dest: writeMovement_InlD)
qed

section \<open>Every hold can be resolved\<close>

lemma held_credit_stands:
  assumes "platform_ok s" and "findConversion (csConversions (plConv s)) cid = Some held"
    and "cvStatus held = CV_HELD"
    and "findBySource (csLedger (plConv s)) SOURCE_CONVERSION cid (Some CONVERSION_CREDIT) = Some r"
  shows "findTransaction (csLedger (plConv s)) (txId r) = Some r \<and> 0 < txAmountPoints r
    \<and> \<not> charged_back (csLedger (plConv s)) r"
proof -
  let ?l = "csLedger (plConv s)"
  have ok: "ledger_reachable ?l" "conversions_settled (csConversions (plConv s)) ?l"
    "standing_uncharged (csConversions (plConv s)) ?l"
    using assms(1) by (simp_all add: platform_ok_def conv_ok_def)
  note paid = credit_pays_the_held [OF ok(1,2) assms(2,4)]
  note r = findBySource_credit(2) [OF assms(4)]
  have "held \<in> set (csConversions (plConv s))"
    using assms(2) by (auto simp: findConversion_def dest!: find_SomeD)
  moreover have "standing_status held" using paid(2) assms(3) by (simp add: standing_status_def pays_for_def)
  ultimately have "\<not> charged_back ?l r"
    using ok(3) r paid(3) by (auto simp: standing_uncharged_def uncharged_def)
  moreover have "0 < txAmountPoints r"
    using credit_rows_positive [OF reachable_history [OF ok(1)]] r by (simp add: conv_credit_def is_credit_def)
  ultimately show ?thesis using paid(1) by blast
qed

text \<open>C11. Every hold can be resolved, whatever else has happened on the platform: an administrator's
  decision on a held conversion is never refused by the ledger, which would leave it in the queue for
  good. Only a reused row id and a full 32-bit column stand in the way; otherwise the conversion ends
  credited or rejected as decided.\<close>

theorem every_hold_can_be_resolved:
  assumes "findConversion (csConversions (plConv (run_platform provider ops))) (rhConversionId input) = Some held"
    and "cvStatus held = CV_HELD"
  shows "case resolveHold i now (plConv (run_platform provider ops)) input of
      Inr (c, s') \<Rightarrow> findConversion (csConversions s') (rhConversionId input) = Some c
        \<and> cvStatus c = (case rhDecision input of DECISION_CLEAR \<Rightarrow> CV_CREDITED | DECISION_CONFIRM \<Rightarrow> CV_REJECTED)
    | Inl e \<Rightarrow> e = UniqueViolation
          \<and> i \<in> txId ` set (transactions (csLedger (plConv (run_platform provider ops)))) \<or> e = OutOfRange"
proof -
  let ?s = "run_platform provider ops"
  let ?l = "csLedger (plConv ?s)" and ?cid = "rhConversionId input"
  note ok = run_platform_ok [of provider ops]
  have l: "ledger_reachable ?l" using ok by (simp add: platform_ok_def conv_ok_def)
  show ?thesis
  proof (cases "resolveHold i now (plConv ?s) input")
    case (Inl e)
    then obtain r where r: "findBySource ?l SOURCE_CONVERSION ?cid (Some CONVERSION_CREDIT) = Some r"
      "mature ?l i now (txId r) = Inl e \<or> reverseCredit ?l i now (txId r) (rhReason input)
         (Some (admin_actor (Some (rhAdminId input)))) None = Inl e"
      using assms
      by (auto simp: resolveHold_def update_conversion_def Let_def map_sum_def
          split: option.splits sum.splits review_decision.splits)
    note stands = held_credit_stands [OF ok assms r(1)]
    from r(2) have "e = UniqueViolation \<and> i \<in> txId ` set (transactions ?l) \<or> e = OutOfRange"
    proof
      assume "mature ?l i now (txId r) = Inl e"
      then show ?thesis by (rule mature_any_credit [OF l])
    next
      assume "reverseCredit ?l i now (txId r) (rhReason input) (Some (admin_actor (Some (rhAdminId input)))) None = Inl e"
      from reverse_standing_credit [OF l _ _ _ this] show ?thesis using stands by blast
    qed
    then show ?thesis by (simp add: Inl)
  next
    case (Inr cs)
    then obtain c s' where cs: "resolveHold i now (plConv ?s) input = Inr (c, s')" by (cases cs) simp
    then show ?thesis
    proof (rule resolveHold_Inr)
      fix h l'
      let ?f = "reviewed (case rhDecision input of DECISION_CLEAR \<Rightarrow> CV_CREDITED | DECISION_CONFIRM \<Rightarrow> CV_REJECTED) input"
      assume h: "findConversion (csConversions (plConv ?s)) ?cid = Some h" and c: "c = ?f h"
        and s': "s' = (plConv ?s)\<lparr>csConversions := update_where (\<lambda>c. cvId c = ?cid) ?f
            (csConversions (plConv ?s)), csLedger := l'\<rparr>"
      have "findConversion (csConversions s') ?cid = Some c"
        using find_update_same [OF h [unfolded findConversion_def], of ?f] c s' by (simp add: findConversion_def)
      then show ?thesis using cs c by simp
    qed
  qed
qed

section \<open>The row of a chargeback can land in the queue\<close>

text \<open>A confirmed chargeback against an account that is no longer active is stored with the status of a
  hold although it earns nothing: it joins the queue, and neither decision on it moves a point.\<close>

theorem chargeback_row_is_held:
  assumes "snd (attribute env0 s0 p) = Inr input" and "ncIsReversal (piParsed input)"
    and "ncStatus (piParsed input) = Confirmed"
    and "findUser (veUsers env0) (ckUserId (piClick input)) = Some user" and "\<not> isActiveUser user"
    and "persist_transaction env (plConv (run_platform provider ops)) input = Inr (c, s)"
  shows "cvType c = CT_REVERSAL \<and> cvStatus c = CV_HELD"
proof -
  obtain s0' where a: "attribute env0 s0 p = (s0', Inr input)" using assms(1) by (cases "attribute env0 s0 p") simp
  have "piStatus input = CV_HELD \<and> piReversalOf input \<noteq> None"
    using a by (rule attribute_Inr) (use assms(2-5) in \<open>simp add: resolveStatus_def\<close>)
  then have st: "piStatus input = CV_HELD" and rev: "piReversalOf input \<noteq> None" by auto
  show ?thesis
    using assms(6)
  proof (rule persist_transaction_Inr)
    fix ev rows
    assume "store_conversion env input ev (csConversions (plConv (run_platform provider ops))) = Inr (c, rows)"
    then obtain amount where "c = new_conversion env input amount ev" using store_conversion_Inr by blast
    then show ?thesis
      using st rev by (simp add: storedStatus_def pi_plan_def planCredit_def no_credit_def)
  qed
qed

text \<open>The row of a chargeback that is held: both decisions close it, and neither moves a point.\<close>

theorem held_chargeback_moves_nothing:
  assumes "findConversion (csConversions (run_conversions ops)) (rhConversionId input) = Some c"
    and "cvType c = CT_REVERSAL" and "cvStatus c = CV_HELD"
  shows "\<exists>c' s'. resolveHold i now (run_conversions ops) input = Inr (c', s')
    \<and> cvStatus c' = (case rhDecision input of DECISION_CLEAR \<Rightarrow> CV_CREDITED | DECISION_CONFIRM \<Rightarrow> CV_REJECTED)
    \<and> csLedger s' = csLedger (run_conversions ops)"
proof -
  let ?s = "run_conversions ops"
  have ok: "ledger_reachable (csLedger ?s)" "conversions_settled (csConversions ?s) (csLedger ?s)"
    using run_conversions_ok [of ops] by (simp_all add: conv_ok_def)
  have "findBySource (csLedger ?s) SOURCE_CONVERSION (rhConversionId input) (Some CONVERSION_CREDIT) = None"
    using credit_pays_the_held(2) [OF ok assms(1)] assms(2)
    by (cases "findBySource (csLedger ?s) SOURCE_CONVERSION (rhConversionId input) (Some CONVERSION_CREDIT)")
      (auto simp: pays_for_def)
  then show ?thesis
    using assms by (cases "rhDecision input") (auto simp: resolveHold_def update_conversion_def)
qed

section \<open>A chargeback of a conversion that stands\<close>

text \<open>The reversal of a credited or held conversion's reward is never refused by the ledger, bar a reused
  row id and a full column.\<close>

theorem standing_conversion_can_be_charged_back:
  assumes "original \<in> set (csConversions (plConv (run_platform provider ops)))"
    and "cvType original = CT_CONVERSION" and "cvStatus original \<in> {CV_CREDITED, CV_HELD}"
    and "reverseRewardFor env (csLedger (plConv (run_platform provider ops))) original i = Inl e"
  shows "e = UniqueViolation
      \<and> veTransactionId env \<in> txId ` set (transactions (csLedger (plConv (run_platform provider ops))))
    \<or> e = OutOfRange"
proof -
  let ?l = "csLedger (plConv (run_platform provider ops))"
  have ok: "ledger_reachable ?l" "standing_uncharged (csConversions (plConv (run_platform provider ops))) ?l"
    using run_platform_ok [of provider ops] by (simp_all add: platform_ok_def conv_ok_def)
  obtain c where c: "findBySource ?l SOURCE_CONVERSION (cvId original) (Some CONVERSION_CREDIT) = Some c"
    "reverseCredit ?l (veTransactionId env) (veLedgerAt env) (txId c) ''provider reported a chargeback'' None
       (Some \<lparr>sourceType = SOURCE_CONVERSION, sourceId = Some i, sourceLabel = None\<rparr>) = Inl e"
    using assms(4) by (auto simp: reverseRewardFor_def map_sum_def split: option.splits sum.splits)
  note r = findBySource_credit(2) [OF c(1)]
  have "\<not> charged_back ?l c"
    using ok(2) assms(1-3) r by (auto simp: standing_uncharged_def standing_status_def uncharged_def)
  moreover have "0 < txAmountPoints c"
    using credit_rows_positive [OF reachable_history [OF ok(1)]] r by (simp add: conv_credit_def is_credit_def)
  moreover have "findTransaction ?l (txId c) = Some c"
    using r history_distinct [OF reachable_history [OF ok(1)]] find_key_eq unfolding findTransaction_def by metis
  ultimately show ?thesis using reverse_standing_credit [OF ok(1) _ _ _ c(2)] by blast
qed

section \<open>Concrete runs\<close>

lemma run_platform_conv:
  "list_all in_platform ops \<Longrightarrow> run_ops (execPlatform provider) s (map PlConv ops)
    = s\<lparr>plConv := run_ops execConv (plConv s) ops\<rparr>"
  by (induction ops arbitrary: s) (auto simp: map_sum_def split: sum.splits)

lemma demo_platform:
  "run_platform provider (map PlConv (demo_conv_ops st)) = \<lparr>plConv = demo_after st, plPayouts = []\<rparr>"
proof -
  have "list_all in_platform (demo_conv_ops st)"
    by (simp add: demo_conv_ops_def in_platform_def outside_move_def)
  from run_platform_conv [OF this] show ?thesis
    using demo_run [of st] by (simp add: run_platform_def run_conversions_def empty_platform_def)
qed

lemma demo_held: "findConversion (csConversions (demo_after SUSPENDED)) 20 = Some (demo_conversion SUSPENDED)"
  by (simp add: findConversion_def)

lemma every_hold_can_be_resolved_witness:
  "\<exists>c s'. resolveHold 30 40 (plConv (run_platform ManualPayoutProvider (map PlConv (demo_conv_ops SUSPENDED))))
      (demo_verdict DECISION_CONFIRM) = Inr (c, s') \<and> cvStatus c = CV_REJECTED"
proof -
  let ?s = "plConv (run_platform ManualPayoutProvider (map PlConv (demo_conv_ops SUSPENDED)))"
  have v: "rhConversionId (demo_verdict DECISION_CONFIRM) = 20" "rhDecision (demo_verdict DECISION_CONFIRM) = DECISION_CONFIRM"
    by (simp_all add: demo_verdict_def)
  obtain c s' where r: "resolveHold 30 40 ?s (demo_verdict DECISION_CONFIRM) = Inr (c, s')"
    using demo_resolved [of DECISION_CONFIRM] by (auto simp: demo_platform)
  have "findConversion (csConversions ?s) (rhConversionId (demo_verdict DECISION_CONFIRM)) = Some (demo_conversion SUSPENDED)"
    "cvStatus (demo_conversion SUSPENDED) = CV_HELD"
    using demo_held by (simp_all add: demo_platform v)
  from every_hold_can_be_resolved [OF this, of 30 40] show ?thesis using r v by auto
qed

lemma standing_conversion_can_be_charged_back_witness:
  "\<exists>e. reverseRewardFor (demo_worker ACTIVE 20)
      (csLedger (plConv (run_platform ManualPayoutProvider (map PlConv (demo_conv_ops ACTIVE)))))
      (demo_conversion ACTIVE) 21 = Inl e \<and> (e = UniqueViolation \<or> e = OutOfRange)"
proof -
  let ?s = "plConv (run_platform ManualPayoutProvider (map PlConv (demo_conv_ops ACTIVE)))"
  have s: "?s = demo_after ACTIVE" by (simp add: demo_platform)
  have t: "findTransaction (csLedger (demo_after ACTIVE)) 20 = Some (demo_reward ACTIVE)"
    by (simp add: findTransaction_def)
  have l: "\<exists>b. lockBalance (csLedger (demo_after ACTIVE)) 7 = Inr b"
    by (simp add: demo_after_def lockBalance_def findBalance_def)
  have "txUserId (demo_reward ACTIVE) = 7" "txAmountPoints (demo_reward ACTIVE) = 1050"
    by (simp_all add: demo_reward_def)
  then have "\<exists>e. reverseRewardFor (demo_worker ACTIVE 20) (csLedger ?s) (demo_conversion ACTIVE) 21 = Inl e"
    using l t by (auto simp: s reverseRewardFor_def demo_source reverseCredit_def reverseCheck_def demo_acted
        reverseCommit_def writeMovement_def demo_worker_def Let_def)
  then obtain e where e: "reverseRewardFor (demo_worker ACTIVE 20) (csLedger ?s) (demo_conversion ACTIVE) 21 = Inl e"
    by blast
  have "demo_conversion ACTIVE \<in> set (csConversions ?s)" "cvStatus (demo_conversion ACTIVE) \<in> {CV_CREDITED, CV_HELD}"
    by (simp_all add: s)
  from standing_conversion_can_be_charged_back [OF this(1) _ this(2) e] e show ?thesis by auto
qed

end
