(* ===== verification/Pipeline.thy ===== *)
theory Pipeline
  imports Holds
begin

text \<open>
  From the acknowledgement of a postback to its end: what intake has accepted and queued leaves its
  first state with the first run of its job, whatever other deliveries, workers and reviews came
  between.
\<close>

section \<open>A converted postback is never in its first state\<close>

definition received_ids :: "provider_postback list \<Rightarrow> id set" where
  "received_ids rows = pbId ` {b \<in> set rows. pbState b = PB_RECEIVED}"

definition converted_left :: "conv_state \<Rightarrow> bool" where
  "converted_left s \<longleftrightarrow> received_ids (inPostbacks (csIntake s)) \<inter> cvPostbackId ` set (csConversions s) = {}"

lemma received_ids_marked:
  assumes "update_postback rows i f = Inr rows'"
    and "\<And>x. pbId (f x) = pbId x" and "\<And>x. pbState (f x) \<noteq> PB_RECEIVED"
  shows "received_ids rows' = received_ids rows - {i}"
proof -
  have "rows' = update_where (\<lambda>p. pbId p = i) f rows"
    using assms(1) by (auto simp: update_postback_def split: if_splits)
  then show ?thesis using assms(2,3) by (auto simp: received_ids_def set_update_where image_iff split: if_splits)
qed

lemma received_ids_marks:
  "markProcessed rows i = Inr rows' \<Longrightarrow> received_ids rows' = received_ids rows - {i}"
  "markQuarantined rows i reason = Inr rows' \<Longrightarrow> received_ids rows' = received_ids rows - {i}"
  "markFailed rows i detail = Inr rows' \<Longrightarrow> received_ids rows' = received_ids rows - {i}"
  unfolding markProcessed_def markQuarantined_def markFailed_def
  by (erule received_ids_marked; simp)+

lemma process_failed_received:
  "received_ids (inPostbacks (csIntake (fst (process_failed env s i f)))) \<subseteq> received_ids (inPostbacks (csIntake s))"
  using received_ids_marks(2,3) [of "inPostbacks (csIntake s)" i]
  by (auto simp: process_failed_def set_postbacks_def split: failure.splits sum.splits)

lemma converted_left_mono:
  "converted_left s \<Longrightarrow> received_ids (inPostbacks (csIntake s')) \<subseteq> received_ids (inPostbacks (csIntake s))
    \<Longrightarrow> csConversions s' = csConversions s \<Longrightarrow> converted_left s'"
  by (auto simp: converted_left_def)

lemma process_start_received:
  "received_ids (inPostbacks (csIntake (fst (process_start env s i)))) \<subseteq> received_ids (inPostbacks (csIntake s))"
proof (cases "List.find (\<lambda>p. pbId p = i) (inPostbacks (csIntake s))")
  case (Some p)
  obtain g r where "attribute env s p = (s\<lparr>csRegistry := g\<rparr>, r)"
    by (cases "reparse env (csRegistry s) p") (auto simp: attribute_def)
  then show ?thesis
    using Some process_failed_received [of env "s\<lparr>csRegistry := g\<rparr>" i]
    by (auto simp: process_start_def case_prod_unfold split: sum.splits)
qed (simp add: process_start_def)

lemma persist_converted_left:
  assumes "converted_left s" and "persist_transaction env s input = Inr (c, s')"
  shows "converted_left s'"
  using assms(2)
proof (rule persist_transaction_Inr)
  fix ev evaluations l1 l2 rows postbacks
  assume st: "store_conversion env input ev (csConversions s) = Inr (c, rows)"
    and m: "markProcessed (inPostbacks (csIntake s)) (pbId (piPostback input)) = Inr postbacks"
    and s': "s' = s\<lparr>csIntake := (csIntake s)\<lparr>inPostbacks := postbacks\<rparr>, csConversions := rows,
        csEvaluations := evaluations, csLedger := l2\<rparr>"
  have "map cvPostbackId rows = map cvPostbackId (csConversions s) @ [pbId (piPostback input)]"
    using store_conversion_Inr [OF st] by (auto simp: map_update_where split: option.splits)
  then have "cvPostbackId ` set rows = insert (pbId (piPostback input)) (cvPostbackId ` set (csConversions s))"
    by (metis list.set_map set_append list.simps(15) Un_insert_right empty_set sup_bot_right)
  then show ?thesis
    using assms(1) received_ids_marks(1) [OF m] s' by (auto simp: converted_left_def)
qed

lemma process_finish_converted_left:
  assumes "converted_left s"
  shows "converted_left (fst (process_finish env s input))"
proof (cases "persist_transaction env s input")
  case (Inl e)
  then show ?thesis
    using assms converted_left_mono [OF assms process_failed_received] process_failed_same
    by (auto simp: process_finish_def persist_def split: option.splits)
next
  case (Inr cs)
  then obtain c s' where cs: "persist_transaction env s input = Inr (c, s')" by (cases cs) simp
  then show ?thesis
    using persist_converted_left [OF assms cs] by (simp add: process_finish_def persist_def)
qed

lemma receive_received:
  "received_ids (inPostbacks (fst (receive ienv q e))) \<subseteq> received_ids (inPostbacks q)
    \<union> ({ieId ienv} - set (map pbId (inPostbacks q)))"
proof -
  obtain q' r where qr: "receive ienv q e = (q', r)" by fastforce
  then show ?thesis
  proof (cases rule: receive_effect)
    case (unparseable row)
    have "received_ids (inPostbacks q') \<subseteq> received_ids (inPostbacks q) \<union> {ieId ienv}"
      using unparseable(1,2) by (auto simp: received_ids_def)
    moreover have "ieId ienv \<in> {ieId ienv} - set (map pbId (inPostbacks q))" using unparseable(4) by simp
    ultimately show ?thesis unfolding qr fst_conv by blast
  next
    case (archived p t)
    from archived(1) show ?thesis
    proof (cases rule: archive_cases)
      case stored
      then show ?thesis by (auto simp: qr received_ids_def enqueueProcessing_def archived_row_def)
    next
      case repeated
      have "received_ids (inPostbacks q') \<subseteq> received_ids (inPostbacks q)"
        unfolding repeated(3) received_ids_def by (force simp: set_update_where split: if_splits)
      then show ?thesis by (auto simp: qr)
    qed (simp add: qr)
  qed (simp add: qr)
qed

lemma execConv_converted_left:
  assumes "conv_ok s" and "converted_left s" and "execConv s x = Inr s'"
  shows "converted_left s'"
proof (cases x)
  case (Receive ienv e)
  then have s': "s' = s\<lparr>csIntake := fst (receive ienv (csIntake s) e)\<rparr>" using assms(3) by simp
  have "cvPostbackId ` set (csConversions s) \<subseteq> set (map pbId (inPostbacks (csIntake s)))"
    using assms(1) by (simp add: conv_ok_def one_per_postback_def)
  then show ?thesis
    using assms(2) receive_received [of ienv "csIntake s" e] s' by (auto simp: converted_left_def)
next
  case (Start env i)
  then show ?thesis
    using assms(2,3) converted_left_mono [OF assms(2) process_start_received] process_start_same by auto
next
  case (Finish env0 s0 p env)
  then show ?thesis
    using assms(2,3) process_finish_converted_left by (auto split: sum.splits)
next
  case (Resolve i now input)
  then obtain c where "resolveHold i now s input = Inr (c, s')"
    using assms(3) by (auto simp: map_sum_def split: sum.splits)
  then show ?thesis
    by (rule resolveHold_Inr)
      (use assms(2) in \<open>auto simp: converted_left_def set_update_where image_iff split: if_splits\<close>)
next
  case (Move y)
  then show ?thesis
    using assms(2,3) by (auto simp: converted_left_def map_sum_def split: sum.splits if_splits)
next
  case (Reload g)
  then show ?thesis using assms(2,3) by (auto simp: converted_left_def)
qed

interpretation intake_to_ledger: guarded_system execConv no_conversions "\<lambda>s. conv_ok s \<and> converted_left s"
proof
  show "conv_ok no_conversions \<and> converted_left no_conversions"
    using processing.inv_init by (simp add: converted_left_def no_conversions_def)
qed (use execConv_ok execConv_converted_left in blast)

lemma run_converted_left: "conv_ok (run_conversions ops)" "converted_left (run_conversions ops)"
  using intake_to_ledger.inv_run [of ops] by (simp_all add: run_conversions_def)

section \<open>The first run of a job settles its postback\<close>

definition settled_postback :: "conv_state \<Rightarrow> id \<Rightarrow> processing_result result \<Rightarrow> bool" where
  "settled_postback s i r \<longleftrightarrow> (\<exists>p. List.find (\<lambda>p. pbId p = i) (inPostbacks (csIntake s)) = Some p \<and>
     (case r of
        Inr (Converted cid) \<Rightarrow> pbState p = PB_PROCESSED
          \<and> (\<exists>c\<in>set (csConversions s). cvId c = cid \<and> cvPostbackId c = i)
      | Inr (ResultQuarantined reason) \<Rightarrow> pbState p = PB_QUARANTINED \<and> pbErrorDetail p = Some (Reason reason)
      | Inr SkippedPostback \<Rightarrow> pbState p \<noteq> PB_RECEIVED
      | Inl _ \<Rightarrow> pbState p = PB_FAILED))"

lemma find_marked:
  assumes "List.find (\<lambda>p. pbId p = i) rows = Some p" and "\<And>x. pbId (f x) = pbId x"
  shows "update_postback rows i f = Inr (update_where (\<lambda>p. pbId p = i) f rows)
    \<and> List.find (\<lambda>p. pbId p = i) (update_where (\<lambda>p. pbId p = i) f rows) = Some (f p)"
  using find_SomeD [OF assms(1)] find_update_same [where key = pbId and f = f, OF assms]
  by (auto simp: update_postback_def)

lemma find_marks:
  assumes "List.find (\<lambda>p. pbId p = i) rows = Some p"
  shows "\<exists>rows' q. markProcessed rows i = Inr rows' \<and> List.find (\<lambda>p. pbId p = i) rows' = Some q
      \<and> pbState q = PB_PROCESSED"
    and "\<exists>rows' q. markQuarantined rows i reason = Inr rows' \<and> List.find (\<lambda>p. pbId p = i) rows' = Some q
      \<and> pbState q = PB_QUARANTINED \<and> pbErrorDetail q = Some (Reason reason)"
  unfolding markProcessed_def markQuarantined_def
  by (subst find_marked [THEN conjunct1, OF assms], simp, simp add: find_marked [THEN conjunct2, OF assms])+

lemma process_failed_settles:
  assumes "List.find (\<lambda>p. pbId p = i) (inPostbacks (csIntake s)) = Some p"
    and "process_failed env s i f = (s', r)"
  shows "settled_postback s' i r"
proof (cases f)
  case (Quarantined reason)
  then show ?thesis
    using assms(2) find_marks(2) [OF assms(1), of reason]
    by (auto simp: process_failed_def set_postbacks_def settled_postback_def)
next
  case (Thrown e)
  then show ?thesis
    using assms(2) failed_marks [OF assms(1), of env e]
    by (auto simp: process_failed_def settled_postback_def split: sum.splits)
qed

lemma persist_settles:
  assumes "persist_transaction env s input = Inr (c, s')"
    and "List.find (\<lambda>p. pbId p = pbId (piPostback input)) (inPostbacks (csIntake s)) = Some p"
  shows "settled_postback s' (pbId (piPostback input)) (Inr (Converted (cvId c)))"
  using assms(1)
proof (rule persist_transaction_Inr)
  fix ev evaluations l1 l2 rows postbacks
  assume st: "store_conversion env input ev (csConversions s) = Inr (c, rows)"
    and m: "markProcessed (inPostbacks (csIntake s)) (pbId (piPostback input)) = Inr postbacks"
    and s': "s' = s\<lparr>csIntake := (csIntake s)\<lparr>inPostbacks := postbacks\<rparr>, csConversions := rows,
        csEvaluations := evaluations, csLedger := l2\<rparr>"
  have "\<exists>x\<in>set rows. cvId x = cvId c \<and> cvPostbackId x = pbId (piPostback input)"
    using store_conversion_Inr [OF st] by (auto simp: set_update_where split: option.splits)
  moreover have "\<exists>q. List.find (\<lambda>p. pbId p = pbId (piPostback input)) postbacks = Some q \<and> pbState q = PB_PROCESSED"
    using find_marks(1) [OF assms(2)] m by auto
  ultimately show ?thesis by (auto simp: settled_postback_def s')
qed

lemma process_finish_settles:
  assumes "converted_left s" and "process_finish env s input = (s', r)"
    and "List.find (\<lambda>p. pbId p = pbId (piPostback input)) (inPostbacks (csIntake s)) = Some p"
    and "pbState p = PB_RECEIVED"
  shows "settled_postback s' (pbId (piPostback input)) r"
proof (cases "persist_transaction env s input")
  case (Inl e)
  have "pbId (piPostback input) \<in> received_ids (inPostbacks (csIntake s))"
    using find_SomeD [OF assms(3)] assms(4) unfolding received_ids_def by (metis (mono_tags) imageI mem_Collect_eq)
  then have "findByPostbackId (csConversions s) (pbId (piPostback input)) = None"
    using assms(1) unfolding findByPostbackId_def find_None_iff converted_left_def
    by (metis IntI empty_iff imageI)
  then have "process_failed env s (pbId (piPostback input)) (Thrown e) = (s', r)"
    using assms(2) Inl by (simp add: process_finish_def persist_def split: if_splits)
  then show ?thesis by (rule process_failed_settles [OF assms(3)])
next
  case (Inr cs)
  then obtain c s2 where cs: "persist_transaction env s input = Inr (c, s2)" by (cases cs) simp
  then have "s' = s2" "r = Inr (Converted (cvId c))"
    using assms(2) by (auto simp: process_finish_def persist_def)
  then show ?thesis using persist_settles [OF cs assms(3)] by simp
qed

lemma process_settles:
  assumes "converted_left s" and "process env s i = (s', r)"
    and "List.find (\<lambda>p. pbId p = i) (inPostbacks (csIntake s)) = Some p"
  shows "settled_postback s' i r"
proof (cases "pbState p = PB_RECEIVED")
  case False
  then show ?thesis using assms(2,3) by (auto simp: process_def process_start_def settled_postback_def)
next
  case True
  obtain g x where g: "attribute env s p = (s\<lparr>csRegistry := g\<rparr>, x)"
    by (cases "reparse env (csRegistry s) p") (auto simp: attribute_def)
  have found: "List.find (\<lambda>p. pbId p = i) (inPostbacks (csIntake (s\<lparr>csRegistry := g\<rparr>))) = Some p"
    using assms(3) by simp
  show ?thesis
  proof (cases x)
    case (Inl f)
    then have "process_failed env (s\<lparr>csRegistry := g\<rparr>) i f = (s', r)"
      using assms(2,3) True g by (auto simp: process_def process_start_def split: prod.splits)
    then show ?thesis by (rule process_failed_settles [OF found])
  next
    case (Inr input)
    have i: "pbId (piPostback input) = i"
      using attribute_postback [OF g [unfolded Inr]] find_SomeD [OF assms(3)] by simp
    have "process_finish env (s\<lparr>csRegistry := g\<rparr>) input = (s', r)"
      using assms(2,3) True g Inr by (simp add: process_def process_start_def)
    moreover have "converted_left (s\<lparr>csRegistry := g\<rparr>)" using assms(1) by (simp add: converted_left_def)
    ultimately show ?thesis using process_finish_settles [of "s\<lparr>csRegistry := g\<rparr>"] found True i by auto
  qed
qed

section \<open>Accepted postbacks stay on record\<close>

lemma process_failed_ids:
  "map pbId (inPostbacks (csIntake (fst (process_failed env s i f)))) = map pbId (inPostbacks (csIntake s))"
  by (auto simp: process_failed_def set_postbacks_def markQuarantined_def markFailed_def update_postback_def
      map_update_where split: failure.splits sum.splits if_splits)

lemma process_start_ids:
  "map pbId (inPostbacks (csIntake (fst (process_start env s i)))) = map pbId (inPostbacks (csIntake s))"
proof (cases "List.find (\<lambda>p. pbId p = i) (inPostbacks (csIntake s))")
  case (Some p)
  obtain g r where "attribute env s p = (s\<lparr>csRegistry := g\<rparr>, r)"
    by (cases "reparse env (csRegistry s) p") (auto simp: attribute_def)
  then show ?thesis
    using Some process_failed_ids [of env "s\<lparr>csRegistry := g\<rparr>" i]
    by (auto simp: process_start_def case_prod_unfold split: sum.splits)
qed (simp add: process_start_def)

lemma process_finish_ids:
  "map pbId (inPostbacks (csIntake (fst (process_finish env s input)))) = map pbId (inPostbacks (csIntake s))"
proof (cases "persist_transaction env s input")
  case (Inl e)
  then show ?thesis
    using process_failed_ids by (auto simp: process_finish_def persist_def split: option.splits)
next
  case (Inr cs)
  then obtain c s' where cs: "persist_transaction env s input = Inr (c, s')" by (cases cs) simp
  then have "map pbId (inPostbacks (csIntake s')) = map pbId (inPostbacks (csIntake s))"
    by (rule persist_transaction_Inr)
      (auto simp: markProcessed_def update_postback_def map_update_where split: if_splits)
  then show ?thesis using cs by (simp add: process_finish_def persist_def)
qed

lemma execConv_keeps_postbacks:
  assumes "execConv s x = Inr s'" and "i \<in> set (map pbId (inPostbacks (csIntake s)))"
  shows "i \<in> set (map pbId (inPostbacks (csIntake s')))"
proof (cases x)
  case (Receive ienv e)
  then show ?thesis using assms receive_keeps_ids [of "csIntake s" ienv e] by auto
next
  case (Resolve j now input)
  then obtain c where "resolveHold j now s input = Inr (c, s')"
    using assms(1) by (auto simp: map_sum_def split: sum.splits)
  then show ?thesis by (rule resolveHold_Inr) (use assms(2) in simp)
qed (use assms process_start_ids [of _ s] process_finish_ids [of _ s] in
  \<open>auto simp: map_sum_def simp del: set_map split: sum.splits if_splits\<close>)

lemma run_keeps_postbacks:
  "i \<in> set (map pbId (inPostbacks (csIntake s))) \<Longrightarrow> i \<in> set (map pbId (inPostbacks (csIntake (run_ops execConv s ops))))"
  by (induction ops arbitrary: s) (auto dest: execConv_keeps_postbacks simp del: set_map split: sum.splits)

text \<open>C12. Nothing that was accepted is left behind: a postback acknowledged as accepted while the queue is
  up has a job, and whatever else is delivered, processed, reviewed or moved before that job first runs,
  once it has run the postback is out of its first state, with the outcome the job answers: processed
  with its conversion stored, quarantined for the reason given, or failed when the job throws.\<close>

theorem accepted_event_is_settled:
  assumes "receive ienv (csIntake (run_conversions ops)) e = (q, Inr Accepted)" and "ieQueueUp ienv"
  shows "ieId ienv \<in> set (inQueue q)
    \<and> (case process env (run_conversions (ops @ Receive ienv e # later)) (ieId ienv) of (s', r) \<Rightarrow>
        \<exists>p. List.find (\<lambda>p. pbId p = ieId ienv) (inPostbacks (csIntake s')) = Some p \<and>
          (case r of
             Inr (Converted cid) \<Rightarrow> pbState p = PB_PROCESSED
               \<and> (\<exists>c\<in>set (csConversions s'). cvId c = cid \<and> cvPostbackId c = ieId ienv)
           | Inr (ResultQuarantined reason) \<Rightarrow> pbState p = PB_QUARANTINED \<and> pbErrorDetail p = Some (Reason reason)
           | Inr SkippedPostback \<Rightarrow> pbState p \<noteq> PB_RECEIVED
           | Inl _ \<Rightarrow> pbState p = PB_FAILED))"
proof -
  let ?s = "run_conversions (ops @ Receive ienv e # later)"
  have stored: "ieId ienv \<in> set (inQueue q) \<and> ieId ienv \<in> set (map pbId (inPostbacks q))"
    using assms(1)
  proof (cases rule: receive_effect)
    case (archived p t)
    from archived(1) show ?thesis
      by (cases rule: archive_cases) (auto simp: enqueueProcessing_def assms(2) archived_row_def)
  qed auto
  have "?s = run_ops execConv ((run_conversions ops)\<lparr>csIntake := q\<rparr>) later"
    by (simp add: run_conversions_def run_ops_append assms(1) [unfolded run_conversions_def])
  then have "ieId ienv \<in> set (map pbId (inPostbacks (csIntake ?s)))"
    using run_keeps_postbacks [of "ieId ienv" "(run_conversions ops)\<lparr>csIntake := q\<rparr>"] stored by simp
  then obtain p where p: "List.find (\<lambda>p. pbId p = ieId ienv) (inPostbacks (csIntake ?s)) = Some p"
    by (cases "List.find (\<lambda>p. pbId p = ieId ienv) (inPostbacks (csIntake ?s))") (auto simp: find_None_iff)
  obtain s' r where "process env ?s (ieId ienv) = (s', r)" by fastforce
  from process_settles [OF run_converted_left(2) this p] this stored show ?thesis
    by (auto simp: settled_postback_def)
qed

lemma accepted_event_is_settled_witness:
  "\<exists>q. receive (demo_intake_env 11) (csIntake (run_conversions [Move (OpOpen 2 7)])) demo_envelope = (q, Inr Accepted)
    \<and> 11 \<in> set (inQueue q)"
proof -
  have i: "csIntake (run_conversions [Move (OpOpen 2 7)]) = no_intake"
    by (simp add: run_conversions_def no_conversions_def is_credit_op_def)
  obtain q where q: "receive (demo_intake_env 11) (csIntake (run_conversions [Move (OpOpen 2 7)])) demo_envelope
      = (q, Inr Accepted)"
    using demo_received unfolding i by blast
  moreover have "ieQueueUp (demo_intake_env 11)" "ieId (demo_intake_env 11) = 11" by (simp_all add: demo_intake_env_def)
  ultimately show ?thesis using accepted_event_is_settled [OF q] by auto
qed

end
