(* ===== verification/Reload.thy ===== *)
theory Reload
  imports Providers
begin

text \<open>
  The serialised reload of the provider registry (\<^verbatim>\<open>providers.service.ts\<close>, \<open>reload\<close> and
  \<open>rebuild\<close>) between the writes of this process and the others: reading the table and publishing the
  snapshot are two steps, so a change can commit in between.
\<close>

section \<open>The chain\<close>

text \<open>\<open>reloadChain\<close> is a promise each reload appends itself to; what matters of it is how many
  rebuilds wait and how far the running one is. A read takes the rows of the table at that moment.\<close>

datatype rebuild_phase = RebuildIdle | RebuildReading | RebuildRead "provider list"

record reload_state =
  rlTable :: "provider list"
  rlWaiting :: nat
  rlPhase :: rebuild_phase
  rlRegistry :: registry

datatype reload_op =
    TableWrite "provider list"
  | ReloadRequest
  | RebuildBegin
  | RebuildRows bool
  | RebuildPublish

text \<open>\<open>RebuildRows False\<close> is a read that rejects: the chain goes on with the next rebuild.\<close>

fun execReload :: "adapter_map \<Rightarrow> (string \<Rightarrow> string option) \<Rightarrow> reload_state \<Rightarrow> reload_op \<Rightarrow> unit + reload_state" where
  "execReload adapters env s (TableWrite rows) = Inr (s\<lparr>rlTable := rows\<rparr>)"
| "execReload adapters env s ReloadRequest = Inr (s\<lparr>rlWaiting := rlWaiting s + 1\<rparr>)"
| "execReload adapters env s RebuildBegin = (case (rlPhase s, rlWaiting s) of
     (RebuildIdle, Suc n) \<Rightarrow> Inr (s\<lparr>rlWaiting := n, rlPhase := RebuildReading\<rparr>)
   | _ \<Rightarrow> Inl ())"
| "execReload adapters env s (RebuildRows ok) = (case rlPhase s of
     RebuildReading \<Rightarrow> Inr (s\<lparr>rlPhase := (if ok then RebuildRead (rlTable s) else RebuildIdle)\<rparr>)
   | _ \<Rightarrow> Inl ())"
| "execReload adapters env s RebuildPublish = (case rlPhase s of
     RebuildRead rows \<Rightarrow> Inr (s\<lparr>rlPhase := RebuildIdle, rlRegistry := rebuild adapters env rows\<rparr>)
   | _ \<Rightarrow> Inl ())"

definition run_reload :: "adapter_map \<Rightarrow> (string \<Rightarrow> string option) \<Rightarrow> reload_state \<Rightarrow> reload_op list \<Rightarrow> reload_state" where
  "run_reload adapters env s ops = run_ops (execReload adapters env) s ops"

definition chain_idle :: "reload_state \<Rightarrow> bool" where
  "chain_idle s \<longleftrightarrow> rlWaiting s = 0 \<and> rlPhase s = RebuildIdle"

text \<open>A process that starts: an empty registry, and the reload the bootstrap requests.\<close>

definition booting :: "provider list \<Rightarrow> reload_state" where
  "booting rows = \<lparr>rlTable = rows, rlWaiting = 1, rlPhase = RebuildIdle, rlRegistry = empty_registry\<rparr>"

section \<open>The last change reaches the registry\<close>

text \<open>What holds of the table \<open>t\<close> from the request that follows its last write on: a rebuild that has
  not read yet is on the chain, or the running one has read \<open>t\<close>, or \<open>t\<close> is what the registry shows.\<close>

definition catching_up :: "adapter_map \<Rightarrow> (string \<Rightarrow> string option) \<Rightarrow> provider list \<Rightarrow> reload_state \<Rightarrow> bool" where
  "catching_up adapters env t s \<longleftrightarrow> rlTable s = t
     \<and> (0 < rlWaiting s \<or> rlPhase s = RebuildReading \<or> rlPhase s = RebuildRead t
        \<or> rlPhase s = RebuildIdle \<and> rlRegistry s = rebuild adapters env t)"

definition no_write_no_failure :: "reload_op \<Rightarrow> bool" where
  "no_write_no_failure x = (case x of TableWrite _ \<Rightarrow> False | RebuildRows ok \<Rightarrow> ok | _ \<Rightarrow> True)"

definition execQuiet :: "adapter_map \<Rightarrow> (string \<Rightarrow> string option) \<Rightarrow> reload_state \<Rightarrow> reload_op \<Rightarrow> unit + reload_state" where
  "execQuiet adapters env s x = (if no_write_no_failure x then execReload adapters env s x else Inl ())"

lemma execQuiet_run:
  "list_all no_write_no_failure ops \<Longrightarrow> run_ops (execQuiet adapters env) s ops = run_ops (execReload adapters env) s ops"
  by (induction ops arbitrary: s) (auto simp: execQuiet_def split: sum.splits)

lemma catching_up_step:
  assumes "catching_up adapters env t s" and "execQuiet adapters env s x = Inr s'"
  shows "catching_up adapters env t s'"
  using assms
  by (cases x) (auto simp: catching_up_def execQuiet_def no_write_no_failure_def
      split: if_splits rebuild_phase.splits nat.splits)

lemma quiet_reloads_keep:
  "catching_up adapters env t s \<Longrightarrow> catching_up adapters env t (run_ops (execQuiet adapters env) s ops)"
  by (induction ops arbitrary: s) (auto intro: catching_up_step split: sum.splits)

text \<open>C31. The last change reaches the registry: once the table has been written for the last time, a
  reload requested after that write leaves the registry showing exactly that table when the chain has
  drained, whatever rebuilds of older states were waiting, reading or about to publish and however many
  more are requested, provided no later read fails.\<close>

theorem last_change_reaches_the_registry:
  assumes "list_all no_write_no_failure later"
    and "chain_idle (run_reload adapters env s (TableWrite rows # ReloadRequest # later))"
  shows "rlRegistry (run_reload adapters env s (TableWrite rows # ReloadRequest # later)) = rebuild adapters env rows"
proof -
  let ?s = "s\<lparr>rlTable := rows, rlWaiting := rlWaiting s + 1\<rparr>"
  have run: "run_reload adapters env s (TableWrite rows # ReloadRequest # later)
      = run_ops (execQuiet adapters env) ?s later"
    by (simp add: run_reload_def execQuiet_run [OF assms(1)])
  have "catching_up adapters env rows ?s" by (simp add: catching_up_def)
  then have "catching_up adapters env rows (run_ops (execQuiet adapters env) ?s later)"
    by (rule quiet_reloads_keep)
  then show ?thesis
    using assms(2) by (simp add: run catching_up_def chain_idle_def)
qed

section \<open>The chain drains\<close>

text \<open>What is left to do, and the next step of the chain with the outcome of its read.\<close>

definition chain_work :: "reload_state \<Rightarrow> nat" where
  "chain_work s = 3 * rlWaiting s + (case rlPhase s of RebuildIdle \<Rightarrow> 0 | RebuildReading \<Rightarrow> 2 | RebuildRead _ \<Rightarrow> 1)"

definition chain_op :: "reload_state \<Rightarrow> bool \<Rightarrow> reload_op" where
  "chain_op s ok = (case rlPhase s of RebuildIdle \<Rightarrow> RebuildBegin | RebuildReading \<Rightarrow> RebuildRows ok
     | RebuildRead _ \<Rightarrow> RebuildPublish)"

definition chain_step :: "adapter_map \<Rightarrow> (string \<Rightarrow> string option) \<Rightarrow> reload_state \<Rightarrow> bool \<Rightarrow> reload_state" where
  "chain_step adapters env s ok = (case execReload adapters env s (chain_op s ok) of Inl _ \<Rightarrow> s | Inr s' \<Rightarrow> s')"

lemma chain_work_0: "chain_work s = 0 \<longleftrightarrow> chain_idle s"
  by (auto simp: chain_work_def chain_idle_def split: rebuild_phase.splits)

lemma chain_step_work:
  "0 < chain_work s \<Longrightarrow> chain_work (chain_step adapters env s ok) < chain_work s"
  by (auto simp: chain_work_def chain_step_def chain_op_def split: rebuild_phase.splits nat.splits)

lemma chain_step_idle: "chain_idle s \<Longrightarrow> chain_step adapters env s ok = s"
  by (simp add: chain_idle_def chain_step_def chain_op_def)

text \<open>The chain drains: whatever was requested and however many of its reads reject, after as many
  steps as there is work (three for every waiting rebuild) no rebuild waits or runs; a rejected read
  never freezes the registry.\<close>

theorem reload_chain_drains:
  "chain_idle (foldl (chain_step adapters env) s (map outcome [0..<chain_work s + n]))"
proof -
  have "chain_work s \<le> length oks \<Longrightarrow> chain_idle (foldl (chain_step adapters env) s oks)" for s oks
  proof (induction oks arbitrary: s)
    case (Cons x xs)
    show ?case
    proof (cases "chain_idle s")
      case True
      then show ?thesis using Cons.IH [of s] chain_step_idle [OF True] by (simp add: chain_work_0 [symmetric])
    next
      case False
      then have "chain_work (chain_step adapters env s x) < chain_work s"
        by (intro chain_step_work) (simp add: chain_work_0 [symmetric])
      then show ?thesis using Cons by simp
    qed
  qed (simp add: chain_work_0)
  then show ?thesis by simp
qed

section \<open>A concrete run\<close>

text \<open>A provider is created while the rebuild of the boot is about to publish the empty table.\<close>

definition demo_row_created :: provider where
  "demo_row_created = \<lparr>prId = 1, prSlug = ''mock'', prDisplayName = ''Mock'', prIsEnabled = True,
     prPostbackIpRanges = [], prSyncIntervalMinutes = 30, prHealthState = HEALTHY, prConsecutiveFailureCount = 0,
     prLastSuccessfulSyncAt = None, prLastFailureReason = None, prCreatedAt = 0\<rparr>"

definition demo_reload_ops :: "reload_op list" where
  "demo_reload_ops = [RebuildPublish, RebuildBegin, RebuildRows True, RebuildPublish]"

lemma last_change_reaches_the_registry_witness:
  "rlRegistry (run_reload demo_adapters (\<lambda>_. None) ((booting [])\<lparr>rlWaiting := 0, rlPhase := RebuildRead []\<rparr>)
      (TableWrite [demo_row_created] # ReloadRequest # demo_reload_ops))
    = rebuild demo_adapters (\<lambda>_. None) [demo_row_created]"
proof (rule last_change_reaches_the_registry)
  show "list_all no_write_no_failure demo_reload_ops" by (simp add: demo_reload_ops_def no_write_no_failure_def)
  show "chain_idle (run_reload demo_adapters (\<lambda>_. None) ((booting [])\<lparr>rlWaiting := 0, rlPhase := RebuildRead []\<rparr>)
      (TableWrite [demo_row_created] # ReloadRequest # demo_reload_ops))"
    by (simp add: run_reload_def demo_reload_ops_def booting_def chain_idle_def)
qed

end
