(* ===== verification/TestDatabase.thy ===== *)
theory TestDatabase
  imports Prelude UriText
begin

text \<open>
  Which database the integration suite may touch (\<^verbatim>\<open>core/database/test-database.ts\<close>). The URL
  parser and \<open>decodeURIComponent\<close> are arguments: the path of a URL, the URL with another path, and
  the decoded text, \<^term>\<open>None\<close> where the library throws. The texts of the refusals, with their
  redacted URLs, are not modelled.
\<close>

record url_library =
  ulPath :: "string \<Rightarrow> string option"
  ulWithPath :: "string \<Rightarrow> string \<Rightarrow> string"
  ulDecode :: "string \<Rightarrow> string option"

datatype test_database_error = MissingDatabaseUrlError | UnsafeTestDatabaseError | InvalidUrl | MalformedUri

record test_database_env =
  teDatabaseUrl :: "string option"
  teTestDatabaseUrl :: "string option"

definition isTestName :: "string \<Rightarrow> bool" where
  "isTestName name \<longleftrightarrow> drop (length name - length ''_test'') name = ''_test''"

fun without_slash :: "string \<Rightarrow> string" where
  "without_slash (c # cs) = (if c = CHR ''/'' then cs else c # cs)"
| "without_slash [] = []"

definition database_name :: "url_library \<Rightarrow> string \<Rightarrow> test_database_error + string" where
  "database_name lib url = (case ulPath lib url of
     None \<Rightarrow> Inl InvalidUrl
   | Some path \<Rightarrow> (case ulDecode lib (without_slash path) of None \<Rightarrow> Inl MalformedUri | Some name \<Rightarrow> Inr name))"

definition deriveFrom :: "url_library \<Rightarrow> string option \<Rightarrow> test_database_error + string" where
  "deriveFrom lib base = (case base of
     None \<Rightarrow> Inl MissingDatabaseUrlError
   | Some b \<Rightarrow> if js_trim b = [] then Inl MissingDatabaseUrlError
       else (case database_name lib b of
           Inl e \<Rightarrow> Inl e
         | Inr name \<Rightarrow>
             if name = [] then Inl MissingDatabaseUrlError
             else if isTestName name then Inr b
             else Inr (ulWithPath lib b (CHR ''/'' # encodeURIComponent (name @ ''_test'')))))"

definition assertIsTestDatabase :: "url_library \<Rightarrow> string \<Rightarrow> test_database_error + unit" where
  "assertIsTestDatabase lib url = (case database_name lib url of
     Inl _ \<Rightarrow> Inl UnsafeTestDatabaseError
   | Inr name \<Rightarrow> if isTestName name then Inr () else Inl UnsafeTestDatabaseError)"

definition resolveTestDatabaseUrl :: "url_library \<Rightarrow> test_database_env \<Rightarrow> test_database_error + string" where
  "resolveTestDatabaseUrl lib env =
     (let explicit = map_option js_trim (teTestDatabaseUrl env) in
      case (if explicit = None \<or> explicit = Some [] then deriveFrom lib (teDatabaseUrl env) else Inr (the explicit)) of
        Inl e \<Rightarrow> Inl e
      | Inr resolved \<Rightarrow> map_sum (\<lambda>e. e) (\<lambda>_. resolved) (assertIsTestDatabase lib resolved))"

section \<open>The guard\<close>

lemma isTestName_append [simp]: "isTestName (name @ ''_test'')"
  by (simp add: isTestName_def)

text \<open>Whatever the environment holds, the suite is only ever given a database whose name ends in
  \<open>_test\<close>: the explicit URL when there is one, otherwise one derived from the application's.\<close>

theorem suite_meets_test_databases_only:
  assumes "resolveTestDatabaseUrl lib env = Inr url"
  shows "(\<exists>name. database_name lib url = Inr name \<and> isTestName name)
    \<and> (case map_option js_trim (teTestDatabaseUrl env) of
         Some (c # cs) \<Rightarrow> url = c # cs
       | _ \<Rightarrow> deriveFrom lib (teDatabaseUrl env) = Inr url)"
  using assms
  by (auto simp: resolveTestDatabaseUrl_def assertIsTestDatabase_def Let_def map_sum_def
      split: sum.splits if_splits option.splits list.splits)

text \<open>What the code relies on in the library: a URL keeps the path it is given, and decoding undoes
  encoding.\<close>

definition url_library_ok :: "url_library \<Rightarrow> string \<Rightarrow> string \<Rightarrow> bool" where
  "url_library_ok lib base name \<longleftrightarrow>
     ulPath lib (ulWithPath lib base (CHR ''/'' # encodeURIComponent name)) = Some (CHR ''/'' # encodeURIComponent name)
     \<and> ulDecode lib (encodeURIComponent name) = Some name"

text \<open>With only the application's URL set, its database's name gets the suffix unless it has it.\<close>

theorem derived_database_is_the_applications_with_suffix:
  assumes "url_library_ok lib base (name @ ''_test'')" and "teTestDatabaseUrl env = None" and "teDatabaseUrl env = Some base"
    and "js_trim base \<noteq> []" and "database_name lib base = Inr name" and "name \<noteq> []"
  shows "\<exists>url. resolveTestDatabaseUrl lib env = Inr url
    \<and> database_name lib url = Inr (if isTestName name then name else name @ ''_test'')"
proof -
  let ?url = "ulWithPath lib base (CHR ''/'' # encodeURIComponent (name @ ''_test''))"
  have n: "database_name lib ?url = Inr (name @ ''_test'')"
    using assms(1) by (simp add: database_name_def url_library_ok_def)
  show ?thesis
    using assms n by (auto simp: resolveTestDatabaseUrl_def deriveFrom_def assertIsTestDatabase_def)
qed

section \<open>A concrete library\<close>

definition demo_url_library :: url_library where
  "demo_url_library = \<lparr>ulPath = Some, ulWithPath = (\<lambda>_ p. p),
     ulDecode = (\<lambda>t. if t = ''gemone'' then Some ''gemone'' else if t = ''gemone_test'' then Some ''gemone_test'' else None)\<rparr>"

lemma suite_meets_test_databases_only_witness:
  "\<exists>name. database_name demo_url_library ''/gemone_test'' = Inr name \<and> isTestName name"
proof -
  have "resolveTestDatabaseUrl demo_url_library \<lparr>teDatabaseUrl = Some ''/gemone'', teTestDatabaseUrl = None\<rparr>
      = Inr ''/gemone_test''"
    by code_simp
  from suite_meets_test_databases_only [OF this] show ?thesis by blast
qed

lemma derived_database_is_the_applications_with_suffix_witness:
  "\<exists>url. resolveTestDatabaseUrl demo_url_library \<lparr>teDatabaseUrl = Some ''/gemone'', teTestDatabaseUrl = None\<rparr> = Inr url
    \<and> database_name demo_url_library url = Inr ''gemone_test''"
proof -
  have ok: "url_library_ok demo_url_library ''/gemone'' (''gemone'' @ ''_test'')" unfolding url_library_ok_def by code_simp
  have n: "database_name demo_url_library ''/gemone'' = Inr ''gemone''" "\<not> isTestName ''gemone''" "js_trim ''/gemone'' \<noteq> []"
    by code_simp+
  from derived_database_is_the_applications_with_suffix
    [OF ok, of "\<lparr>teDatabaseUrl = Some ''/gemone'', teTestDatabaseUrl = None\<rparr>"] n
  show ?thesis by simp
qed

end
