(* ===== verification/AuthController.thy ===== *)
theory AuthController
  imports AuthFlows Edge
begin

text \<open>
  The HTTP edge of the auth module: \<^verbatim>\<open>auth.controller.ts\<close> and the refresh cookie it sets
  (\<^verbatim>\<open>refresh-cookie.ts\<close>). An endpoint answers with a status, the \<open>Set-Cookie\<close> headers and
  a JSON body; an error that leaves the service is rendered by the exception filter with its own
  status. What Express makes of a cookie (\<open>response.cookie\<close>, \<open>response.clearCookie\<close>) and the
  JSON texts of a profile and of an error are arguments.
\<close>

record web_response =
  wrStatus :: nat
  wrCookies :: "string list"
  wrBody :: "json option"

record cookie_options =
  coHttpOnly :: bool
  coSecure :: bool
  coSameSite :: string
  coPath :: string
  coExpires :: "millis option"
  coDomain :: "string option"

record controller =
  ctCookieSecure :: bool
  ctCookieDomain :: "string option"
  ctSetCookie :: "string \<Rightarrow> string \<Rightarrow> cookie_options \<Rightarrow> string"
  ctClearCookie :: "string \<Rightarrow> cookie_options \<Rightarrow> string"
  ctProfile :: "user_profile \<Rightarrow> json"
  ctError :: "app_error \<Rightarrow> json"

section \<open>The refresh cookie\<close>

definition REFRESH_COOKIE_NAME :: string where
  "REFRESH_COOKIE_NAME = ''gemone_rt''"

definition REFRESH_COOKIE_PATH :: string where
  "REFRESH_COOKIE_PATH = ''/auth''"

definition buildRefreshCookieOptions :: "controller \<Rightarrow> millis \<Rightarrow> cookie_options" where
  "buildRefreshCookieOptions c expiresAt = \<lparr>coHttpOnly = True, coSecure = ctCookieSecure c, coSameSite = ''lax'',
     coPath = REFRESH_COOKIE_PATH, coExpires = Some expiresAt, coDomain = truthy (ctCookieDomain c)\<rparr>"

definition setRefreshCookie :: "controller \<Rightarrow> string \<Rightarrow> millis \<Rightarrow> string" where
  "setRefreshCookie c token expiresAt = ctSetCookie c REFRESH_COOKIE_NAME token (buildRefreshCookieOptions c expiresAt)"

definition clearRefreshCookie :: "controller \<Rightarrow> string" where
  "clearRefreshCookie c = ctClearCookie c REFRESH_COOKIE_NAME ((buildRefreshCookieOptions c 0)\<lparr>coExpires := None\<rparr>)"

section \<open>Endpoints\<close>

definition error_answer :: "controller \<Rightarrow> app_error \<Rightarrow> web_response" where
  "error_answer c e = \<lparr>wrStatus = error_status_of e, wrCookies = [], wrBody = Some (ctError c e)\<rparr>"

definition respondWithSession :: "controller \<Rightarrow> nat \<Rightarrow> user_profile \<times> issued_session \<Rightarrow> web_response" where
  "respondWithSession c status r = (case r of (user, session) \<Rightarrow>
     \<lparr>wrStatus = status,
      wrCookies = [setRefreshCookie c (isRefreshToken session) (isRefreshExpiresAt session)],
      wrBody = Some (JObj [(''user'', ctProfile c user), (''accessToken'', JStr (isAccessToken session)),
        (''expiresIn'', JNum (of_int (isExpiresIn session))), (''tokenType'', JStr ''Bearer'')])\<rparr>)"

definition answer :: "controller \<Rightarrow> nat \<Rightarrow> (user_profile \<times> issued_session) result \<Rightarrow> web_response" where
  "answer c status r = (case r of Inl e \<Rightarrow> error_answer c e | Inr x \<Rightarrow> respondWithSession c status x)"

definition no_content :: web_response where
  "no_content = \<lparr>wrStatus = 204, wrCookies = [], wrBody = None\<rparr>"

text \<open>The throttle guard of the public endpoints runs first; its counter's reply is an argument.\<close>

definition register_endpoint :: "controller \<Rightarrow> auth_ports \<Rightarrow> int \<Rightarrow> counter_reply \<Rightarrow> bool \<Rightarrow> auth_state \<Rightarrow> millis \<Rightarrow> id \<times> id
    \<Rightarrow> fresh_token \<Rightarrow> fresh_token \<Rightarrow> id \<Rightarrow> string \<Rightarrow> string \<Rightarrow> session_context \<Rightarrow> auth_state \<times> web_response" where
  "register_endpoint c ports limit reply queued s now ids freshLink fresh familyId email password ctx =
     (case publicReserve limit (scxIp ctx) reply of
        Inl e \<Rightarrow> (s, error_answer c e)
      | Inr _ \<Rightarrow> (case register ports queued s now ids freshLink fresh familyId email password ctx of
          (s', r) \<Rightarrow> (s', answer c 201 r)))"

definition login_endpoint :: "controller \<Rightarrow> auth_ports \<Rightarrow> auth_state \<Rightarrow> millis \<Rightarrow> fresh_token \<Rightarrow> id \<Rightarrow> counter_reply
    \<Rightarrow> counter_reply \<Rightarrow> string \<Rightarrow> string \<Rightarrow> session_context \<Rightarrow> auth_state \<times> web_response" where
  "login_endpoint c ports s now fresh familyId accountReply ipReply email password ctx =
     (case login ports s now fresh familyId accountReply ipReply email password ctx of
        (events, s', r) \<Rightarrow> (s', answer c 200 r))"

definition verify_email_endpoint :: "controller \<Rightarrow> auth_ports \<Rightarrow> int \<Rightarrow> counter_reply \<Rightarrow> auth_state \<Rightarrow> millis \<Rightarrow> string
    \<Rightarrow> session_context \<Rightarrow> auth_state \<times> web_response" where
  "verify_email_endpoint c ports limit reply s now token ctx =
     (case publicReserve limit (scxIp ctx) reply of
        Inl e \<Rightarrow> (s, error_answer c e)
      | Inr _ \<Rightarrow> (case verifyEmail ports s now token of
          Inl e \<Rightarrow> (s, error_answer c e) | Inr s' \<Rightarrow> (s', no_content)))"

definition forgot_password_endpoint :: "controller \<Rightarrow> auth_ports \<Rightarrow> int \<Rightarrow> counter_reply \<Rightarrow> bool \<Rightarrow> auth_state \<Rightarrow> millis
    \<Rightarrow> fresh_token \<Rightarrow> string \<Rightarrow> session_context \<Rightarrow> auth_state \<times> web_response" where
  "forgot_password_endpoint c ports limit reply queued s now fresh email ctx =
     (case publicReserve limit (scxIp ctx) reply of
        Inl e \<Rightarrow> (s, error_answer c e)
      | Inr _ \<Rightarrow> (requestPasswordReset ports queued s now fresh email, no_content))"

definition reset_password_endpoint :: "controller \<Rightarrow> auth_ports \<Rightarrow> int \<Rightarrow> counter_reply \<Rightarrow> auth_state \<Rightarrow> millis \<Rightarrow> string
    \<Rightarrow> string \<Rightarrow> session_context \<Rightarrow> auth_state \<times> web_response" where
  "reset_password_endpoint c ports limit reply s now token password ctx =
     (case publicReserve limit (scxIp ctx) reply of
        Inl e \<Rightarrow> (s, error_answer c e)
      | Inr _ \<Rightarrow> (case resetPassword ports s now token password of
          Inl e \<Rightarrow> (s, error_answer c e) | Inr s' \<Rightarrow> (s', no_content)))"

definition refresh_endpoint :: "controller \<Rightarrow> auth_ports \<Rightarrow> auth_state \<Rightarrow> millis \<Rightarrow> millis \<Rightarrow> fresh_token \<Rightarrow> json option
    \<Rightarrow> json option \<Rightarrow> session_context \<Rightarrow> auth_state \<times> web_response" where
  "refresh_endpoint c ports s now later fresh fromCookie fromBody ctx =
     (case readRefreshToken fromCookie fromBody of
        None \<Rightarrow> (s, error_answer c (DomainError AUTH_REFRESH_INVALID 401))
      | Some token \<Rightarrow> (case refresh ports s now later fresh token ctx of (s', r) \<Rightarrow> (s', answer c 200 r)))"

definition logout_endpoint :: "controller \<Rightarrow> auth_ports \<Rightarrow> auth_state \<Rightarrow> millis \<Rightarrow> json option \<Rightarrow> json option
    \<Rightarrow> auth_state \<times> web_response" where
  "logout_endpoint c ports s now fromCookie fromBody =
     (logout ports s now (readRefreshToken fromCookie fromBody), no_content\<lparr>wrCookies := [clearRefreshCookie c]\<rparr>)"

end
