(* ===== verification/WebUrl.thy ===== *)
theory WebUrl
  imports UriText
begin

text \<open>
  How \<^verbatim>\<open>apps/web\<close> builds the addresses it calls and redirects to:
  \<open>apiPath\<close> of \<^verbatim>\<open>lib/server/api.ts\<close>, the admin proxy's target
  (\<^verbatim>\<open>routes/api/admin/[...path]/+server.ts\<close>), the route guard of
  \<^verbatim>\<open>hooks.server.ts\<close> and \<open>safeNext\<close> of the login page.

  The library functions they rest on are defined first: the inverse of \<open>encodeURIComponent\<close>
  on Latin-1 text, and the part of the WHATWG URL parser that
  decides which path a request reaches. \<open>url_segments\<close> is that parser's path state for an
  \<open>http\<close> address whose text after the host is given: controls and spaces are stripped from
  the end, tabs and line breaks everywhere, the path stops at \<open>?\<close> or \<open>#\<close>, a backslash
  separates like a slash, and dot segments (also with \<open>%2e\<close>) are resolved.
\<close>

section \<open>Percent encoding\<close>

text \<open>\<open>None\<close> where the function throws, and where the text it gives leaves Latin-1.\<close>

definition byte_of :: "char \<Rightarrow> char \<Rightarrow> nat option" where
  "byte_of a b = (if is_hex a \<and> is_hex b then Some (16 * hex_value a + hex_value b) else None)"

fun decodeURIComponent :: "string \<Rightarrow> string option" where
  "decodeURIComponent [] = Some []"
| "decodeURIComponent (c # cs) = (if c \<noteq> CHR ''%'' then map_option (\<lambda>s. c # s) (decodeURIComponent cs)
     else (case cs of
       a # b # r \<Rightarrow> (case byte_of a b of
           None \<Rightarrow> None
         | Some n \<Rightarrow> if n < 128 then map_option (\<lambda>s. char_of n # s) (decodeURIComponent r)
             else if n = 194 \<or> n = 195 then (case r of
               p # a2 # b2 # r2 \<Rightarrow> (case byte_of a2 b2 of
                   None \<Rightarrow> None
                 | Some m \<Rightarrow> if p = CHR ''%'' \<and> 128 \<le> m \<and> m < 192
                     then map_option (\<lambda>s. char_of (64 * (n - 192) + (m - 128)) # s) (decodeURIComponent r2) else None)
             | _ \<Rightarrow> None)
             else None)
     | _ \<Rightarrow> None))"

text \<open>\<open>URLSearchParams.get\<close> on one well-formed value: a plus is a space.\<close>

definition query_decode :: "string \<Rightarrow> string option" where
  "query_decode s = decodeURIComponent (map (\<lambda>c. if c = CHR ''+'' then CHR '' '' else c) s)"

section \<open>The path of a URL\<close>

definition backslash :: char where
  "backslash = CHR 0x5C"

definition url_control :: "char \<Rightarrow> bool" where
  "url_control c \<longleftrightarrow> code_unit c \<le> 32"

definition url_newline :: "char \<Rightarrow> bool" where
  "url_newline c \<longleftrightarrow> code_unit c \<in> {9, 10, 13}"

definition single_dot :: "string \<Rightarrow> bool" where
  "single_dot s \<longleftrightarrow> js_lower s = ''.'' \<or> js_lower s = ''%2e''"

definition double_dot :: "string \<Rightarrow> bool" where
  "double_dot s \<longleftrightarrow> js_lower s \<in> {''..'', ''.%2e'', ''%2e.'', ''%2e%2e''}"

fun resolve_dots :: "string list \<Rightarrow> string list \<Rightarrow> string list" where
  "resolve_dots acc [] = rev acc"
| "resolve_dots acc [s] = rev (if double_dot s then [] # tl acc else if single_dot s then [] # acc else s # acc)"
| "resolve_dots acc (s # t # ss) =
     resolve_dots (if double_dot s then tl acc else if single_dot s then acc else s # acc) (t # ss)"

definition url_text :: "string \<Rightarrow> string" where
  "url_text s = filter (\<lambda>c. \<not> url_newline c) (rev (dropWhile url_control (rev s)))"

definition url_segments :: "string \<Rightarrow> string list" where
  "url_segments s = resolve_dots [] (tl (split_on CHR ''/''
     (map (\<lambda>c. if c = backslash then CHR ''/'' else c)
       (takeWhile (\<lambda>c. c \<noteq> CHR ''?'' \<and> c \<noteq> CHR ''#'') (url_text s)))))"

text \<open>Whether a \<open>Location\<close> that starts with a slash names another host: two separators.\<close>

definition names_host :: "string \<Rightarrow> bool" where
  "names_host s = (case url_text (dropWhile url_control s) of
     a # b # _ \<Rightarrow> (a = CHR ''/'' \<or> a = backslash) \<and> (b = CHR ''/'' \<or> b = backslash)
   | _ \<Rightarrow> False)"

section \<open>The paths the web app builds\<close>

text \<open>\<open>apiPath\<close>: the template's parts, with the encoded values between them; a missing value is
  empty.\<close>

fun interpolate :: "string list \<Rightarrow> string option list \<Rightarrow> string" where
  "interpolate [] values = []"
| "interpolate (part # parts) [] = encodeURIComponent [] @ part @ interpolate parts []"
| "interpolate (part # parts) (v # values) =
     encodeURIComponent (case v of None \<Rightarrow> [] | Some s \<Rightarrow> s) @ part @ interpolate parts values"

definition apiPath :: "string list \<Rightarrow> string option list \<Rightarrow> string" where
  "apiPath parts values = (case parts of [] \<Rightarrow> [] | part # rest \<Rightarrow> part @ interpolate rest values)"

text \<open>The admin proxy's target, \<open>None\<close> where it answers 404 itself.\<close>

definition proxy_target :: "string \<Rightarrow> string \<Rightarrow> string option" where
  "proxy_target path search = (if path = [] \<or> ''..'' \<in> set (split_on CHR ''/'' path) then None
     else Some (''/admin/'' @ path @ search))"

definition bodyFor :: "nat \<Rightarrow> string \<Rightarrow> string option" where
  "bodyFor status payload = (if status = 204 \<or> status = 304 then None
     else if payload = [] then None else Some payload)"

section \<open>Redirects\<close>

datatype page_outcome = Proceed | Redirect nat string | ErrorPage nat string

definition PROTECTED_PREFIXES :: "string list" where
  "PROTECTED_PREFIXES = [''/dashboard'', ''/offers'', ''/earnings'', ''/payouts'', ''/admin'']"

definition GUEST_ONLY_PATHS :: "string list" where
  "GUEST_ONLY_PATHS = [''/login'', ''/register'']"

definition handle :: "bool \<Rightarrow> string \<Rightarrow> string \<Rightarrow> page_outcome" where
  "handle session path search =
     (if \<not> session \<and> list_ex (starts_with path) PROTECTED_PREFIXES
      then Redirect 303 (''/login?next='' @ encodeURIComponent (path @ search))
      else if session \<and> path \<in> set GUEST_ONLY_PATHS then Redirect 303 ''/dashboard''
      else Proceed)"

definition safeNext :: "string option \<Rightarrow> string" where
  "safeNext next_path = (case next_path of
     None \<Rightarrow> ''/dashboard''
   | Some s \<Rightarrow> if s = [] \<or> \<not> starts_with s ''/'' \<or> starts_with s ''//'' then ''/dashboard'' else s)"

section \<open>Decoding undoes encoding\<close>

lemma hex_digit_code: "d < 16 \<Longrightarrow> code_unit (hex_digit d) = (if d < 10 then 48 + d else 55 + d)"
  by (simp add: hex_digit_def code_unit_def of_char_of)

lemma hex_digit_back: "d < 16 \<Longrightarrow> is_hex (hex_digit d) \<and> hex_value (hex_digit d) = d"
  by (auto simp: is_hex_def is_digit_def hex_value_def Let_def hex_digit_code)

lemma byte_of_percent: "n < 256 \<Longrightarrow> byte_of (hex_digit (n div 16)) (hex_digit (n mod 16)) = Some n"
  using hex_digit_back [of "n div 16"] hex_digit_back [of "n mod 16"] by (simp add: byte_of_def)

lemma code_unit_bound: "code_unit c < 256"
  unfolding code_unit_def by (rule nat_of_char_less_256)

lemma code_unit_inject: "code_unit a = code_unit b \<longleftrightarrow> a = b"
  unfolding code_unit_def by (metis char_of_char)

lemma decode_encode_char: "decodeURIComponent (encode_char c @ s) = map_option (\<lambda>t. c # t) (decodeURIComponent s)"
proof -
  let ?n = "code_unit c"
  have n: "?n < 256" by (rule code_unit_bound)
  have c: "char_of ?n = c" by (simp add: code_unit_def)
  consider "uri_unreserved c" | "\<not> uri_unreserved c" "?n < 128" | "\<not> uri_unreserved c" "\<not> ?n < 128" by blast
  then show ?thesis
  proof cases
    case 1
    then have "c \<noteq> CHR ''%''" by (auto simp: uri_unreserved_def code_unit_def)
    then show ?thesis using 1 by (simp add: encode_char_def)
  next
    case 2
    then show ?thesis using byte_of_percent [OF n] c by (simp add: encode_char_def percent_def Let_def)
  next
    case 3
    have "?n div 64 = 2 \<or> ?n div 64 = 3" using 3(2) n by auto
    then have lead: "192 + ?n div 64 = 194 \<or> 192 + ?n div 64 = 195" by auto
    have b: "byte_of (hex_digit ((192 + ?n div 64) div 16)) (hex_digit ((192 + ?n div 64) mod 16)) = Some (192 + ?n div 64)"
      "byte_of (hex_digit ((128 + ?n mod 64) div 16)) (hex_digit ((128 + ?n mod 64) mod 16)) = Some (128 + ?n mod 64)"
      using lead by (intro byte_of_percent; auto)+
    have e: "encode_char c = percent (192 + ?n div 64) @ percent (128 + ?n mod 64)"
      using 3 by (simp add: encode_char_def Let_def)
    have "64 * (?n div 64) + ?n mod 64 = ?n" by simp
    then show ?thesis
      unfolding e percent_def using lead by (simp add: b c)
  qed
qed

lemma decode_encode [simp]: "decodeURIComponent (encodeURIComponent s) = Some s"
proof (induction s)
  case (Cons c s)
  then show ?case using decode_encode_char [of c "encodeURIComponent s"] by (simp add: encodeURIComponent_def)
qed (simp add: encodeURIComponent_def)

section \<open>What a path resolves to\<close>

text \<open>Text that the URL parser leaves alone: no separator, no end of path, nothing it strips.\<close>

definition url_safe :: "char \<Rightarrow> bool" where
  "url_safe c \<longleftrightarrow> code_unit c > 32 \<and> c \<noteq> CHR ''/'' \<and> c \<noteq> backslash \<and> c \<noteq> CHR ''?'' \<and> c \<noteq> CHR ''#''"

definition under :: "string list \<Rightarrow> string" where
  "under segments = concat (map (\<lambda>s. CHR ''/'' # s) segments)"

lemma under_simps [simp]: "under [] = []" "under (s # ss) = CHR ''/'' # s @ under ss" "under (xs @ ys) = under xs @ under ys"
  by (simp_all add: under_def)

lemma dropWhile_no: "\<forall>x\<in>set s. \<not> p x \<Longrightarrow> dropWhile p s = s"
  by (cases s) auto

lemma url_text_id: "\<forall>c\<in>set s. code_unit c > 32 \<Longrightarrow> url_text s = s"
proof -
  assume c: "\<forall>c\<in>set s. code_unit c > 32"
  then have "dropWhile url_control (rev s) = rev s" by (intro dropWhile_no) (auto simp: url_control_def)
  moreover have "\<forall>c\<in>set s. \<not> url_newline c" using c by (auto simp: url_newline_def)
  ultimately show ?thesis by (simp add: url_text_def filter_id_conv)
qed

lemma split_on_join:
  "\<forall>s\<in>set ss. c \<notin> set s \<Longrightarrow> c \<notin> set s \<Longrightarrow> split_on c (s @ concat (map (\<lambda>t. c # t) ss)) = s # ss"
proof (induction ss arbitrary: s)
  case Nil
  then show ?case by (simp add: split_on_single)
next
  case (Cons t ss)
  have "c \<notin> set s \<Longrightarrow> split_on c (s @ c # r) = s # split_on c r" for s r
    by (induction s) auto
  then show ?case using Cons by simp
qed

lemma url_segments_under:
  assumes "\<forall>s\<in>set segments. list_all url_safe s"
  shows "url_segments (under segments) = resolve_dots [] segments"
proof -
  let ?s = "under segments"
  have c: "\<forall>c\<in>set ?s. url_safe c \<or> c = CHR ''/''" using assms by (auto simp: under_def list_all_iff)
  have slash: "code_unit CHR ''/'' = 47" "CHR ''/'' \<noteq> backslash" by (simp_all add: code_unit_def backslash_def)
  have "\<forall>c\<in>set ?s. code_unit c > 32" using c slash unfolding url_safe_def by force
  then have t: "url_text ?s = ?s" by (rule url_text_id)
  have w: "takeWhile (\<lambda>c. c \<noteq> CHR ''?'' \<and> c \<noteq> CHR ''#'') ?s = ?s"
    unfolding takeWhile_eq_all_conv
  proof
    fix x assume "x \<in> set ?s"
    then show "x \<noteq> CHR ''?'' \<and> x \<noteq> CHR ''#''" using c unfolding url_safe_def by force
  qed
  have m: "map (\<lambda>c. if c = backslash then CHR ''/'' else c) ?s = ?s"
    using c slash(2) unfolding url_safe_def by (intro map_idI) metis
  have "split_on CHR ''/'' ?s = [] # segments"
    using split_on_join [of segments "CHR ''/''" "[]"] assms by (auto simp: under_def list_all_iff url_safe_def)
  then show ?thesis unfolding url_segments_def t w m by simp
qed

lemma resolve_dots_plain:
  "\<forall>s\<in>set ss. \<not> single_dot s \<and> \<not> double_dot s \<Longrightarrow> resolve_dots acc ss = rev acc @ ss"
  by (induction acc ss rule: resolve_dots.induct) auto

lemma resolve_dots_prefix:
  "\<forall>s\<in>set pre. \<not> single_dot s \<and> \<not> double_dot s \<Longrightarrow> ss \<noteq> [] \<Longrightarrow>
    resolve_dots acc (pre @ ss) = resolve_dots (rev pre @ acc) ss"
proof (induction pre arbitrary: acc)
  case (Cons s pre)
  then obtain t ts where "pre @ ss = t # ts" by (cases "pre @ ss") auto
  then show ?case using Cons by auto
qed simp

lemma encoded_safe: "list_all url_safe (encodeURIComponent s)"
proof -
  have h: "url_safe (hex_digit d)" if "d < 16" for d
  proof -
    have "code_unit (hex_digit d) \<notin> {code_unit CHR ''/'', code_unit backslash, code_unit CHR ''?'', code_unit CHR ''#''}"
      unfolding hex_digit_code [OF that] using that by (simp add: code_unit_def backslash_def)
    then have "hex_digit d \<notin> {CHR ''/'', backslash, CHR ''?'', CHR ''#''}" by (auto simp: code_unit_inject)
    moreover have "code_unit (hex_digit d) > 32" using that by (simp add: hex_digit_code)
    ultimately show ?thesis by (simp add: url_safe_def)
  qed
  have p: "list_all url_safe (percent n)" if "n < 256" for n
    using that h [of "n div 16"] h [of "n mod 16"] by (simp add: percent_def url_safe_def code_unit_def backslash_def)
  have "list_all url_safe (encode_char c)" for c
  proof (cases "uri_unreserved c")
    case True
    then show ?thesis
      by (auto simp: encode_char_def url_safe_def uri_unreserved_def Let_def code_unit_def backslash_def)
  next
    case False
    have "code_unit c < 256" by (rule code_unit_bound)
    then show ?thesis
      using False p [of "code_unit c"] p [of "192 + code_unit c div 64"] p [of "128 + code_unit c mod 64"]
      by (simp add: encode_char_def Let_def)
  qed
  then show ?thesis by (induction s) (simp_all add: encodeURIComponent_def)
qed

lemma lower_pre:
  "js_lower_char c = CHR ''.'' \<longleftrightarrow> c = CHR ''.''" "js_lower_char c = CHR ''%'' \<longleftrightarrow> c = CHR ''%''"
  "js_lower_char c = CHR ''2'' \<longleftrightarrow> c = CHR ''2''" "js_lower_char c = CHR ''e'' \<longleftrightarrow> c = CHR ''e'' \<or> c = CHR ''E''"
  by (auto simp: code_unit_inject [symmetric] js_lower_char_code js_upper_def Let_def code_unit_def [of "CHR ''.''"]
      code_unit_def [of "CHR ''%''"] code_unit_def [of "CHR ''2''"] code_unit_def [of "CHR ''e''"] code_unit_def [of "CHR ''E''"]
      split: if_splits)

lemma dots_decoded:
  "single_dot s \<Longrightarrow> decodeURIComponent s = Some ''.''" "double_dot s \<Longrightarrow> decodeURIComponent s = Some ''..''"
proof -
  have e: "decodeURIComponent (''%2'' @ [c] @ r) = map_option (\<lambda>t. CHR ''.'' # t) (decodeURIComponent r)"
    if "c = CHR ''e'' \<or> c = CHR ''E''" for c r
  proof -
    have "byte_of CHR ''2'' c = Some 46"
      using that by (auto simp: byte_of_def is_hex_def is_digit_def hex_value_def code_unit_def)
    moreover have "(char_of (46 :: nat) :: char) = CHR ''.''" by code_simp
    ultimately show ?thesis by simp
  qed
  show "single_dot s \<Longrightarrow> decodeURIComponent s = Some ''.''"
    by (auto simp: single_dot_def js_lower_def map_eq_Cons_conv lower_pre e [of _ "[]", simplified])
  show "double_dot s \<Longrightarrow> decodeURIComponent s = Some ''..''"
    unfolding double_dot_def js_lower_def
    by (auto simp: map_eq_Cons_conv lower_pre e [of _ "[]", simplified] e [of _ "''.''", simplified] e [simplified])
qed

lemma encoded_dots [simp]:
  "single_dot (encodeURIComponent v) \<longleftrightarrow> v = ''.''" "double_dot (encodeURIComponent v) \<longleftrightarrow> v = ''..''"
proof -
  have "encodeURIComponent ''.'' = ''.''" "encodeURIComponent ''..'' = ''..''" by code_simp+
  moreover have "single_dot ''.''" "double_dot ''..''" by code_simp+
  ultimately show "single_dot (encodeURIComponent v) \<longleftrightarrow> v = ''.''" "double_dot (encodeURIComponent v) \<longleftrightarrow> v = ''..''"
    using dots_decoded [of "encodeURIComponent v"] by auto
qed

section \<open>An interpolated value is one segment\<close>

text \<open>A path name written in a template, or a segment of one.\<close>

definition plain_name :: "string \<Rightarrow> bool" where
  "plain_name s \<longleftrightarrow> list_all url_safe s \<and> \<not> single_dot s \<and> \<not> double_dot s"

text \<open>C00. The value that \<open>apiPath\<close> puts between two parts of a template is exactly one segment of the
  path the request reaches, whatever it holds: a slash, a question mark, a percent sign or a
  trailing space cannot change which endpoint is called. The two exceptions are the dot segments,
  which \<open>encodeURIComponent\<close> leaves as they are and the URL parser resolves.\<close>

theorem apiPath_value_is_one_segment:
  assumes "list_all plain_name pre" and "list_all plain_name post"
  shows "url_segments (apiPath [under pre @ ''/'', under post] [Some v]) = pre @ [encodeURIComponent v] @ post
     \<longleftrightarrow> v \<noteq> ''.'' \<and> v \<noteq> ''..''"
proof -
  let ?e = "encodeURIComponent v"
  have p: "apiPath [under pre @ ''/'', under post] [Some v] = under (pre @ [?e] @ post)" by (simp add: apiPath_def)
  have "url_segments (under (pre @ [?e] @ post)) = resolve_dots [] (pre @ [?e] @ post)"
    using assms encoded_safe [of v] by (intro url_segments_under) (auto simp: list_all_iff plain_name_def)
  also have "\<dots> = resolve_dots (rev pre) (?e # post)"
    using resolve_dots_prefix [of pre "?e # post" "[]"] assms by (simp add: list_all_iff plain_name_def)
  finally have s: "url_segments (under (pre @ [?e] @ post)) = resolve_dots (rev pre) (?e # post)" .
  have dots: "encodeURIComponent ''.'' = ''.''" "encodeURIComponent ''..'' = ''..''" "single_dot ''.''" "\<not> double_dot ''.''"
    "double_dot ''..''" by code_simp+
  have plain: "\<forall>s\<in>set post. \<not> single_dot s \<and> \<not> double_dot s"
    using assms(2) by (auto simp: list_all_iff plain_name_def)
  show ?thesis
  proof (cases "v = ''.'' \<or> v = ''..''")
    case False
    then show ?thesis using plain unfolding p s by (subst resolve_dots_plain) auto
  next
    case True
    have "resolve_dots (rev pre) (?e # post) \<noteq> pre @ [?e] @ post"
    proof (cases post)
      case Nil
      show ?thesis
      proof
        assume "resolve_dots (rev pre) (?e # post) = pre @ [?e] @ post"
        then have "last (resolve_dots (rev pre) [?e]) = ?e" using Nil by simp
        then show False using True dots by (auto split: if_splits)
      qed
    next
      case (Cons t ts)
      have "length (resolve_dots (rev pre) (?e # post)) \<le> length pre + length post"
        using True plain Cons by (auto simp: resolve_dots_plain)
      then show ?thesis by auto
    qed
    then show ?thesis using True unfolding p s by blast
  qed
qed

lemma apiPath_value_is_one_segment_witness:
  "url_segments (apiPath [under [''admin'', ''payouts''] @ ''/'', under [''approve'']] [Some ''../users?x ''])
     = [''admin'', ''payouts''] @ [encodeURIComponent ''../users?x ''] @ [''approve'']"
proof -
  have "list_all plain_name [''admin'', ''payouts'']" "list_all plain_name [''approve'']" by code_simp+
  from apiPath_value_is_one_segment [OF this, of "''../users?x ''"] show ?thesis by simp
qed

section \<open>The admin proxy\<close>

lemma under_split: "under (split_on CHR ''/'' s) = CHR ''/'' # s"
  by (induction s) (auto split: list.splits simp: under_def)

lemma split_on_no: "t \<in> set (split_on c s) \<Longrightarrow> c \<notin> set t"
  by (induction s arbitrary: t) (auto split: list.splits if_splits)

lemma split_on_sub: "t \<in> set (split_on c s) \<Longrightarrow> set t \<subseteq> set s"
proof (induction s arbitrary: t)
  case (Cons x s)
  then show ?case by (cases "split_on c s") (auto split: if_splits, blast+)
qed simp

lemma double_dot_plain: "CHR ''%'' \<notin> set s \<Longrightarrow> double_dot s \<Longrightarrow> s = ''..''"
  by (auto simp: double_dot_def js_lower_def map_eq_Cons_conv lower_pre)

lemma resolve_dots_bottom:
  "\<forall>s\<in>set ss. \<not> double_dot s \<Longrightarrow> \<exists>rest. resolve_dots (acc @ [x]) ss = x # rest"
proof (induction acc ss rule: resolve_dots.induct)
  case (3 acc s t ss)
  have "\<exists>rest. resolve_dots ((if single_dot s then acc else s # acc) @ [x]) (t # ss) = x # rest"
    using 3 by (cases "single_dot s") auto
  moreover have "(if single_dot s then acc else s # acc) @ [x] = (if single_dot s then acc @ [x] else s # acc @ [x])" by simp
  ultimately show ?case using 3(2) by simp
next
  case (2 acc s)
  then show ?case by (auto intro: exI [of _ "rev ([] # acc)"] exI [of _ "rev (s # acc)"])
qed simp

lemma url_text_query:
  assumes "\<forall>c\<in>set p. code_unit c > 32"
  shows "\<exists>r. url_text (p @ CHR ''?'' # q) = p @ CHR ''?'' # r"
proof -
  have keep: "\<not> url_control CHR ''?''" "\<not> url_newline CHR ''?''" by (simp_all add: url_control_def url_newline_def code_unit_def)
  have d: "dropWhile P (xs @ x # ys) = dropWhile P xs @ x # ys" if "\<not> P x" for P xs ys and x :: char
    using that by (induction xs) auto
  have "filter (\<lambda>c. \<not> url_newline c) p = p" using assms by (auto simp: filter_id_conv url_newline_def)
  moreover have "rev (p @ CHR ''?'' # q) = rev q @ CHR ''?'' # rev p" by simp
  ultimately show ?thesis using keep(2) unfolding url_text_def
    by (simp only: d [where P = url_control, OF keep(1)] rev_append rev.simps rev_rev_ident filter_append filter.simps if_True) auto
qed

lemma url_segments_query:
  assumes "\<forall>c\<in>set p. code_unit c > 32 \<and> c \<noteq> CHR ''?'' \<and> c \<noteq> CHR ''#''"
    and "search = [] \<or> hd search = CHR ''?''"
  shows "url_segments (p @ search) = url_segments p"
proof -
  let ?path = "takeWhile (\<lambda>c. c \<noteq> CHR ''?'' \<and> c \<noteq> CHR ''#'')"
  have t: "url_text p = p" using assms(1) by (intro url_text_id) auto
  have "?path (url_text (p @ search)) = p"
  proof (cases search)
    case Nil
    then show ?thesis using t assms(1) by (auto simp: takeWhile_eq_all_conv)
  next
    case (Cons c q)
    then have c: "c = CHR ''?''" using assms(2) by simp
    obtain r where "url_text (p @ search) = p @ CHR ''?'' # r"
      using url_text_query [of p q] assms(1) Cons c by auto
    then show ?thesis using assms(1) by (simp add: takeWhile_append2)
  qed
  moreover have "?path (url_text p) = p" using t assms(1) by (auto simp: takeWhile_eq_all_conv)
  ultimately show ?thesis unfolding url_segments_def by (simp only:)
qed

definition plain_path :: "string \<Rightarrow> bool" where
  "plain_path path \<longleftrightarrow> list_all (\<lambda>c. code_unit c > 32 \<and> c \<noteq> CHR ''%'' \<and> c \<noteq> backslash \<and> c \<noteq> CHR ''?'' \<and> c \<noteq> CHR ''#'') path"

text \<open>C00. While the parameter holds no percent sign, backslash, question mark, hash, control or space,
  whatever the proxy forwards stays below \<open>/admin\<close>: the check for \<open>..\<close> is enough there.\<close>

theorem proxy_stays_under_admin:
  assumes "proxy_target path search = Some target" and "plain_path path" and "search = [] \<or> hd search = CHR ''?''"
  shows "\<exists>rest. url_segments target = ''admin'' # rest"
proof -
  let ?segments = "split_on CHR ''/'' path"
  have p: "''..'' \<notin> set ?segments" "target = under (''admin'' # ?segments) @ search"
    using assms(1) by (auto simp: proxy_target_def under_split split: if_splits)
  have c: "\<forall>c\<in>set path. url_safe c \<or> c = CHR ''/''" "CHR ''%'' \<notin> set path"
    using assms(2) by (auto simp: plain_path_def list_all_iff url_safe_def)
  have safe: "\<forall>s\<in>set (''admin'' # ?segments). list_all url_safe s"
  proof
    fix s assume "s \<in> set (''admin'' # ?segments)"
    moreover have "list_all url_safe ''admin''" by code_simp
    moreover have "list_all url_safe s" if s: "s \<in> set ?segments"
      using c(1) split_on_sub [OF s] split_on_no [OF s] by (auto simp: list_all_iff)
    ultimately show "list_all url_safe s" by auto
  qed
  have slash: "code_unit CHR ''/'' > 32" by (simp add: code_unit_def)
  have "\<forall>c\<in>set (under (''admin'' # ?segments)). code_unit c > 32 \<and> c \<noteq> CHR ''?'' \<and> c \<noteq> CHR ''#''"
    using safe slash by (auto simp: under_def list_all_iff url_safe_def)
  from url_segments_query [OF this assms(3)]
  have "url_segments target = resolve_dots [] (''admin'' # ?segments)"
    by (simp only: p(2) url_segments_under [OF safe])
  also have "\<dots> = resolve_dots ([] @ [''admin'']) ?segments"
    using resolve_dots_prefix [of "[''admin'']" ?segments "[]"] by (simp add: single_dot_def double_dot_def js_lower_def js_lower_char_def js_upper_def code_unit_def)
  finally have "url_segments target = resolve_dots ([] @ [''admin'']) ?segments" .
  moreover have "\<forall>s\<in>set ?segments. \<not> double_dot s"
    using p(1) c(2) double_dot_plain split_on_sub by blast
  ultimately show ?thesis using resolve_dots_bottom [of ?segments "[]" "''admin''"] by metis
qed

lemma proxy_stays_under_admin_witness:
  "url_segments (''/admin/'' @ ''users/./x'' @ ''?limit=5'') = [''admin'', ''users'', ''x'']
    \<and> (\<exists>rest. url_segments (''/admin/'' @ ''users/./x'' @ ''?limit=5'') = ''admin'' # rest)"
proof -
  have "proxy_target ''users/./x'' ''?limit=5'' = Some (''/admin/'' @ ''users/./x'' @ ''?limit=5'')" "plain_path ''users/./x''"
    by code_simp+
  from proxy_stays_under_admin [OF this] have "\<exists>rest. url_segments (''/admin/'' @ ''users/./x'' @ ''?limit=5'') = ''admin'' # rest" by simp
  moreover have "url_segments (''/admin/'' @ ''users/./x'' @ ''?limit=5'') = [''admin'', ''users'', ''x'']" by code_simp
  ultimately show ?thesis by blast
qed

text \<open>C00. The check is not enough for a parameter that the router has decoded once. One that starts with
  \<open>%2e%2e\<close> (\<open>/api/admin/%252e%252e/users/me\<close> in the address bar) passes it and the URL parser
  resolves the encoded dots, so the proxy calls whatever path of the API follows.\<close>

theorem proxy_can_be_walked_out:
  assumes "list_all plain_name segments" and "segments \<noteq> []"
  shows "\<exists>target. proxy_target (''%2e%2e'' @ under segments) [] = Some target \<and> url_segments target = segments"
proof -
  let ?up = "''%2e%2e''"
  have safe: "\<forall>s\<in>set (''admin'' # ?up # segments). list_all url_safe s"
  proof -
    have "list_all url_safe ''admin''" "list_all url_safe ?up" by code_simp+
    then show ?thesis using assms(1) by (auto simp: list_all_iff plain_name_def)
  qed
  have up: "double_dot ?up" "\<not> single_dot ''admin''" "\<not> double_dot ''admin''" "CHR ''/'' \<notin> set ?up" by code_simp+
  have "split_on CHR ''/'' (?up @ under segments) = ?up # segments"
    unfolding under_def using safe up(4) by (intro split_on_join) (auto simp: list_all_iff url_safe_def)
  moreover have "''..'' \<notin> set segments"
  proof -
    have "double_dot ''..''" by code_simp
    then show ?thesis using assms(1) by (auto simp: list_all_iff plain_name_def)
  qed
  ultimately have t: "proxy_target (?up @ under segments) [] = Some (under (''admin'' # ?up # segments))"
    by (auto simp: proxy_target_def)
  obtain s ss where cons: "segments = s # ss" using assms(2) by (cases segments) auto
  have "url_segments (under (''admin'' # ?up # segments)) = resolve_dots [] (''admin'' # ?up # segments)"
    using safe by (rule url_segments_under)
  also have "\<dots> = resolve_dots [] segments" using up cons by simp
  also have "\<dots> = segments"
    using resolve_dots_plain [of segments "[]"] assms(1) by (simp add: list_all_iff plain_name_def)
  finally show ?thesis using t by blast
qed

lemma proxy_can_be_walked_out_witness:
  "\<exists>target. proxy_target (''%2e%2e'' @ under [''users'', ''me'']) [] = Some target \<and> url_segments target = [''users'', ''me'']"
proof -
  have "list_all plain_name [''users'', ''me'']" by code_simp
  from proxy_can_be_walked_out [OF this] show ?thesis by simp
qed

section \<open>Redirects\<close>

lemma encoded_no_plus: "CHR ''+'' \<notin> set (encodeURIComponent s)"
proof -
  have d: "d < 16 \<Longrightarrow> hex_digit d \<noteq> CHR ''+''" for d
    using hex_digit_code [of d] by (auto simp: code_unit_def split: if_splits)
  have p: "n < 256 \<Longrightarrow> CHR ''+'' \<notin> set (percent n)" for n
    using d [of "n div 16"] d [of "n mod 16"] by (auto simp: percent_def less_mult_imp_div_less)
  have "CHR ''+'' \<notin> set (encode_char c)" for c
  proof -
    have b: "code_unit c div 64 < 64" using code_unit_bound [of c] by (simp add: less_mult_imp_div_less)
    show ?thesis
    using b p [of "code_unit c"] p [of "192 + code_unit c div 64"] p [of "128 + code_unit c mod 64"] code_unit_bound [of c]
    by (auto simp: encode_char_def Let_def uri_unreserved_def code_unit_def)
  qed
  then show ?thesis by (auto simp: encodeURIComponent_def)
qed

lemma query_decode_encode: "query_decode (encodeURIComponent s) = Some s"
proof -
  have "map (\<lambda>c. if c = CHR ''+'' then CHR '' '' else c) (encodeURIComponent s) = encodeURIComponent s"
    using encoded_no_plus [of s] by (intro map_idI) auto
  then show ?thesis by (simp add: query_decode_def)
qed

text \<open>C00. Someone who is not signed in and opens a protected page is sent to the login form with the
  page's address in \<open>next\<close>, and what the form reads back there is that address, which it honours:
  signing in leads to the page that was asked for, with its query.\<close>

theorem login_returns_to_the_page:
  assumes "handle False path search = Redirect status target"
  shows "\<exists>q. status = 303 \<and> target = ''/login?next='' @ q \<and> safeNext (query_decode q) = path @ search"
proof -
  have "list_ex (starts_with path) PROTECTED_PREFIXES" and t: "status = 303" "target = ''/login?next='' @ encodeURIComponent (path @ search)"
    using assms by (auto simp: handle_def split: if_splits)
  then obtain p where "p \<in> set PROTECTED_PREFIXES" "starts_with path p" by (auto simp: list_ex_iff)
  then obtain rest where "path = p @ rest" "p \<in> set PROTECTED_PREFIXES"
    by (auto simp: starts_with_def) (metis append_take_drop_id)
  then have "safeNext (Some (path @ search)) = path @ search"
    by (auto simp: PROTECTED_PREFIXES_def safeNext_def starts_with_def)
  then show ?thesis using t query_decode_encode [of "path @ search"] by auto
qed

lemma login_returns_to_the_page_witness:
  "\<exists>q. ''/login?next=%2Foffers%3Fsearch%3Da%20b'' = ''/login?next='' @ q \<and> safeNext (query_decode q) = ''/offers?search=a b''"
proof -
  have "handle False ''/offers'' ''?search=a b'' = Redirect 303 ''/login?next=%2Foffers%3Fsearch%3Da%20b''" by code_simp
  from login_returns_to_the_page [OF this] show ?thesis by simp
qed

text \<open>What the login form redirects to is a path of this site when the text holds no backslash and
  no control; with a backslash after the first slash the browser reads it as another host, and the
  form follows it.\<close>

theorem safeNext_trusts_backslashes:
  "(list_all (\<lambda>c. code_unit c > 32 \<and> c \<noteq> backslash) next_path \<longrightarrow> \<not> names_host (safeNext (Some next_path)))
   \<and> names_host (safeNext (Some (''/'' @ [backslash] @ ''evil.example'')))"
proof
  have dash: "\<not> names_host ''/dashboard''" by code_simp
  show "list_all (\<lambda>c. code_unit c > 32 \<and> c \<noteq> backslash) next_path \<longrightarrow> \<not> names_host (safeNext (Some next_path))"
  proof
    assume plain: "list_all (\<lambda>c. code_unit c > 32 \<and> c \<noteq> backslash) next_path"
    have "dropWhile url_control next_path = next_path" "url_text next_path = next_path"
      using plain by (auto simp: list_all_iff url_control_def intro!: dropWhile_no url_text_id)
    then show "\<not> names_host (safeNext (Some next_path))"
      using dash plain by (auto simp: safeNext_def names_host_def starts_with_def split: list.splits)
  qed
  show "names_host (safeNext (Some (''/'' @ [backslash] @ ''evil.example'')))" by code_simp
qed

lemma safeNext_trusts_backslashes_witness:
  "\<not> names_host (safeNext (Some ''/offers?page=2''))"
proof -
  have "list_all (\<lambda>c. code_unit c > 32 \<and> c \<noteq> backslash) ''/offers?page=2''" by code_simp
  then show ?thesis using safeNext_trusts_backslashes [of "''/offers?page=2''"] by blast
qed

end
