(* ===== verification/WebSession.thy ===== *)
theory WebSession
  imports AuthController WebUrl TokenProps
begin

text \<open>
  The session the web server keeps for a browser: the cookie of \<^verbatim>\<open>lib/server/session.ts\<close>
  and the calls of \<^verbatim>\<open>lib/server/api.ts\<close> that use and renew it. The cookie's text layer
  (\<open>JSON\<close> in \<open>base64url\<close>) and the network are arguments: a call changes the state \<open>'s\<close> of
  whatever answers and gives a response, or none when \<open>fetch\<close> rejects. \<open>apiAuthed\<close> is split
  where other requests of the same browser can run: \<open>resume_call\<close> is what follows a first 401, \<open>after_refresh\<close> what follows the
  refresh.
\<close>

section \<open>The session cookie\<close>

text \<open>The access token is whatever the login answered; only a string is ever read back.\<close>

record web_session =
  wsAccess :: "json option"
  wsRefresh :: string

record session_cookie =
  ckValue :: string
  ckPath :: string
  ckHttpOnly :: bool
  ckSameSite :: string
  ckSecure :: bool
  ckMaxAge :: int

record codec =
  cdPack :: "json \<Rightarrow> string"
  cdUnpack :: "string \<Rightarrow> json option"

definition json_field :: "json \<Rightarrow> string \<Rightarrow> json option" where
  "json_field j k = (case j of JObj kvs \<Rightarrow> map_of kvs k | _ \<Rightarrow> None)"

definition MAX_AGE_SECONDS :: int where
  "MAX_AGE_SECONDS = 30 * 24 * 60 * 60"

definition readSession :: "codec \<Rightarrow> session_cookie option \<Rightarrow> web_session option" where
  "readSession cd jar = (case truthy (map_option ckValue jar) of
     None \<Rightarrow> None
   | Some raw \<Rightarrow> (case cdUnpack cd raw of
       None \<Rightarrow> None
     | Some parsed \<Rightarrow> (case (json_field parsed ''accessToken'', json_field parsed ''refreshToken'') of
         (Some (JStr a), Some (JStr r)) \<Rightarrow> Some \<lparr>wsAccess = Some (JStr a), wsRefresh = r\<rparr>
       | _ \<Rightarrow> None)))"

definition encode_session :: "codec \<Rightarrow> web_session \<Rightarrow> string" where
  "encode_session cd session = cdPack cd (JObj
     ((case wsAccess session of None \<Rightarrow> [] | Some a \<Rightarrow> [(''accessToken'', a)]) @ [(''refreshToken'', JStr (wsRefresh session))]))"

definition writeSession :: "codec \<Rightarrow> web_session \<Rightarrow> bool \<Rightarrow> session_cookie option" where
  "writeSession cd session secure = Some \<lparr>ckValue = encode_session cd session, ckPath = ''/'', ckHttpOnly = True,
     ckSameSite = ''lax'', ckSecure = secure, ckMaxAge = MAX_AGE_SECONDS\<rparr>"

definition clearSession :: "session_cookie option" where
  "clearSession = None"

section \<open>Reading answers\<close>

definition response_ok :: "web_response \<Rightarrow> bool" where
  "response_ok r \<longleftrightarrow> 200 \<le> wrStatus r \<and> wrStatus r < 300"

text \<open>The outer \<open>None\<close>: \<open>decodeURIComponent\<close> throws.\<close>

definition API_REFRESH_COOKIE :: string where
  "API_REFRESH_COOKIE = ''gemone_rt''"

fun refreshTokenFrom :: "string list \<Rightarrow> string option option" where
  "refreshTokenFrom [] = Some None"
| "refreshTokenFrom (header # headers) =
     (let parts = split_on CHR ''='' (hd (split_on CHR '';'' header)) in
      if js_trim (hd parts) = API_REFRESH_COOKIE
      then (let token = js_trim (join_with ''='' (tl parts))
            in if token = [] then Some None else map_option Some (decodeURIComponent token))
      else refreshTokenFrom headers)"

record api_failure =
  afStatus :: nat
  afCode :: json
  afMessage :: "json option"
  afFields :: "json option"

definition json_truthy :: "json option \<Rightarrow> bool" where
  "json_truthy j = (case j of
     None \<Rightarrow> False | Some JNull \<Rightarrow> False | Some (JBool b) \<Rightarrow> b | Some (JNum n) \<Rightarrow> n \<noteq> 0 | Some (JStr s) \<Rightarrow> s \<noteq> [] | _ \<Rightarrow> True)"

definition plain_failure :: "nat \<Rightarrow> string \<Rightarrow> string \<Rightarrow> api_failure" where
  "plain_failure status code message =
     \<lparr>afStatus = status, afCode = JStr code, afMessage = Some (JStr message), afFields = None\<rparr>"

definition readFailure :: "web_response \<Rightarrow> api_failure" where
  "readFailure r = (let unreadable = plain_failure (wrStatus r) ''INTERNAL_ERROR'' ''The service is unavailable. Please try again.''
     in case wrBody r of
       None \<Rightarrow> unreadable
     | Some body \<Rightarrow> (case json_field body ''error'' of
         None \<Rightarrow> unreadable
       | Some e \<Rightarrow> (case json_field e ''code'' of
           None \<Rightarrow> unreadable
         | Some code \<Rightarrow> if \<not> json_truthy (Some code) then unreadable
             else \<lparr>afStatus = wrStatus r, afCode = code, afMessage = json_field e ''message'',
               afFields = (if json_truthy (json_field e ''fields'') then json_field e ''fields'' else None)\<rparr>)))"

definition unauthenticated_failure :: api_failure where
  "unauthenticated_failure = plain_failure 401 ''AUTH_TOKEN_INVALID'' ''Your session has ended''"

definition temporarilyUnavailable :: api_failure where
  "temporarilyUnavailable = plain_failure 503 ''SERVICE_UNAVAILABLE'' ''The service is busy. Please try again in a moment.''"

section \<open>Calls\<close>

text \<open>A result, or the exception that leaves the function.\<close>

datatype 'a api_result = ApiOk 'a | ApiFailed api_failure | ApiThrew

record web_init =
  wiMethod :: string
  wiBody :: "json option"

record 's web_ports =
  wpCodec :: codec
  wpSecure :: bool
  wpPublic :: "'s \<Rightarrow> string \<Rightarrow> json \<Rightarrow> string option \<Rightarrow> 's \<times> web_response option"
  wpSend :: "'s \<Rightarrow> string \<Rightarrow> web_init \<Rightarrow> json option \<Rightarrow> string option \<Rightarrow> 's \<times> web_response option"

definition establishSession :: "'s web_ports \<Rightarrow> 's \<Rightarrow> session_cookie option \<Rightarrow> string \<Rightarrow> json \<Rightarrow> string option
    \<Rightarrow> 's \<times> session_cookie option \<times> json option api_result" where
  "establishSession p s jar path body address =
     (case wpPublic p s path body address of
        (s', None) \<Rightarrow> (s', jar, ApiThrew)
      | (s', Some r) \<Rightarrow>
          if \<not> response_ok r then (s', jar, ApiFailed (readFailure r))
          else (case wrBody r of
              None \<Rightarrow> (s', jar, ApiThrew)
            | Some auth \<Rightarrow> (case refreshTokenFrom (wrCookies r) of
                None \<Rightarrow> (s', jar, ApiThrew)
              | Some token \<Rightarrow> (case truthy token of
                  None \<Rightarrow> (s', jar, ApiFailed (plain_failure 502 ''INTERNAL_ERROR'' ''The API did not return a refresh token''))
                | Some t \<Rightarrow> if auth = JNull then (s', jar, ApiThrew)
                    else (s', writeSession (wpCodec p) \<lparr>wsAccess = json_field auth ''accessToken'', wsRefresh = t\<rparr> (wpSecure p),
                          ApiOk (json_field auth ''user''))))))"

datatype refresh_outcome = Refreshed web_session | NotRefreshed bool | RefreshThrew

text \<open>What \<open>refreshSession\<close> makes of the answer it gets, and of none.\<close>

definition take_refresh :: "'s web_ports \<Rightarrow> session_cookie option \<Rightarrow> web_response option \<Rightarrow> session_cookie option \<times> refresh_outcome" where
  "take_refresh p jar reply =
     (case reply of
        None \<Rightarrow> (jar, RefreshThrew)
      | Some r \<Rightarrow>
          if \<not> response_ok r then (jar, NotRefreshed (wrStatus r = 429 \<or> wrStatus r \<ge> 500))
          else (case wrBody r of
              None \<Rightarrow> (jar, RefreshThrew)
            | Some auth \<Rightarrow> (case refreshTokenFrom (wrCookies r) of
                None \<Rightarrow> (jar, RefreshThrew)
              | Some token \<Rightarrow> (case truthy token of
                  None \<Rightarrow> (jar, NotRefreshed True)
                | Some t \<Rightarrow> if auth = JNull then (jar, RefreshThrew)
                    else let fresh = \<lparr>wsAccess = json_field auth ''accessToken'', wsRefresh = t\<rparr>
                         in (writeSession (wpCodec p) fresh (wpSecure p), Refreshed fresh)))))"

definition refresh_body :: "web_session \<Rightarrow> json" where
  "refresh_body session = JObj [(''refreshToken'', JStr (wsRefresh session))]"

definition refreshSession :: "'s web_ports \<Rightarrow> 's \<Rightarrow> session_cookie option \<Rightarrow> web_session \<Rightarrow> string option
    \<Rightarrow> 's \<times> session_cookie option \<times> refresh_outcome" where
  "refreshSession p s jar session address =
     (case wpPublic p s ''/auth/refresh'' (refresh_body session) address of
        (s', reply) \<Rightarrow> (s', take_refresh p jar reply))"

text \<open>\<open>apiAuthed\<close> after its first request came back with 401: the refresh, and what follows it.\<close>

definition after_refresh :: "'s web_ports \<Rightarrow> 's \<Rightarrow> session_cookie option \<times> refresh_outcome \<Rightarrow> string \<Rightarrow> web_init \<Rightarrow> string option
    \<Rightarrow> 's \<times> session_cookie option \<times> web_response api_result" where
  "after_refresh p s1 refreshed path init address =
     (case refreshed of
        (jar1, RefreshThrew) \<Rightarrow> (s1, jar1, ApiThrew)
      | (jar1, NotRefreshed transient) \<Rightarrow>
          if transient then (s1, jar1, ApiFailed temporarilyUnavailable)
          else (s1, clearSession, ApiFailed unauthenticated_failure)
      | (jar1, Refreshed fresh) \<Rightarrow> (case wpSend p s1 path init (wsAccess fresh) address of
          (s2, None) \<Rightarrow> (s2, jar1, ApiThrew)
        | (s2, Some second) \<Rightarrow>
            if wrStatus second = 401 then (s2, clearSession, ApiFailed unauthenticated_failure)
            else (s2, jar1, ApiOk second)))"

definition resume_call :: "'s web_ports \<Rightarrow> 's \<Rightarrow> session_cookie option \<Rightarrow> web_session \<Rightarrow> string \<Rightarrow> web_init \<Rightarrow> string option
    \<Rightarrow> 's \<times> session_cookie option \<times> web_response api_result" where
  "resume_call p s jar session path init address =
     (case refreshSession p s jar session address of
        (s1, refreshed) \<Rightarrow> after_refresh p s1 refreshed path init address)"

definition apiAuthed :: "'s web_ports \<Rightarrow> 's \<Rightarrow> session_cookie option \<Rightarrow> string \<Rightarrow> web_init \<Rightarrow> string option
    \<Rightarrow> 's \<times> session_cookie option \<times> web_response api_result" where
  "apiAuthed p s jar path init address =
     (case readSession (wpCodec p) jar of
        None \<Rightarrow> (s, jar, ApiFailed unauthenticated_failure)
      | Some session \<Rightarrow> (case wpSend p s path init (wsAccess session) address of
          (s1, None) \<Rightarrow> (s1, jar, ApiThrew)
        | (s1, Some r) \<Rightarrow>
            if wrStatus r \<noteq> 401 then (s1, jar, ApiOk r) else resume_call p s1 jar session path init address))"

definition json_result :: "web_response api_result \<Rightarrow> json api_result" where
  "json_result result = (case result of
     ApiThrew \<Rightarrow> ApiThrew
   | ApiFailed f \<Rightarrow> ApiFailed f
   | ApiOk r \<Rightarrow> if \<not> response_ok r then ApiFailed (readFailure r)
       else (case wrBody r of None \<Rightarrow> ApiThrew | Some body \<Rightarrow> ApiOk body))"

definition apiAuthedJson :: "'s web_ports \<Rightarrow> 's \<Rightarrow> session_cookie option \<Rightarrow> string \<Rightarrow> string option
    \<Rightarrow> 's \<times> session_cookie option \<times> json api_result" where
  "apiAuthedJson p s jar path address =
     (case apiAuthed p s jar path \<lparr>wiMethod = ''GET'', wiBody = None\<rparr> address of (s', jar', r) \<Rightarrow> (s', jar', json_result r))"

definition endSession :: "'s web_ports \<Rightarrow> 's \<Rightarrow> session_cookie option \<Rightarrow> string option \<Rightarrow> 's \<times> session_cookie option" where
  "endSession p s jar address = (case readSession (wpCodec p) jar of
     None \<Rightarrow> (s, clearSession)
   | Some session \<Rightarrow>
       (fst (wpPublic p s ''/auth/logout'' (JObj [(''refreshToken'', JStr (wsRefresh session))]) address), clearSession))"

section \<open>The API behind it\<close>

text \<open>The auth endpoints of this program as the web server's peer; the tokens it will draw come from a
  list, and the clock stands still within a request. Here a request is answered with no other in
  between; \<open>WebOverlap\<close> takes the refresh apart where the API lets others in.\<close>

record api_world =
  awAuth :: auth_state
  awNow :: millis
  awAgent :: "string option"
  awFresh :: "fresh_token list"

definition auth_peer :: "controller \<Rightarrow> auth_ports \<Rightarrow> api_world \<Rightarrow> string \<Rightarrow> json \<Rightarrow> string option
    \<Rightarrow> api_world \<times> web_response option" where
  "auth_peer c ports w path body address =
     (let token = json_field body ''refreshToken''; ctx = \<lparr>scxIp = address, scxUserAgent = awAgent w\<rparr> in
      if path = ''/auth/refresh'' then (case awFresh w of
          [] \<Rightarrow> (w, None)
        | fresh # rest \<Rightarrow> (case refresh_endpoint c ports (awAuth w) (awNow w) (awNow w) fresh None token ctx of
            (s', r) \<Rightarrow> (w\<lparr>awAuth := s', awFresh := rest\<rparr>, Some r)))
      else if path = ''/auth/logout'' then (case logout_endpoint c ports (awAuth w) (awNow w) None token of
          (s', r) \<Rightarrow> (w\<lparr>awAuth := s'\<rparr>, Some r))
      else (w, None))"

text \<open>Every other endpoint stands behind the two global guards; \<open>handler\<close> is what the route does.\<close>

definition guarded_send :: "controller \<Rightarrow> (string \<Rightarrow> (id \<times> user_role) option) \<Rightarrow> user_role list option
    \<Rightarrow> (principal \<Rightarrow> string \<Rightarrow> web_init \<Rightarrow> web_response) \<Rightarrow> api_world \<Rightarrow> string \<Rightarrow> web_init \<Rightarrow> json option
    \<Rightarrow> string option \<Rightarrow> api_world \<times> web_response option" where
  "guarded_send c verifyJwt required handler w path init token address =
     (case guard_request verifyJwt (usUsers (asUsers (awAuth w))) False required
         (case token of Some (JStr t) \<Rightarrow> Some (''Bearer '' @ t) | _ \<Rightarrow> Some ''Bearer undefined'') of
        Inl e \<Rightarrow> (w, Some (error_answer c e))
      | Inr None \<Rightarrow> (w, Some (error_answer c unauthenticated))
      | Inr (Some who) \<Rightarrow> (w, Some (handler who path init)))"

text \<open>The web server in front of this API.\<close>

definition web_app :: "codec \<Rightarrow> bool \<Rightarrow> controller \<Rightarrow> auth_ports \<Rightarrow> (string \<Rightarrow> (id \<times> user_role) option)
    \<Rightarrow> user_role list option \<Rightarrow> (principal \<Rightarrow> string \<Rightarrow> web_init \<Rightarrow> web_response) \<Rightarrow> api_world web_ports" where
  "web_app cd secure c ports verifyJwt required handler = \<lparr>wpCodec = cd, wpSecure = secure,
     wpPublic = auth_peer c ports, wpSend = guarded_send c verifyJwt required handler\<rparr>"

end
