(* ===== verification/WebRequest.thy ===== *)
theory WebRequest
  imports WebSession
begin

text \<open>
  The requests of \<^verbatim>\<open>lib/server/api.ts\<close> as they leave the web server (address, headers, body),
  and the one provider value the pages use as a URL (\<open>tileImage\<close> of \<^verbatim>\<open>lib/offers/offer.ts\<close>). The
  keys of a header record are those the code writes, in lower case.
\<close>

section \<open>Headers\<close>

type_synonym headers = "(string \<times> string) list"

text \<open>\<open>{...earlier, ...later}\<close>.\<close>

definition spread :: "headers \<Rightarrow> headers \<Rightarrow> headers" where
  "spread earlier later = foldl (\<lambda>h (k, v). map_set k v h) earlier later"

record web_request =
  wqUrl :: string
  wqMethod :: string
  wqHeaders :: headers
  wqBody :: "string option"

definition forwardedFor :: "string option \<Rightarrow> headers" where
  "forwardedFor clientAddress = (case clientAddress of
     None \<Rightarrow> [] | Some a \<Rightarrow> if a = [] then [] else [(''x-forwarded-for'', a)])"

definition public_request :: "string \<Rightarrow> string \<Rightarrow> string \<Rightarrow> string \<Rightarrow> string option \<Rightarrow> web_request" where
  "public_request baseUrl path bodyText httpMethod clientAddress =
     \<lparr>wqUrl = baseUrl @ path, wqMethod = httpMethod,
      wqHeaders = spread [(''content-type'', ''application/json'')] (forwardedFor clientAddress),
      wqBody = Some bodyText\<rparr>"

definition authed_request :: "string \<Rightarrow> string \<Rightarrow> string \<Rightarrow> headers \<Rightarrow> string option \<Rightarrow> string \<Rightarrow> string option
    \<Rightarrow> web_request" where
  "authed_request baseUrl path httpMethod initHeaders bodyText accessToken clientAddress =
     \<lparr>wqUrl = baseUrl @ path, wqMethod = httpMethod,
      wqHeaders = spread initHeaders
        ([(''authorization'', ''Bearer '' @ accessToken)]
         @ (case bodyText of None \<Rightarrow> [] | Some b \<Rightarrow> if b = [] then [] else [(''content-type'', ''application/json'')])
         @ forwardedFor clientAddress),
      wqBody = bodyText\<rparr>"

text \<open>\<open>getClientAddress()\<close> throws when its header is configured and absent.\<close>

definition clientAddressOf :: "unit + string \<Rightarrow> string option" where
  "clientAddressOf r = (case r of Inl _ \<Rightarrow> None | Inr a \<Rightarrow> Some a)"

lemma map_of_spread: "map_of (spread h h') k = (case map_of (rev h') k of None \<Rightarrow> map_of h k | Some v \<Rightarrow> Some v)"
proof -
  have "map_of (foldl (\<lambda>h (k, v). map_set k v h) h h') = (\<lambda>k. case map_of (rev h') k of None \<Rightarrow> map_of h k | Some v \<Rightarrow> Some v)" for h
    by (induction h' arbitrary: h)
      (auto simp: fun_eq_iff map_of_map_set map_add_def split: option.splits)
  then show ?thesis by (simp add: spread_def)
qed

text \<open>Whose request it is, is decided here: whatever headers a caller passes along, an authenticated
  request carries this session's token, and the address the platform observed whenever there is one.
  Only when the address is unknown does a caller's own header of that name remain.\<close>

theorem request_speaks_for_its_session:
  "map_of (wqHeaders (authed_request baseUrl path httpMethod initHeaders bodyText accessToken address)) ''authorization''
     = Some (''Bearer '' @ accessToken)
   \<and> map_of (wqHeaders (authed_request baseUrl path httpMethod initHeaders bodyText accessToken address)) ''x-forwarded-for''
     = (case address of Some (c # cs) \<Rightarrow> Some (c # cs) | _ \<Rightarrow> map_of initHeaders ''x-forwarded-for'')
   \<and> map_of (wqHeaders (public_request baseUrl path publicBody httpMethod address)) ''x-forwarded-for''
     = (case address of Some (c # cs) \<Rightarrow> Some (c # cs) | _ \<Rightarrow> None)"
  by (auto simp: authed_request_def public_request_def forwardedFor_def map_of_spread split: option.splits list.splits)

section \<open>A provider's image\<close>

text \<open>The URL parser is an argument: the protocol and the normalised text of a URL.\<close>

fun replace_quotes :: "string \<Rightarrow> string" where
  "replace_quotes [] = []"
| "replace_quotes (c # cs) = (if c = CHR 0x22 then ''%22'' else [c]) @ replace_quotes cs"

definition tileImage :: "(string \<Rightarrow> (string \<times> string) option) \<Rightarrow> string option \<Rightarrow> string option" where
  "tileImage parseUrl imageUrl = (case imageUrl of
     None \<Rightarrow> None
   | Some u \<Rightarrow> if u = [] then None else (case parseUrl u of
       None \<Rightarrow> None
     | Some (protocol, href) \<Rightarrow> if protocol \<noteq> ''https:'' then None
         else Some (''url('' @ [CHR 0x22] @ replace_quotes href @ [CHR 0x22] @ '')'')))"

lemma replace_quotes_free: "CHR 0x22 \<notin> set (replace_quotes cs)"
  by (induction cs) auto

text \<open>What a tile renders is an \<open>https\<close> address in one quoted string: no quote of the provider's ends it.\<close>

theorem tile_image_is_one_quoted_address:
  "case tileImage parseUrl imageUrl of None \<Rightarrow> True
   | Some css \<Rightarrow> \<exists>u href. imageUrl = Some u \<and> parseUrl u = Some (''https:'', href)
       \<and> css = ''url('' @ [CHR 0x22] @ replace_quotes href @ [CHR 0x22] @ '')''
       \<and> CHR 0x22 \<notin> set (replace_quotes href)"
  by (auto simp: tileImage_def replace_quotes_free split: option.splits)

end
