(* ===== verification/WebSessionProps.thy ===== *)
theory WebSessionProps
  imports WebSession
begin

text \<open>
  What the web server's session keeps: the refresh token survives its way through \<open>Set-Cookie\<close>
  and the session cookie; only a refusal signs a browser out; a request with an expired access
  token is served and leaves the browser with the live token of its family.
\<close>

section \<open>The token on its way\<close>

text \<open>What Express documents of \<open>response.cookie\<close>: name, equals sign, the encoded value, attributes.\<close>

definition cookie_header_ok :: "controller \<Rightarrow> bool" where
  "cookie_header_ok c \<longleftrightarrow> (\<forall>n v opts. \<exists>attributes. ctSetCookie c n v opts = n @ ''='' @ encodeURIComponent v @ attributes
     \<and> (attributes = [] \<or> hd attributes = CHR '';''))"

text \<open>The cookie's text layer gives a session back.\<close>

definition codec_ok :: "codec \<Rightarrow> bool" where
  "codec_ok cd \<longleftrightarrow> (\<forall>a r. let j = JObj [(''accessToken'', JStr a), (''refreshToken'', JStr r)]
     in cdPack cd j \<noteq> [] \<and> cdUnpack cd (cdPack cd j) = Some j)"

lemma encoded_chars: "c \<in> set (encodeURIComponent s) \<Longrightarrow> uri_unreserved c \<or> c = CHR ''%''"
proof -
  have h: "d < 16 \<Longrightarrow> uri_unreserved (hex_digit d)" for d
    by (simp add: uri_unreserved_def Let_def hex_digit_code)
  have p: "n < 256 \<Longrightarrow> x \<in> set (percent n) \<Longrightarrow> uri_unreserved x \<or> x = CHR ''%''" for n x
    using h [of "n div 16"] h [of "n mod 16"] by (auto simp: percent_def less_mult_imp_div_less)
  have e: "x \<in> set (encode_char c) \<Longrightarrow> uri_unreserved x \<or> x = CHR ''%''" for c x
  proof -
    assume x: "x \<in> set (encode_char c)"
    have b: "code_unit c < 256" "192 + code_unit c div 64 < 256" "128 + code_unit c mod 64 < 256"
      using code_unit_bound [of c] by (auto simp: less_mult_imp_div_less)
    show ?thesis
      using x p [OF b(1)] p [OF b(2)] p [OF b(3)] by (auto simp: encode_char_def Let_def split: if_splits)
  qed
  show "c \<in> set (encodeURIComponent s) \<Longrightarrow> uri_unreserved c \<or> c = CHR ''%''"
    using e by (auto simp: encodeURIComponent_def)
qed

lemma encoded_misses: "CHR ''='' \<notin> set (encodeURIComponent s)" "CHR '';'' \<notin> set (encodeURIComponent s)"
  using encoded_chars [of "CHR ''=''" s] encoded_chars [of "CHR '';''" s]
  by (auto simp: uri_unreserved_def code_unit_def)

lemma js_trim_encoded: "js_trim (encodeURIComponent s) = encodeURIComponent s"
proof -
  have "\<not> js_space c" if "c \<in> set (encodeURIComponent s)" for c
    using encoded_chars [OF that] by (auto simp: js_space_def uri_unreserved_def Let_def code_unit_def)
  then show ?thesis by (simp add: js_trim_def dropWhile_no)
qed

lemma split_on_hd: "c \<notin> set s \<Longrightarrow> r = [] \<or> hd r = c \<Longrightarrow> hd (split_on c (s @ r)) = s"
proof (induction s)
  case Nil
  then show ?case by (cases r) auto
next
  case (Cons x s)
  then show ?case by (auto split: list.splits)
qed

lemma encode_nonempty: "s \<noteq> [] \<Longrightarrow> encodeURIComponent s \<noteq> []"
  using decode_encode [of s] by (metis decodeURIComponent.simps(1) option.inject)

lemma refresh_token_round_trip:
  assumes "cookie_header_ok c" and "token \<noteq> []"
  shows "refreshTokenFrom [setRefreshCookie c token expiresAt] = Some (Some token)"
proof -
  let ?e = "encodeURIComponent token"
  obtain attributes where h: "setRefreshCookie c token expiresAt = ''gemone_rt='' @ ?e @ attributes"
      "attributes = [] \<or> hd attributes = CHR '';''"
    using assms(1) [unfolded cookie_header_ok_def, rule_format, of "''gemone_rt''" token]
    unfolding setRefreshCookie_def REFRESH_COOKIE_NAME_def by auto
  have "hd (split_on CHR '';'' (setRefreshCookie c token expiresAt)) = ''gemone_rt='' @ ?e"
    using split_on_hd [of "CHR '';''" "''gemone_rt='' @ ?e" attributes] encoded_misses(2) h by simp
  moreover have "split_on CHR ''='' (''gemone_rt='' @ ?e) = [''gemone_rt'', ?e]"
    using split_on_join [of "[?e]" "CHR ''=''" "''gemone_rt''"] encoded_misses(1) by simp
  moreover have "js_trim ''gemone_rt'' = API_REFRESH_COOKIE" unfolding API_REFRESH_COOKIE_def by code_simp
  ultimately show ?thesis
    using js_trim_encoded [of token] encode_nonempty [OF assms(2)] by (simp add: Let_def)
qed

lemma session_round_trip:
  assumes "codec_ok cd"
  shows "readSession cd (writeSession cd \<lparr>wsAccess = Some (JStr a), wsRefresh = r\<rparr> secure)
    = Some \<lparr>wsAccess = Some (JStr a), wsRefresh = r\<rparr>"
proof -
  let ?j = "JObj [(''accessToken'', JStr a), (''refreshToken'', JStr r)]"
  have "cdPack cd ?j \<noteq> []" "cdUnpack cd (cdPack cd ?j) = Some ?j"
    using assms unfolding codec_ok_def Let_def by blast+
  then show ?thesis
    by (cases "cdPack cd ?j") (simp_all add: readSession_def writeSession_def encode_session_def truthy_def json_field_def)
qed

section \<open>Only a refusal signs out\<close>

lemma failures_differ [simp]:
  "temporarilyUnavailable \<noteq> unauthenticated_failure" "unauthenticated_failure \<noteq> temporarilyUnavailable"
  by (simp_all add: temporarilyUnavailable_def unauthenticated_failure_def plain_failure_def)

lemma written_session [simp]: "writeSession cd session secure \<noteq> clearSession"
  by (simp add: writeSession_def clearSession_def)

lemma refreshSession_jar:
  assumes "refreshSession p s jar session address = (s', jar', outcome)"
  shows "(\<exists>fresh. outcome = Refreshed fresh \<and> jar' = writeSession (wpCodec p) fresh (wpSecure p))
    \<or> (\<forall>fresh. outcome \<noteq> Refreshed fresh) \<and> jar' = jar"
  using assms by (auto simp: refreshSession_def take_refresh_def Let_def split: prod.splits option.splits if_splits)

lemma refreshSession_refused:
  assumes "refreshSession p s jar session address = (s', jar', outcome)"
  shows "outcome = NotRefreshed False \<longleftrightarrow> (\<exists>r. wpPublic p s ''/auth/refresh'' (refresh_body session) address = (s', Some r)
      \<and> \<not> response_ok r \<and> wrStatus r \<noteq> 429 \<and> wrStatus r < 500)"
  using assms by (auto simp: refreshSession_def take_refresh_def Let_def split: prod.splits option.splits if_splits)

text \<open>C23. A browser that holds a session is signed out by a request exactly when the API has refused it: the
  request came back with 401, and then either the refresh was answered with an error below 500 other
  than 429, or the refresh succeeded and the request came back with 401 again. A refresh that was
  throttled, failed or never came back, and an answer that cannot be read, keep the cookie; the
  cookie is cleared exactly with the answer "your session has ended", and "busy" leaves it as it was.\<close>

theorem only_a_refusal_signs_out:
  assumes "readSession (wpCodec p) jar = Some session" and "apiAuthed p s jar path init address = (s', jar', r)"
  shows "(jar' = clearSession \<longleftrightarrow> (\<exists>s1 first s2. wpSend p s path init (wsAccess session) address = (s1, Some first)
        \<and> wrStatus first = 401
        \<and> ((\<exists>reply. wpPublic p s1 ''/auth/refresh'' (refresh_body session) address = (s2, Some reply)
              \<and> \<not> response_ok reply \<and> wrStatus reply \<noteq> 429 \<and> wrStatus reply < 500)
          \<or> (\<exists>jar2 fresh second. refreshSession p s1 jar session address = (s2, jar2, Refreshed fresh)
              \<and> wpSend p s2 path init (wsAccess fresh) address = (s', Some second) \<and> wrStatus second = 401))))
    \<and> (jar' = clearSession \<longleftrightarrow> r = ApiFailed unauthenticated_failure)
    \<and> (r = ApiFailed temporarilyUnavailable \<longrightarrow> jar' = jar)
    \<and> (jar' = clearSession \<or> jar' = jar \<or> (\<exists>fresh. jar' = writeSession (wpCodec p) fresh (wpSecure p)))"
proof -
  have jar: "jar \<noteq> clearSession" using assms(1) by (cases jar) (auto simp: readSession_def truthy_def clearSession_def)
  obtain s1 first where first: "wpSend p s path init (wsAccess session) address = (s1, first)" by fastforce
  obtain s2 jar2 outcome where refresh: "refreshSession p s1 jar session address = (s2, jar2, outcome)"
    by (metis prod_cases3)
  note out = refreshSession_jar [OF refresh] and refused = refreshSession_refused [OF refresh]
  have public: "fst (wpPublic p s1 ''/auth/refresh'' (refresh_body session) address) = s2"
    using refresh by (auto simp: refreshSession_def split: prod.splits)
  show ?thesis
  proof (cases first)
    case None
    then show ?thesis using assms first jar by (auto simp: apiAuthed_def)
  next
    case (Some a)
    show ?thesis
    proof (cases "wrStatus a = 401")
      case False
      then show ?thesis using assms first jar Some by (auto simp: apiAuthed_def)
    next
      case True
      have call: "after_refresh p s2 (jar2, outcome) path init address = (s', jar', r)"
        using assms first Some True refresh by (simp add: apiAuthed_def resume_call_def)
      show ?thesis
        using call out refused public jar first Some True refresh
        by (cases outcome) (auto simp: after_refresh_def clearSession_def [symmetric] split: prod.splits option.splits if_splits)
    qed
  qed
qed

section \<open>An expired access token\<close>

text \<open>The row behind a browser's refresh token, while it can be exchanged; the token the API draws next.\<close>

definition renewable :: "token_env \<Rightarrow> api_world \<Rightarrow> string \<Rightarrow> refresh_token \<Rightarrow> user \<Rightarrow> bool" where
  "renewable env w token stored u \<longleftrightarrow> findByHash (asTokens (awAuth w)) (tvHash env token) = Some stored \<and> live stored
     \<and> awNow w < rtExpiresAt stored \<and> findUser (usUsers (asUsers (awAuth w))) (rtUserId stored) = Some u \<and> usStatus u = ACTIVE"

definition draws :: "token_env \<Rightarrow> api_world \<Rightarrow> fresh_token \<Rightarrow> bool" where
  "draws env w fresh \<longleftrightarrow> (\<exists>rest. awFresh w = fresh # rest) \<and> fst fresh \<notin> set (map rtId (asTokens (awAuth w)))
     \<and> tvHash env (snd fresh) \<notin> set (map rtTokenHash (asTokens (awAuth w))) \<and> snd fresh \<noteq> []"

definition jwt_text :: "string \<Rightarrow> bool" where
  "jwt_text t \<longleftrightarrow> t \<noteq> [] \<and> list_all (\<lambda>c. \<not> js_space c) t"

lemma bearer_read:
  assumes "jwt_text t"
  shows "extractBearerToken (Some (''Bearer '' @ t)) = Some t"
proof -
  have t: "CHR '' '' \<notin> set t" "js_trim t = t"
    using assms by (auto simp: jwt_text_def list_all_iff js_trim_def dropWhile_no js_space_def code_unit_def)
  have "split_on CHR '' '' (''Bearer'' @ CHR '' '' # t) = [''Bearer'', t]"
    using split_on_join [of "[t]" "CHR '' ''" "''Bearer''"] t(1) by simp
  moreover have "js_lower ''Bearer'' = ''bearer''" by code_simp
  ultimately show ?thesis
    using assms t(2) by (cases t) (auto simp: extractBearerToken_def truthy_def jwt_text_def)
qed

text \<open>The row that the exchange appends.\<close>

definition renewed :: "token_env \<Rightarrow> api_world \<Rightarrow> fresh_token \<Rightarrow> refresh_token \<Rightarrow> session_context \<Rightarrow> refresh_token" where
  "renewed env w fresh stored ctx = \<lparr>rtId = fst fresh, rtUserId = rtUserId stored, rtFamilyId = rtFamilyId stored,
     rtTokenHash = tvHash env (snd fresh), rtExpiresAt = awNow w + tvRefreshTtlDays env * 24 * 60 * 60 * 1000,
     rtUsedAt = None, rtRevokedAt = None, rtRevokedReason = None, rtIssuedIp = scxIp ctx,
     rtIssuedUserAgent = map_option (take 512) (scxUserAgent ctx)\<rparr>"

definition rotated_rows :: "token_env \<Rightarrow> api_world \<Rightarrow> fresh_token \<Rightarrow> refresh_token \<Rightarrow> session_context \<Rightarrow> refresh_token list" where
  "rotated_rows env w fresh stored ctx =
     update_where (\<lambda>x. rtId x = rtId stored) (mark_spent (awNow w)) (asTokens (awAuth w)) @ [renewed env w fresh stored ctx]"

lemma marked_keys [simp]: "rtId (mark_spent now t) = rtId t" "rtTokenHash (mark_spent now t) = rtTokenHash t"
  by (simp_all add: mark_spent_def)

lemma rotate_renewable:
  assumes "renewable env w token stored u" and "draws env w fresh"
  shows "rotate env (usUsers (asUsers (awAuth w))) (asTokens (awAuth w)) (awNow w) (awNow w) fresh token ctx
    = (rotated_rows env w fresh stored ctx, Inr (rtUserId stored,
        \<lparr>isAccessToken = tvSign env (rtUserId stored) (usRole u), isExpiresIn = tvAccessTtlSeconds env,
         isRefreshToken = snd fresh, isRefreshExpiresAt = awNow w + tvRefreshTtlDays env * 24 * 60 * 60 * 1000\<rparr>))"
proof -
  let ?rows = "asTokens (awAuth w)"
  have stored: "stored \<in> set ?rows"
    using assms(1) by (auto simp: renewable_def dest: findByHash_D)
  have keys: "map k (update_where P (mark_spent now) ?rows) = map k ?rows"
    if "\<And>t. k (mark_spent now t) = k t" for k :: "refresh_token \<Rightarrow> 'a" and P now
    using that by (simp add: map_update_where)
  have check: "rotate_check env (usUsers (asUsers (awAuth w))) ?rows (awNow w) token = (?rows, Inr (stored, u))"
    using assms(1) by (simp add: rotate_check_def renewable_def live_def)
  show ?thesis
    using assms(2) stored keys [of rtId] keys [of rtTokenHash] unfolding rotate_def check
    by (simp add: rotate_commit_def issueInFamily_def draws_def rotated_rows_def renewed_def Let_def)
qed

text \<open>The context the API sees, and the session the browser is left with.\<close>

abbreviation seen_context :: "api_world \<Rightarrow> string option \<Rightarrow> session_context" where
  "seen_context w address \<equiv> \<lparr>scxIp = address, scxUserAgent = awAgent w\<rparr>"

definition renewed_session :: "token_env \<Rightarrow> fresh_token \<Rightarrow> refresh_token \<Rightarrow> user \<Rightarrow> web_session" where
  "renewed_session env fresh stored u = \<lparr>wsAccess = Some (JStr (tvSign env (rtUserId stored) (usRole u))), wsRefresh = snd fresh\<rparr>"

definition after_renewal :: "token_env \<Rightarrow> api_world \<Rightarrow> fresh_token \<Rightarrow> refresh_token \<Rightarrow> string option \<Rightarrow> api_world" where
  "after_renewal env w fresh stored address = w\<lparr>awAuth := (awAuth w)\<lparr>asTokens :=
     rotated_rows env w fresh stored (seen_context w address)\<rparr>, awFresh := tl (awFresh w)\<rparr>"

lemma refresh_renewable:
  assumes "renewable (apEnv ports) w (wsRefresh session) stored u" and "draws (apEnv ports) w fresh"
    and "cookie_header_ok c" and "wsRefresh session \<noteq> []"
  shows "refreshSession (web_app cd secure c ports verifyJwt required handler) w jar session address
    = (after_renewal (apEnv ports) w fresh stored address,
       writeSession cd (renewed_session (apEnv ports) fresh stored u) secure, Refreshed (renewed_session (apEnv ports) fresh stored u))"
proof -
  let ?env = "apEnv ports" and ?ctx = "seen_context w address"
  obtain rest where fresh: "awFresh w = fresh # rest" "snd fresh \<noteq> []" using assms(2) by (auto simp: draws_def)
  have user: "findUser (usUsers (asUsers (awAuth w))) (rtUserId stored) = Some u" using assms(1) by (simp add: renewable_def)
  have read: "readRefreshToken None (Some (JStr (wsRefresh session))) = Some (wsRefresh session)"
    using assms(4) by (cases "wsRefresh session") (simp_all add: readRefreshToken_def)
  obtain session' where r: "refresh ports (awAuth w) (awNow w) (awNow w) fresh (wsRefresh session) ?ctx
      = ((awAuth w)\<lparr>asTokens := rotated_rows ?env w fresh stored ?ctx\<rparr>, Inr (toProfile u, session'))"
    and s': "isAccessToken session' = tvSign ?env (rtUserId stored) (usRole u)" "isRefreshToken session' = snd fresh"
    using rotate_renewable [OF assms(1,2), of ?ctx] user by (auto simp: refresh_def)
  have peer: "auth_peer c ports w ''/auth/refresh'' (refresh_body session) address
      = (after_renewal ?env w fresh stored address, Some (respondWithSession c 200 (toProfile u, session')))"
    by (simp add: auth_peer_def refresh_body_def fresh(1) json_field_def refresh_endpoint_def read r answer_def after_renewal_def)
  have token: "refreshTokenFrom (wrCookies (respondWithSession c 200 (toProfile u, session'))) = Some (Some (snd fresh))"
    using refresh_token_round_trip [OF assms(3) fresh(2)] by (simp add: respondWithSession_def s'(2))
  have truth: "truthy (Some (snd fresh)) = Some (snd fresh)" using fresh(2) by (cases "snd fresh") (simp_all add: truthy_def)
  obtain r where r: "r = respondWithSession c 200 (toProfile u, session')" by blast
  obtain auth where body: "wrBody r = Some auth" "response_ok r" "auth \<noteq> JNull"
    "json_field auth ''accessToken'' = Some (JStr (tvSign ?env (rtUserId stored) (usRole u)))"
    by (simp add: r respondWithSession_def response_ok_def json_field_def s'(1))
  show ?thesis
    by (simp add: refreshSession_def take_refresh_def web_app_def peer token [folded r] r [symmetric] truth body renewed_session_def Let_def)
qed

lemma guarded_refuses:
  assumes "jwt_text t" and "verifyJwt t = None"
  shows "guarded_send c verifyJwt required handler w path init (Some (JStr t)) address
    = (w, Some (error_answer c unauthenticated))"
  using bearer_read [OF assms(1)] assms(2) by (simp add: guarded_send_def guard_request_def jwt_guard_def)

lemma guarded_serves:
  assumes "jwt_text t" and "verifyJwt t = Some (i, role)"
    and "findUser (usUsers (asUsers (awAuth w))) i = Some u" and "usStatus u = ACTIVE"
    and "required = None \<or> (\<exists>roles. required = Some roles \<and> usRole u \<in> set roles)"
  shows "guarded_send c verifyJwt required handler w path init (Some (JStr t)) address
    = (w, Some (handler \<lparr>ppId = usId u, ppEmail = usEmail u, ppRole = usRole u, ppStatus = usStatus u\<rparr> path init))"
proof -
  let ?who = "\<lparr>ppId = usId u, ppEmail = usEmail u, ppRole = usRole u, ppStatus = usStatus u\<rparr>"
  have "roles_guard required (Some ?who) = Inr ()"
    using assms(5) by (auto simp: roles_guard_def split: option.splits list.splits)
  then show ?thesis
    using bearer_read [OF assms(1)] assms(2-4)
    by (simp add: guarded_send_def guard_request_def jwt_guard_def isActiveUser_def)
qed

lemma findByHash_fresh:
  assumes "draws env w fresh"
  shows "findByHash (rotated_rows env w fresh stored ctx) (tvHash env (snd fresh)) = Some (renewed env w fresh stored ctx)"
proof -
  let ?old = "update_where (\<lambda>x. rtId x = rtId stored) (mark_spent (awNow w)) (asTokens (awAuth w))"
  have "map rtTokenHash ?old = map rtTokenHash (asTokens (awAuth w))" by (simp add: map_update_where)
  then have "tvHash env (snd fresh) \<notin> set (map rtTokenHash ?old)" using assms by (simp add: draws_def)
  then have "List.find (\<lambda>t. rtTokenHash t = tvHash env (snd fresh)) ?old = None" by (force simp: find_None_iff)
  then show ?thesis by (simp add: findByHash_def rotated_rows_def find_append renewed_def)
qed

text \<open>C21. A browser whose access token has expired and whose refresh token is good gets the page it
  asked for, as if nothing had expired: the web server exchanges the token, the API's guards accept
  the new access token, the cookie holds the new pair, and the refresh token in it is the live one
  of the same session family.\<close>

theorem expired_access_token_is_renewed:
  assumes "readSession cd jar = Some \<lparr>wsAccess = Some (JStr old), wsRefresh = token\<rparr>" and "token \<noteq> []"
    and "jwt_text old" and "verifyJwt old = None"
    and "renewable (apEnv ports) w token stored u" and "draws (apEnv ports) w fresh"
    and "jwt_text (tvSign (apEnv ports) (rtUserId stored) (usRole u))"
    and "verifyJwt (tvSign (apEnv ports) (rtUserId stored) (usRole u)) = Some (rtUserId stored, role)"
    and "required = None \<or> (\<exists>roles. required = Some roles \<and> usRole u \<in> set roles)"
    and "cookie_header_ok c" and "codec_ok cd"
    and "who = \<lparr>ppId = usId u, ppEmail = usEmail u, ppRole = usRole u, ppStatus = usStatus u\<rparr>"
    and "wrStatus (handler who path init) \<noteq> 401"
  shows "\<exists>w' jar' row. apiAuthed (web_app cd secure c ports verifyJwt required handler) w jar path init address
      = (w', jar', ApiOk (handler who path init))
    \<and> readSession cd jar' = Some (renewed_session (apEnv ports) fresh stored u)
    \<and> findByHash (asTokens (awAuth w')) (tvHash (apEnv ports) (snd fresh)) = Some row
    \<and> live row \<and> rtFamilyId row = rtFamilyId stored \<and> rtUserId row = rtUserId stored"
proof -
  let ?p = "web_app cd secure c ports verifyJwt required handler" and ?env = "apEnv ports"
  let ?session = "\<lparr>wsAccess = Some (JStr old), wsRefresh = token\<rparr>"
  let ?w' = "after_renewal ?env w fresh stored address" and ?jar' = "writeSession cd (renewed_session ?env fresh stored u) secure"
  have "refreshSession ?p w jar ?session address = (?w', ?jar', Refreshed (renewed_session ?env fresh stored u))"
    by (rule refresh_renewable) (use assms(2,5,6,10) in simp_all)
  moreover have "wpSend ?p w path init (Some (JStr old)) address = (w, Some (error_answer c unauthenticated))"
    using guarded_refuses [where verifyJwt = verifyJwt, OF assms(3,4)] by (simp add: web_app_def)
  moreover have "wpSend ?p ?w' path init (Some (JStr (tvSign ?env (rtUserId stored) (usRole u)))) address
      = (?w', Some (handler who path init))"
    using guarded_serves [where verifyJwt = verifyJwt and w = ?w', OF assms(7,8) _ _ assms(9)] assms(5)
    by (simp add: web_app_def assms(12) renewable_def after_renewal_def)
  ultimately have "apiAuthed ?p w jar path init address = (?w', ?jar', ApiOk (handler who path init))"
    using assms(1,13) by (simp add: apiAuthed_def resume_call_def after_refresh_def web_app_def error_answer_def unauthenticated_def renewed_session_def)
  moreover have "readSession cd ?jar' = Some (renewed_session ?env fresh stored u)"
    unfolding renewed_session_def by (rule session_round_trip [OF assms(11)])
  moreover have "findByHash (asTokens (awAuth ?w')) (tvHash ?env (snd fresh)) = Some (renewed ?env w fresh stored (seen_context w address))"
    using findByHash_fresh [OF assms(6)] by (simp add: after_renewal_def)
  ultimately show ?thesis by (force simp: renewed_def live_def)
qed

section \<open>Witnesses\<close>

text \<open>A concrete text layer, controller and API.\<close>

definition web_demo_codec :: codec where
  "web_demo_codec = \<lparr>
     cdPack = (\<lambda>j. case (json_field j ''accessToken'', json_field j ''refreshToken'') of
       (Some (JStr a), Some (JStr r)) \<Rightarrow> encodeURIComponent a @ ''='' @ encodeURIComponent r | _ \<Rightarrow> []),
     cdUnpack = (\<lambda>s. case split_on CHR ''='' s of
       [a, r] \<Rightarrow> (case (decodeURIComponent a, decodeURIComponent r) of
           (Some a', Some r') \<Rightarrow> Some (JObj [(''accessToken'', JStr a'), (''refreshToken'', JStr r')]) | _ \<Rightarrow> None)
     | _ \<Rightarrow> None)\<rparr>"

lemma web_demo_codec_ok: "codec_ok web_demo_codec"
proof -
  have "split_on CHR ''='' (encodeURIComponent a @ CHR ''='' # encodeURIComponent r) = [encodeURIComponent a, encodeURIComponent r]" for a r
    using split_on_join [of "[encodeURIComponent r]" "CHR ''=''" "encodeURIComponent a"] encoded_misses(1) by simp
  then show ?thesis by (simp add: codec_ok_def web_demo_codec_def json_field_def Let_def)
qed

definition web_demo_controller :: controller where
  "web_demo_controller = \<lparr>ctCookieSecure = True, ctCookieDomain = None,
     ctSetCookie = (\<lambda>n v opts. n @ ''='' @ encodeURIComponent v @ ''; Path='' @ coPath opts),
     ctClearCookie = (\<lambda>n opts. n @ ''=''), ctProfile = (\<lambda>_. JNull), ctError = (\<lambda>_. JNull)\<rparr>"

lemma web_demo_controller_ok: "cookie_header_ok web_demo_controller"
  by (auto simp: cookie_header_ok_def web_demo_controller_def)

definition web_demo_ports :: auth_ports where
  "web_demo_ports = \<lparr>apEnv = demo_env, apHasher = \<lparr>pwHash = (\<lambda>p. p), pwVerify = (\<lambda>_ _. None)\<rparr>, apDecoy = [],
     apAccountLimit = 5, apIpLimit = 20, apVerifyTtl = 1, apResetTtl = 1\<rparr>"

definition web_demo_world :: api_world where
  "web_demo_world = \<lparr>awAuth = \<lparr>asUsers = \<lparr>usUsers = [demo_account], usLedger = empty_ledger\<rparr>,
       asTokens = [demo_refresh 2 ''t'' None], asLinks = [], asEmails = []\<rparr>,
     awNow = 5, awAgent = None, awFresh = [(3, ''u''), (4, ''v'')]\<rparr>"

definition web_demo_verify :: "string \<Rightarrow> (id \<times> user_role) option" where
  "web_demo_verify t = (if t = ''jwt'' then Some (4, ROLE_USER) else None)"

definition web_demo_page :: "principal \<Rightarrow> string \<Rightarrow> web_init \<Rightarrow> web_response" where
  "web_demo_page who path init = \<lparr>wrStatus = 200, wrCookies = [], wrBody = Some (JStr (ppEmail who @ path))\<rparr>"

lemmas web_demo_simps = web_demo_ports_def web_demo_world_def demo_env_def demo_account_def demo_refresh_def

lemma web_demo_renewable:
  "renewable (apEnv web_demo_ports) web_demo_world ''t'' (demo_refresh 2 ''t'' None) demo_account"
  "draws (apEnv web_demo_ports) web_demo_world (3, ''u'')"
  by (simp_all add: renewable_def draws_def web_demo_simps findByHash_def findUser_def live_def)

lemma web_demo_jwt:
  "jwt_text (tvSign (apEnv web_demo_ports) i r)" "jwt_text ''gone''" "web_demo_verify ''gone'' = None"
  "web_demo_verify (tvSign (apEnv web_demo_ports) i r) = Some (rtUserId (demo_refresh 2 ''t'' None), ROLE_USER)"
  by (simp_all add: jwt_text_def web_demo_simps web_demo_verify_def js_space_def code_unit_def Let_def)

lemma web_demo_page_shown:
  "web_demo_page \<lparr>ppId = usId demo_account, ppEmail = usEmail demo_account, ppRole = usRole demo_account,
      ppStatus = usStatus demo_account\<rparr> ''/me'' init = \<lparr>wrStatus = 200, wrCookies = [], wrBody = Some (JStr ''a@b/me'')\<rparr>"
  by (simp add: web_demo_page_def demo_account_def)

lemma only_a_refusal_signs_out_witness:
  "\<exists>p jar. readSession (wpCodec p) jar \<noteq> None
    \<and> apiAuthed (p :: nat web_ports) 429 jar ''/x'' \<lparr>wiMethod = ''GET'', wiBody = None\<rparr> None
      = (429, jar, ApiFailed temporarilyUnavailable) \<and> jar \<noteq> clearSession
    \<and> apiAuthed p 403 jar ''/x'' \<lparr>wiMethod = ''GET'', wiBody = None\<rparr> None
      = (403, clearSession, ApiFailed unauthenticated_failure)"
proof -
  let ?answer = "\<lambda>status (s :: nat). (s, Some \<lparr>wrStatus = status, wrCookies = [], wrBody = None\<rparr>)"
  let ?p = "\<lparr>wpCodec = web_demo_codec, wpSecure = True, wpPublic = (\<lambda>s _ _ _. ?answer s s), wpSend = (\<lambda>s _ _ _ _. ?answer 401 s)\<rparr>"
  let ?jar = "writeSession web_demo_codec \<lparr>wsAccess = Some (JStr ''a''), wsRefresh = ''r''\<rparr> True"
  have session: "readSession (wpCodec ?p) ?jar = Some \<lparr>wsAccess = Some (JStr ''a''), wsRefresh = ''r''\<rparr>"
    using session_round_trip [OF web_demo_codec_ok] by simp
  have busy: "apiAuthed ?p 429 ?jar ''/x'' \<lparr>wiMethod = ''GET'', wiBody = None\<rparr> None = (429, ?jar, ApiFailed temporarilyUnavailable)"
    unfolding apiAuthed_def session
    by (simp add: resume_call_def refreshSession_def take_refresh_def after_refresh_def response_ok_def)
  have ended: "apiAuthed ?p 403 ?jar ''/x'' \<lparr>wiMethod = ''GET'', wiBody = None\<rparr> None
      = (403, clearSession, ApiFailed unauthenticated_failure)"
    unfolding apiAuthed_def session
    by (simp add: resume_call_def refreshSession_def take_refresh_def after_refresh_def response_ok_def)
  show ?thesis
    using only_a_refusal_signs_out [OF session busy] session busy ended
    by (intro exI [of _ ?p] exI [of _ ?jar]) simp
qed

lemma expired_access_token_is_renewed_witness:
  "\<exists>w' jar'. apiAuthed (web_app web_demo_codec True web_demo_controller web_demo_ports web_demo_verify None web_demo_page)
      web_demo_world (writeSession web_demo_codec \<lparr>wsAccess = Some (JStr ''gone''), wsRefresh = ''t''\<rparr> True) ''/me''
      \<lparr>wiMethod = ''GET'', wiBody = None\<rparr> None
    = (w', jar', ApiOk \<lparr>wrStatus = 200, wrCookies = [], wrBody = Some (JStr ''a@b/me'')\<rparr>)"
proof -
  have session: "readSession web_demo_codec (writeSession web_demo_codec \<lparr>wsAccess = Some (JStr ''gone''), wsRefresh = ''t''\<rparr> True)
      = Some \<lparr>wsAccess = Some (JStr ''gone''), wsRefresh = ''t''\<rparr>"
    using session_round_trip [OF web_demo_codec_ok] by simp
  show ?thesis
    using expired_access_token_is_renewed [where verifyJwt = web_demo_verify and handler = web_demo_page and required = None
        and path = "''/me''" and init = "\<lparr>wiMethod = ''GET'', wiBody = None\<rparr>" and address = None and secure = True,
        OF session _ web_demo_jwt(2,3) web_demo_renewable web_demo_jwt(1,4) _ web_demo_controller_ok web_demo_codec_ok refl]
    unfolding web_demo_page_shown by auto
qed

end
