(* ===== verification/WebOverlap.thy ===== *)
theory WebOverlap
  imports WebSessionProps
begin

text \<open>
  Requests of one page that start together, as the layouts of the signed-in pages start theirs, at the
  moment the access token has expired. Each was refused with 401 and goes on to exchange the same
  refresh token; the API's exchange is a check and a transaction that nothing holds together, so the
  calls are taken apart there and run in any order.
\<close>

section \<open>One exchange in its steps\<close>

text \<open>\<open>/auth/refresh\<close> up to the transaction: the answer of a refusal, or the token to exchange.\<close>

definition refresh_begin :: "controller \<Rightarrow> auth_ports \<Rightarrow> api_world \<Rightarrow> json
    \<Rightarrow> api_world \<times> (web_response + refresh_token \<times> user)" where
  "refresh_begin c ports w body =
     (case readRefreshToken None (json_field body ''refreshToken'') of
        None \<Rightarrow> (w, Inl (error_answer c (DomainError AUTH_REFRESH_INVALID 401)))
      | Some token \<Rightarrow>
          (case rotate_check (apEnv ports) (usUsers (asUsers (awAuth w))) (asTokens (awAuth w)) (awNow w) token of
             (tokens, r) \<Rightarrow> (w\<lparr>awAuth := (awAuth w)\<lparr>asTokens := tokens\<rparr>\<rparr>, (case r of
                 Inl e \<Rightarrow> Inl (error_answer c e) | Inr x \<Rightarrow> Inr x))))"

text \<open>The transaction and the answer; no answer where the list of tokens to draw has run out.\<close>

definition refresh_end :: "controller \<Rightarrow> auth_ports \<Rightarrow> api_world \<Rightarrow> refresh_token \<times> user \<Rightarrow> string option
    \<Rightarrow> api_world \<times> web_response option" where
  "refresh_end c ports w x address = (case x of (stored, u) \<Rightarrow> (case awFresh w of
       [] \<Rightarrow> (w, None)
     | fresh # rest \<Rightarrow> (case rotate_commit (apEnv ports) (asTokens (awAuth w)) (awNow w) fresh stored u
           \<lparr>scxIp = address, scxUserAgent = awAgent w\<rparr> of
         Inl e \<Rightarrow> (w\<lparr>awFresh := rest\<rparr>, Some (error_answer c e))
       | Inr (session, tokens) \<Rightarrow> (w\<lparr>awAuth := (awAuth w)\<lparr>asTokens := tokens\<rparr>, awFresh := rest\<rparr>,
           Some (answer c 200 (case findUser (usUsers (asUsers (awAuth w))) (rtUserId stored) of
             None \<Rightarrow> Inl invalidCredentials | Some v \<Rightarrow> Inr (toProfile v, session)))))))"

text \<open>With nothing in between, the two are the endpoint.\<close>

lemma refresh_split:
  assumes "awFresh w \<noteq> []"
  shows "auth_peer c ports w ''/auth/refresh'' body address = (case refresh_begin c ports w body of
      (w', Inl r) \<Rightarrow> (w'\<lparr>awFresh := tl (awFresh w)\<rparr>, Some r)
    | (w', Inr x) \<Rightarrow> refresh_end c ports w' x address)"
  using assms
  by (cases "awFresh w")
    (auto simp: auth_peer_def refresh_begin_def refresh_end_def refresh_endpoint_def refresh_def rotate_def answer_def
      Let_def split: option.splits prod.splits sum.splits)

section \<open>Calls that overlap\<close>

datatype call_progress =
    Asked
  | Exchanging refresh_token user
  | Answered "web_response option"
  | CallDone "web_response api_result"

record overlap =
  ovWorld :: api_world
  ovJar :: "session_cookie option"
  ovCalls :: "(string \<times> web_init) list"
  ovProgress :: "call_progress list"

text \<open>The next step of call \<open>i\<close>: the API's check, its transaction, and then the web server, which
  takes the answer, writes or clears the cookie and repeats the request.\<close>

definition call_step :: "controller \<Rightarrow> auth_ports \<Rightarrow> api_world web_ports \<Rightarrow> string option \<Rightarrow> web_session \<Rightarrow> nat
    \<Rightarrow> overlap \<Rightarrow> overlap" where
  "call_step c ports p address session i v = (case ovProgress v ! i of
     Asked \<Rightarrow> (case refresh_begin c ports (ovWorld v) (refresh_body session) of
         (w, Inl r) \<Rightarrow> v\<lparr>ovWorld := w, ovProgress := (ovProgress v)[i := Answered (Some r)]\<rparr>
       | (w, Inr (stored, u)) \<Rightarrow> v\<lparr>ovWorld := w, ovProgress := (ovProgress v)[i := Exchanging stored u]\<rparr>)
   | Exchanging stored u \<Rightarrow> (case refresh_end c ports (ovWorld v) (stored, u) address of
       (w, r) \<Rightarrow> v\<lparr>ovWorld := w, ovProgress := (ovProgress v)[i := Answered r]\<rparr>)
   | Answered r \<Rightarrow> (case ovCalls v ! i of (path, init) \<Rightarrow>
       (case after_refresh p (ovWorld v) (take_refresh p (ovJar v) r) path init address of
         (w, jar, result) \<Rightarrow> v\<lparr>ovWorld := w, ovJar := jar, ovProgress := (ovProgress v)[i := CallDone result]\<rparr>))
   | CallDone r \<Rightarrow> v)"

text \<open>\<open>Promise.all\<close> over \<open>calls\<close>, each with the session read before any answer came, under a schedule that
  names whose step is next.\<close>

definition run_overlap :: "controller \<Rightarrow> auth_ports \<Rightarrow> api_world web_ports \<Rightarrow> string option \<Rightarrow> web_session
    \<Rightarrow> (string \<times> web_init) list \<Rightarrow> api_world \<Rightarrow> session_cookie option \<Rightarrow> nat list \<Rightarrow> overlap" where
  "run_overlap c ports p address session calls w jar schedule = fold (call_step c ports p address session) schedule
     \<lparr>ovWorld = w, ovJar = jar, ovCalls = calls, ovProgress = replicate (length calls) Asked\<rparr>"

section \<open>What a schedule decides\<close>

text \<open>The calls that take their first step before any takes its second: their checks run before the
  first transaction.\<close>

fun early :: "nat list \<Rightarrow> nat list \<Rightarrow> nat list" where
  "early seen [] = seen"
| "early seen (i # is) = (if i \<in> set seen then seen else early (seen @ [i]) is)"

text \<open>How many tokens of the family are live after a schedule: the second step of an early call, its
  transaction, adds one, and the first step of a late one, its check, ends all there are.\<close>

fun survivors :: "nat list \<Rightarrow> nat list \<Rightarrow> nat \<Rightarrow> nat list \<Rightarrow> nat" where
  "survivors E past n [] = n"
| "survivors E past n (i # is) = survivors E (past @ [i])
     (if i \<in> set E then (if count_list past i = 1 then n + 1 else n)
      else (if count_list past i = 0 then 0 else n)) is"

text \<open>Whether the cookie is cleared: the calls settle one by one, an early one on its third step, when the
  web server stores its pair, a late one on its second, when it clears the cookie.\<close>

fun signed_out :: "nat list \<Rightarrow> nat list \<Rightarrow> bool \<Rightarrow> nat list \<Rightarrow> bool" where
  "signed_out E past b [] = b"
| "signed_out E past b (i # is) = signed_out E (past @ [i])
     (if i \<in> set E then b \<and> count_list past i \<noteq> 2 else b \<or> count_list past i = 1) is"

lemma early_snoc:
  assumes "distinct seen"
  shows "early seen (xs @ [i]) = (if distinct (seen @ xs) \<and> i \<notin> set (seen @ xs) then seen @ xs @ [i] else early seen xs)"
  using assms by (induction xs arbitrary: seen) auto

lemma early_distinct: "distinct seen \<Longrightarrow> distinct (seen @ xs) \<Longrightarrow> early seen xs = seen @ xs"
  by (induction xs arbitrary: seen) auto

lemma early_set: "set (early seen xs) \<subseteq> set seen \<union> set xs"
proof (induction xs arbitrary: seen)
  case (Cons x xs)
  then show ?case using Cons [of "seen @ [x]"] by auto
qed simp

lemma survivors_snoc:
  "survivors E past n (xs @ [i]) = (if i \<in> set E then (if count_list (past @ xs) i = 1 then survivors E past n xs + 1 else survivors E past n xs)
     else (if count_list (past @ xs) i = 0 then 0 else survivors E past n xs))"
  by (induction xs arbitrary: past n) auto

lemma survivors_distinct:
  assumes "distinct (past @ xs)"
  shows "survivors E past 0 xs = 0"
proof -
  have "count_list past x = 0" if "x \<notin> set past" for past :: "nat list" and x
    using that by (simp add: count_list_0_iff)
  then show ?thesis using assms by (induction xs arbitrary: past) auto
qed

lemma signed_out_snoc:
  "signed_out E past b (xs @ [i]) = (if i \<in> set E then signed_out E past b xs \<and> count_list (past @ xs) i \<noteq> 2
     else signed_out E past b xs \<or> count_list (past @ xs) i = 1)"
  by (induction xs arbitrary: past b) auto

lemma signed_out_distinct: "distinct (past @ xs) \<Longrightarrow> signed_out E past b xs = b"
proof (induction xs arbitrary: past b)
  case (Cons x xs)
  then have "count_list past x = 0" by (simp add: count_list_0_iff)
  then show ?case using Cons by simp
qed simp

section \<open>The world the calls share\<close>

definition family_live :: "id \<Rightarrow> refresh_token list \<Rightarrow> nat" where
  "family_live family rows = count_where (\<lambda>t. rtFamilyId t = family \<and> live t) rows"

text \<open>Tokens to draw: enough of them, and every id and every hash new.\<close>

definition fresh_enough :: "token_env \<Rightarrow> api_world \<Rightarrow> nat \<Rightarrow> bool" where
  "fresh_enough env w n \<longleftrightarrow> n \<le> length (awFresh w)
     \<and> distinct (map rtId (asTokens (awAuth w)) @ map fst (awFresh w))
     \<and> distinct (map rtTokenHash (asTokens (awAuth w)) @ map (\<lambda>f. tvHash env (snd f)) (awFresh w))
     \<and> (\<forall>f\<in>set (awFresh w). snd f \<noteq> [])"

text \<open>The world after \<open>j\<close> exchanges: so many tokens drawn, the rest as it was.\<close>

definition drawn :: "token_env \<Rightarrow> api_world \<Rightarrow> nat \<Rightarrow> api_world \<Rightarrow> bool" where
  "drawn env w j w' \<longleftrightarrow> asUsers (awAuth w') = asUsers (awAuth w) \<and> awFresh w' = drop j (awFresh w)
     \<and> map rtId (asTokens (awAuth w')) = map rtId (asTokens (awAuth w)) @ map fst (take j (awFresh w))
     \<and> map rtTokenHash (asTokens (awAuth w')) = map rtTokenHash (asTokens (awAuth w))
         @ map (\<lambda>f. tvHash env (snd f)) (take j (awFresh w))"

text \<open>The row the presented token finds: always the one it found first, whatever was marked on it.\<close>

definition finds :: "token_env \<Rightarrow> api_world \<Rightarrow> string \<Rightarrow> refresh_token \<Rightarrow> refresh_token \<Rightarrow> bool" where
  "finds env w token stored t \<longleftrightarrow> findByHash (asTokens (awAuth w)) (tvHash env token) = Some t
     \<and> rtId t = rtId stored \<and> rtFamilyId t = rtFamilyId stored \<and> rtUserId t = rtUserId stored"

lemma next_is_new:
  assumes "distinct (xs @ map f ys)" and "j < length ys"
  shows "f (ys ! j) \<notin> set (xs @ map f (take j ys))"
proof -
  have "ys = take j ys @ ys ! j # drop (Suc j) ys" by (rule id_take_nth_drop [OF assms(2)])
  then have "distinct (xs @ map f (take j ys) @ f (ys ! j) # map f (drop (Suc j) ys))"
    using assms(1) by (metis list.simps(9) map_append)
  then show ?thesis by auto
qed

lemma drawn_distinct:
  assumes "drawn env w j w'" and "fresh_enough env w n"
  shows "distinct (map rtId (asTokens (awAuth w')))"
proof -
  have "distinct (map rtId (asTokens (awAuth w)) @ map fst (take j (awFresh w) @ drop j (awFresh w)))"
    using assms(2) by (simp add: fresh_enough_def)
  then show ?thesis using assms(1) unfolding drawn_def map_append by (metis append_assoc distinct_append)
qed

lemma family_live_spent:
  assumes "distinct (map rtId rows)" and "t \<in> set rows"
  shows "family_live (rtFamilyId t) (update_where (\<lambda>x. rtId x = rtId t) (mark_spent now) rows)
    = family_live (rtFamilyId t) rows - (if live t then 1 else 0)"
  using assms
proof (induction rows)
  case (Cons x rows)
  show ?case
  proof (cases "x = t")
    case True
    have "rtId y \<noteq> rtId t" if "y \<in> set rows" for y
      using Cons.prems(1) that True by (metis distinct.simps(2) image_eqI list.set_map list.simps(9))
    then have "update_where (\<lambda>x. rtId x = rtId t) (mark_spent now) rows = rows"
      unfolding update_where_def by (intro map_idI) simp
    moreover have "\<not> live (mark_spent now t)" by (simp add: live_def mark_spent_def)
    ultimately show ?thesis using True by (simp add: family_live_def)
  next
    case False
    then have "t \<in> set rows" "rtId x \<noteq> rtId t" using Cons.prems by (auto simp: rev_image_eqI)
    moreover have "live t \<Longrightarrow> t \<in> set rows \<Longrightarrow> 0 < family_live (rtFamilyId t) rows"
      by (auto simp: family_live_def count_where_0_iff gr0_conv_Suc [symmetric] intro!: Nat.gr0I)
    ultimately show ?thesis using Cons by (simp add: family_live_def update_where_def)
  qed
qed simp

section \<open>What the steps do\<close>

lemma read_body: "wsRefresh session \<noteq> []
    \<Longrightarrow> readRefreshToken None (json_field (refresh_body session) ''refreshToken'') = Some (wsRefresh session)"
  by (cases "wsRefresh session") (simp_all add: readRefreshToken_def refresh_body_def json_field_def)

lemma same_world: "w\<lparr>awAuth := (awAuth w)\<lparr>asTokens := asTokens (awAuth w)\<rparr>\<rparr> = w"
  by simp

text \<open>A check before any exchange passes and changes nothing.\<close>

lemma early_check:
  assumes "renewable (apEnv ports) w (wsRefresh session) stored u" and "wsRefresh session \<noteq> []"
  shows "refresh_begin c ports w (refresh_body session) = (w, Inr (stored, u))"
  using assms by (simp add: refresh_begin_def read_body rotate_check_def renewable_def live_def)

text \<open>A check after one is taken for theft.\<close>

lemma late_check:
  assumes "drawn (apEnv ports) w j w'" and "finds (apEnv ports) w' (wsRefresh session) stored t" and "rtUsedAt t \<noteq> None"
    and "findUser (usUsers (asUsers (awAuth w))) (rtUserId stored) = Some u" and "wsRefresh session \<noteq> []"
  shows "\<exists>w'' t'. refresh_begin c ports w' (refresh_body session) = (w'', Inl (error_answer c invalidRefresh))
    \<and> drawn (apEnv ports) w j w'' \<and> finds (apEnv ports) w'' (wsRefresh session) stored t' \<and> rtUsedAt t' \<noteq> None
    \<and> family_live (rtFamilyId stored) (asTokens (awAuth w'')) = 0"
proof -
  let ?rows = "revokeFamily (asTokens (awAuth w')) (awNow w') (rtFamilyId stored) BY_REUSE_DETECTED"
  let ?t = "if rtRevokedAt t = None then mark_revoked (awNow w') BY_REUSE_DETECTED t else t"
  let ?w'' = "w'\<lparr>awAuth := (awAuth w')\<lparr>asTokens := ?rows\<rparr>\<rparr>"
  note t = assms(2) [unfolded finds_def]
  have step: "refresh_begin c ports w' (refresh_body session) = (?w'', Inl (error_answer c invalidRefresh))"
    using t assms(1,3,4) by (simp add: refresh_begin_def read_body [OF assms(5)] rotate_check_def drawn_def)
  have "findByHash ?rows (tvHash (apEnv ports) (wsRefresh session)) = Some ?t"
    using t unfolding findByHash_def revokeFamily_def by (subst find_update_where) (auto simp: mark_revoked_def)
  then have "finds (apEnv ports) ?w'' (wsRefresh session) stored ?t" "rtUsedAt ?t \<noteq> None"
    using t assms(3) by (simp_all add: finds_def mark_revoked_def)
  moreover have "drawn (apEnv ports) w j ?w''"
    using assms(1) by (simp add: drawn_def revokeFamily_def map_update_where mark_revoked_def)
  moreover have "family_live (rtFamilyId stored) ?rows = 0"
    using revoked_not_live [where p = "\<lambda>t. rtFamilyId t = rtFamilyId stored" and rows = "asTokens (awAuth w')"]
    by (auto simp: family_live_def count_where_0_iff revokeFamily_def)
  ultimately show ?thesis using step by (intro exI [of _ ?w''] exI [of _ ?t]) simp
qed

text \<open>The answer of an exchange that took place.\<close>

definition served :: "controller \<Rightarrow> token_env \<Rightarrow> refresh_token \<Rightarrow> user \<Rightarrow> web_response \<Rightarrow> bool" where
  "served c env stored u r \<longleftrightarrow> (\<exists>session. r = respondWithSession c 200 (toProfile u, session)
     \<and> isAccessToken session = tvSign env (rtUserId stored) (usRole u) \<and> isRefreshToken session \<noteq> [])"

lemma rotate_commit_new:
  assumes "rtId stored \<in> set (map rtId rows)" and "fst fresh \<notin> set (map rtId rows)"
    and "tvHash env (snd fresh) \<notin> set (map rtTokenHash rows)"
  shows "\<exists>session row. rotate_commit env rows now fresh stored u ctx
      = Inr (session, update_where (\<lambda>x. rtId x = rtId stored) (mark_spent now) rows @ [row])
    \<and> rtId row = fst fresh \<and> rtTokenHash row = tvHash env (snd fresh) \<and> rtFamilyId row = rtFamilyId stored \<and> live row
    \<and> isAccessToken session = tvSign env (rtUserId stored) (usRole u) \<and> isRefreshToken session = snd fresh"
proof -
  let ?old = "update_where (\<lambda>x. rtId x = rtId stored) (mark_spent now) rows"
  have "map rtId ?old = map rtId rows" "map rtTokenHash ?old = map rtTokenHash rows"
    by (simp_all add: map_update_where)
  then show ?thesis
    using assms unfolding rotate_commit_def issueInFamily_def Let_def by (simp del: list.set_map add: live_def)
qed

text \<open>A transaction goes through whatever has become of the row, and adds a live token.\<close>

lemma exchange:
  assumes "drawn (apEnv ports) w j w'" and "fresh_enough (apEnv ports) w n" and "j < n"
    and "finds (apEnv ports) w' token stored t"
    and "findUser (usUsers (asUsers (awAuth w))) (rtUserId stored) = Some u"
  shows "\<exists>w'' r t'. refresh_end c ports w' (stored, u) address = (w'', Some r) \<and> served c (apEnv ports) stored u r
    \<and> drawn (apEnv ports) w (Suc j) w'' \<and> finds (apEnv ports) w'' token stored t' \<and> rtUsedAt t' \<noteq> None
    \<and> family_live (rtFamilyId stored) (asTokens (awAuth w''))
      = family_live (rtFamilyId stored) (asTokens (awAuth w')) - (if live t then 1 else 0) + 1"
proof -
  let ?env = "apEnv ports" and ?rows = "asTokens (awAuth w')" and ?fresh = "awFresh w ! j"
  let ?old = "update_where (\<lambda>x. rtId x = rtId stored) (mark_spent (awNow w')) ?rows"
  let ?ctx = "\<lparr>scxIp = address, scxUserAgent = awAgent w'\<rparr>"
  note d = assms(1) [unfolded drawn_def] and t = assms(4) [unfolded finds_def]
  have j: "j < length (awFresh w)" using assms(2,3) by (simp add: fresh_enough_def)
  have mem: "t \<in> set ?rows" "rtTokenHash t = tvHash ?env token" using t by (auto simp: findByHash_def dest: find_SomeD)
  have keys: "map rtId ?old = map rtId ?rows" "map rtTokenHash ?old = map rtTokenHash ?rows"
    by (simp_all add: map_update_where)
  have new: "fst ?fresh \<notin> set (map rtId ?rows)" "tvHash ?env (snd ?fresh) \<notin> set (map rtTokenHash ?rows)" "snd ?fresh \<noteq> []"
    using next_is_new [of _ fst "awFresh w" j] next_is_new [of _ "\<lambda>f. tvHash ?env (snd f)" "awFresh w" j] assms(2) j d
    by (simp_all add: fresh_enough_def del: set_append)
  have known: "rtId stored \<in> set (map rtId ?rows)" using mem(1) t by (metis image_eqI list.set_map)
  obtain session row where row: "rotate_commit ?env ?rows (awNow w') ?fresh stored u ?ctx = Inr (session, ?old @ [row])"
      "rtId row = fst ?fresh" "rtTokenHash row = tvHash ?env (snd ?fresh)" "rtFamilyId row = rtFamilyId stored" "live row"
      "isAccessToken session = tvSign ?env (rtUserId stored) (usRole u)" "isRefreshToken session = snd ?fresh"
    using rotate_commit_new [OF known new(1,2), where u = u] by blast
  let ?w'' = "w'\<lparr>awAuth := (awAuth w')\<lparr>asTokens := ?old @ [row]\<rparr>, awFresh := drop (Suc j) (awFresh w)\<rparr>"
  let ?r = "respondWithSession c 200 (toProfile u, session)"
  have step: "refresh_end c ports w' (stored, u) address = (?w'', Some ?r)"
    using d row(1) assms(5) by (simp add: refresh_end_def Cons_nth_drop_Suc [OF j, symmetric] answer_def)
  have f: "findByHash (?old @ [row]) (tvHash ?env token) = Some (mark_spent (awNow w') t)"
    using t unfolding findByHash_def find_append by (subst find_update_where) auto
  have "drawn ?env w (Suc j) ?w''"
    using d row(2,3) keys by (simp add: drawn_def take_Suc_conv_app_nth [OF j])
  moreover have "finds ?env ?w'' token stored (mark_spent (awNow w') t)"
    using f t by (simp add: finds_def mark_spent_def)
  moreover have "family_live (rtFamilyId stored) ?old = family_live (rtFamilyId stored) ?rows - (if live t then 1 else 0)"
    using family_live_spent [OF drawn_distinct [OF assms(1,2)] mem(1)] t by simp
  ultimately show ?thesis
    using step row(4-7) new(3)
    by (intro exI [of _ ?w''] exI [of _ ?r] exI [of _ "mark_spent (awNow w') t"])
      (auto simp: served_def mark_spent_def family_live_def)
qed

text \<open>The web server with an answer of either kind.\<close>

lemma settle_served:
  assumes "served c (apEnv ports) stored u r" and "cookie_header_ok c"
    and "jwt_text (tvSign (apEnv ports) (rtUserId stored) (usRole u))"
    and "verifyJwt (tvSign (apEnv ports) (rtUserId stored) (usRole u)) = Some (rtUserId stored, role)"
    and "findUser (usUsers (asUsers (awAuth w))) (rtUserId stored) = Some u" and "usStatus u = ACTIVE"
    and "required = None \<or> (\<exists>roles. required = Some roles \<and> usRole u \<in> set roles)"
    and "who = \<lparr>ppId = usId u, ppEmail = usEmail u, ppRole = usRole u, ppStatus = usStatus u\<rparr>"
    and "wrStatus (handler who path init) \<noteq> 401"
  shows "\<exists>jar'. after_refresh (web_app cd secure c ports verifyJwt required handler) w
      (take_refresh (web_app cd secure c ports verifyJwt required handler) jar (Some r)) path init address
    = (w, jar', ApiOk (handler who path init)) \<and> jar' \<noteq> clearSession"
proof -
  let ?p = "web_app cd secure c ports verifyJwt required handler"
  let ?jwt = "tvSign (apEnv ports) (rtUserId stored) (usRole u)"
  obtain s where s: "r = respondWithSession c 200 (toProfile u, s)" "isAccessToken s = ?jwt" "isRefreshToken s \<noteq> []"
    using assms(1) by (auto simp: served_def)
  have token: "refreshTokenFrom (wrCookies r) = Some (Some (isRefreshToken s))"
    using refresh_token_round_trip [OF assms(2) s(3)] by (simp add: respondWithSession_def s(1))
  have truth: "truthy (Some (isRefreshToken s)) = Some (isRefreshToken s)"
    using s(3) by (cases "isRefreshToken s") (simp_all add: truthy_def)
  let ?fresh = "\<lparr>wsAccess = Some (JStr ?jwt), wsRefresh = isRefreshToken s\<rparr>"
  obtain auth where body: "wrBody r = Some auth" "response_ok r" "auth \<noteq> JNull" "json_field auth ''accessToken'' = Some (JStr ?jwt)"
    by (simp add: s(1,2) respondWithSession_def response_ok_def json_field_def)
  have "take_refresh ?p jar (Some r) = (writeSession cd ?fresh secure, Refreshed ?fresh)"
    by (simp add: take_refresh_def web_app_def token truth body Let_def)
  moreover have "wpSend ?p w path init (Some (JStr ?jwt)) address = (w, Some (handler who path init))"
    using guarded_serves [where verifyJwt = verifyJwt, OF assms(3-7)] by (simp add: web_app_def assms(8))
  ultimately show ?thesis using assms(9) by (simp add: after_refresh_def)
qed

lemma settle_refused:
  "after_refresh p w (take_refresh p jar (Some (error_answer c invalidRefresh))) path init address
    = (w, clearSession, ApiFailed unauthenticated_failure)"
  by (simp add: after_refresh_def take_refresh_def error_answer_def invalidRefresh_def response_ok_def)

section \<open>Where a schedule has brought the calls\<close>

text \<open>A call after \<open>k\<close> of its steps: an early one goes through the exchange, a late one is refused.\<close>

definition progress_ok :: "controller \<Rightarrow> token_env \<Rightarrow> refresh_token \<Rightarrow> user \<Rightarrow> web_response \<Rightarrow> bool \<Rightarrow> nat \<Rightarrow> call_progress \<Rightarrow> bool" where
  "progress_ok c env stored u shown e k p \<longleftrightarrow>
     (if k = 0 then p = Asked
      else if e then (if k = 1 then p = Exchanging stored u
        else if k = 2 then (\<exists>r. p = Answered (Some r) \<and> served c env stored u r) else p = CallDone (ApiOk shown))
      else (if k = 1 then p = Answered (Some (error_answer c invalidRefresh))
        else p = CallDone (ApiFailed unauthenticated_failure)))"

definition exchanges :: "nat list \<Rightarrow> nat list \<Rightarrow> nat" where
  "exchanges E xs = card {i \<in> set E. 2 \<le> count_list xs i}"

definition shared_ok :: "token_env \<Rightarrow> api_world \<Rightarrow> string \<Rightarrow> refresh_token \<Rightarrow> nat list \<Rightarrow> nat list \<Rightarrow> api_world \<Rightarrow> bool" where
  "shared_ok env w token stored E xs w' \<longleftrightarrow> drawn env w (exchanges E xs) w'
     \<and> (\<exists>t. finds env w' token stored t \<and> rtUsedAt t \<noteq> None)
     \<and> family_live (rtFamilyId stored) (asTokens (awAuth w')) = survivors E [] 0 xs"

definition overlap_ok :: "controller \<Rightarrow> token_env \<Rightarrow> api_world \<Rightarrow> string \<Rightarrow> refresh_token \<Rightarrow> user
    \<Rightarrow> (string \<times> web_init \<Rightarrow> web_response) \<Rightarrow> (string \<times> web_init) list \<Rightarrow> nat list \<Rightarrow> overlap \<Rightarrow> bool" where
  "overlap_ok c env w token stored u shown calls xs v \<longleftrightarrow>
     ovCalls v = calls \<and> length (ovProgress v) = length calls
     \<and> (ovJar v = clearSession \<longleftrightarrow> signed_out (early [] xs) [] False xs)
     \<and> (\<forall>i<length calls. progress_ok c env stored u (shown (calls ! i)) (i \<in> set (early [] xs)) (count_list xs i) (ovProgress v ! i))
     \<and> (if distinct xs then ovWorld v = w else shared_ok env w token stored (early [] xs) xs (ovWorld v))"

lemma exchanges_first:
  assumes "i \<in> set E" and "count_list xs i = 1"
  shows "exchanges E (xs @ [i]) = Suc (exchanges E xs)"
proof -
  have "{j \<in> set E. 2 \<le> count_list (xs @ [i]) j} = insert i {j \<in> set E. 2 \<le> count_list xs j}" using assms by auto
  then show ?thesis using assms(2) by (simp add: exchanges_def)
qed

lemma exchanges_other:
  assumes "i \<in> set E \<Longrightarrow> 2 \<le> count_list xs i"
  shows "exchanges E (xs @ [i]) = exchanges E xs"
proof -
  have "{j \<in> set E. 2 \<le> count_list (xs @ [i]) j} = {j \<in> set E. 2 \<le> count_list xs j}" using assms by auto
  then show ?thesis by (simp add: exchanges_def)
qed

lemma exchanges_bound:
  assumes "i \<in> set E" and "count_list xs i = 1" and "set E \<subseteq> {..<n}"
  shows "exchanges E xs < n"
proof -
  have "{j \<in> set E. 2 \<le> count_list xs j} \<subseteq> {..<n} - {i}" using assms by auto
  then have "exchanges E xs \<le> card ({..<n} - {i})" unfolding exchanges_def by (intro card_mono) auto
  moreover have "i < n" using assms(1,3) by auto
  ultimately show ?thesis by simp
qed

lemma progress_update:
  assumes "\<forall>j<n. ok j (j \<in> set E) (count_list xs j) (ps ! j)" and "length ps = n" and "i < n"
    and "ok i (i \<in> set E') (Suc (count_list xs i)) p" and "\<And>j. j \<noteq> i \<Longrightarrow> j \<in> set E' \<longleftrightarrow> j \<in> set E"
  shows "\<forall>j<n. ok j (j \<in> set E') (count_list (xs @ [i]) j) (ps[i := p] ! j)"
  using assms by (auto simp: nth_list_update)

lemma count_distinct: "distinct xs \<Longrightarrow> count_list xs x = (if x \<in> set xs then 1 else 0)"
  by (induction xs) auto

lemma overlap_start:
  "jar \<noteq> clearSession \<Longrightarrow> overlap_ok c env w token stored u shown calls []
    \<lparr>ovWorld = w, ovJar = jar, ovCalls = calls, ovProgress = replicate (length calls) Asked\<rparr>"
  by (simp add: overlap_ok_def progress_ok_def)

text \<open>The parts a step of one call has to bring.\<close>

lemma overlap_okI:
  assumes "overlap_ok c env w token stored u shown calls xs v" and "i < length calls"
    and "early [] (xs @ [i]) = E'" and "\<And>j. j \<noteq> i \<Longrightarrow> j \<in> set E' \<longleftrightarrow> j \<in> set (early [] xs)"
    and "ovCalls v' = ovCalls v" and "ovJar v' = clearSession \<longleftrightarrow> signed_out E' [] False (xs @ [i])" and "ovProgress v' = (ovProgress v)[i := p]"
    and "progress_ok c env stored u (shown (calls ! i)) (i \<in> set E') (Suc (count_list xs i)) p"
    and "if distinct (xs @ [i]) then ovWorld v' = w else shared_ok env w token stored E' (xs @ [i]) (ovWorld v')"
  shows "overlap_ok c env w token stored u shown calls (xs @ [i]) v'"
proof -
  have "\<forall>j<length calls. progress_ok c env stored u (shown (calls ! j)) (j \<in> set E') (count_list (xs @ [i]) j)
      ((ovProgress v)[i := p] ! j)"
    using assms(1,2,4,8) progress_update [of "length calls" "\<lambda>j. progress_ok c env stored u (shown (calls ! j))"
        "early [] xs" xs "ovProgress v" i E' p]
    by (simp add: overlap_ok_def)
  then show ?thesis using assms by (simp add: overlap_ok_def)
qed

text \<open>A page's calls, its session and its visitor at the moment the access token has expired.\<close>

definition overlap_setting :: "controller \<Rightarrow> auth_ports \<Rightarrow> (string \<Rightarrow> (id \<times> user_role) option) \<Rightarrow> user_role list option
    \<Rightarrow> api_world \<Rightarrow> web_session \<Rightarrow> refresh_token \<Rightarrow> user \<Rightarrow> nat \<Rightarrow> bool" where
  "overlap_setting c ports verifyJwt required w session stored u n \<longleftrightarrow>
     wsRefresh session \<noteq> [] \<and> renewable (apEnv ports) w (wsRefresh session) stored u
     \<and> family_live (rtFamilyId stored) (asTokens (awAuth w)) = 1 \<and> fresh_enough (apEnv ports) w n
     \<and> jwt_text (tvSign (apEnv ports) (rtUserId stored) (usRole u))
     \<and> (\<exists>role. verifyJwt (tvSign (apEnv ports) (rtUserId stored) (usRole u)) = Some (rtUserId stored, role))
     \<and> (required = None \<or> (\<exists>roles. required = Some roles \<and> usRole u \<in> set roles)) \<and> cookie_header_ok c"

definition principal_of :: "user \<Rightarrow> principal" where
  "principal_of u = \<lparr>ppId = usId u, ppEmail = usEmail u, ppRole = usRole u, ppStatus = usStatus u\<rparr>"

definition shown_page :: "(principal \<Rightarrow> string \<Rightarrow> web_init \<Rightarrow> web_response) \<Rightarrow> user \<Rightarrow> string \<times> web_init \<Rightarrow> web_response" where
  "shown_page handler u call = handler (principal_of u) (fst call) (snd call)"

lemma setting_user:
  "overlap_setting c ports verifyJwt required w session stored u n \<Longrightarrow>
    findUser (usUsers (asUsers (awAuth w))) (rtUserId stored) = Some u \<and> usStatus u = ACTIVE \<and> live stored"
  by (simp add: overlap_setting_def renewable_def)

lemma step_start:
  assumes "overlap_setting c ports verifyJwt required w session stored u n"
    and "overlap_ok c (apEnv ports) w (wsRefresh session) stored u shown calls xs v" and "i < length calls"
    and "distinct xs" and "i \<notin> set xs"
  shows "overlap_ok c (apEnv ports) w (wsRefresh session) stored u shown calls (xs @ [i]) (call_step c ports p address session i v)"
proof -
  have v: "ovProgress v ! i = Asked" "ovWorld v = w"
    using assms(2-5) by (auto simp: overlap_ok_def progress_ok_def count_distinct)
  have "call_step c ports p address session i v = v\<lparr>ovProgress := (ovProgress v)[i := Exchanging stored u]\<rparr>"
    using early_check [of ports w session stored u c] assms(1) v
    by (simp add: call_step_def overlap_setting_def)
  moreover have "early [] (xs @ [i]) = xs @ [i]" "early [] xs = xs" using assms(4,5) by (simp_all add: early_snoc early_distinct)
  moreover have "ovJar v \<noteq> clearSession" "\<not> signed_out (xs @ [i]) [] False (xs @ [i])"
    using assms(2,4,5) by (simp_all add: overlap_ok_def signed_out_distinct)
  ultimately show ?thesis
    using assms(4,5) v(2)
    by (intro overlap_okI [OF assms(2,3), of "xs @ [i]" _ "Exchanging stored u"]) (simp_all add: progress_ok_def count_distinct)
qed

text \<open>The second step of an early call.\<close>

lemma step_exchange:
  assumes "overlap_setting c ports verifyJwt required w session stored u n"
    and "overlap_ok c (apEnv ports) w (wsRefresh session) stored u shown calls xs v" and "i < length calls"
    and "i \<in> set (early [] xs)" and "count_list xs i = 1" and "set xs \<subseteq> {..<n}"
  shows "overlap_ok c (apEnv ports) w (wsRefresh session) stored u shown calls (xs @ [i]) (call_step c ports p address session i v)"
proof -
  let ?E = "early [] xs" and ?token = "wsRefresh session" and ?env = "apEnv ports"
  have i: "i \<in> set xs" using assms(5) by (metis count_list_0_iff zero_neq_one)
  have E: "early [] (xs @ [i]) = ?E" using i by (simp add: early_snoc)
  have sub: "set ?E \<subseteq> {..<n}" using early_set [of "[]" xs] assms(6) by auto
  have prog: "ovProgress v ! i = Exchanging stored u"
    using assms(2-5) by (simp add: overlap_ok_def progress_ok_def)
  note u = setting_user [OF assms(1)]
  have fe: "fresh_enough ?env w n" using assms(1) by (simp add: overlap_setting_def)
  obtain t where t: "drawn ?env w (exchanges ?E xs) (ovWorld v)" "finds ?env (ovWorld v) ?token stored t"
      "family_live (rtFamilyId stored) (asTokens (awAuth (ovWorld v))) - (if live t then 1 else 0) = survivors ?E [] 0 xs"
  proof (cases "distinct xs")
    case True
    have "exchanges ?E xs = 0" using count_distinct [OF True] by (simp add: exchanges_def)
    then have "drawn ?env w (exchanges ?E xs) w" by (simp add: drawn_def)
    moreover have "finds ?env w ?token stored stored" using assms(1) by (simp add: overlap_setting_def renewable_def finds_def)
    ultimately show thesis
      using that [of stored] assms(1,2) u survivors_distinct [of "[]" xs] True by (simp add: overlap_ok_def overlap_setting_def)
  next
    case False
    then show thesis using that assms(2) by (auto simp: overlap_ok_def shared_ok_def live_def)
  qed
  obtain w'' r t' where x: "refresh_end c ports (ovWorld v) (stored, u) address = (w'', Some r)" "served c ?env stored u r"
      "drawn ?env w (Suc (exchanges ?E xs)) w''" "finds ?env w'' ?token stored t'" "rtUsedAt t' \<noteq> None"
      "family_live (rtFamilyId stored) (asTokens (awAuth w'')) = survivors ?E [] 0 xs + 1"
    using exchange [OF t(1) fe exchanges_bound [OF assms(4,5) sub] t(2)] u t(3) by metis
  have "call_step c ports p address session i v = v\<lparr>ovWorld := w'', ovProgress := (ovProgress v)[i := Answered (Some r)]\<rparr>"
    using x(1) prog by (simp add: call_step_def)
  moreover have "shared_ok ?env w ?token stored ?E (xs @ [i]) w''"
    using x assms(4,5) by (auto simp: shared_ok_def exchanges_first survivors_snoc)
  moreover have "ovJar v = clearSession \<longleftrightarrow> signed_out ?E [] False (xs @ [i])"
    using assms(2,4,5) by (simp add: overlap_ok_def signed_out_snoc)
  ultimately show ?thesis
    using x(2) assms(4,5) i
    by (intro overlap_okI [OF assms(2,3) E, of _ "Answered (Some r)"]) (auto simp: progress_ok_def)
qed

text \<open>The first step of a late call.\<close>

lemma step_late:
  assumes "overlap_setting c ports verifyJwt required w session stored u n"
    and "overlap_ok c (apEnv ports) w (wsRefresh session) stored u shown calls xs v" and "i < length calls"
    and "\<not> distinct xs" and "i \<notin> set xs"
  shows "overlap_ok c (apEnv ports) w (wsRefresh session) stored u shown calls (xs @ [i]) (call_step c ports p address session i v)"
proof -
  let ?E = "early [] xs" and ?env = "apEnv ports"
  have i: "i \<notin> set ?E" "count_list xs i = 0" using early_set [of "[]" xs] assms(5) by (auto simp: count_list_0_iff)
  have E: "early [] (xs @ [i]) = ?E" using assms(4) by (simp add: early_snoc)
  have prog: "ovProgress v ! i = Asked" using assms(2,3) i by (simp add: overlap_ok_def progress_ok_def)
  obtain t where t: "drawn ?env w (exchanges ?E xs) (ovWorld v)" "finds ?env (ovWorld v) (wsRefresh session) stored t"
      "rtUsedAt t \<noteq> None"
    using assms(2,4) by (auto simp: overlap_ok_def shared_ok_def)
  obtain w'' t' where x: "refresh_begin c ports (ovWorld v) (refresh_body session) = (w'', Inl (error_answer c invalidRefresh))"
      "drawn ?env w (exchanges ?E xs) w''" "finds ?env w'' (wsRefresh session) stored t'" "rtUsedAt t' \<noteq> None"
      "family_live (rtFamilyId stored) (asTokens (awAuth w'')) = 0"
    using late_check [OF t] setting_user [OF assms(1)] assms(1) by (metis overlap_setting_def)
  have "call_step c ports p address session i v
      = v\<lparr>ovWorld := w'', ovProgress := (ovProgress v)[i := Answered (Some (error_answer c invalidRefresh))]\<rparr>"
    using x(1) prog by (simp add: call_step_def)
  moreover have "shared_ok ?env w (wsRefresh session) stored ?E (xs @ [i]) w''"
    using x i exchanges_other [of i ?E xs] by (auto simp: shared_ok_def survivors_snoc)
  moreover have "ovJar v = clearSession \<longleftrightarrow> signed_out ?E [] False (xs @ [i])"
    using assms(2) i by (simp add: overlap_ok_def signed_out_snoc)
  ultimately show ?thesis
    using i assms(4)
    by (intro overlap_okI [OF assms(2,3) E, of _ "Answered (Some (error_answer c invalidRefresh))"]) (auto simp: progress_ok_def)
qed

text \<open>The steps after the exchange: the shared world stays.\<close>

lemma shared_later:
  assumes "overlap_ok c env w token stored u shown calls xs v" and "\<not> distinct xs" and "i \<in> set xs"
    and "i \<in> set (early [] xs) \<Longrightarrow> 2 \<le> count_list xs i"
  shows "if distinct (xs @ [i]) then ovWorld v = w else shared_ok env w token stored (early [] xs) (xs @ [i]) (ovWorld v)"
    and "early [] (xs @ [i]) = early [] xs"
  using assms exchanges_other [of i "early [] xs" xs] count_list_0_iff [of xs i]
  by (auto simp: overlap_ok_def shared_ok_def survivors_snoc early_snoc)

lemma step_settle:
  assumes "overlap_setting c ports verifyJwt required w session stored u n"
    and "overlap_ok c (apEnv ports) w (wsRefresh session) stored u
      (shown_page handler u) calls xs v" and "i < length calls"
    and "\<not> distinct xs" and "i \<in> set xs" and "i \<in> set (early [] xs) \<Longrightarrow> 2 \<le> count_list xs i"
    and "\<forall>call\<in>set calls. wrStatus (shown_page handler u call) \<noteq> 401"
  shows "overlap_ok c (apEnv ports) w (wsRefresh session) stored u (shown_page handler u)
    calls (xs @ [i]) (call_step c ports (web_app cd secure c ports verifyJwt required handler) address session i v)"
proof -
  let ?p = "web_app cd secure c ports verifyJwt required handler" and ?E = "early [] xs"
  note later = shared_later [OF assms(2,4,5,6)]
  obtain path init where call: "calls ! i = (path, init)" by fastforce
  have calls: "ovCalls v = calls" "length (ovProgress v) = length calls"
    and jar: "ovJar v = clearSession \<longleftrightarrow> signed_out ?E [] False xs"
    using assms(2) by (simp_all add: overlap_ok_def)
  have k: "0 < count_list xs i" using assms(5) count_list_0_iff [of xs i] by auto
  have ok: "progress_ok c (apEnv ports) stored u (shown_page handler u (calls ! i)) (i \<in> set ?E) (count_list xs i) (ovProgress v ! i)"
    using assms(2,3) by (simp add: overlap_ok_def)
  have user: "asUsers (awAuth (ovWorld v)) = asUsers (awAuth w)"
    using assms(2,4) by (auto simp: overlap_ok_def shared_ok_def drawn_def)
  have "\<exists>r jar. call_step c ports ?p address session i v = v\<lparr>ovJar := jar, ovProgress := (ovProgress v)[i := CallDone r]\<rparr>
      \<and> r = (if i \<in> set ?E then ApiOk (shown_page handler u (calls ! i)) else ApiFailed unauthenticated_failure)
      \<and> (jar = clearSession \<longleftrightarrow> signed_out ?E [] False (xs @ [i]))"
  proof (cases "count_list xs i = (if i \<in> set ?E then 2 else 1)")
    case True
    show ?thesis
    proof (cases "i \<in> set ?E")
      case True
      obtain r where r: "ovProgress v ! i = Answered (Some r)" "served c (apEnv ports) stored u r"
        using ok True \<open>count_list xs i = _\<close> by (auto simp: progress_ok_def)
      have "wrStatus (handler (principal_of u) path init) \<noteq> 401"
        using assms(3,7) call by (metis fst_conv nth_mem shown_page_def snd_conv)
      moreover obtain role where "verifyJwt (tvSign (apEnv ports) (rtUserId stored) (usRole u)) = Some (rtUserId stored, role)"
          "jwt_text (tvSign (apEnv ports) (rtUserId stored) (usRole u))" "cookie_header_ok c"
          "required = None \<or> (\<exists>roles. required = Some roles \<and> usRole u \<in> set roles)"
        using assms(1) unfolding overlap_setting_def by blast
      moreover have "findUser (usUsers (asUsers (awAuth (ovWorld v)))) (rtUserId stored) = Some u" "usStatus u = ACTIVE"
        using setting_user [OF assms(1)] by (simp_all add: user)
      ultimately obtain jar where "after_refresh ?p (ovWorld v) (take_refresh ?p (ovJar v) (Some r)) path init address
          = (ovWorld v, jar, ApiOk (handler (principal_of u) path init))" "jar \<noteq> clearSession"
        using settle_served [OF r(2) _ _ _ _ _ _ principal_of_def] by metis
      then show ?thesis
        using r(1) True call calls(1) \<open>count_list xs i = _\<close> by (auto simp: call_step_def shown_page_def signed_out_snoc)
    next
      case False
      then show ?thesis
        using ok call calls(1) \<open>count_list xs i = _\<close> by (auto simp: call_step_def progress_ok_def settle_refused signed_out_snoc)
    qed
  next
    case False
    define done_with where "done_with = (if i \<in> set ?E then ApiOk (shown_page handler u (calls ! i))
        else ApiFailed unauthenticated_failure)"
    have settled: "ovProgress v ! i = CallDone done_with"
      using ok k assms(6) False by (auto simp: progress_ok_def done_with_def split: if_splits)
    then have "(ovProgress v)[i := CallDone done_with] = ovProgress v" by (metis list_update_id)
    then show ?thesis
      unfolding done_with_def [symmetric] using settled jar False
      by (intro exI [of _ done_with] exI [of _ "ovJar v"]) (auto simp: call_step_def signed_out_snoc)
  qed
  then obtain r jar where step: "call_step c ports ?p address session i v
        = v\<lparr>ovJar := jar, ovProgress := (ovProgress v)[i := CallDone r]\<rparr>"
      "jar = clearSession \<longleftrightarrow> signed_out ?E [] False (xs @ [i])"
      "r = (if i \<in> set ?E then ApiOk (shown_page handler u (calls ! i)) else ApiFailed unauthenticated_failure)" by blast
  then show ?thesis
    using later(1) k assms(6)
    by (intro overlap_okI [OF assms(2,3) later(2), of _ "CallDone r"]) (auto simp: progress_ok_def)
qed

lemma overlap_step:
  assumes "overlap_setting c ports verifyJwt required w session stored u n"
    and "overlap_ok c (apEnv ports) w (wsRefresh session) stored u
      (shown_page handler u) calls xs v" and "i < length calls" and "set xs \<subseteq> {..<n}"
    and "\<forall>call\<in>set calls. wrStatus (shown_page handler u call) \<noteq> 401"
  shows "overlap_ok c (apEnv ports) w (wsRefresh session) stored u (shown_page handler u)
    calls (xs @ [i]) (call_step c ports (web_app cd secure c ports verifyJwt required handler) address session i v)"
proof -
  consider "distinct xs" "i \<notin> set xs" | "\<not> distinct xs" "i \<notin> set xs"
    | "i \<in> set (early [] xs)" "count_list xs i = 1"
    | "\<not> distinct xs" "i \<in> set xs" "i \<in> set (early [] xs) \<Longrightarrow> 2 \<le> count_list xs i"
    using count_distinct [of xs i] early_distinct [of "[]" xs] count_list_0_iff [of xs i]
    by (cases "distinct xs"; cases "i \<in> set xs"; cases "count_list xs i = 1") (auto simp: Suc_le_eq numeral_2_eq_2)
  then show ?thesis
  proof cases
    case 1
    then show ?thesis by (rule step_start [OF assms(1-3)])
  next
    case 2
    then show ?thesis by (rule step_late [OF assms(1-3)])
  next
    case 3
    then show ?thesis using assms(4) by (rule step_exchange [OF assms(1-3)])
  next
    case 4
    then show ?thesis using step_settle [OF assms(1-3)] assms(5) by blast
  qed
qed

lemma overlap_run:
  assumes "overlap_setting c ports verifyJwt required w session stored u (length calls)"
    and "\<forall>call\<in>set calls. wrStatus (shown_page handler u call) \<noteq> 401" and "jar \<noteq> clearSession"
    and "set schedule \<subseteq> {..<length calls}"
  shows "overlap_ok c (apEnv ports) w (wsRefresh session) stored u (shown_page handler u) calls schedule
    (run_overlap c ports (web_app cd secure c ports verifyJwt required handler) address session calls w jar schedule)"
  using assms(4)
proof (induction schedule rule: rev_induct)
  case Nil
  then show ?case using assms(3) by (simp add: run_overlap_def overlap_start)
next
  case (snoc i xs)
  then show ?case
    using overlap_step [OF assms(1) _ _ _ assms(2), where xs = xs and i = i] by (simp add: run_overlap_def)
qed

section \<open>Every schedule\<close>

text \<open>C22. The requests a page starts together with an expired access token present the same refresh token,
  and the order in which their exchanges reach the API decides each of them: a request whose check
  runs before the first exchange is committed is served, however late its own exchange commits; every
  other one presents a spent token, which the API takes for theft, and is answered that the session
  has ended. The browser keeps a session cookie exactly when a served request settles last. Each exchange leaves one more live token of the family and each late check ends all there
  are, so as many are live afterwards as exchanges committed after the last late check: one page can
  fork its session into as many as it makes requests, or end it. Three such requests are what the
  layout of every signed-in page starts.\<close>

theorem overlapping_requests_fork_or_end_the_session:
  fixes c ports verifyJwt required handler w session calls schedule address jar cd secure
  defines "v \<equiv> run_overlap c ports (web_app cd secure c ports verifyJwt required handler) address session calls w jar schedule"
  assumes "readSession cd jar = Some session" and "wsRefresh session \<noteq> []"
    and "renewable (apEnv ports) w (wsRefresh session) stored u"
    and "family_live (rtFamilyId stored) (asTokens (awAuth w)) = 1"
    and "fresh_enough (apEnv ports) w (length calls)"
    and "jwt_text (tvSign (apEnv ports) (rtUserId stored) (usRole u))"
    and "verifyJwt (tvSign (apEnv ports) (rtUserId stored) (usRole u)) = Some (rtUserId stored, role)"
    and "required = None \<or> (\<exists>roles. required = Some roles \<and> usRole u \<in> set roles)"
    and "cookie_header_ok c"
    and "\<forall>call\<in>set calls. wrStatus (shown_page handler u call) \<noteq> 401"
    and "set schedule \<subseteq> {..<length calls}" and "\<forall>i<length calls. 3 \<le> count_list schedule i" and "calls \<noteq> []"
  shows "ovProgress v = map (\<lambda>i. CallDone (if i \<in> set (early [] schedule) then ApiOk (shown_page handler u (calls ! i))
        else ApiFailed unauthenticated_failure)) [0..<length calls]
    \<and> (ovJar v = clearSession \<longleftrightarrow> signed_out (early [] schedule) [] False schedule)
    \<and> family_live (rtFamilyId stored) (asTokens (awAuth (ovWorld v))) = survivors (early [] schedule) [] 0 schedule"
proof -
  have set: "overlap_setting c ports verifyJwt required w session stored u (length calls)"
    using assms(3-10) unfolding overlap_setting_def by blast
  have "jar \<noteq> clearSession" using assms(2) by (cases jar) (auto simp: readSession_def truthy_def clearSession_def)
  note ok = overlap_run [OF set assms(11) this assms(12), of cd secure address, folded v_def]
  have "\<not> distinct schedule"
  proof
    assume "distinct schedule"
    moreover have "3 \<le> count_list schedule 0" using assms(13,14) by simp
    ultimately show False using count_distinct [of schedule 0] by (simp split: if_splits)
  qed
  then have "shared_ok (apEnv ports) w (wsRefresh session) stored (early [] schedule) schedule (ovWorld v)"
    using ok by (simp add: overlap_ok_def)
  moreover have "ovProgress v = map (\<lambda>i. CallDone (if i \<in> set (early [] schedule) then ApiOk (shown_page handler u (calls ! i))
        else ApiFailed unauthenticated_failure)) [0..<length calls]"
  proof (rule nth_equalityI)
    show "length (ovProgress v) = length (map (\<lambda>i. CallDone (if i \<in> set (early [] schedule)
        then ApiOk (shown_page handler u (calls ! i)) else ApiFailed unauthenticated_failure)) [0..<length calls])"
      using ok by (simp add: overlap_ok_def)
    fix i assume "i < length (ovProgress v)"
    then have "progress_ok c (apEnv ports) stored u (shown_page handler u (calls ! i)) (i \<in> set (early [] schedule))
        (count_list schedule i) (ovProgress v ! i)" "3 \<le> count_list schedule i" "i < length calls"
      using ok assms(13) by (simp_all add: overlap_ok_def)
    then show "ovProgress v ! i = map (\<lambda>i. CallDone (if i \<in> set (early [] schedule)
        then ApiOk (shown_page handler u (calls ! i)) else ApiFailed unauthenticated_failure)) [0..<length calls] ! i"
      by (auto simp: progress_ok_def split: if_splits)
  qed
  ultimately show ?thesis using ok by (simp add: shared_ok_def overlap_ok_def)
qed

text \<open>Three requests under two schedules: all served and three live tokens, or one served and none.\<close>

definition demo_calls :: "(string \<times> web_init) list" where
  "demo_calls = map (\<lambda>path. (path, \<lparr>wiMethod = ''GET'', wiBody = None\<rparr>)) [''/me'', ''/balance'', ''/options'']"

definition demo_overlap_world :: api_world where
  "demo_overlap_world = web_demo_world\<lparr>awFresh := [(3, ''u''), (4, ''v''), (5, ''x'')]\<rparr>"

definition demo_session :: web_session where
  "demo_session = \<lparr>wsAccess = Some (JStr ''gone''), wsRefresh = ''t''\<rparr>"

abbreviation demo_overlap :: "nat list \<Rightarrow> overlap" where
  "demo_overlap schedule \<equiv> run_overlap web_demo_controller web_demo_ports (web_app web_demo_codec True web_demo_controller
     web_demo_ports web_demo_verify None web_demo_page) None demo_session demo_calls demo_overlap_world
     (writeSession web_demo_codec demo_session True) schedule"

lemma demo_overlap_ready:
  "readSession web_demo_codec (writeSession web_demo_codec demo_session True) = Some demo_session"
  "wsRefresh demo_session \<noteq> []"
  "renewable (apEnv web_demo_ports) demo_overlap_world (wsRefresh demo_session) (demo_refresh 2 ''t'' None) demo_account"
  "family_live (rtFamilyId (demo_refresh 2 ''t'' None)) (asTokens (awAuth demo_overlap_world)) = 1"
  "fresh_enough (apEnv web_demo_ports) demo_overlap_world (length demo_calls)"
  "\<forall>call\<in>set demo_calls. wrStatus (shown_page web_demo_page demo_account call) \<noteq> 401"
  using session_round_trip [OF web_demo_codec_ok]
  by (simp_all add: demo_session_def renewable_def demo_overlap_world_def web_demo_simps findByHash_def findUser_def live_def
      family_live_def fresh_enough_def demo_calls_def shown_page_def web_demo_page_def)

lemma overlapping_requests_fork_or_end_the_session_witness:
  "family_live 7 (asTokens (awAuth (ovWorld (demo_overlap [0, 1, 2, 0, 1, 2, 0, 1, 2])))) = 3
   \<and> family_live 7 (asTokens (awAuth (ovWorld (demo_overlap [0, 0, 1, 2, 0, 1, 2, 1, 2])))) = 0
   \<and> ovJar (demo_overlap [0, 0, 1, 2, 0, 1, 2, 1, 2]) = clearSession
   \<and> ovProgress (demo_overlap [0, 0, 1, 2, 0, 1, 2, 1, 2]) ! 1 = CallDone (ApiFailed unauthenticated_failure)"
proof -
  note run = overlapping_requests_fork_or_end_the_session [where verifyJwt = web_demo_verify and handler = web_demo_page
      and required = None, OF demo_overlap_ready(1-5) web_demo_jwt(1,4) _ web_demo_controller_ok demo_overlap_ready(6)]
  have "\<forall>i<length demo_calls. 3 \<le> count_list [0, 1, 2, 0, 1, 2, 0, 1, 2] i"
    "\<forall>i<length demo_calls. 3 \<le> count_list [0, 0, 1, 2, 0, 1, 2, 1, 2] i"
    by (auto simp: demo_calls_def less_Suc_eq numeral_3_eq_3)
  then show ?thesis
    using run [of "[0, 1, 2, 0, 1, 2, 0, 1, 2]"] run [of "[0, 0, 1, 2, 0, 1, 2, 1, 2]"]
    by (simp add: demo_calls_def demo_refresh_def)
qed

end
