(* ===== verification/WebViews.thy ===== *)
theory WebViews
  imports WebSession AdminConfig AdminActions CatalogSync
begin

unbundle bit_operations_syntax

text \<open>
  What the pages say about the data they show: the pure functions of \<^verbatim>\<open>apps/web/src/lib\<close>
  (\<^verbatim>\<open>rewards/ledger.ts\<close>, \<^verbatim>\<open>payouts/payout.ts\<close>, \<^verbatim>\<open>offers/offer.ts\<close>,
  \<^verbatim>\<open>admin/*.ts\<close>). A state is shown as a label and a tone; the longer hint sentences and the
  emoji are not modelled, and neither are the locale's date and currency formats. A key of a
  TypeScript \<open>Record\<close> over a closed union is a constructor, so the \<open>??\<close> fallbacks of those
  tables have no case here.
\<close>

section \<open>Numbers and times\<close>

definition digit :: "nat \<Rightarrow> char" where
  "digit d = char_of (48 + d)"

fun decimal :: "nat \<Rightarrow> string" where
  "decimal n = (if n < 10 then [digit n] else decimal (n div 10) @ [digit (n mod 10)])"

declare decimal.simps [simp del]

text \<open>\<open>toLocaleString('en-US')\<close> of a whole number; \<open>thousands\<close> works from the last digit.\<close>

fun thousands :: "string \<Rightarrow> string" where
  "thousands (a # b # c # d # ds) = a # b # c # CHR '','' # thousands (d # ds)"
| "thousands ds = ds"

definition localeInteger :: "nat \<Rightarrow> string" where
  "localeInteger n = rev (thousands (rev (decimal n)))"

definition formatPoints :: "int \<Rightarrow> bool \<Rightarrow> string" where
  "formatPoints points withSign =
     (let body = localeInteger (nat \<bar>points\<bar>) in
      if \<not> withSign \<or> points = 0 then (if points < 0 then ''-'' @ body else body)
      else (if points > 0 then ''+'' else ''-'') @ body)"

definition formatReward :: "nat \<Rightarrow> string" where
  "formatReward points = localeInteger points"

definition plural :: "int \<Rightarrow> string" where
  "plural n = (if n = 1 then [] else ''s'')"

text \<open>The two times as \<open>Date.parse\<close> gives them, \<open>None\<close> for \<open>NaN\<close>; \<open>absolute\<close> is the locale's date.\<close>

definition relativeTime :: "(millis \<Rightarrow> string) \<Rightarrow> millis option \<Rightarrow> millis option \<Rightarrow> string" where
  "relativeTime absolute at_time now = (case (at_time, now) of
     (Some t, Some reference) \<Rightarrow>
       let elapsed = reference - t; minutes = elapsed div 60000; hours = elapsed div 3600000; days = elapsed div 86400000
       in if elapsed < 60000 then ''just now''
          else if elapsed < 3600000 then decimal (nat minutes) @ '' minute'' @ plural minutes @ '' ago''
          else if elapsed < 86400000 then decimal (nat hours) @ '' hour'' @ plural hours @ '' ago''
          else if days = 1 then ''Yesterday''
          else if days < 7 then decimal (nat days) @ '' days ago''
          else absolute t
   | _ \<Rightarrow> [])"

text \<open>\<open>None\<close> is the dash.\<close>

definition formatInterval :: "int \<Rightarrow> string option" where
  "formatInterval minutes =
     (if minutes \<le> 0 then None
      else let days = minutes div 1440; hours = (minutes mod 1440) div 60; rest = minutes mod 60;
               part = (\<lambda>n unit. if n > 0 then [decimal (nat n) @ unit @ plural n] else [])
           in Some (join_with '' '' (part days '' day'' @ part hours '' hour'' @ part rest '' minute'')))"

definition waitingDays :: "millis option \<Rightarrow> millis option \<Rightarrow> int" where
  "waitingDays since now = (case (since, now) of
     (Some s, Some reference) \<Rightarrow> max 0 ((reference - s) div 86400000) | _ \<Rightarrow> 0)"

section \<open>States\<close>

datatype tone = Neutral | Success | Warning | Error | Info | Brand | Purple | Indigo | Pink

type_synonym shown_state = "string \<times> tone"

definition waitingLabel :: "millis option \<Rightarrow> millis option \<Rightarrow> shown_state" where
  "waitingLabel since now = (let days = waitingDays since now in
     if days = 0 then (''Held today'', Neutral)
     else if days = 1 then (''Held yesterday'', Neutral)
     else if days < 7 then (''Held '' @ decimal (nat days) @ '' days ago'', Warning)
     else (''Held '' @ decimal (nat days) @ '' days ago'', Error))"

fun ledger_label :: "reward_transaction_type \<Rightarrow> string" where
  "ledger_label CONVERSION_CREDIT = ''Offer completed''"
| "ledger_label CHARGEBACK_DEBIT = ''Reward reversed''"
| "ledger_label REWARD_MATURATION = ''Points cleared''"
| "ledger_label PAYOUT_LOCK = ''Withdrawal requested''"
| "ledger_label PAYOUT_SETTLE = ''Withdrawal paid''"
| "ledger_label PAYOUT_REFUND = ''Withdrawal returned''"
| "ledger_label MANUAL_ADJUSTMENT = ''Manual adjustment''"
| "ledger_label BONUS = ''Bonus''"

fun ledger_status :: "reward_status \<Rightarrow> shown_state" where
  "ledger_status STATUS_PENDING = (''Pending'', Warning)"
| "ledger_status STATUS_AVAILABLE = (''Available'', Success)"
| "ledger_status STATUS_CLEARED = (''Cleared'', Success)"
| "ledger_status STATUS_REVERSED = (''Reversed'', Error)"
| "ledger_status STATUS_IN_REVIEW = (''In review'', Info)"
| "ledger_status STATUS_PAID = (''Paid'', Success)"
| "ledger_status STATUS_RETURNED = (''Returned'', Neutral)"
| "ledger_status STATUS_ADJUSTED = (''Adjusted'', Neutral)"

definition statusOf :: "reward_transaction_type \<Rightarrow> int \<Rightarrow> shown_state" where
  "statusOf ty pendingDelta = (case rewardStatusOf ty pendingDelta of
     None \<Rightarrow> (''Recorded'', Neutral) | Some s \<Rightarrow> ledger_status s)"

fun payoutState :: "payout_status \<Rightarrow> shown_state" where
  "payoutState PENDING_REVIEW = (''In review'', Info)"
| "payoutState APPROVED = (''Being paid'', Info)"
| "payoutState PAID = (''Paid'', Success)"
| "payoutState REJECTED = (''Rejected'', Error)"
| "payoutState FAILED = (''Failed'', Error)"

fun queueState :: "payout_status \<Rightarrow> shown_state" where
  "queueState PENDING_REVIEW = (''Pending review'', Warning)"
| "queueState APPROVED = (''Approved'', Info)"
| "queueState PAID = (''Paid'', Success)"
| "queueState REJECTED = (''Rejected'', Error)"
| "queueState FAILED = (''Failed'', Error)"

fun userState :: "user_status \<Rightarrow> shown_state" where
  "userState ACTIVE = (''Active'', Success)"
| "userState SUSPENDED = (''Suspended'', Warning)"
| "userState BANNED = (''Banned'', Error)"
| "userState CLOSED = (''Closed'', Neutral)"

fun healthState :: "health_state \<Rightarrow> shown_state" where
  "healthState HEALTHY = (''Healthy'', Success)"
| "healthState DEGRADED = (''Degraded'', Warning)"
| "healthState DOWN = (''Down'', Error)"

fun syncOutcome :: "sync_outcome \<Rightarrow> shown_state" where
  "syncOutcome RUNNING = (''Running'', Info)"
| "syncOutcome SUCCESS = (''Succeeded'', Success)"
| "syncOutcome PARTIAL = (''Partial'', Warning)"
| "syncOutcome SYNC_FAILED = (''Failed'', Error)"

fun syncModeLabel :: "sync_mode \<Rightarrow> string" where
  "syncModeLabel INCREMENTAL = ''Incremental''"
| "syncModeLabel FULL = ''Full''"

fun sourceState :: "config_source \<Rightarrow> shown_state" where
  "sourceState FromDefault = (''Default'', Neutral)"
| "sourceState FromGlobal = (''Set globally'', Brand)"
| "sourceState FromProvider = (''Set for this provider'', Info)"

fun categoryLabel :: "offer_category \<Rightarrow> string" where
  "categoryLabel GAME = ''Games''" | "categoryLabel SURVEY = ''Surveys''" | "categoryLabel SIGNUP = ''Sign-ups''"
| "categoryLabel TRIAL = ''Free trials''" | "categoryLabel SHOPPING = ''Shopping''"
| "categoryLabel APP_INSTALL = ''App installs''" | "categoryLabel VIDEO = ''Videos''" | "categoryLabel OTHER = ''Other''"

fun categoryTone :: "offer_category \<Rightarrow> tone" where
  "categoryTone GAME = Purple" | "categoryTone SURVEY = Info" | "categoryTone SIGNUP = Indigo"
| "categoryTone TRIAL = Warning" | "categoryTone SHOPPING = Brand" | "categoryTone APP_INSTALL = Success"
| "categoryTone VIDEO = Pink" | "categoryTone OTHER = Neutral"

definition CAPABILITIES :: "(string \<times> string) list" where
  "CAPABILITIES = [(''fetch_offers'', ''Fetch offers''), (''build_click_url'', ''Build click URLs''),
     (''verify_postback'', ''Verify postbacks''), (''parse_postback'', ''Parse postbacks''),
     (''reversals'', ''Reversals''), (''offer_targeting'', ''Offer targeting'')]"

definition spaced :: "string \<Rightarrow> string" where
  "spaced s = map (\<lambda>c. if c = CHR ''_'' then CHR '' '' else c) s"

definition capabilityLabel :: "string \<Rightarrow> string" where
  "capabilityLabel capability = (case map_of CAPABILITIES capability of Some l \<Rightarrow> l | None \<Rightarrow> spaced capability)"

section \<open>What a page offers\<close>

definition USER_STATUSES_IN_ORDER :: "user_status list" where
  "USER_STATUSES_IN_ORDER = [ACTIVE, SUSPENDED, BANNED, CLOSED]"

definition USER_ROLES_IN_ORDER :: "user_role list" where
  "USER_ROLES_IN_ORDER = [ROLE_USER, ROLE_ADMIN]"

definition statusChangesFor :: "user_status \<Rightarrow> user_status list" where
  "statusChangesFor status = filter (\<lambda>candidate. candidate \<noteq> status) USER_STATUSES_IN_ORDER"

text \<open>An absent or empty administrator id is nobody.\<close>

definition isSelf :: "string \<Rightarrow> string option \<Rightarrow> bool" where
  "isSelf userId adminId \<longleftrightarrow> truthy adminId = Some userId"

datatype variant = Primary | Secondary | Danger

record role_change =
  rlTo :: user_role
  rlVerb :: string
  rlVariant :: variant

fun roleChangeFor :: "user_role \<Rightarrow> role_change" where
  "roleChangeFor ROLE_USER = \<lparr>rlTo = ROLE_ADMIN, rlVerb = ''Make administrator'', rlVariant = Primary\<rparr>"
| "roleChangeFor ROLE_ADMIN = \<lparr>rlTo = ROLE_USER, rlVerb = ''Remove administrator access'', rlVariant = Danger\<rparr>"

fun statusVerb :: "user_status \<Rightarrow> string" where
  "statusVerb ACTIVE = ''Reinstate''"
| "statusVerb SUSPENDED = ''Suspend''"
| "statusVerb BANNED = ''Ban''"
| "statusVerb CLOSED = ''Close''"

definition statusVariant :: "user_status \<Rightarrow> variant" where
  "statusVariant status = (if status = BANNED then Danger else if status = ACTIVE then Primary else Secondary)"

datatype queue_step = Approve | Reject | Settle | Fail

record queue_action =
  qaAction :: queue_step
  qaLabel :: string
  qaVariant :: variant
  qaField :: "(string \<times> string) option"

fun actionsFor :: "payout_status \<Rightarrow> queue_action list" where
  "actionsFor PENDING_REVIEW =
     [\<lparr>qaAction = Approve, qaLabel = ''Approve'', qaVariant = Primary, qaField = Some (''reason'', ''Note (optional)'')\<rparr>,
      \<lparr>qaAction = Reject, qaLabel = ''Reject'', qaVariant = Danger, qaField = Some (''reason'', ''Reason'')\<rparr>]"
| "actionsFor APPROVED =
     [\<lparr>qaAction = Settle, qaLabel = ''Mark paid'', qaVariant = Primary, qaField = Some (''externalReference'', ''Payment reference'')\<rparr>,
      \<lparr>qaAction = Fail, qaLabel = ''Payment failed'', qaVariant = Secondary, qaField = Some (''reason'', ''What went wrong'')\<rparr>]"
| "actionsFor PAID = []"
| "actionsFor REJECTED = []"
| "actionsFor FAILED = []"

record fraud_choice =
  fdDecision :: review_decision
  fdAction :: string
  fdLabel :: string
  fdVariant :: variant

definition FRAUD_DECISIONS :: "fraud_choice list" where
  "FRAUD_DECISIONS =
     [\<lparr>fdDecision = DECISION_CLEAR, fdAction = ''clear'', fdLabel = ''Clear the hold'', fdVariant = Primary\<rparr>,
      \<lparr>fdDecision = DECISION_CONFIRM, fdAction = ''confirm'', fdLabel = ''Confirm fraud'', fdVariant = Danger\<rparr>]"

section \<open>Balances and money\<close>

definition balanceBuckets :: "Rewards.balance option \<Rightarrow> (string \<times> string \<times> int option) list" where
  "balanceBuckets b = [(''available'', ''Available'', map_option available b), (''pending'', ''Pending'', map_option pending b),
     (''locked'', ''Reserved'', map_option locked b)]"

definition lifetimeFigures :: "Rewards.balance option \<Rightarrow> (string \<times> string \<times> int option) list" where
  "lifetimeFigures b = [(''lifetimeEarned'', ''Earned, all time'', map_option lifetimeEarned b),
     (''lifetimeWithdrawn'', ''Withdrawn, all time'', map_option lifetimeWithdrawn b),
     (''lifetimeReversed'', ''Reversed, all time'', map_option lifetimeReversed b)]"

text \<open>On whole numbers, as in \<open>toCashMinor\<close>.\<close>

definition cashMinorFor :: "int \<Rightarrow> int \<Rightarrow> int" where
  "cashMinorFor points pointsPerCurrencyUnit =
     (if points \<le> 0 then 0 else if pointsPerCurrencyUnit \<le> 0 then 0 else (points * 100) div pointsPerCurrencyUnit)"

fun capitalised :: "string \<Rightarrow> string" where
  "capitalised [] = []"
| "capitalised (c # cs) = js_upper_char c # cs"

definition methodName :: "string \<Rightarrow> string" where
  "methodName m = (if m = ''paypal'' then ''PayPal'' else join_with '' '' (map capitalised (split_on CHR ''_'' m)))"

definition payoutReference :: "string \<Rightarrow> string" where
  "payoutReference i = (let plain = filter (\<lambda>c. c \<noteq> CHR ''-'') i in js_to_upper (drop (length plain - 8) plain))"

definition accountReference :: "string \<Rightarrow> string" where
  "accountReference userId = payoutReference userId"

text \<open>The colour of a tile: FNV-1a on 32 bits over the code units of the id.\<close>

definition TILE_COLORS :: "string list" where
  "TILE_COLORS = [''#059669'', ''#4f46e5'', ''#b91c1c'', ''#f59e0b'', ''#10b981'', ''#dc2626'', ''#111827'', ''#00d54b'']"

definition fnv_step :: "32 word \<Rightarrow> char \<Rightarrow> 32 word" where
  "fnv_step h c = (h XOR word_of_nat (code_unit c)) * 0x01000193"

definition tileColor :: "string \<Rightarrow> string" where
  "tileColor i = TILE_COLORS ! (unat (foldl fnv_step 0x811c9dc5 i) mod length TILE_COLORS)"

end
