(* ===== verification/JsNumber.thy ===== *)
theory JsNumber
  imports UriText Numbers
begin

text \<open>
  \<open>Number\<close> of a text (JavaScript's standard library), on Latin-1 text: white space is trimmed,
  the empty text is 0, decimal literals with an exponent, the prefixes \<open>0x\<close>, \<open>0o\<close>,
  \<open>0b\<close>, \<open>Infinity\<close>; anything else is \<open>NaN\<close>. The result is rounded to a double,
  without the subnormal range.
\<close>

datatype js_number = Finite rat | Infinite bool

definition all_digits :: "string \<Rightarrow> bool" where
  "all_digits s \<longleftrightarrow> list_all is_digit s"

definition is_exponent :: "char \<Rightarrow> bool" where
  "is_exponent c \<longleftrightarrow> c = CHR ''e'' \<or> c = CHR ''E''"

definition exponent_of :: "string \<Rightarrow> int option" where
  "exponent_of s = (case s of
     [] \<Rightarrow> None
   | c # cs \<Rightarrow> if c = CHR ''-'' \<and> cs \<noteq> [] \<and> all_digits cs then Some (- int (number_of 10 cs))
       else if c = CHR ''+'' \<and> cs \<noteq> [] \<and> all_digits cs then Some (int (number_of 10 cs))
       else if all_digits s then Some (int (number_of 10 s)) else None)"

definition mantissa_of :: "string \<Rightarrow> rat option" where
  "mantissa_of s = (case split_on CHR ''.'' s of
     [a] \<Rightarrow> if a \<noteq> [] \<and> all_digits a then Some (of_nat (number_of 10 a)) else None
   | [a, b] \<Rightarrow> if a @ b \<noteq> [] \<and> all_digits (a @ b) then Some (of_nat (number_of 10 (a @ b)) / 10 ^ length b) else None
   | _ \<Rightarrow> None)"

definition as_double :: "rat \<Rightarrow> js_number" where
  "as_double q = (let d = double_of q in if \<bar>d\<bar> \<ge> 2 ^ 1024 then Infinite (d < 0) else Finite d)"

definition unsigned_number :: "string \<Rightarrow> js_number option" where
  "unsigned_number s = (if s = ''Infinity'' then Some (Infinite False)
     else (let m = takeWhile (\<lambda>c. \<not> is_exponent c) s; e = dropWhile (\<lambda>c. \<not> is_exponent c) s
       in case (mantissa_of m, if e = [] then Some 0 else exponent_of (tl e)) of
            (Some q, Some x) \<Rightarrow> Some (as_double (q * 10 powi x)) | _ \<Rightarrow> None))"

definition radix_number :: "nat \<Rightarrow> string \<Rightarrow> js_number option" where
  "radix_number base s = (if s \<noteq> [] \<and> list_all (\<lambda>c. is_hex c \<and> hex_value c < base) s
     then Some (as_double (of_nat (number_of base s))) else None)"

definition negated :: "js_number \<Rightarrow> js_number" where
  "negated n = (case n of Finite q \<Rightarrow> Finite (- q) | Infinite b \<Rightarrow> Infinite (\<not> b))"

text \<open>\<open>None\<close> is \<open>NaN\<close>.\<close>

definition toNumber :: "string \<Rightarrow> js_number option" where
  "toNumber text = (let s = js_trim text in case s of
     [] \<Rightarrow> Some (Finite 0)
   | c # cs \<Rightarrow>
       if starts_with (js_lower s) ''0x'' then radix_number 16 (drop 2 s)
       else if starts_with (js_lower s) ''0o'' then radix_number 8 (drop 2 s)
       else if starts_with (js_lower s) ''0b'' then radix_number 2 (drop 2 s)
       else if c = CHR ''-'' then map_option negated (unsigned_number cs)
       else if c = CHR ''+'' then unsigned_number cs
       else unsigned_number s)"

end
