(* ===== verification/WebForms.thy ===== *)
theory WebForms
  imports WebViews JsNumber
begin

text \<open>
  The forms of \<^verbatim>\<open>apps/web\<close>: the setting form (\<^verbatim>\<open>lib/admin/settings.ts\<close>,
  \<^verbatim>\<open>routes/admin/settings/[key]/+page.server.ts\<close>) and the other actions that forward a
  form to the API. A form is a function from field names to submitted texts; an action ends in a
  redirect, a failure with its status, a success, or an exception. \<open>JSON.parse\<close>, \<open>JSON.stringify\<close> and the
  host's collation are arguments.
\<close>

section \<open>Texts and numbers\<close>

text \<open>What \<open>JSON.stringify\<close> makes of a number.\<close>

definition number_json :: "js_number option \<Rightarrow> json" where
  "number_json n = (case n of Some (Finite q) \<Rightarrow> JNum q | _ \<Rightarrow> JNull)"

text \<open>\<open>Math.max(0, Math.floor(Number(raw) || 0))\<close>; an absent parameter is \<open>null\<close>, which is 0.\<close>

definition readOffset :: "string option \<Rightarrow> js_number" where
  "readOffset raw = (case Option.bind raw toNumber of
     None \<Rightarrow> Finite 0
   | Some (Finite q) \<Rightarrow> Finite (of_int (max 0 \<lfloor>q\<rfloor>))
   | Some (Infinite neg) \<Rightarrow> if neg then Finite 0 else Infinite False)"

section \<open>Settings\<close>

definition namespaceOf :: "string \<Rightarrow> string" where
  "namespaceOf key = takeWhile (\<lambda>c. c \<noteq> CHR ''.'') key"

definition keyLabel :: "string \<Rightarrow> string" where
  "keyLabel key = (let rest = (if CHR ''.'' \<in> set key then tl (dropWhile (\<lambda>c. c \<noteq> CHR ''.'') key) else key)
     in spaced (concat (map (\<lambda>c. if c = CHR ''.'' then [CHR '' '', CHR 0xB7, CHR '' ''] else [c]) rest)))"

fun into_group :: "string \<Rightarrow> 'a \<Rightarrow> (string \<times> 'a list) list \<Rightarrow> (string \<times> 'a list) list" where
  "into_group n x [] = [(n, [x])]"
| "into_group n x ((m, xs) # groups) = (if m = n then (m, xs @ [x]) # groups else (m, xs) # into_group n x groups)"

definition groupByNamespace :: "(string \<Rightarrow> string \<Rightarrow> bool) \<Rightarrow> key_summary list \<Rightarrow> (string \<times> key_summary list) list" where
  "groupByNamespace collate shown =
     sort_by (\<lambda>a b. collate (fst a) (fst b))
       (map (\<lambda>(n, group). (n, sort_by (\<lambda>a b. collate (ksKey a) (ksKey b)) group))
         (foldl (\<lambda>groups x. into_group (namespaceOf (ksKey x)) x groups) [] shown))"

text \<open>\<open>None\<close> is the dash that stands for no value.\<close>

definition formatValue :: "(json \<Rightarrow> string) \<Rightarrow> json option \<Rightarrow> string option" where
  "formatValue stringify v = (case v of
     None \<Rightarrow> None
   | Some JNull \<Rightarrow> Some ''null''
   | Some (JStr s) \<Rightarrow> Some s
   | Some (JBool b) \<Rightarrow> Some (if b then ''true'' else ''false'')
   | Some j \<Rightarrow> Some (stringify j))"

definition toInputValue :: "(json \<Rightarrow> string) \<Rightarrow> (json \<Rightarrow> string) \<Rightarrow> json option \<Rightarrow> value_type \<Rightarrow> string" where
  "toInputValue stringify pretty v valueType = (case v of
     None \<Rightarrow> []
   | Some j \<Rightarrow> if valueType = VT_JSON then pretty j
       else (case formatValue stringify (Some j) of None \<Rightarrow> [] | Some s \<Rightarrow> s))"

datatype parsed_value = ParsedJson json | ParsedInfinity | ParsedBad

definition parseValue :: "(string \<Rightarrow> json option) \<Rightarrow> string \<Rightarrow> value_type \<Rightarrow> parsed_value" where
  "parseValue parse raw valueType = (case valueType of
     VT_BOOLEAN \<Rightarrow> ParsedJson (if raw = ''true'' then JBool True else if raw = ''false'' then JBool False else JStr raw)
   | VT_NUMBER \<Rightarrow> (case (js_trim raw, toNumber raw) of
         ([], _) \<Rightarrow> ParsedJson (JStr raw)
       | (_, None) \<Rightarrow> ParsedJson (JStr raw)
       | (_, Some (Finite q)) \<Rightarrow> ParsedJson (JNum q)
       | (_, Some (Infinite _)) \<Rightarrow> ParsedInfinity)
   | VT_JSON \<Rightarrow> (case parse raw of None \<Rightarrow> ParsedBad | Some j \<Rightarrow> ParsedJson j)
   | VT_STRING \<Rightarrow> ParsedJson (JStr raw))"

definition shadowedBy :: "key_summary \<Rightarrow> nat" where
  "shadowedBy summary = ksOverrideCount summary"

definition versionFor :: "stored_value list \<Rightarrow> string \<Rightarrow> millis option" where
  "versionFor overrides scopeId = (let wanted = (if scopeId = [] then GLOBAL else PROVIDER) in
     map_option svUpdatedAt (List.find (\<lambda>v. svScope v = wanted \<and> svScopeId v = scopeId) overrides))"

definition versionToField :: "(millis \<Rightarrow> string) \<Rightarrow> millis option \<Rightarrow> string" where
  "versionToField isoText version = (case version of None \<Rightarrow> [] | Some t \<Rightarrow> isoText t)"

definition versionFromField :: "string \<Rightarrow> string option" where
  "versionFromField raw = (if raw = [] then None else Some raw)"

definition isSettableAt :: "config_scope list \<Rightarrow> config_scope \<Rightarrow> bool" where
  "isSettableAt scopes scope \<longleftrightarrow> scope \<in> set scopes"

section \<open>Forms\<close>

type_synonym form = "string \<Rightarrow> string option"

definition form_text :: "form \<Rightarrow> string \<Rightarrow> string" where
  "form_text form name = (case form name of None \<Rightarrow> [] | Some s \<Rightarrow> s)"

definition form_field :: "form \<Rightarrow> string \<Rightarrow> string" where
  "form_field form name = js_trim (form_text form name)"

datatype 'a form_outcome = FormRedirect string | FormFailed nat 'a | FormOk 'a | FormThrew

text \<open>The fields of a failure, whose names and messages the contract says are texts.\<close>

definition json_string :: "json option \<Rightarrow> string" where
  "json_string j = (case j of Some (JStr s) \<Rightarrow> s | _ \<Rightarrow> [])"

definition failure_fields :: "api_failure \<Rightarrow> (string \<times> string) list" where
  "failure_fields f = (case afFields f of
     Some (JArr xs) \<Rightarrow> map (\<lambda>x. (json_string (json_field x ''field''), json_string (json_field x ''message''))) xs | _ \<Rightarrow> [])"

definition failure_reason :: "api_failure \<Rightarrow> string" where
  "failure_reason f = (if failure_fields f = [] then json_string (afMessage f)
     else join_with ''; '' (map (\<lambda>(name, message). name @ '': '' @ message) (failure_fields f)))"

text \<open>What the actions have in common: the call, the login page on 401, a failure's status.\<close>

definition form_answer :: "string \<Rightarrow> (api_failure \<Rightarrow> 'a) \<Rightarrow> (web_response \<Rightarrow> 'a form_outcome) \<Rightarrow> web_response api_result
    \<Rightarrow> 'a form_outcome" where
  "form_answer login_path on_failure on_success result =
     (let refused = (\<lambda>f. if afStatus f = 401 then FormRedirect login_path else FormFailed (afStatus f) (on_failure f))
      in case result of
           ApiThrew \<Rightarrow> FormThrew
         | ApiFailed f \<Rightarrow> refused f
         | ApiOk r \<Rightarrow> if response_ok r then on_success r else refused (readFailure r))"

definition form_call :: "'s web_ports \<Rightarrow> 's \<Rightarrow> session_cookie option \<Rightarrow> string option \<Rightarrow> string \<Rightarrow> string \<Rightarrow> json
    \<Rightarrow> (web_response api_result \<Rightarrow> 'a form_outcome) \<Rightarrow> 's \<times> session_cookie option \<times> 'a form_outcome" where
  "form_call p s jar address path method body answered =
     (case apiAuthed p s jar path \<lparr>wiMethod = method, wiBody = Some body\<rparr> address of
        (s', jar', r) \<Rightarrow> (s', jar', answered r))"

section \<open>The setting form\<close>

definition is_uuid :: "string \<Rightarrow> bool" where
  "is_uuid s \<longleftrightarrow> map length (split_on CHR ''-'' s) = [8, 4, 4, 4, 12] \<and> list_all (list_all is_hex) (split_on CHR ''-'' s)"

definition readScopeId :: "string option \<Rightarrow> string" where
  "readScopeId raw = (case raw of None \<Rightarrow> [] | Some s \<Rightarrow> if is_uuid s then s else [])"

text \<open>The scope a page shows: the provider only where the key allows one.\<close>

definition shown_scope :: "string \<Rightarrow> config_scope list \<Rightarrow> config_scope \<times> string" where
  "shown_scope scopeId scopes = (if scopeId \<noteq> [] \<and> isSettableAt scopes PROVIDER then (PROVIDER, scopeId) else (GLOBAL, []))"

record setting_feedback =
  sfAction :: string
  sfMessage :: string
  sfStale :: bool
  sfValue :: string
  sfReason :: string

definition isStale :: "api_failure \<Rightarrow> bool" where
  "isStale f \<longleftrightarrow> afCode f = JStr ''CONFIG_STALE_WRITE''"

definition scopeFrom :: "form \<Rightarrow> (string \<times> json) list" where
  "scopeFrom form = (let scopeId = form_text form ''scopeId'' in
     if scopeId \<noteq> [] then [(''scope'', JStr ''PROVIDER''), (''scopeId'', JStr scopeId)] else [(''scope'', JStr ''GLOBAL'')])"

definition setting_answer :: "string \<Rightarrow> string \<Rightarrow> string \<Rightarrow> string \<Rightarrow> web_response api_result \<Rightarrow> setting_feedback form_outcome" where
  "setting_answer action message submitted why =
     form_answer ''/login''
       (\<lambda>f. \<lparr>sfAction = action, sfMessage = failure_reason f, sfStale = isStale f, sfValue = submitted, sfReason = why\<rparr>)
       (\<lambda>_. FormOk \<lparr>sfAction = action, sfMessage = message, sfStale = False, sfValue = [], sfReason = []\<rparr>)"

definition version_json :: "string \<Rightarrow> json" where
  "version_json raw = json_text (versionFromField raw)"

text \<open>The type the form declares; any other text is read like a string's.\<close>

definition declared_type :: "string \<Rightarrow> value_type" where
  "declared_type s = (if s = ''boolean'' then VT_BOOLEAN else if s = ''number'' then VT_NUMBER
     else if s = ''json'' then VT_JSON else VT_STRING)"

text \<open>The bodies the two actions send; the form's reason is trimmed.\<close>

definition form_reason :: "form \<Rightarrow> string" where
  "form_reason form = js_trim (form_text form ''reason'')"

definition set_body :: "form \<Rightarrow> json \<Rightarrow> (string \<times> json) list" where
  "set_body form v = [(''value'', v)] @ scopeFrom form @ [(''reason'', JStr (form_reason form)),
     (''expectedUpdatedAt'', version_json (form_text form ''expectedUpdatedAt''))]"

definition reset_body :: "form \<Rightarrow> (string \<times> json) list" where
  "reset_body form = scopeFrom form @ [(''reason'', JStr (form_reason form)),
     (''expectedUpdatedAt'', version_json (form_text form ''expectedUpdatedAt''))]"

definition set_setting :: "(string \<Rightarrow> json option) \<Rightarrow> 's web_ports \<Rightarrow> 's \<Rightarrow> session_cookie option \<Rightarrow> string option
    \<Rightarrow> string \<Rightarrow> form \<Rightarrow> 's \<times> session_cookie option \<times> setting_feedback form_outcome" where
  "set_setting parse p s jar address key form =
     (let raw = form_text form ''value''; why = form_reason form;
          message = (if form_text form ''scopeId'' \<noteq> []
            then ''The value is stored for this provider, and wins over the global one.''
            else ''The value is stored and in force platform-wide.'');
          put = (\<lambda>v. form_call p s jar address (apiPath [''/admin/configuration/'', []] [Some key]) ''PUT''
            (JObj (set_body form v)) (setting_answer ''set'' message raw why))
      in case parseValue parse raw (declared_type (form_text form ''valueType'')) of
           ParsedBad \<Rightarrow> (s, jar, FormFailed 422 \<lparr>sfAction = ''set'',
             sfMessage = ''That is not valid JSON. Check the quotes, commas and brackets.'', sfStale = False, sfValue = raw, sfReason = why\<rparr>)
         | ParsedJson v \<Rightarrow> put v
         | ParsedInfinity \<Rightarrow> put JNull)"

definition reset_setting :: "'s web_ports \<Rightarrow> 's \<Rightarrow> session_cookie option \<Rightarrow> string option
    \<Rightarrow> string \<Rightarrow> form \<Rightarrow> 's \<times> session_cookie option \<times> setting_feedback form_outcome" where
  "reset_setting p s jar address key form =
     (let message = (if form_text form ''scopeId'' \<noteq> []
            then ''The override was removed. This provider follows the global value again.''
            else ''The stored value was removed. This key follows the code default again.'')
      in form_call p s jar address (apiPath [''/admin/configuration/'', ''/reset''] [Some key]) ''POST''
           (JObj (reset_body form)) (setting_answer ''reset'' message [] (form_reason form)))"

section \<open>Accounts, providers, payouts, fraud\<close>

text \<open>An action that reports its own name and a message.\<close>

type_synonym action_feedback = "string \<times> string"

definition action_answer :: "string \<Rightarrow> string \<Rightarrow> web_response api_result \<Rightarrow> action_feedback form_outcome" where
  "action_answer action message =
     form_answer ''/login'' (\<lambda>f. (action, failure_reason f)) (\<lambda>_. FormOk (action, message))"

definition readUserStatus :: "string \<Rightarrow> user_status option" where
  "readUserStatus raw = List.find (\<lambda>s. user_status_name s = raw) USER_STATUSES_IN_ORDER"

definition readUserRole :: "string \<Rightarrow> user_role option" where
  "readUserRole raw = List.find (\<lambda>r. user_role_name r = raw) USER_ROLES_IN_ORDER"

definition status_form :: "'s web_ports \<Rightarrow> 's \<Rightarrow> session_cookie option \<Rightarrow> string option \<Rightarrow> string \<Rightarrow> form
    \<Rightarrow> 's \<times> session_cookie option \<times> action_feedback form_outcome" where
  "status_form p s jar address userId form = (case readUserStatus (form_field form ''status'') of
     None \<Rightarrow> (s, jar, FormFailed 422 (''status'', ''That is not a status this build knows about.''))
   | Some status \<Rightarrow> form_call p s jar address (apiPath [''/admin/users/'', ''/status''] [Some userId]) ''PATCH''
       (JObj [(''status'', JStr (user_status_name status)), (''reason'', JStr (form_field form ''reason''))])
       (action_answer ''status'' (''The account is now '' @ js_lower (user_status_name status) @ ''. Any session it held has been ended.'')))"

definition role_form :: "'s web_ports \<Rightarrow> 's \<Rightarrow> session_cookie option \<Rightarrow> string option \<Rightarrow> string \<Rightarrow> form
    \<Rightarrow> 's \<times> session_cookie option \<times> action_feedback form_outcome" where
  "role_form p s jar address userId form = (case readUserRole (form_field form ''role'') of
     None \<Rightarrow> (s, jar, FormFailed 422 (''role'', ''That is not a role this build knows about.''))
   | Some role \<Rightarrow> form_call p s jar address (apiPath [''/admin/users/'', ''/role''] [Some userId]) ''PATCH''
       (JObj [(''role'', JStr (user_role_name role)), (''reason'', JStr (form_field form ''reason''))])
       (action_answer ''role'' (if role = ROLE_ADMIN
          then ''The account is now an administrator. The admin surface opens on their next request.''
          else ''Administrator access is removed. The account, its sessions and its points are untouched.'')))"

definition revoke_form :: "'s web_ports \<Rightarrow> 's \<Rightarrow> session_cookie option \<Rightarrow> string option \<Rightarrow> string \<Rightarrow> form
    \<Rightarrow> 's \<times> session_cookie option \<times> action_feedback form_outcome" where
  "revoke_form p s jar address userId form =
     form_call p s jar address (apiPath [''/admin/users/'', ''/revoke-sessions''] [Some userId]) ''POST''
       (JObj [(''reason'', JStr (form_field form ''reason''))])
       (action_answer ''revoke'' ''Every session was ended. The account can sign in again.'')"

definition enable_form :: "'s web_ports \<Rightarrow> 's \<Rightarrow> session_cookie option \<Rightarrow> string option \<Rightarrow> form
    \<Rightarrow> 's \<times> session_cookie option \<times> action_feedback form_outcome" where
  "enable_form p s jar address form =
     form_call p s jar address (apiPath [''/admin/providers/'', ''/enabled''] [Some (form_field form ''providerId'')]) ''PATCH''
       (JObj [(''enabled'', JBool True), (''reason'', JStr (form_field form ''reason''))])
       (action_answer ''enable'' ''The provider is enabled. Synchronize its catalog to fill the wall.'')"

definition disable_form :: "'s web_ports \<Rightarrow> 's \<Rightarrow> session_cookie option \<Rightarrow> string option \<Rightarrow> form
    \<Rightarrow> 's \<times> session_cookie option \<times> action_feedback form_outcome" where
  "disable_form p s jar address form =
     form_call p s jar address (apiPath [''/admin/providers/'', ''/enabled''] [Some (form_field form ''providerId'')]) ''PATCH''
       (JObj [(''enabled'', JBool False), (''reason'', JStr (form_field form ''reason''))])
       (action_answer ''disable'' ''The provider is disabled: not synced, excluded from the wall, and its postbacks rejected.'')"

definition sync_form :: "'s web_ports \<Rightarrow> 's \<Rightarrow> session_cookie option \<Rightarrow> string option \<Rightarrow> form
    \<Rightarrow> 's \<times> session_cookie option \<times> action_feedback form_outcome" where
  "sync_form p s jar address form =
     (let mode = (if form_field form ''mode'' = ''FULL'' then ''FULL'' else ''INCREMENTAL'') in
      form_call p s jar address (apiPath [''/admin/catalog/providers/'', ''/sync''] [Some (form_field form ''providerId'')]) ''POST''
       (JObj [(''mode'', JStr mode)])
       (action_answer ''sync'' (''A '' @ js_lower mode @ '' synchronization was queued. Reload in a moment to see the result.'')))"

definition register_form :: "'s web_ports \<Rightarrow> 's \<Rightarrow> session_cookie option \<Rightarrow> string option \<Rightarrow> form
    \<Rightarrow> 's \<times> session_cookie option \<times> action_feedback form_outcome" where
  "register_form p s jar address form =
     form_call p s jar address ''/admin/providers'' ''POST''
       (JObj [(''slug'', JStr (form_field form ''slug'')), (''displayName'', JStr (form_field form ''displayName''))])
       (action_answer ''register'' ''The provider is registered. It starts disabled'')"

text \<open>The newest run of each provider, from a list that is newest first.\<close>

fun latestRunPerProvider :: "sync_run_summary list \<Rightarrow> (id \<times> sync_run_summary) list" where
  "latestRunPerProvider [] = []"
| "latestRunPerProvider (run # runs) =
     (ssProviderId run, run) # filter (\<lambda>e. fst e \<noteq> ssProviderId run) (latestRunPerProvider runs)"

fun step_path :: "queue_step \<Rightarrow> string" where
  "step_path Approve = ''approve''"
| "step_path Reject = ''reject''"
| "step_path Settle = ''settle''"
| "step_path Fail = ''fail''"

definition transition_form :: "'s web_ports \<Rightarrow> 's \<Rightarrow> session_cookie option \<Rightarrow> string option \<Rightarrow> string \<Rightarrow> queue_step \<Rightarrow> form
    \<Rightarrow> 's \<times> session_cookie option \<times> (queue_step \<times> string) form_outcome" where
  "transition_form p s jar address payoutId step form =
     form_call p s jar address (apiPath [''/admin/payouts/'', ''/'', []] [Some payoutId, Some (step_path step)]) ''POST''
       (JObj [if step = Settle then (''externalReference'', JStr (form_field form ''externalReference''))
              else (''reason'', JStr (form_field form ''reason''))])
       (form_answer ''/login'' (\<lambda>f. (step, json_string (afMessage f)))
          (\<lambda>r. case wrBody r of None \<Rightarrow> FormThrew
             | Some body \<Rightarrow> FormOk (step, json_string (json_field body ''status''))))"

definition decide_form :: "'s web_ports \<Rightarrow> 's \<Rightarrow> session_cookie option \<Rightarrow> string option \<Rightarrow> bool \<Rightarrow> form
    \<Rightarrow> 's \<times> session_cookie option \<times> (bool \<times> string \<times> json option) form_outcome" where
  "decide_form p s jar address clear form =
     (let conversionId = form_text form ''conversionId'' in
      form_call p s jar address (apiPath [''/admin/fraud/held/'', ''/review''] [Some conversionId]) ''POST''
        (JObj [(''decision'', JStr (if clear then ''CLEAR'' else ''CONFIRM'')), (''reason'', JStr (form_field form ''reason''))])
        (form_answer ''/login'' (\<lambda>f. (clear, conversionId, afMessage f))
          (\<lambda>r. case wrBody r of None \<Rightarrow> FormThrew
             | Some body \<Rightarrow> FormOk (clear, conversionId, json_field body ''rewardPoints''))))"

section \<open>Withdrawals and sign-in\<close>

definition FORM_FIELDS :: "string list" where
  "FORM_FIELDS = [''amountPoints'', ''method'', ''destination'']"

definition FIELD_FOR_CODE :: "(string \<times> string) list" where
  "FIELD_FOR_CODE = [(''PAYOUT_AMOUNT_OUT_OF_RANGE'', ''amountPoints''), (''PAYOUT_METHOD_UNSUPPORTED'', ''method''),
     (''PAYOUT_DESTINATION_INVALID'', ''destination'')]"

type_synonym withdraw_errors = "string option \<times> (string \<times> string) list"

definition withdraw_describe :: "api_failure \<Rightarrow> withdraw_errors" where
  "withdraw_describe f =
     (let fields = foldl (\<lambda>m (name, message). map_set name message m) []
            (filter (\<lambda>(name, message). name \<in> set FORM_FIELDS) (failure_fields f))
      in if fields \<noteq> [] then (None, fields)
         else (case (case afCode f of JStr c \<Rightarrow> map_of FIELD_FOR_CODE c | _ \<Rightarrow> None) of
             Some name \<Rightarrow> (None, [(name, json_string (afMessage f))])
           | None \<Rightarrow> (Some (json_string (afMessage f)), [])))"

record withdraw_values =
  wvAmountPoints :: string
  wvMethod :: string
  wvDestination :: string

definition withdraw_body :: "withdraw_values \<Rightarrow> (string \<times> json) list" where
  "withdraw_body v = [(''amountPoints'', number_json (toNumber (wvAmountPoints v))), (''method'', JStr (wvMethod v)),
     (''destination'', JStr (wvDestination v))]"

definition withdraw_form :: "'s web_ports \<Rightarrow> 's \<Rightarrow> session_cookie option \<Rightarrow> string option \<Rightarrow> form
    \<Rightarrow> 's \<times> session_cookie option \<times> (withdraw_errors \<times> withdraw_values + json) form_outcome" where
  "withdraw_form p s jar address form =
     (let submitted = \<lparr>wvAmountPoints = form_field form ''amountPoints'', wvMethod = form_field form ''method'',
            wvDestination = form_field form ''destination''\<rparr>
      in form_call p s jar address ''/payouts'' ''POST'' (JObj (withdraw_body submitted))
           (form_answer ''/login?next=%2Fpayouts'' (\<lambda>f. Inl (withdraw_describe f, submitted))
             (\<lambda>r. case wrBody r of None \<Rightarrow> FormThrew | Some payout \<Rightarrow> FormOk (Inr payout))))"

definition click_form :: "'s web_ports \<Rightarrow> 's \<Rightarrow> session_cookie option \<Rightarrow> string option \<Rightarrow> string
    \<Rightarrow> 's \<times> session_cookie option \<times> string form_outcome" where
  "click_form p s jar address offerId =
     form_call p s jar address ''/clicks'' ''POST'' (JObj [(''offerId'', JStr offerId)])
       (form_answer (''/login?next=/offers/'' @ offerId) (\<lambda>f. json_string (afMessage f))
         (\<lambda>r. case wrBody r of None \<Rightarrow> FormThrew | Some click \<Rightarrow> FormRedirect (json_string (json_field click ''redirectUrl''))))"

definition sign_in_body :: "form \<Rightarrow> json" where
  "sign_in_body form = JObj [(''email'', JStr (form_text form ''email'')), (''password'', JStr (form_text form ''password''))]"

definition sign_in_answer :: "string \<Rightarrow> form \<Rightarrow> json option api_result \<Rightarrow> (string \<times> string) form_outcome" where
  "sign_in_answer next_page form result = (case result of
     ApiThrew \<Rightarrow> FormThrew
   | ApiFailed f \<Rightarrow> FormFailed (afStatus f) (json_string (afMessage f), form_text form ''email'')
   | ApiOk _ \<Rightarrow> FormRedirect next_page)"

definition login_form :: "'s web_ports \<Rightarrow> 's \<Rightarrow> session_cookie option \<Rightarrow> string option \<Rightarrow> string option \<Rightarrow> form
    \<Rightarrow> 's \<times> session_cookie option \<times> (string \<times> string) form_outcome" where
  "login_form p s jar address next_path form =
     (case establishSession p s jar ''/auth/login'' (sign_in_body form) address of
        (s', jar', r) \<Rightarrow> (s', jar', sign_in_answer (safeNext next_path) form r))"

definition sign_up_form :: "'s web_ports \<Rightarrow> 's \<Rightarrow> session_cookie option \<Rightarrow> string option \<Rightarrow> form
    \<Rightarrow> 's \<times> session_cookie option \<times> (string \<times> string) form_outcome" where
  "sign_up_form p s jar address form =
     (case establishSession p s jar ''/auth/register'' (sign_in_body form) address of
        (s', jar', r) \<Rightarrow> (s', jar', sign_in_answer ''/dashboard'' form r))"

definition reset_form :: "'s web_ports \<Rightarrow> 's \<Rightarrow> string option \<Rightarrow> form \<Rightarrow> 's \<times> (string \<times> string) option form_outcome" where
  "reset_form p s address form =
     (let token = form_text form ''token'' in
      case wpPublic p s ''/auth/reset-password'' (JObj [(''token'', JStr token), (''password'', JStr (form_text form ''password''))]) address of
        (s', None) \<Rightarrow> (s', FormThrew)
      | (s', Some r) \<Rightarrow> if response_ok r then (s', FormOk None)
          else (s', FormFailed (wrStatus r) (Some (json_string (afMessage (readFailure r)), token))))"

definition forgot_form :: "'s web_ports \<Rightarrow> 's \<Rightarrow> string option \<Rightarrow> form \<Rightarrow> 's \<times> bool" where
  "forgot_form p s address form =
     (fst (wpPublic p s ''/auth/forgot-password'' (JObj [(''email'', JStr (form_text form ''email''))]) address), True)"

definition logout_form :: "'s web_ports \<Rightarrow> 's \<Rightarrow> session_cookie option \<Rightarrow> string option \<Rightarrow> 's \<times> session_cookie option \<times> page_outcome" where
  "logout_form p s jar address = (case endSession p s jar address of (s', jar') \<Rightarrow> (s', jar', Redirect 303 ''/login''))"

section \<open>Page loads\<close>

definition failedDetailLoad :: "api_failure \<Rightarrow> string \<Rightarrow> string \<Rightarrow> page_outcome" where
  "failedDetailLoad f malformed missing =
     (if afStatus f = 401 then Redirect 303 ''/login''
      else if afStatus f = 403 then ErrorPage 403 ''Admins only''
      else if afStatus f = 404 then ErrorPage 404 missing
      else if afStatus f = 422 then ErrorPage 404 malformed
      else ErrorPage (if afStatus f = 503 then 503 else 502) (json_string (afMessage f)))"

definition admin_layout :: "json api_result \<Rightarrow> page_outcome" where
  "admin_layout me = (case me of
     ApiOk profile \<Rightarrow> if json_field profile ''role'' = Some (JStr ''ADMIN'') then Proceed else ErrorPage 403 ''Admins only''
   | _ \<Rightarrow> Redirect 303 ''/login'')"

definition readQueueStatus :: "string option \<Rightarrow> payout_status option" where
  "readQueueStatus raw = (case raw of
     None \<Rightarrow> Some PENDING_REVIEW
   | Some s \<Rightarrow> if s = [] then None
       else (case List.find (\<lambda>x. payout_status_name x = s) [PENDING_REVIEW, APPROVED, PAID, REJECTED, FAILED] of
           None \<Rightarrow> Some PENDING_REVIEW | Some x \<Rightarrow> Some x))"

definition readEmail :: "string option \<Rightarrow> string" where
  "readEmail raw = take 320 (js_trim (case raw of None \<Rightarrow> [] | Some s \<Rightarrow> s))"

definition readSearch :: "string option \<Rightarrow> string" where
  "readSearch raw = take 100 (js_trim (case raw of None \<Rightarrow> [] | Some s \<Rightarrow> s))"

end
