(* ===== verification/WebPages.thy ===== *)
theory WebPages
  imports WebForms
begin

text \<open>
  The pages of \<^verbatim>\<open>apps/web\<close>: what a page's \<open>load\<close> asks the API for given the address it
  was opened with, what it makes of the answers, and the links its components render (the pager, the
  tabs of the payout queue, the panels of an account, the navigation). Markup, icons and styles are not
  modelled; \<open>searchParams\<close> is a list of names and values.
\<close>

section \<open>Query strings\<close>

text \<open>\<open>URLSearchParams\<close> (the platform's library): \<open>get\<close> is \<open>map_of\<close>, \<open>set\<close> replaces the first
  pair of the name and drops the others, \<open>toString\<close> is the form encoding.\<close>

type_synonym search_params = "(string \<times> string) list"

fun query_set :: "string \<Rightarrow> string \<Rightarrow> search_params \<Rightarrow> search_params" where
  "query_set k v [] = [(k, v)]"
| "query_set k v ((k', v') # ps) =
     (if k' = k then (k, v) # filter (\<lambda>(n, _). n \<noteq> k) ps else (k', v') # query_set k v ps)"

definition query_delete :: "string \<Rightarrow> search_params \<Rightarrow> search_params" where
  "query_delete k ps = filter (\<lambda>(n, _). n \<noteq> k) ps"

definition form_unreserved :: "char \<Rightarrow> bool" where
  "form_unreserved c = (let n = code_unit c in (48 \<le> n \<and> n \<le> 57) \<or> (65 \<le> n \<and> n \<le> 90) \<or> (97 \<le> n \<and> n \<le> 122)
     \<or> n = 42 \<or> n = 45 \<or> n = 46 \<or> n = 95)"

definition form_char :: "char \<Rightarrow> string" where
  "form_char c = (if c = CHR '' '' then ''+'' else if form_unreserved c then [c] else
     let n = code_unit c in if n < 128 then percent n else percent (192 + n div 64) @ percent (128 + n mod 64))"

definition form_text_of :: "string \<Rightarrow> string" where
  "form_text_of s = concat (map form_char s)"

definition query_string :: "search_params \<Rightarrow> string" where
  "query_string ps = join_with ''&'' (map (\<lambda>(k, v). form_text_of k @ ''='' @ form_text_of v) ps)"

text \<open>Reading one back; \<open>None\<close> when a value is not the encoding of Latin-1 text.\<close>

definition query_pair :: "string \<Rightarrow> (string \<times> string) option" where
  "query_pair s = (let k = takeWhile (\<lambda>c. c \<noteq> CHR ''='') s; v = tl (dropWhile (\<lambda>c. c \<noteq> CHR ''='') s)
     in case (query_decode k, query_decode v) of (Some k', Some v') \<Rightarrow> Some (k', v') | _ \<Rightarrow> None)"

definition parse_query :: "string \<Rightarrow> search_params option" where
  "parse_query s = (let text = (case s of [] \<Rightarrow> [] | c # cs \<Rightarrow> if c = CHR ''?'' then cs else s);
       pairs = map query_pair (filter (\<lambda>t. t \<noteq> []) (split_on CHR ''&'' text))
     in if None \<in> set pairs then None else Some (map the pairs))"

section \<open>What a list page asks for\<close>

text \<open>\<open>String\<close> of a whole number that is not negative; from \<open>10 ^ 21\<close> on JavaScript writes an
  exponent, which is the argument.\<close>

definition number_text :: "(rat \<Rightarrow> string) \<Rightarrow> js_number \<Rightarrow> string" where
  "number_text exponential n = (case n of
     Finite q \<Rightarrow> if q < 10 ^ 21 then decimal (nat \<lfloor>q\<rfloor>) else exponential q
   | Infinite neg \<Rightarrow> if neg then ''-Infinity'' else ''Infinity'')"

definition offset_params :: "(rat \<Rightarrow> string) \<Rightarrow> js_number \<Rightarrow> search_params" where
  "offset_params exponential n = (if n \<noteq> Finite 0 then [(''offset'', number_text exponential n)] else [])"

definition set_filters :: "search_params \<Rightarrow> search_params" where
  "set_filters filters = filter (\<lambda>(_, v). v \<noteq> []) filters"

text \<open>Only a name the page offers survives; an absent parameter is \<open>null\<close>.\<close>

definition known_name :: "string list \<Rightarrow> string option \<Rightarrow> string" where
  "known_name names raw = (case raw of None \<Rightarrow> [] | Some s \<Rightarrow> if s \<in> set names then s else [])"

fun reward_type_name :: "reward_transaction_type \<Rightarrow> string" where
  "reward_type_name CONVERSION_CREDIT = ''CONVERSION_CREDIT''"
| "reward_type_name CHARGEBACK_DEBIT = ''CHARGEBACK_DEBIT''"
| "reward_type_name REWARD_MATURATION = ''REWARD_MATURATION''"
| "reward_type_name PAYOUT_LOCK = ''PAYOUT_LOCK''"
| "reward_type_name PAYOUT_SETTLE = ''PAYOUT_SETTLE''"
| "reward_type_name PAYOUT_REFUND = ''PAYOUT_REFUND''"
| "reward_type_name MANUAL_ADJUSTMENT = ''MANUAL_ADJUSTMENT''"
| "reward_type_name BONUS = ''BONUS''"

definition LEDGER_TYPES :: "string list" where
  "LEDGER_TYPES = map reward_type_name [CONVERSION_CREDIT, CHARGEBACK_DEBIT, REWARD_MATURATION, PAYOUT_LOCK,
     PAYOUT_SETTLE, PAYOUT_REFUND, MANUAL_ADJUSTMENT, BONUS]"

fun reward_status_name :: "reward_status \<Rightarrow> string" where
  "reward_status_name STATUS_PENDING = ''PENDING''"
| "reward_status_name STATUS_AVAILABLE = ''AVAILABLE''"
| "reward_status_name STATUS_CLEARED = ''CLEARED''"
| "reward_status_name STATUS_REVERSED = ''REVERSED''"
| "reward_status_name STATUS_IN_REVIEW = ''IN_REVIEW''"
| "reward_status_name STATUS_PAID = ''PAID''"
| "reward_status_name STATUS_RETURNED = ''RETURNED''"
| "reward_status_name STATUS_ADJUSTED = ''ADJUSTED''"

definition LEDGER_STATUSES :: "string list" where
  "LEDGER_STATUSES = map reward_status_name [STATUS_PENDING, STATUS_AVAILABLE, STATUS_CLEARED, STATUS_REVERSED,
     STATUS_IN_REVIEW, STATUS_PAID, STATUS_RETURNED, STATUS_ADJUSTED]"

definition OFFER_CATEGORIES_IN_ORDER :: "string list" where
  "OFFER_CATEGORIES_IN_ORDER = [''GAME'', ''SURVEY'', ''SIGNUP'', ''TRIAL'', ''SHOPPING'', ''APP_INSTALL'', ''VIDEO'', ''OTHER'']"

definition OFFER_SORTS_IN_ORDER :: "string list" where
  "OFFER_SORTS_IN_ORDER = [''reward_desc'', ''reward_asc'', ''newest'']"

definition user_status_filter :: "string option \<Rightarrow> string" where
  "user_status_filter raw = known_name (map user_status_name USER_STATUSES_IN_ORDER) raw"

definition user_role_filter :: "string option \<Rightarrow> string" where
  "user_role_filter raw = known_name (map user_role_name USER_ROLES_IN_ORDER) raw"

definition ledger_type_filter :: "string option \<Rightarrow> string" where
  "ledger_type_filter raw = known_name LEDGER_TYPES raw"

definition ledger_status_filter :: "string option \<Rightarrow> string" where
  "ledger_status_filter raw = known_name LEDGER_STATUSES raw"

definition category_filter :: "string option \<Rightarrow> string" where
  "category_filter raw = known_name OFFER_CATEGORIES_IN_ORDER raw"

definition sort_filter :: "string option \<Rightarrow> string" where
  "sort_filter raw = known_name OFFER_SORTS_IN_ORDER raw"

definition readUserId :: "string option \<Rightarrow> string" where
  "readUserId raw = (case raw of None \<Rightarrow> [] | Some s \<Rightarrow> if is_uuid s then s else [])"

text \<open>The path a page asks the API for, the filters it applied, the query its pager carries on and its size.\<close>

record list_page =
  lpPath :: string
  lpParams :: search_params
  lpFilters :: search_params
  lpOffset :: js_number
  lpPageSize :: nat
  lpCarried :: search_params

definition url_offset :: "search_params \<Rightarrow> js_number" where
  "url_offset ps = readOffset (map_of ps ''offset'')"

definition limited :: "nat \<Rightarrow> search_params \<Rightarrow> search_params" where
  "limited n ps = (''limit'', decimal n) # ps"

definition users_page :: "(rat \<Rightarrow> string) \<Rightarrow> search_params \<Rightarrow> list_page" where
  "users_page exponential ps =
     (let filters = [(''status'', user_status_filter (map_of ps ''status'')), (''role'', user_role_filter (map_of ps ''role'')),
          (''email'', readEmail (map_of ps ''email''))]
      in \<lparr>lpPath = ''/admin/users'', lpParams = limited 25 (set_filters filters @ offset_params exponential (url_offset ps)),
          lpFilters = filters, lpOffset = url_offset ps, lpPageSize = 25, lpCarried = set_filters filters\<rparr>)"

definition earnings_page :: "(rat \<Rightarrow> string) \<Rightarrow> search_params \<Rightarrow> list_page" where
  "earnings_page exponential ps =
     (let filters = [(''type'', ledger_type_filter (map_of ps ''type'')), (''status'', ledger_status_filter (map_of ps ''status''))]
      in \<lparr>lpPath = ''/rewards/history'', lpParams = limited 20 (set_filters filters @ offset_params exponential (url_offset ps)),
          lpFilters = filters, lpOffset = url_offset ps, lpPageSize = 20, lpCarried = set_filters filters\<rparr>)"

definition offers_page :: "(rat \<Rightarrow> string) \<Rightarrow> search_params \<Rightarrow> list_page" where
  "offers_page exponential ps =
     (let filters = [(''search'', js_trim (case map_of ps ''search'' of None \<Rightarrow> [] | Some s \<Rightarrow> s)),
          (''category'', category_filter (map_of ps ''category'')), (''sort'', sort_filter (map_of ps ''sort''))]
      in \<lparr>lpPath = ''/offers'', lpParams = limited 12 (set_filters filters @ offset_params exponential (url_offset ps)),
          lpFilters = filters, lpOffset = url_offset ps, lpPageSize = 12, lpCarried = ps\<rparr>)"

definition wall_filtered :: "list_page \<Rightarrow> bool" where
  "wall_filtered pg \<longleftrightarrow> map_of (set_filters (lpFilters pg)) ''search'' \<noteq> None \<or> map_of (set_filters (lpFilters pg)) ''category'' \<noteq> None"

definition queue_filter :: "payout_status option \<Rightarrow> string" where
  "queue_filter status = (case status of None \<Rightarrow> [] | Some s \<Rightarrow> payout_status_name s)"

definition queue_page :: "(rat \<Rightarrow> string) \<Rightarrow> search_params \<Rightarrow> list_page" where
  "queue_page exponential ps =
     (let filters = [(''status'', queue_filter (readQueueStatus (map_of ps ''status'')))]
      in \<lparr>lpPath = ''/admin/payouts'', lpParams = limited 25 (set_filters filters @ offset_params exponential (url_offset ps)),
          lpFilters = filters, lpOffset = url_offset ps, lpPageSize = 25, lpCarried = ps\<rparr>)"

definition held_page :: "(rat \<Rightarrow> string) \<Rightarrow> search_params \<Rightarrow> list_page" where
  "held_page exponential ps =
     (let filters = [(''userId'', readUserId (map_of ps ''userId''))]
      in \<lparr>lpPath = ''/admin/fraud/held'', lpParams = limited 10 (set_filters filters @ offset_params exponential (url_offset ps)),
          lpFilters = filters, lpOffset = url_offset ps, lpPageSize = 10, lpCarried = set_filters filters\<rparr>)"

text \<open>The settings have no pages; what their list asks for.\<close>

definition settings_params :: "search_params \<Rightarrow> search_params" where
  "settings_params ps = set_filters [(''search'', readSearch (map_of ps ''search'')),
     (''overriddenOnly'', if map_of ps ''overriddenOnly'' = Some ''true'' then ''true'' else [])]"

text \<open>The panels of one account, its payouts, conversions and audit entries.\<close>

definition account_params :: "search_params \<Rightarrow> search_params" where
  "account_params extra = query_set ''limit'' (decimal 5) extra"

section \<open>What the API answered\<close>

text \<open>A list that streams into its panel: its rows and their number, a failure the panel shows, or an
  exception (no answer, or a body that is \<open>null\<close>).\<close>

datatype list_result = Listed "json option" "json option" | ListFailed | ListThrew

definition list_answer :: "json api_result \<Rightarrow> list_result" where
  "list_answer r = (case r of
     ApiThrew \<Rightarrow> ListThrew
   | ApiFailed _ \<Rightarrow> ListFailed
   | ApiOk body \<Rightarrow> if body = JNull then ListThrew else Listed (json_field body ''items'') (json_field body ''total''))"

definition load_list :: "'s web_ports \<Rightarrow> 's \<Rightarrow> session_cookie option \<Rightarrow> string option \<Rightarrow> list_page
    \<Rightarrow> 's \<times> session_cookie option \<times> list_result" where
  "load_list p s jar address pg =
     (case apiAuthedJson p s jar (lpPath pg @ ''?'' @ query_string (lpParams pg)) address of
        (s', jar', r) \<Rightarrow> (s', jar', list_answer r))"

definition load_settings :: "'s web_ports \<Rightarrow> 's \<Rightarrow> session_cookie option \<Rightarrow> string option \<Rightarrow> search_params
    \<Rightarrow> 's \<times> session_cookie option \<times> list_result" where
  "load_settings p s jar address ps =
     (let q = query_string (settings_params ps)
      in case apiAuthedJson p s jar (''/admin/configuration'' @ (if q = [] then [] else ''?'' @ q)) address of
        (s', jar', r) \<Rightarrow> (s', jar', list_answer r))"

definition load_recent :: "'s web_ports \<Rightarrow> 's \<Rightarrow> session_cookie option \<Rightarrow> string option
    \<Rightarrow> 's \<times> session_cookie option \<times> list_result" where
  "load_recent p s jar address = (case apiAuthedJson p s jar ''/rewards/history?limit=5'' address of
     (s', jar', r) \<Rightarrow> (s', jar', list_answer r))"

definition load_payouts :: "'s web_ports \<Rightarrow> 's \<Rightarrow> session_cookie option \<Rightarrow> string option
    \<Rightarrow> 's \<times> session_cookie option \<times> list_result" where
  "load_payouts p s jar address = (case apiAuthedJson p s jar ''/payouts?limit=25'' address of
     (s', jar', r) \<Rightarrow> (s', jar', list_answer r))"

text \<open>Calls a page awaits together: any that throws throws for the page. \<open>Shown None\<close> is a panel that
  could not be loaded.\<close>

datatype 'a page_load = Shown 'a | Answered page_outcome | PageThrew

definition panel :: "json api_result \<Rightarrow> json option" where
  "panel r = (case r of ApiOk body \<Rightarrow> Some body | _ \<Rightarrow> None)"

definition app_layout :: "json api_result \<Rightarrow> json api_result \<Rightarrow> json api_result \<Rightarrow> (json \<times> json option \<times> json option) page_load" where
  "app_layout me balance options' =
     (if ApiThrew \<in> {me, balance, options'} then PageThrew
      else case me of
        ApiOk profile \<Rightarrow> Shown (profile, panel balance, panel options')
      | _ \<Rightarrow> Answered (Redirect 303 ''/login''))"

definition account_page :: "json api_result \<Rightarrow> json api_result list \<Rightarrow> (json \<times> json option list) page_load" where
  "account_page account panels =
     (if ApiThrew \<in> set (account # panels) then PageThrew
      else case account of
        ApiOk a \<Rightarrow> Shown (a, map panel panels)
      | ApiFailed f \<Rightarrow> Answered (failedDetailLoad f
          ''That is not an account id. Check the value you pasted into the address bar.'' ''No account has that id.'')
      | ApiThrew \<Rightarrow> PageThrew)"

definition payout_page :: "json api_result \<Rightarrow> json page_load" where
  "payout_page payout = (case payout of
     ApiOk body \<Rightarrow> Shown body
   | ApiFailed f \<Rightarrow> Answered (failedDetailLoad f
       ''That is not a payout reference. Check the value you pasted into the address bar.'' ''No payout request has that reference.'')
   | ApiThrew \<Rightarrow> PageThrew)"

definition offer_page :: "string \<Rightarrow> json api_result \<Rightarrow> json page_load" where
  "offer_page offerId offer = (case offer of
     ApiOk body \<Rightarrow> Shown body
   | ApiFailed f \<Rightarrow> Answered (if afStatus f = 401 then Redirect 303 (''/login?next=/offers/'' @ offerId)
       else ErrorPage (if afStatus f = 404 then 404 else 502) (json_string (afMessage f)))
   | ApiThrew \<Rightarrow> PageThrew)"

text \<open>The providers' list awaits its two calls; the adapters are awaited by the page.\<close>

definition providers_panel :: "(json \<Rightarrow> sync_run_summary list) \<Rightarrow> json api_result \<Rightarrow> json api_result
    \<Rightarrow> (json option \<times> (id \<times> sync_run_summary) list) option page_load" where
  "providers_panel runs_of providers runs =
     (if ApiThrew \<in> {providers, runs} then PageThrew
      else case providers of
        ApiOk body \<Rightarrow> Shown (Some (json_field body ''items'',
          latestRunPerProvider (case panel runs of None \<Rightarrow> [] | Some b \<Rightarrow> runs_of b)))
      | _ \<Rightarrow> Shown None)"

text \<open>The verification link: \<open>None\<close> is the idle page.\<close>

definition verify_token :: "'s web_ports \<Rightarrow> 's \<Rightarrow> string option \<Rightarrow> string \<Rightarrow> 's \<times> bool page_load" where
  "verify_token p s address token =
     (case wpPublic p s ''/auth/verify-email'' (JObj [(''token'', JStr token)]) address of
        (s', None) \<Rightarrow> (s', PageThrew)
      | (s', Some r) \<Rightarrow> (s', Shown (response_ok r)))"

definition verify_page :: "'s web_ports \<Rightarrow> 's \<Rightarrow> string option \<Rightarrow> search_params \<Rightarrow> 's \<times> bool option page_load" where
  "verify_page p s address ps = (case truthy (map_of ps ''token'') of
     None \<Rightarrow> (s, Shown None)
   | Some token \<Rightarrow> (case verify_token p s address token of
       (s', Shown ok) \<Rightarrow> (s', Shown (Some ok))
     | (s', Answered out) \<Rightarrow> (s', Answered out)
     | (s', PageThrew) \<Rightarrow> (s', PageThrew)))"

definition verify_form :: "'s web_ports \<Rightarrow> 's \<Rightarrow> string option \<Rightarrow> form \<Rightarrow> 's \<times> bool page_load" where
  "verify_form p s address form = verify_token p s address (form_text form ''token'')"

section \<open>The pager\<close>

definition js_plus :: "js_number \<Rightarrow> rat \<Rightarrow> js_number" where
  "js_plus n k = (case n of Finite q \<Rightarrow> as_double (q + k) | Infinite neg \<Rightarrow> Infinite neg)"

definition js_less :: "js_number \<Rightarrow> js_number \<Rightarrow> bool" where
  "js_less a b = (case (a, b) of
     (Finite p, Finite q) \<Rightarrow> p < q
   | (Finite _, Infinite neg) \<Rightarrow> \<not> neg
   | (Infinite neg, Finite _) \<Rightarrow> neg
   | (Infinite n, Infinite m) \<Rightarrow> n \<and> \<not> m)"

definition linkTo :: "(rat \<Rightarrow> string) \<Rightarrow> string \<Rightarrow> search_params \<Rightarrow> js_number \<Rightarrow> string" where
  "linkTo exponential base query nextOffset =
     (let params = (if js_less (Finite 0) nextOffset then query_set ''offset'' (number_text exponential nextOffset) query
          else query_delete ''offset'' query)
      in if params = [] then base else base @ ''?'' @ query_string params)"

record pager_view =
  pvFirst :: js_number
  pvLast :: js_number
  pvPrevious :: "string option"
  pvNext :: "string option"

definition pager :: "(rat \<Rightarrow> string) \<Rightarrow> string \<Rightarrow> search_params \<Rightarrow> js_number \<Rightarrow> nat \<Rightarrow> rat \<Rightarrow> pager_view" where
  "pager exponential base query offset pageSize count =
     (let beyond = js_plus offset (of_nat pageSize); back = js_plus offset (- of_nat pageSize)
      in \<lparr>pvFirst = (if count = 0 then Finite 0 else js_plus offset 1),
          pvLast = (if js_less beyond (Finite count) then beyond else Finite count),
          pvPrevious = (if js_less (Finite 0) offset
            then Some (linkTo exponential base query (if js_less back (Finite 0) then Finite 0 else back)) else None),
          pvNext = (if js_less beyond (Finite count) then Some (linkTo exponential base query beyond) else None)\<rparr>)"

section \<open>Links and panels\<close>

definition queue_tabs :: "(string \<times> string) list" where
  "queue_tabs = ([], ''All'') # map (\<lambda>s. (payout_status_name s, fst (queueState s))) [PENDING_REVIEW, APPROVED, PAID, REJECTED, FAILED]"

definition tabHref :: "string \<Rightarrow> string" where
  "tabHref v = (if v \<noteq> [] then ''/admin/payouts?status='' @ v else ''/admin/payouts'')"

definition account_withdrawals_link :: "string \<Rightarrow> string" where
  "account_withdrawals_link accountId = ''/admin/payouts?status=&userId='' @ accountId"

definition account_held_link :: "string \<Rightarrow> string" where
  "account_held_link accountId = ''/admin/fraud?userId='' @ accountId"

text \<open>The part of a link after its first question mark.\<close>

definition link_query :: "string \<Rightarrow> string" where
  "link_query link = dropWhile (\<lambda>c. c \<noteq> CHR ''?'') link"

record nav_item =
  niHref :: string
  niLabel :: string
  niShortLabel :: string

definition PRIMARY :: "string \<times> nav_item list" where
  "PRIMARY = (''earn'', [\<lparr>niHref = ''/dashboard'', niLabel = ''Dashboard'', niShortLabel = ''Home''\<rparr>,
     \<lparr>niHref = ''/offers'', niLabel = ''Offers'', niShortLabel = ''Offers''\<rparr>])"

definition MONEY :: "string \<times> nav_item list" where
  "MONEY = (''money'', [\<lparr>niHref = ''/earnings'', niLabel = ''Earnings'', niShortLabel = ''Earnings''\<rparr>,
     \<lparr>niHref = ''/payouts'', niLabel = ''Payouts'', niShortLabel = ''Payouts''\<rparr>])"

definition ADMIN_GROUP :: "string \<times> nav_item list" where
  "ADMIN_GROUP = (''admin'', [\<lparr>niHref = ''/admin/payouts'', niLabel = ''Payout review'', niShortLabel = ''Admin''\<rparr>])"

definition navGroups :: "user_role \<Rightarrow> (string \<times> nav_item list) list" where
  "navGroups role = (if role = ROLE_ADMIN then [PRIMARY, MONEY, ADMIN_GROUP] else [PRIMARY, MONEY])"

definition navItems :: "user_role \<Rightarrow> nav_item list" where
  "navItems role = concat (map snd (navGroups role))"

definition isActive :: "string \<Rightarrow> string \<Rightarrow> bool" where
  "isActive pathname href \<longleftrightarrow> pathname = href \<or> starts_with pathname (href @ ''/'')"

text \<open>The earnings overview: the points held and the share of each bucket, in per cent.\<close>

definition overview_held :: "Rewards.balance option \<Rightarrow> int" where
  "overview_held b = (case b of None \<Rightarrow> 0 | Some x \<Rightarrow> available x + pending x + locked x)"

definition overview_share :: "Rewards.balance option \<Rightarrow> int \<Rightarrow> rat" where
  "overview_share b points = (if overview_held b > 0
     then double_of (double_of (of_int points / of_int (overview_held b)) * 100) else 0)"

text \<open>The withdrawal form: the bounds of its amount, and the method it preselects.\<close>

definition effectiveMax :: "payout_options option \<Rightarrow> Rewards.balance option \<Rightarrow> int" where
  "effectiveMax opts b = (case opts of
     None \<Rightarrow> 0
   | Some x \<Rightarrow> (case b of None \<Rightarrow> optMaximumPoints x | Some bal \<Rightarrow> min (optMaximumPoints x) (available bal)))"

definition belowMinimum :: "payout_options option \<Rightarrow> Rewards.balance option \<Rightarrow> bool" where
  "belowMinimum opts b = (case (opts, b) of (Some x, Some bal) \<Rightarrow> available bal < optMinimumPoints x | _ \<Rightarrow> False)"

definition preselected_method :: "string option \<Rightarrow> payout_options option \<Rightarrow> string" where
  "preselected_method submitted opts = (case truthy submitted of
     Some m \<Rightarrow> m
   | None \<Rightarrow> (case opts of None \<Rightarrow> [] | Some x \<Rightarrow> (case optMethods x of [] \<Rightarrow> [] | m # _ \<Rightarrow> m)))"

text \<open>The adapters that can still be registered.\<close>

definition registrable :: "(string \<times> string) list \<Rightarrow> string list \<Rightarrow> (string \<times> string) list" where
  "registrable adapters registeredSlugs = filter (\<lambda>(slug, _). slug \<notin> set registeredSlugs) adapters"

definition register_options :: "(string \<times> string) list \<Rightarrow> string list \<Rightarrow> (string \<times> string) list" where
  "register_options adapters registeredSlugs =
     map (\<lambda>(slug, displayName). (slug, displayName @ '' ('' @ slug @ '')'')) (registrable adapters registeredSlugs)"

text \<open>The form of one setting at a scope: the row stored there, the value in force, what the box shows.\<close>

definition storedHere :: "key_detail \<Rightarrow> config_scope \<Rightarrow> string \<Rightarrow> json option" where
  "storedHere d scope scopeId =
     map_option svValue (List.find (\<lambda>v. svScope v = scope \<and> svScopeId v = scopeId) (kvOverrides d))"

definition value_in_force :: "key_detail \<Rightarrow> config_scope \<Rightarrow> json" where
  "value_in_force d scope = (let effective = ksEffectiveValue (kvSummary d)
     in if scope \<noteq> PROVIDER then effective
        else case kvResolved d of
          None \<Rightarrow> effective
        | Some (_, v, _) \<Rightarrow> if v = JNull then effective else v)"

definition shown_source :: "key_detail \<Rightarrow> config_scope \<Rightarrow> shown_state" where
  "shown_source d scope = sourceState (case kvResolved d of
     Some (_, _, source) \<Rightarrow> if scope = PROVIDER then source else ksSource (kvSummary d)
   | None \<Rightarrow> ksSource (kvSummary d))"

definition shown_setting :: "(json \<Rightarrow> string) \<Rightarrow> (json \<Rightarrow> string) \<Rightarrow> key_detail \<Rightarrow> config_scope \<Rightarrow> string \<Rightarrow> string option \<Rightarrow> string" where
  "shown_setting stringify pretty d scope scopeId refused = (case truthy refused of
     Some text \<Rightarrow> text
   | None \<Rightarrow> toInputValue stringify pretty
       (Some (case storedHere d scope scopeId of
          None \<Rightarrow> value_in_force d scope
        | Some v \<Rightarrow> if v = JNull then value_in_force d scope else v))
       (ksValueType (kvSummary d)))"

end
