(* ===== verification/WebFormProps.thy ===== *)
theory WebFormProps
  imports WebForms PayoutProps
begin

text \<open>
  The pages against the API they talk to: what a page offers is compared with what the API
  permits, what it shows with what the API records, and what a form asserts with what it showed.
\<close>

section \<open>The version a setting form asserts\<close>

lemma find_map: "List.find p (map f xs) = map_option f (List.find (\<lambda>x. p (f x)) xs)"
  by (induction xs) auto

text \<open>When one element at most satisfies the test, where the search starts does not matter.\<close>

lemma find_unique:
  assumes "\<And>x y. x \<in> set xs \<Longrightarrow> y \<in> set xs \<Longrightarrow> p x \<Longrightarrow> p y \<Longrightarrow> x = y" and "set ys = set xs"
  shows "List.find p ys = List.find p xs"
proof (cases "List.find p xs")
  case None
  then show ?thesis using assms(2) by (metis find_None_iff)
next
  case (Some x)
  then have x: "x \<in> set xs" "p x" by (auto dest: find_SomeD)
  then obtain y where "List.find p ys = Some y"
    using assms(2) by (cases "List.find p ys") (auto simp: find_None_iff)
  moreover from this have "y \<in> set xs" "p y" using assms(2) by (auto dest: find_SomeD)
  ultimately show ?thesis using Some x assms(1) by auto
qed

definition one_row_per_entry :: "config_row list \<Rightarrow> bool" where
  "one_row_per_entry rows \<longleftrightarrow> distinct (map (\<lambda>r. (cwKey r, cwScope r, cwScopeId r)) rows)"

lemma same_entry:
  assumes "one_row_per_entry rows" and "a \<in> set rows" "b \<in> set rows"
    and "at_entry key scope scopeId a" "at_entry key scope scopeId b"
  shows "a = b"
  using assms by (auto simp: one_row_per_entry_def distinct_map inj_on_def at_entry_def)

lemma versionFor_stored:
  assumes "one_row_per_entry (dbRows db)" and "storedValues defs db key = Inr overrides"
  shows "versionFor overrides scopeId
    = map_option cwUpdatedAt (findStored (dbRows db) key (if scopeId = [] then GLOBAL else PROVIDER) scopeId)"
proof -
  let ?scope = "if scopeId = [] then GLOBAL else PROVIDER"
  let ?rows = "filter (\<lambda>r. cwKey r = key) (dbRows db)"
  have at: "at_entry key ?scope scopeId = (\<lambda>r. cwKey r = key \<and> cwScope r = ?scope \<and> cwScopeId r = scopeId)"
    by (simp add: at_entry_def fun_eq_iff)
  have "List.find (at_entry key ?scope scopeId) (sort_by stored_order ?rows) = List.find (at_entry key ?scope scopeId) ?rows"
    by (rule find_unique) (auto intro: same_entry [OF assms(1)])
  moreover have "List.find (\<lambda>r. cwScope r = ?scope \<and> cwScopeId r = scopeId) (sort_by stored_order ?rows)
      = List.find (at_entry key ?scope scopeId) (sort_by stored_order ?rows)"
    by (rule find_cong) (auto simp: at)
  moreover have "List.find (at_entry key ?scope scopeId) ?rows = findStored (dbRows db) key ?scope scopeId"
    unfolding findStored_def by (rule find_filter_other) (simp add: at)
  ultimately show ?thesis
    using assms(2) by (auto simp: versionFor_def storedValues_def find_map o_def option.map_comp split: sum.splits)
qed

text \<open>The configuration's own writes keep one row per entry.\<close>

lemma write_value_one_row:
  assumes "one_row_per_entry (dbRows db)" and "write_value db d key scope scopeId v opts now = (previous, db')"
  shows "one_row_per_entry (dbRows db')"
proof (cases "findStored (dbRows db) key scope scopeId")
  case None
  then have "(key, scope, scopeId) \<notin> set (map (\<lambda>r. (cwKey r, cwScope r, cwScopeId r)) (dbRows db))"
    by (auto simp: findStored_def find_None_iff at_entry_def)
  then show ?thesis using assms None by (auto simp: one_row_per_entry_def write_value_def Let_def)
next
  case (Some r)
  have "map (\<lambda>r. (cwKey r, cwScope r, cwScopeId r)) (dbRows db') = map (\<lambda>r. (cwKey r, cwScope r, cwScopeId r)) (dbRows db)"
    using assms(2) Some by (auto simp: write_value_def Let_def update_where_def at_entry_def)
  then show ?thesis using assms(1) by (simp add: one_row_per_entry_def)
qed

lemma execConfig_one_row:
  assumes "one_row_per_entry (dbRows db)" and "execConfig db x = Inr db'"
  shows "one_row_per_entry (dbRows db')"
proof (cases x)
  case (SetValue key v0 opts now)
  then obtain w where "set_configuration ALL_CONFIGURATION_KEYS db key v0 opts now = Inr (w, db')"
    using assms(2) by (auto simp: map_sum_def split: sum.splits)
  then show ?thesis by (rule set_configuration_Inr) (rule write_value_one_row [OF assms(1)])
next
  case (UnsetValue key opts now)
  then obtain w where "unset_configuration ALL_CONFIGURATION_KEYS db key opts now = Inr (w, db')"
    using assms(2) by (auto simp: map_sum_def split: sum.splits)
  then show ?thesis
    by (cases rule: unset_configuration_Inr) (use assms(1) in \<open>auto simp: one_row_per_entry_def distinct_map_filter\<close>)
qed

interpretation configuration_rows: guarded_system execConfig no_configuration "\<lambda>db. one_row_per_entry (dbRows db)"
proof
  show "one_row_per_entry (dbRows no_configuration)"
    by (simp add: one_row_per_entry_def no_configuration_def)
qed (rule execConfig_one_row)

text \<open>C26. A setting is saved over exactly what its page showed. The page loads the stored values
  after any run of writes and the form carries the version it shows in a hidden field; whatever the
  table holds when the form is posted, the posted version passes the API's staleness check if
  and only if the entry still carries the timestamp it had when the page was loaded, or is still
  absent.\<close>

theorem form_asserts_what_it_showed:
  assumes reached: "db = run_ops execConfig no_configuration ops"
    and loaded: "storedValues ALL_CONFIGURATION_KEYS db key = Inr overrides"
    and iso_round_trip: "\<And>t. fromText (isoText t) = Iso t" and iso_nonempty: "\<And>t. isoText t \<noteq> []"
  shows "assertNotStale rows_now key (if scopeId = [] then GLOBAL else PROVIDER) scopeId
      (Some (map_option fromText (versionFromField (versionToField isoText (versionFor overrides scopeId)))))
    = (if map_option cwUpdatedAt (findStored rows_now key (if scopeId = [] then GLOBAL else PROVIDER) scopeId)
         = map_option cwUpdatedAt (findStored (dbRows db) key (if scopeId = [] then GLOBAL else PROVIDER) scopeId)
       then Inr () else Inl (DomainError CONFIG_STALE_WRITE 409))"
proof -
  have "map_option fromText (versionFromField (versionToField isoText v)) = map_option Iso v" for v
    by (cases v) (simp_all add: versionToField_def versionFromField_def iso_round_trip iso_nonempty)
  moreover have "one_row_per_entry (dbRows db)"
    unfolding reached by (rule configuration_rows.inv_run)
  ultimately show ?thesis
    using versionFor_stored [OF _ loaded]
    by (auto simp: assertNotStale_def Let_def map_option_case split: option.splits)
qed

section \<open>Buttons and transitions\<close>

fun step_target :: "queue_step \<Rightarrow> payout_status" where
  "step_target Approve = APPROVED"
| "step_target Reject = REJECTED"
| "step_target Settle = PAID"
| "step_target Fail = FAILED"

text \<open>The payout queue offers exactly the actions that the API's state machine permits: the
  statuses its buttons lead to, in order, are the transitions of the current status.\<close>

theorem queue_actions_are_the_transitions:
  "map (step_target \<circ> qaAction) (actionsFor status) = PAYOUT_TRANSITIONS status"
  by (cases status) simp_all

text \<open>The account page offers every status the API accepts, and exactly one kind of button the
  API always refuses: a change of a closed account, which the API treats as final.\<close>

theorem closed_accounts_are_offered_changes:
  "(to \<in> set (statusChangesFor status) \<longleftrightarrow> canTransitionStatus status to \<or> status = CLOSED \<and> to \<noteq> CLOSED)
    \<and> \<not> canTransitionStatus CLOSED to"
  by (cases status; cases to) (simp_all add: statusChangesFor_def USER_STATUSES_IN_ORDER_def canTransitionStatus_def)

section \<open>What is shown\<close>

lemma code_unit_digit: "d < 10 \<Longrightarrow> code_unit (digit d) = 48 + d"
  by (simp add: code_unit_def digit_def)

lemma digit_facts: "d < 10 \<Longrightarrow> is_digit (digit d)" "d < 10 \<Longrightarrow> hex_value (digit d) = d"
  by (simp_all add: is_digit_def hex_value_def code_unit_digit)

lemma decimal_digits: "list_all is_digit (decimal n) \<and> decimal n \<noteq> []"
proof (induction n rule: decimal.induct)
  case (1 n)
  then show ?case by (subst (1 2) decimal.simps) (auto simp: digit_facts)
qed

lemma number_of_decimal: "number_of 10 (decimal n) = n"
proof (induction n rule: decimal.induct)
  case (1 n)
  then show ?case by (subst decimal.simps) (auto simp: number_of_def digit_facts)
qed

lemma filter_thousands: "list_all is_digit ds \<Longrightarrow> filter is_digit (thousands ds) = ds"
  by (induction ds rule: thousands.induct) (simp_all add: is_digit_def code_unit_def)

lemma set_thousands: "set (thousands ds) \<subseteq> insert (CHR '','') (set ds)"
  by (induction ds rule: thousands.induct) auto

lemma localeInteger_digits: "filter is_digit (localeInteger n) = decimal n"
  using filter_thousands [of "rev (decimal n)"] decimal_digits [of n]
  by (simp add: localeInteger_def flip: rev_filter)

lemma localeInteger_inject: "localeInteger m = localeInteger n \<longleftrightarrow> m = n"
  using localeInteger_digits number_of_decimal by metis

lemma localeInteger_unsigned: "CHR ''-'' \<notin> set (localeInteger n)" "CHR ''+'' \<notin> set (localeInteger n)"
proof -
  have "\<not> is_digit (CHR ''-'')" "\<not> is_digit (CHR ''+'')" by (simp_all add: is_digit_def code_unit_def)
  then show "CHR ''-'' \<notin> set (localeInteger n)" "CHR ''+'' \<notin> set (localeInteger n)"
    using decimal_digits [of n] set_thousands [of "rev (decimal n)"]
    by (auto simp: localeInteger_def list_all_iff)
qed

text \<open>No two amounts of points are shown alike: grouping and sign lose nothing.\<close>

theorem shown_points_are_exact:
  "formatPoints p withSign = formatPoints q withSign \<longleftrightarrow> p = q"
proof -
  have sign: "CHR ''-'' # localeInteger m \<noteq> localeInteger n" "CHR ''+'' # localeInteger m \<noteq> localeInteger n" for m n
    using localeInteger_unsigned [of n] by (metis list.set_intros(1))+
  show ?thesis
    by (auto simp: formatPoints_def Let_def localeInteger_inject sign sign [symmetric])
qed

text \<open>The withdrawal form quotes what the API records: for every withdrawal that is accepted, the
  cash shown for the amount at the current rate is the cash frozen on the request.\<close>

theorem quoted_cash_is_recorded:
  assumes "submit provider c s payoutId lockTxId now input = Inr (row, s')"
    and "0 < minimum_points c" and "0 < points_per_currency_unit c"
  shows "poCashAmountMinor row = cashMinorFor (poAmountPoints row) (points_per_currency_unit c)
    \<and> of_int (poAmountPoints row) = sbAmountPoints input"
proof -
  obtain m d where row: "submit_checks provider c s now input = Inr (m, d)"
      "of_int (poAmountPoints row) = sbAmountPoints input"
      "poCashAmountMinor row = toCashMinor (poAmountPoints row) (points_per_currency_unit c)"
    using submit_InrD [OF assms(1)] by blast
  then have "minimum_points c \<le> poAmountPoints row"
    using submit_checks_InrD(4) [OF row(1)] by (metis floor_of_int)
  then show ?thesis using row assms(2,3) by (simp add: cashMinorFor_def toCashMinor_def)
qed

lemma map_of_filter_other: "k \<noteq> j \<Longrightarrow> map_of (filter (\<lambda>e. fst e \<noteq> j) kvs) k = map_of kvs k"
  by (induction kvs) auto

lemma latestRun_first:
  "map_of (latestRunPerProvider runs) i = List.find (\<lambda>r. ssProviderId r = i) runs"
  by (induction runs) (auto simp: map_of_filter_other)

lemma find_sorted_wrt:
  assumes "sorted_wrt le xs" and "List.find p xs = Some x" and "y \<in> set xs" and "p y"
  shows "x = y \<or> le x y"
  using assms by (induction xs) (auto split: if_splits)

text \<open>The run shown beside a provider is its latest one in the list, and no provider with a run is
  left without: the first of a list that is newest first.\<close>

theorem latest_run_is_shown:
  assumes "sorted_wrt (\<lambda>a b. ssStartedAt b \<le> ssStartedAt a) runs" and "r \<in> set runs"
  shows "\<exists>latest. map_of (latestRunPerProvider runs) (ssProviderId r) = Some latest
    \<and> latest \<in> set runs \<and> ssProviderId latest = ssProviderId r \<and> ssStartedAt r \<le> ssStartedAt latest"
proof (cases "List.find (\<lambda>x. ssProviderId x = ssProviderId r) runs")
  case None
  then show ?thesis using assms(2) by (auto simp: find_None_iff)
next
  case (Some x)
  then show ?thesis
    using find_sorted_wrt [OF assms(1) Some assms(2)] by (auto simp: latestRun_first dest: find_SomeD)
qed

lemma failures_set_keys: "fst ` set (map_set k v m) = insert k (fst ` set m)"
  by (induction k v m rule: map_set.induct) auto

lemma foldl_map_set_keys:
  "fst ` set (foldl (\<lambda>m (name, message). map_set name message m) m kvs) = fst ` set m \<union> fst ` set kvs"
proof (induction kvs arbitrary: m)
  case (Cons kv kvs)
  obtain name message where kv: "kv = (name, message)" by force
  show ?case unfolding kv using Cons.IH [of "map_set name message m"] by (simp add: failures_set_keys)
qed simp

text \<open>A refused withdrawal is explained exactly once: above the form, or beside controls of the
  form, never both and never neither.\<close>

theorem refusal_is_explained_once:
  "(fst (withdraw_describe f) = None \<longleftrightarrow> snd (withdraw_describe f) \<noteq> [])
    \<and> fst ` set (snd (withdraw_describe f)) \<subseteq> set FORM_FIELDS"
proof -
  have "name \<in> set FORM_FIELDS" if "map_of FIELD_FOR_CODE c = Some name" for c name
    using map_of_SomeD [OF that] by (auto simp: FIELD_FOR_CODE_def FORM_FIELDS_def)
  then show ?thesis
    using foldl_map_set_keys [of "[]" "filter (\<lambda>(name, message). name \<in> set FORM_FIELDS) (failure_fields f)"]
    by (auto simp: withdraw_describe_def Let_def split: option.splits json.splits)
qed

section \<open>The claims at concrete inputs\<close>

definition demo_iso :: "millis \<Rightarrow> string" where
  "demo_iso t = CHR ''T'' # (if t < 0 then ''-'' else []) @ replicate (nat \<bar>t\<bar>) (CHR ''0'')"

definition demo_from :: "string \<Rightarrow> iso_text" where
  "demo_from s = (if take 1 (tl s) = ''-'' then Iso (2 - int (length s)) else Iso (int (length s) - 1))"

lemma demo_iso_round_trip: "demo_from (demo_iso t) = Iso t" "demo_iso t \<noteq> []"
  by (cases "nat \<bar>t\<bar>"; auto simp: demo_from_def demo_iso_def)+

lemma form_asserts_what_it_showed_witness:
  "\<exists>overrides. storedValues ALL_CONFIGURATION_KEYS (run_ops execConfig no_configuration []) ''fraud.enabled'' = Inr overrides
    \<and> assertNotStale [] ''fraud.enabled'' GLOBAL []
        (Some (map_option demo_from (versionFromField (versionToField demo_iso (versionFor overrides []))))) = Inr ()"
proof -
  obtain overrides where o: "storedValues ALL_CONFIGURATION_KEYS (run_ops execConfig no_configuration []) ''fraud.enabled'' = Inr overrides"
    by (simp add: storedValues_def fraud_enabled_defined requireDefinition_def)
  then show ?thesis
    using form_asserts_what_it_showed [OF refl o, of demo_from demo_iso "[]" "[]", OF demo_iso_round_trip]
    by (simp add: findStored_def no_configuration_def)
qed

definition demo_run :: "id \<Rightarrow> id \<Rightarrow> millis \<Rightarrow> sync_run_summary" where
  "demo_run i p t = \<lparr>ssId = i, ssProviderId = p, ssProviderSlug = ''mock'', ssMode = FULL, ssOutcome = RUNNING,
     ssStartedAt = t, ssFinishedAt = None, ssDurationMs = None, ssFetched = 0, ssAccepted = 0, ssRejected = 0,
     ssCreated = 0, ssUpdated = 0, ssDeactivated = 0, ssRejections = [], ssErrorSummary = None\<rparr>"

lemma latest_run_is_shown_witness:
  "\<exists>latest. map_of (latestRunPerProvider [demo_run 1 7 30, demo_run 2 8 20, demo_run 3 7 10]) 7 = Some latest
    \<and> ssStartedAt latest \<ge> 10"
  using latest_run_is_shown [of "[demo_run 1 7 30, demo_run 2 8 20, demo_run 3 7 10]" "demo_run 3 7 10"]
  by (auto simp: demo_run_def)

lemma quoted_cash_is_recorded_witness:
  "\<exists>p s'. submit ManualPayoutProvider default_payouts_config
      (run_payouts ManualPayoutProvider demo_payout_ops) 50 13 2 demo_withdrawal = Inr (p, s')
    \<and> poCashAmountMinor p = cashMinorFor (poAmountPoints p) 1000"
proof -
  obtain p s' where r: "submit ManualPayoutProvider default_payouts_config
      (run_payouts ManualPayoutProvider demo_payout_ops) 50 13 2 demo_withdrawal = Inr (p, s')"
    by (simp add: payout_eval reward_eval demo_strings)
  show ?thesis
    using quoted_cash_is_recorded [OF r] r by (auto simp: default_payouts_config_def)
qed

end
