(* ===== verification/Requests.thy ===== *)
theory Requests
  imports JsNumber
begin

text \<open>
  What a request body or query must look like: the DTO classes of \<^verbatim>\<open>apps/api\<close> and the
  validation pipe that applies them (\<^verbatim>\<open>core/errors/validation-pipe.ts\<close>:
  \<open>whitelist\<close>, \<open>forbidNonWhitelisted\<close>, \<open>transform\<close>). A DTO is the list of its
  properties, each with its transformation and its checks, in the order of the class. The library's
  own formats (email addresses, UUIDs, ISO 8601 dates) are arguments; the messages are not modelled,
  a refusal names the properties it is about.
\<close>

section \<open>Properties\<close>

datatype check = IsString | IsInt | IsBoolean | IsArray | IsDefined | IsEmail | IsUUID | IsISO8601
  | IsIn "string list" | MinLength nat | MaxLength nat | AtLeast int | AtMost int | ArrayMaxSize nat | EachString
  | Matches "string \<Rightarrow> bool"

datatype coercion = AsIs | Trimmed | TrimmedLower | TrimmedOrAbsent | ToNumber | ToBoolean | OnlyTrue

text \<open>\<open>ruOptional\<close>: the checks are skipped on \<open>undefined\<close> and \<open>null\<close>.\<close>

record property_rule =
  ruName :: string
  ruOptional :: bool
  ruCoercion :: coercion
  ruChecks :: "check list"

type_synonym dto = "property_rule list"

record formats =
  fmEmail :: "string \<Rightarrow> bool"
  fmUuid :: "string \<Rightarrow> bool"
  fmIso8601 :: "string \<Rightarrow> bool"

section \<open>Transformations\<close>

text \<open>\<open>Number(value)\<close>. What is no finite number becomes a text, which no numeric check accepts;
  an array is converted element by element and stays an array.\<close>

definition js_number_json :: "js_number option \<Rightarrow> json" where
  "js_number_json n = (case n of Some (Finite q) \<Rightarrow> JNum q | Some (Infinite _) \<Rightarrow> JStr ''Infinity'' | None \<Rightarrow> JStr ''NaN'')"

definition number_value :: "json \<Rightarrow> json" where
  "number_value j = (case j of
     JNull \<Rightarrow> JNull
   | JBool b \<Rightarrow> JNum (if b then 1 else 0)
   | JNum q \<Rightarrow> JNum q
   | JStr s \<Rightarrow> js_number_json (toNumber s)
   | JArr xs \<Rightarrow> JArr xs
   | JObj _ \<Rightarrow> JStr ''NaN'')"

definition on_text :: "(string \<Rightarrow> json option) \<Rightarrow> json \<Rightarrow> json option" where
  "on_text f j = (case j of JStr s \<Rightarrow> f s | _ \<Rightarrow> Some j)"

fun coerce :: "coercion \<Rightarrow> json \<Rightarrow> json option" where
  "coerce AsIs j = Some j"
| "coerce Trimmed j = on_text (\<lambda>s. Some (JStr (js_trim s))) j"
| "coerce TrimmedLower j = on_text (\<lambda>s. Some (JStr (js_lower (js_trim s)))) j"
| "coerce TrimmedOrAbsent j = on_text (\<lambda>s. if js_trim s = [] then None else Some (JStr (js_trim s))) j"
| "coerce ToNumber j = Some (number_value j)"
| "coerce ToBoolean j = on_text (\<lambda>s. Some (if s = ''true'' then JBool True else if s = ''false'' then JBool False else JStr s)) j"
| "coerce OnlyTrue j = Some (JBool (case j of JBool b \<Rightarrow> b | JStr s \<Rightarrow> s = ''true'' | _ \<Rightarrow> False))"

section \<open>Checks\<close>

definition text_check :: "(string \<Rightarrow> bool) \<Rightarrow> json \<Rightarrow> bool" where
  "text_check p j = (case j of JStr s \<Rightarrow> p s | _ \<Rightarrow> False)"

definition number_check :: "(rat \<Rightarrow> bool) \<Rightarrow> json \<Rightarrow> bool" where
  "number_check p j = (case j of JNum q \<Rightarrow> p q | _ \<Rightarrow> False)"

definition array_check :: "(json list \<Rightarrow> bool) \<Rightarrow> json \<Rightarrow> bool" where
  "array_check p j = (case j of JArr xs \<Rightarrow> p xs | _ \<Rightarrow> False)"

fun check_ok :: "formats \<Rightarrow> check \<Rightarrow> json \<Rightarrow> bool" where
  "check_ok fm IsString j = text_check (\<lambda>_. True) j"
| "check_ok fm IsInt j = number_check (\<lambda>q. of_int \<lfloor>q\<rfloor> = q) j"
| "check_ok fm IsBoolean j = (case j of JBool _ \<Rightarrow> True | _ \<Rightarrow> False)"
| "check_ok fm IsArray j = array_check (\<lambda>_. True) j"
| "check_ok fm IsDefined j = (j \<noteq> JNull)"
| "check_ok fm IsEmail j = text_check (fmEmail fm) j"
| "check_ok fm IsUUID j = text_check (fmUuid fm) j"
| "check_ok fm IsISO8601 j = text_check (fmIso8601 fm) j"
| "check_ok fm (IsIn names) j = text_check (\<lambda>s. s \<in> set names) j"
| "check_ok fm (MinLength n) j = text_check (\<lambda>s. n \<le> length s) j"
| "check_ok fm (MaxLength n) j = text_check (\<lambda>s. length s \<le> n) j"
| "check_ok fm (AtLeast n) j = number_check (\<lambda>q. of_int n \<le> q) j"
| "check_ok fm (AtMost n) j = number_check (\<lambda>q. q \<le> of_int n) j"
| "check_ok fm (ArrayMaxSize n) j = array_check (\<lambda>xs. length xs \<le> n) j"
| "check_ok fm EachString j = array_check (list_all (text_check (\<lambda>_. True))) j"
| "check_ok fm (Matches p) j = text_check p j"

definition rule_ok :: "formats \<Rightarrow> property_rule \<Rightarrow> json option \<Rightarrow> bool" where
  "rule_ok fm r j = (case j of
     None \<Rightarrow> ruOptional r
   | Some v \<Rightarrow> (ruOptional r \<and> v = JNull) \<or> list_all (\<lambda>c. check_ok fm c v) (ruChecks r))"

definition coerced :: "property_rule \<Rightarrow> (string \<times> json) list \<Rightarrow> json option" where
  "coerced r payload = Option.bind (map_of payload (ruName r)) (coerce (ruCoercion r))"

text \<open>Unknown properties are refused, not stripped; what passes is the transformed object.\<close>

definition validate :: "formats \<Rightarrow> dto \<Rightarrow> (string \<times> json) list \<Rightarrow> (string \<times> json) list result" where
  "validate fm d payload =
     (let unknown = filter (\<lambda>name. name \<notin> set (map ruName d)) (map fst payload);
          broken = map ruName (filter (\<lambda>r. \<not> rule_ok fm r (coerced r payload)) d)
      in if unknown @ broken \<noteq> [] then Inl (ValidationError (unknown @ broken))
         else Inr (List.map_filter (\<lambda>r. map_option (Pair (ruName r)) (coerced r payload)) d))"

definition required_rule :: "string \<Rightarrow> coercion \<Rightarrow> check list \<Rightarrow> property_rule" where
  "required_rule name c checks = \<lparr>ruName = name, ruOptional = False, ruCoercion = c, ruChecks = checks\<rparr>"

definition optional_rule :: "string \<Rightarrow> coercion \<Rightarrow> check list \<Rightarrow> property_rule" where
  "optional_rule name c checks = \<lparr>ruName = name, ruOptional = True, ruCoercion = c, ruChecks = checks\<rparr>"

section \<open>The DTO classes\<close>

definition ascii_letter :: "char \<Rightarrow> bool" where
  "ascii_letter c = (let n = code_unit c in 65 \<le> n \<and> n \<le> 90 \<or> 97 \<le> n \<and> n \<le> 122)"

definition limit_rule :: "int \<Rightarrow> property_rule" where
  "limit_rule most = optional_rule ''limit'' ToNumber [IsInt, AtLeast 1, AtMost most]"

definition offset_rule :: property_rule where
  "offset_rule = optional_rule ''offset'' ToNumber [IsInt, AtLeast 0]"

definition reason_rule :: property_rule where
  "reason_rule = required_rule ''reason'' Trimmed [IsString, MinLength 8, MaxLength 500]"

definition STATUSES :: "string list" where
  "STATUSES = [''ACTIVE'', ''SUSPENDED'', ''BANNED'', ''CLOSED'']"

definition ROLES :: "string list" where
  "ROLES = [''USER'', ''ADMIN'']"

definition UpdateUserStatusDto :: dto where
  "UpdateUserStatusDto = [required_rule ''status'' AsIs [IsIn STATUSES], reason_rule]"

definition UpdateUserRoleDto :: dto where
  "UpdateUserRoleDto = [required_rule ''role'' AsIs [IsIn ROLES], reason_rule]"

definition RevokeSessionsDto :: dto where
  "RevokeSessionsDto = [reason_rule]"

definition ListUsersDto :: dto where
  "ListUsersDto = [optional_rule ''status'' AsIs [IsIn STATUSES], optional_rule ''role'' AsIs [IsIn ROLES],
     optional_rule ''email'' Trimmed [IsString, MaxLength 320], limit_rule 100, offset_rule]"

definition ListAuditLogDto :: dto where
  "ListAuditLogDto = map (\<lambda>name. optional_rule name AsIs [IsString, MaxLength 64])
     [''action'', ''targetType'', ''targetId'', ''adminId''] @ [limit_rule 200, offset_rule]"

definition PAYOUT_STATUS_NAMES :: "string list" where
  "PAYOUT_STATUS_NAMES = [''PENDING_REVIEW'', ''APPROVED'', ''PAID'', ''REJECTED'', ''FAILED'']"

definition AdminListPayoutsDto :: dto where
  "AdminListPayoutsDto = [optional_rule ''status'' AsIs [IsIn PAYOUT_STATUS_NAMES],
     optional_rule ''userId'' AsIs [IsString, MaxLength 36], optional_rule ''method'' AsIs [IsString, MaxLength 32],
     limit_rule 100, offset_rule]"

definition ReviewPayoutDto :: dto where
  "ReviewPayoutDto = [optional_rule ''reason'' AsIs [IsString, MaxLength 500]]"

definition SettlePayoutDto :: dto where
  "SettlePayoutDto = [required_rule ''externalReference'' AsIs [IsString, MaxLength 200]]"

definition AdminListHeldConversionsDto :: dto where
  "AdminListHeldConversionsDto = [optional_rule ''userId'' AsIs [IsString, MaxLength 36], limit_rule 100, offset_rule]"

definition AdminListEvaluationsDto :: dto where
  "AdminListEvaluationsDto = AdminListHeldConversionsDto
     @ [optional_rule ''action'' AsIs [IsIn [''ALLOW'', ''HOLD'', ''REVIEW'', ''BLOCK'']]]"

definition ReviewHeldConversionDto :: dto where
  "ReviewHeldConversionDto = [required_rule ''decision'' AsIs [IsIn [''CLEAR'', ''CONFIRM'']],
     required_rule ''reason'' AsIs [IsString, MaxLength 500]]"

definition email_rule :: property_rule where
  "email_rule = required_rule ''email'' Trimmed [IsEmail, MaxLength 254]"

text \<open>The bounds of \<open>PASSWORD_POLICY\<close>.\<close>

definition new_password_checks :: "check list" where
  "new_password_checks = [IsString, MinLength 12, MaxLength 256]"

definition RegisterDto :: dto where
  "RegisterDto = [email_rule, required_rule ''password'' AsIs new_password_checks]"

definition LoginDto :: dto where
  "LoginDto = [email_rule, required_rule ''password'' AsIs [IsString, MinLength 1, MaxLength 256]]"

definition token_rule :: property_rule where
  "token_rule = required_rule ''token'' AsIs [IsString, MinLength 1, MaxLength 512]"

definition VerifyEmailDto :: dto where
  "VerifyEmailDto = [token_rule]"

definition ForgotPasswordDto :: dto where
  "ForgotPasswordDto = [email_rule]"

definition ResetPasswordDto :: dto where
  "ResetPasswordDto = [token_rule, required_rule ''password'' AsIs new_password_checks]"

definition CATEGORIES :: "string list" where
  "CATEGORIES = [''GAME'', ''SURVEY'', ''SIGNUP'', ''TRIAL'', ''SHOPPING'', ''APP_INSTALL'', ''VIDEO'', ''OTHER'']"

definition ListOffersDto :: dto where
  "ListOffersDto = [optional_rule ''providerId'' AsIs [IsUUID], optional_rule ''isActive'' ToBoolean [IsBoolean],
     optional_rule ''category'' AsIs [IsIn CATEGORIES], optional_rule ''country'' AsIs [IsString, MinLength 2, MaxLength 2],
     limit_rule 200, offset_rule]"

definition SetOfferActiveDto :: dto where
  "SetOfferActiveDto = [required_rule ''active'' AsIs [IsBoolean], reason_rule]"

definition ListSyncRunsDto :: dto where
  "ListSyncRunsDto = [optional_rule ''providerId'' AsIs [IsUUID],
     optional_rule ''outcome'' AsIs [IsIn [''RUNNING'', ''SUCCESS'', ''PARTIAL'', ''FAILED'']], limit_rule 100, offset_rule]"

definition TriggerSyncDto :: dto where
  "TriggerSyncDto = [required_rule ''mode'' AsIs [IsIn [''INCREMENTAL'', ''FULL'']]]"

definition scope_rules :: dto where
  "scope_rules = [optional_rule ''scope'' AsIs [IsIn [''GLOBAL'', ''PROVIDER'']], optional_rule ''scopeId'' AsIs [IsUUID]]"

definition AdminListConfigurationDto :: dto where
  "AdminListConfigurationDto = [optional_rule ''search'' AsIs [IsString, MaxLength 100],
     optional_rule ''overriddenOnly'' OnlyTrue [IsBoolean]]"

definition AdminConfigurationDetailDto :: dto where
  "AdminConfigurationDetailDto = [optional_rule ''scopeId'' AsIs [IsUUID]]"

definition config_reason_rule :: property_rule where
  "config_reason_rule = required_rule ''reason'' Trimmed [IsString, MinLength 3, MaxLength 500]"

definition SetConfigurationDto :: dto where
  "SetConfigurationDto = optional_rule ''expectedUpdatedAt'' AsIs [IsISO8601] # required_rule ''value'' AsIs [IsDefined]
     # scope_rules @ [config_reason_rule]"

definition ResetConfigurationDto :: dto where
  "ResetConfigurationDto = optional_rule ''expectedUpdatedAt'' AsIs [IsISO8601] # scope_rules @ [config_reason_rule]"

definition ConfigurationHistoryQueryDto :: dto where
  "ConfigurationHistoryQueryDto = scope_rules @ [limit_rule 200]"

definition interval_rule :: property_rule where
  "interval_rule = optional_rule ''syncIntervalMinutes'' ToNumber [IsInt]"

definition ip_ranges_rule :: property_rule where
  "ip_ranges_rule = optional_rule ''postbackIpRanges'' AsIs [IsArray, ArrayMaxSize 64, EachString]"

definition CreateProviderDto :: dto where
  "CreateProviderDto = [required_rule ''slug'' TrimmedLower [IsString, MinLength 2, MaxLength 32],
     required_rule ''displayName'' Trimmed [IsString, MinLength 1, MaxLength 100], interval_rule, ip_ranges_rule]"

definition UpdateProviderDto :: dto where
  "UpdateProviderDto = [optional_rule ''displayName'' Trimmed [IsString, MinLength 1, MaxLength 100], interval_rule, ip_ranges_rule]"

definition SetProviderEnabledDto :: dto where
  "SetProviderEnabledDto = [required_rule ''enabled'' AsIs [IsBoolean], reason_rule]"

definition ResetProviderHealthDto :: dto where
  "ResetProviderHealthDto = [reason_rule]"

definition ListProvidersDto :: dto where
  "ListProvidersDto = [optional_rule ''isEnabled'' ToBoolean [IsBoolean],
     optional_rule ''healthState'' AsIs [IsIn [''HEALTHY'', ''DEGRADED'', ''DOWN'']]]"

definition AdminListClicksDto :: dto where
  "AdminListClicksDto = [optional_rule ''userId'' AsIs [IsUUID], optional_rule ''offerId'' AsIs [IsUUID],
     optional_rule ''providerId'' AsIs [IsUUID], optional_rule ''subId'' AsIs [IsString, MaxLength 128],
     optional_rule ''ipAddress'' AsIs [IsString, MaxLength 64], limit_rule 100, offset_rule]"

definition AdminListPostbacksDto :: dto where
  "AdminListPostbacksDto = [optional_rule ''providerId'' AsIs [IsUUID],
     optional_rule ''state'' AsIs [IsIn [''RECEIVED'', ''PROCESSED'', ''QUARANTINED'', ''REJECTED'', ''FAILED'']],
     optional_rule ''externalTransactionId'' AsIs [IsString, MaxLength 255],
     optional_rule ''sourceIp'' AsIs [IsString, MaxLength 64], limit_rule 100, offset_rule]"

definition AdminListConversionsDto :: dto where
  "AdminListConversionsDto = [optional_rule ''userId'' AsIs [IsUUID], optional_rule ''clickId'' AsIs [IsUUID],
     optional_rule ''providerId'' AsIs [IsUUID], optional_rule ''offerId'' AsIs [IsUUID],
     optional_rule ''status'' AsIs [IsIn [''PENDING'', ''ATTRIBUTED'', ''CREDITED'', ''HELD'', ''REVERSED'', ''REJECTED'']],
     optional_rule ''type'' AsIs [IsIn [''CONVERSION'', ''REVERSAL'']],
     optional_rule ''externalTransactionId'' AsIs [IsString, MaxLength 255], limit_rule 100, offset_rule]"

definition ListWallOffersDto :: dto where
  "ListWallOffersDto = [optional_rule ''category'' AsIs [IsIn CATEGORIES],
     optional_rule ''search'' TrimmedOrAbsent [IsString, MaxLength 100],
     optional_rule ''minRewardPoints'' ToNumber [IsInt, AtLeast 0], optional_rule ''maxRewardPoints'' ToNumber [IsInt, AtLeast 0],
     optional_rule ''country'' AsIs [IsString, MinLength 2, MaxLength 2, Matches (list_all ascii_letter)],
     optional_rule ''device'' AsIs [IsString, MaxLength 32],
     optional_rule ''sort'' AsIs [IsIn [''reward_desc'', ''reward_asc'', ''newest'']], limit_rule 100, offset_rule]"

text \<open>\<open>/^[a-zA-Z]{2,8}(-[a-zA-Z0-9]{2,8})*$/\<close>\<close>

definition language_tag :: "string \<Rightarrow> bool" where
  "language_tag s = (case split_on CHR ''-'' s of
     [] \<Rightarrow> False
   | p # ps \<Rightarrow> (2 \<le> length p \<and> length p \<le> 8 \<and> list_all ascii_letter p)
       \<and> list_all (\<lambda>q. 2 \<le> length q \<and> length q \<le> 8 \<and> list_all (\<lambda>c. ascii_letter c \<or> is_digit c) q) ps)"

definition UpdateProfileDto :: dto where
  "UpdateProfileDto = [optional_rule ''locale'' AsIs [IsString, MaxLength 16, Matches language_tag]]"

definition ChangePasswordDto :: dto where
  "ChangePasswordDto = [required_rule ''currentPassword'' AsIs [IsString, MinLength 1, MaxLength 256],
     required_rule ''newPassword'' AsIs new_password_checks]"

definition CreatePayoutDto :: dto where
  "CreatePayoutDto = [required_rule ''amountPoints'' ToNumber [IsInt, AtLeast 1, AtMost 100000000],
     required_rule ''method'' AsIs [IsString, MaxLength 32], required_rule ''destination'' AsIs [IsString, MaxLength 200]]"

definition ListPayoutsDto :: dto where
  "ListPayoutsDto = [optional_rule ''status'' AsIs [IsIn PAYOUT_STATUS_NAMES], limit_rule 100, offset_rule]"

definition RewardHistoryDto :: dto where
  "RewardHistoryDto = [optional_rule ''type'' AsIs [IsIn [''CONVERSION_CREDIT'', ''CHARGEBACK_DEBIT'', ''REWARD_MATURATION'',
       ''PAYOUT_LOCK'', ''PAYOUT_SETTLE'', ''PAYOUT_REFUND'', ''MANUAL_ADJUSTMENT'', ''BONUS'']],
     optional_rule ''status'' AsIs [IsIn [''PENDING'', ''AVAILABLE'', ''CLEARED'', ''REVERSED'', ''IN_REVIEW'', ''PAID'',
       ''RETURNED'', ''ADJUSTED'']], limit_rule 100, offset_rule]"

definition CreateClickDto :: dto where
  "CreateClickDto = [required_rule ''offerId'' AsIs [IsUUID],
     optional_rule ''deviceFingerprint'' Trimmed [IsString, MinLength 8, MaxLength 128]]"

definition ListClicksDto :: dto where
  "ListClicksDto = [optional_rule ''offerId'' AsIs [IsUUID], optional_rule ''providerId'' AsIs [IsUUID], limit_rule 100, offset_rule]"

end
