(* ===== verification/RequestProps.thy ===== *)
theory RequestProps
  imports Requests
begin

text \<open>
  What a request that passes the validation pipe is known to be: nothing undeclared, every declared
  property as its checks say, reasons that explain, pages that are bounded.
\<close>

section \<open>Validation in general\<close>

lemma validate_InrD:
  assumes "validate fm d payload = Inr out"
  shows "fst ` set payload \<subseteq> set (map ruName d)"
    and "r \<in> set d \<Longrightarrow> rule_ok fm r (coerced r payload)"
    and "out = List.map_filter (\<lambda>r. map_option (Pair (ruName r)) (coerced r payload)) d"
  using assms by (auto simp: validate_def Let_def filter_empty_conv split: if_splits)

lemma validate_InrI:
  assumes "fst ` set payload \<subseteq> set (map ruName d)" and "\<And>r. r \<in> set d \<Longrightarrow> rule_ok fm r (coerced r payload)"
  shows "validate fm d payload = Inr (List.map_filter (\<lambda>r. map_option (Pair (ruName r)) (coerced r payload)) d)"
proof -
  have "filter (\<lambda>name. name \<notin> set (map ruName d)) (map fst payload) = []"
    using assms(1) by (auto simp: filter_empty_conv)
  moreover have "filter (\<lambda>r. \<not> rule_ok fm r (coerced r payload)) d = []"
    using assms(2) by (auto simp: filter_empty_conv)
  ultimately show ?thesis by (simp add: validate_def Let_def)
qed

lemma map_of_map_filter:
  assumes "distinct (map ruName d)" and "r \<in> set d"
  shows "map_of (List.map_filter (\<lambda>r. map_option (Pair (ruName r)) (f r)) d) (ruName r) = f r"
  using assms
proof (induction d)
  case (Cons a d)
  have other: "map_of (List.map_filter (\<lambda>r. map_option (Pair (ruName r)) (f r)) d) name = None"
    if "name \<notin> set (map ruName d)" for name
    using that by (induction d) (auto simp: List.map_filter_def split: option.splits)
  show ?case
  proof (cases "r = a")
    case True
    then show ?thesis
      using other [of "ruName a"] Cons.prems(1) by (cases "f a") (simp_all add: List.map_filter_simps)
  next
    case False
    then have r: "r \<in> set d" using Cons.prems(2) by simp
    then have "ruName r \<in> ruName ` set d" by (rule imageI)
    then have "ruName r \<noteq> ruName a" using Cons.prems(1) by auto
    with r show ?thesis
      using Cons.IH Cons.prems(1) by (cases "f a") (simp_all add: List.map_filter_simps)
  qed
qed simp

lemma validated_value:
  assumes "validate fm d payload = Inr out" and "distinct (map ruName d)" and "r \<in> set d"
  shows "map_of out (ruName r) = coerced r payload" and "rule_ok fm r (map_of out (ruName r))"
proof -
  show v: "map_of out (ruName r) = coerced r payload"
    unfolding validate_InrD(3) [OF assms(1)] by (rule map_of_map_filter [OF assms(2,3)])
  show "rule_ok fm r (map_of out (ruName r))"
    unfolding v using validate_InrD(2) [OF assms(1,3)] .
qed

text \<open>C00. A request that passes carries nothing that its DTO does not declare, and what the handler
  receives is, property by property, the transformed value, which satisfies every check of that
  property or is an optional one left out or \<open>null\<close>.\<close>

theorem accepted_requests_meet_their_rules:
  assumes "validate fm d payload = Inr out" and "distinct (map ruName d)"
  shows "fst ` set payload \<subseteq> set (map ruName d) \<and> fst ` set out \<subseteq> set (map ruName d)
    \<and> (\<forall>r \<in> set d. map_of out (ruName r) = coerced r payload
        \<and> (case map_of out (ruName r) of
             None \<Rightarrow> ruOptional r
           | Some v \<Rightarrow> ruOptional r \<and> v = JNull \<or> list_all (\<lambda>c. check_ok fm c v) (ruChecks r)))"
proof -
  have "fst ` set out \<subseteq> set (map ruName d)"
    unfolding validate_InrD(3) [OF assms(1)] by (auto simp: List.map_filter_def)
  then show ?thesis
    using validate_InrD(1) [OF assms(1)] validated_value [OF assms] by (auto simp: rule_ok_def)
qed

section \<open>Pages and reasons\<close>

lemmas rule_defs = required_rule_def optional_rule_def limit_rule_def offset_rule_def reason_rule_def email_rule_def
  token_rule_def config_reason_rule_def interval_rule_def ip_ranges_rule_def scope_rules_def

definition LIST_DTOS :: "dto list" where
  "LIST_DTOS = [ListUsersDto, ListAuditLogDto, AdminListPayoutsDto, AdminListHeldConversionsDto, AdminListEvaluationsDto,
     ListOffersDto, ListSyncRunsDto, ConfigurationHistoryQueryDto, AdminListClicksDto, AdminListPostbacksDto,
     AdminListConversionsDto, ListWallOffersDto, ListPayoutsDto, RewardHistoryDto, ListClicksDto]"

lemmas list_dto_defs = ListUsersDto_def ListAuditLogDto_def AdminListPayoutsDto_def AdminListHeldConversionsDto_def
  AdminListEvaluationsDto_def ListOffersDto_def ListSyncRunsDto_def ConfigurationHistoryQueryDto_def AdminListClicksDto_def
  AdminListPostbacksDto_def AdminListConversionsDto_def ListWallOffersDto_def ListPayoutsDto_def RewardHistoryDto_def
  ListClicksDto_def

lemma list_dtos_distinct: "d \<in> set LIST_DTOS \<Longrightarrow> distinct (map ruName d)"
  by (auto simp: LIST_DTOS_def list_dto_defs rule_defs)

lemma list_dtos_limited: "d \<in> set LIST_DTOS \<Longrightarrow> limit_rule 100 \<in> set d \<or> limit_rule 200 \<in> set d"
  by (auto simp: LIST_DTOS_def list_dto_defs)

lemma limit_rule_ok:
  assumes "rule_ok fm (limit_rule m) (Some v)" and "v \<noteq> JNull"
  shows "\<exists>n. v = JNum (of_int n) \<and> 1 \<le> n \<and> n \<le> m"
proof -
  obtain q where q: "v = JNum q" "of_int \<lfloor>q\<rfloor> = q" "1 \<le> q" "q \<le> of_int m"
    using assms by (cases v) (auto simp: rule_ok_def limit_rule_def optional_rule_def number_check_def)
  then have "1 \<le> \<lfloor>q\<rfloor>" "\<lfloor>q\<rfloor> \<le> m" by (auto simp: le_floor_iff floor_le_iff)
  with q(1,2) show ?thesis by metis
qed

text \<open>No page is unbounded: whatever the query of a list endpoint asks for, a limit that passes is
  a whole number between 1 and 200.\<close>

theorem pages_are_bounded:
  assumes "d \<in> set LIST_DTOS" and "validate fm d payload = Inr out"
    and "map_of out ''limit'' = Some v" and "v \<noteq> JNull"
  shows "\<exists>n. v = JNum (of_int n) \<and> 1 \<le> n \<and> n \<le> 200"
proof -
  have name: "ruName (limit_rule m) = ''limit''" for m by (simp add: rule_defs)
  obtain m where m: "limit_rule m \<in> set d" "m \<le> 200" using list_dtos_limited [OF assms(1)] by force
  have "rule_ok fm (limit_rule m) (Some v)"
    using validated_value(2) [OF assms(2) list_dtos_distinct [OF assms(1)] m(1)] assms(3) by (simp add: name)
  from limit_rule_ok [OF this assms(4)] m(2) show ?thesis by force
qed

definition EXPLAINED_DTOS :: "dto list" where
  "EXPLAINED_DTOS = [UpdateUserStatusDto, UpdateUserRoleDto, RevokeSessionsDto, SetOfferActiveDto, SetProviderEnabledDto,
     ResetProviderHealthDto]"

lemma explained_dtos: "d \<in> set EXPLAINED_DTOS \<Longrightarrow> distinct (map ruName d) \<and> reason_rule \<in> set d"
  by (auto simp: EXPLAINED_DTOS_def UpdateUserStatusDto_def UpdateUserRoleDto_def RevokeSessionsDto_def SetOfferActiveDto_def
      SetProviderEnabledDto_def ResetProviderHealthDto_def rule_defs)

text \<open>No change of an account, an offer or a provider goes unexplained: the reason that reaches
  the audit entry has at least 8 characters of its own, white space at its ends not counted, and at
  most 500.\<close>

theorem changes_are_explained:
  assumes "d \<in> set EXPLAINED_DTOS" and "validate fm d payload = Inr out"
  shows "\<exists>s. map_of out ''reason'' = Some (JStr s) \<and> js_trim s = s \<and> 8 \<le> length s \<and> length s \<le> 500
    \<and> map_of payload ''reason'' \<noteq> None"
proof -
  note d = explained_dtos [OF assms(1), THEN conjunct1] explained_dtos [OF assms(1), THEN conjunct2]
  have name: "ruName reason_rule = ''reason''" by (simp add: rule_defs)
  note v = validated_value [OF assms(2) d]
  then obtain j where j: "map_of out ''reason'' = Some j" "list_all (\<lambda>c. check_ok fm c j) (ruChecks reason_rule)"
    by (auto simp: name rule_ok_def reason_rule_def required_rule_def split: option.splits)
  then obtain s where s: "j = JStr s" "8 \<le> length s" "length s \<le> 500"
    by (cases j) (auto simp: reason_rule_def required_rule_def text_check_def)
  obtain raw where "map_of payload ''reason'' = Some raw" "coerce Trimmed raw = Some (JStr s)"
    using v(1) j(1) s(1)
    by (cases "map_of payload ''reason''") (auto simp: name coerced_def reason_rule_def required_rule_def)
  then have "js_trim s = s" by (cases raw) (auto simp: on_text_def)
  then show ?thesis using j(1) s \<open>map_of payload ''reason'' = Some raw\<close> by auto
qed

section \<open>The claims at concrete inputs\<close>

definition demo_formats :: formats where
  "demo_formats = \<lparr>fmEmail = (\<lambda>s. CHR ''@'' \<in> set s), fmUuid = (\<lambda>s. s \<noteq> []), fmIso8601 = (\<lambda>s. s \<noteq> [])\<rparr>"

lemma demo_revoke: "validate demo_formats RevokeSessionsDto [(''reason'', JStr ''  lost laptop '')] = Inr [(''reason'', JStr ''lost laptop'')]"
  by code_simp

lemma accepted_requests_meet_their_rules_witness:
  "fst ` set [(''reason'', JStr ''lost laptop'')] \<subseteq> set (map ruName RevokeSessionsDto)"
  using accepted_requests_meet_their_rules [OF demo_revoke] by (simp add: RevokeSessionsDto_def)

lemma changes_are_explained_witness:
  "RevokeSessionsDto \<in> set EXPLAINED_DTOS \<and> (\<exists>s. map_of [(''reason'', JStr ''lost laptop'')] ''reason'' = Some (JStr s) \<and> 8 \<le> length s)"
  using changes_are_explained [OF _ demo_revoke] by (auto simp: EXPLAINED_DTOS_def)

lemma demo_page: "validate demo_formats ListPayoutsDto [(''limit'', JNum 25)] = Inr [(''limit'', JNum 25)]"
  by code_simp

lemma pages_are_bounded_witness: "\<exists>n. JNum 25 = JNum (of_int n) \<and> 1 \<le> n \<and> n \<le> (200::int)"
  using pages_are_bounded [OF _ demo_page, of "JNum 25"] by (simp add: LIST_DTOS_def)

end
