(* ===== verification/Routes.thy ===== *)
theory Routes
  imports AuthFlows RequestProps
begin

text \<open>
  The API's surface: every route of the controllers of \<^verbatim>\<open>apps/api\<close>, with the access its
  decorators declare (\<open>@Public\<close>, \<open>@Roles\<close>, neither) and the DTO of its body or query, and
  what a request passes before its handler runs: the guards, the path's UUID pipes, the validation
  pipe. A path is the list of its segments. How the router compares a segment with a literal is an
  argument; among the routes that match, the first declared answers.
\<close>

section \<open>Routes\<close>

datatype http_method = GET | POST | PUT | PATCH

datatype segment = Lit string | UuidParam | TextParam

datatype access = PublicRoute | SignedIn | RolesRoute "user_role list"

datatype payload_kind = NoDto | BodyDto dto | QueryDto dto

record route =
  rtMethod :: http_method
  rtPattern :: "segment list"
  rtAccess :: access
  rtPayload :: payload_kind

definition route_at :: "access \<Rightarrow> segment list \<Rightarrow> http_method \<Rightarrow> segment list \<Rightarrow> payload_kind \<Rightarrow> route" where
  "route_at acc prefix m path p = \<lparr>rtMethod = m, rtPattern = prefix @ path, rtAccess = acc, rtPayload = p\<rparr>"

definition admin_route :: "string list \<Rightarrow> http_method \<Rightarrow> segment list \<Rightarrow> payload_kind \<Rightarrow> route" where
  "admin_route prefix = route_at (RolesRoute [ROLE_ADMIN]) (map Lit prefix)"

definition AdminController :: "route list" where
  "AdminController = (let r = admin_route [''admin''] in
     [r GET [Lit ''users''] (QueryDto ListUsersDto),
      r GET [Lit ''users'', UuidParam] NoDto,
      r GET [Lit ''users'', UuidParam, Lit ''balance''] NoDto,
      r PATCH [Lit ''users'', UuidParam, Lit ''status''] (BodyDto UpdateUserStatusDto),
      r PATCH [Lit ''users'', UuidParam, Lit ''role''] (BodyDto UpdateUserRoleDto),
      r POST [Lit ''users'', UuidParam, Lit ''revoke-sessions''] (BodyDto RevokeSessionsDto),
      r GET [Lit ''audit-log''] (QueryDto ListAuditLogDto)])"

definition AdminConfigurationController :: "route list" where
  "AdminConfigurationController = (let r = admin_route [''admin'', ''configuration''] in
     [r GET [] (QueryDto AdminListConfigurationDto),
      r GET [TextParam] (QueryDto AdminConfigurationDetailDto),
      r GET [TextParam, Lit ''history''] (QueryDto ConfigurationHistoryQueryDto),
      r PUT [TextParam] (BodyDto SetConfigurationDto),
      r POST [TextParam, Lit ''reset''] (BodyDto ResetConfigurationDto)])"

definition AdminCatalogController :: "route list" where
  "AdminCatalogController = (let r = admin_route [''admin'', ''catalog''] in
     [r GET [Lit ''offers''] (QueryDto ListOffersDto),
      r GET [Lit ''sync-runs''] (QueryDto ListSyncRunsDto),
      r GET [Lit ''offers'', UuidParam] NoDto,
      r PATCH [Lit ''offers'', UuidParam, Lit ''active''] (BodyDto SetOfferActiveDto),
      r POST [Lit ''providers'', UuidParam, Lit ''sync''] (BodyDto TriggerSyncDto)])"

definition AdminProvidersController :: "route list" where
  "AdminProvidersController = (let r = admin_route [''admin'', ''providers''] in
     [r GET [] (QueryDto ListProvidersDto),
      r GET [Lit ''adapters''] NoDto,
      r GET [UuidParam] NoDto,
      r POST [] (BodyDto CreateProviderDto),
      r PATCH [UuidParam] (BodyDto UpdateProviderDto),
      r PATCH [UuidParam, Lit ''enabled''] (BodyDto SetProviderEnabledDto),
      r POST [UuidParam, Lit ''health'', Lit ''reset''] (BodyDto ResetProviderHealthDto)])"

definition AdminConversionsController :: "route list" where
  "AdminConversionsController = (let r = admin_route [''admin'', ''conversions''] in
     [r GET [] (QueryDto AdminListConversionsDto), r GET [UuidParam] NoDto])"

definition AdminPostbacksController :: "route list" where
  "AdminPostbacksController = (let r = admin_route [''admin'', ''postbacks''] in
     [r GET [] (QueryDto AdminListPostbacksDto), r GET [UuidParam] NoDto])"

definition AdminFraudController :: "route list" where
  "AdminFraudController = (let r = admin_route [''admin'', ''fraud''] in
     [r GET [Lit ''held''] (QueryDto AdminListHeldConversionsDto),
      r POST [Lit ''held'', UuidParam, Lit ''review''] (BodyDto ReviewHeldConversionDto),
      r GET [Lit ''evaluations''] (QueryDto AdminListEvaluationsDto),
      r GET [Lit ''evaluations'', UuidParam] NoDto,
      r GET [Lit ''users'', UuidParam, Lit ''signals''] NoDto])"

definition AdminClicksController :: "route list" where
  "AdminClicksController = (let r = admin_route [''admin'', ''clicks''] in
     [r GET [] (QueryDto AdminListClicksDto), r GET [UuidParam] NoDto])"

definition AdminPayoutsController :: "route list" where
  "AdminPayoutsController = (let r = admin_route [''admin'', ''payouts''] in
     [r GET [] (QueryDto AdminListPayoutsDto),
      r GET [UuidParam] NoDto,
      r POST [UuidParam, Lit ''approve''] (BodyDto ReviewPayoutDto),
      r POST [UuidParam, Lit ''settle''] (BodyDto SettlePayoutDto),
      r POST [UuidParam, Lit ''reject''] (BodyDto ReviewPayoutDto),
      r POST [UuidParam, Lit ''fail''] (BodyDto ReviewPayoutDto)])"

definition UsersController :: "route list" where
  "UsersController = (let r = route_at SignedIn [Lit ''users''] in
     [r GET [Lit ''me''] NoDto,
      r PATCH [Lit ''me''] (BodyDto UpdateProfileDto),
      r POST [Lit ''me'', Lit ''password''] (BodyDto ChangePasswordDto)])"

definition AuthControllerRoutes :: "route list" where
  "AuthControllerRoutes = (let r = route_at PublicRoute [Lit ''auth''] in
     [r POST [Lit ''register''] (BodyDto RegisterDto),
      r POST [Lit ''login''] (BodyDto LoginDto),
      r POST [Lit ''verify-email''] (BodyDto VerifyEmailDto),
      r POST [Lit ''forgot-password''] (BodyDto ForgotPasswordDto),
      r POST [Lit ''reset-password''] (BodyDto ResetPasswordDto),
      r POST [Lit ''refresh''] NoDto,
      r POST [Lit ''logout''] NoDto])"

definition OffersController :: "route list" where
  "OffersController = (let r = route_at SignedIn [Lit ''offers''] in
     [r GET [] (QueryDto ListWallOffersDto), r GET [UuidParam] NoDto])"

definition RewardsController :: "route list" where
  "RewardsController = (let r = route_at SignedIn [Lit ''rewards''] in
     [r GET [Lit ''balance''] NoDto, r GET [Lit ''history''] (QueryDto RewardHistoryDto)])"

definition ClicksController :: "route list" where
  "ClicksController = (let r = route_at SignedIn [Lit ''clicks''] in
     [r POST [] (BodyDto CreateClickDto), r GET [Lit ''me''] (QueryDto ListClicksDto)])"

definition PayoutsController :: "route list" where
  "PayoutsController = (let r = route_at SignedIn [Lit ''payouts''] in
     [r GET [Lit ''options''] NoDto, r POST [] (BodyDto CreatePayoutDto), r GET [] (QueryDto ListPayoutsDto)])"

definition PostbacksController :: "route list" where
  "PostbacksController = (let r = route_at PublicRoute [Lit ''postback''] in
     [r GET [TextParam] NoDto, r POST [TextParam] NoDto])"

definition HealthController :: "route list" where
  "HealthController = (let r = route_at PublicRoute [Lit ''health''] in [r GET [] NoDto, r GET [Lit ''ready''] NoDto])"

definition ROUTES :: "route list" where
  "ROUTES = AuthControllerRoutes @ UsersController @ OffersController @ ClicksController @ RewardsController
     @ PayoutsController @ PostbacksController @ HealthController @ AdminController @ AdminConfigurationController
     @ AdminCatalogController @ AdminProvidersController @ AdminConversionsController @ AdminPostbacksController
     @ AdminFraudController @ AdminClicksController @ AdminPayoutsController"

section \<open>A request on its way to the handler\<close>

fun segment_matches :: "(string \<Rightarrow> string \<Rightarrow> bool) \<Rightarrow> segment \<Rightarrow> string \<Rightarrow> bool" where
  "segment_matches same (Lit l) s = same l s"
| "segment_matches same _ s = (s \<noteq> [])"

definition find_route :: "(string \<Rightarrow> string \<Rightarrow> bool) \<Rightarrow> http_method \<Rightarrow> string list \<Rightarrow> route option" where
  "find_route same m path =
     List.find (\<lambda>r. rtMethod r = m \<and> list_all2 (segment_matches same) (rtPattern r) path) ROUTES"

text \<open>\<open>createUuidPipe\<close>: status 422, and no field is named.\<close>

definition check_params :: "formats \<Rightarrow> route \<Rightarrow> string list \<Rightarrow> unit result" where
  "check_params fm r path =
     (if list_all2 (\<lambda>seg s. seg = UuidParam \<longrightarrow> fmUuid fm s) (rtPattern r) path then Inr () else Inl (ValidationError []))"

definition route_roles :: "route \<Rightarrow> user_role list option" where
  "route_roles r = (case rtAccess r of RolesRoute rs \<Rightarrow> Some rs | _ \<Rightarrow> None)"

definition check_payload :: "formats \<Rightarrow> route \<Rightarrow> (string \<times> json) list \<Rightarrow> (string \<times> json) list \<Rightarrow> (string \<times> json) list result" where
  "check_payload fm r query body = (case rtPayload r of
     NoDto \<Rightarrow> Inr [] | BodyDto d \<Rightarrow> validate fm d body | QueryDto d \<Rightarrow> validate fm d query)"

definition admit :: "formats \<Rightarrow> (string \<Rightarrow> (id \<times> user_role) option) \<Rightarrow> user list \<Rightarrow> route \<Rightarrow> string option \<Rightarrow> string list
    \<Rightarrow> (string \<times> json) list \<Rightarrow> (string \<times> json) list \<Rightarrow> (principal option \<times> (string \<times> json) list) result" where
  "admit fm verifyJwt users r header path query body =
     (case guard_request verifyJwt users (rtAccess r = PublicRoute) (route_roles r) header of
        Inl e \<Rightarrow> Inl e
      | Inr who \<Rightarrow> (case check_params fm r path of
          Inl e \<Rightarrow> Inl e
        | Inr _ \<Rightarrow> (case check_payload fm r query body of Inl e \<Rightarrow> Inl e | Inr args \<Rightarrow> Inr (who, args))))"

section \<open>What reaches a handler\<close>

lemmas controller_defs = AuthControllerRoutes_def UsersController_def OffersController_def ClicksController_def
  RewardsController_def PayoutsController_def PostbacksController_def HealthController_def AdminController_def
  AdminConfigurationController_def AdminCatalogController_def AdminProvidersController_def AdminConversionsController_def
  AdminPostbacksController_def AdminFraudController_def AdminClicksController_def AdminPayoutsController_def

definition route_under :: "string \<Rightarrow> access \<Rightarrow> route \<Rightarrow> bool" where
  "route_under p acc r \<longleftrightarrow> rtPattern r \<noteq> [] \<and> hd (rtPattern r) = Lit p \<and> rtAccess r = acc"

lemma under_route_at [simp]: "route_under p acc (route_at acc [Lit p] m path k)"
  by (simp add: route_under_def route_at_def)

lemma under_admin_route [simp]: "route_under p (RolesRoute [ROLE_ADMIN]) (admin_route (p # ps) m path k)"
  by (simp add: route_under_def admin_route_def route_at_def)

lemma routes_under_prefixes:
  "list_all (route_under ''auth'' PublicRoute) AuthControllerRoutes" "list_all (route_under ''users'' SignedIn) UsersController"
  "list_all (route_under ''offers'' SignedIn) OffersController" "list_all (route_under ''clicks'' SignedIn) ClicksController"
  "list_all (route_under ''rewards'' SignedIn) RewardsController" "list_all (route_under ''payouts'' SignedIn) PayoutsController"
  "list_all (route_under ''postback'' PublicRoute) PostbacksController" "list_all (route_under ''health'' PublicRoute) HealthController"
  "list_all (route_under ''admin'' (RolesRoute [ROLE_ADMIN])) (AdminController @ AdminConfigurationController @ AdminCatalogController
     @ AdminProvidersController @ AdminConversionsController @ AdminPostbacksController @ AdminFraudController
     @ AdminClicksController @ AdminPayoutsController)"
  by (simp_all add: controller_defs Let_def)

lemma route_access_by_prefix:
  assumes "r \<in> set ROUTES"
  shows "rtPattern r \<noteq> []
    \<and> rtAccess r = (if hd (rtPattern r) = Lit ''admin'' then RolesRoute [ROLE_ADMIN]
        else if hd (rtPattern r) \<in> {Lit ''auth'', Lit ''postback'', Lit ''health''} then PublicRoute else SignedIn)"
proof -
  have "route_under ''admin'' (RolesRoute [ROLE_ADMIN]) r
      \<or> (\<exists>p \<in> {''auth'', ''postback'', ''health''}. route_under p PublicRoute r)
      \<or> (\<exists>p \<in> {''users'', ''offers'', ''clicks'', ''rewards'', ''payouts''}. route_under p SignedIn r)"
    using assms routes_under_prefixes unfolding ROUTES_def list_all_iff by fastforce
  then show ?thesis by (auto simp: route_under_def)
qed

lemma guard_request_Inr:
  assumes "guard_request verifyJwt users False required header = Inr who"
  obtains p u token role where "who = Some p" "extractBearerToken header = Some token" "verifyJwt token = Some (usId u, role)"
    "u \<in> set users" "ppId p = usId u" "isActiveUser u" "ppRole p = usRole u"
    "\<And>rs. required = Some rs \<Longrightarrow> rs \<noteq> [] \<Longrightarrow> usRole u \<in> set rs"
proof -
  obtain token sub role u where t: "extractBearerToken header = Some token" "verifyJwt token = Some (sub, role)"
      "findUser users sub = Some u" "isActiveUser u"
      "who = Some \<lparr>ppId = usId u, ppEmail = usEmail u, ppRole = usRole u, ppStatus = usStatus u\<rparr>"
      "roles_guard required who = Inr ()"
    using assms by (auto simp: guard_request_def jwt_guard_def split: sum.splits option.splits if_splits)
  have "u \<in> set users" "usId u = sub" using t(3) by (auto simp: findUser_def dest: find_SomeD)
  moreover have "usRole u \<in> set rs" if "required = Some rs" "rs \<noteq> []" for rs
    using t(5,6) that by (cases rs) (auto simp: roles_guard_def split: if_splits)
  ultimately show thesis using t by (intro that) auto
qed

text \<open>C00. Nobody gets past the door who should not: a request that reaches the handler of a route
  outside the public ones (sign-in, postbacks, health) carries a token that verifies for an account
  which is active now, and every route under \<^verbatim>\<open>/admin\<close> is reached by administrators only, as the
  account stands now and whatever role the token was issued with.\<close>

theorem handlers_see_live_accounts:
  assumes "find_route same m path = Some r"
    and "admit fm verifyJwt users r header path query body = Inr (who, args)"
    and "hd (rtPattern r) \<notin> {Lit ''auth'', Lit ''postback'', Lit ''health''}"
  shows "\<exists>p u token role. who = Some p \<and> u \<in> set users \<and> ppId p = usId u \<and> isActiveUser u
    \<and> extractBearerToken header = Some token \<and> verifyJwt token = Some (usId u, role)
    \<and> (hd (rtPattern r) = Lit ''admin'' \<longrightarrow> usRole u = ROLE_ADMIN)"
proof -
  have r: "r \<in> set ROUTES" using assms(1) by (auto simp: find_route_def dest: find_SomeD)
  have acc: "rtAccess r = (if hd (rtPattern r) = Lit ''admin'' then RolesRoute [ROLE_ADMIN] else SignedIn)"
    using route_access_by_prefix [OF r] assms(3) by auto
  then have "guard_request verifyJwt users False (route_roles r) header = Inr who"
    using assms(2) by (auto simp: admit_def split: sum.splits if_splits)
  then show ?thesis
  proof (rule guard_request_Inr)
    fix p u token role
    assume "who = Some p" "extractBearerToken header = Some token" "verifyJwt token = Some (usId u, role)"
      "u \<in> set users" "ppId p = usId u" "isActiveUser u"
      and role: "\<And>rs. route_roles r = Some rs \<Longrightarrow> rs \<noteq> [] \<Longrightarrow> usRole u \<in> set rs"
    moreover have "usRole u = ROLE_ADMIN" if "hd (rtPattern r) = Lit ''admin''"
      using role [of "[ROLE_ADMIN]"] acc that by (simp add: route_roles_def)
    ultimately show ?thesis by blast
  qed
qed

text \<open>A public route asks nobody who they are: its guards admit every request, with or without a
  token, and as nobody; such routes exist for signing in, for postbacks and for health only.\<close>

theorem public_routes_are_anonymous:
  assumes "r \<in> set ROUTES"
  shows "(rtAccess r = PublicRoute \<longleftrightarrow> hd (rtPattern r) \<in> {Lit ''auth'', Lit ''postback'', Lit ''health''})
    \<and> (rtAccess r = PublicRoute \<longrightarrow> guard_request verifyJwt users True (route_roles r) header = Inr None)"
  using route_access_by_prefix [OF assms] by (auto simp: guard_request_def jwt_guard_def roles_guard_def route_roles_def)

section \<open>The claims at concrete inputs\<close>

definition demo_admin :: user where
  "demo_admin = \<lparr>usId = 9, usEmail = ''a@x.example'', usPasswordHash = ''h'', usRole = ROLE_ADMIN, usStatus = ACTIVE,
     usEmailVerifiedAt = None, usRegistrationIp = None, usRegistrationCountry = None, usLocale = ''en'', usCreatedAt = 0,
     usUpdatedAt = 0\<rparr>"

definition demo_verify :: "string \<Rightarrow> (id \<times> user_role) option" where
  "demo_verify token = (if token = ''k'' then Some (9, ROLE_USER) else None)"

lemma handlers_see_live_accounts_witness:
  "\<exists>r. find_route (=) GET [''admin'', ''users'', ''7'', ''balance''] = Some r
    \<and> (\<exists>p. admit demo_formats demo_verify [demo_admin] r (Some ''Bearer k'') [''admin'', ''users'', ''7'', ''balance''] [] []
        = Inr (Some p, []) \<and> ppRole p = ROLE_ADMIN \<and> ppId p = 9)"
proof -
  let ?path = "[''admin'', ''users'', ''7'', ''balance'']"
  define r where "r = admin_route [''admin''] GET [Lit ''users'', UuidParam, Lit ''balance''] NoDto"
  have f: "find_route (=) GET ?path = Some r"
    by (simp add: r_def find_route_def ROUTES_def controller_defs admin_route_def route_at_def)
  have b: "extractBearerToken (Some ''Bearer k'') = Some ''k''" by code_simp
  obtain p where a: "admit demo_formats demo_verify [demo_admin] r (Some ''Bearer k'') ?path [] [] = Inr (Some p, [])"
      "ppRole p = ROLE_ADMIN"
    by (simp add: r_def admit_def guard_request_def jwt_guard_def roles_guard_def route_roles_def admin_route_def route_at_def b
        demo_verify_def demo_admin_def findUser_def isActiveUser_def check_params_def check_payload_def demo_formats_def)
  have "hd (rtPattern r) \<notin> {Lit ''auth'', Lit ''postback'', Lit ''health''}"
    by (simp add: r_def admin_route_def route_at_def)
  from handlers_see_live_accounts [OF f a(1) this] have "ppId p = 9" by (auto simp: demo_admin_def)
  with f a show ?thesis by blast
qed

lemma public_routes_are_anonymous_witness:
  "guard_request demo_verify [demo_admin] True (route_roles (hd ROUTES)) None = Inr None"
proof -
  have "hd ROUTES \<in> set ROUTES" "rtAccess (hd ROUTES) = PublicRoute"
    by (simp_all add: ROUTES_def AuthControllerRoutes_def route_at_def Let_def)
  then show ?thesis using public_routes_are_anonymous by blast
qed

end
