(* ===== verification/WebContract.thy ===== *)
theory WebContract
  imports WebFormProps Routes
begin

text \<open>
  The bodies the web forms send, against the DTOs the API holds them to: nothing a form sends is
  refused as undeclared, and what decides is exactly what was typed.
\<close>

lemma validate_accepts:
  "(\<exists>out. validate fm d payload = Inr out)
    \<longleftrightarrow> fst ` set payload \<subseteq> set (map ruName d) \<and> (\<forall>r\<in>set d. rule_ok fm r (coerced r payload))"
  using validate_InrD [of fm d payload] validate_InrI [of payload d fm] by blast

lemma form_reason_trimmed [simp]: "js_trim (form_reason form) = form_reason form"
  by (simp add: form_reason_def)

lemmas payload_simps = coerced_def rule_ok_def on_text_def text_check_def number_check_def scopeFrom_def version_json_def
  versionFromField_def json_text_def Let_def

text \<open>C00. A setting's form meets the API's contract: the body it sends passes the validation pipe if and
  only if there is a value, the chosen provider (if any) is a UUID, the trimmed reason has 3 to 500
  characters and the carried version (if any) is a timestamp; then the handler receives that reason,
  that version (or \<open>null\<close> for none) and that provider.\<close>

theorem setting_form_meets_the_contract:
  "((\<exists>out. validate fm SetConfigurationDto (set_body form v) = Inr out)
      \<longleftrightarrow> v \<noteq> JNull \<and> (form_text form ''scopeId'' = [] \<or> fmUuid fm (form_text form ''scopeId''))
        \<and> 3 \<le> length (form_reason form) \<and> length (form_reason form) \<le> 500
        \<and> (form_text form ''expectedUpdatedAt'' = [] \<or> fmIso8601 fm (form_text form ''expectedUpdatedAt'')))
    \<and> (case validate fm SetConfigurationDto (set_body form v) of Inl _ \<Rightarrow> True
      | Inr out \<Rightarrow> map_of out ''value'' = Some v \<and> map_of out ''reason'' = Some (JStr (form_reason form))
          \<and> map_of out ''expectedUpdatedAt'' = Some (version_json (form_text form ''expectedUpdatedAt''))
          \<and> map_of out ''scopeId'' = (if form_text form ''scopeId'' = [] then None else Some (JStr (form_text form ''scopeId''))))"
proof -
  have names: "map ruName SetConfigurationDto = [''expectedUpdatedAt'', ''value'', ''scope'', ''scopeId'', ''reason'']"
    by (simp add: SetConfigurationDto_def rule_defs)
  have keys: "fst ` set (set_body form v) \<subseteq> set (map ruName SetConfigurationDto)"
    by (auto simp: names set_body_def scopeFrom_def Let_def)
  have rules: "(\<forall>r\<in>set SetConfigurationDto. rule_ok fm r (coerced r (set_body form v)))
      \<longleftrightarrow> v \<noteq> JNull \<and> (form_text form ''scopeId'' = [] \<or> fmUuid fm (form_text form ''scopeId''))
        \<and> 3 \<le> length (form_reason form) \<and> length (form_reason form) \<le> 500
        \<and> (form_text form ''expectedUpdatedAt'' = [] \<or> fmIso8601 fm (form_text form ''expectedUpdatedAt''))"
    by (auto simp: SetConfigurationDto_def rule_defs set_body_def payload_simps)
  have vals: "map_of out ''value'' = Some v \<and> map_of out ''reason'' = Some (JStr (form_reason form))
      \<and> map_of out ''expectedUpdatedAt'' = Some (version_json (form_text form ''expectedUpdatedAt''))
      \<and> map_of out ''scopeId'' = (if form_text form ''scopeId'' = [] then None else Some (JStr (form_text form ''scopeId'')))"
    if ok: "validate fm SetConfigurationDto (set_body form v) = Inr out" for out
    unfolding validate_InrD(3) [OF ok]
    by (auto simp: SetConfigurationDto_def rule_defs set_body_def payload_simps List.map_filter_simps)
  show ?thesis
    using keys rules vals unfolding validate_accepts by (auto split: sum.splits)
qed

text \<open>The withdrawal form meets the API's contract: what was typed passes the validation pipe if and
  only if the amount reads as a whole number from 1 to 100 000 000 and neither method nor destination
  is too long; an empty amount reads as 0 and is refused.\<close>

theorem withdraw_form_meets_the_contract:
  "(\<exists>out. validate fm CreatePayoutDto (withdraw_body values) = Inr out)
    \<longleftrightarrow> (\<exists>n. toNumber (wvAmountPoints values) = Some (Finite (of_int n)) \<and> 1 \<le> n \<and> n \<le> 100000000)
      \<and> length (wvMethod values) \<le> 32 \<and> length (wvDestination values) \<le> 200"
proof -
  have names: "map ruName CreatePayoutDto = [''amountPoints'', ''method'', ''destination'']"
    by (simp add: CreatePayoutDto_def rule_defs)
  have keys: "fst ` set (withdraw_body values) \<subseteq> set (map ruName CreatePayoutDto)"
    by (simp add: names withdraw_body_def)
  have amount: "(of_int \<lfloor>q\<rfloor> = q \<and> 1 \<le> q \<and> q \<le> 100000000) \<longleftrightarrow> (\<exists>n. q = of_int n \<and> 1 \<le> n \<and> n \<le> 100000000)" for q :: rat
  proof
    assume q: "of_int \<lfloor>q\<rfloor> = q \<and> 1 \<le> q \<and> q \<le> 100000000"
    then have "1 \<le> \<lfloor>q\<rfloor>" "\<lfloor>q\<rfloor> \<le> 100000000" by (simp_all add: le_floor_iff floor_le_iff)
    then show "\<exists>n. q = of_int n \<and> 1 \<le> n \<and> n \<le> 100000000" using q by metis
  next
    assume "\<exists>n. q = of_int n \<and> 1 \<le> n \<and> n \<le> 100000000"
    then obtain n where "q = of_int n" "1 \<le> n" "n \<le> 100000000" by blast
    then have "(of_int 1 :: rat) \<le> of_int n" "(of_int n :: rat) \<le> of_int 100000000" by (simp_all only: of_int_le_iff)
    then show "of_int \<lfloor>q\<rfloor> = q \<and> 1 \<le> q \<and> q \<le> 100000000" using \<open>q = of_int n\<close> by simp
  qed
  have "(\<forall>r\<in>set CreatePayoutDto. rule_ok fm r (coerced r (withdraw_body values)))
      \<longleftrightarrow> (\<exists>q. toNumber (wvAmountPoints values) = Some (Finite q) \<and> of_int \<lfloor>q\<rfloor> = q \<and> 1 \<le> q \<and> q \<le> 100000000)
        \<and> length (wvMethod values) \<le> 32 \<and> length (wvDestination values) \<le> 200"
    by (auto simp: CreatePayoutDto_def rule_defs withdraw_body_def payload_simps number_json_def number_value_def
        split: option.splits js_number.splits)
  then show ?thesis using keys unfolding validate_accepts amount by auto
qed

end
