(* ===== verification/WebPageProps.thy ===== *)
theory WebPageProps
  imports WebPages WebContract
begin

text \<open>
  What the pages ask the API, against the DTOs that receive it, and where the links they render lead.
\<close>

section \<open>Query strings round trip\<close>

lemma form_char_no_plus: "c \<noteq> CHR '' '' \<Longrightarrow> CHR ''+'' \<notin> set (form_char c)"
proof -
  assume c: "c \<noteq> CHR '' ''"
  have h: "hex_digit d \<noteq> CHR ''+''" if "d < 16" for d
  proof
    assume "hex_digit d = CHR ''+''"
    then have "code_unit (hex_digit d) = 43" by (simp add: code_unit_def)
    then show False using hex_digit_code [OF that] by (simp split: if_splits)
  qed
  have p: "CHR ''+'' \<notin> set (percent n)" if "n < 256" for n
  proof -
    have "n div 16 < 16" "n mod 16 < 16" using that by auto
    then show ?thesis using h [of "n div 16"] h [of "n mod 16"] by (simp add: percent_def eq_commute [of "CHR ''+''"])
  qed
  have "code_unit c < 256" by (rule code_unit_bound)
  then have "code_unit c < 256" "192 + code_unit c div 64 < 256" "128 + code_unit c mod 64 < 256" by auto
  then show ?thesis
    using c p [of "code_unit c"] p [of "192 + code_unit c div 64"] p [of "128 + code_unit c mod 64"]
    by (auto simp: form_char_def form_unreserved_def Let_def code_unit_def)
qed

lemma map_unplus: "CHR ''+'' \<notin> set s \<Longrightarrow> map (\<lambda>c. if c = CHR ''+'' then CHR '' '' else c) s = s"
  by (induction s) auto

lemma decode_form_char:
  "decodeURIComponent (map (\<lambda>c. if c = CHR ''+'' then CHR '' '' else c) (form_char c) @ r)
    = map_option (\<lambda>t. c # t) (decodeURIComponent r)"
proof (cases "c = CHR '' ''")
  case True
  then show ?thesis by (simp add: form_char_def)
next
  case False
  have n: "code_unit c < 256" by (rule code_unit_bound)
  have again: "char_of (code_unit c) = c" by (simp add: code_unit_def)
  consider "form_unreserved c" | "\<not> form_unreserved c" "uri_unreserved c" | "\<not> form_unreserved c" "\<not> uri_unreserved c" by blast
  then have "decodeURIComponent (form_char c @ r) = map_option (\<lambda>t. c # t) (decodeURIComponent r)"
  proof cases
    case 1
    then have "c \<noteq> CHR ''%''" by (auto simp: form_unreserved_def code_unit_def)
    then show ?thesis using 1 False by (simp add: form_char_def)
  next
    case 2
    then have "code_unit c < 128" by (auto simp: uri_unreserved_def Let_def)
    then show ?thesis using byte_of_percent [OF n] again 2 False by (simp add: form_char_def percent_def Let_def)
  next
    case 3
    then show ?thesis using decode_encode_char [of c r] False by (simp add: form_char_def encode_char_def)
  qed
  then show ?thesis by (simp add: map_unplus form_char_no_plus [OF False])
qed

lemma decode_form_text: "query_decode (form_text_of s) = Some s"
proof (induction s)
  case Nil
  then show ?case by (simp add: query_decode_def form_text_of_def)
next
  case (Cons c s)
  then show ?case
    using decode_form_char [of c "map (\<lambda>c. if c = CHR ''+'' then CHR '' '' else c) (form_text_of s)"]
    by (simp add: query_decode_def form_text_of_def)
qed

lemma form_text_chars: "x \<in> set (form_text_of s) \<Longrightarrow> x \<noteq> CHR ''='' \<and> x \<noteq> CHR ''&'' \<and> x \<noteq> CHR ''?''"
proof -
  have h: "hex_digit d \<noteq> CHR ''='' \<and> hex_digit d \<noteq> CHR ''&'' \<and> hex_digit d \<noteq> CHR ''?''" if "d < 16" for d
  proof -
    have "code_unit (hex_digit d) \<notin> {code_unit CHR ''='', code_unit CHR ''&'', code_unit CHR ''?''}"
      unfolding hex_digit_code [OF that] using that by (simp add: code_unit_def)
    then show ?thesis by auto
  qed
  have p: "x \<noteq> CHR ''='' \<and> x \<noteq> CHR ''&'' \<and> x \<noteq> CHR ''?''" if "x \<in> set (percent n)" "n < 256" for n
  proof -
    have "n div 16 < 16" "n mod 16 < 16" using that by auto
    then show ?thesis using h that(1) by (auto simp: percent_def)
  qed
  assume "x \<in> set (form_text_of s)"
  then obtain c where x: "x \<in> set (form_char c)" by (auto simp: form_text_of_def)
  have n: "code_unit c < 256" by (rule code_unit_bound)
  consider "x = CHR ''+''" | "form_unreserved c" "x = c" | "x \<in> set (percent (code_unit c))"
    | "x \<in> set (percent (192 + code_unit c div 64))" | "x \<in> set (percent (128 + code_unit c mod 64))"
    using x by (auto simp: form_char_def Let_def split: if_splits)
  then show ?thesis
  proof cases
    case 2
    then show ?thesis by (auto simp: form_unreserved_def code_unit_def)
  qed (use p n in \<open>auto intro: p\<close>)
qed

lemma query_pair_text: "query_pair (form_text_of k @ ''='' @ form_text_of v) = Some (k, v)"
proof -
  have "takeWhile (\<lambda>c. c \<noteq> CHR ''='') (form_text_of k @ ''='' @ form_text_of v) = form_text_of k"
    "dropWhile (\<lambda>c. c \<noteq> CHR ''='') (form_text_of k @ ''='' @ form_text_of v) = ''='' @ form_text_of v"
    using form_text_chars [of _ k] by (auto simp: takeWhile_append dropWhile_append)
  then show ?thesis by (simp add: query_pair_def decode_form_text)
qed

lemma split_join_with: "xs \<noteq> [] \<Longrightarrow> \<forall>x\<in>set xs. c \<notin> set x \<Longrightarrow> split_on c (join_with [c] xs) = xs"
proof (induction "[c]" xs rule: join_with.induct)
  case (2 x)
  then show ?case by (simp add: split_on_single)
next
  case (3 x y ys)
  have "c \<notin> set x \<Longrightarrow> split_on c (x @ c # r) = x # split_on c r" for r
    by (induction x) auto
  then show ?case using 3 by simp
qed simp

lemma query_string_chars: "x \<in> set (query_string ps) \<Longrightarrow> x \<noteq> CHR ''?''"
proof -
  have j: "set (join_with [c] xs) \<subseteq> insert c (\<Union> (set ` set xs))" for c :: char and xs
    by (induction "[c]" xs rule: join_with.induct) auto
  assume "x \<in> set (query_string ps)"
  then show ?thesis
    using j [of "CHR ''&''" "map (\<lambda>(k, v). form_text_of k @ ''='' @ form_text_of v) ps"]
    by (auto simp: query_string_def dest!: subsetD form_text_chars)
qed

lemma parse_query_string: "parse_query (query_string ps) = Some ps" "parse_query (''?'' @ query_string ps) = Some ps"
proof -
  let ?texts = "map (\<lambda>(k, v). form_text_of k @ ''='' @ form_text_of v) ps"
  have pairs: "map query_pair (filter (\<lambda>t. t \<noteq> []) (split_on CHR ''&'' (query_string ps))) = map Some ps"
  proof (cases "ps = []")
    case True
    then show ?thesis by (simp add: query_string_def)
  next
    case False
    have "split_on CHR ''&'' (query_string ps) = ?texts"
      unfolding query_string_def using False by (intro split_join_with) (auto dest: form_text_chars)
    moreover have "filter (\<lambda>t. t \<noteq> []) ?texts = ?texts" by (auto simp: filter_id_conv)
    ultimately show ?thesis using query_pair_text by (simp only: map_map o_def) (auto simp: query_pair_text)
  qed
  have "query_string ps \<noteq> [] \<Longrightarrow> hd (query_string ps) \<noteq> CHR ''?''"
    using query_string_chars [of "hd (query_string ps)" ps] by simp
  then have t: "(case query_string ps of [] \<Rightarrow> [] | c # cs \<Rightarrow> if c = CHR ''?'' then cs else query_string ps) = query_string ps"
    by (auto split: list.splits)
  have gen: "map query_pair ts = map Some ps \<Longrightarrow>
      (if None \<in> set (map query_pair ts) then None else Some (map the (map query_pair ts))) = Some ps" for ts
    by (simp del: set_map) (auto simp: comp_def)
  show "parse_query (query_string ps) = Some ps" "parse_query (''?'' @ query_string ps) = Some ps"
    unfolding parse_query_def t using gen [OF pairs] by (simp_all only: Let_def t append.simps list.case if_True simp_thms)
qed

section \<open>Numbers in a query\<close>

lemma double_of_int_whole: "\<exists>m\<ge>0. double_of (of_nat n) = of_int m"
proof (cases "n < 2 ^ 53")
  case True
  then have "int n < 2 ^ 53" by (metis of_nat_less_iff of_nat_numeral of_nat_power)
  then show ?thesis using double_of_int [of "int n"] by (intro exI [of _ "int n"]) simp
next
  case False
  let ?q = "of_nat n :: rat" and ?e = "double_exponent (of_nat n :: rat)"
  have big: "(2 :: rat) ^ 53 \<le> ?q" using False by (metis not_less of_nat_le_iff of_nat_numeral of_nat_power)
  have pos: "0 < ?q" using big by (rule less_le_trans [rotated]) simp
  have "0 < ?e"
  proof (rule ccontr)
    assume "\<not> 0 < ?e"
    then have "(2 :: rat) powi (?e + 53) \<le> 2 powi 53" by (intro power_int_increasing) auto
    then show False using double_exponent_bounds(2) [OF pos] big by (simp add: power_int_numeral)
  qed
  then obtain k where k: "?e = int k" by (metis nonneg_int_cases less_imp_le)
  have "double_of ?q = of_int (round_half_even (?q / 2 powi ?e) * 2 ^ k)"
    unfolding double_of_pos [OF pos] k by (simp add: power_int_of_nat)
  moreover have "0 \<le> round_half_even (?q / 2 powi ?e)"
    using round_half_even_ge [of 0 "?q / 2 powi ?e"] pos by simp
  ultimately show ?thesis by (metis mult_nonneg_nonneg zero_le_numeral zero_le_power)
qed

lemma as_double_small:
  assumes "n < 10 ^ 21"
  shows "\<exists>m\<ge>0. as_double (of_nat n) = Finite (of_int m)"
proof -
  obtain m where m: "0 \<le> m" "double_of (of_nat n) = of_int m" using double_of_int_whole by blast
  have "double_of (of_nat n :: rat) \<le> 2 * of_nat n"
  proof (cases "n = 0")
    case False
    then have p: "(0 :: rat) < of_nat n" by simp
    have "double_of (of_nat n :: rat) - of_nat n \<le> of_nat n / 2 ^ 53"
      using double_of_error [OF p] by linarith
    also have "\<dots> \<le> of_nat n" using p by (simp add: divide_le_eq)
    finally show ?thesis by simp
  qed simp
  also have "(2 :: rat) * of_nat n < 2 * 10 ^ 21"
    using assms by (metis mult_strict_left_mono of_nat_less_iff of_nat_numeral of_nat_power zero_less_numeral)
  also have "(2 :: rat) * 10 ^ 21 < 2 ^ 1024"
  proof -
    have "(2 :: rat) * 10 ^ 21 < 2 ^ 80" by simp
    also have "\<dots> \<le> 2 ^ 1024" by (rule power_increasing) simp_all
    finally show ?thesis .
  qed
  finally have "of_int m < (2 :: rat) ^ 1024" unfolding m(2) .
  then have "\<not> (2 :: rat) ^ 1024 \<le> \<bar>of_int m\<bar>" using m(1) by simp
  then show ?thesis using m by (simp only: as_double_def m(2) Let_def if_False) blast
qed

lemma digit_not: "is_digit c \<Longrightarrow> \<not> js_space c \<and> \<not> is_exponent c \<and> js_lower_char c = c \<and> c \<noteq> CHR ''x'' \<and> c \<noteq> CHR ''o''
    \<and> c \<noteq> CHR ''b'' \<and> c \<noteq> CHR ''-'' \<and> c \<noteq> CHR ''+'' \<and> c \<noteq> CHR ''.'' \<and> c \<noteq> CHR ''I''"
  by (auto simp: is_digit_def js_space_def is_exponent_def js_lower_char_def js_upper_def Let_def code_unit_def)

lemma toNumber_digits:
  assumes "list_all is_digit s" and "s \<noteq> []"
  shows "toNumber s = Some (as_double (of_nat (number_of 10 s)))"
proof -
  have d: "\<And>c. c \<in> set s \<Longrightarrow> is_digit c" using assms(1) by (simp add: list_all_iff)
  have trim: "js_trim s = s" using d digit_not assms(2) by (intro js_trim_id) auto
  have lower: "js_lower s = s" using d digit_not unfolding js_lower_def by (intro map_idI) blast
  obtain c cs where s: "s = c # cs" using assms(2) by (cases s) auto
  have c: "c \<noteq> CHR ''-''" "c \<noteq> CHR ''+''" "c \<noteq> CHR ''I''" using digit_not d s by auto
  have pre: "\<not> starts_with s ''0x''" "\<not> starts_with s ''0o''" "\<not> starts_with s ''0b''"
    using digit_not d unfolding s by (cases cs; auto simp: starts_with_def)+
  have inf: "s \<noteq> ''Infinity''" using c(3) s by auto
  have parts: "takeWhile (\<lambda>c. \<not> is_exponent c) s = s" "dropWhile (\<lambda>c. \<not> is_exponent c) s = []"
    using d digit_not by (auto simp: takeWhile_eq_all_conv dropWhile_eq_Nil_conv)
  have "CHR ''.'' \<notin> set s" using d digit_not by blast
  then have "mantissa_of s = Some (of_nat (number_of 10 s))"
    using assms by (simp add: mantissa_of_def split_on_single all_digits_def)
  then have "unsigned_number s = Some (as_double (of_nat (number_of 10 s)))"
    unfolding unsigned_number_def parts by (simp add: inf)
  then show ?thesis using c pre unfolding toNumber_def trim by (simp add: s lower [unfolded s])
qed

lemma toNumber_decimal: "toNumber (decimal n) = Some (as_double (of_nat n))"
  using toNumber_digits decimal_digits [of n] number_of_decimal [of n] by metis

lemma decimal_number: "n < 2 ^ 53 \<Longrightarrow> toNumber (decimal n) = Some (Finite (of_nat n))"
proof -
  assume n: "n < 2 ^ 53"
  then have "int n < 2 ^ 53" by (metis of_nat_less_iff of_nat_numeral of_nat_power)
  then have d: "double_of (of_nat n) = of_nat n" using double_of_int [of "int n"] by simp
  have "(of_nat n :: rat) < 2 ^ 53" using n by (metis of_nat_less_iff of_nat_numeral of_nat_power)
  also have "(2 :: rat) ^ 53 \<le> 2 ^ 1024" by (rule power_increasing) simp_all
  finally have "\<not> (2 :: rat) ^ 1024 \<le> \<bar>of_nat n\<bar>" by simp
  then show ?thesis unfolding toNumber_decimal as_double_def Let_def d by (simp only: if_False)
qed

text \<open>The offset a page read: a whole number that is not negative, or infinite.\<close>

lemma page_offset_cases:
  obtains (finite) m where "url_offset ps = Finite (of_int m)" "0 \<le> m" | (infinite) "url_offset ps = Infinite False"
proof (cases "Option.bind (map_of ps ''offset'') toNumber")
  case None
  then show ?thesis using finite [of 0] by (simp add: url_offset_def readOffset_def)
next
  case (Some n)
  then show ?thesis
  proof (cases n)
    case (Finite q)
    then show ?thesis using Some finite [of "max 0 \<lfloor>q\<rfloor>"] by (simp add: url_offset_def readOffset_def)
  next
    case (Infinite neg)
    then show ?thesis using Some finite [of 0] infinite by (cases neg) (simp_all add: url_offset_def readOffset_def)
  qed
qed

section \<open>Nothing a list page asks is refused\<close>

text \<open>A query as the API receives it: every parameter a text.\<close>

definition json_params :: "search_params \<Rightarrow> (string \<times> json) list" where
  "json_params ps = map (\<lambda>(k, v). (k, JStr v)) ps"

definition accepted :: "formats \<Rightarrow> dto \<Rightarrow> search_params \<Rightarrow> bool" where
  "accepted fm d ps \<longleftrightarrow> (case validate fm d (json_params ps) of Inr _ \<Rightarrow> True | Inl _ \<Rightarrow> False)"

lemma accepted_iff: "accepted fm d ps
    \<longleftrightarrow> fst ` set ps \<subseteq> set (map ruName d) \<and> (\<forall>r\<in>set d. rule_ok fm r (coerced r (json_params ps)))"
proof -
  have "fst ` set (json_params ps) = fst ` set ps" by (force simp: json_params_def)
  then show ?thesis using validate_accepts [of fm d "json_params ps"]
    by (auto simp: accepted_def split: sum.splits)
qed

lemma map_of_json_params: "map_of (json_params ps) k = map_option JStr (map_of ps k)"
  by (induction ps) (auto simp: json_params_def)

lemma map_of_set_filters:
  "distinct (map fst fs) \<Longrightarrow> map_of (set_filters fs) k
    = (case map_of fs k of None \<Rightarrow> None | Some v \<Rightarrow> if v = [] then None else Some v)"
proof (induction fs)
  case (Cons f fs)
  have "map_of fs (fst f) = None" using Cons.prems by (simp add: map_of_eq_None_iff)
  then show ?case using Cons by (cases f) (auto simp: set_filters_def split: option.splits)
qed (simp add: set_filters_def)

lemma set_filters_keys: "fst ` set (set_filters fs) \<subseteq> fst ` set fs"
  by (auto simp: set_filters_def)

text \<open>The parameters of a list page, one by one.\<close>

lemma asked:
  assumes "distinct (map fst fs)" and "''limit'' \<notin> fst ` set fs" and "''offset'' \<notin> fst ` set fs"
  shows "map_of (limited n (set_filters fs @ offset_params ex off)) k
    = (if k = ''limit'' then Some (decimal n)
       else if k = ''offset'' then (if off = Finite 0 then None else Some (number_text ex off))
       else (case map_of fs k of None \<Rightarrow> None | Some v \<Rightarrow> if v = [] then None else Some v))"
proof -
  have none: "map_of fs ''limit'' = None" "map_of fs ''offset'' = None"
    using assms(2,3) by (simp_all add: map_of_eq_None_iff)
  show ?thesis
    using none map_of_set_filters [OF assms(1), of k]
    by (auto simp: limited_def offset_params_def map_add_def split: option.splits if_splits)
qed

lemma asked_keys:
  "fst ` set (limited n (set_filters fs @ offset_params ex off)) \<subseteq> insert ''limit'' (insert ''offset'' (fst ` set fs))"
  using set_filters_keys [of fs] by (auto simp: limited_def offset_params_def)

lemma toNumber_infinity: "toNumber ''Infinity'' = Some (Infinite False)"
  by code_simp

lemma offset_answer:
  assumes "\<forall>q. url_offset ps = Finite q \<longrightarrow> q < 10 ^ 21"
  shows "list_all (\<lambda>c. check_ok fm c (number_value (JStr (number_text ex (url_offset ps))))) [IsInt, AtLeast 0]
    \<longleftrightarrow> url_offset ps \<noteq> Infinite False"
proof (cases rule: page_offset_cases [of ps])
  case (finite m)
  have "(of_int m :: rat) < of_int (10 ^ 21)" using assms finite(1) by simp
  then have small: "m < 10 ^ 21" by (simp only: of_int_less_iff)
  then have "nat m < 10 ^ 21" using finite(2) by (metis nat_less_iff of_nat_numeral of_nat_power)
  then obtain k where "0 \<le> k" "toNumber (decimal (nat m)) = Some (Finite (of_int k))"
    using as_double_small toNumber_decimal by metis
  then show ?thesis
    using finite small by (simp add: number_text_def number_value_def js_number_json_def number_check_def)
next
  case infinite
  then show ?thesis
    by (simp add: number_text_def number_value_def js_number_json_def number_check_def toNumber_infinity)
qed

lemma limit_answer: "1 \<le> n \<Longrightarrow> int n \<le> m \<Longrightarrow> n < 2 ^ 53
    \<Longrightarrow> list_all (\<lambda>c. check_ok fm c (number_value (JStr (decimal n)))) [IsInt, AtLeast 1, AtMost m]"
proof -
  assume n: "1 \<le> n" "int n \<le> m" "n < 2 ^ 53"
  have "of_nat n \<le> (of_int m :: rat)" using n(2) by (metis of_int_le_iff of_int_of_nat_eq)
  then show ?thesis using n decimal_number [OF n(3)]
    by (simp add: number_value_def js_number_json_def number_check_def
        del: of_int_floor_cancel)
qed

lemma known_name_cases: "known_name names raw = [] \<or> known_name names raw \<in> set names"
  by (simp add: known_name_def split: option.splits)

lemma length_split_on: "length s + 1 = sum_list (map (\<lambda>t. length t + 1) (split_on c s))"
proof (induction s)
  case (Cons x s)
  then show ?case by (cases "split_on c s") (auto simp: split_on_nonempty)
qed simp

lemma uuid_length: "is_uuid s \<Longrightarrow> length s = 36"
proof -
  assume "is_uuid s"
  then have "map (\<lambda>n. n + 1) (map length (split_on CHR ''-'' s)) = [9, 5, 5, 5, 13]" by (simp add: is_uuid_def)
  then have "map (\<lambda>t. length t + 1) (split_on CHR ''-'' s) = [9, 5, 5, 5, 13]" by (simp only: map_map o_def)
  then show ?thesis using length_split_on [of s "CHR ''-''"] by simp
qed

lemma queue_filter_cases: "queue_filter (readQueueStatus raw) = [] \<or> queue_filter (readQueueStatus raw) \<in> set PAYOUT_STATUS_NAMES"
  by (cases "readQueueStatus raw"; cases "the (readQueueStatus raw)") (simp_all add: queue_filter_def PAYOUT_STATUS_NAMES_def)

lemma readUserId_cases: "readUserId raw = [] \<or> length (readUserId raw) \<le> 36"
  by (auto simp: readUserId_def uuid_length split: option.splits if_splits)

lemma ruName_optional [simp]: "ruName (optional_rule k c checks) = k"
  by (simp add: optional_rule_def)

lemma page_accepted:
  assumes off: "\<forall>q. url_offset ps = Finite q \<longrightarrow> q < 10 ^ 21"
    and names: "distinct (map fst fs)" "''limit'' \<notin> fst ` set fs" "''offset'' \<notin> fst ` set fs" "fst ` set fs \<subseteq> ruName ` set rs"
    and n: "1 \<le> n" "int n \<le> m" "n < 2 ^ 53"
  shows "accepted fm (rs @ [limit_rule m, offset_rule]) (limited n (set_filters fs @ offset_params ex (url_offset ps)))
    \<longleftrightarrow> url_offset ps \<noteq> Infinite False
      \<and> (\<forall>r\<in>set rs. rule_ok fm r (coerced r (json_params (limited n (set_filters fs @ offset_params ex (url_offset ps))))))"
proof -
  let ?q = "limited n (set_filters fs @ offset_params ex (url_offset ps))"
  have keys: "fst ` set ?q \<subseteq> set (map ruName (rs @ [limit_rule m, offset_rule]))"
    using asked_keys [of n fs ex "url_offset ps"] names(4) by (auto simp: limit_rule_def offset_rule_def optional_rule_def)
  have "coerced (limit_rule m) (json_params ?q) = Some (number_value (JStr (decimal n)))"
    by (simp add: coerced_def map_of_json_params asked [OF names(1-3)] limit_rule_def optional_rule_def)
  then have limit: "rule_ok fm (limit_rule m) (coerced (limit_rule m) (json_params ?q))"
    using limit_answer [OF n, of fm] by (simp add: rule_ok_def limit_rule_def optional_rule_def del: check_ok.simps)
  have sent: "coerced offset_rule (json_params ?q) = (if url_offset ps = Finite 0 then None
      else Some (number_value (JStr (number_text ex (url_offset ps)))))"
    by (simp add: coerced_def map_of_json_params asked [OF names(1-3)] offset_rule_def optional_rule_def)
  have not_null: "number_value (JStr t) \<noteq> JNull" for t
    by (simp add: number_value_def js_number_json_def split: option.splits js_number.splits)
  have "rule_ok fm offset_rule (coerced offset_rule (json_params ?q)) \<longleftrightarrow> url_offset ps \<noteq> Infinite False"
    using offset_answer [OF off, of fm ex] not_null unfolding sent
    by (simp add: rule_ok_def offset_rule_def optional_rule_def del: check_ok.simps)
  then show ?thesis using keys limit by (auto simp: accepted_iff)
qed

text \<open>A filter the page leaves out, or a text that passes the checks of its parameter.\<close>

lemma filter_asked:
  assumes "map_of q k = (if v = [] then None else Some v)"
  shows "rule_ok fm (optional_rule k AsIs checks) (coerced (optional_rule k AsIs checks) (json_params q))
    \<longleftrightarrow> v = [] \<or> list_all (\<lambda>c. check_ok fm c (JStr v)) checks"
  using assms by (simp add: rule_ok_def coerced_def optional_rule_def map_of_json_params)

lemma filter_not_asked:
  assumes "map_of q k = None"
  shows "rule_ok fm (optional_rule k c checks) (coerced (optional_rule k c checks) (json_params q))"
  using assms by (simp add: rule_ok_def coerced_def optional_rule_def map_of_json_params)

lemma filter_trimmed:
  assumes "map_of q k = (if v = [] then None else Some v)" and "js_trim v = v \<and> c = TrimmedOrAbsent \<or> c = Trimmed"
  shows "rule_ok fm (optional_rule k c [IsString, MaxLength n]) (coerced (optional_rule k c [IsString, MaxLength n]) (json_params q))
    \<longleftrightarrow> v = [] \<or> length (js_trim v) \<le> n"
  using assms by (auto simp: rule_ok_def coerced_def optional_rule_def map_of_json_params on_text_def text_check_def)

lemma length_js_trim: "length (js_trim s) \<le> length s"
  unfolding js_trim_def by (metis length_dropWhile_le length_rev order_trans)

lemmas page_filter_defs = user_status_filter_def user_role_filter_def ledger_type_filter_def ledger_status_filter_def
  category_filter_def sort_filter_def

lemma offered_names:
  "map user_status_name USER_STATUSES_IN_ORDER = STATUSES" "map user_role_name USER_ROLES_IN_ORDER = ROLES"
  "OFFER_CATEGORIES_IN_ORDER = CATEGORIES"
  by (simp_all add: USER_STATUSES_IN_ORDER_def STATUSES_def USER_ROLES_IN_ORDER_def ROLES_def
      OFFER_CATEGORIES_IN_ORDER_def CATEGORIES_def)

lemma history_rules:
  "RewardHistoryDto = [optional_rule ''type'' AsIs [IsIn LEDGER_TYPES], optional_rule ''status'' AsIs [IsIn LEDGER_STATUSES],
     limit_rule 100, offset_rule]"
  by (simp add: RewardHistoryDto_def LEDGER_TYPES_def LEDGER_STATUSES_def)

lemma wall_rules: "ListWallOffersDto = [optional_rule ''category'' AsIs [IsIn CATEGORIES],
     optional_rule ''search'' TrimmedOrAbsent [IsString, MaxLength 100],
     optional_rule ''minRewardPoints'' ToNumber [IsInt, AtLeast 0], optional_rule ''maxRewardPoints'' ToNumber [IsInt, AtLeast 0],
     optional_rule ''country'' AsIs [IsString, MinLength 2, MaxLength 2, Matches (list_all ascii_letter)],
     optional_rule ''device'' AsIs [IsString, MaxLength 32], optional_rule ''sort'' AsIs [IsIn OFFER_SORTS_IN_ORDER],
     limit_rule 100, offset_rule]"
  by (simp add: ListWallOffersDto_def OFFER_SORTS_IN_ORDER_def)

text \<open>C00. What a list page asks the API is never refused: whatever the address holds, its query passes the
  validation of the endpoint it is sent to. The exceptions are an offset that reads as infinity
  (\<open>?offset=Infinity\<close>), which is sent as it is, and on the offer wall a search longer than 100
  characters, which the page does not cut. (Offsets below \<open>10 ^ 21\<close>, which JavaScript writes without an
  exponent.)\<close>

theorem list_pages_ask_valid_questions:
  assumes "\<forall>q. url_offset ps = Finite q \<longrightarrow> q < 10 ^ 21"
  shows "(accepted fm ListUsersDto (lpParams (users_page ex ps)) \<longleftrightarrow> url_offset ps \<noteq> Infinite False)
    \<and> (accepted fm RewardHistoryDto (lpParams (earnings_page ex ps)) \<longleftrightarrow> url_offset ps \<noteq> Infinite False)
    \<and> (accepted fm AdminListPayoutsDto (lpParams (queue_page ex ps)) \<longleftrightarrow> url_offset ps \<noteq> Infinite False)
    \<and> (accepted fm AdminListHeldConversionsDto (lpParams (held_page ex ps)) \<longleftrightarrow> url_offset ps \<noteq> Infinite False)
    \<and> (accepted fm ListWallOffersDto (lpParams (offers_page ex ps)) \<longleftrightarrow> url_offset ps \<noteq> Infinite False
        \<and> length (js_trim (case map_of ps ''search'' of None \<Rightarrow> [] | Some t \<Rightarrow> t)) \<le> 100)
    \<and> accepted fm AdminListConfigurationDto (settings_params ps)"
proof (intro conjI)
  note pages = page_accepted [OF assms, where fm = fm and ex = ex]
  note asks = asked filter_asked filter_not_asked filter_trimmed text_check_def page_filter_defs known_name_cases Let_def
  show "accepted fm ListUsersDto (lpParams (users_page ex ps)) \<longleftrightarrow> url_offset ps \<noteq> Infinite False"
  proof -
    have "length (js_trim (readEmail raw)) \<le> 320" for raw
      using length_js_trim [of "readEmail raw"] by (simp add: readEmail_def)
    then show ?thesis
      using pages [of "[(''status'', user_status_filter (map_of ps ''status'')), (''role'', user_role_filter (map_of ps ''role'')),
          (''email'', readEmail (map_of ps ''email''))]"
        "[optional_rule ''status'' AsIs [IsIn STATUSES], optional_rule ''role'' AsIs [IsIn ROLES],
          optional_rule ''email'' Trimmed [IsString, MaxLength 320]]" 25 100]
      by (simp add: users_page_def ListUsersDto_def asks offered_names)
  qed
  show "accepted fm RewardHistoryDto (lpParams (earnings_page ex ps)) \<longleftrightarrow> url_offset ps \<noteq> Infinite False"
    using pages [of "[(''type'', ledger_type_filter (map_of ps ''type'')), (''status'', ledger_status_filter (map_of ps ''status''))]"
        "[optional_rule ''type'' AsIs [IsIn LEDGER_TYPES], optional_rule ''status'' AsIs [IsIn LEDGER_STATUSES]]" 20 100]
    by (simp add: earnings_page_def history_rules asks)
  show "accepted fm AdminListPayoutsDto (lpParams (queue_page ex ps)) \<longleftrightarrow> url_offset ps \<noteq> Infinite False"
    using pages [of "[(''status'', queue_filter (readQueueStatus (map_of ps ''status'')))]"
        "[optional_rule ''status'' AsIs [IsIn PAYOUT_STATUS_NAMES], optional_rule ''userId'' AsIs [IsString, MaxLength 36],
          optional_rule ''method'' AsIs [IsString, MaxLength 32]]" 25 100]
    by (simp add: queue_page_def AdminListPayoutsDto_def asks queue_filter_cases)
  show "accepted fm AdminListHeldConversionsDto (lpParams (held_page ex ps)) \<longleftrightarrow> url_offset ps \<noteq> Infinite False"
    using pages [of "[(''userId'', readUserId (map_of ps ''userId''))]"
        "[optional_rule ''userId'' AsIs [IsString, MaxLength 36]]" 10 100]
    by (simp add: held_page_def AdminListHeldConversionsDto_def asks readUserId_cases)
  show "accepted fm ListWallOffersDto (lpParams (offers_page ex ps)) \<longleftrightarrow> url_offset ps \<noteq> Infinite False
      \<and> length (js_trim (case map_of ps ''search'' of None \<Rightarrow> [] | Some t \<Rightarrow> t)) \<le> 100"
    using pages [of "[(''search'', js_trim (case map_of ps ''search'' of None \<Rightarrow> [] | Some t \<Rightarrow> t)),
          (''category'', category_filter (map_of ps ''category'')), (''sort'', sort_filter (map_of ps ''sort''))]"
        "[optional_rule ''category'' AsIs [IsIn CATEGORIES], optional_rule ''search'' TrimmedOrAbsent [IsString, MaxLength 100],
          optional_rule ''minRewardPoints'' ToNumber [IsInt, AtLeast 0], optional_rule ''maxRewardPoints'' ToNumber [IsInt, AtLeast 0],
          optional_rule ''country'' AsIs [IsString, MinLength 2, MaxLength 2, Matches (list_all ascii_letter)],
          optional_rule ''device'' AsIs [IsString, MaxLength 32], optional_rule ''sort'' AsIs [IsIn OFFER_SORTS_IN_ORDER]]" 12 100]
    by (auto simp add: offers_page_def wall_rules asks offered_names)
  show "accepted fm AdminListConfigurationDto (settings_params ps)"
    by (auto simp: accepted_iff settings_params_def AdminListConfigurationDto_def set_filters_def readSearch_def
        rule_ok_def coerced_def optional_rule_def map_of_json_params text_check_def)
qed

definition demo_formats :: formats where
  "demo_formats = \<lparr>fmEmail = (\<lambda>_. True), fmUuid = (\<lambda>_. True), fmIso8601 = (\<lambda>_. True)\<rparr>"

lemma list_pages_ask_valid_questions_witness:
  "accepted demo_formats ListUsersDto (lpParams (users_page (\<lambda>_. []) [(''email'', ''p11'')]))
    \<and> \<not> accepted demo_formats RewardHistoryDto (lpParams (earnings_page (\<lambda>_. []) [(''offset'', ''Infinity'')]))"
proof -
  have a: "url_offset [(''email'', ''p11'')] = Finite 0" by (simp add: url_offset_def readOffset_def)
  have b: "url_offset [(''offset'', ''Infinity'')] = Infinite False"
    by (simp add: url_offset_def readOffset_def toNumber_infinity)
  show ?thesis
    using list_pages_ask_valid_questions [of "[(''email'', ''p11'')]" demo_formats "\<lambda>_. []"]
      list_pages_ask_valid_questions [of "[(''offset'', ''Infinity'')]" demo_formats "\<lambda>_. []"] a b by simp
qed

section \<open>The pager keeps the filters\<close>

lemma map_of_drop: "map_of (filter (\<lambda>(m, _). m \<noteq> k) qs) n = (if n = k then None else map_of qs n)"
  by (induction qs) auto

lemma map_of_query_set: "map_of (query_set k v ps) n = (if n = k then Some v else map_of ps n)"
  by (induction k v ps rule: query_set.induct) (auto simp: map_of_drop)

lemma query_set_not_Nil [simp]: "query_set k v ps \<noteq> []"
  by (induction k v ps rule: query_set.induct) auto

text \<open>The address that a link opens, and the page it shows.\<close>

definition opens :: "(search_params \<Rightarrow> list_page) \<Rightarrow> string option \<Rightarrow> list_page option" where
  "opens page_of link = (case link of None \<Rightarrow> None | Some l \<Rightarrow> map_option page_of (parse_query (link_query l)))"

definition next_page :: "(rat \<Rightarrow> string) \<Rightarrow> string \<Rightarrow> (search_params \<Rightarrow> list_page) \<Rightarrow> rat \<Rightarrow> search_params \<Rightarrow> list_page option" where
  "next_page ex base page_of count ps =
     (let shown = page_of ps in opens page_of (pvNext (pager ex base (lpCarried shown) (lpOffset shown) (lpPageSize shown) count)))"

lemma as_double_nat:
  assumes "n < 2 ^ 53"
  shows "as_double (of_nat n) = Finite (of_nat n)"
  using decimal_number [OF assms] toNumber_decimal [of n] by simp

lemma pager_next:
  assumes base: "CHR ''?'' \<notin> set base" and m: "m = n + size'" "m < 2 ^ 53" "n < m"
  shows "pvNext (pager ex base carried (Finite (of_nat n)) size' count)
    = (if of_nat m < count then Some (base @ CHR ''?'' # query_string (query_set ''offset'' (decimal m) carried)) else None)"
proof -
  have sum: "js_plus (Finite (of_nat n)) (of_nat size') = Finite (of_nat m)"
    using as_double_nat [OF m(2)] m(1) by (simp add: js_plus_def)
  have "m < 10 ^ 21" using m(2) by simp
  then have "(of_nat m :: rat) < 10 ^ 21" by (metis of_nat_less_iff of_nat_numeral of_nat_power)
  then have "number_text ex (Finite (of_nat m)) = decimal m" by (simp add: number_text_def)
  moreover have "js_less (Finite 0) (Finite (of_nat m))" using m(3) by (simp add: js_less_def)
  ultimately show ?thesis
    by (simp add: pager_def Let_def sum linkTo_def js_less_def [of _ "Finite count"])
qed

lemma link_query_base: "CHR ''?'' \<notin> set base \<Longrightarrow> link_query (base @ CHR ''?'' # q) = CHR ''?'' # q"
  by (induction base) (auto simp: link_query_def)

lemma next_page_step:
  assumes "CHR ''?'' \<notin> set base" and "m = n + size'" "m < 2 ^ 53" "n < m"
    and "lpOffset (page_of ps) = Finite (of_nat n)" and "lpPageSize (page_of ps) = size'"
  shows "next_page ex base page_of count ps = (if of_nat m < count
    then Some (page_of (query_set ''offset'' (decimal m) (lpCarried (page_of ps)))) else None)"
  using parse_query_string(2) [of "query_set ''offset'' (decimal m) (lpCarried (page_of ps))"] assms(5,6)
    pager_next [OF assms(1-4), of ex "lpCarried (page_of ps)" count]
  by (simp add: next_page_def Let_def opens_def link_query_base [OF assms(1)])

lemma set_filter_back:
  assumes "distinct (map fst fs)"
  shows "map_of (query_set ''offset'' t (set_filters fs)) k = (if k = ''offset'' then Some t
    else case map_of fs k of None \<Rightarrow> None | Some v \<Rightarrow> if v = [] then None else Some v)"
  using map_of_set_filters [OF assms, of k] by (simp add: map_of_query_set)

lemma offset_back: "m < 2 ^ 53 \<Longrightarrow> url_offset (query_set ''offset'' (decimal m) ps) = Finite (of_nat m)"
  using decimal_number [of m] by (simp add: url_offset_def readOffset_def map_of_query_set)

lemma known_name_back: "known_name names (if known_name names raw = [] then None else Some (known_name names raw)) = known_name names raw"
  by (simp add: known_name_def split: option.splits)

lemma readUserId_back: "readUserId (if readUserId raw = [] then None else Some (readUserId raw)) = readUserId raw"
  by (simp add: readUserId_def split: option.splits)

lemma readEmail_back:
  assumes "length (js_trim (case raw of None \<Rightarrow> [] | Some t \<Rightarrow> t)) \<le> 320"
  shows "readEmail (if readEmail raw = [] then None else Some (readEmail raw)) = readEmail raw"
  using assms by (cases raw) (auto simp: readEmail_def js_trim_def [of "[]"])

text \<open>C00. The pager's link to the next page leads to the next page of the same list: from a page whose
  offset is \<open>n\<close> it opens the page at \<open>n\<close> plus the page size, with every filter as it was applied (for
  the search of the accounts list, as long as its 320-character cut has not left a space at the end), and
  it is absent exactly when no row lies beyond.\<close>

theorem pager_leads_to_the_next_page:
  assumes "url_offset ps = Finite (of_nat n)" and "n < 2 ^ 52"
    and "length (js_trim (case map_of ps ''email'' of None \<Rightarrow> [] | Some t \<Rightarrow> t)) \<le> 320"
  shows "\<forall>(base, page_of) \<in> {(''/admin/users'', users_page ex), (''/earnings'', earnings_page ex), (''/offers'', offers_page ex),
      (''/admin/payouts'', queue_page ex), (''/admin/fraud'', held_page ex)}.
    (case next_page ex base page_of count ps of
       None \<Rightarrow> count \<le> of_nat (n + lpPageSize (page_of ps))
     | Some p \<Rightarrow> of_nat (n + lpPageSize (page_of ps)) < count \<and> lpFilters p = lpFilters (page_of ps)
         \<and> lpOffset p = Finite (of_nat (n + lpPageSize (page_of ps))))"
proof -
  note page_defs = users_page_def earnings_page_def offers_page_def queue_page_def held_page_def Let_def
  have step: "case next_page ex base page_of count ps of
       None \<Rightarrow> count \<le> of_nat (n + lpPageSize (page_of ps))
     | Some p \<Rightarrow> of_nat (n + lpPageSize (page_of ps)) < count \<and> lpFilters p = lpFilters (page_of ps)
         \<and> lpOffset p = Finite (of_nat (n + lpPageSize (page_of ps)))"
    if "CHR ''?'' \<notin> set base" "lpOffset (page_of ps) = Finite (of_nat n)" "lpPageSize (page_of ps) \<in> {10, 12, 20, 25}"
      "\<And>m. m < 2 ^ 53 \<Longrightarrow> lpOffset (page_of (query_set ''offset'' (decimal m) (lpCarried (page_of ps)))) = Finite (of_nat m)"
      "\<And>m. lpFilters (page_of (query_set ''offset'' (decimal m) (lpCarried (page_of ps)))) = lpFilters (page_of ps)"
    for base page_of
  proof -
    have m: "n + lpPageSize (page_of ps) < 2 ^ 53" "n < n + lpPageSize (page_of ps)" using assms(2) that(3) by auto
    show ?thesis
      using next_page_step [where page_of = page_of and ps = ps and ex = ex and count = count, OF that(1) refl m that(2) refl]
        that(4) [OF m(1)] that(5)
      by (simp del: of_nat_add split: option.splits)
  qed
  note backs = set_filter_back known_name_back readUserId_back readEmail_back [OF assms(3)] page_filter_defs
  have users: "lpFilters (users_page ex (query_set ''offset'' t (lpCarried (users_page ex ps)))) = lpFilters (users_page ex ps)" for t
    by (simp add: users_page_def Let_def backs)
  have earnings: "lpFilters (earnings_page ex (query_set ''offset'' t (lpCarried (earnings_page ex ps)))) = lpFilters (earnings_page ex ps)" for t
    by (simp add: earnings_page_def Let_def backs)
  have held: "lpFilters (held_page ex (query_set ''offset'' t (lpCarried (held_page ex ps)))) = lpFilters (held_page ex ps)" for t
    by (simp add: held_page_def Let_def backs)
  have kept: "lpFilters (p (query_set ''offset'' t (lpCarried (p ps)))) = lpFilters (p ps)" if "p \<in> {offers_page ex, queue_page ex}" for p t
    using that by (auto simp: offers_page_def queue_page_def Let_def map_of_query_set)
  have at_n: "lpOffset (p ps') = url_offset ps'" "lpPageSize (p ps') = 10 \<or> lpPageSize (p ps') = 12 \<or> lpPageSize (p ps') = 20 \<or> lpPageSize (p ps') = 25"
    if "p \<in> {users_page ex, earnings_page ex, offers_page ex, queue_page ex, held_page ex}" for p ps'
    using that by (auto simp: page_defs)
  let ?ok = "\<lambda>base page_of. case next_page ex base page_of count ps of
       None \<Rightarrow> count \<le> of_nat (n + lpPageSize (page_of ps))
     | Some p \<Rightarrow> of_nat (n + lpPageSize (page_of ps)) < count \<and> lpFilters p = lpFilters (page_of ps)
         \<and> lpOffset p = Finite (of_nat (n + lpPageSize (page_of ps)))"
  have "?ok ''/admin/users'' (users_page ex)"
    by (rule step) (simp_all add: at_n offset_back assms(1) users)
  moreover have "?ok ''/earnings'' (earnings_page ex)"
    by (rule step) (simp_all add: at_n offset_back assms(1) earnings)
  moreover have "?ok ''/admin/fraud'' (held_page ex)"
    by (rule step) (simp_all add: at_n offset_back assms(1) held)
  moreover have "?ok ''/offers'' (offers_page ex)" "?ok ''/admin/payouts'' (queue_page ex)"
    by (rule step; simp add: at_n offset_back assms(1) kept)+
  ultimately show ?thesis by (simp del: of_nat_add)
qed

lemma pager_leads_to_the_next_page_witness:
  "(case next_page (\<lambda>_. []) ''/earnings'' (earnings_page (\<lambda>_. [])) 28 [(''type'', ''BONUS'')] of
     None \<Rightarrow> False
   | Some p \<Rightarrow> lpFilters p = [(''type'', ''BONUS''), (''status'', [])] \<and> lpOffset p = Finite 20)"
proof -
  have start: "url_offset [(''type'', ''BONUS'')] = Finite (of_nat 0)" by (simp add: url_offset_def readOffset_def)
  have shown: "lpFilters (earnings_page (\<lambda>_. []) [(''type'', ''BONUS'')]) = [(''type'', ''BONUS''), (''status'', [])]"
    "lpPageSize (earnings_page (\<lambda>_. []) [(''type'', ''BONUS'')]) = 20"
    by (simp_all add: earnings_page_def Let_def page_filter_defs known_name_def LEDGER_TYPES_def)
  have "js_trim [] = []" by (simp add: js_trim_def)
  then show ?thesis
    using pager_leads_to_the_next_page [OF start, of "\<lambda>_. []" 28] shown by (simp split: option.splits)
qed

section \<open>Where the links lead\<close>

lemma form_text_plain: "list_all form_unreserved s \<Longrightarrow> form_text_of s = s"
proof (induction s)
  case (Cons c s)
  then have "c \<noteq> CHR '' ''" by (auto simp: form_unreserved_def code_unit_def)
  then show ?case using Cons by (simp add: form_text_of_def form_char_def)
qed (simp add: form_text_of_def)

definition opened_queue :: "(rat \<Rightarrow> string) \<Rightarrow> string \<Rightarrow> list_page option" where
  "opened_queue ex link = opens (queue_page ex) (Some link)"

lemma opened_link:
  assumes "CHR ''?'' \<notin> set base" and "list_all (\<lambda>(k, v). list_all form_unreserved k \<and> list_all form_unreserved v) ps"
  shows "opens page_of (Some (base @ CHR ''?'' # join_with ''&'' (map (\<lambda>(k, v). k @ ''='' @ v) ps))) = Some (page_of ps)"
proof -
  have "map (\<lambda>(k, v). k @ ''='' @ v) ps = map (\<lambda>(k, v). form_text_of k @ ''='' @ form_text_of v) ps"
    using assms(2) by (induction ps) (auto simp: form_text_plain)
  then have "join_with ''&'' (map (\<lambda>(k, v). k @ ''='' @ v) ps) = query_string ps" by (simp only: query_string_def)
  then show ?thesis using parse_query_string(2) [of ps] by (simp add: opens_def link_query_base [OF assms(1)])
qed

lemma opened_bare: "CHR ''?'' \<notin> set base \<Longrightarrow> opens page_of (Some base) = Some (page_of [])"
proof -
  assume "CHR ''?'' \<notin> set base"
  then have "link_query base = []" by (induction base) (auto simp: link_query_def)
  then show ?thesis by (simp add: opens_def parse_query_def)
qed

lemma opened_status:
  assumes "list_all form_unreserved v"
  shows "opened_queue ex (''/admin/payouts?status='' @ v) = Some (queue_page ex [(''status'', v)])"
  using opened_link [of "''/admin/payouts''" "[(''status'', v)]" "queue_page ex"] assms
  by (simp add: opened_queue_def form_unreserved_def code_unit_def)

text \<open>C00. The "All" tab of the payout queue shows the pending requests. Every other tab opens the list of
  its own status; "All" links to the page without a status, which the page reads as
  \<open>PENDING_REVIEW\<close> (an empty \<open>?status=\<close> would be all of them), so no tab shows every request.\<close>

theorem all_tab_shows_the_pending_requests:
  "map (\<lambda>(v, label). (label, map_option lpFilters (opened_queue ex (tabHref v)))) queue_tabs =
    [(''All'', Some [(''status'', ''PENDING_REVIEW'')]), (''Pending review'', Some [(''status'', ''PENDING_REVIEW'')]),
     (''Approved'', Some [(''status'', ''APPROVED'')]), (''Paid'', Some [(''status'', ''PAID'')]),
     (''Rejected'', Some [(''status'', ''REJECTED'')]), (''Failed'', Some [(''status'', ''FAILED'')])]
   \<and> map_option lpFilters (opened_queue ex ''/admin/payouts?status='') = Some [(''status'', [])]"
proof -
  have tab: "map_option lpFilters (opened_queue ex (tabHref (payout_status_name st))) = Some [(''status'', payout_status_name st)]" for st
  proof -
    have "list_all form_unreserved (payout_status_name st)" "payout_status_name st \<noteq> []"
      by (cases st; simp add: form_unreserved_def code_unit_def)+
    moreover have "queue_filter (readQueueStatus (Some (payout_status_name st))) = payout_status_name st"
      by (cases st) (simp_all add: readQueueStatus_def queue_filter_def)
    ultimately show ?thesis using opened_status [of "payout_status_name st" ex] by (simp add: tabHref_def queue_page_def Let_def)
  qed
  have all: "map_option lpFilters (opened_queue ex (tabHref [])) = Some [(''status'', ''PENDING_REVIEW'')]"
    using opened_bare [of "''/admin/payouts''" "queue_page ex"]
    by (simp add: tabHref_def opened_queue_def queue_page_def Let_def readQueueStatus_def queue_filter_def)
  have empty: "map_option lpFilters (opened_queue ex ''/admin/payouts?status='') = Some [(''status'', [])]"
    using opened_status [of "[]" ex] by (simp add: queue_page_def Let_def readQueueStatus_def queue_filter_def)
  show ?thesis
    using all empty tab [of PENDING_REVIEW] tab [of APPROVED] tab [of PAID] tab [of REJECTED] tab [of FAILED]
    by (simp add: queue_tabs_def)
qed

lemma uuid_unreserved: "is_uuid s \<Longrightarrow> list_all form_unreserved s"
proof -
  have hex: "is_hex c \<Longrightarrow> form_unreserved c" for c
    by (auto simp: is_hex_def is_digit_def form_unreserved_def Let_def)
  have "c = CHR ''-'' \<or> (\<exists>t\<in>set (split_on CHR ''-'' s). c \<in> set t)" if "c \<in> set s" for c
    using split_on_chars [OF that, of "CHR ''-''"] by blast
  moreover have dash: "form_unreserved CHR ''-''" by (simp add: form_unreserved_def code_unit_def)
  moreover assume "is_uuid s"
  then have "\<forall>t\<in>set (split_on CHR ''-'' s). \<forall>c\<in>set t. is_hex c" by (simp add: is_uuid_def list_all_iff)
  ultimately show ?thesis using hex unfolding list_all_iff by blast
qed

text \<open>C00. The "All withdrawals" button of an account shows everybody's withdrawals: the queue page does not
  read the \<open>userId\<close> the button puts into its address, so what it asks the API for names no account. The
  button next to it, to the account's held conversions, keeps the account.\<close>

theorem account_withdrawals_show_everyone:
  assumes "is_uuid accountId"
  shows "map_option lpParams (opened_queue ex (account_withdrawals_link accountId)) = Some [(''limit'', ''25'')]
    \<and> map_option lpParams (opens (held_page ex) (Some (account_held_link accountId)))
      = Some [(''limit'', ''10''), (''userId'', accountId)]"
proof -
  have "list_all form_unreserved accountId" using assms by (rule uuid_unreserved)
  then have q: "opened_queue ex (account_withdrawals_link accountId) = Some (queue_page ex [(''status'', []), (''userId'', accountId)])"
    and h: "opens (held_page ex) (Some (account_held_link accountId)) = Some (held_page ex [(''userId'', accountId)])"
    using opened_link [of "''/admin/payouts''" "[(''status'', []), (''userId'', accountId)]" "queue_page ex"]
      opened_link [of "''/admin/fraud''" "[(''userId'', accountId)]" "held_page ex"]
    by (simp_all add: opened_queue_def account_withdrawals_link_def account_held_link_def form_unreserved_def code_unit_def)
  have "decimal 25 = ''25''" "decimal 10 = ''10''" by code_simp+
  then show ?thesis
    using assms uuid_length [OF assms] unfolding q h
    by (auto simp: queue_page_def held_page_def Let_def readQueueStatus_def queue_filter_def readUserId_def set_filters_def
        limited_def offset_params_def url_offset_def readOffset_def)
qed

lemma account_withdrawals_show_everyone_witness:
  "map_option lpParams (opened_queue (\<lambda>_. []) (account_withdrawals_link ''7b1f0c2e-9d54-4c1a-8e3f-6a2b9d0c4e51''))
    = Some [(''limit'', ''25'')]"
proof -
  have "is_uuid ''7b1f0c2e-9d54-4c1a-8e3f-6a2b9d0c4e51''" by code_simp
  then show ?thesis using account_withdrawals_show_everyone by blast
qed

section \<open>The bounds of the withdrawal form\<close>

text \<open>The amounts the withdrawal form offers are the ones the API grants: between the configured
  minimum and the form's upper bound (the configured maximum or the available points, whichever is less)
  the API never answers that the amount is out of range or the balance insufficient, and outside of them
  every request is refused.\<close>

theorem withdraw_bounds_are_the_apis:
  fixes n :: int
  shows "if optMinimumPoints (options provider c) \<le> n
        \<and> n \<le> effectiveMax (Some (options provider c)) (Some (getBalance (poLedger s) (sbUserId input)))
     then submit provider c s payoutId lockId now (input\<lparr>sbAmountPoints := of_int n\<rparr>)
        \<notin> {Inl (DomainError PAYOUT_AMOUNT_OUT_OF_RANGE 422), Inl (DomainError REWARD_INSUFFICIENT_BALANCE 409)}
     else \<exists>e. submit provider c s payoutId lockId now (input\<lparr>sbAmountPoints := of_int n\<rparr>) = Inl e"
proof -
  have whole: "of_int \<lfloor>(of_int n :: rat)\<rfloor> = (of_int n :: rat)" by simp
  show ?thesis
    using whole
    by (auto simp: submit_def submit_checks_def options_def effectiveMax_def Let_def lockPoints_def requirePositive_def
        lockBalance_def normalizeDestination_def assertWithinDailyCap_def getBalance_def toBalance_def writeMovement_def
        split: option.splits sum.splits if_splits)
qed

end
