(* ===== verification/Environment.thy ===== *)
theory Environment
  imports JsNumber AuthController
begin

text \<open>
  The process environment (\<^verbatim>\<open>core/config/env.schema.ts\<close>) and what is built from it. A
  variable is absent or a text. Every field is read by a function that answers its value or its
  problem, a path with a message; only the first problem of a field is kept, and the cross-field
  rules run once every field is well-formed. Arguments: \<open>zod\<close>'s URL check (which hands on the
  address it accepted) and its own messages, and the origin \<open>new URL\<close> reads from an address.
\<close>

type_synonym variables = "string \<Rightarrow> string option"

type_synonym env_issue = "string \<times> string"

datatype node_env = Development | TestRun | Production

datatype app_role = Api | Worker

datatype env_log_level = LevelFatal | LevelError | LevelWarn | LevelInfo | LevelDebug | LevelTrace

record env =
  envNodeEnv :: node_env
  envAppRole :: app_role
  envPort :: int
  envDatabaseUrl :: string
  envDatabasePoolMax :: int
  envDatabaseConnectTimeout :: int
  envRedisUrl :: string
  envQueuePrefix :: string
  envJwtSecret :: string
  envClickSigningSecret :: string
  envTrustProxyHops :: int
  envJwtAccessTtlSeconds :: int
  envRefreshTtlDays :: int
  envPublicAppUrl :: string
  envSiteAddress :: "string option"
  envSmtpHost :: "string option"
  envSmtpPort :: int
  envSmtpUser :: "string option"
  envSmtpPassword :: "string option"
  envSmtpFrom :: "string option"
  envCookieSecure :: bool
  envCookieDomain :: "string option"
  envLogLevel :: env_log_level
  envLogPretty :: bool

section \<open>Fields\<close>

text \<open>What the schema library brings: its messages, and the URL check.\<close>

record zod =
  zdMessage :: "string \<Rightarrow> string"
  zdUrl :: "string \<Rightarrow> string option"

type_synonym 'a field = "env_issue + 'a"

definition enum_field :: "zod \<Rightarrow> variables \<Rightarrow> string \<Rightarrow> (string \<times> 'a) list \<Rightarrow> 'a \<Rightarrow> 'a field" where
  "enum_field z vars path choices dflt = (case vars path of
     None \<Rightarrow> Inr dflt
   | Some s \<Rightarrow> (case map_of choices s of Some v \<Rightarrow> Inr v | None \<Rightarrow> Inl (path, zdMessage z path)))"

text \<open>\<open>z.coerce.number().int()\<close> with its bounds; \<open>int\<close> admits the safe integers.\<close>

definition int_field :: "zod \<Rightarrow> variables \<Rightarrow> string \<Rightarrow> int \<Rightarrow> int option \<Rightarrow> int \<Rightarrow> int field" where
  "int_field z vars path least most dflt = (case vars path of
     None \<Rightarrow> Inr dflt
   | Some s \<Rightarrow> (case toNumber s of
         Some (Finite q) \<Rightarrow>
           if of_int \<lfloor>q\<rfloor> = q \<and> \<bar>\<lfloor>q\<rfloor>\<bar> < 2 ^ 53 \<and> least \<le> \<lfloor>q\<rfloor>
              \<and> (case most of None \<Rightarrow> True | Some m \<Rightarrow> \<lfloor>q\<rfloor> \<le> m) then Inr \<lfloor>q\<rfloor>
           else Inl (path, zdMessage z path)
       | _ \<Rightarrow> Inl (path, zdMessage z path)))"

definition connection_field :: "zod \<Rightarrow> variables \<Rightarrow> string \<Rightarrow> string list \<Rightarrow> string \<Rightarrow> string field" where
  "connection_field z vars path schemes refusal = (case vars path of
     None \<Rightarrow> Inl (path, zdMessage z path)
   | Some s \<Rightarrow> if s = [] then Inl (path, path @ '' is required'')
       else if list_ex (starts_with s) schemes then Inr s else Inl (path, refusal))"

definition secret_field :: "zod \<Rightarrow> variables \<Rightarrow> string \<Rightarrow> string field" where
  "secret_field z vars path = (case vars path of
     None \<Rightarrow> Inl (path, zdMessage z path)
   | Some s \<Rightarrow> if length s < 32 then Inl (path, path @ '' must be at least 32 characters'') else Inr s)"

definition prefix_field :: "zod \<Rightarrow> variables \<Rightarrow> string \<Rightarrow> string \<Rightarrow> string field" where
  "prefix_field z vars path dflt = (case vars path of
     None \<Rightarrow> Inr dflt
   | Some s \<Rightarrow> if s = [] \<or> 32 < length s then Inl (path, zdMessage z path)
       else if SLUG_PATTERN s then Inr s else Inl (path, path @ '' must be a lowercase slug''))"

definition without_trailing_slashes :: "string \<Rightarrow> string" where
  "without_trailing_slashes s = rev (dropWhile (\<lambda>c. c = CHR ''/'') (rev s))"

definition url_field :: "zod \<Rightarrow> variables \<Rightarrow> string \<Rightarrow> string \<Rightarrow> string field" where
  "url_field z vars path dflt = (case vars path of
     None \<Rightarrow> Inr (without_trailing_slashes dflt)
   | Some s \<Rightarrow> (case zdUrl z s of
         None \<Rightarrow> Inl (path, path @ '' must be an absolute URL'')
       | Some u \<Rightarrow> Inr (without_trailing_slashes u)))"

text \<open>An empty text counts as absent, so the length check never fails.\<close>

definition optionalSecret :: "variables \<Rightarrow> string \<Rightarrow> string option" where
  "optionalSecret vars path = truthy (vars path)"

definition problems_of :: "'a field \<Rightarrow> env_issue list" where
  "problems_of f = (case f of Inl e \<Rightarrow> [e] | Inr _ \<Rightarrow> [])"

definition flag_field :: "zod \<Rightarrow> variables \<Rightarrow> string \<Rightarrow> bool \<Rightarrow> bool field" where
  "flag_field z vars path dflt = enum_field z vars path [(''true'', True), (''false'', False)] dflt"

definition read_fields :: "zod \<Rightarrow> variables \<Rightarrow> env_issue list + env" where
  "read_fields z vars =
     (let nodeEnv = enum_field z vars ''NODE_ENV''
            [(''development'', Development), (''test'', TestRun), (''production'', Production)] Development;
          appRole = enum_field z vars ''APP_ROLE'' [(''api'', Api), (''worker'', Worker)] Api;
          port = int_field z vars ''PORT'' 1 None 3000;
          databaseUrl = connection_field z vars ''DATABASE_URL'' [''postgres://'', ''postgresql://'']
            ''DATABASE_URL must be a postgres:// or postgresql:// connection string'';
          poolMax = int_field z vars ''DATABASE_POOL_MAX'' 1 (Some 100) 10;
          connectTimeout = int_field z vars ''DATABASE_CONNECT_TIMEOUT'' 1 None 10;
          redisUrl = connection_field z vars ''REDIS_URL'' [''redis://'', ''rediss://'']
            ''REDIS_URL must be a redis:// or rediss:// connection string'';
          queuePrefix = prefix_field z vars ''QUEUE_PREFIX'' ''bull'';
          jwtSecret = secret_field z vars ''JWT_SECRET'';
          clickSecret = secret_field z vars ''CLICK_SIGNING_SECRET'';
          hops = int_field z vars ''TRUST_PROXY_HOPS'' 0 (Some 10) 0;
          accessTtl = int_field z vars ''JWT_ACCESS_TTL_SECONDS'' 1 None 900;
          refreshTtl = int_field z vars ''REFRESH_TTL_DAYS'' 1 None 30;
          appUrl = url_field z vars ''PUBLIC_APP_URL'' ''http://localhost:5173'';
          smtpPort = int_field z vars ''SMTP_PORT'' 1 (Some 65535) 587;
          secure = flag_field z vars ''COOKIE_SECURE'' True;
          level = enum_field z vars ''LOG_LEVEL'' [(''fatal'', LevelFatal), (''error'', LevelError), (''warn'', LevelWarn),
            (''info'', LevelInfo), (''debug'', LevelDebug), (''trace'', LevelTrace)] LevelInfo;
          pretty = flag_field z vars ''LOG_PRETTY'' False;
          problems = problems_of nodeEnv @ problems_of appRole @ problems_of port @ problems_of databaseUrl
            @ problems_of poolMax @ problems_of connectTimeout @ problems_of redisUrl @ problems_of queuePrefix
            @ problems_of jwtSecret @ problems_of clickSecret @ problems_of hops @ problems_of accessTtl
            @ problems_of refreshTtl @ problems_of appUrl @ problems_of smtpPort @ problems_of secure
            @ problems_of level @ problems_of pretty
      in if problems \<noteq> [] then Inl problems
         else Inr \<lparr>envNodeEnv = projr nodeEnv, envAppRole = projr appRole, envPort = projr port,
           envDatabaseUrl = projr databaseUrl, envDatabasePoolMax = projr poolMax,
           envDatabaseConnectTimeout = projr connectTimeout, envRedisUrl = projr redisUrl,
           envQueuePrefix = projr queuePrefix, envJwtSecret = projr jwtSecret, envClickSigningSecret = projr clickSecret,
           envTrustProxyHops = projr hops, envJwtAccessTtlSeconds = projr accessTtl, envRefreshTtlDays = projr refreshTtl,
           envPublicAppUrl = projr appUrl, envSiteAddress = optionalSecret vars ''SITE_ADDRESS'',
           envSmtpHost = optionalSecret vars ''SMTP_HOST'', envSmtpPort = projr smtpPort,
           envSmtpUser = optionalSecret vars ''SMTP_USER'', envSmtpPassword = optionalSecret vars ''SMTP_PASSWORD'',
           envSmtpFrom = optionalSecret vars ''SMTP_FROM'', envCookieSecure = projr secure,
           envCookieDomain = vars ''COOKIE_DOMAIN'', envLogLevel = projr level, envLogPretty = projr pretty\<rparr>)"

section \<open>Cross-field rules\<close>

definition is_letter :: "char \<Rightarrow> bool" where
  "is_letter c = (let n = code_unit c in 65 \<le> n \<and> n \<le> 90 \<or> 97 \<le> n \<and> n \<le> 122)"

text \<open>\<open>/^[a-z][a-z\d+.-]*:\/\//i\<close>\<close>

definition has_scheme :: "string \<Rightarrow> bool" where
  "has_scheme s = (let scheme = takeWhile (\<lambda>c. c \<noteq> CHR '':'') s; rest = dropWhile (\<lambda>c. c \<noteq> CHR '':'') s in
     scheme \<noteq> [] \<and> is_letter (hd scheme)
     \<and> list_all (\<lambda>c. is_letter c \<or> is_digit c \<or> c \<in> set ''+.-'') (tl scheme) \<and> starts_with rest ''://'')"

definition originOf :: "(string \<Rightarrow> string option) \<Rightarrow> string \<Rightarrow> string option" where
  "originOf urlOrigin site = (let absolute = (if has_scheme site then site else ''https://'' @ site) in
     case urlOrigin absolute of
       None \<Rightarrow> None
     | Some origin \<Rightarrow> if origin = ''null'' then None else Some origin)"

definition smtp_issues :: "env \<Rightarrow> env_issue list" where
  "smtp_issues e =
     (if envSmtpHost e \<noteq> None \<and> envSmtpFrom e = None
      then [(''SMTP_FROM'', ''SMTP_FROM is required when SMTP_HOST is set'')] else [])
   @ (if envSmtpHost e = None \<and> (envSmtpUser e \<noteq> None \<or> envSmtpPassword e \<noteq> None \<or> envSmtpFrom e \<noteq> None)
      then [(''SMTP_HOST'', ''SMTP_HOST is required when any other SMTP_* value is set'')] else [])
   @ (if (envSmtpUser e \<noteq> None) \<noteq> (envSmtpPassword e \<noteq> None)
      then [(''SMTP_PASSWORD'', ''SMTP_USER and SMTP_PASSWORD must be set together'')] else [])"

text \<open>The messages' explanations after the dash are left out.\<close>

definition address_issues :: "(string \<Rightarrow> string option) \<Rightarrow> env \<Rightarrow> env_issue list" where
  "address_issues urlOrigin e = (case envSiteAddress e of
     None \<Rightarrow> [(''SITE_ADDRESS'', ''SITE_ADDRESS is required in production'')]
   | Some site \<Rightarrow> (case (originOf urlOrigin site, originOf urlOrigin (envPublicAppUrl e)) of
         (None, _) \<Rightarrow> [(''SITE_ADDRESS'', ''SITE_ADDRESS must name one origin, so it can be compared with PUBLIC_APP_URL (got \"''
           @ site @ ''\")'')]
       | (Some _, None) \<Rightarrow> [(''PUBLIC_APP_URL'', ''PUBLIC_APP_URL must name one origin (got \"'' @ envPublicAppUrl e @ ''\")'')]
       | (Some siteOrigin, Some appOrigin) \<Rightarrow> if siteOrigin \<noteq> appOrigin
           then [(''PUBLIC_APP_URL'', ''PUBLIC_APP_URL and SITE_ADDRESS must be the same origin: Caddy serves '' @ siteOrigin
             @ '', PUBLIC_APP_URL says '' @ appOrigin @ ''. Every form submission would be rejected with 403'')] else []))"

definition production_issues :: "(string \<Rightarrow> string option) \<Rightarrow> env \<Rightarrow> env_issue list" where
  "production_issues urlOrigin e =
     (if envSmtpHost e = None then [(''SMTP_HOST'', ''SMTP_HOST is required in production'')] else [])
   @ (if \<not> envCookieSecure e then [(''COOKIE_SECURE'', ''COOKIE_SECURE must be true in production'')] else [])
   @ (if envLogPretty e then [(''LOG_PRETTY'', ''LOG_PRETTY must be false in production'')] else [])
   @ address_issues urlOrigin e"

definition refine_issues :: "(string \<Rightarrow> string option) \<Rightarrow> env \<Rightarrow> env_issue list" where
  "refine_issues urlOrigin e = smtp_issues e @ (if envNodeEnv e \<noteq> Production then [] else production_issues urlOrigin e)"

definition issue_line :: "env_issue \<Rightarrow> string" where
  "issue_line i = ''  - '' @ fst i @ '': '' @ snd i"

text \<open>The text of the error that is thrown, or the environment.\<close>

definition loadEnv :: "zod \<Rightarrow> (string \<Rightarrow> string option) \<Rightarrow> variables \<Rightarrow> string + env" where
  "loadEnv z urlOrigin source =
     (let refusal = (\<lambda>issues. ''Invalid environment configuration:'' @ CHR 10 # join_with [CHR 10] (map issue_line issues))
      in case read_fields z source of
           Inl issues \<Rightarrow> Inl (refusal issues)
         | Inr e \<Rightarrow> if refine_issues urlOrigin e \<noteq> [] then Inl (refusal (refine_issues urlOrigin e)) else Inr e)"

section \<open>What is built from the environment\<close>

datatype email_provider = SmtpEmailProvider | LoggingEmailProvider

definition resolveEmailProvider :: "env \<Rightarrow> email_provider" where
  "resolveEmailProvider e = (if envSmtpHost e \<noteq> None then SmtpEmailProvider else LoggingEmailProvider)"

record smtp_transport =
  stHost :: "string option"
  stPort :: int
  stSecure :: bool
  stAuth :: "(string \<times> string) option"

definition smtp_transport_of :: "env \<Rightarrow> smtp_transport" where
  "smtp_transport_of e = \<lparr>stHost = envSmtpHost e, stPort = envSmtpPort e, stSecure = (envSmtpPort e = 465),
     stAuth = (case (envSmtpUser e, envSmtpPassword e) of (Some u, Some p) \<Rightarrow> Some (u, p) | _ \<Rightarrow> None)\<rparr>"

fun email_subject :: "email_template \<Rightarrow> string" where
  "email_subject VERIFY_EMAIL = ''Confirm your email address''"
| "email_subject RESET_PASSWORD = ''Reset your password''"

definition paragraphs :: "string list \<Rightarrow> string" where
  "paragraphs ps = join_with [CHR 10, CHR 10] ps @ [CHR 10]"

fun email_body :: "email_template \<Rightarrow> string \<Rightarrow> string" where
  "email_body VERIFY_EMAIL url = paragraphs [''Welcome.'', ''Confirm your email address by opening this link:'', url,
     ''If you did not create an account, ignore this message.'']"
| "email_body RESET_PASSWORD url = paragraphs [''Someone asked to reset your password.'', ''Choose a new one here:'', url,
     ''If that was not you, ignore this message'']"

text \<open>What a provider hands to the mail server and what it leaves in the log.\<close>

record sent_mail =
  smFrom :: "string option"
  smTo :: string
  smSubject :: string
  smText :: string

record log_line =
  llFields :: "(string \<times> string) list"
  llMessage :: string

definition template_name :: "email_template \<Rightarrow> string" where
  "template_name t = (case t of VERIFY_EMAIL \<Rightarrow> ''verify-email'' | RESET_PASSWORD \<Rightarrow> ''reset-password'')"

definition send_email :: "env \<Rightarrow> email_message \<Rightarrow> sent_mail option \<times> log_line" where
  "send_email e m = (case resolveEmailProvider e of
     SmtpEmailProvider \<Rightarrow> (Some \<lparr>smFrom = envSmtpFrom e, smTo = emTo m, smSubject = email_subject (emTemplate m),
         smText = email_body (emTemplate m) (emUrl m)\<rparr>,
       \<lparr>llFields = [(''to'', emTo m), (''template'', template_name (emTemplate m))], llMessage = ''Email sent''\<rparr>)
   | LoggingEmailProvider \<Rightarrow> (None,
       \<lparr>llFields = [(''to'', emTo m), (''template'', template_name (emTemplate m)), (''url'', emUrl m)],
        llMessage = ''Email delivered to the log''\<rparr>))"

text \<open>The consumer of the notification queue: an unknown job throws, anything else is sent.\<close>

definition notification_process :: "env \<Rightarrow> string \<Rightarrow> string \<Rightarrow> string \<Rightarrow> (sent_mail option \<times> log_line) option" where
  "notification_process e jobName email token = map_option (send_email e) (build_email jobName (envPublicAppUrl e) email token)"

text \<open>The settings of the auth endpoints that come from the environment.\<close>

definition with_cookie_settings :: "env \<Rightarrow> controller \<Rightarrow> controller" where
  "with_cookie_settings e c = c\<lparr>ctCookieSecure := envCookieSecure e, ctCookieDomain := envCookieDomain e\<rparr>"

section \<open>A process that started\<close>

lemma problems_of_Nil: "problems_of f = [] \<longleftrightarrow> (\<exists>v. f = Inr v)"
  by (cases f) (auto simp: problems_of_def)

lemma int_field_bounds:
  assumes "int_field z vars path least most dflt = Inr v"
    and "least \<le> dflt" and "case most of None \<Rightarrow> True | Some m \<Rightarrow> dflt \<le> m" and "\<bar>dflt\<bar> < 2 ^ 53"
  shows "least \<le> v" and "case most of None \<Rightarrow> True | Some m \<Rightarrow> v \<le> m" and "\<bar>v\<bar> < 2 ^ 53"
  using assms by (auto simp: int_field_def split: option.splits js_number.splits if_splits)

lemma secret_field_length: "secret_field z vars path = Inr s \<Longrightarrow> 32 \<le> length s"
  by (auto simp: secret_field_def split: option.splits if_splits)

lemma connection_field_scheme:
  "connection_field z vars path schemes refusal = Inr s \<Longrightarrow> list_ex (starts_with s) schemes"
  by (auto simp: connection_field_def split: option.splits if_splits)

lemma prefix_field_slug:
  "prefix_field z vars path dflt = Inr s \<Longrightarrow> SLUG_PATTERN dflt \<Longrightarrow> dflt \<noteq> [] \<Longrightarrow> length dflt \<le> 32
    \<Longrightarrow> SLUG_PATTERN s \<and> s \<noteq> [] \<and> length s \<le> 32"
  by (auto simp: prefix_field_def split: option.splits if_splits)

lemma loadEnv_Inr:
  assumes "loadEnv z urlOrigin vars = Inr e"
  shows "read_fields z vars = Inr e" and "refine_issues urlOrigin e = []"
  using assms by (auto simp: loadEnv_def Let_def split: sum.splits if_splits)

text \<open>The environment is used as it was read: every field is its reader's value.\<close>

lemma read_fields_Inr:
  assumes "read_fields z vars = Inr e"
  shows "int_field z vars ''PORT'' 1 None 3000 = Inr (envPort e)"
    and "int_field z vars ''DATABASE_POOL_MAX'' 1 (Some 100) 10 = Inr (envDatabasePoolMax e)"
    and "int_field z vars ''DATABASE_CONNECT_TIMEOUT'' 1 None 10 = Inr (envDatabaseConnectTimeout e)"
    and "int_field z vars ''TRUST_PROXY_HOPS'' 0 (Some 10) 0 = Inr (envTrustProxyHops e)"
    and "int_field z vars ''JWT_ACCESS_TTL_SECONDS'' 1 None 900 = Inr (envJwtAccessTtlSeconds e)"
    and "int_field z vars ''REFRESH_TTL_DAYS'' 1 None 30 = Inr (envRefreshTtlDays e)"
    and "int_field z vars ''SMTP_PORT'' 1 (Some 65535) 587 = Inr (envSmtpPort e)"
    and "secret_field z vars ''JWT_SECRET'' = Inr (envJwtSecret e)"
    and "secret_field z vars ''CLICK_SIGNING_SECRET'' = Inr (envClickSigningSecret e)"
    and "prefix_field z vars ''QUEUE_PREFIX'' ''bull'' = Inr (envQueuePrefix e)"
    and "connection_field z vars ''DATABASE_URL'' [''postgres://'', ''postgresql://'']
      ''DATABASE_URL must be a postgres:// or postgresql:// connection string'' = Inr (envDatabaseUrl e)"
    and "connection_field z vars ''REDIS_URL'' [''redis://'', ''rediss://'']
      ''REDIS_URL must be a redis:// or rediss:// connection string'' = Inr (envRedisUrl e)"
  using assms unfolding read_fields_def Let_def
  by (auto simp: problems_of_Nil split: if_splits)

text \<open>A process that starts has a well-formed environment: ports, pool, timeouts and lifetimes are
  whole numbers in their ranges, the connection strings name the right services, both signing keys
  have 32 characters and the queue prefix is a slug of at most 32 characters.\<close>

theorem environment_is_well_formed:
  assumes "loadEnv z urlOrigin vars = Inr e"
  shows "1 \<le> envPort e \<and> 1 \<le> envSmtpPort e \<and> envSmtpPort e \<le> 65535
    \<and> 1 \<le> envDatabasePoolMax e \<and> envDatabasePoolMax e \<le> 100 \<and> 1 \<le> envDatabaseConnectTimeout e
    \<and> 0 \<le> envTrustProxyHops e \<and> envTrustProxyHops e \<le> 10
    \<and> 1 \<le> envJwtAccessTtlSeconds e \<and> 1 \<le> envRefreshTtlDays e
    \<and> 32 \<le> length (envJwtSecret e) \<and> 32 \<le> length (envClickSigningSecret e)
    \<and> (starts_with (envDatabaseUrl e) ''postgres://'' \<or> starts_with (envDatabaseUrl e) ''postgresql://'')
    \<and> (starts_with (envRedisUrl e) ''redis://'' \<or> starts_with (envRedisUrl e) ''rediss://'')
    \<and> SLUG_PATTERN (envQueuePrefix e) \<and> length (envQueuePrefix e) \<le> 32"
proof -
  note f = read_fields_Inr [OF loadEnv_Inr(1) [OF assms]]
  have "SLUG_PATTERN ''bull''" by code_simp
  then have "SLUG_PATTERN (envQueuePrefix e) \<and> length (envQueuePrefix e) \<le> 32"
    using prefix_field_slug [OF f(10)] by simp
  then show ?thesis
    using int_field_bounds [OF f(1)] int_field_bounds [OF f(2)] int_field_bounds [OF f(3)] int_field_bounds [OF f(4)]
      int_field_bounds [OF f(5)] int_field_bounds [OF f(6)] int_field_bounds [OF f(7)]
      secret_field_length [OF f(8)] secret_field_length [OF f(9)]
      connection_field_scheme [OF f(11)] connection_field_scheme [OF f(12)]
    by simp
qed

text \<open>C00. In production no credential travels by the wrong way: a process that starts there delivers
  every verification and reset link by mail, from the configured sender and on an origin that is the
  site's own, never through the log; the refresh cookie is \<open>Secure\<close>; and logs are not
  pretty-printed.\<close>

theorem production_links_go_by_mail:
  assumes "loadEnv z urlOrigin vars = Inr e" and "envNodeEnv e = Production"
    and "notification_process e jobName email token = Some (mail, line)"
  shows "\<exists>m. mail = Some m \<and> smFrom m = envSmtpFrom e \<and> smFrom m \<noteq> None \<and> smTo m = email
    \<and> ''url'' \<notin> fst ` set (llFields line)
    \<and> (\<exists>site origin. envSiteAddress e = Some site \<and> originOf urlOrigin site = Some origin
        \<and> originOf urlOrigin (envPublicAppUrl e) = Some origin)
    \<and> coSecure (buildRefreshCookieOptions (with_cookie_settings e c) expires) \<and> \<not> envLogPretty e"
proof -
  have ok: "smtp_issues e = []" "production_issues urlOrigin e = []"
    using loadEnv_Inr(2) [OF assms(1)] assms(2) by (simp_all add: refine_issues_def)
  have smtp: "envSmtpHost e \<noteq> None" "envSmtpFrom e \<noteq> None" "envCookieSecure e" "\<not> envLogPretty e"
      "address_issues urlOrigin e = []"
    using ok by (auto simp: smtp_issues_def production_issues_def split: if_splits)
  have origin: "\<exists>site origin. envSiteAddress e = Some site \<and> originOf urlOrigin site = Some origin
      \<and> originOf urlOrigin (envPublicAppUrl e) = Some origin"
    using smtp(5) by (auto simp: address_issues_def split: option.splits if_splits)
  obtain m where "build_email jobName (envPublicAppUrl e) email token = Some m" "send_email e m = (mail, line)" "emTo m = email"
    using assms(3) by (auto simp: notification_process_def build_email_def split: if_splits)
  then show ?thesis
    using smtp origin
    by (auto simp: send_email_def resolveEmailProvider_def buildRefreshCookieOptions_def with_cookie_settings_def)
qed

definition demo_variables :: variables where
  "demo_variables = map_of [(''NODE_ENV'', ''production''), (''DATABASE_URL'', ''postgres://db/gemone''),
     (''REDIS_URL'', ''redis://redis:6379''), (''JWT_SECRET'', replicate 32 (CHR ''j'')),
     (''CLICK_SIGNING_SECRET'', replicate 32 (CHR ''c'')), (''PUBLIC_APP_URL'', ''https://gemone.example/''),
     (''SITE_ADDRESS'', ''gemone.example''), (''SMTP_HOST'', ''smtp.example''), (''SMTP_FROM'', ''no-reply@gemone.example'')]"

definition demo_zod :: zod where
  "demo_zod = \<lparr>zdMessage = (\<lambda>_. ''Invalid input''), zdUrl = Some\<rparr>"

definition demo_environment :: env where
  "demo_environment = \<lparr>envNodeEnv = Production, envAppRole = Api, envPort = 3000, envDatabaseUrl = ''postgres://db/gemone'',
     envDatabasePoolMax = 10, envDatabaseConnectTimeout = 10, envRedisUrl = ''redis://redis:6379'', envQueuePrefix = ''bull'',
     envJwtSecret = replicate 32 (CHR ''j''), envClickSigningSecret = replicate 32 (CHR ''c''), envTrustProxyHops = 0,
     envJwtAccessTtlSeconds = 900, envRefreshTtlDays = 30, envPublicAppUrl = ''https://gemone.example'',
     envSiteAddress = Some ''gemone.example'', envSmtpHost = Some ''smtp.example'', envSmtpPort = 587,
     envSmtpUser = None, envSmtpPassword = None, envSmtpFrom = Some ''no-reply@gemone.example'', envCookieSecure = True,
     envCookieDomain = None, envLogLevel = LevelInfo, envLogPretty = False\<rparr>"

lemma demo_environment_starts: "loadEnv demo_zod Some demo_variables = Inr demo_environment"
  by code_simp

lemma environment_is_well_formed_witness:
  "loadEnv demo_zod Some demo_variables = Inr demo_environment \<and> envSmtpPort demo_environment \<le> 65535"
  using environment_is_well_formed [OF demo_environment_starts] demo_environment_starts by simp

lemma production_links_go_by_mail_witness:
  "\<exists>mail line. notification_process demo_environment ''password-reset-email'' ''u@x.example'' ''t0'' = Some (mail, line)
    \<and> mail \<noteq> None \<and> ''url'' \<notin> fst ` set (llFields line)"
proof -
  obtain mail line where n: "notification_process demo_environment ''password-reset-email'' ''u@x.example'' ''t0'' = Some (mail, line)"
    by (cases "send_email demo_environment (the (build_email ''password-reset-email'' (envPublicAppUrl demo_environment) ''u@x.example'' ''t0''))")
      (simp add: notification_process_def build_email_def)
  have "envNodeEnv demo_environment = Production" by (simp add: demo_environment_def)
  then show ?thesis
    using production_links_go_by_mail [OF demo_environment_starts _ n, where c = undefined and expires = 0] n by auto
qed

end
