(* ===== verification/Endpoints.thy ===== *)
theory Endpoints
  imports AuthController Conversions Environment
begin

text \<open>
  The smaller endpoints and processes around the services: the account endpoints
  (\<^verbatim>\<open>users.controller.ts\<close>), the public postback surface and the consumer of its queue
  (\<^verbatim>\<open>postbacks.controller.ts\<close>, \<^verbatim>\<open>postback-process.processor.ts\<close>), readiness
  (\<^verbatim>\<open>core/health\<close>), the worker's heartbeat, correlation ids (\<^verbatim>\<open>core/logging\<close>) and
  the script that provisions the first administrator.
\<close>

section \<open>The caller's own account\<close>

definition get_me :: "user list \<Rightarrow> principal \<Rightarrow> thrown + user_profile" where
  "get_me users who = (case findUser users (ppId who) of
     None \<Rightarrow> Inl (ThrownHttp 404 (TextPayload ''User not found'') ''User not found'')
   | Some u \<Rightarrow> Inr (toProfile u))"

definition update_me :: "user list \<Rightarrow> millis \<Rightarrow> principal \<Rightarrow> string option \<Rightarrow> (user_profile \<times> user list) result" where
  "update_me users now who loc = map_sum (\<lambda>e. e) (\<lambda>(u, rows). (toProfile u, rows)) (updateProfile users now (ppId who) loc)"

text \<open>\<open>changePassword\<close> up to the stored hash, and the whole of it: the hash and the sessions are two
  statements, each committed on its own.\<close>

definition change_password_store :: "auth_ports \<Rightarrow> auth_state \<Rightarrow> millis \<Rightarrow> principal \<Rightarrow> string \<Rightarrow> string \<Rightarrow> auth_state result" where
  "change_password_store ports s now who current_password new_password =
     (case requireUser (usUsers (asUsers s)) (ppId who) of
        Inl e \<Rightarrow> Inl e
      | Inr u \<Rightarrow>
          if \<not> verify_password (apHasher ports) (usPasswordHash u) current_password then Inl invalidCredentials
          else (case hash_password (apHasher ports) new_password of
              Inl e \<Rightarrow> Inl e
            | Inr h \<Rightarrow> (case updatePasswordHash (usUsers (asUsers s)) now (usId u) h of
                Inl e \<Rightarrow> Inl e
              | Inr (_, rows) \<Rightarrow> Inr (s\<lparr>asUsers := (asUsers s)\<lparr>usUsers := rows\<rparr>\<rparr>))))"

definition change_password_revoke :: "auth_state \<Rightarrow> millis \<Rightarrow> principal \<Rightarrow> auth_state" where
  "change_password_revoke s now who = s\<lparr>asTokens := snd (revokeAllForUser (asTokens s) now (ppId who) BY_LOGOUT)\<rparr>"

definition changePassword :: "auth_ports \<Rightarrow> auth_state \<Rightarrow> millis \<Rightarrow> millis \<Rightarrow> principal \<Rightarrow> string \<Rightarrow> string
    \<Rightarrow> auth_state \<times> unit result" where
  "changePassword ports s now later who current_password new_password =
     (case change_password_store ports s now who current_password new_password of
        Inl e \<Rightarrow> (s, Inl e)
      | Inr s1 \<Rightarrow> (change_password_revoke s1 later who, Inr ()))"

section \<open>Postbacks\<close>

text \<open>A body that was not sent is \<open>null\<close> here.\<close>

definition receive_postback :: "intake_env \<Rightarrow> intake_state \<Rightarrow> string \<Rightarrow> string \<Rightarrow> (string \<times> query_value) list \<Rightarrow> json option
    \<Rightarrow> string option \<Rightarrow> (string \<times> query_value) list \<Rightarrow> string option \<Rightarrow> intake_state \<times> acknowledgement result" where
  "receive_postback env s slug verb query body rawBody headers ip =
     receive env s \<lparr>evProviderSlug = js_lower (js_trim slug), evMethod = verb, evQuery = query,
       evBody = (case body of None \<Rightarrow> JNull | Some j \<Rightarrow> j), evRawBody = rawBody, evHeaders = headers, evSourceIp = ip\<rparr>"

text \<open>The queue's consumer: an unknown job throws (\<open>None\<close>), and so fails, instead of completing.\<close>

definition process_postback_job :: "conv_env \<Rightarrow> conv_state \<Rightarrow> string \<Rightarrow> id \<Rightarrow> conv_state \<times> processing_result result option" where
  "process_postback_job env s jobName postbackId =
     (if jobName \<noteq> ''postback-process'' then (s, None)
      else (case process env s postbackId of (s', r) \<Rightarrow> (s', Some r)))"

section \<open>Readiness\<close>

text \<open>What a check answers when it is asked, or that it threw.\<close>

datatype probe = Answers bool | Throws

type_synonym readiness_checks = "(string \<times> probe) list"

definition register_check :: "readiness_checks \<Rightarrow> string \<Rightarrow> probe \<Rightarrow> readiness_checks" where
  "register_check checks name p = (if name \<in> fst ` set checks then checks else checks @ [(name, p)])"

definition registeredChecks :: "readiness_checks \<Rightarrow> string list" where
  "registeredChecks checks = map fst checks"

definition isReady :: "readiness_checks \<Rightarrow> bool" where
  "isReady checks = (if checks = [] then True
     else filter (\<lambda>(_, p). (case p of Answers b \<Rightarrow> b | Throws \<Rightarrow> False) = False) checks = [])"

definition readiness :: "readiness_checks \<Rightarrow> nat \<times> string" where
  "readiness checks = (if isReady checks then (200, ''ready'') else (503, ''not_ready''))"

definition liveness :: "nat \<times> string" where
  "liveness = (200, ''ok'')"

text \<open>The database's own check asks only once the connection is up; \<open>pong\<close> is the round trip.\<close>

definition database_probe :: "bool \<Rightarrow> bool option \<Rightarrow> probe" where
  "database_probe isConnected pong = Answers (isConnected \<and> pong \<noteq> None)"

definition redis_probe :: "string option \<Rightarrow> probe" where
  "redis_probe reply = Answers (reply = Some ''PONG'')"

section \<open>The worker's heartbeat\<close>

definition INTERVAL_MS :: int where
  "INTERVAL_MS = 15000"

definition HEARTBEAT_TTL_SECONDS :: int where
  "HEARTBEAT_TTL_SECONDS = 60"

text \<open>The key in Redis, by the moment it expires; a beat that cannot be written changes nothing.\<close>

definition beat :: "millis \<Rightarrow> bool \<Rightarrow> millis option \<Rightarrow> millis option" where
  "beat now written key = (if written then Some (now + HEARTBEAT_TTL_SECONDS * 1000) else key)"

definition worker_healthy :: "millis \<Rightarrow> millis option \<Rightarrow> bool" where
  "worker_healthy now key = (case key of None \<Rightarrow> False | Some expires \<Rightarrow> now < expires)"

text \<open>One beat at the start, then one every interval; the list says which of them were written.\<close>

fun beats :: "millis \<Rightarrow> bool list \<Rightarrow> millis option \<Rightarrow> millis option" where
  "beats now [] key = key"
| "beats now (w # ws) key = beats (now + INTERVAL_MS) ws (beat now w key)"

section \<open>Correlation ids\<close>

definition word_char :: "char \<Rightarrow> bool" where
  "word_char c \<longleftrightarrow> is_letter c \<or> is_digit c \<or> c = CHR ''_''"

text \<open>\<open>/[^\w.-]/g\<close> removed, 128 characters kept; a repeated header counts with its first value.\<close>

definition sanitize :: "string list \<Rightarrow> string option" where
  "sanitize header = (case header of
     [] \<Rightarrow> None
   | raw # _ \<Rightarrow> truthy (Some (take 128 (filter (\<lambda>c. word_char c \<or> c = CHR ''.'' \<or> c = CHR ''-'') raw))))"

text \<open>The id, and what is stashed on the request.\<close>

definition getCorrelationId :: "string \<Rightarrow> string list \<Rightarrow> string option \<Rightarrow> string \<times> string option" where
  "getCorrelationId fresh header stashed = (case truthy stashed of
     Some i \<Rightarrow> (i, stashed)
   | None \<Rightarrow> let i = (case sanitize header of Some x \<Rightarrow> x | None \<Rightarrow> fresh) in (i, Some i))"

definition customLogLevel :: "nat \<Rightarrow> bool \<Rightarrow> log_level" where
  "customLogLevel status threw = (if threw then LOG_ERROR else if status \<ge> 500 then LOG_ERROR else LOG_INFO)"

section \<open>The first administrator\<close>

text \<open>\<open>provisionAdmin\<close>: an existing account is promoted, a new one is created through the service and
  then promoted; the clock of the update is the database's.\<close>

definition promote :: "users_state \<Rightarrow> millis \<Rightarrow> id \<Rightarrow> users_state result" where
  "promote s now i = map_sum (\<lambda>e. e) (\<lambda>(_, rows). s\<lparr>usUsers := rows\<rparr>)
     (update_user (usUsers s) i (\<lambda>u. u\<lparr>usRole := ROLE_ADMIN, usUpdatedAt := now\<rparr>))"

definition provisionAdmin :: "password_hasher \<Rightarrow> users_state \<Rightarrow> id \<times> id \<Rightarrow> millis \<Rightarrow> string \<Rightarrow> string
    \<Rightarrow> (id \<times> bool \<times> users_state) result" where
  "provisionAdmin hasher s ids now email password =
     (case findUserByEmail (usUsers s) email of
        Some existing \<Rightarrow> map_sum (\<lambda>e. e) (\<lambda>s'. (usId existing, False, s')) (promote s now (usId existing))
      | None \<Rightarrow> (case hash_password hasher password of
          Inl e \<Rightarrow> Inl e
        | Inr h \<Rightarrow> (case createUser s (fst ids) (snd ids) now \<lparr>cxEmail = email, cxPasswordHash = h,
              cxRegistrationIp = None, cxRegistrationCountry = None, cxLocale = None\<rparr> of
            Inl e \<Rightarrow> Inl e
          | Inr (u, s1) \<Rightarrow> map_sum (\<lambda>e. e) (\<lambda>s'. (usId u, True, s')) (promote s1 now (usId u)))))"

section \<open>The web process\<close>

text \<open>\<open>None\<close>: it throws, there is no default.\<close>

definition apiBaseUrl :: "variables \<Rightarrow> string option" where
  "apiBaseUrl vars = map_option without_trailing_slashes (truthy (vars ''API_URL''))"

definition useSecureCookies :: "variables \<Rightarrow> bool" where
  "useSecureCookies vars \<longleftrightarrow> vars ''NODE_ENV'' = Some ''production''"

end
