(* ===== verification/EndpointProps.thy ===== *)
theory EndpointProps
  imports Endpoints Routes AuthProps
begin

text \<open>
  What the endpoints and processes around the services guarantee, and where the two statements of a
  password change leave a gap.
\<close>

section \<open>Changing the password\<close>

lemma changePassword_Inr:
  assumes "changePassword ports s now later who current_password new_password = (s', Inr ())"
  obtains u where "findUser (usUsers (asUsers s)) (ppId who) = Some u" "usId u = ppId who"
    "verify_password (apHasher ports) (usPasswordHash u) current_password" "12 \<le> length new_password" "length new_password \<le> 256"
    "s' = s\<lparr>asUsers := (asUsers s)\<lparr>usUsers := update_where (\<lambda>x. usId x = ppId who)
        (\<lambda>u. u\<lparr>usPasswordHash := pwHash (apHasher ports) new_password, usUpdatedAt := now\<rparr>) (usUsers (asUsers s))\<rparr>,
      asTokens := snd (revokeAllForUser (asTokens s) later (ppId who) BY_LOGOUT)\<rparr>"
proof -
  obtain s1 where s1: "change_password_store ports s now who current_password new_password = Inr s1"
      "s' = change_password_revoke s1 later who"
    using assms by (auto simp: changePassword_def split: sum.splits)
  then obtain u x rows where u: "findUser (usUsers (asUsers s)) (ppId who) = Some u"
      "verify_password (apHasher ports) (usPasswordHash u) current_password" "12 \<le> length new_password" "length new_password \<le> 256"
      "updatePasswordHash (usUsers (asUsers s)) now (usId u) (pwHash (apHasher ports) new_password) = Inr (x, rows)"
      "s1 = s\<lparr>asUsers := (asUsers s)\<lparr>usUsers := rows\<rparr>\<rparr>"
    by (auto simp: change_password_store_def requireUser_def hash_password_def assertMeetsPolicy_def
        split: sum.splits option.splits if_splits)
  have i: "usId u = ppId who" using u(1) by (auto simp: findUser_def dest: find_SomeD)
  have "rows = update_where (\<lambda>x. usId x = ppId who)
      (\<lambda>u. u\<lparr>usPasswordHash := pwHash (apHasher ports) new_password, usUpdatedAt := now\<rparr>) (usUsers (asUsers s))"
    using update_user_Inr [OF u(5) [unfolded updatePasswordHash_def]] i by simp
  then show thesis using that u i s1(2) by (simp add: change_password_revoke_def)
qed

text \<open>Changing the password takes the current one and leaves no session behind: when it succeeds the
  stored hash is the new password's and no session of the account is alive, while every other
  account's sessions are as they were; a wrong current password, or a new one outside the policy,
  changes nothing.\<close>

theorem change_password_ends_sessions:
  assumes "changePassword ports s now later who current_password new_password = (s', r)"
  shows "case r of
      Inl _ \<Rightarrow> s' = s
    | Inr _ \<Rightarrow> (\<exists>u\<in>set (usUsers (asUsers s)). usId u = ppId who
          \<and> verify_password (apHasher ports) (usPasswordHash u) current_password)
        \<and> 12 \<le> length new_password \<and> length new_password \<le> 256
        \<and> (\<forall>u\<in>set (usUsers (asUsers s')). usId u = ppId who \<longrightarrow> usPasswordHash u = pwHash (apHasher ports) new_password)
        \<and> (\<forall>t\<in>set (asTokens s'). rtUserId t = ppId who \<longrightarrow> \<not> live t)
        \<and> filter (\<lambda>t. rtUserId t \<noteq> ppId who) (asTokens s') = filter (\<lambda>t. rtUserId t \<noteq> ppId who) (asTokens s)"
proof (cases r)
  case (Inl e)
  then show ?thesis using assms by (auto simp: changePassword_def split: sum.splits)
next
  case (Inr x)
  have others: "filter (\<lambda>t. rtUserId t \<noteq> i) (update_where (\<lambda>t. rtUserId t = i \<and> rtRevokedAt t = None) f rows)
      = filter (\<lambda>t. rtUserId t \<noteq> i) rows" if "\<And>t. rtUserId (f t) = rtUserId t" for i f rows
    using that by (induction rows) auto
  from assms Inr have "changePassword ports s now later who current_password new_password = (s', Inr ())" by simp
  then show ?thesis
  proof (rule changePassword_Inr)
    fix u
    assume u: "findUser (usUsers (asUsers s)) (ppId who) = Some u" "usId u = ppId who"
        "verify_password (apHasher ports) (usPasswordHash u) current_password" "12 \<le> length new_password" "length new_password \<le> 256"
      and s': "s' = s\<lparr>asUsers := (asUsers s)\<lparr>usUsers := update_where (\<lambda>x. usId x = ppId who)
        (\<lambda>u. u\<lparr>usPasswordHash := pwHash (apHasher ports) new_password, usUpdatedAt := now\<rparr>) (usUsers (asUsers s))\<rparr>,
        asTokens := snd (revokeAllForUser (asTokens s) later (ppId who) BY_LOGOUT)\<rparr>"
    have "u \<in> set (usUsers (asUsers s))" using u(1) by (auto simp: findUser_def dest: find_SomeD)
    moreover have "\<forall>t\<in>set (asTokens s'). rtUserId t = ppId who \<longrightarrow> \<not> live t"
      by (auto simp: s' revokeAllForUser_def set_update_where mark_revoked_def live_def)
    moreover have "filter (\<lambda>t. rtUserId t \<noteq> ppId who) (asTokens s') = filter (\<lambda>t. rtUserId t \<noteq> ppId who) (asTokens s)"
      by (simp add: s' revokeAllForUser_def others mark_revoked_def)
    moreover have "\<forall>x\<in>set (usUsers (asUsers s')). usId x = ppId who \<longrightarrow> usPasswordHash x = pwHash (apHasher ports) new_password"
      by (auto simp: s' set_update_where)
    ultimately show ?thesis using Inr u by auto
  qed
qed

text \<open>The two halves of a login: what it verifies, and the session it then opens.\<close>

definition login_verified :: "auth_ports \<Rightarrow> auth_state \<Rightarrow> string \<Rightarrow> string \<Rightarrow> user \<Rightarrow> bool" where
  "login_verified ports s email password u \<longleftrightarrow> findUserByEmail (usUsers (asUsers s)) email = Some u
     \<and> verify_password (apHasher ports) (usPasswordHash u) password \<and> isActiveUser u"

lemma login_halves:
  assumes "reserveAttempt (apAccountLimit ports) (apIpLimit ports) (scxIp ctx) accountReply ipReply = Inr ()"
    and "login_verified ports s email password u"
  shows "snd (login ports s now fresh familyId accountReply ipReply email password ctx) = open_session ports s now fresh familyId u ctx"
  using assms by (auto simp: login_def Let_def login_verified_def)

text \<open>A sign-in that overlaps with a password change outlives it: its password check passed against
  the old hash before the change, it opens its session after the change has ended them all, and that
  session is alive although its password no longer verifies. (One that had not started earlier would
  be refused.)\<close>

theorem sign_in_outlives_password_change:
  assumes "login_verified ports s email old_password u" and "ppId who = usId u"
    and "changePassword ports s now later who old_password new_password = (s1, Inr ())"
    and "open_session ports s1 after fresh familyId u ctx = (s2, Inr (profile, session))"
    and "\<not> verify_password (apHasher ports) (pwHash (apHasher ports) new_password) old_password"
  shows "(\<exists>t\<in>set (asTokens s2). rtUserId t = usId u \<and> live t \<and> rtTokenHash t = tvHash (apEnv ports) (isRefreshToken session))
    \<and> (\<forall>x\<in>set (usUsers (asUsers s2)). usId x = usId u \<longrightarrow> \<not> verify_password (apHasher ports) (usPasswordHash x) old_password)"
proof -
  obtain tokens where t: "issueSession (apEnv ports) (asTokens s1) after fresh familyId (usId u) (usRole u) ctx = Inr (session, tokens)"
      "s2 = s1\<lparr>asTokens := tokens\<rparr>"
    using assms(4) by (auto simp: open_session_def split: sum.splits)
  then have "\<exists>t\<in>set tokens. rtUserId t = usId u \<and> live t \<and> rtTokenHash t = tvHash (apEnv ports) (isRefreshToken session)"
    by (auto simp: issueSession_def issueInFamily_def Let_def live_def split: if_splits)
  moreover have "usPasswordHash x = pwHash (apHasher ports) new_password" if "x \<in> set (usUsers (asUsers s1))" "usId x = usId u" for x
    using assms(3)
  proof (rule changePassword_Inr)
    assume "s1 = s\<lparr>asUsers := (asUsers s)\<lparr>usUsers := update_where (\<lambda>x. usId x = ppId who)
        (\<lambda>u. u\<lparr>usPasswordHash := pwHash (apHasher ports) new_password, usUpdatedAt := now\<rparr>) (usUsers (asUsers s))\<rparr>,
        asTokens := snd (revokeAllForUser (asTokens s) later (ppId who) BY_LOGOUT)\<rparr>"
    then show ?thesis using that assms(2) by (auto simp: set_update_where)
  qed
  ultimately show ?thesis using t(2) assms(5) by auto
qed

section \<open>The worker's heartbeat\<close>

lemma beats_healthy:
  assumes "\<And>e. key = Some e \<Longrightarrow> e \<le> now + 60000"
  shows "worker_healthy t (beats now ws key)
    \<longleftrightarrow> (\<exists>i<length ws. ws ! i \<and> t < now + int i * 15000 + 60000) \<or> worker_healthy t key"
  using assms
proof (induction ws arbitrary: now key)
  case (Cons w ws)
  have split: "(\<exists>i<length (w # ws). (w # ws) ! i \<and> t < now + int i * 15000 + 60000)
      \<longleftrightarrow> w \<and> t < now + 60000 \<or> (\<exists>i<length ws. ws ! i \<and> t < (now + INTERVAL_MS) + int i * 15000 + 60000)"
    by (auto simp: less_Suc_eq_0_disj INTERVAL_MS_def algebra_simps)
  have "worker_healthy t (beats now (w # ws) key)
      \<longleftrightarrow> (\<exists>i<length ws. ws ! i \<and> t < (now + INTERVAL_MS) + int i * 15000 + 60000) \<or> worker_healthy t (beat now w key)"
    unfolding beats.simps
    by (rule Cons.IH) (use Cons.prems in \<open>force simp: beat_def INTERVAL_MS_def HEARTBEAT_TTL_SECONDS_def split: if_splits\<close>)
  moreover have "worker_healthy t (beat now w key) \<longleftrightarrow> w \<and> t < now + 60000 \<or> \<not> w \<and> worker_healthy t key"
    by (auto simp: beat_def worker_healthy_def HEARTBEAT_TTL_SECONDS_def)
  ultimately show ?case
    unfolding split using Cons.prems by (cases key) (force simp: worker_healthy_def)+
qed simp

text \<open>The worker's health check is its recent past: after a run of beats, one every 15 seconds, each
  written or not, the check passes at a moment if and only if some beat written in the 60 seconds
  before it; three missed beats in a row are tolerated, and a worker that stops is found out within a
  minute.\<close>

theorem worker_health_is_recent_beats:
  "worker_healthy t (beats start ws None)
    \<longleftrightarrow> (\<exists>i<length ws. ws ! i \<and> t - (start + int i * INTERVAL_MS) < HEARTBEAT_TTL_SECONDS * 1000)"
  unfolding beats_healthy [of None start t ws, simplified]
  by (auto simp: worker_healthy_def INTERVAL_MS_def HEARTBEAT_TTL_SECONDS_def algebra_simps)

section \<open>Correlation ids\<close>

text \<open>A correlation id cannot inject into a log: whatever header a caller sends, the id the request
  is logged under is the process's own fresh one, or 1 to 128 characters that are letters, digits,
  underscores, dots and dashes; and it stays the same for the rest of the request.\<close>

theorem correlation_ids_are_harmless:
  assumes "getCorrelationId fresh header None = (i, stashed)" and "fresh \<noteq> []"
  shows "(i = fresh \<or> 1 \<le> length i \<and> length i \<le> 128 \<and> list_all (\<lambda>c. word_char c \<or> c = CHR ''.'' \<or> c = CHR ''-'') i)
    \<and> getCorrelationId other header2 stashed = (i, stashed)"
proof -
  have "list_all (\<lambda>c. word_char c \<or> c = CHR ''.'' \<or> c = CHR ''-'') x \<and> 1 \<le> length x \<and> length x \<le> 128" if "sanitize header = Some x" for x
    using that by (cases header) (auto simp: sanitize_def truthy_def list_all_iff Suc_le_eq dest!: in_set_takeD split: if_splits list.splits)
  then have "(i = fresh \<or> 1 \<le> length i \<and> length i \<le> 128 \<and> list_all (\<lambda>c. word_char c \<or> c = CHR ''.'' \<or> c = CHR ''-'') i)
      \<and> i \<noteq> [] \<and> stashed = Some i"
    using assms by (auto simp: getCorrelationId_def truthy_def Let_def split: option.splits)
  then show ?thesis by (auto simp: getCorrelationId_def truthy_def split: list.splits)
qed

section \<open>The first administrator\<close>

lemma promote_Inr:
  assumes "promote s now i = Inr s'"
  shows "usUsers s' = update_where (\<lambda>u. usId u = i) (\<lambda>u. u\<lparr>usRole := ROLE_ADMIN, usUpdatedAt := now\<rparr>) (usUsers s)"
  using assms by (auto simp: promote_def map_sum_def dest: update_user_Inr split: sum.splits)

lemma promote_total: "u \<in> set (usUsers s) \<Longrightarrow> \<exists>s'. promote s now (usId u) = Inr s'"
  by (auto simp: promote_def update_user_def findUser_def find_None_iff split: option.splits)

lemma promoted_by_email:
  assumes "promote s now (usId u) = Inr s'" and "findUserByEmail (usUsers s) email = Some u"
  shows "findUserByEmail (usUsers s') email = Some (u\<lparr>usRole := ROLE_ADMIN, usUpdatedAt := now\<rparr>)"
  using assms(2) unfolding promote_Inr [OF assms(1)] findUserByEmail_def by (subst find_update_where) simp_all

text \<open>Provisioning leaves an administrator and is idempotent: the account with that address is an
  administrator afterwards and nobody else's row has changed; run again it promotes the same account
  and creates nothing.\<close>

theorem provisioned_account_is_admin:
  assumes "provisionAdmin hasher s ids now email password = Inr (i, created, s')"
  shows "(\<exists>u. findUserByEmail (usUsers s') email = Some u \<and> usId u = i \<and> usRole u = ROLE_ADMIN)
    \<and> (created \<longleftrightarrow> findUserByEmail (usUsers s) email = None)
    \<and> filter (\<lambda>u. usId u \<noteq> i) (usUsers s') = filter (\<lambda>u. usId u \<noteq> i) (usUsers s)
    \<and> (\<exists>s2. provisionAdmin hasher s' ids2 now2 email password2 = Inr (i, False, s2))"
proof -
  have others: "filter (\<lambda>u. usId u \<noteq> i) (update_where (\<lambda>u. usId u = i) (\<lambda>u. u\<lparr>usRole := ROLE_ADMIN, usUpdatedAt := now\<rparr>) rows)
      = filter (\<lambda>u. usId u \<noteq> i) rows" for rows
    by (induction rows) auto
  obtain u s1 where u: "findUserByEmail (usUsers s1) email = Some u" "usId u = i" "promote s1 now i = Inr s'"
      "created \<longleftrightarrow> findUserByEmail (usUsers s) email = None"
      "filter (\<lambda>u. usId u \<noteq> i) (usUsers s1) = filter (\<lambda>u. usId u \<noteq> i) (usUsers s)"
  proof (cases "findUserByEmail (usUsers s) email")
    case (Some u)
    then show thesis using assms that [of s u] by (auto simp: provisionAdmin_def map_sum_def split: sum.splits)
  next
    case None
    then obtain h u s1 where c: "createUser s (fst ids) (snd ids) now \<lparr>cxEmail = email, cxPasswordHash = h,
          cxRegistrationIp = None, cxRegistrationCountry = None, cxLocale = None\<rparr> = Inr (u, s1)"
        "promote s1 now (usId u) = Inr s'" "i = usId u" "created"
      using assms by (auto simp: provisionAdmin_def map_sum_def split: sum.splits)
    then have "usUsers s1 = usUsers s @ [u]" "usEmail u = normalizeEmail email"
      by (auto simp: createUser_def Let_def new_user_def split: if_splits)
    then show thesis
      using that [of s1 u] None c by (auto simp: findUserByEmail_def find_append)
  qed
  have p: "promote s1 now (usId u) = Inr s'" using u(2,3) by simp
  let ?u = "u\<lparr>usRole := ROLE_ADMIN, usUpdatedAt := now\<rparr>"
  have f: "findUserByEmail (usUsers s') email = Some ?u"
    by (rule promoted_by_email [OF p u(1)])
  then have "?u \<in> set (usUsers s')" by (auto simp: findUserByEmail_def dest: find_SomeD)
  from promote_total [OF this, of now2] obtain s2 where "promote s' now2 i = Inr s2" using u(2) by auto
  then have "provisionAdmin hasher s' ids2 now2 email password2 = Inr (i, False, s2)"
    using f u(2) by (simp add: provisionAdmin_def)
  moreover have "filter (\<lambda>u. usId u \<noteq> i) (usUsers s') = filter (\<lambda>u. usId u \<noteq> i) (usUsers s)"
    unfolding promote_Inr [OF u(3)] others by (rule u(5))
  ultimately show ?thesis using f u(2,4) by auto
qed

section \<open>The claims at concrete inputs\<close>

definition demo_principal :: principal where
  "demo_principal = \<lparr>ppId = 4, ppEmail = ''a@b'', ppRole = ROLE_USER, ppStatus = ACTIVE\<rparr>"

lemma demo_change: "\<exists>s'. changePassword demo_ports demo_auth 5 6 demo_principal ''h'' ''twelve chars'' = (s', Inr ())"
  by (simp add: changePassword_def change_password_store_def requireUser_def findUser_def demo_auth_def demo_account_def
      demo_principal_def verify_password_def demo_ports_def hash_password_def assertMeetsPolicy_def updatePasswordHash_def
      update_user_def)

lemma change_password_ends_sessions_witness:
  "\<exists>s'. changePassword demo_ports demo_auth 5 6 demo_principal ''h'' ''twelve chars'' = (s', Inr ())
    \<and> (\<forall>t\<in>set (asTokens s'). rtUserId t = 4 \<longrightarrow> \<not> live t)"
proof -
  obtain s' where c: "changePassword demo_ports demo_auth 5 6 demo_principal ''h'' ''twelve chars'' = (s', Inr ())"
    using demo_change by blast
  then show ?thesis using change_password_ends_sessions [OF c] by (auto simp: demo_principal_def)
qed

lemma sign_in_outlives_password_change_witness:
  "\<exists>s1 s2 profile session. changePassword demo_ports demo_auth 5 6 demo_principal ''h'' ''twelve chars'' = (s1, Inr ())
    \<and> open_session demo_ports s1 7 (3, ''u'') 8 demo_account demo_session_context = (s2, Inr (profile, session))
    \<and> (\<exists>t\<in>set (asTokens s2). rtUserId t = 4 \<and> live t)"
proof -
  obtain s1 where c: "changePassword demo_ports demo_auth 5 6 demo_principal ''h'' ''twelve chars'' = (s1, Inr ())"
    using demo_change by blast
  have t: "asTokens s1 = [mark_revoked 6 BY_LOGOUT (demo_refresh 2 ''t'' None)] \<or> asTokens s1 = [demo_refresh 2 ''t'' None]"
    using c by (rule changePassword_Inr) (simp add: demo_auth_def revokeAllForUser_def)
  obtain s2 profile session where l: "open_session demo_ports s1 7 (3, ''u'') 8 demo_account demo_session_context = (s2, Inr (profile, session))"
    using t by (auto simp: open_session_def issueSession_def issueInFamily_def Let_def demo_ports_def demo_env_def
        demo_refresh_def mark_revoked_def)
  have "normalizeEmail ''a@b'' = ''a@b''" by code_simp
  then have v: "login_verified demo_ports demo_auth ''a@b'' ''h'' demo_account" "ppId demo_principal = usId demo_account"
    by (simp_all add: login_verified_def findUserByEmail_def demo_auth_def demo_account_def verify_password_def
        demo_ports_def isActiveUser_def demo_principal_def)
  have n: "\<not> verify_password (apHasher demo_ports) (pwHash (apHasher demo_ports) ''twelve chars'') ''h''"
    by (simp add: verify_password_def demo_ports_def)
  show ?thesis
    using sign_in_outlives_password_change [OF v c l n] c l by (auto simp: demo_account_def)
qed

lemma correlation_ids_are_harmless_witness:
  "\<exists>i st. getCorrelationId ''0a1b'' [''web-7 <b>''] None = (i, st) \<and> length i \<le> 128"
proof -
  obtain i st where g: "getCorrelationId ''0a1b'' [''web-7 <b>''] None = (i, st)" by fastforce
  have "i = ''0a1b'' \<or> length i \<le> 128" using correlation_ids_are_harmless [OF g, of "''x''" "[]"] by auto
  then have "length i \<le> 128" by auto
  with g show ?thesis by blast
qed

lemma provisioned_account_is_admin_witness:
  "\<exists>i s'. provisionAdmin (apHasher demo_ports) no_users (1, 2) 5 ''Root@x.example'' ''twelve chars'' = Inr (i, True, s')
    \<and> (\<exists>u. findUserByEmail (usUsers s') ''Root@x.example'' = Some u \<and> usRole u = ROLE_ADMIN)"
proof -
  obtain i c s' where p: "provisionAdmin (apHasher demo_ports) no_users (1, 2) 5 ''Root@x.example'' ''twelve chars'' = Inr (i, c, s')"
    by (auto simp: provisionAdmin_def findUserByEmail_def no_users_def hash_password_def assertMeetsPolicy_def createUser_def
        promote_def update_user_def findUser_def new_user_def Let_def)
  have "findUserByEmail (usUsers no_users) ''Root@x.example'' = None" by (simp add: findUserByEmail_def no_users_def)
  then have "c" "\<exists>u. findUserByEmail (usUsers s') ''Root@x.example'' = Some u \<and> usRole u = ROLE_ADMIN"
    using provisioned_account_is_admin [OF p, where ?ids2.0 = "(3, 4)" and ?now2.0 = 6 and ?password2.0 = "[]"] by blast+
  with p show ?thesis by auto
qed

end
