(* ===== verification/Spec2Isabelle.thy ===== *)
theory Spec2Isabelle
  imports PayoutProps Fraud ClickProps Users PostbackProps ConversionRuns Invalidation AdminConfigProps AdminProps
    Sweeps Edge Pipeline Reload TestDatabase WebRequest WebSessionProps WebOverlap WebPageProps EndpointProps
begin

text \<open>
  GemOne is an offer wall. Providers deliver a catalog of offers; a signed-in user clicks an offer
  and leaves for the provider; the provider reports the completed offer with a postback; the
  conversion that follows credits points to the user's balance; a withdrawal turns points into
  money. The program is a monorepo: \<^verbatim>\<open>apps/api\<close> (NestJS, PostgreSQL through Prisma, Redis
  and BullMQ; the same code runs as the worker), \<^verbatim>\<open>apps/web\<close> (SvelteKit, which holds the
  browser's session and calls the API for it) and \<^verbatim>\<open>packages/contracts\<close> (the types and rules
  both share). This development models the API's services, the jobs, the contracts' rules and the
  web server's session and routing, and proves what makes them correct.

  \<^bold>\<open>How code becomes definitions.\<close> A database table is a list of records in insertion order, one
  field per column the code reads or writes; an id is a \<open>nat\<close>, a time an \<open>int\<close> of milliseconds,
  a string a list of Latin-1 characters, a JavaScript number an \<open>int\<close> where the code keeps it
  integral and a \<open>rat\<close> (rounded as a double by \<open>Numbers\<close>) where it does not. A service method
  takes the tables it touches, the ids, the clock and the configuration values it would draw, and
  returns the new tables or an error: \<open>'a result\<close> is \<open>app_error + 'a\<close>, the error with its code
  and HTTP status. A unique constraint, a 32-bit column out of range and an update of a missing row
  are errors as well (\<open>UniqueViolation\<close>, \<open>OutOfRange\<close>, \<open>RecordMissing\<close>). Statements inside one
  database transaction are one function that gives all or nothing and runs as one step, which is what
  the code's row locks provide; where the code reads before a transaction and writes in it, the two
  are separate definitions, so that what runs in between can be put there. Where a check inside a
  transaction precedes its lock, what can go wrong is a theorem of its own: two chargebacks of one
  credit (\<open>RewardProps.concurrent_reversals_both_commit\<close>), two first writes of a setting
  (\<open>AdminConfigProps.first_writes_overwrite\<close>), two rotations of one token
  (\<open>TokenProps.overlapping_rotations_fork\<close>, \<open>WebOverlap\<close>). Runs made of whole operations, in
  \<open>Rewards\<close>, \<open>Conversions\<close> and \<open>Platform\<close> for the first of these, leave that overlap out. A component whose operations run in any order is a step function over a datatype of
  operations, with an invariant over all runs (\<open>guarded_system\<close> in \<open>Prelude\<close>).

  Code that is not in the repository is an argument: HMAC and SHA-256, argon2, the JWT library,
  Redis' replies, the queue's acceptance of a job, the text layer of JSON, the SQL collation, what
  Express writes into a cookie. Where a theorem relies on documented behaviour of such code it says
  so in a hypothesis (\<open>cookie_header_ok\<close>, \<open>codec_ok\<close>, a signature of the right length), and its
  witness instantiates it. The URL parser's path resolution, percent encoding, \<open>trim\<close>,
  \<open>toLowerCase\<close>, \<open>isIP\<close> and double rounding belong to the language's library and are modelled.

  \<^bold>\<open>Theories.\<close>

  \<^item> \<open>Prelude\<close>, \<open>Numbers\<close>, \<open>JsNumber\<close>, \<open>UriText\<close>: error codes (\<^verbatim>\<open>contracts/src/errors.ts\<close>,
    \<^verbatim>\<open>core/errors/app-error.ts\<close>), strings and JSON, tables and their queries, the shared locales
    (a guarded operation system, a running total over a history, a mark set at most once);
    round-half-even doubles, the numbers JavaScript reads from a text, and percent encoding.
  \<^item> \<open>Rewards\<close>, \<open>RewardHistory\<close>, \<open>RewardProps\<close>: \<^verbatim>\<open>modules/rewards\<close>. A ledger of
    append-only rows and one balance row per user; \<open>credit\<close>, \<open>reverseCredit\<close>, \<open>mature\<close>,
    \<open>lockPoints\<close>, \<open>resolveLock\<close>, \<open>debit\<close>, \<open>reconcile\<close> and the queries. Balances are the replay of the
    rows, points are conserved, each row is acted upon once.
  \<^item> \<open>Payouts\<close>, \<open>PayoutProps\<close>: \<^verbatim>\<open>modules/payouts\<close>. Requests, their state machine and the
    points they lock; locked points are exactly those of open requests.
  \<^item> \<open>Fraud\<close>: \<^verbatim>\<open>modules/fraud\<close>, the rules, the engine and the score.
  \<^item> \<open>IpRange\<close>, \<open>Providers\<close>, \<open>Reload\<close>, \<open>MockAdapter\<close>: \<^verbatim>\<open>modules/providers\<close>. Address ranges, slugs,
    adapter validation, the registry and its serialised reloads, health, and the mock adapter with its
    signature.
  \<^item> \<open>Offers\<close>, \<open>OfferProps\<close>, \<open>CatalogSync\<close>, \<open>SyncProps\<close>: \<^verbatim>\<open>modules/offers\<close>. Mapping,
    upsert, the wall, and a synchronisation run with its counters and its prune guard.
  \<^item> \<open>Clicks\<close>, \<open>ClickProps\<close>: \<^verbatim>\<open>modules/clicks\<close>. Signed sub ids, creation under rate limits,
    resolution.
  \<^item> \<open>Users\<close>, \<open>Tokens\<close>, \<open>TokenProps\<close>, \<open>AuthFlows\<close>, \<open>AuthProps\<close>, \<open>AuthController\<close>:
    \<^verbatim>\<open>modules/users\<close> and \<^verbatim>\<open>modules/auth\<close>. Accounts, refresh-token rotation, links,
    login and its throttles, the guards, the endpoints and the refresh cookie.
  \<^item> \<open>Postbacks\<close>, \<open>PostbackProps\<close>: \<^verbatim>\<open>conversions/postback-intake.service.ts\<close>.
    \<open>Conversions\<close>, \<open>ConversionProps\<close>, \<open>ConversionRuns\<close>: \<^verbatim>\<open>conversions.service.ts\<close>. From a
    postback to a conversion and its credit; intake, worker, review and ledger as one system.
  \<^item> \<open>RewardStanding\<close>, \<open>Platform\<close>, \<open>Holds\<close>, \<open>Pipeline\<close>: conversions and payouts on
    their one ledger. Nobody spends more than was credited; what an account holds is what its standing
    conversions earned less what was paid out; every held conversion can be resolved; every accepted
    postback is settled by its job.
  \<^item> \<open>ConfigKeys\<close>, \<open>Configuration\<close>, \<open>ConfigProps\<close>, \<open>Invalidation\<close>: \<^verbatim>\<open>core/config\<close> and
    \<^verbatim>\<open>core/events\<close>. Key schemas, resolution and cache, broadcast of invalidations.
  \<^item> \<open>AdminAudit\<close>, \<open>AdminConfig\<close>, \<open>AdminConfigProps\<close>, \<open>AdminActions\<close>, \<open>AdminProps\<close>:
    \<^verbatim>\<open>modules/admin\<close>. The audit log, configuration changes and the admins' actions on users,
    payouts, holds, providers and the catalog; reviews of payouts are split where they read without a lock.
  \<^item> \<open>Sweeps\<close>, \<open>Edge\<close>: \<^verbatim>\<open>jobs\<close> (maturation, reconciliation, catalog, emails) and the edge
    of the API (exception filter, validation errors).
  \<^item> \<open>Environment\<close>, \<open>Requests\<close>, \<open>RequestProps\<close>, \<open>Routes\<close>, \<open>Endpoints\<close>, \<open>EndpointProps\<close>: the
    entrance of the API. The environment's schema and its production rules with the choice of the
    email provider (\<^verbatim>\<open>core/config/env.schema.ts\<close>, \<^verbatim>\<open>modules/notifications\<close>); every request DTO as
    a list of rules with the whitelisting \<open>validate\<close>; the table of routes with the guards each one
    passes; the users', postbacks' and health endpoints, correlation ids and worker heartbeats.
  \<^item> \<open>TestDatabase\<close>: \<^verbatim>\<open>core/database/test-database.ts\<close>, which database the integration suite may
    touch.
  \<^item> \<open>WebUrl\<close>, \<open>WebSession\<close>, \<open>WebSessionProps\<close>, \<open>WebOverlap\<close>, \<open>WebRequest\<close>: \<^verbatim>\<open>apps/web\<close>. Paths,
    proxy, redirects, the session cookie, the calls that renew it and the headers they send, composed
    with \<open>AuthController\<close>; \<open>WebOverlap\<close> runs the calls of one page in every interleaving of their steps.
  \<^item> \<open>WebViews\<close>, \<open>WebForms\<close>, \<open>WebFormProps\<close>, \<open>WebContract\<close>: the same application's view
    functions (amounts, dates, states and the actions offered) and the form actions, each from the
    fields of a form to the call it makes or the refusal it shows; \<open>WebContract\<close> passes the bodies
    the forms send through the API's own request rules.
  \<^item> \<open>WebPages\<close>, \<open>WebPageProps\<close>: the pages' loads (the query each list page sends and what it makes of
    the answer), the pager, the tabs and the links the components render.

  \<^bold>\<open>Interfaces.\<close> The locales are the contracts between components. \<open>guarded_system\<close>: every
  operation keeps an invariant, so every run has it (interpreted by the ledger, payouts, users, the
  catalog, postbacks, conversions, configuration, and the audited admin systems). \<open>running_total\<close>: a
  balance column is the sum of the history (once per column). \<open>acts_once\<close>: a kind of row points at
  another at most once (chargebacks, maturations, resolutions). \<open>lock_store\<close>: what payouts need of the
  store that reserves points, provided by the ledger.

  \<^bold>\<open>Loops, bounds and fuel.\<close> No definition uses fuel. Every loop is a structural recursion over the rows
  or candidates it visits, except the chain of reconciliation pages, which terminates because each
  page leaves fewer accounts behind the one it continues from. Integer columns are checked against
  their 32 bits; points and cash are computed on doubles where the code does.

  \<^bold>\<open>What is not modelled.\<close> The Svelte components' markup (over the view functions); module wiring and the decorators other than those of routes,
  guards and DTOs; logging; the database client's life cycle; the queues' connections and the
  schedulers' timing; the transport that sends an email; development scripts, the infrastructure
  and the tests. Messages are kept up to their first dash where the source has one outside Latin-1.
  A stored query keeps its parameters in order: a parameter named \<open>__proto__\<close>, the order in which
  PostgreSQL gives JSON keys back, and its refusal of NUL characters are left out.
  \<^verbatim>\<open>PROJECT.json\<close> lists them component by component.
\<close>

end
